(* ===== verification/Prelude.thy ===== *)
theory Prelude
  imports Main "HOL-Library.AList" "HOL-Library.Char_ord" "HOL-Library.List_Lexorder" "HOL-Library.Product_Lexorder"
begin

section \<open>Prelude: exceptions, Python strings and JSON values\<close>

text \<open>
  What every component of the development shares.
  \<^item> Exceptions. A Python exception is \<open>Exc c m\<close>, its class \<open>c\<close> and its message \<open>m\<close>; a
    fallible function returns \<open>exc + 'a\<close>, \<open>Inl\<close> for a raise. A validator of the source is
    a sequence of tests, each of which raises: it becomes a list of steps run by \<open>steps\<close>,
    and the first step that raises is the result.
  \<^item> Strings. A \<^typ>\<open>string\<close> stands for a Python \<open>str\<close> whose code points are below 256
    (Latin-1). \<open>strip\<close>, \<open>isdigit\<close>, \<open>\s\<close> and \<open>\d\<close> of Python are written out for this range.
    Comparison is by code point, as in Python.
  \<^item> JSON. \<^term>\<open>json\<close> values are what \<open>json.loads\<close> returns; an object is its list of
    key and value pairs, without repeated keys.
\<close>

named_theorems validator_simps \<open>when a validator accepts\<close>

subsection \<open>Exceptions and validators\<close>

datatype exc_class =
    ValueError | TypeError | KeyError | AttributeError | OSError | RecursionError | AssertionError
  | PlanValidationError | RoadmapValidationError | SchedulerValidationError
  | SelectionValidationError | SafetyGateError | SchedulerRecoveryError | SchedulerLoopError
  | SchedulerStoreError | SchedulerCommandError | SchedulerJournalError
  | RiskValidationError | RiskEngineError | MergeValidationError
  | ReviewGateError | CapabilityProfileError | CapabilitySelectionError
  | CapabilityInvalidationError | SessionStoreError | RemoteIdentityError
  | CampaignRunnerError | LockError | LearningEvidenceError | LearningProposalError | LearningSummaryError | ObjectiveValidationError
  | SessionManagerError | ResilienceError | ProjectRegistryError | AuthorityGenerationError | OwnerAuthorityError
  | ConstitutionVerificationError | AuthorityContextError | PolicyStateError | PolicyActivationError
  | OwnerControllerError | SqliteError | GitDeliveryError | DeliveryReconciliationError | ExternalAdvancementError | ObservedMergeError
  | CalledProcessError

datatype exc = Exc (exc_kind: exc_class) (exc_msg: string)

type_synonym 'a res = "exc + 'a"

text \<open>The classes declared as subclasses of \<open>ValueError\<close>; the others of this development
  that the code declares derive from \<open>RuntimeError\<close>.\<close>

fun is_value_error :: "exc_class \<Rightarrow> bool" where
  "is_value_error c = (c \<in> {ValueError, PlanValidationError, RoadmapValidationError,
     SchedulerValidationError, SelectionValidationError, SafetyGateError,
     SchedulerRecoveryError, RiskValidationError, RiskEngineError, MergeValidationError,
     ReviewGateError, CapabilityProfileError, CapabilitySelectionError,
     CapabilityInvalidationError, RemoteIdentityError, LearningEvidenceError,
     LearningProposalError, LearningSummaryError, ObjectiveValidationError, AuthorityGenerationError, OwnerAuthorityError,
     DeliveryReconciliationError, ExternalAdvancementError, ObservedMergeError})"

definition raise :: "exc_class \<Rightarrow> string \<Rightarrow> 'a res" where
  "raise c m = Inl (Exc c m)"

definition raise_if :: "bool \<Rightarrow> exc_class \<Rightarrow> string \<Rightarrow> unit res" where
  "raise_if b c m = (if b then Inl (Exc c m) else Inr ())"

fun steps :: "unit res list \<Rightarrow> unit res" where
  "steps [] = Inr ()"
| "steps (r # rs) = (case r of Inl e \<Rightarrow> Inl e | Inr _ \<Rightarrow> steps rs)"

fun for_each :: "('a \<Rightarrow> unit res) \<Rightarrow> 'a list \<Rightarrow> unit res" where
  "for_each f [] = Inr ()"
| "for_each f (x # xs) = (case f x of Inl e \<Rightarrow> Inl e | Inr _ \<Rightarrow> for_each f xs)"

definition and_then :: "'a res \<Rightarrow> ('a \<Rightarrow> 'b res) \<Rightarrow> 'b res" where
  "and_then r f = (case r of Inl e \<Rightarrow> Inl e | Inr x \<Rightarrow> f x)"

text \<open>\<open>try ... except handled: raise c(m + str(exc))\<close>: only exceptions of the handled
  classes are turned into the new one.\<close>

definition rethrow :: "(exc_class \<Rightarrow> bool) \<Rightarrow> exc_class \<Rightarrow> string \<Rightarrow> 'a res \<Rightarrow> 'a res" where
  "rethrow handled c m r = (case r of
     Inl (Exc k t) \<Rightarrow> if handled k then Inl (Exc c (m @ t)) else Inl (Exc k t)
   | Inr x \<Rightarrow> Inr x)"

text \<open>The same with a message that does not mention the old one\<close>

definition replace_exc :: "(exc_class \<Rightarrow> bool) \<Rightarrow> exc_class \<Rightarrow> string \<Rightarrow> 'a res \<Rightarrow> 'a res" where
  "replace_exc handled c m r = (case r of
     Inl (Exc k t) \<Rightarrow> if handled k then Inl (Exc c m) else Inl (Exc k t)
   | Inr x \<Rightarrow> Inr x)"

text \<open>A list comprehension whose body may raise\<close>

fun map_res :: "('a \<Rightarrow> 'b res) \<Rightarrow> 'a list \<Rightarrow> 'b list res" where
  "map_res f [] = Inr []"
| "map_res f (x # xs) = and_then (f x) (\<lambda>y. and_then (map_res f xs) (\<lambda>ys. Inr (y # ys)))"

definition is_ok :: "'a res \<Rightarrow> bool" where
  "is_ok r = (case r of Inl _ \<Rightarrow> False | Inr _ \<Rightarrow> True)"

lemma raise_if_ok [simp, validator_simps]: "raise_if b c m = Inr u \<longleftrightarrow> \<not> b"
  by (simp add: raise_if_def)

lemma raise_not_ok [simp, validator_simps]: "raise c m = Inr x \<longleftrightarrow> False"
  by (simp add: raise_def)

lemma steps_ok [validator_simps]: "steps rs = Inr u \<longleftrightarrow> list_all (\<lambda>r. r = Inr ()) rs"
  by (induction rs) (auto split: sum.splits)

lemma for_each_ok [validator_simps]: "for_each f xs = Inr u \<longleftrightarrow> (\<forall>x\<in>set xs. f x = Inr ())"
  by (induction xs) (auto split: sum.splits)

lemma and_then_ok [validator_simps]:
  "and_then r f = Inr y \<longleftrightarrow> (\<exists>x. r = Inr x \<and> f x = Inr y)"
  by (simp add: and_then_def split: sum.splits)

lemma and_then_simps [simp]:
  "and_then (Inl e) f = Inl e" "and_then (Inr x) f = f x"
  by (simp_all add: and_then_def)

lemma map_res_map: "(\<And>x. x \<in> set xs \<Longrightarrow> f (g x) = Inr x) \<Longrightarrow> map_res f (map g xs) = Inr xs"
  by (induction xs) auto

lemma map_res_all:
  "map_res f xs = Inr ys \<Longrightarrow> (\<And>x y. f x = Inr y \<Longrightarrow> P y) \<Longrightarrow> list_all P ys"
  by (induction xs arbitrary: ys) (auto simp: and_then_ok)

lemma rethrow_ok [simp]: "rethrow h c m r = Inr x \<longleftrightarrow> r = Inr x"
  by (auto simp: rethrow_def split: sum.splits exc.splits if_splits)

lemma replace_exc_ok [simp]: "replace_exc h c m r = Inr x \<longleftrightarrow> r = Inr x"
  by (auto simp: replace_exc_def split: sum.splits exc.splits if_splits)

lemma replace_exc_Inr [simp]: "replace_exc h c m (Inr x) = Inr x"
  by (simp add: replace_exc_def)

lemma rethrow_Inr [simp]: "rethrow h c m (Inr x) = Inr x"
  by (simp add: rethrow_def)

declare steps.simps [simp del] for_each.simps [simp del]

lemma is_ok_simps [simp]: "is_ok (Inl e) = False" "is_ok (Inr x) = True"
  by (simp_all add: is_ok_def)

lemma length_remdups_distinct [simp]: "length xs = length (remdups xs) \<longleftrightarrow> distinct xs"
  by (metis length_remdups_eq remdups_id_iff_distinct)

lemma sort_key_empty: "sort_key f xs = [] \<longleftrightarrow> xs = []"
  by (metis length_0_conv length_sort)

lemma is_ok_iff: "is_ok r \<longleftrightarrow> (\<exists>x. r = Inr x)"
  by (simp add: is_ok_def split: sum.splits)

lemma steps_append: "steps (rs @ ss) = (case steps rs of Inl e \<Rightarrow> Inl e | Inr _ \<Rightarrow> steps ss)"
  by (induction rs) (auto simp: steps.simps split: sum.splits)

lemma for_each_Inl:
  "for_each f xs = Inl e \<Longrightarrow> \<exists>x\<in>set xs. f x = Inl e"
  by (induction xs) (auto simp: for_each.simps split: sum.splits)


text \<open>A result raises only exceptions of the classes \<open>K\<close>.\<close>

definition raises_only :: "exc_class set \<Rightarrow> 'a res \<Rightarrow> bool" where
  "raises_only K r \<longleftrightarrow> (case r of Inl e \<Rightarrow> exc_kind e \<in> K | Inr _ \<Rightarrow> True)"

lemma raises_only_simps [simp]:
  "raises_only K (Inl e) \<longleftrightarrow> exc_kind e \<in> K" "raises_only K (Inr x)"
  "raises_only K (raise c m) \<longleftrightarrow> c \<in> K" "raises_only K (raise_if b c m) \<longleftrightarrow> \<not> b \<or> c \<in> K"
  by (simp_all add: raises_only_def raise_def raise_if_def)

lemma raises_only_steps: "list_all (raises_only K) rs \<Longrightarrow> raises_only K (steps rs)"
  by (induction rs) (auto simp: steps.simps split: sum.splits)

lemma raises_only_and_then:
  "raises_only K r \<Longrightarrow> (\<And>x. r = Inr x \<Longrightarrow> raises_only K (f x)) \<Longrightarrow> raises_only K (and_then r f)"
  by (cases r) auto

lemma raises_only_mono: "raises_only K r \<Longrightarrow> K \<subseteq> L \<Longrightarrow> raises_only L r"
  by (auto simp: raises_only_def split: sum.splits)

lemma raises_onlyD: "raises_only K r \<Longrightarrow> r = Inl e \<Longrightarrow> exc_kind e \<in> K"
  by simp

subsection \<open>Python strings\<close>

text \<open>\<open>str.isspace\<close> below 256: tab to carriage return, the four information separators,
  space, NEL and no-break space. It is also what \<open>strip()\<close> removes and what \<open>\s\<close> matches.\<close>

definition py_space :: "char \<Rightarrow> bool" where
  "py_space c = (let n = (of_char c :: nat) in
     (9 \<le> n \<and> n \<le> 13) \<or> (28 \<le> n \<and> n \<le> 32) \<or> n = 133 \<or> n = 160)"

definition py_strip :: "string \<Rightarrow> string" where
  "py_strip s = rev (dropWhile py_space (rev (dropWhile py_space s)))"

text \<open>\<open>not value.strip()\<close>\<close>

definition blank :: "string \<Rightarrow> bool" where
  "blank s = list_all py_space s"

definition is_digit :: "char \<Rightarrow> bool" where
  "is_digit c = (let n = (of_char c :: nat) in 48 \<le> n \<and> n \<le> 57)"

text \<open>\<open>str.isdigit()\<close> also holds of the superscripts one, two and three.\<close>

definition isdigit_char :: "char \<Rightarrow> bool" where
  "isdigit_char c = (is_digit c \<or> (of_char c :: nat) \<in> {178, 179, 185})"

definition py_isdigit :: "string \<Rightarrow> bool" where
  "py_isdigit s = (s \<noteq> [] \<and> list_all isdigit_char s)"

definition is_lower_alnum :: "char \<Rightarrow> bool" where
  "is_lower_alnum c = (is_digit c \<or> (let n = (of_char c :: nat) in 97 \<le> n \<and> n \<le> 122))"

definition is_hex :: "char \<Rightarrow> bool" where
  "is_hex c = (is_digit c \<or> (let n = (of_char c :: nat) in 97 \<le> n \<and> n \<le> 102))"

definition ascii_lower :: "char \<Rightarrow> char" where
  "ascii_lower c = (let n = (of_char c :: nat) in if 65 \<le> n \<and> n \<le> 90 then char_of (n + 32) else c)"

definition starts_with :: "string \<Rightarrow> string \<Rightarrow> bool" where
  "starts_with p s = (take (length p) s = p)"

definition ends_with :: "string \<Rightarrow> string \<Rightarrow> bool" where
  "ends_with p s = starts_with (rev p) (rev s)"

text \<open>\<open>s.split(c)\<close> for a separator of one character\<close>

fun split_on :: "char \<Rightarrow> string \<Rightarrow> string list" where
  "split_on c [] = [[]]"
| "split_on c (x # xs) =
     (if x = c then [] # split_on c xs
      else (case split_on c xs of [] \<Rightarrow> [[x]] | w # ws \<Rightarrow> (x # w) # ws))"

fun join_on :: "char \<Rightarrow> string list \<Rightarrow> string" where
  "join_on c [] = []"
| "join_on c [w] = w"
| "join_on c (w # v # ws) = w @ c # join_on c (v # ws)"

text \<open>\<open>sep.join(ws)\<close>\<close>

fun join_str :: "string \<Rightarrow> string list \<Rightarrow> string" where
  "join_str sep [] = []"
| "join_str sep [w] = w"
| "join_str sep (w # v # ws) = w @ sep @ join_str sep (v # ws)"

text \<open>\<open>"stale" in str(exc)\<close>\<close>

fun contains_text :: "string \<Rightarrow> string \<Rightarrow> bool" where
  "contains_text p [] = (p = [])"
| "contains_text p (c # s) = (starts_with p (c # s) \<or> contains_text p s)"

text \<open>\<open>^<p>[a-z0-9][a-z0-9-]{0,79}$\<close> under \<open>fullmatch\<close>, for a literal prefix \<open>p\<close>\<close>

definition id_match :: "string \<Rightarrow> string \<Rightarrow> bool" where
  "id_match p s = (starts_with p s \<and>
     (case drop (length p) s of
        [] \<Rightarrow> False
      | c # cs \<Rightarrow> is_lower_alnum c \<and> length cs \<le> 79 \<and>
          list_all (\<lambda>x. is_lower_alnum x \<or> x = CHR ''-'') cs))"

text \<open>A pattern of one class per position, such as \<open>\d{4}-\d{2}\<close>\<close>

definition shape :: "(char \<Rightarrow> bool) list \<Rightarrow> string \<Rightarrow> bool" where
  "shape ps s = (length s = length ps \<and> list_all (\<lambda>(p, c). p c) (zip ps s))"

definition lit :: "char \<Rightarrow> char \<Rightarrow> bool" where
  "lit c x = (x = c)"

text \<open>\<open>^\d{4}-\d{2}-\d{2}T\d{2}:\d{2}:\d{2}Z$\<close>\<close>

definition timestamp_match :: "string \<Rightarrow> bool" where
  "timestamp_match = shape
     ([is_digit, is_digit, is_digit, is_digit, lit CHR ''-'', is_digit, is_digit,
       lit CHR ''-'', is_digit, is_digit, lit CHR ''T'', is_digit, is_digit, lit CHR '':'',
       is_digit, is_digit, lit CHR '':'', is_digit, is_digit, lit CHR ''Z''])"

text \<open>\<open>^[0-9a-f]{64}$\<close>\<close>

definition sha256_match :: "string \<Rightarrow> bool" where
  "sha256_match s = (length s = 64 \<and> list_all is_hex s)"

text \<open>\<open>(?i)(api[_-]?key|token|secret|password|authorization)\s*[:=]\<close> under \<open>search\<close>:
  somewhere a keyword, then white space, then a colon or an equals sign.\<close>

definition secret_words :: "string list" where
  "secret_words = [''api_key'', ''api-key'', ''apikey'', ''token'', ''secret'', ''password'',
     ''authorization'']"

definition secret_after :: "string list \<Rightarrow> string \<Rightarrow> bool" where
  "secret_after ws s = list_ex (\<lambda>w. map ascii_lower (take (length w) s) = w \<and>
     (case dropWhile py_space (drop (length w) s) of
        [] \<Rightarrow> False | c # _ \<Rightarrow> c = CHR '':'' \<or> c = CHR ''='')) ws"

fun secret_search_in :: "string list \<Rightarrow> string \<Rightarrow> bool" where
  "secret_search_in ws [] = False"
| "secret_search_in ws (c # cs) = (secret_after ws (c # cs) \<or> secret_search_in ws cs)"

definition secret_search :: "string \<Rightarrow> bool" where
  "secret_search s = secret_search_in secret_words s"

text \<open>The longer pattern of other modules: or, somewhere, one of the prefixes
  \<open>sk-|ghp_|github_pat_|xox[baprs]-|AIza\<close> in any case, then twelve characters of \<open>[A-Za-z0-9_-]\<close>\<close>

definition token_prefixes :: "string list" where
  "token_prefixes = [''sk-'', ''ghp_'', ''github_pat_'', ''xoxb-'', ''xoxa-'', ''xoxp-'', ''xoxr-'', ''xoxs-'', ''aiza'']"

definition token_char :: "char \<Rightarrow> bool" where
  "token_char c = (is_lower_alnum (ascii_lower c) \<or> c = CHR ''_'' \<or> c = CHR ''-'')"

definition token_after :: "string \<Rightarrow> bool" where
  "token_after s = list_ex (\<lambda>p. map ascii_lower (take (length p) s) = p \<and>
     12 \<le> length (takeWhile token_char (drop (length p) s))) token_prefixes"

fun token_search :: "string \<Rightarrow> bool" where
  "token_search [] = False"
| "token_search (c # cs) = (token_after (c # cs) \<or> token_search cs)"

definition secret_or_token :: "string \<Rightarrow> bool" where
  "secret_or_token s = (secret_search s \<or> token_search s)"

text \<open>Decimal text of an integer, and \<open>f"{n:06d}"\<close> for a natural number\<close>

fun show_nat :: "nat \<Rightarrow> string" where
  "show_nat n = (if n < 10 then [char_of (48 + n)] else show_nat (n div 10) @ [char_of (48 + n mod 10)])"

declare show_nat.simps [simp del]

definition show_int :: "int \<Rightarrow> string" where
  "show_int i = (if i < 0 then CHR ''-'' # show_nat (nat (- i)) else show_nat (nat i))"

definition show_pad6 :: "nat \<Rightarrow> string" where
  "show_pad6 n = (let s = show_nat n in replicate (6 - length s) (CHR ''0'') @ s)"

text \<open>\<open>int(s)\<close>: white space around, a sign, digit groups joined by single underscores, at
  most 4300 digits; \<open>None\<close> is the \<open>ValueError\<close>.\<close>

definition digits_value :: "string \<Rightarrow> nat" where
  "digits_value ds = foldl (\<lambda>n c. 10 * n + (of_char c - 48)) 0 ds"

definition py_int :: "string \<Rightarrow> int option" where
  "py_int s = (let t = py_strip s;
       neg = starts_with ''-'' t;
       u = (if neg \<or> starts_with ''+'' t then drop 1 t else t);
       gs = split_on (CHR ''_'') u
     in if list_all (\<lambda>g. g \<noteq> [] \<and> list_all is_digit g) gs \<and> length (concat gs) \<le> 4300
        then Some (if neg then - int (digits_value (concat gs)) else int (digits_value (concat gs)))
        else None)"


text \<open>\<open>repr(s)\<close>\<close>

definition hex_digit :: "nat \<Rightarrow> char" where
  "hex_digit n = (if n < 10 then char_of (48 + n) else char_of (87 + n))"

definition repr_char :: "char \<Rightarrow> char \<Rightarrow> string" where
  "repr_char q c = (let n = (of_char c :: nat) in
     if c = q \<or> n = 92 then [CHR 0x5C, c]
     else if n = 9 then [CHR 0x5C, CHR ''t'']
     else if n = 10 then [CHR 0x5C, CHR ''n'']
     else if n = 13 then [CHR 0x5C, CHR ''r'']
     else if n < 32 \<or> 127 \<le> n \<and> n \<le> 160 \<or> n = 173 then [CHR 0x5C, CHR ''x'', hex_digit (n div 16), hex_digit (n mod 16)]
     else [c])"

definition py_repr :: "string \<Rightarrow> string" where
  "py_repr s = (let q = (if CHR 0x27 \<in> set s \<and> CHR 0x22 \<notin> set s then CHR 0x22 else CHR 0x27) in
     q # concat (map (repr_char q) s) @ [q])"

subsection \<open>Dictionaries\<close>

text \<open>A dictionary whose order matters is the list of its items; setting a key keeps its place,
  as \<open>AList.update\<close> does.\<close>

abbreviation dict_set :: "'k \<Rightarrow> 'v \<Rightarrow> ('k \<times> 'v) list \<Rightarrow> ('k \<times> 'v) list" where
  "dict_set \<equiv> AList.update"

lemma dict_set_new: "k \<notin> fst ` set d \<Longrightarrow> dict_set k v d = d @ [(k, v)]"
  by (induction d) auto

subsection \<open>Facts about strings\<close>

lemma dropWhile_rev_Nil: "dropWhile P xs = [] \<longleftrightarrow> list_all P xs"
  by (simp add: dropWhile_eq_Nil_conv list_all_iff)

lemma strip_Nil_iff: "py_strip s = [] \<longleftrightarrow> blank s"
proof -
  have "py_strip s = [] \<longleftrightarrow> list_all py_space (dropWhile py_space s)"
    by (simp add: py_strip_def dropWhile_rev_Nil list_all_iff)
  also have "\<dots> \<longleftrightarrow> list_all py_space s"
    by (induction s) auto
  finally show ?thesis by (simp add: blank_def)
qed

lemma blank_Nil [simp]: "blank []"
  by (simp add: blank_def)

lemma not_blank_not_Nil: "\<not> blank s \<Longrightarrow> s \<noteq> []"
  by auto

lemma starts_with_iff: "starts_with p s \<longleftrightarrow> (\<exists>t. s = p @ t)"
  by (metis append_eq_conv_conj append_take_drop_id starts_with_def)

lemma starts_with_append [simp]: "starts_with p (p @ t)"
  by (simp add: starts_with_def)

lemma starts_with_Nil [simp]: "starts_with [] s"
  by (simp add: starts_with_def)

lemma starts_with_trans: "starts_with p q \<Longrightarrow> starts_with q s \<Longrightarrow> starts_with p s"
  by (auto simp: starts_with_iff)

lemma ends_with_iff: "ends_with p s \<longleftrightarrow> (\<exists>t. s = t @ p)"
  unfolding ends_with_def starts_with_iff by (metis rev_append rev_rev_ident)

lemma split_on_not_Nil [simp]: "split_on c s \<noteq> []"
  by (induction s) (auto split: list.splits)

lemma join_on_Cons_sep: "ws \<noteq> [] \<Longrightarrow> join_on c (w # ws) = w @ c # join_on c ws"
  by (cases ws) auto

lemma join_on_Cons_char: "join_on c ((x # w) # ws) = x # join_on c (w # ws)"
  by (cases ws) auto

lemma join_split [simp]: "join_on c (split_on c s) = s"
proof (induction s)
  case (Cons x xs)
  then show ?case
    by (cases "split_on c xs") (simp_all add: join_on_Cons_sep join_on_Cons_char)
qed simp

lemma join_on_append:
  "xs \<noteq> [] \<Longrightarrow> ys \<noteq> [] \<Longrightarrow> join_on c (xs @ ys) = join_on c xs @ c # join_on c ys"
proof (induction xs)
  case (Cons x xs)
  then show ?case by (cases xs) (simp_all add: join_on_Cons_sep)
qed simp

lemma split_on_no_sep: "w \<in> set (split_on c s) \<Longrightarrow> c \<notin> set w"
proof (induction s arbitrary: w)
  case (Cons x xs)
  then show ?case
    by (cases "split_on c xs") (auto split: if_splits)
qed simp

lemma split_on_append_sep: "split_on c (a @ c # b) = split_on c a @ split_on c b"
  by (induction a) (auto split: list.splits)

lemma split_on_inj: "split_on c a = split_on c b \<Longrightarrow> a = b"
  by (metis join_split)

lemma split_on_plain: "c \<notin> set a \<Longrightarrow> split_on c a = [a]"
  by (induction a) auto

lemma id_match_nonempty: "id_match p s \<Longrightarrow> s \<noteq> []"
  by (auto simp: id_match_def split: list.splits)

text \<open>A text without colon or equals sign adds no match of the secret pattern.\<close>

definition secret_sep :: "char \<Rightarrow> bool" where
  "secret_sep c = (c = CHR '':'' \<or> c = CHR ''='')"

lemma secret_after_append:
  assumes "list_all (\<lambda>c. \<not> secret_sep c) t"
  shows "secret_after ws (s @ t) = secret_after ws s"
proof -
  have sep: "(case dropWhile py_space u of [] \<Rightarrow> False | c # _ \<Rightarrow> c = CHR '':'' \<or> c = CHR ''='') = False"
    if "list_all (\<lambda>c. \<not> secret_sep c) u" for u
    using that by (induction u) (auto simp: secret_sep_def)
  have "(map ascii_lower (take (length w) (s @ t)) = w \<and>
      (case dropWhile py_space (drop (length w) (s @ t)) of [] \<Rightarrow> False | c # _ \<Rightarrow> c = CHR '':'' \<or> c = CHR ''='')) =
    (map ascii_lower (take (length w) s) = w \<and>
      (case dropWhile py_space (drop (length w) s) of [] \<Rightarrow> False | c # _ \<Rightarrow> c = CHR '':'' \<or> c = CHR ''=''))" for w
  proof (cases "length w \<le> length s")
    case True
    have "(case dropWhile py_space (u @ t) of [] \<Rightarrow> False | c # _ \<Rightarrow> c = CHR '':'' \<or> c = CHR ''='') =
      (case dropWhile py_space u of [] \<Rightarrow> False | c # _ \<Rightarrow> c = CHR '':'' \<or> c = CHR ''='')" for u
      using sep [OF assms] by (induction u) auto
    with True show ?thesis by simp
  next
    case False
    then have "list_all (\<lambda>c. \<not> secret_sep c) (drop (length w) (s @ t))"
      using assms by (auto simp: list_all_iff dest: in_set_dropD)
    moreover have "map ascii_lower (take (length w) s) \<noteq> w"
      using False by (metis length_map length_take min_def nat_le_linear)
    ultimately show ?thesis using sep by simp
  qed
  then show ?thesis by (simp add: secret_after_def)
qed

lemma secret_search_append:
  assumes "list_all (\<lambda>c. \<not> secret_sep c) t"
  shows "secret_search (s @ t) = secret_search s"
proof -
  have "\<not> secret_search_in ws t" for ws
    using assms
  proof (induction t)
    case (Cons c t)
    then have "secret_after ws ([] @ (c # t)) = secret_after ws []" by (intro secret_after_append) simp
    then have "\<not> secret_after ws (c # t)" by (simp add: secret_after_def list_ex_iff)
    then show ?case using Cons by simp
  qed simp
  then have "secret_search_in ws (s @ t) = secret_search_in ws s" for ws
  proof (induction s)
    case (Cons c s)
    then show ?case using secret_after_append [OF assms, of ws "c # s"] by simp
  qed simp
  then show ?thesis by (simp add: secret_search_def)
qed

lemma no_secret: "list_all (\<lambda>c. \<not> secret_sep c) t \<Longrightarrow> \<not> secret_search t"
  using secret_search_append [of t "[]"] by (simp add: secret_search_def)

text \<open>For evaluation: look for the separators first.\<close>

lemma secret_search_code [code]:
  "secret_search s = (if list_all (\<lambda>c. \<not> secret_sep c) s then False else secret_search_in secret_words s)"
  using no_secret by (simp add: secret_search_def)

lemma of_char_digit: "d < 10 \<Longrightarrow> (of_char (char_of (48 + d) :: char) :: nat) = 48 + d"
  by simp

lemma show_nat_digits: "list_all is_digit (show_nat n)"
proof (induction n rule: show_nat.induct)
  case (1 n)
  show ?case
  proof (cases "n < 10")
    case True
    then show ?thesis by (subst show_nat.simps) (simp add: is_digit_def Let_def)
  next
    case False
    have "is_digit (char_of (48 + n mod 10))" by (simp add: is_digit_def Let_def)
    with False 1 show ?thesis by (subst show_nat.simps) simp
  qed
qed

lemma digit_no_sep: "is_digit c \<Longrightarrow> \<not> secret_sep c"
  by (auto simp: is_digit_def secret_sep_def Let_def)

lemma digits_value_snoc: "digits_value (ds @ [c]) = 10 * digits_value ds + (of_char c - 48)"
  by (simp add: digits_value_def)

lemma digits_value_show: "digits_value (show_nat n) = n"
proof (induction n rule: show_nat.induct)
  case (1 n)
  show ?case
  proof (cases "n < 10")
    case True
    then show ?thesis by (subst show_nat.simps) (simp add: digits_value_def)
  next
    case False
    then have "show_nat n = show_nat (n div 10) @ [char_of (48 + n mod 10)]" by (simp add: show_nat.simps [of n])
    with 1 False show ?thesis by (simp add: digits_value_snoc)
  qed
qed

lemma show_nat_Cons:
  "\<exists>c cs. show_nat n = c # cs \<and> is_digit c \<and> (c = CHR ''0'' \<longrightarrow> n = 0 \<and> cs = [])"
proof (induction n rule: show_nat.induct)
  case (1 n)
  show ?case
  proof (cases "n < 10")
    case True
    have "(char_of (48 + n) :: char) = CHR ''0'' \<longleftrightarrow> (of_char (char_of (48 + n) :: char) :: nat) = of_char (CHR ''0'')"
      by (metis char_of_char)
    then have "(char_of (48 + n) :: char) = CHR ''0'' \<longleftrightarrow> n = 0" using True by simp
    moreover have "is_digit (char_of (48 + n))" using True by (simp add: is_digit_def)
    ultimately show ?thesis using True by (simp add: show_nat.simps [of n])
  next
    case False
    then have "show_nat n = show_nat (n div 10) @ [char_of (48 + n mod 10)]" by (simp add: show_nat.simps [of n])
    with 1 False show ?thesis by auto
  qed
qed

lemma show_nat_no_sep: "list_all (\<lambda>c. \<not> secret_sep c) (show_nat n)"
  using show_nat_digits [of n] by (auto simp: list_all_iff digit_no_sep)

lemma show_int_no_sep: "list_all (\<lambda>c. \<not> secret_sep c) (show_int n)"
  by (simp add: show_int_def show_nat_no_sep) (simp add: secret_sep_def)

lemma length_show_nat: "n < 10 ^ Suc k \<Longrightarrow> length (show_nat n) \<le> Suc k"
proof (induction k arbitrary: n)
  case 0
  then show ?case by (simp add: show_nat.simps [of n])
next
  case (Suc k)
  have "n div 10 < 10 ^ Suc k" using Suc.prems by (simp add: less_mult_imp_div_less mult.commute)
  from Suc.IH [OF this] show ?case by (subst show_nat.simps) simp
qed

subsection \<open>JSON values\<close>

datatype json = JNull | JBool bool | JInt int | JFloat string | JStr string
  | JList "json list" | JObj "(string \<times> json) list"

text \<open>\<open>isinstance(v, dict) and set(v) == required\<close>, then \<open>v[key]\<close>\<close>

definition has_keys :: "string list \<Rightarrow> json \<Rightarrow> bool" where
  "has_keys ks v = (case v of JObj kvs \<Rightarrow> set (map fst kvs) = set ks | _ \<Rightarrow> False)"

definition keys_of :: "json \<Rightarrow> string list" where
  "keys_of v = (case v of JObj kvs \<Rightarrow> map fst kvs | _ \<Rightarrow> [])"

definition field :: "string \<Rightarrow> json \<Rightarrow> json option" where
  "field k v = (case v of JObj kvs \<Rightarrow> map_of kvs k | _ \<Rightarrow> None)"

definition the_str :: "json \<Rightarrow> string option" where
  "the_str v = (case v of JStr s \<Rightarrow> Some s | _ \<Rightarrow> None)"

definition the_int :: "json \<Rightarrow> int option" where
  "the_int v = (case v of JInt i \<Rightarrow> Some i | _ \<Rightarrow> None)"

definition the_bool :: "json \<Rightarrow> bool option" where
  "the_bool v = (case v of JBool b \<Rightarrow> Some b | _ \<Rightarrow> None)"

definition the_list :: "json \<Rightarrow> json list option" where
  "the_list v = (case v of JList xs \<Rightarrow> Some xs | _ \<Rightarrow> None)"

definition the_obj :: "json \<Rightarrow> (string \<times> json) list option" where
  "the_obj v = (case v of JObj kvs \<Rightarrow> Some kvs | _ \<Rightarrow> None)"

text \<open>A field that holds \<open>None\<close> or a string\<close>

definition opt_str :: "json \<Rightarrow> string option option" where
  "opt_str v = (case v of JNull \<Rightarrow> Some None | JStr s \<Rightarrow> Some (Some s) | _ \<Rightarrow> None)"

definition opt_int :: "json \<Rightarrow> int option option" where
  "opt_int v = (case v of JNull \<Rightarrow> Some None | JInt i \<Rightarrow> Some (Some i) | _ \<Rightarrow> None)"

text \<open>\<open>tuple(v)\<close> iterates a list, the characters of a string or the keys of an object;
  anything else is a \<open>TypeError\<close>.\<close>

definition tuple_of :: "json \<Rightarrow> json list option" where
  "tuple_of v = (case v of
     JList xs \<Rightarrow> Some xs
   | JStr s \<Rightarrow> Some (map (\<lambda>c. JStr [c]) s)
   | JObj kvs \<Rightarrow> Some (map (JStr \<circ> fst) kvs)
   | _ \<Rightarrow> None)"

text \<open>All entries of a list decoded, or \<open>None\<close> at the first that is not\<close>

fun decode_all :: "('a \<Rightarrow> 'b option) \<Rightarrow> 'a list \<Rightarrow> 'b list option" where
  "decode_all f [] = Some []"
| "decode_all f (x # xs) = (case f x of None \<Rightarrow> None
     | Some y \<Rightarrow> (case decode_all f xs of None \<Rightarrow> None | Some ys \<Rightarrow> Some (y # ys)))"

definition str_tuple :: "json \<Rightarrow> string list option" where
  "str_tuple v = (case tuple_of v of None \<Rightarrow> None | Some xs \<Rightarrow> decode_all the_str xs)"

definition str_list :: "json \<Rightarrow> string list option" where
  "str_list v = (case the_list v of None \<Rightarrow> None | Some xs \<Rightarrow> decode_all the_str xs)"

definition enc_opt :: "string option \<Rightarrow> json" where
  "enc_opt v = (case v of None \<Rightarrow> JNull | Some s \<Rightarrow> JStr s)"

definition enc_strs :: "string list \<Rightarrow> json" where
  "enc_strs xs = JList (map JStr xs)"

text \<open>\<open>v.get(key, default)\<close>\<close>

definition field_or :: "json \<Rightarrow> string \<Rightarrow> json \<Rightarrow> json" where
  "field_or dflt k v = (case field k v of None \<Rightarrow> dflt | Some x \<Rightarrow> x)"

text \<open>\<open>bool(v)\<close>\<close>

definition truthy :: "json \<Rightarrow> bool" where
  "truthy v = (case v of JNull \<Rightarrow> False | JBool b \<Rightarrow> b | JInt i \<Rightarrow> i \<noteq> 0
     | JFloat s \<Rightarrow> s \<notin> {''0.0'', ''-0.0''} | JStr s \<Rightarrow> s \<noteq> [] | JList xs \<Rightarrow> xs \<noteq> [] | JObj kvs \<Rightarrow> kvs \<noteq> [])"

text \<open>\<open>hash(v)\<close> does not raise.\<close>

definition hashable :: "json \<Rightarrow> bool" where
  "hashable v = (case v of JList _ \<Rightarrow> False | JObj _ \<Rightarrow> False | _ \<Rightarrow> True)"

text \<open>\<open>isinstance(v, dict)\<close>\<close>

definition is_dict :: "json \<Rightarrow> bool" where
  "is_dict v = (case v of JObj _ \<Rightarrow> True | _ \<Rightarrow> False)"

lemma decode_all_map [simp]: "(\<And>x. f (g x) = Some x) \<Longrightarrow> decode_all f (map g xs) = Some xs"
  by (induction xs) auto

lemma decode_all_map_on:
  "(\<And>x. x \<in> set xs \<Longrightarrow> f (g x) = Some x) \<Longrightarrow> decode_all f (map g xs) = Some xs"
  by (induction xs) auto

lemma json_decode_simps [simp]:
  "the_str (JStr s) = Some s" "the_int (JInt i) = Some i"
  "opt_str (enc_opt v) = Some v" "str_tuple (enc_strs xs) = Some xs" "str_list (enc_strs xs) = Some xs"
  "the_bool (JBool b) = Some b" "the_list (JList vs) = Some vs" "the_obj (JObj kvs) = Some kvs"
  by (simp_all add: the_str_def the_int_def the_bool_def the_list_def the_obj_def str_list_def opt_str_def enc_opt_def str_tuple_def enc_strs_def
      tuple_of_def split: option.splits)

lemma tuple_of_enc_strs [simp]: "tuple_of (enc_strs xs) = Some (map JStr xs)"
  by (simp add: tuple_of_def enc_strs_def)

lemma decode_all_two_stages:
  assumes "\<And>x. Option.bind (f (h x)) g = Some x"
  shows "\<exists>rs. decode_all f (map h xs) = Some rs \<and> decode_all g rs = Some xs"
proof (induction xs)
  case (Cons x xs)
  from assms [of x] obtain r where "f (h x) = Some r" "g r = Some x"
    by (auto simp: Option.bind_eq_Some_conv)
  with Cons show ?case by auto
qed simp

end
