(* ===== verification/PathScope.thy ===== *)
theory PathScope
  imports Prelude
begin

section \<open>Task path scope (path_scope.py)\<close>

text \<open>
  The lexical permission check that execution, review and delivery share. A path is a string
  of components between slashes. An entry of the scope names one file, or, with a trailing
  slash, everything strictly below a directory. The abstract contract is on component lists
  (\<open>grant\<close>, \<open>grants\<close>); the code works on strings with \<open>startswith\<close>, and the refinement lemma
  says that the two agree, so that \<open>src/\<close> never admits \<open>src-old/x\<close> nor \<open>src\<close> itself.
  Lists and tuples of the source are lists here, and the \<open>isinstance\<close> tests are the types.
\<close>

definition valid_relative :: "string \<Rightarrow> bool" where
  "valid_relative v = (v \<noteq> [] \<and> v = py_strip v \<and> CHR 0x5C \<notin> set v \<and> CHR '':'' \<notin> set v \<and>
     CHR 0x00 \<notin> set v \<and>
     list_all (\<lambda>part. part \<notin> {'''', ''.'', ''..'', ''.git''}) (split_on (CHR ''/'') v))"

fun scope_is_valid_entries :: "string list \<Rightarrow> bool" where
  "scope_is_valid_entries [] = True"
| "scope_is_valid_entries (a # as) =
     (let directory = ends_with ''/'' a;
          v = (if directory then butlast a else a)
      in if \<not> valid_relative v then False else scope_is_valid_entries as)"

definition scope_is_valid :: "string list \<Rightarrow> bool" where
  "scope_is_valid allowed = (if allowed = [] then False else scope_is_valid_entries allowed)"

definition path_in_scope :: "string \<Rightarrow> string list \<Rightarrow> bool" where
  "path_in_scope path allowed =
     (if \<not> valid_relative path then False
      else if \<not> scope_is_valid allowed then False
      else list_ex (\<lambda>a. if ends_with ''/'' a then starts_with a path else path = a) allowed)"

definition paths_in_scope :: "string list \<Rightarrow> string list \<Rightarrow> bool" where
  "paths_in_scope paths allowed = (allowed \<noteq> [] \<and> list_all (\<lambda>p. path_in_scope p allowed) paths)"

subsection \<open>The contract on components\<close>

datatype grant = File "string list" | Below "string list"

fun grants :: "grant \<Rightarrow> string list \<Rightarrow> bool" where
  "grants (File cs) ps = (ps = cs)"
| "grants (Below cs) ps = (length cs < length ps \<and> take (length cs) ps = cs)"

definition grant_of :: "string \<Rightarrow> grant" where
  "grant_of a = (if ends_with ''/'' a then Below (split_on (CHR ''/'') (butlast a))
     else File (split_on (CHR ''/'') a))"

lemma grants_Below_iff: "grants (Below cs) ps \<longleftrightarrow> (\<exists>rest. rest \<noteq> [] \<and> ps = cs @ rest)"
proof
  assume "grants (Below cs) ps"
  then have "ps = cs @ drop (length cs) ps" "drop (length cs) ps \<noteq> []"
    by (auto, metis append_take_drop_id)
  then show "\<exists>rest. rest \<noteq> [] \<and> ps = cs @ rest" by blast
qed auto

lemma scope_is_valid_entries_iff:
  "scope_is_valid_entries as \<longleftrightarrow>
     (\<forall>a\<in>set as. valid_relative (if ends_with ''/'' a then butlast a else a))"
  by (induction as) (simp_all add: Let_def)

lemma ends_with_slash: "ends_with ''/'' a \<longleftrightarrow> (\<exists>d. a = d @ ''/'')"
  by (simp add: ends_with_iff)

lemma starts_with_directory:
  assumes "valid_relative p"
  shows "starts_with (d @ ''/'') p \<longleftrightarrow> grants (Below (split_on (CHR ''/'') d)) (split_on (CHR ''/'') p)"
proof
  assume "starts_with (d @ ''/'') p"
  then obtain t where "p = d @ CHR ''/'' # t" by (auto simp: starts_with_iff)
  then have "split_on (CHR ''/'') p = split_on (CHR ''/'') d @ split_on (CHR ''/'') t"
    by (simp add: split_on_append_sep)
  then show "grants (Below (split_on (CHR ''/'') d)) (split_on (CHR ''/'') p)"
    unfolding grants_Below_iff by (metis split_on_not_Nil)
next
  assume "grants (Below (split_on (CHR ''/'') d)) (split_on (CHR ''/'') p)"
  then obtain rest where r: "rest \<noteq> []" "split_on (CHR ''/'') p = split_on (CHR ''/'') d @ rest"
    unfolding grants_Below_iff by blast
  have "p = join_on (CHR ''/'') (split_on (CHR ''/'') d @ rest)"
    by (metis r(2) join_split)
  also have "\<dots> = join_on (CHR ''/'') (split_on (CHR ''/'') d) @ CHR ''/'' # join_on (CHR ''/'') rest"
    using r(1) join_on_append by simp
  finally show "starts_with (d @ ''/'') p" by (auto simp: starts_with_iff)
qed

lemma entry_refines_grant:
  assumes "valid_relative p"
  shows "(if ends_with ''/'' a then starts_with a p else p = a) \<longleftrightarrow>
    grants (grant_of a) (split_on (CHR ''/'') p)"
proof (cases "ends_with ''/'' a")
  case True
  then obtain d where "a = d @ ''/''" by (auto simp: ends_with_slash)
  with True starts_with_directory [OF assms, of d] show ?thesis
    by (simp add: grant_of_def)
next
  case False
  then show ?thesis by (auto simp: grant_of_def dest: split_on_inj)
qed

text \<open>C40. The string test of \<open>path_in_scope\<close> is exactly the component contract: a path is in
  scope when path and scope are valid and some entry grants it, a file entry granting that very
  path and a directory entry the paths strictly below it, component by component.\<close>

theorem path_in_scope_refines_grants:
  "path_in_scope p allowed \<longleftrightarrow> valid_relative p \<and> scope_is_valid allowed \<and>
     (\<exists>a\<in>set allowed. grants (grant_of a) (split_on (CHR ''/'') p))"
  using entry_refines_grant [of p] unfolding path_in_scope_def list_ex_iff by (simp cong: bex_cong)

text \<open>A batch of paths is in scope only if every one of them is, none of them with an empty,
  \<open>.\<close>, \<open>..\<close> or \<open>.git\<close> component, and a single malformed entry of the scope denies them all.\<close>

theorem paths_in_scope_safe:
  assumes "paths_in_scope paths allowed" and "p \<in> set paths"
  shows "set (split_on (CHR ''/'') p) \<inter> {'''', ''.'', ''..'', ''.git''} = {} \<and>
    (\<forall>bad. \<not> valid_relative (if ends_with ''/'' bad then butlast bad else bad) \<longrightarrow>
      \<not> paths_in_scope paths (bad # allowed))"
proof (intro conjI allI impI)
  from assms have "path_in_scope p allowed" by (simp add: paths_in_scope_def list_all_iff)
  then have "valid_relative p" by (simp add: path_in_scope_def split: if_splits)
  then show "set (split_on (CHR ''/'') p) \<inter> {'''', ''.'', ''..'', ''.git''} = {}"
    unfolding valid_relative_def list_all_iff by blast
next
  fix bad
  assume "\<not> valid_relative (if ends_with ''/'' bad then butlast bad else bad)"
  then have "\<not> scope_is_valid (bad # allowed)"
    by (simp add: scope_is_valid_def scope_is_valid_entries_iff)
  then have "\<not> path_in_scope p (bad # allowed)" by (simp add: path_in_scope_def)
  then show "\<not> paths_in_scope paths (bad # allowed)"
    using assms(2) unfolding paths_in_scope_def list_all_iff by blast
qed

theorem paths_in_scope_safe_witness:
  "set (split_on (CHR ''/'') ''src/a.py'') \<inter> {'''', ''.'', ''..'', ''.git''} = {} \<and>
    \<not> paths_in_scope [''src/a.py''] [''../'', ''src/'']"
proof -
  have h: "paths_in_scope [''src/a.py''] [''src/'']" by code_simp
  have "\<not> valid_relative (if ends_with ''/'' ''../'' then butlast ''../'' else ''../'')" by code_simp
  then show ?thesis using paths_in_scope_safe [OF h, of "''src/a.py''"] by simp
qed

end
