(* ===== verification/DependencyDag.thy ===== *)
theory DependencyDag
  imports Prelude
begin

section \<open>Cycle detection on dependency maps\<close>

text \<open>
  \<open>Roadmap._validate_acyclic\<close> (roadmap_models.py) and \<open>ExecutionPlan._validate_acyclic\<close>
  (models.py) run the same recursive \<open>visit\<close> with a set of identifiers being visited and a set of
  visited ones. \<open>edges\<close> is the dictionary from an identifier to the set it depends on, here an
  association list; the sets of the source are lists here. \<open>visit_all e E vs vd xs\<close> visits the
  identifiers \<open>xs\<close> in order, \<open>vs\<close> being visited and \<open>vd\<close> visited (the latest first), and returns
  the visited ones or the exception. A lookup of a missing key is a \<open>KeyError\<close>.
  The main lemma is that a closed map passes exactly when its edge relation is acyclic.
\<close>

type_synonym edges = "(string \<times> string list) list"

function visit_all :: "exc \<Rightarrow> edges \<Rightarrow> string list \<Rightarrow> string list \<Rightarrow> string list \<Rightarrow> string list res" where
  "visit_all e E vs vd [] = Inr vd"
| "visit_all e E vs vd (x # xs) =
     (if x \<in> set vs then Inl e
      else if x \<in> set vd then visit_all e E vs vd xs
      else (case map_of E x of
          None \<Rightarrow> Inl (Exc KeyError x)
        | Some ds \<Rightarrow>
            (case visit_all e E (x # vs) vd (sort (remdups ds)) of
               Inl err \<Rightarrow> Inl err
             | Inr vd' \<Rightarrow> visit_all e E vs (x # vd') xs)))"
  by pat_completeness auto
termination
proof (relation "inv_image (less_than <*lex*> less_than)
    (\<lambda>(e, E, vs, vd, xs). (card (fst ` set E - set vs), length xs))", goal_cases)
  case (3 e E vs vd x xs ds)
  then have "x \<in> fst ` set E - set vs" by (auto simp: rev_image_eqI dest!: map_of_SomeD)
  then have "card (fst ` set E - set vs - {x}) < card (fst ` set E - set vs)"
    by (intro card_Diff1_less) auto
  moreover have "fst ` set E - set (x # vs) = fst ` set E - set vs - {x}" by auto
  ultimately show ?case by simp
qed auto

definition validate_acyclic :: "exc \<Rightarrow> edges \<Rightarrow> string list \<Rightarrow> unit res" where
  "validate_acyclic e E order = and_then (visit_all e E [] [] order) (\<lambda>_. Inr ())"

subsection \<open>The edge relation\<close>

definition edge_rel :: "edges \<Rightarrow> (string \<times> string) set" where
  "edge_rel E = {(x, d). \<exists>ds. map_of E x = Some ds \<and> d \<in> set ds}"

definition closed_edges :: "edges \<Rightarrow> bool" where
  "closed_edges E = list_all (\<lambda>(x, ds). set ds \<subseteq> set (map fst E)) E"

text \<open>Visited identifiers, latest first, form a topological order.\<close>

fun topo :: "edges \<Rightarrow> string list \<Rightarrow> bool" where
  "topo E [] = True"
| "topo E (x # vd) = (x \<notin> set vd \<and> (\<exists>ds. map_of E x = Some ds \<and> set ds \<subseteq> set vd) \<and> topo E vd)"

lemma closed_edgesD:
  "closed_edges E \<Longrightarrow> map_of E x = Some ds \<Longrightarrow> d \<in> set ds \<Longrightarrow> \<exists>ds'. map_of E d = Some ds'"
  unfolding closed_edges_def list_all_iff
  by (metis (no_types, lifting) case_prodD map_of_SomeD map_of_eq_None_iff not_None_eq list.set_map subsetD)

lemma topo_distinct: "topo E vd \<Longrightarrow> distinct vd"
  by (induction vd) auto

lemma topo_trancl:
  "topo E vd \<Longrightarrow> x \<in> set vd \<Longrightarrow> (x, y) \<in> (edge_rel E)\<^sup>+ \<Longrightarrow> y \<in> set vd \<and> y \<noteq> x"
proof (induction vd arbitrary: x)
  case (Cons z vd)
  show ?case
  proof (cases "x \<in> set vd")
    case True
    with Cons show ?thesis by auto
  next
    case False
    with Cons.prems have z: "x = z" by simp
    from Cons.prems(3) obtain d where d: "(x, d) \<in> edge_rel E" "d = y \<or> (d, y) \<in> (edge_rel E)\<^sup>+"
      by (metis tranclD rtranclD)
    from d(1) Cons.prems(1) z have "d \<in> set vd" by (auto simp: edge_rel_def)
    with d(2) Cons.IH Cons.prems(1) have "y \<in> set vd" by auto
    with False show ?thesis by auto
  qed
qed simp

lemma topo_acyclic:
  assumes "topo E vd" and "set (map fst E) \<subseteq> set vd"
  shows "acyclic (edge_rel E)"
  unfolding acyclic_def
proof (intro allI notI)
  fix x assume c: "(x, x) \<in> (edge_rel E)\<^sup>+"
  then obtain d where "(x, d) \<in> edge_rel E" by (metis tranclD)
  then have "x \<in> set vd" using assms(2) by (auto simp: edge_rel_def dest!: map_of_SomeD)
  with topo_trancl [OF assms(1) _ c] show False by blast
qed

subsection \<open>What a search returns\<close>

lemma visit_all_sound:
  assumes "visit_all e E vs vd xs = Inr vd'" and "topo E vd" and "set vd \<inter> set vs = {}"
  shows "topo E vd' \<and> set vd \<union> set xs \<subseteq> set vd' \<and> set vd' \<inter> set vs = {}"
  using assms
proof (induction e E vs vd xs arbitrary: vd' rule: visit_all.induct)
  case (2 e E vs vd x xs)
  show ?case
  proof (cases "x \<in> set vd")
    case True
    with 2 show ?thesis by (auto split: if_splits)
  next
    case False
    with "2.prems"(1) obtain ds vd1 where
      ds: "x \<notin> set vs" "map_of E x = Some ds"
        "visit_all e E (x # vs) vd (sort (remdups ds)) = Inr vd1"
        "visit_all e E vs (x # vd1) xs = Inr vd'"
      by (auto split: if_splits option.splits sum.splits)
    have i: "topo E vd1 \<and> set vd \<union> set (sort (remdups ds)) \<subseteq> set vd1 \<and> set vd1 \<inter> set (x # vs) = {}"
      using "2.IH"(2) [OF ds(1) False ds(2) ds(3)] "2.prems"(2,3) False by auto
    then have "topo E (x # vd1)" "set (x # vd1) \<inter> set vs = {}" using ds by auto
    from "2.IH"(3) [OF ds(1) False ds(2,3) ds(4) this] i show ?thesis by auto
  qed
qed simp

lemma visit_all_complete:
  assumes "acyclic (edge_rel E)" and "closed_edges E" and "set xs \<subseteq> set (map fst E)"
    and "\<forall>v\<in>set vs. \<forall>x\<in>set xs. (v, x) \<in> (edge_rel E)\<^sup>+"
  shows "\<exists>vd'. visit_all e E vs vd xs = Inr vd'"
  using assms
proof (induction e E vs vd xs rule: visit_all.induct)
  case (2 e E vs vd x xs)
  have x: "x \<notin> set vs" using "2.prems"(1,4) by (auto simp: acyclic_def)
  show ?case
  proof (cases "x \<in> set vd")
    case True
    with x 2 show ?thesis by auto
  next
    case False
    from "2.prems"(3) obtain ds where ds: "map_of E x = Some ds"
      by (auto simp: map_of_eq_None_iff dest!: weak_map_of_SomeI)
    have e: "(x, d) \<in> edge_rel E" if "d \<in> set ds" for d using ds that by (auto simp: edge_rel_def)
    have "set (sort (remdups ds)) \<subseteq> set (map fst E)"
      using closed_edgesD [OF "2.prems"(2) ds] by (force dest: map_of_SomeD)
    moreover have "\<forall>v\<in>set (x # vs). \<forall>d\<in>set (sort (remdups ds)). (v, d) \<in> (edge_rel E)\<^sup>+"
      using "2.prems"(4) e by (auto intro: trancl_into_trancl)
    ultimately obtain vd1 where vd1: "visit_all e E (x # vs) vd (sort (remdups ds)) = Inr vd1"
      using "2.IH"(2) [OF x False ds] "2.prems"(1,2) by blast
    have "\<exists>vd'. visit_all e E vs (x # vd1) xs = Inr vd'"
      using "2.IH"(3) [OF x False ds vd1] "2.prems" by simp
    with x False ds vd1 show ?thesis by simp
  qed
qed simp

lemma visit_all_errors:
  assumes "closed_edges E" and "set xs \<subseteq> set (map fst E)" and "visit_all e E vs vd xs = Inl err"
  shows "err = e"
  using assms
proof (induction e E vs vd xs rule: visit_all.induct)
  case (2 e E vs vd x xs)
  show ?case
  proof (cases "x \<in> set vs \<or> x \<in> set vd")
    case True
    with 2 show ?thesis by (auto split: if_splits)
  next
    case False
    from "2.prems"(2) obtain ds where ds: "map_of E x = Some ds"
      by (auto simp: map_of_eq_None_iff dest!: weak_map_of_SomeI)
    have sub: "set (sort (remdups ds)) \<subseteq> set (map fst E)"
      using closed_edgesD [OF "2.prems"(1) ds] by (force dest: map_of_SomeD)
    show ?thesis
    proof (cases "visit_all e E (x # vs) vd (sort (remdups ds))")
      case (Inl a)
      with "2.IH"(2) [of ds] "2.prems" False ds sub show ?thesis by auto
    next
      case (Inr vd1)
      with "2.IH"(3) [of ds vd1] "2.prems" False ds show ?thesis by auto
    qed
  qed
qed simp

lemma validate_acyclic_iff:
  assumes "closed_edges E" and "set order = set (map fst E)"
  shows "validate_acyclic e E order = Inr () \<longleftrightarrow> acyclic (edge_rel E)"
proof
  assume "validate_acyclic e E order = Inr ()"
  then obtain vd where "visit_all e E [] [] order = Inr vd"
    by (auto simp: validate_acyclic_def and_then_ok)
  from visit_all_sound [OF this] assms(2) show "acyclic (edge_rel E)"
    by (intro topo_acyclic [of E vd]) auto
next
  assume "acyclic (edge_rel E)"
  from visit_all_complete [OF this assms(1), of order "[]" e "[]"] assms(2)
  show "validate_acyclic e E order = Inr ()"
    by (auto simp: validate_acyclic_def and_then_ok)
qed

lemma validate_acyclic_result:
  assumes "closed_edges E" and "set order = set (map fst E)"
  shows "validate_acyclic e E order = (if acyclic (edge_rel E) then Inr () else Inl e)"
proof (cases "visit_all e E [] [] order")
  case (Inl err)
  then have "err = e" using visit_all_errors assms by blast
  with Inl show ?thesis using validate_acyclic_iff [OF assms, of e]
    by (auto simp: validate_acyclic_def)
next
  case (Inr vd)
  then show ?thesis using validate_acyclic_iff [OF assms, of e]
    by (auto simp: validate_acyclic_def)
qed

end
