(* ===== verification/Lifecycle.thy ===== *)
theory Lifecycle
  imports Prelude
begin

section \<open>Lifecycles: tables of permitted status changes\<close>

text \<open>
  Schedulers, roadmap items and sessions each have a status, a table of the statuses it may
  change to (\<open>_TRANSITIONS\<close>, \<open>ALLOWED_TRANSITIONS\<close>) and a set of terminal statuses. The locale
  states the contract the three tables share: a terminal status has no successor, and any other
  has one. Its lemmas are about whole histories, the list of statuses an object goes through.
\<close>

text \<open>A history that starts in \<open>s\<close> and takes only steps of the table\<close>

fun history :: "('s \<Rightarrow> 's list) \<Rightarrow> 's \<Rightarrow> 's list \<Rightarrow> bool" where
  "history targets s [] = True"
| "history targets s (t # ts) = (t \<in> set (targets s) \<and> history targets t ts)"

lemma history_append:
  "history targets s (xs @ ys) \<longleftrightarrow> history targets s xs \<and> history targets (last (s # xs)) ys"
  by (induction xs arbitrary: s) auto

locale lifecycle =
  fixes targets :: "'s \<Rightarrow> 's list" and terminal :: "'s list"
  assumes terminal_stuck: "s \<in> set terminal \<Longrightarrow> targets s = []"
    and others_move: "s \<notin> set terminal \<Longrightarrow> targets s \<noteq> []"
begin

lemma stuck_iff: "targets s = [] \<longleftrightarrow> s \<in> set terminal"
  using terminal_stuck others_move by blast

lemma no_history_from_terminal: "s \<in> set terminal \<Longrightarrow> history targets s ts \<Longrightarrow> ts = []"
  by (cases ts) (simp_all add: terminal_stuck)

lemma terminal_is_last:
  assumes "history targets s (xs @ t # ys)" and "t \<in> set terminal"
  shows "ys = []"
  using assms no_history_from_terminal by (fastforce simp: history_append)

lemma at_most_one_terminal:
  "history targets s ts \<Longrightarrow> length (filter (\<lambda>t. t \<in> set terminal) ts) \<le> 1"
proof (induction ts arbitrary: s)
  case (Cons t ts)
  then show ?case using no_history_from_terminal [of t ts] by (cases "t \<in> set terminal") auto
qed simp

end

end
