(* ===== verification/Roadmap.thy ===== *)
theory Roadmap
  imports DependencyDag Lifecycle
begin

section \<open>Roadmaps (roadmap_models.py)\<close>

text \<open>
  The backlog a scheduler works from: a roadmap and its items (the dataclasses \<open>RoadmapItem\<close> and
  \<open>Roadmap\<close>, fields prefixed \<open>ri_\<close> and \<open>rm_\<close>), validation, lifecycle transitions, supersession,
  the eligible items, the numbered revision, the critical path, and the JSON form. Fields have
  the types the dataclasses declare, so the \<open>isinstance\<close> tests of the validators are the types.
\<close>

subsection \<open>Data\<close>

datatype roadmap_status = Roadmap_DRAFT | Roadmap_ACTIVE | Roadmap_SUPERSEDED

datatype item_status = Item_TODO | Item_READY | Item_IN_PROGRESS | Item_BLOCKED | Item_COMPLETED | Item_SUPERSEDED

record roadmap_item =
  ri_item_id :: string
  ri_title :: string
  ri_objective_refs :: "string list"
  ri_depends_on :: "string list"
  ri_acceptance_criteria :: "string list"
  ri_risk_level :: string
  ri_status :: item_status
  ri_superseded_by :: "string option"
  ri_priority :: int

record roadmap =
  rm_schema_version :: string
  rm_roadmap_id :: string
  rm_version :: string
  rm_objective_id :: string
  rm_items :: "roadmap_item list"
  rm_status :: roadmap_status

definition is_roadmap_id :: "string \<Rightarrow> bool" where
  "is_roadmap_id = id_match ''roadmap-''"

definition is_item_id :: "string \<Rightarrow> bool" where
  "is_item_id = id_match ''item-''"

definition is_objective_id :: "string \<Rightarrow> bool" where
  "is_objective_id = id_match ''objective-''"

definition is_requirement_id :: "string \<Rightarrow> bool" where
  "is_requirement_id = id_match ''requirement-''"

fun item_targets :: "item_status \<Rightarrow> item_status list" where
  "item_targets Item_TODO = [Item_READY, Item_BLOCKED, Item_SUPERSEDED]"
| "item_targets Item_READY = [Item_IN_PROGRESS, Item_BLOCKED, Item_SUPERSEDED]"
| "item_targets Item_IN_PROGRESS = [Item_COMPLETED, Item_BLOCKED, Item_SUPERSEDED]"
| "item_targets Item_BLOCKED = [Item_READY, Item_SUPERSEDED]"
| "item_targets Item_COMPLETED = [Item_SUPERSEDED]"
| "item_targets Item_SUPERSEDED = []"

fun item_status_value :: "item_status \<Rightarrow> string" where
  "item_status_value Item_TODO = ''TODO''"
| "item_status_value Item_READY = ''READY''"
| "item_status_value Item_IN_PROGRESS = ''IN_PROGRESS''"
| "item_status_value Item_BLOCKED = ''BLOCKED''"
| "item_status_value Item_COMPLETED = ''COMPLETED''"
| "item_status_value Item_SUPERSEDED = ''SUPERSEDED''"

fun roadmap_status_value :: "roadmap_status \<Rightarrow> string" where
  "roadmap_status_value Roadmap_DRAFT = ''DRAFT''"
| "roadmap_status_value Roadmap_ACTIVE = ''ACTIVE''"
| "roadmap_status_value Roadmap_SUPERSEDED = ''SUPERSEDED''"

subsection \<open>Validation\<close>

definition rm_error :: "string \<Rightarrow> 'a res" where
  "rm_error m = raise RoadmapValidationError m"

abbreviation rm_check :: "bool \<Rightarrow> string \<Rightarrow> unit res" where
  "rm_check b m \<equiv> raise_if b RoadmapValidationError m"

definition validate_item :: "roadmap_item \<Rightarrow> unit res" where
  "validate_item i = steps [
     rm_check (\<not> is_item_id (ri_item_id i)) ''item_id is invalid'',
     rm_check (blank (ri_title i) \<or> length (ri_title i) > 4000) ''item title is invalid'',
     rm_check (ri_objective_refs i = [] \<or> list_ex (\<lambda>r. \<not> is_requirement_id r) (ri_objective_refs i))
       (''item '' @ ri_item_id i @ '' has invalid objective references''),
     rm_check (length (ri_depends_on i) \<noteq> length (remdups (ri_depends_on i)))
       (''item '' @ ri_item_id i @ '' dependencies must be unique''),
     rm_check (ri_acceptance_criteria i = [] \<or> list_ex blank (ri_acceptance_criteria i))
       (''item '' @ ri_item_id i @ '' acceptance criteria are invalid''),
     rm_check (blank (ri_risk_level i)) (''item '' @ ri_item_id i @ '' risk level is required''),
     rm_check (\<not> (0 \<le> ri_priority i \<and> ri_priority i \<le> 1000))
       (''item '' @ ri_item_id i @ '' priority is invalid''),
     rm_check (case ri_superseded_by i of None \<Rightarrow> False | Some s \<Rightarrow> \<not> is_item_id s)
       (''item '' @ ri_item_id i @ '' superseded_by is invalid''),
     rm_check (ri_status i \<noteq> Item_SUPERSEDED \<and> ri_superseded_by i \<noteq> None)
       ''only SUPERSEDED items may have superseded_by'']"

definition item_ids :: "roadmap \<Rightarrow> string list" where
  "item_ids r = map ri_item_id (rm_items r)"

definition roadmap_edges :: "roadmap \<Rightarrow> edges" where
  "roadmap_edges r = map (\<lambda>i. (ri_item_id i, ri_depends_on i)) (rm_items r)"

definition roadmap_validate :: "roadmap \<Rightarrow> unit res" where
  "roadmap_validate r = steps [
     rm_check (rm_schema_version r \<noteq> ''1.0'') ''schema_version must be 1.0'',
     rm_check (\<not> is_roadmap_id (rm_roadmap_id r)) ''roadmap_id is invalid'',
     rm_check (blank (rm_version r)) ''version is required'',
     rm_check (\<not> is_objective_id (rm_objective_id r)) ''objective_id is invalid'',
     rm_check (rm_items r = [] \<or> length (rm_items r) > 500) ''items must contain 1 to 500 items'',
     rm_check (length (item_ids r) \<noteq> length (remdups (item_ids r))) ''item_id values must be unique'',
     for_each (\<lambda>i. steps [validate_item i,
       rm_check (\<not> list_all (\<lambda>d. d \<in> set (item_ids r)) (ri_depends_on i))
         (''item '' @ ri_item_id i @ '' has an unknown dependency'')]) (rm_items r),
     validate_acyclic (Exc RoadmapValidationError ''roadmap dependencies contain a cycle'')
       (roadmap_edges r) (sort (item_ids r))]"

subsection \<open>Operations\<close>

text \<open>\<open>{item.item_id: item for item in self.items}\<close>: a later item hides an earlier one.\<close>

definition items_by_id :: "roadmap \<Rightarrow> string \<Rightarrow> roadmap_item option" where
  "items_by_id r = map_of (rev (map (\<lambda>i. (ri_item_id i, i)) (rm_items r)))"

text \<open>\<open>all(items[d].status is COMPLETED for d in ds)\<close>, stopping at the first that is not\<close>

fun deps_completed :: "(string \<Rightarrow> roadmap_item option) \<Rightarrow> string list \<Rightarrow> bool res" where
  "deps_completed m [] = Inr True"
| "deps_completed m (d # ds) = (case m d of
     None \<Rightarrow> Inl (Exc KeyError d)
   | Some i \<Rightarrow> if ri_status i \<noteq> Item_COMPLETED then Inr False else deps_completed m ds)"

definition find_item :: "roadmap \<Rightarrow> string \<Rightarrow> roadmap_item res" where
  "find_item r x = (case filter (\<lambda>i. ri_item_id i = x) (rm_items r) of
     [i] \<Rightarrow> Inr i
   | _ \<Rightarrow> rm_error ''roadmap item is missing or ambiguous'')"

definition replace_item :: "roadmap \<Rightarrow> roadmap_item \<Rightarrow> roadmap res" where
  "replace_item r u =
     (let r' = r\<lparr>rm_items := map (\<lambda>i. if ri_item_id i = ri_item_id u then u else i) (rm_items r)\<rparr>
      in and_then (roadmap_validate r') (\<lambda>_. Inr r'))"

definition roadmap_transition :: "roadmap \<Rightarrow> string \<Rightarrow> item_status \<Rightarrow> roadmap res" where
  "roadmap_transition r x st =
     and_then (find_item r x) (\<lambda>i.
       if st \<notin> set (item_targets (ri_status i))
       then rm_error (''invalid lifecycle transition: '' @ item_status_value (ri_status i) @ '' -> ''
              @ item_status_value st)
       else and_then
         (if st = Item_COMPLETED
          then and_then (deps_completed (items_by_id r) (ri_depends_on i)) (\<lambda>done.
            if \<not> done then rm_error ''item cannot complete before dependencies'' else Inr ())
          else Inr ())
         (\<lambda>_. replace_item r (i\<lparr>ri_status := st\<rparr>)))"

definition roadmap_supersede :: "roadmap \<Rightarrow> string \<Rightarrow> string \<Rightarrow> roadmap res" where
  "roadmap_supersede r x y =
     (if x = y then rm_error ''an item cannot supersede itself''
      else and_then (find_item r x) (\<lambda>i. and_then (find_item r y) (\<lambda>_.
        if ri_status i = Item_SUPERSEDED
        then rm_error ''superseded item cannot be superseded again''
        else replace_item r (i\<lparr>ri_status := Item_SUPERSEDED, ri_superseded_by := Some y\<rparr>))))"

fun eligible_from :: "(string \<Rightarrow> roadmap_item option) \<Rightarrow> roadmap_item list \<Rightarrow> roadmap_item list res" where
  "eligible_from m [] = Inr []"
| "eligible_from m (i # is) = and_then
     (if ri_status i = Item_READY then deps_completed m (ri_depends_on i) else Inr False)
     (\<lambda>keep. and_then (eligible_from m is) (\<lambda>rest. Inr (if keep then i # rest else rest)))"

definition eligible_items :: "roadmap \<Rightarrow> roadmap_item list res" where
  "eligible_items r = and_then (eligible_from (items_by_id r) (rm_items r))
     (\<lambda>is. Inr (sort_key (\<lambda>i. (ri_priority i, ri_item_id i)) is))"

text \<open>\<open>int()\<close> of a text that is no decimal number is a \<open>ValueError\<close>.\<close>

definition roadmap_revise :: "roadmap \<Rightarrow> string \<Rightarrow> roadmap res" where
  "roadmap_revise r v =
     (if \<not> py_isdigit v then rm_error ''roadmap version must increase monotonically''
      else case py_int v of None \<Rightarrow> raise ValueError ''''
      | Some new \<Rightarrow> (case py_int (rm_version r) of None \<Rightarrow> raise ValueError ''''
      | Some old \<Rightarrow> if new \<le> old then rm_error ''roadmap version must increase monotonically''
                    else Inr (r\<lparr>rm_version := v\<rparr>)))"

subsection \<open>Lookups in a roadmap\<close>

lemma validate_item_ok [validator_simps]:
  "validate_item i = Inr () \<longleftrightarrow>
     is_item_id (ri_item_id i) \<and> \<not> blank (ri_title i) \<and> length (ri_title i) \<le> 4000 \<and>
     ri_objective_refs i \<noteq> [] \<and> list_all is_requirement_id (ri_objective_refs i) \<and>
     distinct (ri_depends_on i) \<and>
     ri_acceptance_criteria i \<noteq> [] \<and> \<not> list_ex blank (ri_acceptance_criteria i) \<and>
     \<not> blank (ri_risk_level i) \<and> 0 \<le> ri_priority i \<and> ri_priority i \<le> 1000 \<and>
     (\<forall>s. ri_superseded_by i = Some s \<longrightarrow> is_item_id s) \<and>
     (ri_status i \<noteq> Item_SUPERSEDED \<longrightarrow> ri_superseded_by i = None)"
  unfolding validate_item_def steps_ok
  by (cases "ri_superseded_by i")
    (simp_all add: list_all_iff list_ex_iff not_less not_le conj_assoc)

lemma map_fst_roadmap_edges [simp]: "map fst (roadmap_edges r) = item_ids r"
  by (simp add: roadmap_edges_def item_ids_def comp_def)

lemma closed_roadmap_edges:
  "closed_edges (roadmap_edges r) \<longleftrightarrow> (\<forall>i\<in>set (rm_items r). set (ri_depends_on i) \<subseteq> set (item_ids r))"
  by (auto simp: closed_edges_def list_all_iff) (auto simp: roadmap_edges_def)

text \<open>What an accepted roadmap satisfies, with cycle freedom of the dependency relation in
  place of the search\<close>

definition roadmap_wf :: "roadmap \<Rightarrow> bool" where
  "roadmap_wf r \<longleftrightarrow> rm_schema_version r = ''1.0'' \<and> is_roadmap_id (rm_roadmap_id r) \<and>
     \<not> blank (rm_version r) \<and> is_objective_id (rm_objective_id r) \<and>
     rm_items r \<noteq> [] \<and> length (rm_items r) \<le> 500 \<and> distinct (item_ids r) \<and>
     (\<forall>i\<in>set (rm_items r). validate_item i = Inr () \<and> set (ri_depends_on i) \<subseteq> set (item_ids r)) \<and>
     acyclic (edge_rel (roadmap_edges r))"

lemma roadmap_validate_wf: "roadmap_validate r = Inr () \<longleftrightarrow> roadmap_wf r"
proof -
  let ?loop = "for_each (\<lambda>i. steps [validate_item i,
       rm_check (\<not> list_all (\<lambda>d. d \<in> set (item_ids r)) (ri_depends_on i))
         (''item '' @ ri_item_id i @ '' has an unknown dependency'')]) (rm_items r)"
  have loop: "?loop = Inr () \<longleftrightarrow>
      (\<forall>i\<in>set (rm_items r). validate_item i = Inr () \<and> set (ri_depends_on i) \<subseteq> set (item_ids r))"
    by (auto simp: for_each_ok steps_ok list_all_iff)
  have acyc: "validate_acyclic e (roadmap_edges r) (sort (item_ids r)) = Inr () \<longleftrightarrow>
      acyclic (edge_rel (roadmap_edges r))"
    if "\<forall>i\<in>set (rm_items r). set (ri_depends_on i) \<subseteq> set (item_ids r)" for e
    using that by (intro validate_acyclic_iff) (simp_all add: closed_roadmap_edges)
  show ?thesis
    unfolding roadmap_validate_def roadmap_wf_def steps_ok
    using loop acyc by (auto simp: length_remdups_distinct)
qed

lemma find_item_Inr:
  "find_item r x = Inr i \<Longrightarrow> i \<in> set (rm_items r) \<and> ri_item_id i = x"
  unfolding find_item_def rm_error_def raise_def
  by (cases "filter (\<lambda>i. ri_item_id i = x) (rm_items r)")
    (auto split: list.splits dest!: filter_eq_ConsD)

lemma same_id_same_item:
  "distinct (item_ids r) \<Longrightarrow> i \<in> set (rm_items r) \<Longrightarrow> j \<in> set (rm_items r) \<Longrightarrow>
    ri_item_id i = ri_item_id j \<Longrightarrow> i = j"
  by (auto simp: item_ids_def distinct_map dest: inj_onD)

lemma filter_unique:
  "distinct (map f xs) \<Longrightarrow> x \<in> set xs \<Longrightarrow> filter (\<lambda>y. f y = f x) xs = [x]"
  by (induction xs) (auto simp: filter_empty_conv image_iff)

lemma find_item_known:
  "distinct (item_ids r) \<Longrightarrow> i \<in> set (rm_items r) \<Longrightarrow> find_item r (ri_item_id i) = Inr i"
  by (simp add: find_item_def item_ids_def filter_unique)

lemma find_item_iff:
  assumes "distinct (item_ids r)"
  shows "find_item r x = Inr i \<longleftrightarrow> i \<in> set (rm_items r) \<and> ri_item_id i = x"
  using find_item_Inr find_item_known [OF assms] by blast

lemma items_by_id_iff:
  assumes "distinct (item_ids r)"
  shows "items_by_id r x = Some i \<longleftrightarrow> i \<in> set (rm_items r) \<and> ri_item_id i = x"
proof -
  have "distinct (map fst (rev (map (\<lambda>i. (ri_item_id i, i)) (rm_items r))))"
    using assms by (simp add: item_ids_def comp_def rev_map [symmetric])
  then show ?thesis by (auto simp: items_by_id_def map_of_eq_Some_iff)
qed

text \<open>Item \<open>d\<close> is there and COMPLETED.\<close>

definition is_done :: "roadmap \<Rightarrow> string \<Rightarrow> bool" where
  "is_done r d \<longleftrightarrow> (\<exists>j\<in>set (rm_items r). ri_item_id j = d \<and> ri_status j = Item_COMPLETED)"

lemma is_done_iff:
  "distinct (item_ids r) \<Longrightarrow> j \<in> set (rm_items r) \<Longrightarrow>
    is_done r (ri_item_id j) \<longleftrightarrow> ri_status j = Item_COMPLETED"
  unfolding is_done_def by (metis same_id_same_item)

lemma deps_completed_wf:
  assumes "distinct (item_ids r)" and "set ds \<subseteq> set (item_ids r)"
  shows "deps_completed (items_by_id r) ds = Inr (list_all (is_done r) ds)"
  using assms(2)
proof (induction ds)
  case (Cons d ds)
  then obtain j where j: "j \<in> set (rm_items r)" "ri_item_id j = d"
    by (auto simp: item_ids_def)
  then have "items_by_id r d = Some j" by (simp add: items_by_id_iff [OF assms(1)])
  with Cons j is_done_iff [OF assms(1) j(1)] show ?case by auto
qed simp

subsection \<open>Transitions\<close>

lemma roadmap_wfD:
  assumes "roadmap_wf r"
  shows "distinct (item_ids r)"
    and "i \<in> set (rm_items r) \<Longrightarrow> set (ri_depends_on i) \<subseteq> set (item_ids r)"
    and "i \<in> set (rm_items r) \<Longrightarrow> validate_item i = Inr ()"
  using assms by (auto simp: roadmap_wf_def)

abbreviation put_item :: "roadmap \<Rightarrow> roadmap_item \<Rightarrow> roadmap" where
  "put_item r u \<equiv> r\<lparr>rm_items := map (\<lambda>i. if ri_item_id i = ri_item_id u then u else i) (rm_items r)\<rparr>"

lemma put_item_ids [simp]: "item_ids (put_item r u) = item_ids r"
  by (simp add: item_ids_def)

lemma set_put_item:
  assumes "distinct (item_ids r)" and "i \<in> set (rm_items r)" and "ri_item_id u = ri_item_id i"
  shows "set (rm_items (put_item r u)) = insert u (set (rm_items r) - {i})"
proof -
  have "ri_item_id j = ri_item_id u \<longleftrightarrow> j = i" if "j \<in> set (rm_items r)" for j
    using same_id_same_item [OF assms(1) that assms(2)] assms(3) by auto
  then have "set (rm_items (put_item r u)) = (\<lambda>j. if j = i then u else j) ` set (rm_items r)"
    by (auto simp: image_def)
  with assms(2) show ?thesis by auto
qed

lemma put_item_edges:
  assumes "distinct (item_ids r)" and "i \<in> set (rm_items r)"
    and "ri_item_id u = ri_item_id i" and "ri_depends_on u = ri_depends_on i"
  shows "roadmap_edges (put_item r u) = roadmap_edges r"
proof -
  have "ri_item_id j = ri_item_id u \<Longrightarrow> ri_depends_on j = ri_depends_on u"
    if "j \<in> set (rm_items r)" for j
    using same_id_same_item [OF assms(1) that assms(2)] assms(3,4) by simp
  then show ?thesis by (simp add: roadmap_edges_def)
qed

text \<open>Putting back a valid item with the identifier and the dependencies of an existing one
  keeps the roadmap valid, so the check that ends every operation passes.\<close>

lemma replace_item_wf:
  assumes r: "roadmap_wf r" and i: "i \<in> set (rm_items r)"
    and u: "ri_item_id u = ri_item_id i" "ri_depends_on u = ri_depends_on i"
    and v: "validate_item u = Inr ()"
  shows "replace_item r u = Inr (put_item r u)" and "roadmap_wf (put_item r u)"
proof -
  note d = roadmap_wfD(1) [OF r]
  have "\<forall>j\<in>set (rm_items (put_item r u)).
      validate_item j = Inr () \<and> set (ri_depends_on j) \<subseteq> set (item_ids r)"
    unfolding set_put_item [OF d i u(1)] using r v u i by (auto simp: roadmap_wf_def)
  then show w: "roadmap_wf (put_item r u)"
    using r put_item_edges [OF d i u] unfolding roadmap_wf_def put_item_ids by simp
  then show "replace_item r u = Inr (put_item r u)"
    by (simp add: replace_item_def roadmap_validate_wf [THEN iffD2])
qed

lemma validate_status_change:
  assumes "validate_item i = Inr ()" and "st \<in> set (item_targets (ri_status i))"
  shows "validate_item (i\<lparr>ri_status := st\<rparr>) = Inr ()"
  using assms by (cases "ri_status i") (auto simp: validate_item_ok)

lemma validate_superseded:
  assumes "validate_item i = Inr ()" and "is_item_id y"
  shows "validate_item (i\<lparr>ri_status := Item_SUPERSEDED, ri_superseded_by := Some y\<rparr>) = Inr ()"
  using assms by (auto simp: validate_item_ok)

lemma roadmap_transition_wf:
  assumes r: "roadmap_wf r"
  shows "roadmap_transition r x st = Inr r' \<longleftrightarrow>
    (\<exists>i\<in>set (rm_items r). ri_item_id i = x \<and> st \<in> set (item_targets (ri_status i)) \<and>
       (st = Item_COMPLETED \<longrightarrow> list_all (is_done r) (ri_depends_on i)) \<and>
       r' = put_item r (i\<lparr>ri_status := st\<rparr>))"
proof (cases "\<exists>i\<in>set (rm_items r). ri_item_id i = x")
  case False
  with find_item_Inr [of r x] show ?thesis
    unfolding roadmap_transition_def by (cases "find_item r x") auto
next
  case True
  then obtain i where i: "i \<in> set (rm_items r)" and x: "ri_item_id i = x" by blast
  note d = roadmap_wfD(1) [OF r]
  have f: "find_item r x = Inr i" using find_item_known [OF d i] x by simp
  have u: "replace_item r (i\<lparr>ri_status := st\<rparr>) = Inr (put_item r (i\<lparr>ri_status := st\<rparr>))"
    if "st \<in> set (item_targets (ri_status i))"
    using replace_item_wf(1) [OF r i] validate_status_change [OF roadmap_wfD(3) [OF r i] that] by simp
  have dc: "deps_completed (items_by_id r) (ri_depends_on i) =
      Inr (list_all (is_done r) (ri_depends_on i))"
    using deps_completed_wf [OF d roadmap_wfD(2) [OF r i]] .
  have one: "j = i" if "j \<in> set (rm_items r)" "ri_item_id j = x" for j
    using same_id_same_item [OF d that(1) i] that x by simp
  have "roadmap_transition r x st = Inr r' \<longleftrightarrow> st \<in> set (item_targets (ri_status i)) \<and>
     (st = Item_COMPLETED \<longrightarrow> list_all (is_done r) (ri_depends_on i)) \<and>
     r' = put_item r (i\<lparr>ri_status := st\<rparr>)"
    using u by (auto simp: roadmap_transition_def f dc rm_error_def raise_def)
  with i x one show ?thesis by blast
qed

lemma roadmap_supersede_wf:
  assumes r: "roadmap_wf r"
  shows "roadmap_supersede r x y = Inr r' \<longleftrightarrow>
    x \<noteq> y \<and> y \<in> set (item_ids r) \<and>
    (\<exists>i\<in>set (rm_items r). ri_item_id i = x \<and> ri_status i \<noteq> Item_SUPERSEDED \<and>
       r' = put_item r (i\<lparr>ri_status := Item_SUPERSEDED, ri_superseded_by := Some y\<rparr>))"
proof (cases "(\<exists>i\<in>set (rm_items r). ri_item_id i = x) \<and> (\<exists>j\<in>set (rm_items r). ri_item_id j = y)")
  case False
  then have "\<not> (\<exists>i j. find_item r x = Inr i \<and> find_item r y = Inr j)"
    using find_item_Inr by blast
  then have "\<nexists>r'. roadmap_supersede r x y = Inr r'"
    by (auto simp: roadmap_supersede_def and_then_ok rm_error_def split: if_splits)
  moreover have "\<not> (y \<in> set (item_ids r) \<and> (\<exists>i\<in>set (rm_items r). ri_item_id i = x))"
    using False by (auto simp: item_ids_def)
  ultimately show ?thesis by blast
next
  case True
  then obtain i j where i: "i \<in> set (rm_items r)" and x: "ri_item_id i = x"
    and j: "j \<in> set (rm_items r)" and y: "ri_item_id j = y" by blast
  note d = roadmap_wfD(1) [OF r]
  let ?u = "i\<lparr>ri_status := Item_SUPERSEDED, ri_superseded_by := Some y\<rparr>"
  have f: "find_item r x = Inr i" "find_item r y = Inr j"
    using find_item_known [OF d i] find_item_known [OF d j] x y by simp_all
  have "is_item_id y" using roadmap_wfD(3) [OF r j] y by (simp add: validate_item_ok)
  from validate_superseded [OF roadmap_wfD(3) [OF r i] this]
  have u: "replace_item r ?u = Inr (put_item r ?u)" by (intro replace_item_wf(1) [OF r i]) simp_all
  have one: "k = i" if "k \<in> set (rm_items r)" "ri_item_id k = x" for k
    using same_id_same_item [OF d that(1) i] that x by simp
  have "roadmap_supersede r x y = Inr r' \<longleftrightarrow>
      x \<noteq> y \<and> ri_status i \<noteq> Item_SUPERSEDED \<and> r' = put_item r ?u"
    using u by (auto simp: roadmap_supersede_def f rm_error_def raise_def)
  moreover have "y \<in> set (item_ids r)" using j y by (auto simp: item_ids_def)
  ultimately show ?thesis using i x one by blast
qed

subsection \<open>Histories of a roadmap\<close>

inductive roadmap_step :: "roadmap \<Rightarrow> roadmap \<Rightarrow> bool" where
  by_transition: "roadmap_transition r x st = Inr r' \<Longrightarrow> roadmap_step r r'"
| by_supersede: "roadmap_supersede r x y = Inr r' \<Longrightarrow> roadmap_step r r'"

inductive roadmap_reach :: "roadmap \<Rightarrow> roadmap \<Rightarrow> bool" where
  here: "roadmap_reach r r"
| more: "roadmap_reach r r' \<Longrightarrow> roadmap_step r' r'' \<Longrightarrow> roadmap_reach r r''"

interpretation item_life: lifecycle item_targets "[Item_SUPERSEDED]"
proof
  fix s show "s \<in> set [Item_SUPERSEDED] \<Longrightarrow> item_targets s = []" by simp
  show "s \<notin> set [Item_SUPERSEDED] \<Longrightarrow> item_targets s \<noteq> []" by (cases s) auto
qed

text \<open>One step replaces exactly one item \<open>i\<close> by \<open>u\<close>, itself with another status of the table.\<close>

definition item_step :: "roadmap \<Rightarrow> roadmap_item \<Rightarrow> roadmap_item \<Rightarrow> bool" where
  "item_step r i u \<longleftrightarrow> i \<in> set (rm_items r) \<and> ri_item_id u = ri_item_id i \<and>
     ri_depends_on u = ri_depends_on i \<and> ri_status u \<in> set (item_targets (ri_status i)) \<and>
     (ri_status u = Item_COMPLETED \<longrightarrow> list_all (is_done r) (ri_depends_on i)) \<and>
     validate_item u = Inr ()"

lemma roadmap_step_item:
  assumes r: "roadmap_wf r" and s: "roadmap_step r r'"
  shows "\<exists>i u. item_step r i u \<and> r' = put_item r u"
  using s
proof cases
  case (by_transition x st)
  then obtain i where i: "i \<in> set (rm_items r)" "st \<in> set (item_targets (ri_status i))"
    "st = Item_COMPLETED \<longrightarrow> list_all (is_done r) (ri_depends_on i)"
    "r' = put_item r (i\<lparr>ri_status := st\<rparr>)"
    unfolding roadmap_transition_wf [OF r] by blast
  have "item_step r i (i\<lparr>ri_status := st\<rparr>)"
    using i validate_status_change [OF roadmap_wfD(3) [OF r i(1)] i(2)] by (simp add: item_step_def)
  with i(4) show ?thesis by blast
next
  case (by_supersede x y)
  then obtain i where i: "i \<in> set (rm_items r)" "ri_status i \<noteq> Item_SUPERSEDED"
    "r' = put_item r (i\<lparr>ri_status := Item_SUPERSEDED, ri_superseded_by := Some y\<rparr>)"
    and y: "y \<in> set (item_ids r)"
    unfolding roadmap_supersede_wf [OF r] by blast
  from y have y: "is_item_id y" using roadmap_wfD(3) [OF r] by (auto simp: item_ids_def validate_item_ok)
  have "Item_SUPERSEDED \<in> set (item_targets (ri_status i))"
    using i(2) by (cases "ri_status i") auto
  then have "item_step r i (i\<lparr>ri_status := Item_SUPERSEDED, ri_superseded_by := Some y\<rparr>)"
    using i(1) validate_superseded [OF roadmap_wfD(3) [OF r i(1)] y] by (simp add: item_step_def)
  with i(3) show ?thesis by blast
qed

lemma item_step_wf: "roadmap_wf r \<Longrightarrow> item_step r i u \<Longrightarrow> roadmap_wf (put_item r u)"
  unfolding item_step_def by (intro replace_item_wf(2)) auto

lemma item_step_items:
  "roadmap_wf r \<Longrightarrow> item_step r i u \<Longrightarrow>
    set (rm_items (put_item r u)) = insert u (set (rm_items r) - {i})"
  unfolding item_step_def by (intro set_put_item roadmap_wfD(1)) auto

lemma roadmap_step_wf: "roadmap_wf r \<Longrightarrow> roadmap_step r r' \<Longrightarrow> roadmap_wf r'"
  using roadmap_step_item item_step_wf by blast

lemma roadmap_reach_wf: "roadmap_reach r r' \<Longrightarrow> roadmap_wf r \<Longrightarrow> roadmap_wf r'"
  by (induction rule: roadmap_reach.induct) (blast intro: roadmap_step_wf)+

text \<open>The dependencies of a COMPLETED item are COMPLETED, or have since been SUPERSEDED.\<close>

definition completed_grounded :: "roadmap \<Rightarrow> bool" where
  "completed_grounded r \<longleftrightarrow> (\<forall>i\<in>set (rm_items r). ri_status i = Item_COMPLETED \<longrightarrow>
     (\<forall>d\<in>set (ri_depends_on i). \<exists>j\<in>set (rm_items r). ri_item_id j = d \<and>
        ri_status j \<in> {Item_COMPLETED, Item_SUPERSEDED}))"

lemma completed_grounded_step:
  assumes r: "roadmap_wf r" and s: "roadmap_step r r'" and g: "completed_grounded r"
  shows "completed_grounded r'"
proof -
  from roadmap_step_item [OF r s] obtain i u where st: "item_step r i u" and r': "r' = put_item r u"
    by blast
  note new = item_step_items [OF r st, folded r']
  let ?ok = "\<lambda>r d. \<exists>j\<in>set (rm_items r). ri_item_id j = d \<and> ri_status j \<in> {Item_COMPLETED, Item_SUPERSEDED}"
  have mono: "?ok r' d" if "?ok r d" for d
  proof -
    from that obtain j where j: "j \<in> set (rm_items r)" "ri_item_id j = d"
      "ri_status j \<in> {Item_COMPLETED, Item_SUPERSEDED}" by blast
    show ?thesis
    proof (cases "j = i")
      case True
      with j st have "ri_status u = Item_SUPERSEDED \<and> ri_item_id u = d"
        by (cases "ri_status j") (auto simp: item_step_def)
      then show ?thesis unfolding new by blast
    next
      case False
      with j show ?thesis unfolding new by blast
    qed
  qed
  have "\<forall>d\<in>set (ri_depends_on k). ?ok r' d" if k: "k \<in> set (rm_items r')" "ri_status k = Item_COMPLETED" for k
  proof (cases "k = u")
    case True
    with k st have "\<forall>d\<in>set (ri_depends_on k). is_done r d" by (simp add: list_all_iff item_step_def)
    then show ?thesis using mono by (auto simp: is_done_def)
  next
    case False
    with k g have "\<forall>d\<in>set (ri_depends_on k). ?ok r d" by (auto simp: new completed_grounded_def)
    then show ?thesis using mono by blast
  qed
  then show ?thesis by (simp add: completed_grounded_def)
qed

text \<open>A SUPERSEDED item never changes again.\<close>

lemma superseded_frozen_step:
  assumes r: "roadmap_wf r" and s: "roadmap_step r r'"
    and j: "j \<in> set (rm_items r)" "ri_status j = Item_SUPERSEDED"
  shows "j \<in> set (rm_items r')"
proof -
  from roadmap_step_item [OF r s] obtain i u where st: "item_step r i u" and r': "r' = put_item r u"
    by blast
  with j(2) have "j \<noteq> i" by (auto simp: item_step_def)
  with j(1) show ?thesis unfolding item_step_items [OF r st, folded r'] by blast
qed

lemma superseded_frozen:
  "roadmap_reach r r' \<Longrightarrow> roadmap_wf r \<Longrightarrow> j \<in> set (rm_items r) \<Longrightarrow>
    ri_status j = Item_SUPERSEDED \<Longrightarrow> j \<in> set (rm_items r')"
proof (induction rule: roadmap_reach.induct)
  case (more r r' r'')
  then show ?case using superseded_frozen_step [of r' r'' j] roadmap_reach_wf [of r r'] by blast
qed

lemma completed_grounded_reach:
  "roadmap_reach r r' \<Longrightarrow> roadmap_wf r \<Longrightarrow> completed_grounded r \<Longrightarrow> completed_grounded r'"
proof (induction rule: roadmap_reach.induct)
  case (more r r' r'')
  then show ?case using completed_grounded_step [of r' r''] roadmap_reach_wf [of r r'] by blast
qed

subsection \<open>The eligible items\<close>

definition ready_now :: "roadmap \<Rightarrow> roadmap_item \<Rightarrow> bool" where
  "ready_now r i \<longleftrightarrow> ri_status i = Item_READY \<and> list_all (is_done r) (ri_depends_on i)"

abbreviation item_key :: "roadmap_item \<Rightarrow> int \<times> string" where
  "item_key i \<equiv> (ri_priority i, ri_item_id i)"

lemma eligible_from_wf:
  assumes r: "roadmap_wf r" and "set is \<subseteq> set (rm_items r)"
  shows "eligible_from (items_by_id r) is = Inr (filter (ready_now r) is)"
  using assms(2)
proof (induction "is")
  case (Cons i "is")
  then have "deps_completed (items_by_id r) (ri_depends_on i) = Inr (list_all (is_done r) (ri_depends_on i))"
    by (intro deps_completed_wf roadmap_wfD(1) [OF r] roadmap_wfD(2) [OF r]) simp
  with Cons show ?case by (simp add: ready_now_def)
qed simp

lemma eligible_items_wf:
  "roadmap_wf r \<Longrightarrow> eligible_items r = Inr (sort_key item_key (filter (ready_now r) (rm_items r)))"
  by (simp add: eligible_items_def eligible_from_wf)

lemma distinct_item_keys:
  assumes "distinct (item_ids r)"
  shows "distinct (map item_key (sort_key item_key (filter P (rm_items r))))"
proof -
  have "distinct (rm_items r)" "inj_on ri_item_id (set (rm_items r))"
    using assms by (simp_all add: item_ids_def distinct_map)
  then show ?thesis by (auto simp: distinct_map inj_on_def)
qed

lemma sorted_distinct_strict:
  "sorted (xs :: ('a::linorder) list) \<Longrightarrow> distinct xs \<Longrightarrow> sorted_wrt (<) xs"
  by (simp add: strict_sorted_iff)

subsection \<open>A roadmap to evaluate\<close>

definition sample_item :: "string \<Rightarrow> string list \<Rightarrow> item_status \<Rightarrow> int \<Rightarrow> roadmap_item" where
  "sample_item x ds st p = \<lparr>ri_item_id = x, ri_title = ''Title'', ri_objective_refs = [''requirement-1''],
     ri_depends_on = ds, ri_acceptance_criteria = [''done''], ri_risk_level = ''LOW'',
     ri_status = st, ri_superseded_by = None, ri_priority = p\<rparr>"

definition sample_roadmap :: roadmap where
  "sample_roadmap = \<lparr>rm_schema_version = ''1.0'', rm_roadmap_id = ''roadmap-1'', rm_version = ''1'',
     rm_objective_id = ''objective-1'',
     rm_items = [sample_item ''item-b'' [''item-a''] Item_READY 5,
                 sample_item ''item-a'' [] Item_COMPLETED 9,
                 sample_item ''item-c'' [] Item_READY 3,
                 sample_item ''item-d'' [''item-b'', ''item-c''] Item_IN_PROGRESS 1],
     rm_status = Roadmap_ACTIVE\<rparr>"

lemma sample_roadmap_valid: "roadmap_validate sample_roadmap = Inr ()"
  by code_simp

subsection \<open>Properties\<close>

text \<open>C18. Validation accepts exactly the well-formed roadmaps: header fields and items valid, item
  identifiers unique, dependencies known, and no cycle in the dependency relation, although the
  code looks for cycles by a recursive search with two sets.\<close>

theorem roadmap_validate_iff:
  "roadmap_validate r = Inr () \<longleftrightarrow>
     rm_schema_version r = ''1.0'' \<and> is_roadmap_id (rm_roadmap_id r) \<and> \<not> blank (rm_version r) \<and>
     is_objective_id (rm_objective_id r) \<and> rm_items r \<noteq> [] \<and> length (rm_items r) \<le> 500 \<and>
     distinct (item_ids r) \<and> list_all (\<lambda>i. validate_item i = Inr ()) (rm_items r) \<and>
     list_all (\<lambda>i. set (ri_depends_on i) \<subseteq> set (item_ids r)) (rm_items r) \<and>
     acyclic {(ri_item_id i, d) | i d. i \<in> set (rm_items r) \<and> d \<in> set (ri_depends_on i)}"
proof -
  have "edge_rel (roadmap_edges r) =
      {(ri_item_id i, d) | i d. i \<in> set (rm_items r) \<and> d \<in> set (ri_depends_on i)}"
    if "distinct (item_ids r)"
  proof -
    have "map_of (roadmap_edges r) x = Some ds \<longleftrightarrow> (x, ds) \<in> set (roadmap_edges r)" for x ds
      using that by (intro map_of_eq_Some_iff) simp
    then show ?thesis by (auto simp: edge_rel_def roadmap_edges_def)
  qed
  then show ?thesis unfolding roadmap_validate_wf roadmap_wf_def list_all_iff by auto
qed

text \<open>On a valid roadmap \<open>transition\<close> succeeds exactly for a known item, a status the table
  permits from its present one, and, for COMPLETED, when every dependency is COMPLETED; it
  then changes that item's status and nothing else, and the result is valid again.\<close>

theorem roadmap_transition_correct:
  assumes "roadmap_validate r = Inr ()"
  shows "roadmap_transition r x st = Inr r' \<longleftrightarrow>
    (\<exists>i\<in>set (rm_items r). ri_item_id i = x \<and> st \<in> set (item_targets (ri_status i)) \<and>
       (st = Item_COMPLETED \<longrightarrow> list_all (is_done r) (ri_depends_on i)) \<and>
       roadmap_validate r' = Inr () \<and>
       r' = r\<lparr>rm_items := map (\<lambda>j. if ri_item_id j = x then i\<lparr>ri_status := st\<rparr> else j) (rm_items r)\<rparr>)"
proof -
  have r: "roadmap_wf r" using assms by (simp add: roadmap_validate_wf)
  have "roadmap_wf r'" if "roadmap_transition r x st = Inr r'"
    using roadmap_step_wf [OF r] that by (blast intro: roadmap_step.by_transition)
  then show ?thesis using roadmap_transition_wf [OF r] unfolding roadmap_validate_wf by auto
qed

theorem roadmap_transition_correct_witness:
  "\<exists>i\<in>set (rm_items sample_roadmap). ri_item_id i = ''item-b'' \<and>
     Item_IN_PROGRESS \<in> set (item_targets (ri_status i))"
proof -
  have "is_ok (roadmap_transition sample_roadmap ''item-b'' Item_IN_PROGRESS)" by code_simp
  then obtain r' where "roadmap_transition sample_roadmap ''item-b'' Item_IN_PROGRESS = Inr r'"
    by (auto simp: is_ok_iff)
  with roadmap_transition_correct [OF sample_roadmap_valid] show ?thesis by blast
qed

text \<open>Whatever sequence of transitions and supersessions is applied to a valid roadmap in which
  the dependencies of COMPLETED items are COMPLETED or SUPERSEDED: it stays valid, that stays so,
  and an item once SUPERSEDED stays in it unchanged.\<close>

theorem roadmap_history_safe:
  assumes "roadmap_validate r = Inr ()" and "completed_grounded r" and "roadmap_reach r r'"
  shows "roadmap_validate r' = Inr () \<and> completed_grounded r' \<and>
    (\<forall>j\<in>set (rm_items r). ri_status j = Item_SUPERSEDED \<longrightarrow> j \<in> set (rm_items r'))"
  using assms unfolding roadmap_validate_wf
  by (simp add: roadmap_reach_wf completed_grounded_reach superseded_frozen)

theorem roadmap_history_safe_witness:
  "\<exists>r'. roadmap_transition sample_roadmap ''item-b'' Item_IN_PROGRESS = Inr r' \<and> completed_grounded r'"
proof -
  have "is_ok (roadmap_transition sample_roadmap ''item-b'' Item_IN_PROGRESS)" by code_simp
  then obtain r' where r': "roadmap_transition sample_roadmap ''item-b'' Item_IN_PROGRESS = Inr r'"
    by (auto simp: is_ok_iff)
  have g: "completed_grounded sample_roadmap"
    by (simp add: completed_grounded_def sample_roadmap_def sample_item_def)
  have "roadmap_reach sample_roadmap r'"
    using r' by (blast intro: roadmap_reach.intros roadmap_step.by_transition)
  from roadmap_history_safe [OF sample_roadmap_valid g this] r' show ?thesis by blast
qed

text \<open>The eligible items of a valid roadmap are exactly the READY items all of whose
  dependencies are COMPLETED, each once, in strictly increasing order of priority and identifier;
  computing them never fails.\<close>

theorem eligible_items_correct:
  assumes "roadmap_validate r = Inr ()"
  shows "\<exists>es. eligible_items r = Inr es \<and>
    set es = {i \<in> set (rm_items r). ri_status i = Item_READY \<and> list_all (is_done r) (ri_depends_on i)} \<and>
    sorted_wrt (<) (map (\<lambda>i. (ri_priority i, ri_item_id i)) es)"
proof -
  have r: "roadmap_wf r" using assms by (simp add: roadmap_validate_wf)
  let ?es = "sort_key item_key (filter (ready_now r) (rm_items r))"
  have "sorted_wrt (<) (map item_key ?es)"
    by (intro sorted_distinct_strict distinct_item_keys roadmap_wfD(1) [OF r]) simp
  then show ?thesis using eligible_items_wf [OF r] by (auto simp: ready_now_def)
qed

theorem eligible_items_correct_witness:
  "\<exists>es. eligible_items sample_roadmap = Inr es \<and> map ri_item_id es = [''item-c'', ''item-b''] \<and>
    sorted_wrt (<) (map (\<lambda>i. (ri_priority i, ri_item_id i)) es)"
proof -
  have "eligible_items sample_roadmap =
      Inr [sample_item ''item-c'' [] Item_READY 3, sample_item ''item-b'' [''item-a''] Item_READY 5]"
    by code_simp
  with eligible_items_correct [OF sample_roadmap_valid] show ?thesis
    by (auto simp: sample_item_def)
qed

lemma blocked_step:
  assumes r: "roadmap_wf r" and s: "roadmap_step r r'"
    and j: "j \<in> set (rm_items r)" "ri_status j = Item_SUPERSEDED"
    and i: "\<forall>i\<in>set (rm_items r). ri_item_id i = x \<longrightarrow>
      ri_item_id j \<in> set (ri_depends_on i) \<and> ri_status i \<noteq> Item_COMPLETED"
  shows "\<forall>i\<in>set (rm_items r'). ri_item_id i = x \<longrightarrow>
      ri_item_id j \<in> set (ri_depends_on i) \<and> ri_status i \<noteq> Item_COMPLETED"
proof -
  from roadmap_step_item [OF r s] obtain k u where st: "item_step r k u" and r': "r' = put_item r u"
    by blast
  have "\<not> is_done r (ri_item_id j)" using is_done_iff [OF roadmap_wfD(1) [OF r] j(1)] j(2) by simp
  then have "ri_item_id u = x \<longrightarrow> ri_item_id j \<in> set (ri_depends_on u) \<and> ri_status u \<noteq> Item_COMPLETED"
    using st i by (auto simp: item_step_def list_all_iff)
  then show ?thesis using i unfolding item_step_items [OF r st, folded r'] by blast
qed

text \<open>Superseding a dependency is final for its dependents: while an item is not COMPLETED and
  one of its dependencies is SUPERSEDED, no sequence of operations makes it COMPLETED, and it is
  never eligible, although the replacement named by \<open>superseded_by\<close> may complete.\<close>

theorem superseded_dependency_blocks:
  assumes "roadmap_validate r = Inr ()" and "roadmap_reach r r'"
    and "j \<in> set (rm_items r)" and "ri_status j = Item_SUPERSEDED"
    and "find_item r x = Inr i" and "ri_item_id j \<in> set (ri_depends_on i)"
    and "ri_status i \<noteq> Item_COMPLETED"
  shows "\<forall>i'\<in>set (rm_items r'). ri_item_id i' = x \<longrightarrow>
    ri_status i' \<noteq> Item_COMPLETED \<and> \<not> ready_now r' i'"
proof -
  have r: "roadmap_wf r" using assms(1) by (simp add: roadmap_validate_wf)
  let ?Q = "\<lambda>r. \<forall>i\<in>set (rm_items r). ri_item_id i = x \<longrightarrow>
      ri_item_id j \<in> set (ri_depends_on i) \<and> ri_status i \<noteq> Item_COMPLETED"
  have "?Q r" using assms(5-7) find_item_iff [OF roadmap_wfD(1) [OF r]] same_id_same_item [OF roadmap_wfD(1) [OF r]]
    by blast
  with assms(2) r assms(3,4) have "?Q r'"
  proof (induction rule: roadmap_reach.induct)
    case (more r1 r2 r3)
    then show ?case using blocked_step [of r2 r3 j x] roadmap_reach_wf superseded_frozen by blast
  qed
  moreover have "\<not> is_done r' (ri_item_id j)"
    using superseded_frozen [OF assms(2) r assms(3,4)] assms(4)
      is_done_iff [OF roadmap_wfD(1) [OF roadmap_reach_wf [OF assms(2) r]]] by auto
  ultimately show ?thesis by (auto simp: ready_now_def list_all_iff)
qed

definition sample_blocked :: roadmap where
  "sample_blocked = sample_roadmap\<lparr>rm_items :=
     [sample_item ''item-a'' [] Item_SUPERSEDED 1, sample_item ''item-b'' [''item-a''] Item_READY 1]\<rparr>"

theorem superseded_dependency_blocks_witness:
  "roadmap_validate sample_blocked = Inr () \<and>
    list_all (\<lambda>i. ri_item_id i = ''item-b'' \<longrightarrow>
      ri_status i \<noteq> Item_COMPLETED \<and> \<not> ready_now sample_blocked i) (rm_items sample_blocked)"
proof -
  have v: "roadmap_validate sample_blocked = Inr ()" by code_simp
  have "\<forall>i'\<in>set (rm_items sample_blocked). ri_item_id i' = ''item-b'' \<longrightarrow>
      ri_status i' \<noteq> Item_COMPLETED \<and> \<not> ready_now sample_blocked i'"
    by (rule superseded_dependency_blocks [OF v roadmap_reach.here,
          of "sample_item ''item-a'' [] Item_SUPERSEDED 1" "''item-b''"
             "sample_item ''item-b'' [''item-a''] Item_READY 1"])
      (simp_all add: sample_blocked_def sample_item_def find_item_def)
  with v show ?thesis by (simp add: list_all_iff)
qed

lemma isdigit_not_blank: "py_isdigit v \<Longrightarrow> \<not> blank v"
proof -
  have "isdigit_char c \<Longrightarrow> \<not> py_space c" for c
    by (auto simp: isdigit_char_def is_digit_def py_space_def Let_def)
  then show "py_isdigit v \<Longrightarrow> \<not> blank v"
    by (cases v) (auto simp: py_isdigit_def blank_def)
qed

text \<open>A revision keeps a valid roadmap valid, changes only its version, and the version number
  strictly increases.\<close>

theorem roadmap_revise_increases:
  assumes "roadmap_validate r = Inr ()" and "roadmap_revise r v = Inr r'"
  shows "roadmap_validate r' = Inr () \<and> rm_items r' = rm_items r \<and> rm_version r' = v \<and>
    (\<exists>old new. py_int (rm_version r) = Some old \<and> py_int v = Some new \<and> old < new)"
proof -
  from assms(2) obtain old new where v: "py_isdigit v" "py_int v = Some new"
    "py_int (rm_version r) = Some old" "old < new" "r' = r\<lparr>rm_version := v\<rparr>"
    by (auto simp: roadmap_revise_def rm_error_def split: if_splits option.splits)
  then have "roadmap_wf r'" using assms(1) isdigit_not_blank [OF v(1)]
    by (simp add: roadmap_validate_wf roadmap_wf_def item_ids_def roadmap_edges_def)
  with v show ?thesis by (simp add: roadmap_validate_wf)
qed

theorem roadmap_revise_increases_witness:
  "\<exists>r'. roadmap_revise sample_roadmap ''10'' = Inr r' \<and> roadmap_validate r' = Inr () \<and> rm_version r' = ''10''"
proof -
  have "is_ok (roadmap_revise sample_roadmap ''10'')" by code_simp
  then obtain r' where "roadmap_revise sample_roadmap ''10'' = Inr r'" by (auto simp: is_ok_iff)
  with roadmap_revise_increases [OF sample_roadmap_valid] show ?thesis by blast
qed

end
