(* ===== verification/RoadmapPath.thy ===== *)
theory RoadmapPath
  imports Roadmap
begin

section \<open>The critical path of a roadmap (Roadmap.critical_path)\<close>

text \<open>
  The longest dependency path, computed by a memoised recursion. The dictionary \<open>memo\<close> is an
  association list threaded through the calls in the order of the source. The first argument of
  \<open>cp_path\<close> is the number of Python frames that are left: the recursion of the source has no
  other bound, and running out of it is \<open>RecursionError\<close>. Each level takes two frames, that of \<open>path\<close>
  and that of the generator that \<open>sorted\<close> consumes; the frame of the key function, and that of the
  dictionary display at the beginning, return before the next of these is entered. The result is specified
  without memo and recursion: the greatest chain of dependencies by length and then by comparison of tuples.
  Twice as many frames as the roadmap has items are enough for every valid roadmap; a roadmap has at most
  500 items and the interpreter 1000 frames by default, some of which the callers have used, so they are
  not always there: a chain whose last item comes first in the order of identifiers needs all of them.
\<close>

type_synonym memo = "(string \<times> string list) list"

text \<open>\<open>max(b :: xs, key=k)\<close>: the first of the greatest\<close>

fun max_by :: "('a \<Rightarrow> 'k::linorder) \<Rightarrow> 'a \<Rightarrow> 'a list \<Rightarrow> 'a" where
  "max_by k b [] = b"
| "max_by k b (x # xs) = max_by k (if k b < k x then x else b) xs"

definition py_max :: "('a \<Rightarrow> 'k::linorder) \<Rightarrow> 'a list \<Rightarrow> 'a res" where
  "py_max k xs = (case xs of
     [] \<Rightarrow> raise ValueError ''max() arg is an empty sequence''
   | b # ys \<Rightarrow> Inr (max_by k b ys))"

definition path_key :: "string list \<Rightarrow> nat \<times> string list" where
  "path_key p = (length p, p)"

fun cp_path :: "nat \<Rightarrow> (string \<Rightarrow> roadmap_item option) \<Rightarrow> memo \<Rightarrow> string \<Rightarrow> (string list \<times> memo) res"
  and cp_paths :: "nat \<Rightarrow> (string \<Rightarrow> roadmap_item option) \<Rightarrow> memo \<Rightarrow> string list \<Rightarrow>
    (string list list \<times> memo) res"
where
  "cp_path 0 m memo x = raise RecursionError ''''"
| "cp_path (Suc n) m memo x = (case map_of memo x of
     Some p \<Rightarrow> Inr (p, memo)
   | None \<Rightarrow> (case m x of
       None \<Rightarrow> raise KeyError x
     | Some i \<Rightarrow> and_then
         (if ri_depends_on i = [] then Inr ([x], memo)
          else (case n of 0 \<Rightarrow> raise RecursionError ''''
            | Suc k \<Rightarrow> and_then (cp_paths k m memo (ri_depends_on i)) (\<lambda>(ps, memo').
                and_then (py_max path_key (sort ps)) (\<lambda>p. Inr (p @ [x], memo')))))
         (\<lambda>(p, memo'). Inr (p, (x, p) # memo'))))"
| "cp_paths n m memo [] = Inr ([], memo)"
| "cp_paths n m memo (d # ds) = and_then (cp_path n m memo d) (\<lambda>(p, memo').
     and_then (cp_paths n m memo' ds) (\<lambda>(ps, memo''). Inr (p # ps, memo'')))"

definition critical_path :: "nat \<Rightarrow> roadmap \<Rightarrow> string list res" where
  "critical_path depth r =
     (case depth of 0 \<Rightarrow> raise RecursionError ''''
      | Suc k \<Rightarrow> and_then (cp_paths k (items_by_id r) [] (sort (remdups (item_ids r))))
          (\<lambda>(ps, _). py_max path_key ps))"

subsection \<open>Maxima\<close>

lemma max_by_in: "max_by k b xs \<in> set (b # xs)"
  by (induction k b xs rule: max_by.induct) auto

lemma max_by_greatest: "x \<in> set (b # xs) \<Longrightarrow> k x \<le> k (max_by k b xs)"
proof (induction k b xs arbitrary: x rule: max_by.induct)
  case (2 k b y ys)
  let ?c = "if k b < k y then y else b"
  have "k b \<le> k ?c" "k y \<le> k ?c" by auto
  moreover have "k ?c \<le> k (max_by k ?c ys)" using "2.IH" [of ?c] by simp
  moreover have "x \<in> set ys \<Longrightarrow> k x \<le> k (max_by k ?c ys)" using "2.IH" [of x] by simp
  ultimately show ?case using "2.prems" by auto
qed simp

lemma py_max_ok: "py_max k xs = Inr p \<Longrightarrow> p \<in> set xs \<and> (\<forall>x\<in>set xs. k x \<le> k p)"
  using max_by_in [of k] max_by_greatest [of _ _ _ k]
  by (cases xs) (fastforce simp: py_max_def)+

lemma py_max_nonempty: "xs \<noteq> [] \<Longrightarrow> \<exists>p. py_max k xs = Inr p"
  by (cases xs) (simp_all add: py_max_def)

subsection \<open>Chains of dependencies\<close>

fun chain :: "(string \<Rightarrow> roadmap_item option) \<Rightarrow> string list \<Rightarrow> bool" where
  "chain m [] = True"
| "chain m [x] = (m x \<noteq> None)"
| "chain m (x # y # zs) = (m x \<noteq> None \<and> (\<exists>i. m y = Some i \<and> x \<in> set (ri_depends_on i)) \<and> chain m (y # zs))"

lemma chain_snoc:
  "chain m (p @ [x]) \<longleftrightarrow> chain m p \<and>
     (\<exists>i. m x = Some i \<and> (p \<noteq> [] \<longrightarrow> last p \<in> set (ri_depends_on i)))"
  by (induction m p rule: chain.induct) auto

lemma snoc_mono:
  "length p = length q \<Longrightarrow> p \<le> q \<Longrightarrow> p @ [x] \<le> q @ [x]" for x :: "'a::linorder"
  by (induction p q rule: list_induct2) auto

lemma path_key_mono: "path_key p \<le> path_key q \<Longrightarrow> path_key (p @ [x]) \<le> path_key (q @ [x])"
  by (auto simp: path_key_def less_eq_prod_def snoc_mono)

text \<open>\<open>p\<close> is the greatest chain that ends in \<open>x\<close>.\<close>

definition best_to :: "(string \<Rightarrow> roadmap_item option) \<Rightarrow> string \<Rightarrow> string list \<Rightarrow> bool" where
  "best_to m x p \<longleftrightarrow> p \<noteq> [] \<and> chain m p \<and> last p = x \<and>
     (\<forall>q. q \<noteq> [] \<and> chain m q \<and> last q = x \<longrightarrow> path_key q \<le> path_key p)"

definition memo_ok :: "(string \<Rightarrow> roadmap_item option) \<Rightarrow> memo \<Rightarrow> bool" where
  "memo_ok m memo \<longleftrightarrow> (\<forall>x p. map_of memo x = Some p \<longrightarrow> best_to m x p)"

lemma best_to_root:
  assumes "m x = Some i" and "ri_depends_on i = []"
  shows "best_to m x [x]"
proof -
  have "q = [x]" if "q \<noteq> []" "chain m q" "last q = x" for q
    using that assms by (cases q rule: rev_cases) (auto simp: chain_snoc)
  then show ?thesis using assms(1) by (auto simp: best_to_def)
qed

lemma best_to_step:
  assumes "m x = Some i" and "list_all2 (best_to m) (ri_depends_on i) ps"
    and "py_max path_key (sort ps) = Inr p"
  shows "best_to m x (p @ [x])"
proof -
  from py_max_ok [OF assms(3)] have p: "p \<in> set ps" and g: "\<forall>q\<in>set ps. path_key q \<le> path_key p"
    by auto
  from p assms(2) obtain d where d: "d \<in> set (ri_depends_on i)" "best_to m d p"
    by (metis list_all2_conv_all_nth in_set_conv_nth)
  have "path_key q \<le> path_key (p @ [x])" if q: "q \<noteq> []" "chain m q" "last q = x" for q
  proof -
    obtain q' where q': "q = q' @ [x]" using q by (metis append_butlast_last_id)
    have "path_key q' \<le> path_key p"
    proof (cases "q' = []")
      case False
      then have l: "last q' \<in> set (ri_depends_on i)" "chain m q'" using q(2) q' assms(1)
        by (auto simp: chain_snoc)
      then obtain p' where "p' \<in> set ps" "best_to m (last q') p'"
        using assms(2) by (metis list_all2_conv_all_nth in_set_conv_nth)
      then show ?thesis using g l False by (auto simp: best_to_def intro: order_trans)
    qed (simp add: path_key_def less_eq_prod_def Nil_le_Cons)
    then show ?thesis using path_key_mono q' by simp
  qed
  with d assms(1) show ?thesis by (auto simp: best_to_def chain_snoc)
qed

lemma cp_path_sound:
  "memo_ok m memo \<Longrightarrow> cp_path n m memo x = Inr (p, memo') \<Longrightarrow> best_to m x p \<and> memo_ok m memo'"
  "memo_ok m memo \<Longrightarrow> cp_paths n m memo ds = Inr (ps, memo') \<Longrightarrow>
    list_all2 (best_to m) ds ps \<and> memo_ok m memo'"
proof (induction n m memo x and n m memo ds arbitrary: p memo' and ps memo' rule: cp_path_cp_paths.induct)
  case (2 n m memo x)
  show ?case
  proof (cases "map_of memo x")
    case (Some q)
    with 2 show ?thesis by (auto simp: memo_ok_def)
  next
    case None
    with "2.prems" obtain i where i: "m x = Some i" by (auto split: option.splits)
    have "best_to m x p \<and> (\<exists>memo1. memo' = (x, p) # memo1 \<and> memo_ok m memo1)"
    proof (cases "ri_depends_on i = []")
      case True
      with 2 None i best_to_root [of m x i] show ?thesis by auto
    next
      case False
      with "2.prems" None i obtain k ps memo1 q where
        r: "n = Suc k" "cp_paths k m memo (ri_depends_on i) = Inr (ps, memo1)"
          "py_max path_key (sort ps) = Inr q" "p = q @ [x]" "memo' = (x, p) # memo1"
        by (auto simp: and_then_ok raise_def split: prod.splits nat.splits)
      from "2.IH" [OF None i False r(1) "2.prems"(1) r(2)] best_to_step [of m x i ps q] i r show ?thesis by simp
    qed
    then show ?thesis by (auto simp: memo_ok_def split: if_splits)
  qed
next
  case (4 n m memo d ds)
  then show ?case by (fastforce simp: and_then_ok split: prod.splits)
qed (simp_all)

text \<open>Two frames for each item of the longest chain but the first, and one for that, are enough.\<close>

lemma cp_path_returns:
  assumes closed: "\<And>y j d. m y = Some j \<Longrightarrow> d \<in> set (ri_depends_on j) \<Longrightarrow> m d \<noteq> None"
  shows "m x \<noteq> None \<Longrightarrow> (\<forall>q. chain m q \<and> q \<noteq> [] \<and> last q = x \<longrightarrow> 2 * length q \<le> Suc n) \<Longrightarrow>
      \<exists>r. cp_path n m memo x = Inr r"
    and "list_all (\<lambda>d. m d \<noteq> None) ds \<Longrightarrow>
      list_all (\<lambda>d. \<forall>q. chain m q \<and> q \<noteq> [] \<and> last q = d \<longrightarrow> 2 * length q \<le> Suc n) ds \<Longrightarrow>
      \<exists>r. cp_paths n m memo ds = Inr r"
  using closed
proof (induction n m memo x and n m memo ds rule: cp_path_cp_paths.induct)
  case (1 m memo x)
  then have "2 * length [x] \<le> Suc 0" by (metis chain.simps(2) last.simps list.discI)
  then show ?case by simp
next
  case (2 n m memo x)
  show ?case
  proof (cases "map_of memo x")
    case None
    from "2.prems"(1) obtain i where i: "m x = Some i" by auto
    show ?thesis
    proof (cases "ri_depends_on i = []")
      case False
      then obtain e where e: "e \<in> set (ri_depends_on i)" by (cases "ri_depends_on i") auto
      have up: "2 * length q + 2 \<le> Suc (Suc n)" if "d \<in> set (ri_depends_on i)" "chain m q \<and> q \<noteq> [] \<and> last q = d" for d q
      proof -
        have "chain m (q @ [x])" using that i by (simp add: chain_snoc)
        with "2.prems"(2) have "2 * length (q @ [x]) \<le> Suc (Suc n)" by (metis snoc_eq_iff_butlast)
        then show ?thesis by simp
      qed
      have "chain m [e]" using "2.prems"(3) [OF i e] by simp
      then obtain k where k: "n = Suc k" using up [OF e, of "[e]"] by (cases n) auto
      have "list_all (\<lambda>d. m d \<noteq> None) (ri_depends_on i)"
        using "2.prems"(3) i by (auto simp: list_all_iff)
      moreover have "list_all (\<lambda>d. \<forall>q. chain m q \<and> q \<noteq> [] \<and> last q = d \<longrightarrow> 2 * length q \<le> Suc k) (ri_depends_on i)"
        unfolding list_all_iff using up k by fastforce
      ultimately obtain ps memo1 where r: "cp_paths k m memo (ri_depends_on i) = Inr (ps, memo1)"
        using "2.IH" [OF None i False k] "2.prems"(3) by auto
      then have "ps \<noteq> []" using False by (cases "ri_depends_on i") (auto simp: and_then_ok split: prod.splits)
      then obtain p where "py_max path_key (sort ps) = Inr p"
        by (metis py_max_nonempty set_empty set_sort)
      with None i False r k show ?thesis by simp
    qed (use None i in simp)
  qed simp
next
  case (4 n m memo d ds)
  then obtain p memo1 where r: "cp_path n m memo d = Inr (p, memo1)" by auto
  with 4 have "\<exists>r. cp_paths n m memo1 ds = Inr r" by auto
  with r show ?case by auto
qed simp

lemma chain_edges:
  "chain m q \<Longrightarrow> successively (\<lambda>x y. \<exists>i. m y = Some i \<and> x \<in> set (ri_depends_on i)) q"
  by (induction m q rule: chain.induct) auto

lemma chain_known: "chain m q \<Longrightarrow> x \<in> set q \<Longrightarrow> m x \<noteq> None"
  by (induction m q rule: chain.induct) auto

lemma successively_trancl:
  "successively (\<lambda>x y. (y, x) \<in> R) (x # q) \<Longrightarrow> y \<in> set q \<Longrightarrow> (y, x) \<in> R\<^sup>+"
proof (induction q arbitrary: x)
  case (Cons z q)
  then have z: "(z, x) \<in> R" "successively (\<lambda>x y. (y, x) \<in> R) (z # q)" by auto
  show ?case
  proof (cases "y = z")
    case False
    with Cons z have "(y, z) \<in> R\<^sup>+" by auto
    with z(1) show ?thesis by (meson trancl_into_trancl)
  qed (use z in auto)
qed simp

lemma successively_acyclic_distinct:
  "acyclic R \<Longrightarrow> successively (\<lambda>x y. (y, x) \<in> R) q \<Longrightarrow> distinct q"
proof (induction q)
  case (Cons x q)
  then have "x \<notin> set q" using successively_trancl [of R x q x] by (auto simp: acyclic_def)
  with Cons show ?case by (cases q) auto
qed simp

lemma chain_short:
  assumes r: "roadmap_wf r" and c: "chain (items_by_id r) q"
  shows "length q \<le> length (rm_items r)"
proof -
  note d = roadmap_wfD(1) [OF r]
  have e: "(y, x) \<in> edge_rel (roadmap_edges r)"
    if "items_by_id r y = Some i" "x \<in> set (ri_depends_on i)" for x y i
  proof -
    have "(y, ri_depends_on i) \<in> set (roadmap_edges r)"
      using that(1) items_by_id_iff [OF d] by (auto simp: roadmap_edges_def)
    then show ?thesis using that(2) d by (auto simp: edge_rel_def)
  qed
  have "successively (\<lambda>x y. (y, x) \<in> edge_rel (roadmap_edges r)) q"
    using chain_edges [OF c] e by (auto elim!: successively_mono)
  then have "distinct q" using r by (auto simp: roadmap_wf_def intro: successively_acyclic_distinct)
  moreover have "set q \<subseteq> set (item_ids r)"
    using chain_known [OF c] items_by_id_iff [OF d] by (fastforce simp: item_ids_def)
  ultimately have "length q \<le> card (set (item_ids r))" by (metis List.finite_set card_mono distinct_card)
  also have "\<dots> \<le> length (rm_items r)" using card_length [of "item_ids r"] by (simp add: item_ids_def)
  finally show ?thesis .
qed

text \<open>C26. The critical path of a valid roadmap is computed without failing on any stack with at
  least twice as many frames left as it has items, and it is the greatest chain of dependencies of the
  roadmap: no other chain is longer, and it is the last in tuple order among the longest.\<close>

theorem critical_path_correct:
  assumes "roadmap_validate r = Inr ()" and "2 * length (rm_items r) \<le> depth"
  shows "\<exists>p. critical_path depth r = Inr p \<and> p \<noteq> [] \<and> chain (items_by_id r) p \<and>
    (\<forall>q. chain (items_by_id r) q \<longrightarrow> (length q, q) \<le> (length p, p))"
proof -
  have r: "roadmap_wf r" using assms(1) by (simp add: roadmap_validate_wf)
  note d = roadmap_wfD(1) [OF r]
  let ?m = "items_by_id r" and ?xs = "sort (remdups (item_ids r))"
  have known: "?m x \<noteq> None \<longleftrightarrow> x \<in> set (item_ids r)" for x
    using items_by_id_iff [OF d, of x] by (auto simp: item_ids_def)
  have closed: "?m d' \<noteq> None" if "?m y = Some j" "d' \<in> set (ri_depends_on j)" for y j d'
    using that items_by_id_iff [OF d] roadmap_wfD(2) [OF r] unfolding known by blast
  have "rm_items r \<noteq> []" using r by (simp add: roadmap_wf_def)
  then obtain k where k: "depth = Suc k" using assms(2) by (cases depth) auto
  have "2 * length q \<le> Suc k" if "chain ?m q" for q using chain_short [OF r that] assms(2) k by linarith
  then have "\<exists>res. cp_paths k ?m [] ?xs = Inr res"
    by (intro cp_path_returns(2) closed) (auto simp: list_all_iff known simp del: not_None_eq intro: order_trans)
  then obtain ps memo where ps: "cp_paths k ?m [] ?xs = Inr (ps, memo)" by auto
  have best: "list_all2 (best_to ?m) ?xs ps"
    using cp_path_sound(2) [OF _ ps] by (simp add: memo_ok_def)
  moreover have "?xs \<noteq> []" using r by (simp add: roadmap_wf_def item_ids_def flip: set_empty)
  ultimately have "ps \<noteq> []" by auto
  then obtain p where p: "py_max path_key ps = Inr p" using py_max_nonempty by blast
  note g = py_max_ok [OF p]
  from g best obtain x where x: "best_to ?m x p" by (metis list_all2_conv_all_nth in_set_conv_nth)
  have "path_key q \<le> path_key p" if q: "chain ?m q" for q
  proof (cases "q = []")
    case False
    then have "last q \<in> set ?xs" using chain_known [OF q] known by simp
    then obtain p' where "p' \<in> set ps" "best_to ?m (last q) p'"
      using best by (metis list_all2_conv_all_nth in_set_conv_nth)
    with g q False show ?thesis by (auto simp: best_to_def intro: order_trans)
  qed (simp add: path_key_def less_eq_prod_def)
  with x p ps k show ?thesis by (auto simp: critical_path_def best_to_def path_key_def)
qed

theorem critical_path_correct_witness:
  "\<exists>p. critical_path 8 sample_roadmap = Inr p \<and> p = [''item-a'', ''item-b'', ''item-d''] \<and>
    chain (items_by_id sample_roadmap) p"
proof -
  have l: "2 * length (rm_items sample_roadmap) \<le> 8" by (simp add: sample_roadmap_def)
  have "critical_path 8 sample_roadmap = Inr [''item-a'', ''item-b'', ''item-d'']" by code_simp
  with critical_path_correct [OF sample_roadmap_valid l] show ?thesis by simp
qed

subsection \<open>Deep chains\<close>

text \<open>\<open>q\<close> leads from an item down to one without dependencies, and each item on it has one dependency only.\<close>

fun sole_chain :: "(string \<Rightarrow> roadmap_item option) \<Rightarrow> string list \<Rightarrow> bool" where
  "sole_chain m [] = False"
| "sole_chain m [x] = (case m x of None \<Rightarrow> False | Some i \<Rightarrow> ri_depends_on i = [])"
| "sole_chain m (x # y # zs) = ((case m x of None \<Rightarrow> False | Some i \<Rightarrow> ri_depends_on i = [y]) \<and> sole_chain m (y # zs))"

lemma sole_chain_overflows: "sole_chain m q \<Longrightarrow> Suc n < 2 * length q \<Longrightarrow> cp_path n m [] (hd q) = raise RecursionError ''''"
proof (induction m q arbitrary: n rule: sole_chain.induct)
  case (3 m x y zs)
  show ?case
  proof (cases n)
    case (Suc j)
    show ?thesis
    proof (cases j)
      case (Suc k)
      then have "cp_path k m [] y = raise RecursionError ''''" using 3 \<open>n = Suc j\<close> by simp
      then show ?thesis using 3 \<open>n = Suc j\<close> Suc by (auto simp: raise_def split: option.splits)
    qed (use 3 Suc in \<open>auto simp: raise_def split: option.splits\<close>)
  qed simp
qed simp_all

text \<open>C27. 
  A valid roadmap whose first item in the order of identifiers is the end of a chain of \<open>n\<close> items, each with
  one dependency, has its critical path computed only on a stack with \<open>2 * n\<close> frames left: with fewer,
  \<open>critical_path\<close> raises \<open>RecursionError\<close>. A roadmap may have 500 items, the interpreter has 1000 frames.
\<close>

theorem deep_chain_overflows:
  assumes "roadmap_validate r = Inr ()" and "sole_chain (items_by_id r) q" and "hd q = hd (sort (item_ids r))"
    and "depth < 2 * length q"
  shows "critical_path depth r = raise RecursionError ''''"
proof (cases depth)
  case (Suc k)
  have r: "roadmap_wf r" using assms(1) by (simp add: roadmap_validate_wf)
  have "sort (remdups (item_ids r)) = sort (item_ids r)" using roadmap_wfD(1) [OF r] by (simp add: distinct_remdups_id)
  moreover have "sort (item_ids r) \<noteq> []" using r by (simp add: roadmap_wf_def item_ids_def flip: set_empty)
  ultimately have xs: "sort (remdups (item_ids r)) = hd q # tl (sort (item_ids r))" using assms(3) by simp
  have "cp_path k (items_by_id r) [] (hd q) = raise RecursionError ''''"
    using assms(2,4) Suc by (intro sole_chain_overflows) simp_all
  then show ?thesis by (simp add: critical_path_def Suc xs raise_def)
qed (simp add: critical_path_def)

definition backward_roadmap :: roadmap where
  "backward_roadmap = sample_roadmap\<lparr>rm_items := [sample_item ''item-a'' [''item-b''] Item_READY 1,
     sample_item ''item-b'' [''item-c''] Item_READY 1, sample_item ''item-c'' [] Item_READY 1]\<rparr>"

theorem deep_chain_overflows_witness: "critical_path 5 backward_roadmap = raise RecursionError ''''"
proof (rule deep_chain_overflows)
  show "roadmap_validate backward_roadmap = Inr ()" by code_simp
  show "sole_chain (items_by_id backward_roadmap) [''item-a'', ''item-b'', ''item-c'']" by code_simp
  show "hd [''item-a'', ''item-b'', ''item-c''] = hd (sort (item_ids backward_roadmap))" by code_simp
qed simp

end
