(* ===== verification/RoadmapCodec.thy ===== *)
theory RoadmapCodec
  imports Roadmap "HOL-Library.Monad_Syntax"
begin

section \<open>The JSON form of a roadmap (to_dict, roadmap_from_dict)\<close>

text \<open>
  \<open>to_dict\<close> prints a roadmap as an object; \<open>roadmap_from_dict\<close> checks the keys, builds the
  dataclasses inside a \<open>try\<close> (a missing key, a value that is not iterable or an unknown status
  is a \<open>RoadmapValidationError\<close> there, whose message ends in the text of that exception, left
  out here) and validates. A leaf of a wrong type gets past the \<open>try\<close> and makes the validator
  raise, in the source a \<open>TypeError\<close>, an \<open>AttributeError\<close> or the validator's own exception; the
  model reports \<open>TypeError\<close> for all of them before it validates.
\<close>

definition item_to_dict :: "roadmap_item \<Rightarrow> json" where
  "item_to_dict i = JObj [
     (''item_id'', JStr (ri_item_id i)),
     (''title'', JStr (ri_title i)),
     (''objective_refs'', enc_strs (ri_objective_refs i)),
     (''depends_on'', enc_strs (ri_depends_on i)),
     (''acceptance_criteria'', enc_strs (ri_acceptance_criteria i)),
     (''risk_level'', JStr (ri_risk_level i)),
     (''status'', JStr (item_status_value (ri_status i))),
     (''superseded_by'', enc_opt (ri_superseded_by i)),
     (''priority'', JInt (ri_priority i))]"

definition roadmap_to_dict :: "roadmap \<Rightarrow> json" where
  "roadmap_to_dict r = JObj [
     (''schema_version'', JStr (rm_schema_version r)),
     (''roadmap_id'', JStr (rm_roadmap_id r)),
     (''version'', JStr (rm_version r)),
     (''objective_id'', JStr (rm_objective_id r)),
     (''items'', JList (map item_to_dict (rm_items r))),
     (''status'', JStr (roadmap_status_value (rm_status r)))]"

text \<open>\<open>RoadmapItemStatus(v)\<close> and \<open>RoadmapStatus(v)\<close>\<close>

definition item_status_of :: "json \<Rightarrow> item_status option" where
  "item_status_of v = map_of (map (\<lambda>s. (JStr (item_status_value s), s))
     [Item_TODO, Item_READY, Item_IN_PROGRESS, Item_BLOCKED, Item_COMPLETED, Item_SUPERSEDED]) v"

definition roadmap_status_of :: "json \<Rightarrow> roadmap_status option" where
  "roadmap_status_of v = map_of (map (\<lambda>s. (JStr (roadmap_status_value s), s))
     [Roadmap_DRAFT, Roadmap_ACTIVE, Roadmap_SUPERSEDED]) v"

type_synonym raw_item = "json \<times> json \<times> json list \<times> json list \<times> json list \<times> json \<times> item_status \<times> json \<times> json"

definition item_fields :: "json \<Rightarrow> raw_item option" where
  "item_fields v = do {
     a \<leftarrow> field ''item_id'' v;
     b \<leftarrow> field ''title'' v;
     c \<leftarrow> field ''objective_refs'' v; c' \<leftarrow> tuple_of c;
     d \<leftarrow> field ''depends_on'' v; d' \<leftarrow> tuple_of d;
     e \<leftarrow> field ''acceptance_criteria'' v; e' \<leftarrow> tuple_of e;
     f \<leftarrow> field ''risk_level'' v;
     g \<leftarrow> field ''status'' v; st \<leftarrow> item_status_of g;
     Some (a, b, c', d', e', f, st, field_or JNull ''superseded_by'' v, field_or (JInt 100) ''priority'' v)}"

definition item_leaves :: "raw_item \<Rightarrow> roadmap_item option" where
  "item_leaves = (\<lambda>(a, b, c, d, e, f, st, g, h). do {
     a' \<leftarrow> the_str a; b' \<leftarrow> the_str b;
     c' \<leftarrow> decode_all the_str c; d' \<leftarrow> decode_all the_str d; e' \<leftarrow> decode_all the_str e;
     f' \<leftarrow> the_str f; g' \<leftarrow> opt_str g; h' \<leftarrow> the_int h;
     Some \<lparr>ri_item_id = a', ri_title = b', ri_objective_refs = c', ri_depends_on = d',
       ri_acceptance_criteria = e', ri_risk_level = f', ri_status = st, ri_superseded_by = g',
       ri_priority = h'\<rparr>})"

definition roadmap_keys :: "string list" where
  "roadmap_keys = [''schema_version'', ''roadmap_id'', ''version'', ''objective_id'', ''items'', ''status'']"

definition roadmap_fields :: "json \<Rightarrow> (json \<times> json \<times> json \<times> json \<times> raw_item list \<times> roadmap_status) option" where
  "roadmap_fields v = do {
     e \<leftarrow> field ''items'' v; es \<leftarrow> tuple_of e; is \<leftarrow> decode_all item_fields es;
     a \<leftarrow> field ''schema_version'' v; b \<leftarrow> field ''roadmap_id'' v; c \<leftarrow> field ''version'' v;
     d \<leftarrow> field ''objective_id'' v; f \<leftarrow> field ''status'' v; st \<leftarrow> roadmap_status_of f;
     Some (a, b, c, d, is, st)}"

definition roadmap_leaves :: "json \<times> json \<times> json \<times> json \<times> raw_item list \<times> roadmap_status \<Rightarrow> roadmap option" where
  "roadmap_leaves = (\<lambda>(a, b, c, d, is, st). do {
     a' \<leftarrow> the_str a; b' \<leftarrow> the_str b; c' \<leftarrow> the_str c; d' \<leftarrow> the_str d;
     is' \<leftarrow> decode_all item_leaves is;
     Some \<lparr>rm_schema_version = a', rm_roadmap_id = b', rm_version = c', rm_objective_id = d',
       rm_items = is', rm_status = st\<rparr>})"

definition roadmap_from_dict :: "json \<Rightarrow> roadmap res" where
  "roadmap_from_dict v =
     (if \<not> has_keys roadmap_keys v
      then rm_error ''roadmap schema is missing or contains unknown fields''
      else case roadmap_fields v of
        None \<Rightarrow> rm_error ''invalid roadmap structure: ''
      | Some raw \<Rightarrow> (case roadmap_leaves raw of
          None \<Rightarrow> raise TypeError ''''
        | Some r \<Rightarrow> and_then (roadmap_validate r) (\<lambda>_. Inr r)))"

lemma item_status_of_value [simp]: "item_status_of (JStr (item_status_value s)) = Some s"
  by (cases s) (simp_all add: item_status_of_def)

lemma roadmap_status_of_value [simp]: "roadmap_status_of (JStr (roadmap_status_value s)) = Some s"
  by (cases s) (simp_all add: roadmap_status_of_def)

lemma item_fields_to_dict:
  "item_fields (item_to_dict i) = Some (JStr (ri_item_id i), JStr (ri_title i),
     map JStr (ri_objective_refs i), map JStr (ri_depends_on i), map JStr (ri_acceptance_criteria i),
     JStr (ri_risk_level i), ri_status i, enc_opt (ri_superseded_by i), JInt (ri_priority i))"
  by (simp add: item_fields_def item_to_dict_def field_def field_or_def)

lemma item_roundtrip: "Option.bind (item_fields (item_to_dict i)) item_leaves = Some i"
  by (simp add: item_fields_to_dict item_leaves_def)

text \<open>Printing a roadmap and reading it back gives the same roadmap when it is valid, and the
  exception of its validation when it is not.\<close>

theorem roadmap_roundtrip:
  "roadmap_from_dict (roadmap_to_dict r) = and_then (roadmap_validate r) (\<lambda>_. Inr r)"
proof -
  obtain is' where i: "decode_all item_fields (map item_to_dict (rm_items r)) = Some is'"
    "decode_all item_leaves is' = Some (rm_items r)"
    using decode_all_two_stages [of item_fields item_to_dict item_leaves, OF item_roundtrip] by blast
  have "has_keys roadmap_keys (roadmap_to_dict r)"
    by (simp add: has_keys_def roadmap_keys_def roadmap_to_dict_def)
  moreover have "roadmap_fields (roadmap_to_dict r) = Some (JStr (rm_schema_version r),
      JStr (rm_roadmap_id r), JStr (rm_version r), JStr (rm_objective_id r), is', rm_status r)"
    using i(1) by (simp add: roadmap_fields_def roadmap_to_dict_def field_def tuple_of_def)
  moreover have "roadmap_leaves (JStr (rm_schema_version r), JStr (rm_roadmap_id r),
      JStr (rm_version r), JStr (rm_objective_id r), is', rm_status r) = Some r"
    using i(2) by (simp add: roadmap_leaves_def)
  ultimately show ?thesis by (simp add: roadmap_from_dict_def)
qed

end
