(* ===== verification/SchedulerModel.thy ===== *)
theory SchedulerModel
  imports Prelude Lifecycle "HOL-Library.Monad_Syntax"
begin

section \<open>Scheduler state (scheduler_models.py)\<close>

text \<open>
  The immutable state of one scheduler (\<open>SchedulerState\<close>, fields prefixed \<open>ss_\<close>), its validation,
  its lifecycle transition and its JSON form. Fields have the types the dataclass declares; the
  \<open>isinstance\<close> tests of the validator are the types, and matter for a JSON payload, whose wrongly
  typed leaves the model rejects with \<open>TypeError\<close> where the source raises that or the
  validator's exception.
\<close>

datatype scheduler_status = Sched_CREATED | Sched_RUNNING | Sched_PAUSED | Sched_BLOCKED
  | Sched_HUMAN_REQUIRED | Sched_COMPLETED | Sched_FAILED | Sched_CANCELLED

fun scheduler_status_value :: "scheduler_status \<Rightarrow> string" where
  "scheduler_status_value Sched_CREATED = ''CREATED''"
| "scheduler_status_value Sched_RUNNING = ''RUNNING''"
| "scheduler_status_value Sched_PAUSED = ''PAUSED''"
| "scheduler_status_value Sched_BLOCKED = ''BLOCKED''"
| "scheduler_status_value Sched_HUMAN_REQUIRED = ''HUMAN_REQUIRED''"
| "scheduler_status_value Sched_COMPLETED = ''COMPLETED''"
| "scheduler_status_value Sched_FAILED = ''FAILED''"
| "scheduler_status_value Sched_CANCELLED = ''CANCELLED''"

definition all_scheduler_statuses :: "scheduler_status list" where
  "all_scheduler_statuses = [Sched_CREATED, Sched_RUNNING, Sched_PAUSED, Sched_BLOCKED,
     Sched_HUMAN_REQUIRED, Sched_COMPLETED, Sched_FAILED, Sched_CANCELLED]"

record scheduler_state =
  ss_schema_version :: string
  ss_scheduler_id :: string
  ss_project_id :: string
  ss_roadmap_id :: string
  ss_roadmap_version :: string
  ss_status :: scheduler_status
  ss_current_item_id :: "string option"
  ss_created_at :: string
  ss_updated_at :: string
  ss_lease_owner :: "string option"
  ss_lease_expires_at :: "string option"
  ss_budget_limit :: int
  ss_budget_used :: int
  ss_blocking_issues :: "string list"
  ss_required_human_actions :: "string list"
  ss_event_sequence :: int

fun scheduler_targets :: "scheduler_status \<Rightarrow> scheduler_status list" where
  "scheduler_targets Sched_CREATED = [Sched_RUNNING, Sched_BLOCKED, Sched_HUMAN_REQUIRED, Sched_CANCELLED]"
| "scheduler_targets Sched_RUNNING = [Sched_PAUSED, Sched_BLOCKED, Sched_HUMAN_REQUIRED,
     Sched_COMPLETED, Sched_FAILED, Sched_CANCELLED]"
| "scheduler_targets Sched_PAUSED = [Sched_RUNNING, Sched_BLOCKED, Sched_HUMAN_REQUIRED, Sched_CANCELLED]"
| "scheduler_targets Sched_BLOCKED = [Sched_RUNNING, Sched_CANCELLED]"
| "scheduler_targets Sched_HUMAN_REQUIRED = [Sched_RUNNING, Sched_CANCELLED]"
| "scheduler_targets Sched_COMPLETED = []"
| "scheduler_targets Sched_FAILED = []"
| "scheduler_targets Sched_CANCELLED = []"

interpretation scheduler_life: lifecycle scheduler_targets "[Sched_COMPLETED, Sched_FAILED, Sched_CANCELLED]"
proof
  fix s
  show "s \<in> set [Sched_COMPLETED, Sched_FAILED, Sched_CANCELLED] \<Longrightarrow> scheduler_targets s = []" by auto
  show "s \<notin> set [Sched_COMPLETED, Sched_FAILED, Sched_CANCELLED] \<Longrightarrow> scheduler_targets s \<noteq> []"
    by (cases s) auto
qed

subsection \<open>Validation\<close>

abbreviation ss_check :: "bool \<Rightarrow> string \<Rightarrow> unit res" where
  "ss_check b m \<equiv> raise_if b SchedulerValidationError m"

definition ss_bounded_text :: "string \<Rightarrow> bool" where
  "ss_bounded_text v = (\<not> blank v \<and> length v \<le> 4000)"

definition ss_bounded_list :: "string \<Rightarrow> string list \<Rightarrow> bool \<Rightarrow> unit res" where
  "ss_bounded_list label vs allow_empty = steps [
     ss_check (length vs > 200) (label @ '' is invalid''),
     ss_check (\<not> allow_empty \<and> vs = []) (label @ '' is invalid''),
     ss_check (list_ex (\<lambda>v. \<not> ss_bounded_text v) vs) (label @ '' is invalid'')]"

definition scheduler_validate :: "scheduler_state \<Rightarrow> unit res" where
  "scheduler_validate s = steps [
     ss_check (ss_schema_version s \<noteq> ''1.0'') ''schema_version must be 1.0'',
     ss_check (\<not> id_match ''scheduler-'' (ss_scheduler_id s)) ''scheduler_id is invalid'',
     ss_check (\<not> id_match ''project-'' (ss_project_id s)) ''project_id is invalid'',
     ss_check (\<not> id_match ''roadmap-'' (ss_roadmap_id s)) ''roadmap_id is invalid'',
     ss_check (\<not> py_isdigit (ss_roadmap_version s)) ''roadmap_version is invalid'',
     ss_check (case ss_current_item_id s of None \<Rightarrow> False | Some i \<Rightarrow> \<not> id_match ''item-'' i)
       ''current_item_id is invalid'',
     ss_check (\<not> timestamp_match (ss_created_at s)) ''created_at is invalid'',
     ss_check (\<not> timestamp_match (ss_updated_at s)) ''updated_at is invalid'',
     ss_check (case ss_lease_owner s of None \<Rightarrow> False | Some o' \<Rightarrow> \<not> ss_bounded_text o')
       ''lease_owner is invalid'',
     ss_check (case ss_lease_expires_at s of None \<Rightarrow> False | Some t \<Rightarrow> \<not> timestamp_match t)
       ''lease_expires_at is invalid'',
     ss_check ((ss_lease_owner s = None) \<noteq> (ss_lease_expires_at s = None))
       ''lease owner and expiry must be paired'',
     ss_check (\<not> (0 \<le> ss_budget_limit s \<and> ss_budget_limit s \<le> 1000000000)) ''budget_limit is invalid'',
     ss_check (\<not> (0 \<le> ss_budget_used s \<and> ss_budget_used s \<le> ss_budget_limit s)) ''budget_used is invalid'',
     ss_bounded_list ''blocking_issues'' (ss_blocking_issues s) True,
     ss_bounded_list ''required_human_actions'' (ss_required_human_actions s) True,
     ss_check (ss_event_sequence s < 0) ''event_sequence is invalid'']"

definition scheduler_transition :: "scheduler_state \<Rightarrow> scheduler_status \<Rightarrow> scheduler_state res" where
  "scheduler_transition s st = and_then (scheduler_validate s) (\<lambda>_.
     if st \<notin> set (scheduler_targets (ss_status s))
     then raise SchedulerValidationError (''invalid scheduler transition: ''
       @ scheduler_status_value (ss_status s) @ '' -> '' @ scheduler_status_value st)
     else Inr (s\<lparr>ss_status := st, ss_event_sequence := ss_event_sequence s + 1\<rparr>))"

lemma ss_bounded_list_ok [validator_simps]:
  "ss_bounded_list l vs e = Inr () \<longleftrightarrow>
     length vs \<le> 200 \<and> (e \<or> vs \<noteq> []) \<and> list_all ss_bounded_text vs"
  unfolding ss_bounded_list_def steps_ok by (auto simp: list_all_iff list_ex_iff not_less)

text \<open>What the validator accepts\<close>

definition scheduler_ok :: "scheduler_state \<Rightarrow> bool" where
  "scheduler_ok s \<longleftrightarrow> ss_schema_version s = ''1.0'' \<and>
     id_match ''scheduler-'' (ss_scheduler_id s) \<and> id_match ''project-'' (ss_project_id s) \<and>
     id_match ''roadmap-'' (ss_roadmap_id s) \<and> py_isdigit (ss_roadmap_version s) \<and>
     pred_option (id_match ''item-'') (ss_current_item_id s) \<and>
     timestamp_match (ss_created_at s) \<and> timestamp_match (ss_updated_at s) \<and>
     pred_option ss_bounded_text (ss_lease_owner s) \<and>
     pred_option timestamp_match (ss_lease_expires_at s) \<and>
     ((ss_lease_owner s = None) = (ss_lease_expires_at s = None)) \<and>
     0 \<le> ss_budget_limit s \<and> ss_budget_limit s \<le> 1000000000 \<and>
     0 \<le> ss_budget_used s \<and> ss_budget_used s \<le> ss_budget_limit s \<and>
     length (ss_blocking_issues s) \<le> 200 \<and> list_all ss_bounded_text (ss_blocking_issues s) \<and>
     length (ss_required_human_actions s) \<le> 200 \<and> list_all ss_bounded_text (ss_required_human_actions s) \<and>
     0 \<le> ss_event_sequence s"

lemma scheduler_validate_ok [validator_simps]: "scheduler_validate s = Inr () \<longleftrightarrow> scheduler_ok s"
  unfolding scheduler_validate_def steps_ok scheduler_ok_def
  by (simp add: ss_bounded_list_ok not_less conj_assoc split: option.split)

lemma scheduler_transition_iff:
  "scheduler_transition s st = Inr s' \<longleftrightarrow>
     scheduler_ok s \<and> st \<in> set (scheduler_targets (ss_status s)) \<and>
     s' = s\<lparr>ss_status := st, ss_event_sequence := ss_event_sequence s + 1\<rparr>"
  by (auto simp: scheduler_transition_def and_then_ok scheduler_validate_ok)

lemma scheduler_transition_ok: "scheduler_transition s st = Inr s' \<Longrightarrow> scheduler_ok s'"
  by (auto simp: scheduler_transition_iff scheduler_ok_def)

lemma scheduler_transition_frame:
  "scheduler_transition s st = Inr s' \<Longrightarrow>
    ss_scheduler_id s' = ss_scheduler_id s \<and> ss_project_id s' = ss_project_id s \<and>
    ss_status s' = st \<and> ss_event_sequence s' = ss_event_sequence s + 1"
  by (auto simp: scheduler_transition_iff)

subsection \<open>A concrete scheduler\<close>

definition sample_scheduler :: scheduler_state where
  "sample_scheduler = \<lparr>ss_schema_version = ''1.0'', ss_scheduler_id = ''scheduler-a'',
     ss_project_id = ''project-a'', ss_roadmap_id = ''roadmap-a'', ss_roadmap_version = ''1'',
     ss_status = Sched_CREATED, ss_current_item_id = None,
     ss_created_at = ''2026-01-01T00:00:00Z'', ss_updated_at = ''2026-01-01T00:00:00Z'',
     ss_lease_owner = None, ss_lease_expires_at = None, ss_budget_limit = 10, ss_budget_used = 0,
     ss_blocking_issues = [], ss_required_human_actions = [], ss_event_sequence = 0\<rparr>"

lemma sample_scheduler_ok: "scheduler_ok sample_scheduler"
proof -
  have "scheduler_validate sample_scheduler = Inr ()" by code_simp
  then show ?thesis by (simp add: scheduler_validate_ok)
qed

end
