(* ===== verification/StoreCell.thy ===== *)
theory StoreCell
  imports Prelude
begin

section \<open>A file that holds one JSON value\<close>

text \<open>
  The stores of the program keep one JSON document per file: read and decoded under a lock,
  written to a temporary file and moved over the old one. A file is absent, holds no JSON, or
  holds a value; the write replaces it as a whole. Failures of the file system and of the lock
  (\<open>OSError\<close>, a timeout) are not modelled: a write that is reached succeeds. The locale states
  what a store relies on in its record's codec, and proves once what the store may conclude.
\<close>

datatype file_content = No_File | Not_Json | Json json

text \<open>\<open>None\<close> for an absent file, else the decoded value; \<open>not_json\<close> is what a text that is no
  JSON raises.\<close>

definition load_cell :: "(json \<Rightarrow> 's res) \<Rightarrow> exc \<Rightarrow> file_content \<Rightarrow> 's option res" where
  "load_cell dec not_json f = (case f of
     No_File \<Rightarrow> Inr None
   | Not_Json \<Rightarrow> Inl not_json
   | Json v \<Rightarrow> and_then (dec v) (\<lambda>s. Inr (Some s)))"

text \<open>The file holds the state \<open>s\<close>.\<close>

definition holds :: "(json \<Rightarrow> 's res) \<Rightarrow> file_content \<Rightarrow> 's \<Rightarrow> bool" where
  "holds dec f s \<longleftrightarrow> (\<exists>v. f = Json v \<and> dec v = Inr s)"

lemma load_cell_None [simp]: "load_cell dec e f = Inr None \<longleftrightarrow> f = No_File"
  by (auto simp: load_cell_def and_then_ok split: file_content.splits)

lemma load_cell_Some [simp]: "load_cell dec e f = Inr (Some s) \<longleftrightarrow> holds dec f s"
  by (auto simp: load_cell_def holds_def and_then_ok split: file_content.splits)

lemma holds_unique: "holds dec f s \<Longrightarrow> holds dec f t \<Longrightarrow> s = t"
  by (auto simp: holds_def)

locale json_codec =
  fixes enc :: "'s \<Rightarrow> json" and dec :: "json \<Rightarrow> 's res" and valid :: "'s \<Rightarrow> bool"
  assumes dec_enc: "valid s \<Longrightarrow> dec (enc s) = Inr s"
    and dec_valid: "dec v = Inr s \<Longrightarrow> valid s"
begin

lemma holds_written [simp]: "valid s \<Longrightarrow> holds dec (Json (enc s)) t \<longleftrightarrow> t = s"
  by (auto simp: holds_def dec_enc)

lemma holds_valid: "holds dec f s \<Longrightarrow> valid s"
  by (auto simp: holds_def dec_valid)

lemma load_after_write: "valid s \<Longrightarrow> load_cell dec e (Json (enc s)) = Inr (Some s)"
  by simp

lemma enc_inj: "valid s \<Longrightarrow> valid t \<Longrightarrow> enc s = enc t \<Longrightarrow> s = t"
  by (metis dec_enc sum.inject(2))

end

end
