(* ===== verification/SchedulerStore.thy ===== *)
theory SchedulerStore
  imports SchedulerModel StoreCell
begin

section \<open>Persistent schedulers and their commands (scheduler_models.py, scheduler_store.py, scheduler_commands.py)\<close>

text \<open>
  The JSON form of a scheduler state, the store that keeps it in one file (\<open>create\<close>, \<open>load\<close>,
  \<open>transition\<close>), and the command surface over the store. A store operation takes the store and
  returns the result and the store. The identity that the paths are built from is checked when a
  store is made.
\<close>

subsection \<open>JSON form\<close>

definition scheduler_to_dict :: "scheduler_state \<Rightarrow> json" where
  "scheduler_to_dict s = JObj [
     (''schema_version'', JStr (ss_schema_version s)),
     (''scheduler_id'', JStr (ss_scheduler_id s)),
     (''project_id'', JStr (ss_project_id s)),
     (''roadmap_id'', JStr (ss_roadmap_id s)),
     (''roadmap_version'', JStr (ss_roadmap_version s)),
     (''status'', JStr (scheduler_status_value (ss_status s))),
     (''current_item_id'', enc_opt (ss_current_item_id s)),
     (''created_at'', JStr (ss_created_at s)),
     (''updated_at'', JStr (ss_updated_at s)),
     (''lease_owner'', enc_opt (ss_lease_owner s)),
     (''lease_expires_at'', enc_opt (ss_lease_expires_at s)),
     (''budget_limit'', JInt (ss_budget_limit s)),
     (''budget_used'', JInt (ss_budget_used s)),
     (''blocking_issues'', enc_strs (ss_blocking_issues s)),
     (''required_human_actions'', enc_strs (ss_required_human_actions s)),
     (''event_sequence'', JInt (ss_event_sequence s))]"

definition scheduler_status_of :: "json \<Rightarrow> scheduler_status option" where
  "scheduler_status_of v = map_of (map (\<lambda>s. (JStr (scheduler_status_value s), s)) all_scheduler_statuses) v"

definition scheduler_keys :: "string list" where
  "scheduler_keys = [''schema_version'', ''scheduler_id'', ''project_id'', ''roadmap_id'',
     ''roadmap_version'', ''status'', ''current_item_id'', ''created_at'', ''updated_at'',
     ''lease_owner'', ''lease_expires_at'', ''budget_limit'', ''budget_used'', ''blocking_issues'',
     ''required_human_actions'', ''event_sequence'']"

text \<open>Inside the \<open>try\<close>: the status and the two tuples\<close>

definition scheduler_fields :: "json \<Rightarrow> (scheduler_status \<times> json list \<times> json list) option" where
  "scheduler_fields v = do {
     a \<leftarrow> field ''status'' v; st \<leftarrow> scheduler_status_of a;
     b \<leftarrow> field ''blocking_issues'' v; bs \<leftarrow> tuple_of b;
     c \<leftarrow> field ''required_human_actions'' v; cs \<leftarrow> tuple_of c;
     Some (st, bs, cs)}"

definition scheduler_leaves :: "json \<Rightarrow> scheduler_status \<times> json list \<times> json list \<Rightarrow> scheduler_state option" where
  "scheduler_leaves v = (\<lambda>(st, bs, cs). do {
     a \<leftarrow> Option.bind (field ''schema_version'' v) the_str;
     b \<leftarrow> Option.bind (field ''scheduler_id'' v) the_str;
     c \<leftarrow> Option.bind (field ''project_id'' v) the_str;
     d \<leftarrow> Option.bind (field ''roadmap_id'' v) the_str;
     e \<leftarrow> Option.bind (field ''roadmap_version'' v) the_str;
     g \<leftarrow> Option.bind (field ''current_item_id'' v) opt_str;
     h \<leftarrow> Option.bind (field ''created_at'' v) the_str;
     i \<leftarrow> Option.bind (field ''updated_at'' v) the_str;
     j \<leftarrow> Option.bind (field ''lease_owner'' v) opt_str;
     k \<leftarrow> Option.bind (field ''lease_expires_at'' v) opt_str;
     l \<leftarrow> Option.bind (field ''budget_limit'' v) the_int;
     m \<leftarrow> Option.bind (field ''budget_used'' v) the_int;
     n \<leftarrow> decode_all the_str bs;
     q \<leftarrow> decode_all the_str cs;
     r \<leftarrow> Option.bind (field ''event_sequence'' v) the_int;
     Some \<lparr>ss_schema_version = a, ss_scheduler_id = b, ss_project_id = c, ss_roadmap_id = d,
       ss_roadmap_version = e, ss_status = st, ss_current_item_id = g, ss_created_at = h,
       ss_updated_at = i, ss_lease_owner = j, ss_lease_expires_at = k, ss_budget_limit = l,
       ss_budget_used = m, ss_blocking_issues = n, ss_required_human_actions = q,
       ss_event_sequence = r\<rparr>})"

definition scheduler_from_dict :: "json \<Rightarrow> scheduler_state res" where
  "scheduler_from_dict v =
     (if \<not> has_keys scheduler_keys v
      then raise SchedulerValidationError ''scheduler schema is missing or contains unknown fields''
      else case scheduler_fields v of
        None \<Rightarrow> raise SchedulerValidationError ''invalid scheduler structure: ''
      | Some raw \<Rightarrow> (case scheduler_leaves v raw of
          None \<Rightarrow> raise TypeError ''''
        | Some s \<Rightarrow> and_then (scheduler_validate s) (\<lambda>_. Inr s)))"

lemma scheduler_status_of_value [simp]: "scheduler_status_of (JStr (scheduler_status_value s)) = Some s"
  by (cases s) (simp_all add: scheduler_status_of_def all_scheduler_statuses_def)

lemma scheduler_dec_enc:
  "scheduler_from_dict (scheduler_to_dict s) = and_then (scheduler_validate s) (\<lambda>_. Inr s)"
proof -
  let ?v = "scheduler_to_dict s"
  have "has_keys scheduler_keys ?v"
    by (simp add: has_keys_def scheduler_keys_def scheduler_to_dict_def)
  moreover have "scheduler_fields ?v =
      Some (ss_status s, map JStr (ss_blocking_issues s), map JStr (ss_required_human_actions s))"
    by (simp add: scheduler_fields_def scheduler_to_dict_def field_def tuple_of_def enc_strs_def)
  moreover have "scheduler_leaves ?v
      (ss_status s, map JStr (ss_blocking_issues s), map JStr (ss_required_human_actions s)) = Some s"
    by (simp add: scheduler_leaves_def scheduler_to_dict_def field_def)
  ultimately show ?thesis by (simp add: scheduler_from_dict_def)
qed

lemma scheduler_dec_ok: "scheduler_from_dict v = Inr s \<Longrightarrow> scheduler_ok s"
  by (auto simp: scheduler_from_dict_def and_then_ok scheduler_validate_ok split: if_splits option.splits)

interpretation scheduler_codec: json_codec scheduler_to_dict scheduler_from_dict scheduler_ok
proof
  fix s v
  show "scheduler_ok s \<Longrightarrow> scheduler_from_dict (scheduler_to_dict s) = Inr s"
    by (simp add: scheduler_dec_enc scheduler_validate_ok [THEN iffD2])
  show "scheduler_from_dict v = Inr s \<Longrightarrow> scheduler_ok s"
    by (rule scheduler_dec_ok)
qed

subsection \<open>The store\<close>

record scheduler_store =
  sto_project_id :: string
  sto_scheduler_id :: string
  sto_file :: file_content

definition bad_identity :: "string \<Rightarrow> string \<Rightarrow> bool" where
  "bad_identity p x = (\<not> starts_with p x \<or> CHR ''/'' \<in> set x \<or> CHR 0x5C \<in> set x)"

definition open_store :: "string \<Rightarrow> string \<Rightarrow> file_content \<Rightarrow> scheduler_store res" where
  "open_store p x f =
     (if bad_identity ''project-'' p then raise SchedulerStoreError ''project identity is invalid''
      else if bad_identity ''scheduler-'' x then raise SchedulerStoreError ''scheduler identity is invalid''
      else Inr \<lparr>sto_project_id = p, sto_scheduler_id = x, sto_file = f\<rparr>)"

definition load_handled :: "exc_class \<Rightarrow> bool" where
  "load_handled k = (is_value_error k \<or> k = OSError \<or> k = KeyError \<or> k = TypeError)"

definition load_unlocked :: "scheduler_store \<Rightarrow> scheduler_state option res" where
  "load_unlocked st = rethrow load_handled SchedulerStoreError ''invalid scheduler state: ''
     (load_cell scheduler_from_dict (Exc ValueError '''') (sto_file st))"

definition save_unlocked :: "scheduler_state \<Rightarrow> scheduler_store \<Rightarrow> scheduler_store" where
  "save_unlocked s st = st\<lparr>sto_file := Json (scheduler_to_dict s)\<rparr>"

definition validate_identity :: "scheduler_store \<Rightarrow> scheduler_state \<Rightarrow> unit res" where
  "validate_identity st s = steps [
     rethrow (\<lambda>k. k = SchedulerValidationError) SchedulerStoreError '''' (scheduler_validate s),
     raise_if (ss_project_id s \<noteq> sto_project_id st \<or> ss_scheduler_id s \<noteq> sto_scheduler_id st)
       SchedulerStoreError ''scheduler state identity does not match store'']"

definition store_create :: "scheduler_state \<Rightarrow> scheduler_store \<Rightarrow> scheduler_state res \<times> scheduler_store" where
  "store_create s st = (case validate_identity st s of
     Inl e \<Rightarrow> (Inl e, st)
   | Inr _ \<Rightarrow> (case load_unlocked st of
       Inl e \<Rightarrow> (Inl e, st)
     | Inr (Some old) \<Rightarrow>
         (if old = s then Inr old
          else raise SchedulerStoreError ''scheduler state already exists with different content'', st)
     | Inr None \<Rightarrow> (Inr s, save_unlocked s st)))"

definition store_load :: "scheduler_store \<Rightarrow> scheduler_state res" where
  "store_load st = and_then (load_unlocked st) (\<lambda>r. case r of
     None \<Rightarrow> raise SchedulerStoreError ''scheduler state was not found''
   | Some s \<Rightarrow> Inr s)"

definition store_transition ::
  "scheduler_status \<Rightarrow> scheduler_store \<Rightarrow> scheduler_state res \<times> scheduler_store" where
  "store_transition target st = (case store_load st of
     Inl e \<Rightarrow> (Inl e, st)
   | Inr s \<Rightarrow>
       if ss_status s = target then (Inr s, st)
       else (case rethrow (\<lambda>k. k = SchedulerValidationError) SchedulerStoreError ''''
                    (scheduler_transition s target) of
           Inl e \<Rightarrow> (Inl e, st)
         | Inr s' \<Rightarrow> (Inr s', save_unlocked s' st)))"

subsection \<open>Commands\<close>

datatype scheduler_command = Cmd_START | Cmd_PAUSE | Cmd_RESUME | Cmd_CANCEL | Cmd_STATUS | Cmd_AUDIT

fun command_value :: "scheduler_command \<Rightarrow> string" where
  "command_value Cmd_START = ''start''"
| "command_value Cmd_PAUSE = ''pause''"
| "command_value Cmd_RESUME = ''resume''"
| "command_value Cmd_CANCEL = ''cancel''"
| "command_value Cmd_STATUS = ''status''"
| "command_value Cmd_AUDIT = ''audit''"

definition command_of :: "string \<Rightarrow> scheduler_command option" where
  "command_of v = map_of (map (\<lambda>c. (command_value c, c))
     [Cmd_START, Cmd_PAUSE, Cmd_RESUME, Cmd_CANCEL, Cmd_STATUS, Cmd_AUDIT]) v"

record command_result =
  cr_command :: scheduler_command
  cr_state :: scheduler_state
  cr_changed :: bool
  cr_evidence :: "string list"

text \<open>\<open>_TARGETS\<close>; the two read commands have none.\<close>

fun command_target :: "scheduler_command \<Rightarrow> scheduler_status option" where
  "command_target Cmd_START = Some Sched_RUNNING"
| "command_target Cmd_PAUSE = Some Sched_PAUSED"
| "command_target Cmd_RESUME = Some Sched_RUNNING"
| "command_target Cmd_CANCEL = Some Sched_CANCELLED"
| "command_target _ = None"

fun allowed_command :: "scheduler_command \<Rightarrow> scheduler_status \<Rightarrow> bool" where
  "allowed_command Cmd_START st = (st = Sched_CREATED)"
| "allowed_command Cmd_PAUSE st = (st = Sched_RUNNING)"
| "allowed_command Cmd_RESUME st = (st \<in> {Sched_PAUSED, Sched_BLOCKED, Sched_HUMAN_REQUIRED})"
| "allowed_command Cmd_CANCEL st = (st \<notin> {Sched_COMPLETED, Sched_FAILED, Sched_CANCELLED})"
| "allowed_command _ st = False"

definition read_result :: "scheduler_command \<Rightarrow> scheduler_state \<Rightarrow> command_result" where
  "read_result c s = \<lparr>cr_command = c, cr_state = s, cr_changed = False,
     cr_evidence = [if c = Cmd_STATUS then ''status snapshot'' else ''audit snapshot'',
       ''event_sequence='' @ show_int (ss_event_sequence s)]\<rparr>"

definition command_evidence :: "scheduler_command \<Rightarrow> scheduler_state \<Rightarrow> string list" where
  "command_evidence c s = [''command='' @ command_value c,
     ''status='' @ scheduler_status_value (ss_status s),
     ''event_sequence='' @ show_int (ss_event_sequence s)]"

text \<open>\<open>except SchedulerStoreError as exc: raise SchedulerCommandError(str(exc))\<close>\<close>

definition as_command_error :: "'a res \<Rightarrow> 'a res" where
  "as_command_error = rethrow (\<lambda>k. k = SchedulerStoreError) SchedulerCommandError ''''"

definition execute_command :: "string \<Rightarrow> scheduler_store \<Rightarrow> command_result res \<times> scheduler_store" where
  "execute_command v st = (case command_of v of
     None \<Rightarrow> (raise SchedulerCommandError ''scheduler command is invalid'', st)
   | Some c \<Rightarrow> (case as_command_error (store_load st) of
       Inl e \<Rightarrow> (Inl e, st)
     | Inr s \<Rightarrow> (case command_target c of
         None \<Rightarrow> (Inr (read_result c s), st)
       | Some target \<Rightarrow>
           if ss_status s = target
           then (Inr \<lparr>cr_command = c, cr_state = s, cr_changed = False, cr_evidence = command_evidence c s\<rparr>, st)
           else if \<not> allowed_command c (ss_status s)
           then (raise SchedulerCommandError (''command '' @ command_value c @ '' is not allowed from ''
                   @ scheduler_status_value (ss_status s)), st)
           else (let (r, st') = store_transition target st in
             (as_command_error (and_then r (\<lambda>s'. Inr \<lparr>cr_command = c, cr_state = s', cr_changed = True,
                cr_evidence = command_evidence c s'\<rparr>)), st')))))"

subsection \<open>What an operation does to the file\<close>

lemma rethrow_Inl_iff: "(\<exists>e. rethrow h c m r = Inl e) \<longleftrightarrow> (\<exists>e. r = Inl e)"
  by (auto simp: rethrow_def split: sum.splits exc.splits)

lemma load_unlocked_held: "load_unlocked st = Inr (Some s) \<longleftrightarrow> holds scheduler_from_dict (sto_file st) s"
  by (simp add: load_unlocked_def)

lemma load_unlocked_none: "load_unlocked st = Inr None \<longleftrightarrow> sto_file st = No_File"
  by (simp add: load_unlocked_def)

lemma store_load_iff [simp]: "store_load st = Inr s \<longleftrightarrow> holds scheduler_from_dict (sto_file st) s"
  by (auto simp: store_load_def and_then_ok load_unlocked_held split: option.splits)

lemma validate_identity_iff:
  "validate_identity st s = Inr () \<longleftrightarrow>
     scheduler_ok s \<and> ss_project_id s = sto_project_id st \<and> ss_scheduler_id s = sto_scheduler_id st"
  unfolding validate_identity_def steps_ok by (auto simp: scheduler_validate_ok)

lemma holds_saved [simp]:
  "scheduler_ok s \<Longrightarrow> holds scheduler_from_dict (sto_file (save_unlocked s st)) t \<longleftrightarrow> t = s"
  by (simp add: save_unlocked_def)

text \<open>One permitted change of status, as the store makes it\<close>

definition advance :: "scheduler_status \<Rightarrow> scheduler_state \<Rightarrow> scheduler_state" where
  "advance st s = s\<lparr>ss_status := st, ss_event_sequence := ss_event_sequence s + 1\<rparr>"

lemma advance_status [simp]: "ss_status (advance t s) = t"
  by (simp add: advance_def)

lemma store_transition_held:
  assumes "holds scheduler_from_dict (sto_file st) s"
  shows "store_transition target st =
    (if ss_status s = target then (Inr s, st)
     else if target \<in> set (scheduler_targets (ss_status s))
     then (Inr (advance target s), save_unlocked (advance target s) st)
     else (raise SchedulerStoreError (''invalid scheduler transition: ''
             @ scheduler_status_value (ss_status s) @ '' -> '' @ scheduler_status_value target), st))"
proof -
  have ok: "scheduler_validate s = Inr ()"
    using scheduler_codec.holds_valid [OF assms] by (simp add: scheduler_validate_ok)
  have l: "store_load st = Inr s" using assms by simp
  show ?thesis
    by (simp add: store_transition_def l scheduler_transition_def ok rethrow_def raise_def advance_def)
qed

lemma store_transition_error: "store_load st = Inl e \<Longrightarrow> store_transition target st = (Inl e, st)"
  by (simp add: store_transition_def)

lemma advance_ok: "scheduler_ok s \<Longrightarrow> scheduler_ok (advance t s)"
  by (simp add: advance_def scheduler_ok_def)

text \<open>The command table is inside the lifecycle table.\<close>

lemma allowed_command_moves:
  "allowed_command c st \<Longrightarrow> command_target c = Some t \<Longrightarrow> st \<noteq> t \<Longrightarrow> t \<in> set (scheduler_targets st)"
  by (cases c; cases st) auto

datatype store_op = Op_Create scheduler_state | Op_Transition scheduler_status | Op_Command string

fun apply_op :: "store_op \<Rightarrow> scheduler_store \<Rightarrow> scheduler_store" where
  "apply_op (Op_Create s) st = snd (store_create s st)"
| "apply_op (Op_Transition t) st = snd (store_transition t st)"
| "apply_op (Op_Command v) st = snd (execute_command v st)"

lemma execute_command_store:
  "snd (execute_command v st) = st \<or> (\<exists>t. snd (execute_command v st) = snd (store_transition t st))"
  by (auto simp: execute_command_def Let_def case_prod_beta split: option.splits sum.splits)

lemma apply_op_held:
  assumes h: "holds scheduler_from_dict (sto_file st) s"
  shows "apply_op op st = st \<or>
    (\<exists>t\<in>set (scheduler_targets (ss_status s)). apply_op op st = save_unlocked (advance t s) st)"
proof -
  define moved where
    "moved st' \<longleftrightarrow> (\<exists>t\<in>set (scheduler_targets (ss_status s)). st' = save_unlocked (advance t s) st)" for st'
  have tr: "snd (store_transition t st) = st \<or> moved (snd (store_transition t st))"
    for t
  proof (cases "ss_status s = t \<or> t \<notin> set (scheduler_targets (ss_status s))")
    case True
    then have "snd (store_transition t st) = st" using store_transition_held [OF h, of t] by auto
    then show ?thesis ..
  next
    case False
    then have "snd (store_transition t st) = save_unlocked (advance t s) st"
      using store_transition_held [OF h, of t] by simp
    with False show ?thesis unfolding moved_def by blast
  qed
  have cr: "snd (store_create s' st) = st" for s'
  proof -
    have "load_unlocked st = Inr (Some s)" using h by (simp add: load_unlocked_held)
    then show ?thesis by (simp add: store_create_def split: sum.splits)
  qed
  have "apply_op op st = st \<or> moved (apply_op op st)"
  proof (cases op)
    case (Op_Create s')
    then show ?thesis using cr by simp
  next
    case (Op_Transition t)
    then show ?thesis using tr by simp
  next
    case (Op_Command v)
    from execute_command_store [of v st] show ?thesis
    proof
      assume "\<exists>t. snd (execute_command v st) = snd (store_transition t st)"
      then obtain t where "snd (execute_command v st) = snd (store_transition t st)" ..
      with tr [of t] show ?thesis by (simp add: Op_Command)
    qed (simp add: Op_Command)
  qed
  then show ?thesis by (simp add: moved_def)
qed

fun apply_ops :: "store_op list \<Rightarrow> scheduler_store \<Rightarrow> scheduler_store" where
  "apply_ops [] st = st"
| "apply_ops (op # ops) st = apply_ops ops (apply_op op st)"

lemma apply_ops_history:
  "holds scheduler_from_dict (sto_file st) s \<Longrightarrow>
    \<exists>ts. history scheduler_targets (ss_status s) ts \<and>
      holds scheduler_from_dict (sto_file (apply_ops ops st)) (fold advance ts s)"
proof (induction ops arbitrary: st s)
  case Nil
  then show ?case by (intro exI [of _ "[]"]) simp
next
  case (Cons op ops)
  from apply_op_held [OF Cons.prems] show ?case
  proof
    assume "apply_op op st = st"
    with Cons show ?thesis by simp
  next
    assume "\<exists>t\<in>set (scheduler_targets (ss_status s)). apply_op op st = save_unlocked (advance t s) st"
    then obtain t where t: "t \<in> set (scheduler_targets (ss_status s))"
      "apply_op op st = save_unlocked (advance t s) st" by blast
    have "scheduler_ok (advance t s)"
      using scheduler_codec.holds_valid [OF Cons.prems] by (rule advance_ok)
    then have "holds scheduler_from_dict (sto_file (apply_op op st)) (advance t s)" by (simp add: t(2))
    from Cons.IH [OF this] obtain ts where "history scheduler_targets (ss_status (advance t s)) ts"
      "holds scheduler_from_dict (sto_file (apply_ops ops (apply_op op st))) (fold advance ts (advance t s))"
      by blast
    with t show ?thesis by (intro exI [of _ "t # ts"]) simp
  qed
qed

lemma fold_advance:
  "fold advance ts s = s\<lparr>ss_status := last (ss_status s # ts),
     ss_event_sequence := ss_event_sequence s + int (length ts)\<rparr>"
  by (induction ts arbitrary: s) (simp_all add: advance_def)


lemma open_fresh_load: "sto_file st = No_File \<Longrightarrow> load_unlocked st = Inr None"
  by (simp add: load_unlocked_none)

lemma store_create_held:
  assumes "holds scheduler_from_dict (sto_file st) s"
  shows "store_create t st =
    (case validate_identity st t of Inl e \<Rightarrow> (Inl e, st)
     | Inr _ \<Rightarrow> (if s = t then Inr s
         else raise SchedulerStoreError ''scheduler state already exists with different content'', st))"
proof -
  have "load_unlocked st = Inr (Some s)" using assms by (simp add: load_unlocked_held)
  then show ?thesis by (simp add: store_create_def split: sum.split)
qed

lemma validate_identity_save [simp]: "validate_identity (save_unlocked s st) t = validate_identity st t"
  by (simp add: validate_identity_def save_unlocked_def)

lemma as_command_error_Inr [simp]: "as_command_error (Inr x) = Inr x"
  by (simp add: as_command_error_def)

lemma execute_command_held:
  assumes h: "holds scheduler_from_dict (sto_file st) s" and c: "command_of v = Some c"
  shows "execute_command v st =
    (case command_target c of
       None \<Rightarrow> (Inr (read_result c s), st)
     | Some t \<Rightarrow>
         if ss_status s = t
         then (Inr \<lparr>cr_command = c, cr_state = s, cr_changed = False, cr_evidence = command_evidence c s\<rparr>, st)
         else if allowed_command c (ss_status s)
         then (Inr \<lparr>cr_command = c, cr_state = advance t s, cr_changed = True,
                 cr_evidence = command_evidence c (advance t s)\<rparr>, save_unlocked (advance t s) st)
         else (raise SchedulerCommandError (''command '' @ command_value c @ '' is not allowed from ''
                 @ scheduler_status_value (ss_status s)), st))"
proof -
  have l: "store_load st = Inr s" using h by simp
  show ?thesis
  proof (cases "command_target c")
    case None
    then show ?thesis by (simp add: execute_command_def l c)
  next
    case (Some t)
    have "store_transition t st = (Inr (advance t s), save_unlocked (advance t s) st)"
      if "ss_status s \<noteq> t" "allowed_command c (ss_status s)"
      using that allowed_command_moves [OF that(2) Some] by (simp add: store_transition_held [OF h])
    then show ?thesis using Some by (simp add: execute_command_def l c)
  qed
qed

subsection \<open>Properties\<close>

text \<open>A store with no file yet\<close>

definition sample_store :: scheduler_store where
  "sample_store = \<lparr>sto_project_id = ''project-a'', sto_scheduler_id = ''scheduler-a'', sto_file = No_File\<rparr>"

lemma sample_held: "holds scheduler_from_dict (sto_file (save_unlocked sample_scheduler sample_store)) sample_scheduler"
  by (simp add: sample_scheduler_ok)

text \<open>Reading back what was written gives the state that was written, and only for states
  the validator accepts: on any other state the reader raises the validator's own error.\<close>

theorem scheduler_roundtrip:
  "scheduler_from_dict (scheduler_to_dict s) = and_then (scheduler_validate s) (\<lambda>_. Inr s)"
  by (rule scheduler_dec_enc)

text \<open>Creating a scheduler in an empty store keeps it: a load returns it, creating it again
  returns it and writes nothing, and creating any other state is refused and writes nothing.\<close>

theorem store_create_correct:
  assumes "sto_file st = No_File" "validate_identity st s = Inr ()"
  shows "\<exists>st'. store_create s st = (Inr s, st') \<and> store_load st' = Inr s \<and>
    store_create s st' = (Inr s, st') \<and>
    (\<forall>t. t \<noteq> s \<longrightarrow> (\<exists>e. store_create t st' = (Inl e, st')))"
proof -
  let ?st = "save_unlocked s st"
  have ok: "scheduler_ok s" using assms(2) by (simp add: validate_identity_iff)
  then have h: "holds scheduler_from_dict (sto_file ?st) s" by simp
  have "store_create s st = (Inr s, ?st)"
    using assms by (simp add: store_create_def open_fresh_load)
  moreover have "store_create s ?st = (Inr s, ?st)"
    using assms(2) by (simp add: store_create_held [OF h])
  moreover have "\<exists>e. store_create t ?st = (Inl e, ?st)" if "t \<noteq> s" for t
    using that by (auto simp: store_create_held [OF h] raise_def split: sum.split)
  ultimately show ?thesis using h by (intro exI [of _ ?st]) simp
qed

theorem store_create_correct_witness:
  "\<exists>st'. store_create sample_scheduler sample_store = (Inr sample_scheduler, st') \<and>
    store_load st' = Inr sample_scheduler \<and>
    store_create sample_scheduler st' = (Inr sample_scheduler, st') \<and>
    (\<forall>t. t \<noteq> sample_scheduler \<longrightarrow> (\<exists>e. store_create t st' = (Inl e, st')))"
proof (rule store_create_correct)
  show "sto_file sample_store = No_File" by (simp add: sample_store_def)
  show "validate_identity sample_store sample_scheduler = Inr ()" by code_simp
qed

text \<open>Whatever operations run on a store that holds a state, in whatever order and whether
  they succeed or fail, the file holds the initial state moved along a path of the lifecycle
  table: only the status and the event counter differ, and the counter has grown by exactly the
  number of changes of status.\<close>

theorem store_history_safe:
  assumes "holds scheduler_from_dict (sto_file st) s"
  shows "\<exists>ts. history scheduler_targets (ss_status s) ts \<and>
    store_load (apply_ops ops st) = Inr (s\<lparr>ss_status := last (ss_status s # ts),
      ss_event_sequence := ss_event_sequence s + int (length ts)\<rparr>)"
  using apply_ops_history [OF assms, of ops] by (simp add: fold_advance)

theorem store_history_safe_witness:
  "\<exists>ts. history scheduler_targets (ss_status sample_scheduler) ts \<and>
    store_load (apply_ops [Op_Command ''start'', Op_Command ''start'', Op_Transition Sched_CREATED,
        Op_Command ''cancel''] (save_unlocked sample_scheduler sample_store)) =
      Inr (sample_scheduler\<lparr>ss_status := last (ss_status sample_scheduler # ts),
        ss_event_sequence := ss_event_sequence sample_scheduler + int (length ts)\<rparr>)"
  by (rule store_history_safe [OF sample_held])

text \<open>A command on a stored scheduler does exactly one of three things: a read command, or a
  command whose target is the current status, returns the stored state and writes nothing; a
  permitted command writes and returns the state with the new status and the counter plus one;
  any other is refused and writes nothing. The table of permitted commands never asks for a
  change that the lifecycle forbids, so the store's own refusal never shows.\<close>

theorem execute_command_correct:
  assumes "holds scheduler_from_dict (sto_file st) s" "command_of v = Some c"
  shows "execute_command v st =
    (case command_target c of
       None \<Rightarrow> (Inr (read_result c s), st)
     | Some t \<Rightarrow>
         if ss_status s = t
         then (Inr \<lparr>cr_command = c, cr_state = s, cr_changed = False, cr_evidence = command_evidence c s\<rparr>, st)
         else if allowed_command c (ss_status s)
         then (Inr \<lparr>cr_command = c, cr_state = advance t s, cr_changed = True,
                 cr_evidence = command_evidence c (advance t s)\<rparr>, save_unlocked (advance t s) st)
         else (raise SchedulerCommandError (''command '' @ command_value c @ '' is not allowed from ''
                 @ scheduler_status_value (ss_status s)), st))"
  using assms by (rule execute_command_held)

theorem execute_command_correct_witness:
  "execute_command ''start'' (save_unlocked sample_scheduler sample_store) =
    (Inr \<lparr>cr_command = Cmd_START, cr_state = advance Sched_RUNNING sample_scheduler, cr_changed = True,
       cr_evidence = command_evidence Cmd_START (advance Sched_RUNNING sample_scheduler)\<rparr>,
     save_unlocked (advance Sched_RUNNING sample_scheduler) (save_unlocked sample_scheduler sample_store))"
proof -
  have "command_of ''start'' = Some Cmd_START" by code_simp
  from execute_command_correct [OF sample_held this] show ?thesis
    by (simp add: sample_scheduler_def)
qed

end
