(* ===== verification/SchedulerSelect.thy ===== *)
theory SchedulerSelect
  imports Roadmap SchedulerModel
begin

section \<open>Selection and recovery (scheduler_selection.py, scheduler_recovery.py)\<close>

text \<open>
  \<open>select_next\<close> leases at most one eligible roadmap item to a running scheduler;
  \<open>recover_expired_lease\<close> and \<open>recover_interruption\<close> pause one whose lease has run out or whose
  run was cut. Both are pure functions of the roadmap and the state.
\<close>

datatype selection_status = Sel_SELECTED | Sel_NO_ELIGIBLE | Sel_BLOCKED | Sel_HUMAN_REQUIRED

record selection_decision =
  sd_status :: selection_status
  sd_item_id :: "string option"
  sd_reason :: string
  sd_state :: scheduler_state

definition validate_request :: "string \<Rightarrow> string \<Rightarrow> int \<Rightarrow> unit res" where
  "validate_request owner expires cost = steps [
     raise_if (blank owner \<or> length owner > 4000) SelectionValidationError ''lease_owner is invalid'',
     raise_if (\<not> timestamp_match expires) SelectionValidationError ''lease_expires_at is invalid'',
     raise_if (cost \<le> 0) SelectionValidationError ''estimated_cost is invalid'']"

definition select_next ::
  "roadmap \<Rightarrow> scheduler_state \<Rightarrow> string \<Rightarrow> string \<Rightarrow> int \<Rightarrow> selection_decision res" where
  "select_next r s owner expires cost =
     (let decide = (\<lambda>st m. Inr \<lparr>sd_status = st, sd_item_id = None, sd_reason = m, sd_state = s\<rparr>) in
      and_then (roadmap_validate r) (\<lambda>_.
      and_then (scheduler_validate s) (\<lambda>_.
      and_then (validate_request owner expires cost) (\<lambda>_.
        if ss_status s = Sched_HUMAN_REQUIRED then decide Sel_HUMAN_REQUIRED ''human intervention is required''
        else if ss_status s \<noteq> Sched_RUNNING then decide Sel_BLOCKED ''scheduler is not RUNNING''
        else if ss_current_item_id s \<noteq> None \<or> ss_lease_owner s \<noteq> None
        then decide Sel_BLOCKED ''an active lease already exists''
        else if ss_budget_used s + cost > ss_budget_limit s
        then decide Sel_BLOCKED ''budget is insufficient''
        else and_then (eligible_items r) (\<lambda>es. case es of
          [] \<Rightarrow> decide Sel_NO_ELIGIBLE ''no eligible roadmap item''
        | i # _ \<Rightarrow>
          (let c = s\<lparr>ss_current_item_id := Some (ri_item_id i), ss_lease_owner := Some owner,
             ss_lease_expires_at := Some expires, ss_budget_used := ss_budget_used s + cost,
             ss_event_sequence := ss_event_sequence s + 1\<rparr>
           in and_then (scheduler_validate c) (\<lambda>_. Inr \<lparr>sd_status = Sel_SELECTED,
                sd_item_id = Some (ri_item_id i), sd_reason = ''eligible item leased'', sd_state = c\<rparr>)))))))"

datatype recovery_status = Rec_RECOVERED | Rec_ACTIVE | Rec_NO_LEASE | Rec_HUMAN_REQUIRED

record recovery_decision =
  rd_status :: recovery_status
  rd_state :: scheduler_state
  rd_reason :: string

definition recover_expired_lease :: "scheduler_state \<Rightarrow> string \<Rightarrow> recovery_decision res" where
  "recover_expired_lease s now = and_then (scheduler_validate s) (\<lambda>_.
     if \<not> timestamp_match now then raise SchedulerRecoveryError ''recovery timestamp is invalid''
     else if ss_status s = Sched_HUMAN_REQUIRED
     then Inr \<lparr>rd_status = Rec_HUMAN_REQUIRED, rd_state = s, rd_reason = ''human intervention is required''\<rparr>
     else (case ss_lease_expires_at s of
       None \<Rightarrow> Inr \<lparr>rd_status = Rec_NO_LEASE, rd_state = s, rd_reason = ''no active lease exists''\<rparr>
     | Some t \<Rightarrow>
         if now < t then Inr \<lparr>rd_status = Rec_ACTIVE, rd_state = s, rd_reason = ''lease is still active''\<rparr>
         else (let c = s\<lparr>ss_status := Sched_PAUSED, ss_current_item_id := None, ss_lease_owner := None,
                 ss_lease_expires_at := None, ss_event_sequence := ss_event_sequence s + 1\<rparr>
           in and_then (scheduler_validate c) (\<lambda>_. Inr \<lparr>rd_status = Rec_RECOVERED, rd_state = c,
                rd_reason = ''expired lease released; scheduler paused''\<rparr>))))"

definition recover_interruption :: "scheduler_state \<Rightarrow> recovery_decision res" where
  "recover_interruption s = and_then (scheduler_validate s) (\<lambda>_.
     if ss_status s = Sched_HUMAN_REQUIRED
     then Inr \<lparr>rd_status = Rec_HUMAN_REQUIRED, rd_state = s, rd_reason = ''human intervention is required''\<rparr>
     else if ss_status s \<noteq> Sched_RUNNING
     then Inr \<lparr>rd_status = Rec_NO_LEASE, rd_state = s, rd_reason = ''scheduler is not RUNNING''\<rparr>
     else and_then (scheduler_transition s Sched_PAUSED) (\<lambda>c.
       Inr \<lparr>rd_status = Rec_RECOVERED, rd_state = c, rd_reason = ''interruption recovered; scheduler paused''\<rparr>))"

subsection \<open>Lemmas\<close>

lemmas accepted = roadmap_validate_wf [THEN iffD2] scheduler_validate_ok [THEN iffD2]

lemma validate_request_ok [validator_simps]:
  "validate_request owner expires cost = Inr () \<longleftrightarrow>
     ss_bounded_text owner \<and> timestamp_match expires \<and> 0 < cost"
  unfolding validate_request_def steps_ok by (auto simp: ss_bounded_text_def not_less not_le)

text \<open>The state with a lease on item \<open>x\<close>, and the state whose lease was released\<close>

definition claimed :: "scheduler_state \<Rightarrow> string \<Rightarrow> string \<Rightarrow> string \<Rightarrow> int \<Rightarrow> scheduler_state" where
  "claimed s x owner expires cost = s\<lparr>ss_current_item_id := Some x, ss_lease_owner := Some owner,
     ss_lease_expires_at := Some expires, ss_budget_used := ss_budget_used s + cost,
     ss_event_sequence := ss_event_sequence s + 1\<rparr>"

definition released :: "scheduler_state \<Rightarrow> scheduler_state" where
  "released s = s\<lparr>ss_status := Sched_PAUSED, ss_current_item_id := None, ss_lease_owner := None,
     ss_lease_expires_at := None, ss_event_sequence := ss_event_sequence s + 1\<rparr>"

lemma claimed_ok:
  "scheduler_ok s \<Longrightarrow> id_match ''item-'' x \<Longrightarrow> ss_bounded_text owner \<Longrightarrow> timestamp_match expires \<Longrightarrow>
    0 < cost \<Longrightarrow> ss_budget_used s + cost \<le> ss_budget_limit s \<Longrightarrow> scheduler_ok (claimed s x owner expires cost)"
  by (simp add: scheduler_ok_def claimed_def)

lemma released_ok: "scheduler_ok s \<Longrightarrow> scheduler_ok (released s)"
  by (simp add: scheduler_ok_def released_def)

lemma ready_in_roadmap: "roadmap_wf r \<Longrightarrow> i \<in> set (rm_items r) \<Longrightarrow> id_match ''item-'' (ri_item_id i)"
  by (auto simp: roadmap_wf_def validate_item_ok is_item_id_def)

text \<open>The first eligible item is the least ready one.\<close>

definition first_ready :: "roadmap \<Rightarrow> roadmap_item \<Rightarrow> bool" where
  "first_ready r i \<longleftrightarrow> i \<in> set (rm_items r) \<and> ready_now r i \<and>
     (\<forall>j\<in>set (rm_items r). ready_now r j \<longrightarrow> item_key i \<le> item_key j)"

lemma eligible_first:
  assumes "roadmap_wf r" "eligible_items r = Inr (i # es)"
  shows "first_ready r i"
proof -
  have e: "sort_key item_key (filter (ready_now r) (rm_items r)) = i # es"
    using assms by (simp add: eligible_items_wf)
  have "sorted (map item_key (i # es))" by (metis e sorted_sort_key)
  moreover have "set (i # es) = {j \<in> set (rm_items r). ready_now r j}"
    by (metis e set_sort set_filter)
  ultimately show ?thesis by (auto simp: first_ready_def)
qed

lemma eligible_none: "roadmap_wf r \<Longrightarrow> eligible_items r = Inr [] \<longleftrightarrow> (\<forall>i\<in>set (rm_items r). \<not> ready_now r i)"
  by (simp add: eligible_items_wf sort_key_empty filter_empty_conv)

definition may_claim :: "scheduler_state \<Rightarrow> int \<Rightarrow> bool" where
  "may_claim s cost \<longleftrightarrow> ss_status s = Sched_RUNNING \<and> ss_current_item_id s = None \<and>
     ss_lease_owner s = None \<and> ss_budget_used s + cost \<le> ss_budget_limit s"

lemma select_next_refused:
  assumes "roadmap_wf r" "scheduler_ok s" "validate_request owner expires cost = Inr ()"
    and "\<not> may_claim s cost"
  shows "\<exists>d. select_next r s owner expires cost = Inr d \<and> sd_status d \<in> {Sel_BLOCKED, Sel_HUMAN_REQUIRED} \<and>
    sd_item_id d = None \<and> sd_state d = s"
  using assms
  by (auto simp: select_next_def accepted may_claim_def not_le Let_def)

lemma select_next_none:
  assumes "roadmap_wf r" "scheduler_ok s" "validate_request owner expires cost = Inr ()"
    and "may_claim s cost" and "\<forall>i\<in>set (rm_items r). \<not> ready_now r i"
  shows "\<exists>d. select_next r s owner expires cost = Inr d \<and> sd_status d = Sel_NO_ELIGIBLE \<and>
    sd_item_id d = None \<and> sd_state d = s"
proof -
  have "eligible_items r = Inr []" using assms by (simp add: eligible_none)
  then show ?thesis using assms
    by (simp add: select_next_def accepted may_claim_def Let_def)
qed

lemma select_next_claims:
  assumes "roadmap_wf r" "scheduler_ok s" "validate_request owner expires cost = Inr ()"
    and "may_claim s cost" and "i \<in> set (rm_items r)" "ready_now r i"
  shows "\<exists>d j. select_next r s owner expires cost = Inr d \<and> sd_status d = Sel_SELECTED \<and>
    first_ready r j \<and> sd_item_id d = Some (ri_item_id j) \<and>
    sd_state d = claimed s (ri_item_id j) owner expires cost \<and> scheduler_ok (sd_state d)"
proof -
  obtain es where es: "eligible_items r = Inr es" using assms(1) by (simp add: eligible_items_wf)
  with assms(1,5,6) have "es \<noteq> []" using eligible_none by fastforce
  then obtain j js where j: "eligible_items r = Inr (j # js)" using es by (cases es) auto
  with assms(1) have f: "first_ready r j" by (rule eligible_first)
  then have ok: "scheduler_ok (claimed s (ri_item_id j) owner expires cost)"
    using assms by (intro claimed_ok)
      (auto simp: validate_request_ok may_claim_def first_ready_def intro: ready_in_roadmap)
  with assms j have "select_next r s owner expires cost = Inr \<lparr>sd_status = Sel_SELECTED,
      sd_item_id = Some (ri_item_id j), sd_reason = ''eligible item leased'',
      sd_state = claimed s (ri_item_id j) owner expires cost\<rparr>"
    by (simp add: select_next_def accepted may_claim_def Let_def claimed_def [symmetric])
  with f ok show ?thesis by simp blast
qed

lemma recover_expired_cases:
  assumes "scheduler_ok s" "timestamp_match now"
  shows "recover_expired_lease s now =
    (if ss_status s = Sched_HUMAN_REQUIRED
     then Inr \<lparr>rd_status = Rec_HUMAN_REQUIRED, rd_state = s, rd_reason = ''human intervention is required''\<rparr>
     else (case ss_lease_expires_at s of
       None \<Rightarrow> Inr \<lparr>rd_status = Rec_NO_LEASE, rd_state = s, rd_reason = ''no active lease exists''\<rparr>
     | Some t \<Rightarrow>
         if now < t then Inr \<lparr>rd_status = Rec_ACTIVE, rd_state = s, rd_reason = ''lease is still active''\<rparr>
         else Inr \<lparr>rd_status = Rec_RECOVERED, rd_state = released s,
                rd_reason = ''expired lease released; scheduler paused''\<rparr>))"
  using assms released_ok [OF assms(1)]
  by (simp add: recover_expired_lease_def accepted Let_def released_def [symmetric] split: option.split)

lemma recover_interruption_cases:
  assumes "scheduler_ok s"
  shows "recover_interruption s =
    (if ss_status s = Sched_HUMAN_REQUIRED
     then Inr \<lparr>rd_status = Rec_HUMAN_REQUIRED, rd_state = s, rd_reason = ''human intervention is required''\<rparr>
     else if ss_status s \<noteq> Sched_RUNNING
     then Inr \<lparr>rd_status = Rec_NO_LEASE, rd_state = s, rd_reason = ''scheduler is not RUNNING''\<rparr>
     else Inr \<lparr>rd_status = Rec_RECOVERED,
       rd_state = s\<lparr>ss_status := Sched_PAUSED, ss_event_sequence := ss_event_sequence s + 1\<rparr>,
       rd_reason = ''interruption recovered; scheduler paused''\<rparr>)"
  using assms by (simp add: recover_interruption_def accepted scheduler_transition_def)

subsection \<open>Runs\<close>

text \<open>What the program does to one scheduler state: a change of status, a selection on whatever
  roadmap and request, or a recovery\<close>

inductive scheduler_step :: "scheduler_state \<Rightarrow> scheduler_state \<Rightarrow> bool" where
  by_transition: "scheduler_transition s st = Inr s' \<Longrightarrow> scheduler_step s s'"
| by_selection: "select_next r s owner expires cost = Inr d \<Longrightarrow> scheduler_step s (sd_state d)"
| by_expiry: "recover_expired_lease s now = Inr d \<Longrightarrow> scheduler_step s (rd_state d)"
| by_interruption: "recover_interruption s = Inr d \<Longrightarrow> scheduler_step s (rd_state d)"

inductive_cases scheduler_stepE: "scheduler_step s s'"

definition same_scheduler :: "scheduler_state \<Rightarrow> scheduler_state \<Rightarrow> bool" where
  "same_scheduler s t \<longleftrightarrow> ss_scheduler_id t = ss_scheduler_id s \<and> ss_project_id t = ss_project_id s \<and>
     ss_roadmap_id t = ss_roadmap_id s \<and> ss_roadmap_version t = ss_roadmap_version s \<and>
     ss_budget_limit t = ss_budget_limit s"

text \<open>One step does nothing, or counts one event and never gives budget back.\<close>

definition counted :: "scheduler_state \<Rightarrow> scheduler_state \<Rightarrow> bool" where
  "counted s t \<longleftrightarrow> same_scheduler s t \<and> ss_event_sequence t = ss_event_sequence s + 1 \<and>
     ss_budget_used s \<le> ss_budget_used t"

lemma select_next_valid:
  "select_next r s owner expires cost = Inr d \<Longrightarrow>
    roadmap_wf r \<and> scheduler_ok s \<and> validate_request owner expires cost = Inr ()"
  by (auto simp: select_next_def and_then_ok roadmap_validate_wf scheduler_validate_ok Let_def)

lemma select_next_step:
  assumes "select_next r s owner expires cost = Inr d"
  shows "scheduler_ok (sd_state d) \<and> (sd_state d = s \<or> counted s (sd_state d))"
proof -
  have v: "roadmap_wf r" "scheduler_ok s" "validate_request owner expires cost = Inr ()"
    using select_next_valid [OF assms] by auto
  show ?thesis
  proof (cases "may_claim s cost \<and> (\<exists>i\<in>set (rm_items r). ready_now r i)")
    case True
    then obtain i where i: "may_claim s cost" "i \<in> set (rm_items r)" "ready_now r i" by blast
    from select_next_claims [OF v i] assms v(3) show ?thesis
      by (auto simp: counted_def same_scheduler_def claimed_def validate_request_ok)
  next
    case False
    then have "sd_state d = s"
      using select_next_refused [OF v] select_next_none [OF v] assms by fastforce
    with v show ?thesis by simp
  qed
qed

lemma recover_expired_valid:
  "recover_expired_lease s now = Inr d \<Longrightarrow> scheduler_ok s \<and> timestamp_match now"
  by (auto simp: recover_expired_lease_def and_then_ok scheduler_validate_ok split: if_splits)

lemma recover_interruption_valid: "recover_interruption s = Inr d \<Longrightarrow> scheduler_ok s"
  by (auto simp: recover_interruption_def and_then_ok scheduler_validate_ok)

lemma released_counted: "counted s (released s)"
  by (simp add: counted_def same_scheduler_def released_def)

lemma transition_counted:
  "scheduler_transition s st = Inr s' \<Longrightarrow> counted s s'"
  by (auto simp: scheduler_transition_iff counted_def same_scheduler_def)

lemma recover_expired_step:
  assumes "recover_expired_lease s now = Inr d"
  shows "scheduler_ok (rd_state d) \<and> (rd_state d = s \<or> counted s (rd_state d))"
proof -
  have v: "scheduler_ok s" "timestamp_match now" using recover_expired_valid [OF assms] by auto
  have "rd_state d = s \<or> rd_state d = released s"
    using assms unfolding recover_expired_cases [OF v] by (auto split: if_splits option.splits)
  then show ?thesis using v released_ok released_counted by auto
qed

lemma recover_interruption_step:
  assumes "recover_interruption s = Inr d"
  shows "scheduler_ok (rd_state d) \<and> (rd_state d = s \<or> counted s (rd_state d))"
proof -
  have v: "scheduler_ok s" using recover_interruption_valid [OF assms] .
  have "rd_state d = s \<or> scheduler_transition s Sched_PAUSED = Inr (rd_state d)"
    using assms v unfolding recover_interruption_cases [OF v]
    by (auto simp: scheduler_transition_iff split: if_splits)
  then show ?thesis using v scheduler_transition_ok transition_counted by blast
qed

lemma scheduler_step_counted:
  assumes "scheduler_step s s'"
  shows "scheduler_ok s' \<and> (s' = s \<or> counted s s')"
  using assms
  by (cases rule: scheduler_stepE)
    (use scheduler_transition_ok transition_counted select_next_step recover_expired_step
      recover_interruption_step in blast)+

inductive scheduler_run :: "scheduler_state \<Rightarrow> scheduler_state list \<Rightarrow> scheduler_state \<Rightarrow> bool" where
  run_Nil: "scheduler_run s [] s"
| run_Cons: "scheduler_step s s' \<Longrightarrow> scheduler_run s' ss t \<Longrightarrow> scheduler_run s (s' # ss) t"

lemma scheduler_run_counted:
  "scheduler_run s ss t \<Longrightarrow> scheduler_ok s \<Longrightarrow>
    scheduler_ok t \<and> same_scheduler s t \<and> ss_budget_used s \<le> ss_budget_used t \<and>
    ss_event_sequence s \<le> ss_event_sequence t \<and>
    ss_event_sequence t \<le> ss_event_sequence s + int (length ss)"
proof (induction rule: scheduler_run.induct)
  case (run_Nil s)
  then show ?case by (simp add: same_scheduler_def)
next
  case (run_Cons s s' ss t)
  from scheduler_step_counted [OF run_Cons.hyps(1)] run_Cons.IH show ?case
    by (auto simp: counted_def same_scheduler_def)
qed

subsection \<open>Properties\<close>

text \<open>On valid input \<open>select_next\<close> never fails. It selects exactly when the scheduler is RUNNING
  without item or lease, the cost fits the budget and some READY item has all dependencies
  COMPLETED; it then leases the least such item by priority and identifier, charges the cost and
  counts one event, and the new state is valid. Otherwise it selects nothing and returns the
  state as it was.\<close>

theorem select_next_correct:
  assumes "roadmap_validate r = Inr ()" "scheduler_validate s = Inr ()"
    and "validate_request owner expires cost = Inr ()"
  shows "\<exists>d. select_next r s owner expires cost = Inr d \<and>
    (if may_claim s cost \<and> (\<exists>i\<in>set (rm_items r). ready_now r i)
     then sd_status d = Sel_SELECTED \<and> (\<exists>j. first_ready r j \<and> sd_item_id d = Some (ri_item_id j) \<and>
       sd_state d = claimed s (ri_item_id j) owner expires cost \<and> scheduler_validate (sd_state d) = Inr ())
     else sd_status d \<noteq> Sel_SELECTED \<and> sd_item_id d = None \<and> sd_state d = s)"
proof -
  have v: "roadmap_wf r" "scheduler_ok s" "validate_request owner expires cost = Inr ()"
    using assms by (simp_all add: roadmap_validate_wf scheduler_validate_ok)
  show ?thesis
  proof (cases "may_claim s cost")
    case True
    show ?thesis
    proof (cases "\<exists>i\<in>set (rm_items r). ready_now r i")
      case i: True
      then show ?thesis using select_next_claims [OF v True] True
        by (auto simp: scheduler_validate_ok)
    next
      case False
      then have "\<forall>i\<in>set (rm_items r). \<not> ready_now r i" by blast
      from select_next_none [OF v True this] False show ?thesis by auto
    qed
  next
    case False
    from select_next_refused [OF v False] False show ?thesis by auto
  qed
qed

definition running_scheduler :: scheduler_state where
  "running_scheduler = sample_scheduler\<lparr>ss_status := Sched_RUNNING, ss_event_sequence := 1\<rparr>"

theorem select_next_correct_witness:
  "\<exists>d. select_next sample_roadmap running_scheduler ''worker'' ''2026-01-01T01:00:00Z'' 4 = Inr d \<and>
     sd_status d = Sel_SELECTED"
proof -
  have "roadmap_validate sample_roadmap = Inr ()" by (rule sample_roadmap_valid)
  moreover have "scheduler_validate running_scheduler = Inr ()" by code_simp
  moreover have "validate_request ''worker'' ''2026-01-01T01:00:00Z'' 4 = Inr ()" by code_simp
  ultimately have "\<exists>d. select_next sample_roadmap running_scheduler ''worker'' ''2026-01-01T01:00:00Z'' 4 = Inr d \<and>
    (if may_claim running_scheduler 4 \<and> (\<exists>i\<in>set (rm_items sample_roadmap). ready_now sample_roadmap i)
     then sd_status d = Sel_SELECTED \<and> (\<exists>j. first_ready sample_roadmap j \<and> sd_item_id d = Some (ri_item_id j) \<and>
       sd_state d = claimed running_scheduler (ri_item_id j) ''worker'' ''2026-01-01T01:00:00Z'' 4 \<and>
       scheduler_validate (sd_state d) = Inr ())
     else sd_status d \<noteq> Sel_SELECTED \<and> sd_item_id d = None \<and> sd_state d = running_scheduler)"
    by (rule select_next_correct)
  moreover have "may_claim running_scheduler 4 \<and> (\<exists>i\<in>set (rm_items sample_roadmap). ready_now sample_roadmap i)"
    by code_simp
  ultimately show ?thesis by auto
qed

text \<open>A lease is exclusive: after a selection every further selection, on any roadmap and by
  any worker, is refused and changes nothing, until the state is changed by something else.\<close>

theorem selection_is_exclusive:
  assumes "select_next r s owner expires cost = Inr d" "sd_status d = Sel_SELECTED"
    and "select_next r' (sd_state d) owner' expires' cost' = Inr d'"
  shows "sd_status d' = Sel_BLOCKED \<and> sd_state d' = sd_state d"
proof -
  have v: "roadmap_wf r" "scheduler_ok s" "validate_request owner expires cost = Inr ()"
    using select_next_valid [OF assms(1)] by auto
  have "may_claim s cost \<and> (\<exists>i\<in>set (rm_items r). ready_now r i)"
    using select_next_refused [OF v] select_next_none [OF v] assms(1,2) by fastforce
  then obtain i where i: "may_claim s cost" "i \<in> set (rm_items r)" "ready_now r i" by blast
  from select_next_claims [OF v i] obtain e and j :: roadmap_item where "select_next r s owner expires cost = Inr e"
    "sd_state e = claimed s (ri_item_id j) owner expires cost" by blast
  with assms(1) have "sd_state d = claimed s (ri_item_id j) owner expires cost" by simp
  moreover have "ss_status s = Sched_RUNNING" using i(1) by (simp add: may_claim_def)
  ultimately show ?thesis using assms(3) by (auto simp: select_next_def and_then_ok Let_def claimed_def)
qed

theorem selection_is_exclusive_witness:
  "\<exists>d d'. select_next sample_roadmap running_scheduler ''worker'' ''2026-01-01T01:00:00Z'' 4 = Inr d \<and>
    select_next sample_roadmap (sd_state d) ''other'' ''2026-01-01T02:00:00Z'' 1 = Inr d' \<and>
    sd_status d' = Sel_BLOCKED \<and> sd_state d' = sd_state d"
proof -
  have "(case select_next sample_roadmap running_scheduler ''worker'' ''2026-01-01T01:00:00Z'' 4 of
      Inl _ \<Rightarrow> False | Inr d \<Rightarrow> sd_status d = Sel_SELECTED \<and>
        is_ok (select_next sample_roadmap (sd_state d) ''other'' ''2026-01-01T02:00:00Z'' 1))" by code_simp
  then obtain d d' where
    d: "select_next sample_roadmap running_scheduler ''worker'' ''2026-01-01T01:00:00Z'' 4 = Inr d"
    "sd_status d = Sel_SELECTED" and d': "select_next sample_roadmap (sd_state d) ''other'' ''2026-01-01T02:00:00Z'' 1 = Inr d'"
    by (auto simp: is_ok_iff split: sum.splits)
  from selection_is_exclusive [OF d d'] d d' show ?thesis by blast
qed

text \<open>Whatever run of transitions, selections and recoveries a valid scheduler goes through, it
  stays valid and the same scheduler of the same roadmap with the same budget; budget is only
  spent, never beyond the limit, and the event counter never falls and grows by at most one per step.\<close>

theorem scheduler_run_safe:
  assumes "scheduler_run s ss t" "scheduler_validate s = Inr ()"
  shows "scheduler_validate t = Inr () \<and> same_scheduler s t \<and>
    ss_budget_used s \<le> ss_budget_used t \<and> ss_budget_used t \<le> ss_budget_limit s \<and>
    ss_event_sequence s \<le> ss_event_sequence t \<and>
    ss_event_sequence t \<le> ss_event_sequence s + int (length ss)"
proof -
  have "scheduler_ok t \<and> same_scheduler s t \<and> ss_budget_used s \<le> ss_budget_used t \<and>
    ss_event_sequence s \<le> ss_event_sequence t \<and> ss_event_sequence t \<le> ss_event_sequence s + int (length ss)"
    using scheduler_run_counted [OF assms(1)] assms(2) by (simp add: scheduler_validate_ok)
  moreover from this have "ss_budget_used t \<le> ss_budget_limit s"
    by (simp add: scheduler_ok_def same_scheduler_def)
  ultimately show ?thesis by (simp add: scheduler_validate_ok)
qed

lemma run_snoc: "scheduler_run s ss t \<Longrightarrow> scheduler_step t u \<Longrightarrow> scheduler_run s (ss @ [u]) u"
  by (induction rule: scheduler_run.induct) (auto intro: scheduler_run.intros)

definition leased_scheduler :: scheduler_state where
  "leased_scheduler = claimed running_scheduler ''item-c'' ''worker'' ''2026-01-01T01:00:00Z'' 4"

lemma sample_selection_step: "scheduler_step running_scheduler leased_scheduler"
proof -
  have "(case select_next sample_roadmap running_scheduler ''worker'' ''2026-01-01T01:00:00Z'' 4 of
      Inl _ \<Rightarrow> False | Inr d \<Rightarrow> sd_state d = leased_scheduler)" by code_simp
  then show ?thesis
    using by_selection [of sample_roadmap running_scheduler "''worker''" "''2026-01-01T01:00:00Z''" 4]
    by (simp split: sum.splits)
qed

lemma sample_start_step: "scheduler_step sample_scheduler running_scheduler"
proof (rule by_transition)
  show "scheduler_transition sample_scheduler Sched_RUNNING = Inr running_scheduler" by code_simp
qed

theorem scheduler_run_safe_witness:
  "\<exists>ss. length ss = 2 \<and> scheduler_run sample_scheduler ss leased_scheduler \<and>
     scheduler_validate leased_scheduler = Inr () \<and>
     ss_event_sequence leased_scheduler \<le> ss_event_sequence sample_scheduler + int (length ss)"
proof -
  have run: "scheduler_run sample_scheduler [running_scheduler, leased_scheduler] leased_scheduler"
    by (intro scheduler_run.intros sample_start_step sample_selection_step)
  have "scheduler_validate sample_scheduler = Inr ()" by (simp add: scheduler_validate_ok sample_scheduler_ok)
  from scheduler_run_safe [OF run this] run show ?thesis
    by (intro exI [of _ "[running_scheduler, leased_scheduler]"]) simp
qed

text \<open>Recovery of an expired lease, on a valid state and a well-formed time: it never fails; a
  scheduler that needs a human, has no lease, or whose lease has not run out is returned as it
  was; any other is paused with item and lease cleared, one event counted, and is valid. The new
  status is PAUSED whatever the old one was, and the lifecycle table permits that change only
  from RUNNING: an expired lease takes a COMPLETED, FAILED or CANCELLED scheduler out of its
  terminal status.\<close>

theorem recover_expired_lease_correct:
  assumes "scheduler_validate s = Inr ()" "timestamp_match now"
  shows "\<exists>d. recover_expired_lease s now = Inr d \<and> scheduler_validate (rd_state d) = Inr () \<and>
    (rd_status d = Rec_RECOVERED \<longleftrightarrow> ss_status s \<noteq> Sched_HUMAN_REQUIRED \<and>
       (\<exists>t. ss_lease_expires_at s = Some t \<and> t \<le> now)) \<and>
    rd_state d = (if rd_status d = Rec_RECOVERED then released s else s) \<and>
    (Sched_PAUSED \<in> set (scheduler_targets (ss_status s)) \<longleftrightarrow> ss_status s = Sched_RUNNING)"
proof -
  have s: "scheduler_ok s" using assms(1) by (simp add: scheduler_validate_ok)
  have p: "Sched_PAUSED \<in> set (scheduler_targets (ss_status s)) \<longleftrightarrow> ss_status s = Sched_RUNNING"
    by (cases "ss_status s") auto
  have "\<exists>d. recover_expired_lease s now = Inr d"
    unfolding recover_expired_cases [OF s assms(2)] by (simp split: option.split)
  then obtain d where d: "recover_expired_lease s now = Inr d" ..
  have "(rd_status d = Rec_RECOVERED \<longleftrightarrow> ss_status s \<noteq> Sched_HUMAN_REQUIRED \<and>
       (\<exists>t. ss_lease_expires_at s = Some t \<and> t \<le> now)) \<and>
    rd_state d = (if rd_status d = Rec_RECOVERED then released s else s)"
    using d unfolding recover_expired_cases [OF s assms(2)]
    by (auto split: if_splits option.splits)
  moreover have "scheduler_validate (rd_state d) = Inr ()"
    using recover_expired_step [OF d] by (simp add: scheduler_validate_ok)
  ultimately show ?thesis using d p by (intro exI [of _ d]) simp
qed

theorem recover_expired_lease_correct_witness:
  "\<exists>d. recover_expired_lease (leased_scheduler\<lparr>ss_status := Sched_COMPLETED\<rparr>) ''2026-01-01T02:00:00Z'' = Inr d \<and>
     ss_status (rd_state d) = Sched_PAUSED"
proof -
  let ?s = "leased_scheduler\<lparr>ss_status := Sched_COMPLETED\<rparr>"
  have "scheduler_validate ?s = Inr ()" by code_simp
  moreover have "timestamp_match ''2026-01-01T02:00:00Z''" by code_simp
  ultimately have d: "\<exists>d. recover_expired_lease ?s ''2026-01-01T02:00:00Z'' = Inr d \<and>
      scheduler_validate (rd_state d) = Inr () \<and>
    (rd_status d = Rec_RECOVERED \<longleftrightarrow> ss_status ?s \<noteq> Sched_HUMAN_REQUIRED \<and>
       (\<exists>t. ss_lease_expires_at ?s = Some t \<and> t \<le> ''2026-01-01T02:00:00Z'')) \<and>
    rd_state d = (if rd_status d = Rec_RECOVERED then released ?s else ?s) \<and>
    (Sched_PAUSED \<in> set (scheduler_targets (ss_status ?s)) \<longleftrightarrow> ss_status ?s = Sched_RUNNING)"
    by (rule recover_expired_lease_correct)
  have "(case ss_lease_expires_at ?s of None \<Rightarrow> False | Some t \<Rightarrow> t \<le> ''2026-01-01T02:00:00Z'')" by code_simp
  then have "\<exists>t. ss_lease_expires_at ?s = Some t \<and> t \<le> ''2026-01-01T02:00:00Z''"
    by (auto split: option.splits)
  with d show ?thesis by (auto simp: released_def)
qed

definition revival_run :: "scheduler_state list" where
  "revival_run = [running_scheduler, leased_scheduler,
     leased_scheduler\<lparr>ss_status := Sched_COMPLETED, ss_event_sequence := 3\<rparr>,
     released (leased_scheduler\<lparr>ss_event_sequence := 3\<rparr>),
     (released (leased_scheduler\<lparr>ss_event_sequence := 3\<rparr>))\<lparr>ss_status := Sched_RUNNING, ss_event_sequence := 5\<rparr>]"

text \<open>A run of permitted operations can leave the terminal status COMPLETED: started, leased,
  completed with the lease still held, recovered after expiry, and resumed, the scheduler is
  RUNNING again, although the lifecycle table has no successor of COMPLETED.\<close>

theorem completed_scheduler_revived:
  "scheduler_run sample_scheduler revival_run (last revival_run) \<and>
   ss_status (revival_run ! 2) = Sched_COMPLETED \<and> ss_status (last revival_run) = Sched_RUNNING \<and>
   scheduler_targets Sched_COMPLETED = []"
proof -
  let ?c = "leased_scheduler\<lparr>ss_status := Sched_COMPLETED, ss_event_sequence := 3\<rparr>"
  let ?p = "released (leased_scheduler\<lparr>ss_event_sequence := 3\<rparr>)"
  have c: "scheduler_step leased_scheduler ?c"
  proof (rule by_transition)
    show "scheduler_transition leased_scheduler Sched_COMPLETED = Inr ?c" by code_simp
  qed
  have "(case recover_expired_lease ?c ''2026-01-01T02:00:00Z'' of Inl _ \<Rightarrow> False | Inr d \<Rightarrow> rd_state d = ?p)"
    by code_simp
  then have p: "scheduler_step ?c ?p"
    using by_expiry [of ?c "''2026-01-01T02:00:00Z''"] by (simp split: sum.splits)
  have r: "scheduler_step ?p (?p\<lparr>ss_status := Sched_RUNNING, ss_event_sequence := 5\<rparr>)"
  proof (rule by_transition)
    show "scheduler_transition ?p Sched_RUNNING = Inr (?p\<lparr>ss_status := Sched_RUNNING, ss_event_sequence := 5\<rparr>)"
      by code_simp
  qed
  have "scheduler_run sample_scheduler revival_run (?p\<lparr>ss_status := Sched_RUNNING, ss_event_sequence := 5\<rparr>)"
    unfolding revival_run_def
    by (intro scheduler_run.intros sample_start_step sample_selection_step c p r)
  then show ?thesis by (simp add: revival_run_def)
qed

end
