(* ===== verification/SchedulerLoop.thy ===== *)
theory SchedulerLoop
  imports Roadmap SchedulerModel
begin

section \<open>Stop gates and the bounded loop (scheduler_safety.py, scheduler_loop.py)\<close>

text \<open>
  \<open>assess_progress\<close> stops a scheduler whose last observations are all the same,
  \<open>assess_roadmap\<close> one whose roadmap has no eligible work left, and \<open>run_bounded\<close> drives a step
  function for at most a hundred steps. The step function is an argument of the model: it may
  raise, return something that is no state, or return a state, and it may keep state of its own,
  so it is also given the number of the call.
\<close>

subsection \<open>Progress\<close>

datatype safety_status = Safe_PROCEED | Safe_COMPLETED | Safe_BLOCKED | Safe_HUMAN_REQUIRED

record progress_observation =
  po_scheduler_id :: string
  po_status :: scheduler_status
  po_current_item_id :: "string option"
  po_event_sequence :: int

record safety_decision =
  sf_status :: safety_status
  sf_reason :: string
  sf_stalled :: nat

text \<open>The loop over \<open>reversed(observations)\<close>: an observation is its four fields, so the
  comparison of fingerprints is equality.\<close>

fun count_stalled :: "progress_observation \<Rightarrow> progress_observation list \<Rightarrow> nat" where
  "count_stalled c [] = 0"
| "count_stalled c (x # xs) = (if x \<noteq> c then 0 else Suc (count_stalled c xs))"

definition bad_observation :: "progress_observation \<Rightarrow> bool" where
  "bad_observation x = (po_scheduler_id x = [] \<or> po_event_sequence x < 0)"

definition assess_progress :: "progress_observation list \<Rightarrow> int \<Rightarrow> safety_decision res" where
  "assess_progress obs max_stalls =
     (if obs = [] then raise SafetyGateError ''progress observations are required''
      else if \<not> (1 \<le> max_stalls \<and> max_stalls \<le> 100) then raise SafetyGateError ''max_stalls is invalid''
      else if list_ex bad_observation obs then raise SafetyGateError ''progress observation is invalid''
      else (let c = last obs; stalled = count_stalled c (rev obs) in
        if po_status c = Sched_HUMAN_REQUIRED
        then Inr \<lparr>sf_status = Safe_HUMAN_REQUIRED, sf_reason = ''human intervention is required'', sf_stalled = 0\<rparr>
        else if po_status c \<in> {Sched_COMPLETED, Sched_CANCELLED, Sched_FAILED}
        then Inr \<lparr>sf_status = Safe_COMPLETED, sf_reason = ''scheduler reached a terminal state'', sf_stalled = 0\<rparr>
        else if int stalled \<ge> max_stalls
        then Inr \<lparr>sf_status = Safe_BLOCKED, sf_reason = ''scheduler made no measurable progress'', sf_stalled = stalled\<rparr>
        else Inr \<lparr>sf_status = Safe_PROCEED, sf_reason = ''scheduler progress remains measurable'', sf_stalled = stalled\<rparr>))"

lemma count_stalled_takeWhile: "count_stalled c xs = length (takeWhile (\<lambda>x. x = c) xs)"
  by (induction xs) auto

text \<open>At least \<open>n\<close> are counted exactly when the first \<open>n\<close> all agree.\<close>

lemma count_stalled_ge: "n \<le> count_stalled c xs \<longleftrightarrow> n \<le> length xs \<and> (\<forall>x\<in>set (take n xs). x = c)"
proof (induction xs arbitrary: n)
  case (Cons x xs)
  then show ?case by (cases n) auto
qed simp

lemma take_rev_last: "n \<le> length xs \<Longrightarrow> set (take n (rev xs)) = set (drop (length xs - n) xs)"
  by (metis rev_drop rev_rev_ident set_rev take_rev)

subsection \<open>Roadmap\<close>

definition unfinished :: "roadmap \<Rightarrow> roadmap_item list" where
  "unfinished r = filter (\<lambda>i. ri_status i \<notin> {Item_COMPLETED, Item_SUPERSEDED}) (rm_items r)"

definition assess_roadmap :: "roadmap \<Rightarrow> safety_decision res" where
  "assess_roadmap r = and_then (roadmap_validate r) (\<lambda>_. and_then (eligible_items r) (\<lambda>es. Inr (
     if es \<noteq> [] then \<lparr>sf_status = Safe_PROCEED, sf_reason = ''eligible roadmap work exists'', sf_stalled = 0\<rparr>
     else if unfinished r = []
     then \<lparr>sf_status = Safe_COMPLETED, sf_reason = ''all roadmap work is complete'', sf_stalled = 0\<rparr>
     else if list_ex (\<lambda>i. ri_status i = Item_READY) (unfinished r)
     then \<lparr>sf_status = Safe_BLOCKED, sf_reason = ''unfinished roadmap work is dependency-blocked'', sf_stalled = 0\<rparr>
     else \<lparr>sf_status = Safe_PROCEED, sf_reason = ''roadmap is awaiting explicit lifecycle progress'', sf_stalled = 0\<rparr>)))"

subsection \<open>The bounded loop\<close>

definition stop_states :: "scheduler_status set" where
  "stop_states = {Sched_COMPLETED, Sched_FAILED, Sched_CANCELLED, Sched_BLOCKED, Sched_HUMAN_REQUIRED}"

record scheduler_event =
  se_event_id :: string
  se_sequence :: int
  se_event_type :: string
  se_from_status :: string
  se_to_status :: string
  se_summary :: string

record loop_result =
  lr_state :: scheduler_state
  lr_events :: "scheduler_event list"
  lr_steps :: nat
  lr_limit_reached :: bool

datatype step_outcome = Step_Raises | Step_Not_State | Step_State scheduler_state

definition loop_event :: "nat \<Rightarrow> scheduler_state \<Rightarrow> scheduler_state \<Rightarrow> scheduler_event" where
  "loop_event n s t = \<lparr>se_event_id = ''event-'' @ show_pad6 n, se_sequence = int n,
     se_event_type = ''STATE_TRANSITION'', se_from_status = scheduler_status_value (ss_status s),
     se_to_status = scheduler_status_value (ss_status t), se_summary = ''scheduler step completed''\<rparr>"

text \<open>The body of the loop: what one call must return, for the initial state \<open>s0\<close>\<close>

definition loop_step :: "scheduler_state \<Rightarrow> scheduler_state \<Rightarrow> step_outcome \<Rightarrow> scheduler_state res" where
  "loop_step s0 s r = (case r of
     Step_Raises \<Rightarrow> raise SchedulerLoopError ''scheduler step failed''
   | Step_Not_State \<Rightarrow> raise SchedulerLoopError ''scheduler step returned invalid state''
   | Step_State t \<Rightarrow> and_then (scheduler_validate t) (\<lambda>_.
       if ss_project_id t \<noteq> ss_project_id s0 \<or> ss_scheduler_id t \<noteq> ss_scheduler_id s0
       then raise SchedulerLoopError ''scheduler step changed state identity''
       else if ss_event_sequence t \<noteq> ss_event_sequence s + 1
       then raise SchedulerLoopError ''scheduler step did not advance event sequence''
       else Inr t))"

fun bounded_loop :: "(nat \<Rightarrow> scheduler_state \<Rightarrow> step_outcome) \<Rightarrow> scheduler_state \<Rightarrow> nat \<Rightarrow>
    scheduler_state \<Rightarrow> scheduler_event list \<Rightarrow> (scheduler_state \<times> scheduler_event list) res" where
  "bounded_loop f s0 0 s es = Inr (s, es)"
| "bounded_loop f s0 (Suc n) s es =
     (if ss_status s \<in> stop_states then Inr (s, es)
      else and_then (loop_step s0 s (f (length es) s)) (\<lambda>t.
        bounded_loop f s0 n t (es @ [loop_event (length es + 1) s t])))"

definition run_bounded ::
  "scheduler_state \<Rightarrow> (nat \<Rightarrow> scheduler_state \<Rightarrow> step_outcome) \<Rightarrow> int \<Rightarrow> loop_result res" where
  "run_bounded s0 f max_steps = and_then (scheduler_validate s0) (\<lambda>_.
     if \<not> (1 \<le> max_steps \<and> max_steps \<le> 100) then raise SchedulerLoopError ''max_steps is invalid''
     else and_then (bounded_loop f s0 (nat max_steps) s0 []) (\<lambda>(s, es).
       Inr \<lparr>lr_state = s, lr_events = es, lr_steps = length es,
         lr_limit_reached = (int (length es) = max_steps)\<rparr>))"

text \<open>The events of a run are its visited states, numbered from \<open>k + 1\<close>.\<close>

fun events_of :: "nat \<Rightarrow> scheduler_state \<Rightarrow> scheduler_state list \<Rightarrow> scheduler_event list" where
  "events_of k s [] = []"
| "events_of k s (t # ts) = loop_event (k + 1) s t # events_of (k + 1) t ts"

text \<open>The states a run visits after \<open>s\<close>: each accepted from the step function, none after a stop\<close>

fun loop_trace :: "(nat \<Rightarrow> scheduler_state \<Rightarrow> step_outcome) \<Rightarrow> scheduler_state \<Rightarrow> nat \<Rightarrow>
    scheduler_state \<Rightarrow> scheduler_state list \<Rightarrow> bool" where
  "loop_trace f s0 k s [] = True"
| "loop_trace f s0 k s (t # ts) = (ss_status s \<notin> stop_states \<and> f k s = Step_State t \<and>
     scheduler_ok t \<and> ss_project_id t = ss_project_id s0 \<and> ss_scheduler_id t = ss_scheduler_id s0 \<and>
     ss_event_sequence t = ss_event_sequence s + 1 \<and> loop_trace f s0 (k + 1) t ts)"

lemma length_events_of [simp]: "length (events_of k s ts) = length ts"
  by (induction ts arbitrary: k s) auto

lemma loop_step_iff:
  "loop_step s0 s r = Inr t \<longleftrightarrow> r = Step_State t \<and> scheduler_ok t \<and>
     ss_project_id t = ss_project_id s0 \<and> ss_scheduler_id t = ss_scheduler_id s0 \<and>
     ss_event_sequence t = ss_event_sequence s + 1"
  by (auto simp: loop_step_def and_then_ok scheduler_validate_ok split: step_outcome.split)

lemma bounded_loop_iff:
  "bounded_loop f s0 n s es = Inr (t, es') \<longleftrightarrow>
     (\<exists>ts. loop_trace f s0 (length es) s ts \<and> t = last (s # ts) \<and>
       es' = es @ events_of (length es) s ts \<and> length ts \<le> n \<and>
       (length ts < n \<longrightarrow> ss_status t \<in> stop_states))"
proof (induction n arbitrary: s es)
  case 0
  then show ?case by auto
next
  case (Suc n)
  show ?case
  proof (cases "ss_status s \<in> stop_states")
    case True
    have "ts = []" if "loop_trace f s0 (length es) s ts" for ts
      using that True by (cases ts) auto
    with True show ?thesis by auto
  next
    case False
    have "bounded_loop f s0 (Suc n) s es = Inr (t, es') \<longleftrightarrow>
      (\<exists>u. loop_step s0 s (f (length es) s) = Inr u \<and>
        bounded_loop f s0 n u (es @ [loop_event (length es + 1) s u]) = Inr (t, es'))"
      using False by (simp add: and_then_ok)
    also have "\<dots> \<longleftrightarrow> (\<exists>ts. loop_trace f s0 (length es) s ts \<and> ts \<noteq> [] \<and> t = last (s # ts) \<and>
       es' = es @ events_of (length es) s ts \<and> length ts \<le> Suc n \<and>
       (length ts < Suc n \<longrightarrow> ss_status t \<in> stop_states))" (is "?l \<longleftrightarrow> ?r")
    proof
      assume ?l
      then obtain u ts where "loop_step s0 s (f (length es) s) = Inr u"
        "loop_trace f s0 (length es + 1) u ts" "t = last (u # ts)"
        "es' = es @ [loop_event (length es + 1) s u] @ events_of (length es + 1) u ts"
        "length ts \<le> n" "length ts < n \<longrightarrow> ss_status t \<in> stop_states"
        by (auto simp: Suc.IH)
      with False show ?r by (intro exI [of _ "u # ts"]) (simp add: loop_step_iff)
    next
      assume ?r
      then obtain u ts where ts: "loop_trace f s0 (length es) s (u # ts)" "t = last (u # ts)"
        "es' = es @ events_of (length es) s (u # ts)" "length ts \<le> n"
        "length ts < n \<longrightarrow> ss_status t \<in> stop_states"
        by (auto simp: neq_Nil_conv)
      then have "loop_step s0 s (f (length es) s) = Inr u" by (simp add: loop_step_iff)
      moreover have "bounded_loop f s0 n u (es @ [loop_event (length es + 1) s u]) = Inr (t, es')"
        unfolding Suc.IH using ts by (intro exI [of _ ts]) simp
      ultimately show ?l by blast
    qed
    also have "\<dots> \<longleftrightarrow> (\<exists>ts. loop_trace f s0 (length es) s ts \<and> t = last (s # ts) \<and>
       es' = es @ events_of (length es) s ts \<and> length ts \<le> Suc n \<and>
       (length ts < Suc n \<longrightarrow> ss_status t \<in> stop_states))"
    proof -
      have "\<not> (ts = [] \<and> t = last (s # ts) \<and> (length ts < Suc n \<longrightarrow> ss_status t \<in> stop_states))" for ts
        using False by auto
      then show ?thesis by blast
    qed
    finally show ?thesis .
  qed
qed

lemma loop_trace_end:
  "loop_trace f s0 k s ts \<Longrightarrow> ss_event_sequence (last (s # ts)) = ss_event_sequence s + int (length ts)"
proof (induction ts arbitrary: k s)
  case (Cons t ts)
  from Cons.IH [of "k + 1" t] Cons.prems show ?case by auto
qed simp

lemma loop_trace_states:
  "loop_trace f s0 k s ts \<Longrightarrow> \<forall>t\<in>set ts. scheduler_ok t \<and> ss_project_id t = ss_project_id s0 \<and>
     ss_scheduler_id t = ss_scheduler_id s0"
  by (induction ts arbitrary: k s) auto

text \<open>The contract of a step function: its answer to any valid state of the same scheduler is a valid state of
  the same scheduler, one event later.\<close>

definition keeps_contract :: "(nat \<Rightarrow> scheduler_state \<Rightarrow> step_outcome) \<Rightarrow> scheduler_state \<Rightarrow> bool" where
  "keeps_contract f s0 \<longleftrightarrow> (\<forall>k s. scheduler_ok s \<and> ss_project_id s = ss_project_id s0 \<and>
     ss_scheduler_id s = ss_scheduler_id s0 \<and> ss_status s \<notin> stop_states \<longrightarrow>
     (\<exists>t. f k s = Step_State t \<and> scheduler_ok t \<and> ss_project_id t = ss_project_id s0 \<and>
        ss_scheduler_id t = ss_scheduler_id s0 \<and> ss_event_sequence t = ss_event_sequence s + 1))"

lemma bounded_loop_returns:
  assumes "keeps_contract f s0"
  shows "scheduler_ok s \<Longrightarrow> ss_project_id s = ss_project_id s0 \<Longrightarrow> ss_scheduler_id s = ss_scheduler_id s0 \<Longrightarrow>
    \<exists>p. bounded_loop f s0 n s es = Inr p"
proof (induction n arbitrary: s es)
  case (Suc n)
  show ?case
  proof (cases "ss_status s \<in> stop_states")
    case False
    with assms Suc.prems obtain t where t: "loop_step s0 s (f (length es) s) = Inr t"
      unfolding keeps_contract_def loop_step_iff by blast
    then have "\<exists>p. bounded_loop f s0 n t (es @ [loop_event (length es + 1) s t]) = Inr p"
      by (intro Suc.IH) (simp_all add: loop_step_iff)
    with t False show ?thesis by simp
  qed simp
qed simp

lemma collapse_run:
  "(\<exists>t es. (\<exists>ts. A ts \<and> t = g ts \<and> es = h ts \<and> B ts \<and> (C ts \<longrightarrow> D t)) \<and> x = F t es) \<longleftrightarrow>
    (\<exists>ts. A ts \<and> B ts \<and> (C ts \<longrightarrow> D (g ts)) \<and> x = F (g ts) (h ts))"
  by blast

lemma run_bounded_iff:
  "run_bounded s0 f m = Inr r \<longleftrightarrow> scheduler_ok s0 \<and> 1 \<le> m \<and> m \<le> 100 \<and>
     (\<exists>ts. loop_trace f s0 0 s0 ts \<and> int (length ts) \<le> m \<and>
       (int (length ts) < m \<longrightarrow> ss_status (last (s0 # ts)) \<in> stop_states) \<and>
       r = \<lparr>lr_state = last (s0 # ts), lr_events = events_of 0 s0 ts, lr_steps = length ts,
         lr_limit_reached = (int (length ts) = m)\<rparr>)"
proof (cases "scheduler_ok s0 \<and> 1 \<le> m \<and> m \<le> 100")
  case True
  then have m: "int (nat m) = m" by simp
  have le: "n \<le> nat m \<longleftrightarrow> int n \<le> m" "n < nat m \<longleftrightarrow> int n < m" for n using m by linarith+
  have "run_bounded s0 f m = Inr r \<longleftrightarrow> (\<exists>t es. bounded_loop f s0 (nat m) s0 [] = Inr (t, es) \<and>
      r = \<lparr>lr_state = t, lr_events = es, lr_steps = length es, lr_limit_reached = (int (length es) = m)\<rparr>)"
    using True by (auto simp: run_bounded_def scheduler_validate_ok [THEN iffD2] and_then_ok)
  also have "\<dots> \<longleftrightarrow> (\<exists>ts. loop_trace f s0 0 s0 ts \<and> int (length ts) \<le> m \<and>
       (int (length ts) < m \<longrightarrow> ss_status (last (s0 # ts)) \<in> stop_states) \<and>
       r = \<lparr>lr_state = last (s0 # ts), lr_events = events_of 0 s0 ts, lr_steps = length ts,
         lr_limit_reached = (int (length ts) = m)\<rparr>)"
    unfolding bounded_loop_iff le list.size(3) append_Nil collapse_run length_events_of by (rule refl)
  finally show ?thesis using True by simp
next
  case False
  then show ?thesis by (auto simp: run_bounded_def and_then_ok scheduler_validate_ok)
qed

subsection \<open>Properties\<close>

text \<open>On valid input \<open>assess_progress\<close> reports a stall exactly when the current observation is
  neither waiting for a human nor terminal and the last \<open>max_stalls\<close> observations all equal it;
  it asks for a human, or reports completion, exactly on those statuses.\<close>

theorem assess_progress_correct:
  assumes "obs \<noteq> []" "1 \<le> m" "m \<le> 100" "\<not> list_ex bad_observation obs"
  shows "\<exists>d. assess_progress obs m = Inr d \<and>
    (sf_status d = Safe_HUMAN_REQUIRED \<longleftrightarrow> po_status (last obs) = Sched_HUMAN_REQUIRED) \<and>
    (sf_status d = Safe_COMPLETED \<longleftrightarrow>
       po_status (last obs) \<in> {Sched_COMPLETED, Sched_CANCELLED, Sched_FAILED}) \<and>
    (sf_status d = Safe_BLOCKED \<longleftrightarrow>
       po_status (last obs) \<notin> {Sched_HUMAN_REQUIRED, Sched_COMPLETED, Sched_CANCELLED, Sched_FAILED} \<and>
       m \<le> int (length obs) \<and> (\<forall>x\<in>set (drop (length obs - nat m) obs). x = last obs))"
proof -
  have "m \<le> int (count_stalled (last obs) (rev obs)) \<longleftrightarrow> nat m \<le> count_stalled (last obs) (rev obs)"
    using assms(2) by linarith
  also have "\<dots> \<longleftrightarrow> m \<le> int (length obs) \<and> (\<forall>x\<in>set (drop (length obs - nat m) obs). x = last obs)"
    using assms(2) by (auto simp: count_stalled_ge take_rev_last nat_le_iff)
  finally show ?thesis
    using assms by (cases "po_status (last obs)") (auto simp: assess_progress_def Let_def)
qed

definition sample_observations :: "progress_observation list" where
  "sample_observations =
     \<lparr>po_scheduler_id = ''scheduler-a'', po_status = Sched_RUNNING, po_current_item_id = None, po_event_sequence = 1\<rparr> #
     replicate 3 \<lparr>po_scheduler_id = ''scheduler-a'', po_status = Sched_RUNNING,
       po_current_item_id = Some ''item-a'', po_event_sequence = 2\<rparr>"

theorem assess_progress_correct_witness:
  "\<exists>d. assess_progress sample_observations 3 = Inr d \<and> sf_status d = Safe_BLOCKED"
proof -
  have "sample_observations \<noteq> []" "\<not> list_ex bad_observation sample_observations"
    by (code_simp, code_simp)
  from assess_progress_correct [OF this(1) _ _ this(2), of 3] show ?thesis
    by (auto simp: sample_observations_def eval_nat_numeral)
qed

text \<open>On a valid roadmap \<open>assess_roadmap\<close> always answers: COMPLETED exactly when every item is
  COMPLETED or SUPERSEDED, BLOCKED exactly when some item is READY but no READY item has all its
  dependencies COMPLETED, and PROCEED otherwise.\<close>

theorem assess_roadmap_correct:
  assumes "roadmap_validate r = Inr ()"
  shows "\<exists>d. assess_roadmap r = Inr d \<and> sf_status d =
    (if \<forall>i\<in>set (rm_items r). ri_status i \<in> {Item_COMPLETED, Item_SUPERSEDED} then Safe_COMPLETED
     else if (\<exists>i\<in>set (rm_items r). ri_status i = Item_READY) \<and> (\<forall>i\<in>set (rm_items r). \<not> ready_now r i)
     then Safe_BLOCKED else Safe_PROCEED)"
proof -
  have r: "roadmap_wf r" using assms by (simp add: roadmap_validate_wf)
  have u: "unfinished r = [] \<longleftrightarrow> (\<forall>i\<in>set (rm_items r). ri_status i \<in> {Item_COMPLETED, Item_SUPERSEDED})"
    by (auto simp: unfinished_def filter_empty_conv)
  have b: "list_ex (\<lambda>i. ri_status i = Item_READY) (unfinished r) \<longleftrightarrow> (\<exists>i\<in>set (rm_items r). ri_status i = Item_READY)"
    by (auto simp: unfinished_def list_ex_iff)
  have "eligible_items r = Inr (sort_key item_key (filter (ready_now r) (rm_items r)))"
    using r by (rule eligible_items_wf)
  moreover have "sort_key item_key (filter (ready_now r) (rm_items r)) = [] \<longleftrightarrow>
      (\<forall>i\<in>set (rm_items r). \<not> ready_now r i)"
    by (simp add: sort_key_empty filter_empty_conv)
  ultimately show ?thesis using assms
    by (auto simp: assess_roadmap_def u b ready_now_def)
qed

theorem assess_roadmap_correct_witness:
  "\<exists>d. assess_roadmap sample_roadmap = Inr d \<and> sf_status d = Safe_PROCEED"
proof -
  have "(\<exists>i\<in>set (rm_items sample_roadmap). ri_status i \<notin> {Item_COMPLETED, Item_SUPERSEDED}) \<and>
    (\<exists>i\<in>set (rm_items sample_roadmap). ready_now sample_roadmap i)" by code_simp
  with assess_roadmap_correct [OF sample_roadmap_valid] show ?thesis by auto
qed

text \<open>C37. Whenever \<open>run_bounded\<close> returns, it took at most \<open>max_steps\<close> steps, each accepted: the
  states it visited are valid, of the same scheduler, each one event after the one before, none
  follows a stop state, and the events tell exactly these steps, numbered from one. It stopped
  early only in a stop state, and reports the limit exactly when it took \<open>max_steps\<close> steps.\<close>

theorem run_bounded_correct:
  assumes "run_bounded s0 f m = Inr r"
  shows "\<exists>ts. loop_trace f s0 0 s0 ts \<and> lr_events r = events_of 0 s0 ts \<and> lr_state r = last (s0 # ts) \<and>
    lr_steps r = length ts \<and> int (lr_steps r) \<le> m \<and> lr_limit_reached r = (int (lr_steps r) = m) \<and>
    (\<not> lr_limit_reached r \<longrightarrow> ss_status (lr_state r) \<in> stop_states) \<and>
    scheduler_validate (lr_state r) = Inr () \<and>
    ss_event_sequence (lr_state r) = ss_event_sequence s0 + int (lr_steps r)"
proof -
  from assms obtain ts where ts: "loop_trace f s0 0 s0 ts" "int (length ts) \<le> m"
      "int (length ts) < m \<longrightarrow> ss_status (last (s0 # ts)) \<in> stop_states" and s0: "scheduler_ok s0"
    and r: "r = \<lparr>lr_state = last (s0 # ts), lr_events = events_of 0 s0 ts, lr_steps = length ts,
         lr_limit_reached = (int (length ts) = m)\<rparr>"
    by (auto simp: run_bounded_iff)
  have "scheduler_ok (last (s0 # ts))"
    using loop_trace_states [OF ts(1)] s0 by simp
  then show ?thesis using ts loop_trace_end [OF ts(1)]
    by (intro exI [of _ ts]) (simp add: r scheduler_validate_ok)
qed

text \<open>A step function that pauses and resumes the scheduler, and the run it gives\<close>

definition toggle :: "nat \<Rightarrow> scheduler_state \<Rightarrow> step_outcome" where
  "toggle k s = Step_State (s\<lparr>ss_status := (if ss_status s = Sched_RUNNING then Sched_PAUSED else Sched_RUNNING),
     ss_event_sequence := ss_event_sequence s + 1\<rparr>)"

theorem run_bounded_correct_witness:
  "\<exists>r. run_bounded sample_scheduler toggle 3 = Inr r \<and> lr_steps r = 3 \<and>
     ss_event_sequence (lr_state r) = ss_event_sequence sample_scheduler + int (lr_steps r)"
proof -
  have "is_ok (run_bounded sample_scheduler toggle 3)" by code_simp
  then obtain r where r: "run_bounded sample_scheduler toggle 3 = Inr r" by (auto simp: is_ok_iff)
  have "(case run_bounded sample_scheduler toggle 3 of Inl _ \<Rightarrow> False | Inr r \<Rightarrow> lr_steps r = 3)" by code_simp
  then have "lr_steps r = 3" by (simp add: r)
  with run_bounded_correct [OF r] r show ?thesis by auto
qed

text \<open>A step function that keeps its contract never makes the loop fail: \<open>run_bounded\<close> returns
  for every valid scheduler and every permitted number of steps.\<close>

theorem run_bounded_returns:
  assumes "keeps_contract f s0" "scheduler_validate s0 = Inr ()" "1 \<le> m" "m \<le> 100"
  shows "\<exists>r. run_bounded s0 f m = Inr r"
proof -
  from assms(2) have "scheduler_ok s0" by (simp add: scheduler_validate_ok)
  with bounded_loop_returns [OF assms(1), of s0 "nat m" "[]"] assms show ?thesis
    by (auto simp: run_bounded_def)
qed

lemma toggle_contract: "keeps_contract toggle s0"
  unfolding keeps_contract_def toggle_def by (auto simp: scheduler_ok_def)

theorem run_bounded_returns_witness: "\<exists>r. run_bounded sample_scheduler toggle 100 = Inr r"
proof (rule run_bounded_returns [OF toggle_contract])
  show "scheduler_validate sample_scheduler = Inr ()" by (simp add: scheduler_validate_ok sample_scheduler_ok)
qed simp_all

end
