(* ===== verification/SchedulerJournal.thy ===== *)
theory SchedulerJournal
  imports SchedulerLoop StoreCell "HOL-Library.Monad_Syntax"
begin

section \<open>Event journal and human inbox (scheduler_journal.py)\<close>

text \<open>
  One file per scheduler holds the events of its runs, in order, and the items waiting for a
  human. An operation takes the journal and returns the result and the journal. The clock of
  \<open>resolve_inbox\<close> is an argument. The file system fails never here, as in the other stores.
\<close>

subsection \<open>Records and their validation\<close>

record inbox_item =
  ib_inbox_id :: string
  ib_project_id :: string
  ib_scheduler_id :: string
  ib_title :: string
  ib_summary :: string
  ib_required_action :: string
  ib_status :: string
  ib_decision_id :: string
  ib_task_id :: string
  ib_risk_class :: string
  ib_failed_gates :: "string list"
  ib_pending_gates :: "string list"
  ib_evidence_refs :: "string list"
  ib_policy_id :: string
  ib_policy_hash :: string
  ib_uncertainty_kind :: string
  ib_decision_status :: string
  ib_authorization_status :: string
  ib_blocking_reasons :: "string list"
  ib_resolution_actor :: string
  ib_resolution_outcome :: string
  ib_resolved_at :: string

abbreviation sj_check :: "bool \<Rightarrow> string \<Rightarrow> unit res" where
  "sj_check b m \<equiv> raise_if b SchedulerJournalError m"

definition numbered :: "string \<Rightarrow> string \<Rightarrow> bool" where
  "numbered p s = (starts_with p s \<and> (let ds = drop (length p) s in
     6 \<le> length ds \<and> length ds \<le> 80 \<and> list_all is_digit ds))"

text \<open>\<open>^(?:event|inbox)-[0-9]{6,80}$\<close>\<close>

definition journal_id :: "string \<Rightarrow> bool" where
  "journal_id s = (numbered ''event-'' s \<or> numbered ''inbox-'' s)"

definition sj_text :: "string \<Rightarrow> bool" where
  "sj_text v = (\<not> blank v \<and> length v \<le> 4000 \<and> \<not> secret_search v)"

definition sj_bounded_text :: "string \<Rightarrow> unit res" where
  "sj_bounded_text v = sj_check (\<not> sj_text v) ''journal text is invalid''"

definition sj_bounded_list :: "string list \<Rightarrow> unit res" where
  "sj_bounded_list vs = steps [sj_check (length vs > 500) ''inbox evidence list is invalid'',
     for_each sj_bounded_text vs]"

definition decision_id_match :: "string \<Rightarrow> bool" where
  "decision_id_match s = (starts_with ''decision-'' s \<and>
     (let h = drop (length ''decision-'') s in length h = 32 \<and> list_all is_hex h))"

text \<open>\<open>any((...))\<close> over the eleven structured fields\<close>

definition structured :: "inbox_item \<Rightarrow> bool" where
  "structured i = (ib_decision_id i \<noteq> [] \<or> ib_task_id i \<noteq> [] \<or> ib_risk_class i \<noteq> [] \<or>
     ib_failed_gates i \<noteq> [] \<or> ib_pending_gates i \<noteq> [] \<or> ib_evidence_refs i \<noteq> [] \<or>
     ib_policy_id i \<noteq> [] \<or> ib_policy_hash i \<noteq> [] \<or> ib_decision_status i \<noteq> [] \<or>
     ib_authorization_status i \<noteq> [] \<or> ib_blocking_reasons i \<noteq> [])"

definition validate_decision :: "inbox_item \<Rightarrow> unit res" where
  "validate_decision i = steps [
     sj_check (\<not> decision_id_match (ib_decision_id i)) ''inbox decision identity is invalid'',
     sj_check (ib_task_id i = [] \<or> ib_risk_class i \<notin> {''MEDIUM'', ''HIGH'', ''CRITICAL'', ''UNKNOWN''})
       ''inbox decision context is invalid'',
     sj_check (ib_decision_status i \<notin> {[], ''ELIGIBLE'', ''BLOCKED''}) ''inbox decision status is invalid'',
     sj_check (ib_authorization_status i \<notin> {[], ''AUTHORIZED'', ''NOT_AUTHORIZED''})
       ''inbox authorization status is invalid'',
     sj_check (ib_policy_hash i \<noteq> [] \<and> \<not> sha256_match (ib_policy_hash i)) ''inbox policy hash is invalid'',
     sj_bounded_list (ib_failed_gates i),
     sj_bounded_list (ib_pending_gates i),
     sj_bounded_list (ib_evidence_refs i),
     sj_bounded_list (ib_blocking_reasons i),
     sj_bounded_text (ib_task_id i),
     sj_bounded_text (ib_policy_id i),
     sj_check (ib_uncertainty_kind i \<notin> {[], ''UNAVAILABLE'', ''DIVERGENT'', ''CONTRADICTORY''})
       ''inbox uncertainty kind is invalid'']"

definition validate_resolution :: "inbox_item \<Rightarrow> unit res" where
  "validate_resolution i = steps [
     sj_check (ib_status i = ''OPEN'' \<and>
         (ib_resolution_actor i \<noteq> [] \<or> ib_resolution_outcome i \<noteq> [] \<or> ib_resolved_at i \<noteq> []))
       ''open inbox cannot contain resolution'',
     (if ib_status i = ''RESOLVED'' then steps [
        sj_bounded_text (ib_resolution_actor i),
        sj_bounded_text (ib_resolution_outcome i),
        sj_check (\<not> timestamp_match (ib_resolved_at i)) ''resolved inbox timestamp is invalid'']
      else Inr ())]"

definition validate_inbox :: "string \<Rightarrow> string \<Rightarrow> inbox_item \<Rightarrow> unit res" where
  "validate_inbox p s i = steps [
     sj_check (ib_project_id i \<noteq> p \<or> ib_scheduler_id i \<noteq> s) ''inbox identity does not match journal'',
     sj_check (\<not> journal_id (ib_inbox_id i) \<or> \<not> starts_with ''inbox-'' (ib_inbox_id i)) ''inbox ID is invalid'',
     sj_check (ib_status i \<notin> {''OPEN'', ''RESOLVED''}) ''inbox status is invalid'',
     sj_bounded_text (ib_title i), sj_bounded_text (ib_summary i), sj_bounded_text (ib_required_action i),
     sj_check (structured i \<and> ib_decision_id i = []) ''inbox decision identity is required'',
     (if ib_decision_id i \<noteq> [] then validate_decision i else Inr ()),
     validate_resolution i]"

definition validate_event :: "scheduler_event \<Rightarrow> unit res" where
  "validate_event e = steps [
     sj_check (\<not> journal_id (se_event_id e) \<or> se_sequence e < 1) ''event is invalid'',
     sj_bounded_text (se_summary e)]"

subsection \<open>JSON form\<close>

definition event_to_dict :: "scheduler_event \<Rightarrow> json" where
  "event_to_dict e = JObj [(''event_id'', JStr (se_event_id e)), (''sequence'', JInt (se_sequence e)),
     (''event_type'', JStr (se_event_type e)), (''from_status'', JStr (se_from_status e)),
     (''to_status'', JStr (se_to_status e)), (''summary'', JStr (se_summary e))]"

definition event_leaves :: "json \<Rightarrow> scheduler_event option" where
  "event_leaves v = do {
     a \<leftarrow> Option.bind (field ''event_id'' v) the_str;
     b \<leftarrow> Option.bind (field ''sequence'' v) the_int;
     c \<leftarrow> Option.bind (field ''event_type'' v) the_str;
     d \<leftarrow> Option.bind (field ''from_status'' v) the_str;
     e \<leftarrow> Option.bind (field ''to_status'' v) the_str;
     f \<leftarrow> Option.bind (field ''summary'' v) the_str;
     Some \<lparr>se_event_id = a, se_sequence = b, se_event_type = c, se_from_status = d, se_to_status = e,
       se_summary = f\<rparr>}"

definition event_from_dict :: "json \<Rightarrow> scheduler_event res" where
  "event_from_dict v =
     (if \<not> has_keys [''event_id'', ''sequence'', ''event_type'', ''from_status'', ''to_status'', ''summary''] v
      then raise SchedulerJournalError ''event schema is invalid''
      else (case event_leaves v of
        None \<Rightarrow> raise TypeError ''''
      | Some e \<Rightarrow> and_then (validate_event e) (\<lambda>_. Inr e)))"

definition inbox_to_dict :: "inbox_item \<Rightarrow> json" where
  "inbox_to_dict i = JObj [
     (''inbox_id'', JStr (ib_inbox_id i)), (''project_id'', JStr (ib_project_id i)),
     (''scheduler_id'', JStr (ib_scheduler_id i)), (''title'', JStr (ib_title i)),
     (''summary'', JStr (ib_summary i)), (''required_action'', JStr (ib_required_action i)),
     (''status'', JStr (ib_status i)), (''decision_id'', JStr (ib_decision_id i)),
     (''task_id'', JStr (ib_task_id i)), (''risk_class'', JStr (ib_risk_class i)),
     (''failed_gates'', enc_strs (ib_failed_gates i)), (''pending_gates'', enc_strs (ib_pending_gates i)),
     (''evidence_refs'', enc_strs (ib_evidence_refs i)), (''policy_id'', JStr (ib_policy_id i)),
     (''policy_hash'', JStr (ib_policy_hash i)), (''uncertainty_kind'', JStr (ib_uncertainty_kind i)),
     (''decision_status'', JStr (ib_decision_status i)),
     (''authorization_status'', JStr (ib_authorization_status i)),
     (''blocking_reasons'', enc_strs (ib_blocking_reasons i)),
     (''resolution_actor'', JStr (ib_resolution_actor i)),
     (''resolution_outcome'', JStr (ib_resolution_outcome i)), (''resolved_at'', JStr (ib_resolved_at i))]"

text \<open>The seven sets of keys that have been written over time\<close>

definition legacy_keys :: "string list" where
  "legacy_keys = [''inbox_id'', ''project_id'', ''scheduler_id'', ''title'', ''summary'',
     ''required_action'', ''status'']"

definition old_extended_keys :: "string list" where
  "old_extended_keys = legacy_keys @ [''decision_id'', ''task_id'', ''risk_class'', ''failed_gates'',
     ''pending_gates'', ''evidence_refs'', ''policy_id'', ''policy_hash'']"

definition extended_keys :: "string list" where
  "extended_keys = old_extended_keys @ [''uncertainty_kind'']"

definition executive_keys :: "string list" where
  "executive_keys = extended_keys @ [''decision_status'', ''authorization_status'', ''blocking_reasons'']"

definition resolution_keys :: "string list" where
  "resolution_keys = [''resolution_actor'', ''resolution_outcome'', ''resolved_at'']"

definition resolution_defaults :: "(string \<times> json) list" where
  "resolution_defaults = [(''resolution_actor'', JStr []), (''resolution_outcome'', JStr []), (''resolved_at'', JStr [])]"

definition executive_defaults :: "(string \<times> json) list" where
  "executive_defaults = [(''decision_status'', JStr []), (''authorization_status'', JStr []), (''blocking_reasons'', JList [])]"

definition legacy_defaults :: "(string \<times> json) list" where
  "legacy_defaults = [(''decision_id'', JStr []), (''task_id'', JStr []), (''risk_class'', JStr []),
     (''failed_gates'', JList []), (''pending_gates'', JList []), (''evidence_refs'', JList []),
     (''policy_id'', JStr []), (''policy_hash'', JStr [])]"

definition with_defaults :: "(string \<times> json) list \<Rightarrow> json \<Rightarrow> json" where
  "with_defaults ds v = (case v of JObj kvs \<Rightarrow> JObj (kvs @ ds) | _ \<Rightarrow> v)"

text \<open>Each accepted set of keys filled up as the chain of tests does; a set that no test names is
  left as it is.\<close>

definition fill_inbox :: "json \<Rightarrow> json" where
  "fill_inbox v =
     (if has_keys legacy_keys v
      then with_defaults (legacy_defaults @ (''uncertainty_kind'', JStr []) # resolution_defaults @ executive_defaults) v
      else if has_keys old_extended_keys v
      then with_defaults ((''uncertainty_kind'', JStr []) # resolution_defaults @ executive_defaults) v
      else if has_keys (old_extended_keys @ resolution_keys) v
      then with_defaults ((''uncertainty_kind'', JStr []) # executive_defaults) v
      else if has_keys extended_keys v then with_defaults (resolution_defaults @ executive_defaults) v
      else if has_keys executive_keys v then with_defaults resolution_defaults v
      else v)"

definition inbox_schemas :: "string list list" where
  "inbox_schemas = [legacy_keys, old_extended_keys, extended_keys, executive_keys,
     old_extended_keys @ resolution_keys, extended_keys @ resolution_keys, executive_keys @ resolution_keys]"

text \<open>\<open>payload[field]\<close>, which must be a list of strings\<close>

definition evidence_list :: "json \<Rightarrow> string \<Rightarrow> unit res" where
  "evidence_list v k = (case field k v of
     None \<Rightarrow> raise KeyError k
   | Some (JList xs) \<Rightarrow> raise_if (decode_all the_str xs = None) SchedulerJournalError ''inbox evidence list is invalid''
   | Some _ \<Rightarrow> raise SchedulerJournalError ''inbox evidence list is invalid'')"

definition inbox_leaves :: "json \<Rightarrow> inbox_item option" where
  "inbox_leaves v = do {
     a1 \<leftarrow> Option.bind (field ''inbox_id'' v) the_str;
     a2 \<leftarrow> Option.bind (field ''project_id'' v) the_str;
     a3 \<leftarrow> Option.bind (field ''scheduler_id'' v) the_str;
     a4 \<leftarrow> Option.bind (field ''title'' v) the_str;
     a5 \<leftarrow> Option.bind (field ''summary'' v) the_str;
     a6 \<leftarrow> Option.bind (field ''required_action'' v) the_str;
     a7 \<leftarrow> Option.bind (field ''status'' v) the_str;
     b1 \<leftarrow> Option.bind (field ''decision_id'' v) the_str;
     b2 \<leftarrow> Option.bind (field ''task_id'' v) the_str;
     b3 \<leftarrow> Option.bind (field ''risk_class'' v) the_str;
     b4 \<leftarrow> Option.bind (field ''failed_gates'' v) str_tuple;
     b5 \<leftarrow> Option.bind (field ''pending_gates'' v) str_tuple;
     b6 \<leftarrow> Option.bind (field ''evidence_refs'' v) str_tuple;
     b7 \<leftarrow> Option.bind (field ''policy_id'' v) the_str;
     b8 \<leftarrow> Option.bind (field ''policy_hash'' v) the_str;
     c1 \<leftarrow> Option.bind (field ''uncertainty_kind'' v) the_str;
     c2 \<leftarrow> Option.bind (field ''decision_status'' v) the_str;
     c3 \<leftarrow> Option.bind (field ''authorization_status'' v) the_str;
     c4 \<leftarrow> Option.bind (field ''blocking_reasons'' v) str_tuple;
     d1 \<leftarrow> Option.bind (field ''resolution_actor'' v) the_str;
     d2 \<leftarrow> Option.bind (field ''resolution_outcome'' v) the_str;
     d3 \<leftarrow> Option.bind (field ''resolved_at'' v) the_str;
     Some \<lparr>ib_inbox_id = a1, ib_project_id = a2, ib_scheduler_id = a3, ib_title = a4, ib_summary = a5,
       ib_required_action = a6, ib_status = a7, ib_decision_id = b1, ib_task_id = b2, ib_risk_class = b3,
       ib_failed_gates = b4, ib_pending_gates = b5, ib_evidence_refs = b6, ib_policy_id = b7,
       ib_policy_hash = b8, ib_uncertainty_kind = c1, ib_decision_status = c2,
       ib_authorization_status = c3, ib_blocking_reasons = c4, ib_resolution_actor = d1,
       ib_resolution_outcome = d2, ib_resolved_at = d3\<rparr>}"

definition inbox_from_dict :: "string \<Rightarrow> string \<Rightarrow> json \<Rightarrow> inbox_item res" where
  "inbox_from_dict p s v =
     (if \<not> list_ex (\<lambda>ks. has_keys ks v) inbox_schemas then raise SchedulerJournalError ''inbox schema is invalid''
      else (let w = fill_inbox v in
        and_then (for_each (evidence_list w)
            [''failed_gates'', ''pending_gates'', ''evidence_refs'', ''blocking_reasons'']) (\<lambda>_.
          case inbox_leaves w of
            None \<Rightarrow> raise TypeError ''''
          | Some i \<Rightarrow> and_then (validate_inbox p s i) (\<lambda>_. Inr i))))"

type_synonym journal_content = "scheduler_event list \<times> inbox_item list"

definition journal_to_json :: "journal_content \<Rightarrow> json" where
  "journal_to_json = (\<lambda>(es, is). JObj [(''schema_version'', JStr ''1.0''),
     (''events'', JList (map event_to_dict es)), (''inbox'', JList (map inbox_to_dict is))])"

text \<open>\<open>payload.get(k, [])\<close>, then iterated\<close>

definition get_list :: "string \<Rightarrow> json \<Rightarrow> json list res" where
  "get_list k v = (case field k v of
     None \<Rightarrow> Inr []
   | Some x \<Rightarrow> (case tuple_of x of None \<Rightarrow> raise TypeError '''' | Some xs \<Rightarrow> Inr xs))"

definition is_object :: "json \<Rightarrow> bool" where
  "is_object v = (case v of JObj _ \<Rightarrow> True | _ \<Rightarrow> False)"

text \<open>The body of the \<open>try\<close>; \<open>get\<close> on anything but an object is an \<open>AttributeError\<close>.\<close>

definition journal_from_json :: "string \<Rightarrow> string \<Rightarrow> json \<Rightarrow> journal_content res" where
  "journal_from_json p s v =
     (if \<not> is_object v then raise AttributeError ''''
      else if field ''schema_version'' v \<noteq> Some (JStr ''1.0'')
      then raise SchedulerJournalError ''unsupported scheduler journal schema''
      else and_then (get_list ''events'' v) (\<lambda>xs. and_then (map_res event_from_dict xs) (\<lambda>es.
        and_then (get_list ''inbox'' v) (\<lambda>ys. and_then (map_res (inbox_from_dict p s) ys) (\<lambda>is.
          if length es > 500 \<or> length is > 500 then raise SchedulerJournalError ''scheduler journal is unbounded''
          else Inr (es, is))))))"

subsection \<open>The codec reads what it wrote\<close>

definition journal_ok :: "string \<Rightarrow> string \<Rightarrow> journal_content \<Rightarrow> bool" where
  "journal_ok p s = (\<lambda>(es, is). (\<forall>e\<in>set es. validate_event e = Inr ()) \<and>
     (\<forall>i\<in>set is. validate_inbox p s i = Inr ()) \<and> length es \<le> 500 \<and> length is \<le> 500)"

lemma event_dec_enc: "event_from_dict (event_to_dict e) = and_then (validate_event e) (\<lambda>_. Inr e)"
proof -
  have "event_leaves (event_to_dict e) = Some e"
    by (simp add: event_leaves_def event_to_dict_def field_def)
  then show ?thesis by (simp add: event_from_dict_def) (simp add: event_to_dict_def has_keys_def)
qed

lemma inbox_dict_keys: "keys_of (inbox_to_dict i) = executive_keys @ resolution_keys"
  by (simp add: keys_of_def inbox_to_dict_def executive_keys_def extended_keys_def old_extended_keys_def
      legacy_keys_def resolution_keys_def)

lemma has_keys_of: "is_object v \<Longrightarrow> has_keys ks v \<longleftrightarrow> set (keys_of v) = set ks"
  by (simp add: has_keys_def keys_of_def is_object_def split: json.splits)

lemma schemas_differ:
  "list_all (\<lambda>ks. set (executive_keys @ resolution_keys) \<noteq> set ks)
     [legacy_keys, old_extended_keys, old_extended_keys @ resolution_keys, extended_keys, executive_keys]"
  by code_simp

lemma fill_inbox_full: "fill_inbox (inbox_to_dict i) = inbox_to_dict i"
proof -
  have "is_object (inbox_to_dict i)" by (simp add: is_object_def inbox_to_dict_def)
  then have h: "has_keys ks (inbox_to_dict i) \<longleftrightarrow> set (executive_keys @ resolution_keys) = set ks" for ks
    by (simp add: has_keys_of inbox_dict_keys)
  show ?thesis
    using schemas_differ unfolding fill_inbox_def h by simp
qed

lemma evidence_list_enc: "field k v = Some (enc_strs xs) \<Longrightarrow> evidence_list v k = Inr ()"
  by (simp add: evidence_list_def enc_strs_def)

lemma inbox_fields:
  "field ''inbox_id'' (inbox_to_dict i) = Some (JStr (ib_inbox_id i))"
  "field ''project_id'' (inbox_to_dict i) = Some (JStr (ib_project_id i))"
  "field ''scheduler_id'' (inbox_to_dict i) = Some (JStr (ib_scheduler_id i))"
  "field ''title'' (inbox_to_dict i) = Some (JStr (ib_title i))"
  "field ''summary'' (inbox_to_dict i) = Some (JStr (ib_summary i))"
  "field ''required_action'' (inbox_to_dict i) = Some (JStr (ib_required_action i))"
  "field ''status'' (inbox_to_dict i) = Some (JStr (ib_status i))"
  "field ''decision_id'' (inbox_to_dict i) = Some (JStr (ib_decision_id i))"
  "field ''task_id'' (inbox_to_dict i) = Some (JStr (ib_task_id i))"
  "field ''risk_class'' (inbox_to_dict i) = Some (JStr (ib_risk_class i))"
  "field ''policy_id'' (inbox_to_dict i) = Some (JStr (ib_policy_id i))"
  "field ''policy_hash'' (inbox_to_dict i) = Some (JStr (ib_policy_hash i))"
  "field ''uncertainty_kind'' (inbox_to_dict i) = Some (JStr (ib_uncertainty_kind i))"
  "field ''decision_status'' (inbox_to_dict i) = Some (JStr (ib_decision_status i))"
  "field ''authorization_status'' (inbox_to_dict i) = Some (JStr (ib_authorization_status i))"
  "field ''resolution_actor'' (inbox_to_dict i) = Some (JStr (ib_resolution_actor i))"
  "field ''resolution_outcome'' (inbox_to_dict i) = Some (JStr (ib_resolution_outcome i))"
  "field ''resolved_at'' (inbox_to_dict i) = Some (JStr (ib_resolved_at i))"
  "field ''failed_gates'' (inbox_to_dict i) = Some (enc_strs (ib_failed_gates i))"
  "field ''pending_gates'' (inbox_to_dict i) = Some (enc_strs (ib_pending_gates i))"
  "field ''evidence_refs'' (inbox_to_dict i) = Some (enc_strs (ib_evidence_refs i))"
  "field ''blocking_reasons'' (inbox_to_dict i) = Some (enc_strs (ib_blocking_reasons i))"
  by (simp_all add: inbox_to_dict_def field_def)

lemma inbox_evidence:
  "for_each (evidence_list (inbox_to_dict i))
     [''failed_gates'', ''pending_gates'', ''evidence_refs'', ''blocking_reasons''] = Inr ()"
  by (simp add: for_each_ok evidence_list_enc inbox_fields)

lemma inbox_leaves_enc: "inbox_leaves (inbox_to_dict i) = Some i"
  by (simp add: inbox_leaves_def inbox_fields)

lemma inbox_dec_enc: "inbox_from_dict p s (inbox_to_dict i) = and_then (validate_inbox p s i) (\<lambda>_. Inr i)"
proof -
  have "is_object (inbox_to_dict i)" by (simp add: is_object_def inbox_to_dict_def)
  then have "list_ex (\<lambda>ks. has_keys ks (inbox_to_dict i)) inbox_schemas"
    by (simp add: has_keys_of inbox_dict_keys inbox_schemas_def)
  then show ?thesis
    by (simp add: inbox_from_dict_def fill_inbox_full inbox_evidence inbox_leaves_enc)
qed

lemma event_dec_ok: "event_from_dict v = Inr e \<Longrightarrow> validate_event e = Inr ()"
  by (auto simp: event_from_dict_def and_then_ok split: if_splits option.splits)

lemma inbox_dec_ok: "inbox_from_dict p s v = Inr i \<Longrightarrow> validate_inbox p s i = Inr ()"
  by (auto simp: inbox_from_dict_def and_then_ok Let_def split: if_splits option.splits)

lemma journal_json_fields [simp]:
  "is_object (journal_to_json (es, is))"
  "field ''schema_version'' (journal_to_json (es, is)) = Some (JStr ''1.0'')"
  "get_list ''events'' (journal_to_json (es, is)) = Inr (map event_to_dict es)"
  "get_list ''inbox'' (journal_to_json (es, is)) = Inr (map inbox_to_dict is)"
  by (simp_all add: journal_to_json_def is_object_def get_list_def field_def tuple_of_def)

lemma journal_dec_enc: "journal_ok p s c \<Longrightarrow> journal_from_json p s (journal_to_json c) = Inr c"
proof -
  assume ok: "journal_ok p s c"
  obtain es "is" where c: "c = (es, is)" by (cases c)
  have "map_res event_from_dict (map event_to_dict es) = Inr es"
    using ok by (intro map_res_map) (simp add: event_dec_enc journal_ok_def c)
  moreover have "map_res (inbox_from_dict p s) (map inbox_to_dict is) = Inr is"
    using ok by (intro map_res_map) (simp add: inbox_dec_enc journal_ok_def c)
  ultimately show ?thesis using ok by (simp add: c journal_from_json_def journal_ok_def)
qed

lemma journal_dec_ok:
  assumes "journal_from_json p s v = Inr c"
  shows "journal_ok p s c"
proof -
  obtain xs ys es "is" where "map_res event_from_dict xs = Inr es"
      "map_res (inbox_from_dict p s) ys = Inr is" "c = (es, is)" "length es \<le> 500" "length is \<le> 500"
    using assms by (auto simp: journal_from_json_def and_then_ok not_less split: if_splits)
  moreover from this have "list_all (\<lambda>e. validate_event e = Inr ()) es"
    "list_all (\<lambda>i. validate_inbox p s i = Inr ()) is"
    by (blast intro: map_res_all event_dec_ok inbox_dec_ok)+
  ultimately show ?thesis by (simp add: journal_ok_def list_all_iff)
qed

interpretation journal_codec: json_codec journal_to_json "journal_from_json p s" "journal_ok p s" for p s
proof
  show "journal_ok p s c \<Longrightarrow> journal_from_json p s (journal_to_json c) = Inr c" for c
    by (rule journal_dec_enc)
  show "journal_from_json p s v = Inr c \<Longrightarrow> journal_ok p s c" for v c
    by (rule journal_dec_ok)
qed

subsection \<open>The journal\<close>

record scheduler_journal =
  sj_project_id :: string
  sj_scheduler_id :: string
  sj_file :: file_content

definition open_journal :: "string \<Rightarrow> string \<Rightarrow> file_content \<Rightarrow> scheduler_journal res" where
  "open_journal p s f =
     (if \<not> starts_with ''project-'' p \<or> CHR ''/'' \<in> set p \<or> CHR 0x5C \<in> set p
      then raise SchedulerJournalError ''project identity is invalid''
      else if \<not> starts_with ''scheduler-'' s \<or> CHR ''/'' \<in> set s \<or> CHR 0x5C \<in> set s
      then raise SchedulerJournalError ''scheduler identity is invalid''
      else Inr \<lparr>sj_project_id = p, sj_scheduler_id = s, sj_file = f\<rparr>)"

definition journal_handled :: "exc_class \<Rightarrow> bool" where
  "journal_handled k = (k = OSError \<or> k = KeyError \<or> k = TypeError \<or> is_value_error k)"

definition load_journal :: "scheduler_journal \<Rightarrow> journal_content res" where
  "load_journal j = and_then (rethrow journal_handled SchedulerJournalError ''invalid scheduler journal: ''
       (load_cell (journal_from_json (sj_project_id j) (sj_scheduler_id j)) (Exc ValueError '''') (sj_file j)))
     (\<lambda>r. Inr (case r of None \<Rightarrow> ([], []) | Some c \<Rightarrow> c))"

definition save_journal :: "scheduler_journal \<Rightarrow> journal_content \<Rightarrow> unit res \<times> scheduler_journal" where
  "save_journal j = (\<lambda>(es, is).
     if length es > 500 \<or> length is > 500 then (raise SchedulerJournalError ''scheduler journal capacity exceeded'', j)
     else (Inr (), j\<lparr>sj_file := Json (journal_to_json (es, is))\<rparr>))"

text \<open>\<open>self._save_unlocked(...)\<close>, then \<open>return x\<close>\<close>

definition save_return :: "'a \<Rightarrow> scheduler_journal \<Rightarrow> journal_content \<Rightarrow> 'a res \<times> scheduler_journal" where
  "save_return x j c = (let (r, j') = save_journal j c in (and_then r (\<lambda>_. Inr x), j'))"

definition append_event :: "scheduler_event \<Rightarrow> scheduler_journal \<Rightarrow> scheduler_event res \<times> scheduler_journal" where
  "append_event e j = (case validate_event e of
     Inl x \<Rightarrow> (Inl x, j)
   | Inr _ \<Rightarrow> (case load_journal j of
       Inl x \<Rightarrow> (Inl x, j)
     | Inr (es, is) \<Rightarrow> (case find (\<lambda>y. se_event_id y = se_event_id e) es of
         Some y \<Rightarrow> (if y = e then Inr y
           else raise SchedulerJournalError ''event ID already exists with different content'', j)
       | None \<Rightarrow>
           if es \<noteq> [] \<and> se_sequence e \<noteq> se_sequence (last es) + 1
           then (raise SchedulerJournalError ''event sequence is not monotonic'', j)
           else save_return e j (es @ [e], is))))"

definition add_inbox :: "inbox_item \<Rightarrow> scheduler_journal \<Rightarrow> inbox_item res \<times> scheduler_journal" where
  "add_inbox i j = (case validate_inbox (sj_project_id j) (sj_scheduler_id j) i of
     Inl x \<Rightarrow> (Inl x, j)
   | Inr _ \<Rightarrow> (case load_journal j of
       Inl x \<Rightarrow> (Inl x, j)
     | Inr (es, is) \<Rightarrow> (case find (\<lambda>y. ib_inbox_id y = ib_inbox_id i) is of
         Some y \<Rightarrow> (if y = i then Inr y
           else raise SchedulerJournalError ''inbox ID already exists with different content'', j)
       | None \<Rightarrow> save_return i j (es, is @ [i]))))"

definition validate_limit :: "int \<Rightarrow> unit res" where
  "validate_limit n = sj_check (\<not> (1 \<le> n \<and> n \<le> 500)) ''journal limit is invalid''"

definition audit :: "int \<Rightarrow> scheduler_journal \<Rightarrow> scheduler_event list res" where
  "audit n j = and_then (validate_limit n) (\<lambda>_. and_then (load_journal j) (\<lambda>(es, _).
     Inr (drop (length es - nat n) es)))"

definition open_inbox :: "int \<Rightarrow> scheduler_journal \<Rightarrow> inbox_item list res" where
  "open_inbox n j = and_then (validate_limit n) (\<lambda>_. and_then (load_journal j) (\<lambda>(_, is).
     Inr (take (nat n) (sort_key ib_inbox_id (filter (\<lambda>i. ib_status i = ''OPEN'') is)))))"

definition resolve_inbox ::
  "string \<Rightarrow> string \<Rightarrow> string \<Rightarrow> string \<Rightarrow> scheduler_journal \<Rightarrow> inbox_item res \<times> scheduler_journal" where
  "resolve_inbox now x actor outcome j =
     (case steps [sj_check (\<not> starts_with ''inbox-'' x) ''inbox ID is invalid'',
        sj_bounded_text actor, sj_bounded_text outcome] of
       Inl e \<Rightarrow> (Inl e, j)
     | Inr _ \<Rightarrow> (case load_journal j of
         Inl e \<Rightarrow> (Inl e, j)
       | Inr (es, is) \<Rightarrow> (case find (\<lambda>y. ib_inbox_id y = x) is of
           None \<Rightarrow> (raise SchedulerJournalError ''inbox ID does not exist'', j)
         | Some i \<Rightarrow>
             if ib_status i = ''RESOLVED''
             then (if (ib_resolution_actor i, ib_resolution_outcome i) \<noteq> (actor, outcome)
               then raise SchedulerJournalError ''inbox resolution conflicts with existing result''
               else Inr i, j)
             else (let u = i\<lparr>ib_status := ''RESOLVED'', ib_resolution_actor := actor,
                     ib_resolution_outcome := outcome, ib_resolved_at := now\<rparr>
               in save_return u j (es, map (\<lambda>y. if ib_inbox_id y = x then u else y) is)))))"

subsection \<open>What an operation does to the file\<close>

abbreviation j_ok :: "scheduler_journal \<Rightarrow> journal_content \<Rightarrow> bool" where
  "j_ok j \<equiv> journal_ok (sj_project_id j) (sj_scheduler_id j)"

lemma load_journal_iff:
  "load_journal j = Inr c \<longleftrightarrow> sj_file j = No_File \<and> c = ([], []) \<or>
     holds (journal_from_json (sj_project_id j) (sj_scheduler_id j)) (sj_file j) c"
proof -
  let ?l = "load_cell (journal_from_json (sj_project_id j) (sj_scheduler_id j)) (Exc ValueError '''') (sj_file j)"
  have "(\<exists>r. X = Inr r \<and> Inr (case r of None \<Rightarrow> e | Some d \<Rightarrow> d) = (Inr c :: journal_content res)) \<longleftrightarrow>
      X = Inr None \<and> c = e \<or> X = Inr (Some c)" for X :: "journal_content option res" and e
    by (cases X; simp) (case_tac b; auto)
  then show ?thesis unfolding load_journal_def and_then_ok rethrow_ok by simp
qed

lemma load_journal_ok: "load_journal j = Inr c \<Longrightarrow> j_ok j c"
  by (auto simp: load_journal_iff journal_codec.holds_valid) (simp add: journal_ok_def)

definition write_journal :: "journal_content \<Rightarrow> scheduler_journal \<Rightarrow> scheduler_journal" where
  "write_journal c j = j\<lparr>sj_file := Json (journal_to_json c)\<rparr>"

lemma write_journal_fields [simp]:
  "sj_project_id (write_journal c j) = sj_project_id j" "sj_scheduler_id (write_journal c j) = sj_scheduler_id j"
  by (simp_all add: write_journal_def)

lemma load_write: "j_ok j c \<Longrightarrow> load_journal (write_journal c j) = Inr c"
  by (simp add: load_journal_iff journal_codec.holds_written) (simp add: write_journal_def journal_codec.holds_written)

lemma save_return_eq:
  "save_return x j (es, is) =
     (if length es > 500 \<or> length is > 500 then (raise SchedulerJournalError ''scheduler journal capacity exceeded'', j)
      else (Inr x, write_journal (es, is) j))"
  by (simp add: save_return_def save_journal_def write_journal_def raise_def Let_def)

lemma find_key_None: "find (\<lambda>y. f y = k) xs = None \<longleftrightarrow> k \<notin> f ` set xs"
  by (auto simp: find_None_iff)

lemma find_key_Some: "find (\<lambda>y. f y = k) xs = Some y \<Longrightarrow> y \<in> set xs \<and> f y = k"
  by (auto simp: find_Some_iff)

text \<open>The three ways an operation changes the content\<close>

definition resolution :: "string \<Rightarrow> string \<Rightarrow> string \<Rightarrow> inbox_item \<Rightarrow> inbox_item" where
  "resolution now actor outcome i = i\<lparr>ib_status := ''RESOLVED'', ib_resolution_actor := actor,
     ib_resolution_outcome := outcome, ib_resolved_at := now\<rparr>"

inductive journal_step :: "journal_content \<Rightarrow> journal_content \<Rightarrow> bool" where
  appended: "se_event_id e \<notin> se_event_id ` set es \<Longrightarrow> es = [] \<or> se_sequence e = se_sequence (last es) + 1 \<Longrightarrow>
    journal_step (es, is) (es @ [e], is)"
| added: "ib_inbox_id i \<notin> ib_inbox_id ` set is \<Longrightarrow> journal_step (es, is) (es, is @ [i])"
| resolved: "i \<in> set is \<Longrightarrow> ib_status i = ''OPEN'' \<Longrightarrow>
    journal_step (es, is)
      (es, map (\<lambda>y. if ib_inbox_id y = ib_inbox_id i then resolution now actor outcome i else y) is)"

inductive_cases journal_stepE: "journal_step c c'"

datatype journal_op = J_Append scheduler_event | J_Add inbox_item | J_Resolve string string string string

fun apply_journal :: "journal_op \<Rightarrow> scheduler_journal \<Rightarrow> scheduler_journal" where
  "apply_journal (J_Append e) j = snd (append_event e j)"
| "apply_journal (J_Add i) j = snd (add_inbox i j)"
| "apply_journal (J_Resolve now x actor outcome) j = snd (resolve_inbox now x actor outcome j)"

text \<open>The clock gives a time of the expected form.\<close>

fun clock_ok :: "journal_op \<Rightarrow> bool" where
  "clock_ok (J_Resolve now x actor outcome) = timestamp_match now"
| "clock_ok _ = True"

definition moves :: "scheduler_journal \<Rightarrow> journal_content \<Rightarrow> scheduler_journal \<Rightarrow> bool" where
  "moves j c j' \<longleftrightarrow> j' = j \<or> (\<exists>c'. j_ok j c' \<and> journal_step c c' \<and> j' = write_journal c' j)"

lemma append_event_moves:
  assumes l: "load_journal j = Inr (es, is)"
  shows "moves j (es, is) (snd (append_event e j))"
proof (cases "snd (append_event e j) = j")
  case False
  then have v: "validate_event e = Inr ()" and f: "find (\<lambda>y. se_event_id y = se_event_id e) es = None"
    and s: "es = [] \<or> se_sequence e = se_sequence (last es) + 1"
    and r: "length (es @ [e]) \<le> 500" "snd (append_event e j) = write_journal (es @ [e], is) j"
    by (auto simp: append_event_def l save_return_eq split: sum.splits option.splits if_splits)
  have n: "se_event_id e \<notin> se_event_id ` set es" using f by (simp only: find_key_None not_False_eq_True)
  have "j_ok j (es @ [e], is)" using load_journal_ok [OF l] v r(1) by (auto simp: journal_ok_def)
  with r(2) show ?thesis unfolding moves_def using appended [OF n s] by blast
qed (simp add: moves_def)

lemma add_inbox_moves:
  assumes l: "load_journal j = Inr (es, is)"
  shows "moves j (es, is) (snd (add_inbox i j))"
proof (cases "snd (add_inbox i j) = j")
  case False
  then have v: "validate_inbox (sj_project_id j) (sj_scheduler_id j) i = Inr ()"
    and f: "find (\<lambda>y. ib_inbox_id y = ib_inbox_id i) is = None"
    and r: "length (is @ [i]) \<le> 500" "snd (add_inbox i j) = write_journal (es, is @ [i]) j"
    by (auto simp: add_inbox_def l save_return_eq split: sum.splits option.splits if_splits)
  have n: "ib_inbox_id i \<notin> ib_inbox_id ` set is" using f by (simp only: find_key_None not_False_eq_True)
  have "j_ok j (es, is @ [i])" using load_journal_ok [OF l] v r(1) by (auto simp: journal_ok_def)
  with r(2) show ?thesis unfolding moves_def using added [OF n] by blast
qed (simp add: moves_def)

lemma validate_resolved:
  assumes "validate_inbox p s i = Inr ()" "sj_text actor" "sj_text outcome" "timestamp_match now"
  shows "validate_inbox p s (resolution now actor outcome i) = Inr ()"
proof -
  have "validate_decision (resolution now actor outcome i) = validate_decision i"
    "structured (resolution now actor outcome i) = structured i"
    by (simp_all add: validate_decision_def structured_def resolution_def)
  moreover have "validate_resolution (resolution now actor outcome i) = Inr ()"
    using assms(2-) by (simp add: validate_resolution_def resolution_def steps_ok sj_bounded_text_def)
  ultimately show ?thesis using assms(1) unfolding validate_inbox_def steps_ok
    by (auto simp: resolution_def)
qed

lemma valid_open_or_resolved: "validate_inbox p s i = Inr () \<Longrightarrow> ib_status i \<noteq> ''RESOLVED'' \<Longrightarrow> ib_status i = ''OPEN''"
  by (auto simp: validate_inbox_def steps_ok)

lemma resolve_inbox_moves:
  assumes l: "load_journal j = Inr (es, is)" and "timestamp_match now"
  shows "moves j (es, is) (snd (resolve_inbox now x actor outcome j))"
proof (cases "snd (resolve_inbox now x actor outcome j) = j")
  case False
  let ?r = "steps [sj_check (\<not> starts_with ''inbox-'' x) ''inbox ID is invalid'',
        sj_bounded_text actor, sj_bounded_text outcome]"
  from False have g: "?r = Inr ()" by (auto simp: resolve_inbox_def split: sum.splits)
  then have t: "sj_text actor" "sj_text outcome" by (simp_all add: steps_ok sj_bounded_text_def)
  from False obtain i where f: "find (\<lambda>y. ib_inbox_id y = x) is = Some i" "ib_status i \<noteq> ''RESOLVED''"
    by (auto simp: resolve_inbox_def g l split: option.splits if_splits)
  with False have r: "snd (resolve_inbox now x actor outcome j) =
      write_journal (es, map (\<lambda>y. if ib_inbox_id y = x then resolution now actor outcome i else y) is) j"
    by (auto simp: resolve_inbox_def g l save_return_eq resolution_def [symmetric] Let_def split: if_splits)
  have ok: "j_ok j (es, is)" using l by (rule load_journal_ok)
  have i: "i \<in> set is" "ib_inbox_id i = x" using find_key_Some [OF f(1)] by auto
  with ok have v: "validate_inbox (sj_project_id j) (sj_scheduler_id j) i = Inr ()" by (simp add: journal_ok_def)
  from v f(2) have o: "ib_status i = ''OPEN''" by (rule valid_open_or_resolved)
  have "j_ok j (es, map (\<lambda>y. if ib_inbox_id y = ib_inbox_id i then resolution now actor outcome i else y) is)"
    using ok validate_resolved [OF v t assms(2)] by (auto simp: journal_ok_def)
  with r i(2) show ?thesis
    unfolding moves_def using resolved [OF i(1) o, of es now actor outcome] by blast
qed (simp add: moves_def)

lemma apply_journal_moves:
  assumes "load_journal j = Inr c" "clock_ok op"
  shows "moves j c (apply_journal op j)"
proof -
  obtain es "is" where "c = (es, is)" by (cases c)
  with assms show ?thesis
    by (cases op) (simp_all add: append_event_moves add_inbox_moves resolve_inbox_moves)
qed

subsection \<open>Whole histories\<close>

definition journal_inv :: "journal_content \<Rightarrow> bool" where
  "journal_inv = (\<lambda>(es, is). distinct (map se_event_id es) \<and> distinct (map ib_inbox_id is) \<and>
     successively (\<lambda>a b. se_sequence b = se_sequence a + 1) es)"

text \<open>What may have become of an item: nothing, or an open item got its resolution\<close>

definition item_evolves :: "inbox_item \<Rightarrow> inbox_item \<Rightarrow> bool" where
  "item_evolves i u \<longleftrightarrow> u = i \<or> ib_status i = ''OPEN'' \<and> (\<exists>now actor outcome. u = resolution now actor outcome i)"

definition content_evolves :: "journal_content \<Rightarrow> journal_content \<Rightarrow> bool" where
  "content_evolves = (\<lambda>(es, is) (es', is'). (\<exists>fs. es' = es @ fs) \<and>
     (\<exists>us js. is' = us @ js \<and> list_all2 item_evolves is us))"

lemma resolution_id [simp]: "ib_inbox_id (resolution now actor outcome i) = ib_inbox_id i"
  by (simp add: resolution_def)

lemma resolution_status [simp]: "ib_status (resolution now actor outcome i) = ''RESOLVED''"
  by (simp add: resolution_def)

lemma item_evolves_trans: "item_evolves i u \<Longrightarrow> item_evolves u w \<Longrightarrow> item_evolves i w"
  by (auto simp: item_evolves_def)

lemma content_evolvesI: "list_all2 item_evolves is us \<Longrightarrow> content_evolves (es, is) (es @ fs, us @ js)"
  unfolding content_evolves_def by blast

lemma items_evolve_refl: "list_all2 item_evolves is is"
  by (simp add: list_all2_same item_evolves_def)

lemma content_evolves_refl: "content_evolves c c"
proof (cases c)
  case (Pair es "is")
  then show ?thesis using content_evolvesI [OF items_evolve_refl, of es "is" "[]" "[]"] by simp
qed

lemma content_evolves_trans:
  assumes "content_evolves a b" "content_evolves b c"
  shows "content_evolves a c"
proof -
  obtain es "is" fs us js where a: "a = (es, is)" "b = (es @ fs, us @ js)" "list_all2 item_evolves is us"
    using assms(1) by (auto simp: content_evolves_def)
  then obtain gs ws ks where c: "c = (es @ fs @ gs, ws @ ks)" "list_all2 item_evolves (us @ js) ws"
    using assms(2) by (auto simp: content_evolves_def)
  then obtain w1 w2 where w: "ws = w1 @ w2" "list_all2 item_evolves us w1"
    by (auto simp: list_all2_append1)
  have "list_all2 item_evolves is w1"
    by (rule list_all2_trans [OF item_evolves_trans a(3) w(2)])
  then show ?thesis using a c w by (auto simp: content_evolves_def)
qed

lemma journal_step_inv: "journal_step c c' \<Longrightarrow> journal_inv c \<Longrightarrow> journal_inv c'"
  by (erule journal_step.cases)
    (auto simp: journal_inv_def successively_append_iff comp_def if_distrib cong: if_cong)

lemma item_evolves_map:
  "distinct (map ib_inbox_id is) \<Longrightarrow> i \<in> set is \<Longrightarrow> ib_status i = ''OPEN'' \<Longrightarrow>
    list_all2 item_evolves is (map (\<lambda>y. if ib_inbox_id y = ib_inbox_id i then resolution now actor outcome i else y) is)"
  unfolding list_all2_map2 list_all2_same item_evolves_def
  by (metis inj_on_def distinct_map)

lemma journal_step_evolves:
  assumes "journal_step c c'" "journal_inv c"
  shows "content_evolves c c'"
  using assms(1)
proof cases
  case (resolved i "is" es now actor outcome)
  then have "list_all2 item_evolves is
      (map (\<lambda>y. if ib_inbox_id y = ib_inbox_id i then resolution now actor outcome i else y) is)"
    using assms(2) by (intro item_evolves_map) (auto simp: journal_inv_def)
  from content_evolvesI [OF this, of es "[]" "[]"] show ?thesis by (simp add: resolved)
next
  case (appended e es "is")
  then show ?thesis using content_evolvesI [OF items_evolve_refl, of es "is" "[e]" "[]"] by simp
next
  case (added i "is" es)
  then show ?thesis using content_evolvesI [OF items_evolve_refl, of es "is" "[]" "[i]"] by simp
qed

fun apply_journal_all :: "journal_op list \<Rightarrow> scheduler_journal \<Rightarrow> scheduler_journal" where
  "apply_journal_all [] j = j"
| "apply_journal_all (op # ops) j = apply_journal_all ops (apply_journal op j)"

lemma moves_load: "moves j c j' \<Longrightarrow> load_journal j = Inr c \<Longrightarrow> journal_inv c \<Longrightarrow>
    \<exists>c'. load_journal j' = Inr c' \<and> journal_inv c' \<and> content_evolves c c'"
  unfolding moves_def using load_write journal_step_inv journal_step_evolves content_evolves_refl by metis

lemma apply_journal_all_load:
  "load_journal j = Inr c \<Longrightarrow> journal_inv c \<Longrightarrow> list_all clock_ok ops \<Longrightarrow>
    \<exists>c'. load_journal (apply_journal_all ops j) = Inr c' \<and> journal_inv c' \<and> content_evolves c c'"
proof (induction ops arbitrary: j c)
  case Nil
  then show ?case using content_evolves_refl by simp
next
  case (Cons op ops)
  have "moves j c (apply_journal op j)" using Cons.prems by (simp add: apply_journal_moves)
  then obtain d where "load_journal (apply_journal op j) = Inr d" "journal_inv d" "content_evolves c d"
    using moves_load Cons.prems by blast
  moreover from this Cons.prems obtain c' where "load_journal (apply_journal_all ops (apply_journal op j)) = Inr c'"
    "journal_inv c'" "content_evolves d c'" using Cons.IH [of "apply_journal op j" d] by auto
  ultimately show ?case using content_evolves_trans [of c d c'] by auto
qed

lemma append_event_cases:
  assumes l: "load_journal j = Inr (es, is)" and d: "distinct (map se_event_id es)"
    and v: "validate_event e = Inr ()"
  shows "append_event e j =
    (if e \<in> set es then (Inr e, j)
     else if se_event_id e \<in> se_event_id ` set es
     then (raise SchedulerJournalError ''event ID already exists with different content'', j)
     else if es \<noteq> [] \<and> se_sequence e \<noteq> se_sequence (last es) + 1
     then (raise SchedulerJournalError ''event sequence is not monotonic'', j)
     else if length es = 500 then (raise SchedulerJournalError ''scheduler journal capacity exceeded'', j)
     else (Inr e, write_journal (es @ [e], is) j))"
proof (cases "find (\<lambda>y. se_event_id y = se_event_id e) es")
  case None
  then have n: "se_event_id e \<notin> se_event_id ` set es" by (simp only: find_key_None not_False_eq_True)
  have "length es \<le> 500" "length is \<le> 500" using load_journal_ok [OF l] by (simp_all add: journal_ok_def)
  then have "length (es @ [e]) > 500 \<or> length is > 500 \<longleftrightarrow> length es = 500" by auto
  with n show ?thesis unfolding append_event_def
    by (simp only: v l None save_return_eq sum.case option.case prod.case) (auto simp: image_iff)
next
  case (Some y)
  then have y: "y \<in> set es" "se_event_id y = se_event_id e" using find_key_Some by metis+
  then have "e \<in> set es \<longleftrightarrow> y = e" using d by (metis distinct_map inj_on_def)
  with y Some show ?thesis by (auto simp: append_event_def v l image_iff)
qed

lemma resolve_inbox_again:
  assumes l: "load_journal j = Inr (es, is)" and d: "distinct (map ib_inbox_id is)"
    and u: "u \<in> set is" "ib_status u = ''RESOLVED''"
    and t: "starts_with ''inbox-'' (ib_inbox_id u)" "sj_text actor" "sj_text outcome"
  shows "resolve_inbox now (ib_inbox_id u) actor outcome j =
    (if ib_resolution_actor u = actor \<and> ib_resolution_outcome u = outcome then Inr u
     else raise SchedulerJournalError ''inbox resolution conflicts with existing result'', j)"
proof -
  have g: "steps [sj_check (\<not> starts_with ''inbox-'' (ib_inbox_id u)) ''inbox ID is invalid'',
        sj_bounded_text actor, sj_bounded_text outcome] = Inr ()"
    using t by (simp add: steps_ok sj_bounded_text_def)
  obtain y where y: "find (\<lambda>y. ib_inbox_id y = ib_inbox_id u) is = Some y"
    using u(1) find_key_None [of ib_inbox_id "ib_inbox_id u" "is"] by fastforce
  then have "y = u" using find_key_Some [OF y] u(1) d by (metis distinct_map inj_on_def)
  with y show ?thesis by (simp add: resolve_inbox_def g l u(2))
qed

lemma resolve_inbox_open:
  assumes l: "load_journal j = Inr (es, is)" and d: "distinct (map ib_inbox_id is)"
    and u: "u \<in> set is" "ib_status u = ''OPEN''"
    and t: "starts_with ''inbox-'' (ib_inbox_id u)" "sj_text actor" "sj_text outcome"
  shows "resolve_inbox now (ib_inbox_id u) actor outcome j =
    (Inr (resolution now actor outcome u),
     write_journal (es, map (\<lambda>y. if ib_inbox_id y = ib_inbox_id u then resolution now actor outcome u else y) is) j)"
proof -
  have g: "steps [sj_check (\<not> starts_with ''inbox-'' (ib_inbox_id u)) ''inbox ID is invalid'',
        sj_bounded_text actor, sj_bounded_text outcome] = Inr ()"
    using t by (simp add: steps_ok sj_bounded_text_def)
  obtain y where y: "find (\<lambda>y. ib_inbox_id y = ib_inbox_id u) is = Some y"
    using u(1) find_key_None [of ib_inbox_id "ib_inbox_id u" "is"] by fastforce
  then have "y = u" using find_key_Some [OF y] u(1) d by (metis distinct_map inj_on_def)
  moreover have "length es \<le> 500" "length is \<le> 500" using load_journal_ok [OF l] by (simp_all add: journal_ok_def)
  ultimately show ?thesis using y u(2)
    by (simp add: resolve_inbox_def g l save_return_eq resolution_def [symmetric] Let_def not_less [symmetric])
qed

lemma resolved_schema_lacks: "''blocking_reasons'' \<notin> set (extended_keys @ resolution_keys)"
  by code_simp

lemma resolved_schema_unfilled:
  "list_all (\<lambda>ks. set (extended_keys @ resolution_keys) \<noteq> set ks)
     [legacy_keys, old_extended_keys, old_extended_keys @ resolution_keys, extended_keys, executive_keys]"
  by code_simp

lemma has_keys_object: "has_keys ks v \<Longrightarrow> is_object v"
  by (simp add: has_keys_def is_object_def split: json.splits)

lemma field_None: "is_object v \<Longrightarrow> field k v = None \<longleftrightarrow> k \<notin> set (keys_of v)"
  by (auto simp: is_object_def field_def keys_of_def map_of_eq_None_iff split: json.splits)

lemma resolved_schema_rejected:
  assumes k: "has_keys (extended_keys @ resolution_keys) v"
  shows "\<exists>e. inbox_from_dict p s v = Inl e"
proof -
  have o: "is_object v" using k by (rule has_keys_object)
  then have ks: "set (keys_of v) = set (extended_keys @ resolution_keys)" using k by (simp add: has_keys_of)
  have "fill_inbox v = v"
    using resolved_schema_unfilled unfolding fill_inbox_def has_keys_of [OF o] ks by simp
  moreover have "field ''blocking_reasons'' v = None"
    using resolved_schema_lacks by (simp add: field_None [OF o] ks)
  then have "evidence_list v ''blocking_reasons'' \<noteq> Inr ()" by (simp add: evidence_list_def)
  then have "for_each (evidence_list v)
      [''failed_gates'', ''pending_gates'', ''evidence_refs'', ''blocking_reasons''] \<noteq> Inr ()"
    by (simp add: for_each_ok)
  ultimately show ?thesis
    by (cases "for_each (evidence_list v)
      [''failed_gates'', ''pending_gates'', ''evidence_refs'', ''blocking_reasons'']")
      (auto simp: inbox_from_dict_def raise_def)
qed

lemma map_res_Inl: "v \<in> set xs \<Longrightarrow> f v = Inl e \<Longrightarrow> \<exists>e. map_res f xs = Inl e"
proof (induction xs)
  case (Cons x xs)
  then show ?case by (cases "f x") (auto simp: and_then_def split: sum.split)
qed simp

lemma journal_not_object:
  "sj_file j = Json v \<Longrightarrow> \<not> is_object v \<Longrightarrow> load_journal j = raise AttributeError ''''"
  by (simp add: load_journal_def load_cell_def journal_from_json_def rethrow_def raise_def journal_handled_def)

subsection \<open>Properties\<close>

definition empty_journal :: scheduler_journal where
  "empty_journal = \<lparr>sj_project_id = ''project-a'', sj_scheduler_id = ''scheduler-a'', sj_file = No_File\<rparr>"

definition sample_event :: "string \<Rightarrow> int \<Rightarrow> scheduler_event" where
  "sample_event x n = \<lparr>se_event_id = x, se_sequence = n, se_event_type = ''STATE_TRANSITION'',
     se_from_status = ''CREATED'', se_to_status = ''RUNNING'', se_summary = ''started''\<rparr>"

definition sample_inbox :: inbox_item where
  "sample_inbox = \<lparr>ib_inbox_id = ''inbox-000001'', ib_project_id = ''project-a'',
     ib_scheduler_id = ''scheduler-a'', ib_title = ''Review'', ib_summary = ''Please review'',
     ib_required_action = ''decide'', ib_status = ''OPEN'', ib_decision_id = [], ib_task_id = [],
     ib_risk_class = [], ib_failed_gates = [], ib_pending_gates = [], ib_evidence_refs = [],
     ib_policy_id = [], ib_policy_hash = [], ib_uncertainty_kind = [], ib_decision_status = [],
     ib_authorization_status = [], ib_blocking_reasons = [], ib_resolution_actor = [],
     ib_resolution_outcome = [], ib_resolved_at = []\<rparr>"

definition sample_journal :: scheduler_journal where
  "sample_journal = write_journal ([sample_event ''event-000001'' 1], [sample_inbox]) empty_journal"

lemma sample_journal_ok: "j_ok empty_journal ([sample_event ''event-000001'' 1], [sample_inbox])"
proof -
  have "validate_event (sample_event ''event-000001'' 1) = Inr ()" by code_simp
  moreover have "validate_inbox (sj_project_id empty_journal) (sj_scheduler_id empty_journal) sample_inbox = Inr ()"
    by code_simp
  ultimately show ?thesis by (simp add: journal_ok_def)
qed

lemma sample_journal_load:
  "load_journal sample_journal = Inr ([sample_event ''event-000001'' 1], [sample_inbox])"
  unfolding sample_journal_def by (rule load_write [OF sample_journal_ok])

lemma empty_journal_load: "load_journal empty_journal = Inr ([], [])"
  by (simp add: load_journal_iff empty_journal_def)

text \<open>C36. Whatever appends, additions and resolutions run on a readable journal with unique
  identifiers and consecutive sequence numbers, succeeding or failing, with a clock that gives
  well-formed times: it stays readable, identifiers stay unique and sequence numbers consecutive,
  the old events stay as they are at the front, no inbox item is lost or moved, and the only
  change to one is that an open item gets its resolution, once.\<close>

theorem journal_history_safe:
  assumes "load_journal j = Inr c" "journal_inv c" "list_all clock_ok ops"
  shows "\<exists>c'. load_journal (apply_journal_all ops j) = Inr c' \<and> journal_inv c' \<and> content_evolves c c'"
  using assms by (rule apply_journal_all_load)

definition sample_ops :: "journal_op list" where
  "sample_ops = [J_Append (sample_event ''event-000001'' 1), J_Append (sample_event ''event-000002'' 2),
     J_Append (sample_event ''event-000003'' 7), J_Add sample_inbox,
     J_Resolve ''2026-01-01T00:00:00Z'' ''inbox-000001'' ''alice'' ''approved'']"

theorem journal_history_safe_witness:
  "\<exists>c'. load_journal (apply_journal_all sample_ops empty_journal) = Inr c' \<and> journal_inv c' \<and>
     content_evolves ([], []) c'"
proof (rule journal_history_safe [OF empty_journal_load])
  show "journal_inv ([], [])" by (simp add: journal_inv_def)
  show "list_all clock_ok sample_ops" by code_simp
qed

text \<open>Appending a valid event to a readable journal with unique event identifiers: an event
  that is already there is returned and nothing is written, so a repeated append is harmless;
  otherwise a known identifier, a sequence number that is not the successor of the last, or a
  journal of 500 events is refused and nothing is written; else the event is written at the end.\<close>

theorem append_event_correct:
  assumes "load_journal j = Inr (es, is)" "distinct (map se_event_id es)" "validate_event e = Inr ()"
  shows "append_event e j =
    (if e \<in> set es then (Inr e, j)
     else if se_event_id e \<in> se_event_id ` set es
     then (raise SchedulerJournalError ''event ID already exists with different content'', j)
     else if es \<noteq> [] \<and> se_sequence e \<noteq> se_sequence (last es) + 1
     then (raise SchedulerJournalError ''event sequence is not monotonic'', j)
     else if length es = 500 then (raise SchedulerJournalError ''scheduler journal capacity exceeded'', j)
     else (Inr e, write_journal (es @ [e], is) j)) \<and>
    (length es < 500 \<longrightarrow> load_journal (write_journal (es @ [e], is) j) = Inr (es @ [e], is))"
proof -
  have "j_ok j (es @ [e], is)" if "length es < 500"
    using that load_journal_ok [OF assms(1)] assms(3) by (auto simp: journal_ok_def)
  then show ?thesis using append_event_cases [OF assms] load_write by blast
qed

theorem append_event_correct_witness:
  "append_event (sample_event ''event-000002'' 2) sample_journal =
    (Inr (sample_event ''event-000002'' 2),
     write_journal ([sample_event ''event-000001'' 1, sample_event ''event-000002'' 2], [sample_inbox]) sample_journal)"
proof -
  have "distinct (map se_event_id [sample_event ''event-000001'' 1])" by simp
  moreover have "validate_event (sample_event ''event-000002'' 2) = Inr ()" by code_simp
  ultimately show ?thesis
    using append_event_correct [OF sample_journal_load, of "sample_event ''event-000002'' 2"]
    by (simp add: sample_event_def)
qed

text \<open>Resolving an open item of a readable journal with unique inbox identifiers records the
  resolution with the time of the call. Resolving it again, at any time, with the same actor and
  outcome returns what was recorded and writes nothing, and with any other actor or outcome is
  refused and writes nothing.\<close>

theorem resolve_inbox_correct:
  assumes "load_journal j = Inr (es, is)" "distinct (map ib_inbox_id is)"
    and "u \<in> set is" "ib_status u = ''OPEN''" and "starts_with ''inbox-'' (ib_inbox_id u)"
    and "sj_text actor" "sj_text outcome" "sj_text actor'" "sj_text outcome'" "timestamp_match now"
  shows "\<exists>j'. resolve_inbox now (ib_inbox_id u) actor outcome j = (Inr (resolution now actor outcome u), j') \<and>
    resolve_inbox now' (ib_inbox_id u) actor' outcome' j' =
      (if actor' = actor \<and> outcome' = outcome then Inr (resolution now actor outcome u)
       else raise SchedulerJournalError ''inbox resolution conflicts with existing result'', j')"
proof -
  let ?u = "resolution now actor outcome u"
  let ?is = "map (\<lambda>y. if ib_inbox_id y = ib_inbox_id u then ?u else y) is"
  let ?j = "write_journal (es, ?is) j"
  have r: "resolve_inbox now (ib_inbox_id u) actor outcome j = (Inr ?u, ?j)"
    using assms by (intro resolve_inbox_open) auto
  have ok: "j_ok j (es, is)" using assms(1) by (rule load_journal_ok)
  then have "validate_inbox (sj_project_id j) (sj_scheduler_id j) ?u = Inr ()"
    using assms by (intro validate_resolved) (auto simp: journal_ok_def)
  then have l: "load_journal ?j = Inr (es, ?is)" using ok by (intro load_write) (auto simp: journal_ok_def)
  have d: "distinct (map ib_inbox_id ?is)" using assms(2) by (simp add: comp_def if_distrib cong: if_cong)
  have u: "?u \<in> set ?is" using assms(3) by auto
  have "resolve_inbox now' (ib_inbox_id ?u) actor' outcome' ?j =
      (if ib_resolution_actor ?u = actor' \<and> ib_resolution_outcome ?u = outcome' then Inr ?u
       else raise SchedulerJournalError ''inbox resolution conflicts with existing result'', ?j)"
    by (rule resolve_inbox_again [OF l d u]) (use assms in simp_all)
  with r show ?thesis by (intro exI [of _ ?j]) (simp add: resolution_def eq_commute)
qed

theorem resolve_inbox_correct_witness:
  "\<exists>j'. resolve_inbox ''2026-01-01T00:00:00Z'' (ib_inbox_id sample_inbox) ''alice'' ''approved'' sample_journal =
      (Inr (resolution ''2026-01-01T00:00:00Z'' ''alice'' ''approved'' sample_inbox), j') \<and>
    resolve_inbox ''2026-01-02T00:00:00Z'' (ib_inbox_id sample_inbox) ''bob'' ''rejected'' j' =
      (raise SchedulerJournalError ''inbox resolution conflicts with existing result'', j')"
proof -
  have "starts_with ''inbox-'' (ib_inbox_id sample_inbox) \<and> sj_text ''alice'' \<and> sj_text ''approved'' \<and>
    sj_text ''bob'' \<and> sj_text ''rejected'' \<and> timestamp_match ''2026-01-01T00:00:00Z''" by code_simp
  moreover have "distinct (map ib_inbox_id [sample_inbox])" "ib_status sample_inbox = ''OPEN''"
    by (simp_all add: sample_inbox_def)
  ultimately show ?thesis
    using resolve_inbox_correct [OF sample_journal_load, of sample_inbox "''alice''" "''approved''" "''bob''" "''rejected''"
      "''2026-01-01T00:00:00Z''" "''2026-01-02T00:00:00Z''"] by simp
qed

text \<open>The resolved form of an extended inbox item, one of the seven key sets that the reader
  accepts as a schema, can never be read: no default is filled in for \<open>blocking_reasons\<close>, which is
  then looked up. A journal that holds one such item cannot be loaded at all.\<close>

theorem resolved_schema_unreadable:
  assumes "has_keys (extended_keys @ resolution_keys) v" "field ''inbox'' w = Some (JList vs)" "v \<in> set vs"
  shows "extended_keys @ resolution_keys \<in> set inbox_schemas \<and>
    (\<exists>e. inbox_from_dict p s v = Inl e) \<and> (\<exists>e. journal_from_json p s w = Inl e)"
proof -
  obtain e where e: "inbox_from_dict p s v = Inl e" using resolved_schema_rejected [OF assms(1)] by blast
  have "get_list ''inbox'' w = Inr vs" by (simp add: get_list_def assms(2) tuple_of_def)
  moreover obtain e' where "map_res (inbox_from_dict p s) vs = Inl e'" using map_res_Inl [of v vs "inbox_from_dict p s" e] assms(3) e by blast
  ultimately have "journal_from_json p s w \<noteq> Inr c" for c
    by (auto simp: journal_from_json_def and_then_ok split: if_splits)
  then have "\<exists>e. journal_from_json p s w = Inl e" by (cases "journal_from_json p s w") auto
  with e show ?thesis by (simp add: inbox_schemas_def)
qed

definition sample_resolved :: json where
  "sample_resolved = JObj (map (\<lambda>k. (k, case field k (inbox_to_dict
       (resolution ''2026-01-01T00:00:00Z'' ''alice'' ''approved'' sample_inbox)) of None \<Rightarrow> JNull | Some v \<Rightarrow> v))
     (extended_keys @ resolution_keys))"

theorem resolved_schema_unreadable_witness:
  "\<exists>e. journal_from_json ''project-a'' ''scheduler-a''
     (JObj [(''schema_version'', JStr ''1.0''), (''events'', JList []), (''inbox'', JList [sample_resolved])]) = Inl e"
proof -
  have "has_keys (extended_keys @ resolution_keys) sample_resolved"
    by (simp add: has_keys_def sample_resolved_def comp_def)
  then show ?thesis using resolved_schema_unreadable [of sample_resolved
      "JObj [(''schema_version'', JStr ''1.0''), (''events'', JList []), (''inbox'', JList [sample_resolved])]"
      "[sample_resolved]" "''project-a''" "''scheduler-a''"]
    by (simp add: field_def)
qed

end
