(* ===== verification/Risk.thy ===== *)
theory Risk
  imports StoreCell "HOL-Library.Monad_Syntax"
begin

section \<open>Risk assessment (risk_models.py, risk_engine.py)\<close>

text \<open>
  The risk assessment of a task with its validator and JSON form, and the engine that computes
  one from facts about the change. \<open>RiskLevel\<close> is an \<open>IntEnum\<close>: its order is the instance of
  \<open>linorder\<close> below, so that \<open>max\<close> and \<open><\<close> are the library's.
\<close>

datatype risk_level = Risk_LOW | Risk_MEDIUM | Risk_HIGH | Risk_CRITICAL

fun risk_number :: "risk_level \<Rightarrow> nat" where
  "risk_number Risk_LOW = 1"
| "risk_number Risk_MEDIUM = 2"
| "risk_number Risk_HIGH = 3"
| "risk_number Risk_CRITICAL = 4"

lemma risk_number_inj: "risk_number a = risk_number b \<longleftrightarrow> a = b"
  by (cases a; cases b) auto

instantiation risk_level :: linorder
begin

definition less_eq_risk_level :: "risk_level \<Rightarrow> risk_level \<Rightarrow> bool" where
  "less_eq_risk_level a b = (risk_number a \<le> risk_number b)"

definition less_risk_level :: "risk_level \<Rightarrow> risk_level \<Rightarrow> bool" where
  "less_risk_level a b = (risk_number a < risk_number b)"

instance
  by standard (auto simp: less_eq_risk_level_def less_risk_level_def risk_number_inj)

end

datatype signal_level = Sig_LOW | Sig_MEDIUM | Sig_HIGH | Sig_CRITICAL | Sig_UNKNOWN

datatype rollback_difficulty = Rollback_EASY | Rollback_MODERATE | Rollback_HARD | Rollback_UNKNOWN

record risk_signal =
  sg_signal_id :: string
  sg_category :: string
  sg_level :: signal_level
  sg_value :: string
  sg_evidence_refs :: "string list"

record risk_assessment =
  rk_schema_version :: string
  rk_assessment_id :: string
  rk_project_id :: string
  rk_task_id :: string
  rk_level :: risk_level
  rk_signals :: "risk_signal list"
  rk_rollback_difficulty :: rollback_difficulty
  rk_incident_count :: "int option"
  rk_protected_paths :: "string list"
  rk_evidence_refs :: "string list"

fun risk_name :: "risk_level \<Rightarrow> string" where
  "risk_name Risk_LOW = ''LOW''"
| "risk_name Risk_MEDIUM = ''MEDIUM''"
| "risk_name Risk_HIGH = ''HIGH''"
| "risk_name Risk_CRITICAL = ''CRITICAL''"

fun signal_value :: "signal_level \<Rightarrow> string" where
  "signal_value Sig_LOW = ''LOW''"
| "signal_value Sig_MEDIUM = ''MEDIUM''"
| "signal_value Sig_HIGH = ''HIGH''"
| "signal_value Sig_CRITICAL = ''CRITICAL''"
| "signal_value Sig_UNKNOWN = ''UNKNOWN''"

fun rollback_value :: "rollback_difficulty \<Rightarrow> string" where
  "rollback_value Rollback_EASY = ''EASY''"
| "rollback_value Rollback_MODERATE = ''MODERATE''"
| "rollback_value Rollback_HARD = ''HARD''"
| "rollback_value Rollback_UNKNOWN = ''UNKNOWN''"

subsection \<open>Validation\<close>

abbreviation rk_check :: "bool \<Rightarrow> string \<Rightarrow> unit res" where
  "rk_check b m \<equiv> raise_if b RiskValidationError m"

definition rk_text :: "string \<Rightarrow> bool" where
  "rk_text v = (\<not> blank v \<and> length v \<le> 4000 \<and> \<not> secret_search v)"

definition rk_bounded_text :: "string \<Rightarrow> string \<Rightarrow> unit res" where
  "rk_bounded_text label v = rk_check (\<not> rk_text v) (label @ '' is invalid'')"

definition rk_bounded_list :: "string \<Rightarrow> string list \<Rightarrow> bool \<Rightarrow> unit res" where
  "rk_bounded_list label vs allow_empty = steps [
     rk_check (length vs > 200) (label @ '' is invalid''),
     rk_check (\<not> allow_empty \<and> vs = []) (label @ '' is invalid''),
     for_each (rk_bounded_text label) vs]"

text \<open>\<open>RiskLevel[signal.level.value]\<close>; the code asks only for a level that is not UNKNOWN.\<close>

fun risk_of_signal :: "signal_level \<Rightarrow> risk_level" where
  "risk_of_signal Sig_LOW = Risk_LOW"
| "risk_of_signal Sig_MEDIUM = Risk_MEDIUM"
| "risk_of_signal Sig_HIGH = Risk_HIGH"
| "risk_of_signal _ = Risk_CRITICAL"

definition validate_signal :: "risk_signal \<Rightarrow> string list \<Rightarrow> unit res" where
  "validate_signal g seen = steps [
     rk_check (\<not> id_match ''signal-'' (sg_signal_id g)) ''signal is invalid'',
     rk_check (sg_signal_id g \<in> set seen) ''signal IDs must be unique'',
     rk_bounded_text ''signal category'' (sg_category g),
     rk_bounded_text ''signal value'' (sg_value g),
     rk_bounded_list ''signal evidence_refs'' (sg_evidence_refs g) True]"

text \<open>The loop over the signals, with the identifiers seen and the highest level so far\<close>

fun check_signals :: "string list \<Rightarrow> risk_level \<Rightarrow> risk_signal list \<Rightarrow> risk_level res" where
  "check_signals seen highest [] = Inr highest"
| "check_signals seen highest (g # gs) = and_then (validate_signal g seen) (\<lambda>_.
     check_signals (sg_signal_id g # seen)
       (if sg_level g = Sig_UNKNOWN then Risk_CRITICAL else max highest (risk_of_signal (sg_level g))) gs)"

definition risk_validate :: "risk_assessment \<Rightarrow> unit res" where
  "risk_validate a = and_then (steps [
     rk_check (rk_schema_version a \<noteq> ''1.0'') ''schema_version must be 1.0'',
     rk_check (\<not> id_match ''risk-'' (rk_assessment_id a)) ''assessment_id is invalid'',
     rk_check (\<not> id_match ''project-'' (rk_project_id a)) ''project_id is invalid'',
     rk_check (\<not> id_match ''task-'' (rk_task_id a)) ''task_id is invalid'',
     rk_check (case rk_incident_count a of None \<Rightarrow> False | Some n \<Rightarrow> n < 0) ''incident_count is invalid'',
     rk_bounded_list ''protected_paths'' (rk_protected_paths a) True,
     rk_bounded_list ''evidence_refs'' (rk_evidence_refs a) True,
     rk_check (rk_protected_paths a \<noteq> [] \<and> rk_level a \<noteq> Risk_CRITICAL) ''protected paths require CRITICAL risk'',
     rk_check (rk_signals a = [] \<or> length (rk_signals a) > 200) ''signals must contain 1 to 200 items''])
     (\<lambda>_. and_then (check_signals [] Risk_LOW (rk_signals a)) (\<lambda>highest. steps [
       rk_check (rk_level a < highest) (''assessment level is lower than required '' @ risk_name highest),
       rk_check (rk_rollback_difficulty a = Rollback_UNKNOWN \<and> rk_level a \<noteq> Risk_CRITICAL)
         ''unknown rollback difficulty requires CRITICAL risk'']))"

subsection \<open>The engine\<close>

definition change_level :: "nat \<Rightarrow> signal_level" where
  "change_level n = (if n \<le> 3 then Sig_LOW else if n \<le> 10 then Sig_MEDIUM else Sig_HIGH)"

fun rollback_level :: "rollback_difficulty \<Rightarrow> signal_level" where
  "rollback_level Rollback_EASY = Sig_LOW"
| "rollback_level Rollback_MODERATE = Sig_MEDIUM"
| "rollback_level Rollback_HARD = Sig_HIGH"
| "rollback_level Rollback_UNKNOWN = Sig_UNKNOWN"

fun aggregate_from :: "risk_level \<Rightarrow> risk_signal list \<Rightarrow> risk_level" where
  "aggregate_from level [] = level"
| "aggregate_from level (g # gs) =
     (if sg_level g = Sig_UNKNOWN then Risk_CRITICAL
      else aggregate_from (max level (risk_of_signal (sg_level g))) gs)"

definition aggregate_level :: "risk_signal list \<Rightarrow> risk_level" where
  "aggregate_level gs = aggregate_from Risk_LOW gs"

text \<open>The keyword arguments of \<open>assess_risk\<close>\<close>

record risk_facts =
  rf_assessment_id :: string
  rf_project_id :: string
  rf_task_id :: string
  rf_changed_paths :: "string list"
  rf_protected_paths :: "string list"
  rf_rollback_difficulty :: rollback_difficulty
  rf_incident_count :: "int option"
  rf_reviewer_blockers :: int
  rf_validation_passed :: bool
  rf_evidence_refs :: "string list"

definition risk_signals :: "risk_facts \<Rightarrow> risk_signal list" where
  "risk_signals f = (let e = rf_evidence_refs f in [
     \<lparr>sg_signal_id = ''signal-change-size'', sg_category = ''CHANGE_SIZE'',
      sg_level = change_level (length (rf_changed_paths f)),
      sg_value = ''changed_paths='' @ show_nat (length (rf_changed_paths f)), sg_evidence_refs = e\<rparr>,
     \<lparr>sg_signal_id = ''signal-protected-path'', sg_category = ''PROTECTED_PATH'',
      sg_level = (if rf_protected_paths f \<noteq> [] then Sig_HIGH else Sig_LOW),
      sg_value = ''protected_paths='' @ show_nat (length (rf_protected_paths f)), sg_evidence_refs = e\<rparr>,
     \<lparr>sg_signal_id = ''signal-rollback'', sg_category = ''ROLLBACK_DIFFICULTY'',
      sg_level = rollback_level (rf_rollback_difficulty f),
      sg_value = ''rollback='' @ rollback_value (rf_rollback_difficulty f), sg_evidence_refs = e\<rparr>,
     \<lparr>sg_signal_id = ''signal-incidents'', sg_category = ''INCIDENT_HISTORY'',
      sg_level = (case rf_incident_count f of None \<Rightarrow> Sig_UNKNOWN | Some n \<Rightarrow> if n \<noteq> 0 then Sig_HIGH else Sig_LOW),
      sg_value = ''incidents='' @ (case rf_incident_count f of None \<Rightarrow> ''UNKNOWN'' | Some n \<Rightarrow> show_int n),
      sg_evidence_refs = e\<rparr>,
     \<lparr>sg_signal_id = ''signal-review'', sg_category = ''REVIEW_FINDINGS'',
      sg_level = (if rf_reviewer_blockers f \<noteq> 0 then Sig_HIGH else Sig_LOW),
      sg_value = ''reviewer_blockers='' @ show_int (rf_reviewer_blockers f), sg_evidence_refs = e\<rparr>,
     \<lparr>sg_signal_id = ''signal-validation'', sg_category = ''VALIDATION'',
      sg_level = (if rf_validation_passed f then Sig_LOW else Sig_HIGH),
      sg_value = ''validation_passed='' @ (if rf_validation_passed f then ''True'' else ''False''),
      sg_evidence_refs = e\<rparr>])"

definition assess_risk :: "risk_facts \<Rightarrow> risk_assessment res" where
  "assess_risk f = and_then (steps [
     raise_if (rf_changed_paths f = [] \<or> length (rf_changed_paths f) > 200) RiskEngineError ''changed_paths are invalid'',
     raise_if (list_ex blank (rf_changed_paths f)) RiskEngineError ''changed_paths are invalid'',
     raise_if (case rf_incident_count f of None \<Rightarrow> False | Some n \<Rightarrow> n < 0) RiskEngineError ''incident_count is invalid'',
     raise_if (rf_reviewer_blockers f < 0) RiskEngineError ''reviewer_blockers is invalid''])
     (\<lambda>_. let a = \<lparr>rk_schema_version = ''1.0'', rk_assessment_id = rf_assessment_id f,
            rk_project_id = rf_project_id f, rk_task_id = rf_task_id f,
            rk_level = (if rf_protected_paths f \<noteq> [] then Risk_CRITICAL else aggregate_level (risk_signals f)),
            rk_signals = risk_signals f, rk_rollback_difficulty = rf_rollback_difficulty f,
            rk_incident_count = rf_incident_count f, rk_protected_paths = rf_protected_paths f,
            rk_evidence_refs = rf_evidence_refs f\<rparr>
      in and_then (risk_validate a) (\<lambda>_. Inr a))"

definition risk_evidence :: "risk_assessment \<Rightarrow> string res" where
  "risk_evidence a = and_then (risk_validate a) (\<lambda>_. Inr (''risk assessment: id='' @ rk_assessment_id a @
     ''; level='' @ risk_name (rk_level a) @ ''; signal_count='' @ show_nat (length (rk_signals a))))"

subsection \<open>JSON form\<close>

definition signal_to_dict :: "risk_signal \<Rightarrow> json" where
  "signal_to_dict g = JObj [(''signal_id'', JStr (sg_signal_id g)), (''category'', JStr (sg_category g)),
     (''level'', JStr (signal_value (sg_level g))), (''value'', JStr (sg_value g)),
     (''evidence_refs'', enc_strs (sg_evidence_refs g))]"

definition risk_to_dict :: "risk_assessment \<Rightarrow> json" where
  "risk_to_dict a = JObj [(''schema_version'', JStr (rk_schema_version a)),
     (''assessment_id'', JStr (rk_assessment_id a)), (''project_id'', JStr (rk_project_id a)),
     (''task_id'', JStr (rk_task_id a)), (''level'', JStr (risk_name (rk_level a))),
     (''signals'', JList (map signal_to_dict (rk_signals a))),
     (''rollback_difficulty'', JStr (rollback_value (rk_rollback_difficulty a))),
     (''incident_count'', (case rk_incident_count a of None \<Rightarrow> JNull | Some n \<Rightarrow> JInt n)),
     (''protected_paths'', enc_strs (rk_protected_paths a)), (''evidence_refs'', enc_strs (rk_evidence_refs a))]"

definition risk_level_of :: "json \<Rightarrow> risk_level option" where
  "risk_level_of v = map_of (map (\<lambda>l. (JStr (risk_name l), l)) [Risk_LOW, Risk_MEDIUM, Risk_HIGH, Risk_CRITICAL]) v"

definition signal_level_of :: "json \<Rightarrow> signal_level option" where
  "signal_level_of v = map_of (map (\<lambda>l. (JStr (signal_value l), l))
     [Sig_LOW, Sig_MEDIUM, Sig_HIGH, Sig_CRITICAL, Sig_UNKNOWN]) v"

definition rollback_of :: "json \<Rightarrow> rollback_difficulty option" where
  "rollback_of v = map_of (map (\<lambda>l. (JStr (rollback_value l), l))
     [Rollback_EASY, Rollback_MODERATE, Rollback_HARD, Rollback_UNKNOWN]) v"

definition risk_keys :: "string list" where
  "risk_keys = [''schema_version'', ''assessment_id'', ''project_id'', ''task_id'', ''level'', ''signals'',
     ''rollback_difficulty'', ''incident_count'', ''protected_paths'', ''evidence_refs'']"

type_synonym raw_signal = "json \<times> json \<times> signal_level \<times> json \<times> json list"

definition signal_fields :: "json \<Rightarrow> raw_signal option" where
  "signal_fields v = do {
     a \<leftarrow> field ''signal_id'' v; b \<leftarrow> field ''category'' v;
     c \<leftarrow> field ''level'' v; l \<leftarrow> signal_level_of c;
     d \<leftarrow> field ''value'' v; e \<leftarrow> field ''evidence_refs'' v; es \<leftarrow> tuple_of e;
     Some (a, b, l, d, es)}"

definition signal_leaves :: "raw_signal \<Rightarrow> risk_signal option" where
  "signal_leaves = (\<lambda>(a, b, l, d, es). do {
     a' \<leftarrow> the_str a; b' \<leftarrow> the_str b; d' \<leftarrow> the_str d; es' \<leftarrow> decode_all the_str es;
     Some \<lparr>sg_signal_id = a', sg_category = b', sg_level = l, sg_value = d', sg_evidence_refs = es'\<rparr>})"

text \<open>Inside the \<open>try\<close>: enumerations, signals and tuples\<close>

definition risk_fields :: "json \<Rightarrow> (risk_level \<times> raw_signal list \<times> rollback_difficulty \<times> json list \<times> json list) option" where
  "risk_fields v = do {
     a \<leftarrow> field ''level'' v; l \<leftarrow> risk_level_of a;
     b \<leftarrow> field ''signals'' v; bs \<leftarrow> tuple_of b; gs \<leftarrow> decode_all signal_fields bs;
     c \<leftarrow> field ''rollback_difficulty'' v; r \<leftarrow> rollback_of c;
     d \<leftarrow> field ''protected_paths'' v; ds \<leftarrow> tuple_of d;
     e \<leftarrow> field ''evidence_refs'' v; es \<leftarrow> tuple_of e;
     Some (l, gs, r, ds, es)}"

definition risk_leaves :: "json \<Rightarrow> risk_level \<times> raw_signal list \<times> rollback_difficulty \<times> json list \<times> json list \<Rightarrow>
    risk_assessment option" where
  "risk_leaves v = (\<lambda>(l, gs, r, ds, es). do {
     a \<leftarrow> Option.bind (field ''schema_version'' v) the_str;
     b \<leftarrow> Option.bind (field ''assessment_id'' v) the_str;
     c \<leftarrow> Option.bind (field ''project_id'' v) the_str;
     d \<leftarrow> Option.bind (field ''task_id'' v) the_str;
     gs' \<leftarrow> decode_all signal_leaves gs;
     n \<leftarrow> Option.bind (field ''incident_count'' v) opt_int;
     ds' \<leftarrow> decode_all the_str ds;
     es' \<leftarrow> decode_all the_str es;
     Some \<lparr>rk_schema_version = a, rk_assessment_id = b, rk_project_id = c, rk_task_id = d, rk_level = l,
       rk_signals = gs', rk_rollback_difficulty = r, rk_incident_count = n, rk_protected_paths = ds',
       rk_evidence_refs = es'\<rparr>})"

definition risk_from_dict :: "json \<Rightarrow> risk_assessment res" where
  "risk_from_dict v =
     (if \<not> has_keys risk_keys v
      then raise RiskValidationError ''risk schema is missing or contains unknown fields''
      else (case risk_fields v of
        None \<Rightarrow> raise RiskValidationError ''invalid risk structure: ''
      | Some raw \<Rightarrow> (case risk_leaves v raw of
          None \<Rightarrow> raise TypeError ''''
        | Some a \<Rightarrow> and_then (risk_validate a) (\<lambda>_. Inr a))))"

subsection \<open>Lemmas\<close>

lemma rk_bounded_text_ok [validator_simps]: "rk_bounded_text l v = Inr () \<longleftrightarrow> rk_text v"
  by (simp add: rk_bounded_text_def)

lemma rk_bounded_list_ok [validator_simps]:
  "rk_bounded_list l vs e = Inr () \<longleftrightarrow> length vs \<le> 200 \<and> (e \<or> vs \<noteq> []) \<and> (\<forall>v\<in>set vs. rk_text v)"
  by (auto simp: rk_bounded_list_def validator_simps)

definition signal_ok :: "risk_signal \<Rightarrow> bool" where
  "signal_ok g \<longleftrightarrow> id_match ''signal-'' (sg_signal_id g) \<and> rk_text (sg_category g) \<and> rk_text (sg_value g) \<and>
     length (sg_evidence_refs g) \<le> 200 \<and> (\<forall>v\<in>set (sg_evidence_refs g). rk_text v)"

lemma validate_signal_ok:
  "validate_signal g seen = Inr () \<longleftrightarrow> signal_ok g \<and> sg_signal_id g \<notin> set seen"
  by (auto simp: validate_signal_def signal_ok_def validator_simps)

definition demanded :: "signal_level \<Rightarrow> risk_level" where
  "demanded l = (if l = Sig_UNKNOWN then Risk_CRITICAL else risk_of_signal l)"

lemma risk_top [simp]: "(l :: risk_level) \<le> Risk_CRITICAL"
  by (cases l) (simp_all add: less_eq_risk_level_def)

lemma risk_bot [simp]: "Risk_LOW \<le> (l :: risk_level)"
  by (cases l) (simp_all add: less_eq_risk_level_def)

lemma max_top [simp]: "max l Risk_CRITICAL = Risk_CRITICAL" "max Risk_CRITICAL l = Risk_CRITICAL"
  by (simp_all add: max_def antisym)

lemma max_bot [simp]: "max l Risk_LOW = l" "max Risk_LOW l = l"
  by (simp_all add: max_def antisym)

lemma check_signals_iff:
  "check_signals seen h gs = Inr h' \<longleftrightarrow> (\<forall>g\<in>set gs. signal_ok g) \<and> distinct (map sg_signal_id gs) \<and>
     set seen \<inter> sg_signal_id ` set gs = {} \<and> h' = fold (\<lambda>g m. max m (demanded (sg_level g))) gs h"
proof (induction gs arbitrary: seen h)
  case (Cons g gs)
  have step: "(if sg_level g = Sig_UNKNOWN then Risk_CRITICAL else max h (risk_of_signal (sg_level g))) =
      max h (demanded (sg_level g))" by (simp add: demanded_def)
  show ?case by (auto simp: and_then_ok validate_signal_ok Cons.IH step)
qed auto

lemma fold_max_ge: "fold (\<lambda>x m. max m (f x)) xs (h :: 'a::linorder) \<le> l \<longleftrightarrow> h \<le> l \<and> (\<forall>x\<in>set xs. f x \<le> l)"
  by (induction xs arbitrary: h) auto

text \<open>What the validator accepts\<close>

definition risk_ok :: "risk_assessment \<Rightarrow> bool" where
  "risk_ok a \<longleftrightarrow> rk_schema_version a = ''1.0'' \<and> id_match ''risk-'' (rk_assessment_id a) \<and>
     id_match ''project-'' (rk_project_id a) \<and> id_match ''task-'' (rk_task_id a) \<and>
     pred_option (\<lambda>n. 0 \<le> n) (rk_incident_count a) \<and>
     length (rk_protected_paths a) \<le> 200 \<and> (\<forall>v\<in>set (rk_protected_paths a). rk_text v) \<and>
     length (rk_evidence_refs a) \<le> 200 \<and> (\<forall>v\<in>set (rk_evidence_refs a). rk_text v) \<and>
     rk_signals a \<noteq> [] \<and> length (rk_signals a) \<le> 200 \<and> (\<forall>g\<in>set (rk_signals a). signal_ok g) \<and>
     distinct (map sg_signal_id (rk_signals a)) \<and>
     (\<forall>g\<in>set (rk_signals a). demanded (sg_level g) \<le> rk_level a) \<and>
     (rk_protected_paths a \<noteq> [] \<or> rk_rollback_difficulty a = Rollback_UNKNOWN \<longrightarrow> rk_level a = Risk_CRITICAL)"

lemma risk_validate_ok [validator_simps]: "risk_validate a = Inr () \<longleftrightarrow> risk_ok a"
proof -
  have o: "(case n of None \<Rightarrow> False | Some k \<Rightarrow> k < 0) \<longleftrightarrow> \<not> pred_option (\<lambda>k. 0 \<le> k) n" for n :: "int option"
    by (cases n) auto
  show ?thesis
    unfolding risk_validate_def and_then_ok steps_ok check_signals_iff risk_ok_def o
    by (auto simp: rk_bounded_list_ok fold_max_ge not_less)
qed

subsection \<open>The engine on complete facts\<close>

definition facts_ok :: "risk_facts \<Rightarrow> bool" where
  "facts_ok f \<longleftrightarrow> id_match ''risk-'' (rf_assessment_id f) \<and> id_match ''project-'' (rf_project_id f) \<and>
     id_match ''task-'' (rf_task_id f) \<and>
     rf_changed_paths f \<noteq> [] \<and> length (rf_changed_paths f) \<le> 200 \<and> \<not> list_ex blank (rf_changed_paths f) \<and>
     pred_option (\<lambda>n. 0 \<le> n \<and> length (show_int n) \<le> 3000) (rf_incident_count f) \<and>
     0 \<le> rf_reviewer_blockers f \<and> length (show_int (rf_reviewer_blockers f)) \<le> 3000 \<and>
     length (rf_protected_paths f) \<le> 200 \<and> (\<forall>v\<in>set (rf_protected_paths f). rk_text v) \<and>
     length (rf_evidence_refs f) \<le> 200 \<and> (\<forall>v\<in>set (rf_evidence_refs f). rk_text v)"

lemma rk_text_labelled:
  assumes "\<not> blank p" "\<not> secret_search p" "length p \<le> 100" "length t \<le> 3000" "list_all (\<lambda>c. \<not> secret_sep c) t"
  shows "rk_text (p @ t)"
  using assms by (simp add: rk_text_def secret_search_append blank_def)

lemma length_show_small: "n \<le> 200 \<Longrightarrow> length (show_nat n) \<le> 3000"
  using length_show_nat [of n 2] by simp

text \<open>The label of each signal value is free of the secret pattern.\<close>

lemma label1: "\<not> secret_search ''changed_paths=''"
  by code_simp

lemma label2: "\<not> secret_search ''protected_paths=''"
  by code_simp

lemma label3: "\<not> secret_search ''rollback=''"
  by code_simp

lemma label4: "\<not> secret_search ''incidents=''"
  by code_simp

lemma label5: "\<not> secret_search ''reviewer_blockers=''"
  by code_simp

lemma label6: "\<not> secret_search ''validation_passed=''"
  by code_simp

lemma labels_short:
  "list_all (\<lambda>p. \<not> blank p \<and> length p \<le> 100)
     [''changed_paths='', ''protected_paths='', ''rollback='', ''incidents='', ''reviewer_blockers='', ''validation_passed='']"
  by (simp add: blank_def py_space_def Let_def)

lemmas labels = label1 label2 label3 label4 label5 label6 labels_short [unfolded list.pred_inject]

lemma categories_clean:
  "list_all rk_text [''CHANGE_SIZE'', ''PROTECTED_PATH'', ''ROLLBACK_DIFFICULTY'',
      ''INCIDENT_HISTORY'', ''REVIEW_FINDINGS'', ''VALIDATION'']"
  by (simp add: rk_text_def no_secret secret_sep_def blank_def py_space_def)

lemma small_texts:
  "list_all (\<lambda>t. length t \<le> 3000 \<and> list_all (\<lambda>c. \<not> secret_sep c) t)
     [''UNKNOWN'', ''True'', ''False'', ''EASY'', ''MODERATE'', ''HARD'']"
  by code_simp

lemma rollback_small: "length (rollback_value r) \<le> 3000 \<and> list_all (\<lambda>c. \<not> secret_sep c) (rollback_value r)"
  using small_texts by (cases r) simp_all

lemma signal_ids_ok:
  "list_all (id_match ''signal-'') [''signal-change-size'', ''signal-protected-path'', ''signal-rollback'',
     ''signal-incidents'', ''signal-review'', ''signal-validation'']"
  by code_simp

lemma risk_signals_ok:
  assumes f: "facts_ok f"
  shows "\<forall>g\<in>set (risk_signals f). signal_ok g"
proof -
  have e: "length (rf_evidence_refs f) \<le> 200" "\<forall>v\<in>set (rf_evidence_refs f). rk_text v"
    using f by (simp_all add: facts_ok_def)
  have v1: "rk_text (''changed_paths='' @ show_nat (length (rf_changed_paths f)))"
    using f by (intro rk_text_labelled) (simp_all add: labels facts_ok_def length_show_small show_nat_no_sep)
  have v2: "rk_text (''protected_paths='' @ show_nat (length (rf_protected_paths f)))"
    using f by (intro rk_text_labelled) (simp_all add: labels facts_ok_def length_show_small show_nat_no_sep)
  have v3: "rk_text (''rollback='' @ rollback_value (rf_rollback_difficulty f))"
    using rollback_small by (intro rk_text_labelled) (simp_all add: labels)
  have i: "length (case rf_incident_count f of None \<Rightarrow> ''UNKNOWN'' | Some n \<Rightarrow> show_int n) \<le> 3000 \<and>
      list_all (\<lambda>c. \<not> secret_sep c) (case rf_incident_count f of None \<Rightarrow> ''UNKNOWN'' | Some n \<Rightarrow> show_int n)"
    using f small_texts by (cases "rf_incident_count f") (simp_all add: facts_ok_def show_int_no_sep)
  have v4: "rk_text (''incidents='' @ (case rf_incident_count f of None \<Rightarrow> ''UNKNOWN'' | Some n \<Rightarrow> show_int n))"
    using i by (intro rk_text_labelled) (simp_all only: labels not_False_eq_True)
  have v5: "rk_text (''reviewer_blockers='' @ show_int (rf_reviewer_blockers f))"
    using f by (intro rk_text_labelled) (simp_all add: labels facts_ok_def show_int_no_sep)
  have v6: "rk_text (''validation_passed='' @ (if rf_validation_passed f then ''True'' else ''False''))"
    using small_texts by (intro rk_text_labelled) (simp_all add: labels)
  show ?thesis using signal_ids_ok categories_clean e v1 v2 v3 v4 v5 v6
    by (simp only: risk_signals_def Let_def list.set ball_simps signal_ok_def risk_signal.simps list.pred_inject)
qed

lemma aggregate_from_fold:
  "aggregate_from l gs = fold (\<lambda>g m. max m (demanded (sg_level g))) gs l"
proof (induction gs arbitrary: l)
  case (Cons g gs)
  have top: "fold (\<lambda>g m. max m (demanded (sg_level g))) gs Risk_CRITICAL = Risk_CRITICAL"
    by (induction gs) simp_all
  show ?case using Cons top by (simp add: demanded_def)
qed simp

definition assessed_level :: "risk_facts \<Rightarrow> risk_level" where
  "assessed_level f =
     (if rf_protected_paths f \<noteq> [] \<or> rf_rollback_difficulty f = Rollback_UNKNOWN \<or> rf_incident_count f = None
      then Risk_CRITICAL
      else if 10 < length (rf_changed_paths f) \<or> rf_rollback_difficulty f = Rollback_HARD \<or>
        rf_incident_count f \<noteq> Some 0 \<or> rf_reviewer_blockers f \<noteq> 0 \<or> \<not> rf_validation_passed f
      then Risk_HIGH
      else if 3 < length (rf_changed_paths f) \<or> rf_rollback_difficulty f = Rollback_MODERATE
      then Risk_MEDIUM else Risk_LOW)"

lemma max_levels [simp]:
  "max Risk_MEDIUM Risk_HIGH = Risk_HIGH" "max Risk_HIGH Risk_MEDIUM = Risk_HIGH"
  by (simp_all add: max_def less_eq_risk_level_def)

lemma aggregate_assessed:
  "(if rf_protected_paths f \<noteq> [] then Risk_CRITICAL else aggregate_level (risk_signals f)) = assessed_level f"
  by (cases "rf_rollback_difficulty f"; cases "rf_incident_count f")
    (simp_all add: aggregate_level_def risk_signals_def assessed_level_def change_level_def Let_def)

lemma signals_below:
  "\<forall>g\<in>set gs. demanded (sg_level g) \<le> aggregate_level gs"
  using fold_max_ge [of "\<lambda>g. demanded (sg_level g)" gs Risk_LOW "aggregate_level gs"]
  by (simp add: aggregate_level_def aggregate_from_fold)

lemma risk_signals_shape:
  "map sg_signal_id (risk_signals f) = [''signal-change-size'', ''signal-protected-path'', ''signal-rollback'',
     ''signal-incidents'', ''signal-review'', ''signal-validation'']"
  by (simp add: risk_signals_def Let_def)

definition assessment_of :: "risk_facts \<Rightarrow> risk_assessment" where
  "assessment_of f = \<lparr>rk_schema_version = ''1.0'', rk_assessment_id = rf_assessment_id f,
     rk_project_id = rf_project_id f, rk_task_id = rf_task_id f, rk_level = assessed_level f,
     rk_signals = risk_signals f, rk_rollback_difficulty = rf_rollback_difficulty f,
     rk_incident_count = rf_incident_count f, rk_protected_paths = rf_protected_paths f,
     rk_evidence_refs = rf_evidence_refs f\<rparr>"

lemma assessment_ok:
  assumes f: "facts_ok f"
  shows "risk_ok (assessment_of f)"
proof -
  have "length (risk_signals f) = 6" by (simp add: risk_signals_def Let_def)
  moreover have "distinct (map sg_signal_id (risk_signals f))" by (simp add: risk_signals_shape)
  moreover have "\<forall>g\<in>set (risk_signals f). demanded (sg_level g) \<le> assessed_level f"
    unfolding aggregate_assessed [symmetric] using signals_below by (metis risk_top)
  moreover have "pred_option (\<lambda>n. 0 \<le> n) (rf_incident_count f)"
    using f by (cases "rf_incident_count f") (simp_all add: facts_ok_def)
  ultimately show ?thesis using f risk_signals_ok [OF f]
    by (auto simp: risk_ok_def assessment_of_def facts_ok_def assessed_level_def)
qed

lemma assess_risk_ok: "facts_ok f \<Longrightarrow> assess_risk f = Inr (assessment_of f)"
proof -
  assume f: "facts_ok f"
  then have "steps [
     raise_if (rf_changed_paths f = [] \<or> length (rf_changed_paths f) > 200) RiskEngineError ''changed_paths are invalid'',
     raise_if (list_ex blank (rf_changed_paths f)) RiskEngineError ''changed_paths are invalid'',
     raise_if (case rf_incident_count f of None \<Rightarrow> False | Some n \<Rightarrow> n < 0) RiskEngineError ''incident_count is invalid'',
     raise_if (rf_reviewer_blockers f < 0) RiskEngineError ''reviewer_blockers is invalid''] = Inr ()"
    by (cases "rf_incident_count f") (simp_all add: steps_ok facts_ok_def)
  moreover have "risk_validate (assessment_of f) = Inr ()" using assessment_ok [OF f] by (simp add: risk_validate_ok)
  ultimately show ?thesis
    by (simp only: assess_risk_def aggregate_assessed Let_def assessment_of_def [symmetric] and_then_simps)
qed

text \<open>Facts that are at least as bad\<close>

fun rollback_rank :: "rollback_difficulty \<Rightarrow> nat" where
  "rollback_rank Rollback_EASY = 0"
| "rollback_rank Rollback_MODERATE = 1"
| "rollback_rank Rollback_HARD = 2"
| "rollback_rank Rollback_UNKNOWN = 3"

definition no_better :: "risk_facts \<Rightarrow> risk_facts \<Rightarrow> bool" where
  "no_better f g \<longleftrightarrow> length (rf_changed_paths f) \<le> length (rf_changed_paths g) \<and>
     (rf_protected_paths f \<noteq> [] \<longrightarrow> rf_protected_paths g \<noteq> []) \<and>
     rollback_rank (rf_rollback_difficulty f) \<le> rollback_rank (rf_rollback_difficulty g) \<and>
     (case rf_incident_count g of None \<Rightarrow> True
      | Some n \<Rightarrow> (case rf_incident_count f of None \<Rightarrow> False | Some m \<Rightarrow> m \<le> n)) \<and>
     rf_reviewer_blockers f \<le> rf_reviewer_blockers g \<and> (rf_validation_passed g \<longrightarrow> rf_validation_passed f)"

lemma assessed_level_mono:
  assumes "no_better f g" "facts_ok f" "facts_ok g"
  shows "assessed_level f \<le> assessed_level g"
  using assms
  by (cases "rf_rollback_difficulty f"; cases "rf_rollback_difficulty g"; cases "rf_incident_count f";
      cases "rf_incident_count g")
    (auto simp: assessed_level_def no_better_def facts_ok_def less_eq_risk_level_def)

lemma risk_level_of_name [simp]: "risk_level_of (JStr (risk_name l)) = Some l"
  by (cases l) (simp_all add: risk_level_of_def)

lemma signal_level_of_value [simp]: "signal_level_of (JStr (signal_value g)) = Some g"
  by (cases g) (simp_all add: signal_level_of_def)

lemma rollback_of_value [simp]: "rollback_of (JStr (rollback_value r)) = Some r"
  by (cases r) (simp_all add: rollback_of_def)

lemma tuple_enc_strs [simp]: "tuple_of (enc_strs xs) = Some (map JStr xs)" "tuple_of (JList vs) = Some vs"
  by (simp_all add: tuple_of_def enc_strs_def)

lemma opt_int_enc [simp]: "opt_int (case n of None \<Rightarrow> JNull | Some k \<Rightarrow> JInt k) = Some n"
  by (cases n) (simp_all add: opt_int_def)

definition raw_of_signal :: "risk_signal \<Rightarrow> raw_signal" where
  "raw_of_signal g = (JStr (sg_signal_id g), JStr (sg_category g), sg_level g, JStr (sg_value g),
     map JStr (sg_evidence_refs g))"

lemma signal_dec [simp]:
  "signal_fields (signal_to_dict g) = Some (raw_of_signal g)" "signal_leaves (raw_of_signal g) = Some g"
  by (simp_all add: signal_fields_def signal_to_dict_def field_def raw_of_signal_def signal_leaves_def)

lemma risk_dict_fields:
  "field ''schema_version'' (risk_to_dict a) = Some (JStr (rk_schema_version a))"
  "field ''assessment_id'' (risk_to_dict a) = Some (JStr (rk_assessment_id a))"
  "field ''project_id'' (risk_to_dict a) = Some (JStr (rk_project_id a))"
  "field ''task_id'' (risk_to_dict a) = Some (JStr (rk_task_id a))"
  "field ''level'' (risk_to_dict a) = Some (JStr (risk_name (rk_level a)))"
  "field ''signals'' (risk_to_dict a) = Some (JList (map signal_to_dict (rk_signals a)))"
  "field ''rollback_difficulty'' (risk_to_dict a) = Some (JStr (rollback_value (rk_rollback_difficulty a)))"
  "field ''incident_count'' (risk_to_dict a) =
     Some (case rk_incident_count a of None \<Rightarrow> JNull | Some n \<Rightarrow> JInt n)"
  "field ''protected_paths'' (risk_to_dict a) = Some (enc_strs (rk_protected_paths a))"
  "field ''evidence_refs'' (risk_to_dict a) = Some (enc_strs (rk_evidence_refs a))"
  by (simp_all add: risk_to_dict_def field_def)

lemma risk_dec_enc: "risk_from_dict (risk_to_dict a) = and_then (risk_validate a) (\<lambda>_. Inr a)"
proof -
  let ?raw = "(rk_level a, map raw_of_signal (rk_signals a), rk_rollback_difficulty a,
      map JStr (rk_protected_paths a), map JStr (rk_evidence_refs a))"
  have "has_keys risk_keys (risk_to_dict a)"
    by (simp add: has_keys_def risk_keys_def risk_to_dict_def)
  moreover have "decode_all signal_fields (map signal_to_dict gs) = Some (map raw_of_signal gs)" for gs
    by (induction gs) simp_all
  then have "risk_fields (risk_to_dict a) = Some ?raw"
    by (simp add: risk_fields_def risk_dict_fields)
  moreover have "risk_leaves (risk_to_dict a) ?raw = Some a"
    by (simp add: risk_leaves_def risk_dict_fields)
  ultimately show ?thesis by (simp add: risk_from_dict_def)
qed

interpretation risk_codec: json_codec risk_to_dict risk_from_dict risk_ok
proof
  show "risk_ok a \<Longrightarrow> risk_from_dict (risk_to_dict a) = Inr a" for a
    by (simp add: risk_dec_enc risk_validate_ok [THEN iffD2])
  show "risk_from_dict v = Inr a \<Longrightarrow> risk_ok a" for v a
    by (auto simp: risk_from_dict_def and_then_ok risk_validate_ok split: if_splits option.splits)
qed

subsection \<open>Properties\<close>

definition sample_facts :: risk_facts where
  "sample_facts = \<lparr>rf_assessment_id = ''risk-a'', rf_project_id = ''project-a'', rf_task_id = ''task-a'',
     rf_changed_paths = [''src/a.py'', ''src/b.py'', ''src/c.py'', ''src/d.py''], rf_protected_paths = [],
     rf_rollback_difficulty = Rollback_EASY, rf_incident_count = Some 0, rf_reviewer_blockers = 0,
     rf_validation_passed = True, rf_evidence_refs = [''review/1'']\<rparr>"

lemma sample_facts_ok: "facts_ok sample_facts"
  by (simp add: facts_ok_def sample_facts_def id_match_def starts_with_def is_lower_alnum_def is_digit_def
      blank_def py_space_def show_int_def show_nat.simps rk_text_def no_secret secret_sep_def Let_def)

text \<open>C23. On complete and bounded facts the risk engine never fails, and the level it gives is:
  CRITICAL when a protected path is touched or the rollback difficulty or incident count is
  unknown; else HIGH for more than ten changed paths, a hard rollback, any incident, any reviewer
  blocker or a failed validation; else MEDIUM for more than three paths or a moderate rollback;
  else LOW. The assessment passes its own validator.\<close>

theorem assess_risk_correct:
  assumes "facts_ok f"
  shows "assess_risk f = Inr (assessment_of f) \<and> risk_validate (assessment_of f) = Inr () \<and>
    rk_level (assessment_of f) = assessed_level f"
  using assess_risk_ok [OF assms] assessment_ok [OF assms]
  by (simp add: risk_validate_ok) (simp add: assessment_of_def)

theorem assess_risk_correct_witness:
  "assess_risk sample_facts = Inr (assessment_of sample_facts) \<and>
   rk_level (assessment_of sample_facts) = Risk_MEDIUM"
  using assess_risk_correct [OF sample_facts_ok] by (simp add: assessed_level_def) (simp add: sample_facts_def)

text \<open>The engine is monotone: facts that are no better in any respect never get a lower level.\<close>

theorem assess_risk_monotone:
  assumes "facts_ok f" "facts_ok g" "no_better f g"
  shows "\<exists>a b. assess_risk f = Inr a \<and> assess_risk g = Inr b \<and> rk_level a \<le> rk_level b"
  using assess_risk_ok [OF assms(1)] assess_risk_ok [OF assms(2)] assessed_level_mono [OF assms(3,1,2)]
  by (simp add: assessment_of_def)

theorem assess_risk_monotone_witness:
  "\<exists>a b. assess_risk sample_facts = Inr a \<and>
    assess_risk (sample_facts\<lparr>rf_validation_passed := False\<rparr>) = Inr b \<and> rk_level a \<le> rk_level b"
proof (rule assess_risk_monotone [OF sample_facts_ok])
  show "facts_ok (sample_facts\<lparr>rf_validation_passed := False\<rparr>)"
    using sample_facts_ok by (simp add: facts_ok_def)
  show "no_better sample_facts (sample_facts\<lparr>rf_validation_passed := False\<rparr>)"
    by (simp add: no_better_def sample_facts_def)
qed

text \<open>No accepted assessment understates its evidence: the validator accepts an assessment only
  when its level is at least what every signal demands, and CRITICAL when a signal or the rollback
  difficulty is unknown or a protected path is named, whoever built the assessment.\<close>

theorem risk_never_understated:
  assumes "risk_from_dict v = Inr a \<or> risk_validate a = Inr ()"
  shows "(\<forall>g\<in>set (rk_signals a). risk_of_signal (sg_level g) \<le> rk_level a) \<and>
    ((\<exists>g\<in>set (rk_signals a). sg_level g = Sig_UNKNOWN) \<or> rk_protected_paths a \<noteq> [] \<or>
       rk_rollback_difficulty a = Rollback_UNKNOWN \<longrightarrow> rk_level a = Risk_CRITICAL)"
proof -
  have "risk_ok a"
    using assms by (auto simp: risk_from_dict_def and_then_ok risk_validate_ok split: if_splits option.splits)
  then show ?thesis
    by (auto simp: risk_ok_def demanded_def intro: antisym split: if_splits)

qed

theorem risk_never_understated_witness:
  "risk_validate (assessment_of sample_facts) = Inr () \<and>
   risk_of_signal (sg_level (hd (rk_signals (assessment_of sample_facts)))) \<le> rk_level (assessment_of sample_facts)"
proof -
  have v: "risk_validate (assessment_of sample_facts) = Inr ()"
    using assessment_ok [OF sample_facts_ok] by (simp add: risk_validate_ok)
  have "rk_signals (assessment_of sample_facts) \<noteq> []"
    by (simp add: assessment_of_def risk_signals_def Let_def)
  then have "hd (rk_signals (assessment_of sample_facts)) \<in> set (rk_signals (assessment_of sample_facts))" by simp
  with v risk_never_understated [OF disjI2 [OF v]] show ?thesis by blast
qed

end
