(* ===== verification/CanonicalJson.thy ===== *)
theory CanonicalJson
  imports Prelude
begin

section \<open>Canonical JSON\<close>

text \<open>
  \<open>json.dumps\<close> with \<open>ensure_ascii=False\<close>, the separators comma and colon, and sorted keys: the
  text whose SHA-256 the records of the program carry.
\<close>

definition escape_char :: "char \<Rightarrow> string" where
  "escape_char c = (let n = (of_char c :: nat) in
     if n = 34 then [CHR 0x5C, c]
     else if n = 92 then [CHR 0x5C, c]
     else if n = 8 then [CHR 0x5C, CHR ''b'']
     else if n = 9 then [CHR 0x5C, CHR ''t'']
     else if n = 10 then [CHR 0x5C, CHR ''n'']
     else if n = 12 then [CHR 0x5C, CHR ''f'']
     else if n = 13 then [CHR 0x5C, CHR ''r'']
     else if n < 32 then [CHR 0x5C, CHR ''u'', CHR ''0'', CHR ''0'', hex_digit (n div 16), hex_digit (n mod 16)]
     else [c])"

definition dump_str :: "string \<Rightarrow> string" where
  "dump_str s = CHR 0x22 # concat (map escape_char s) @ [CHR 0x22]"

fun dump :: "json \<Rightarrow> string" where
  "dump JNull = ''null''"
| "dump (JBool b) = (if b then ''true'' else ''false'')"
| "dump (JInt i) = show_int i"
| "dump (JFloat t) = t"
| "dump (JStr s) = dump_str s"
| "dump (JList vs) = CHR ''['' # join_on (CHR '','') (map dump vs) @ '']''"
| "dump (JObj kvs) = CHR ''{'' # join_on (CHR '','') (map (\<lambda>(k, t). dump_str k @ CHR '':'' # t)
     (sort_key fst (map (\<lambda>(k, v). (k, dump v)) kvs))) @ ''}''"

text \<open>The same with \<open>ensure_ascii=True\<close>, the default: characters outside the printable ASCII range
  are escaped.\<close>

definition escape_ascii :: "char \<Rightarrow> string" where
  "escape_ascii c = (let n = (of_char c :: nat) in
     if 127 \<le> n then [CHR 0x5C, CHR ''u'', CHR ''0'', CHR ''0'', hex_digit (n div 16), hex_digit (n mod 16)]
     else escape_char c)"

definition dump_str_ascii :: "string \<Rightarrow> string" where
  "dump_str_ascii s = CHR 0x22 # concat (map escape_ascii s) @ [CHR 0x22]"

fun dump_ascii :: "json \<Rightarrow> string" where
  "dump_ascii JNull = ''null''"
| "dump_ascii (JBool b) = (if b then ''true'' else ''false'')"
| "dump_ascii (JInt i) = show_int i"
| "dump_ascii (JFloat t) = t"
| "dump_ascii (JStr s) = dump_str_ascii s"
| "dump_ascii (JList vs) = CHR ''['' # join_on (CHR '','') (map dump_ascii vs) @ '']''"
| "dump_ascii (JObj kvs) = CHR ''{'' # join_on (CHR '','') (map (\<lambda>(k, t). dump_str_ascii k @ CHR '':'' # t)
     (sort_key fst (map (\<lambda>(k, v). (k, dump_ascii v)) kvs))) @ ''}''"

end
