(* ===== verification/Merge.thy ===== *)
theory Merge
  imports Risk CanonicalJson
begin

section \<open>Merge decisions (merge_models.py)\<close>

text \<open>
  The evidence-bound merge decision: gates, validation, canonical JSON, integrity hash and the
  JSON form. Two things of the standard library are arguments: \<open>H\<close>, the hexadecimal SHA-256 of
  a text in UTF-8, and \<open>clock\<close>, which tells of an \<open>observed_at\<close> text whether
  \<open>datetime.fromisoformat\<close> reads it, with a zone, as a time that is not in the future.
\<close>

datatype gate_status = Gate_PASS | Gate_FAIL | Gate_MISSING | Gate_STALE | Gate_CONTRADICTORY | Gate_UNKNOWN

datatype risk_class = Class_LOW | Class_MEDIUM | Class_HIGH | Class_CRITICAL | Class_UNKNOWN

datatype decision_status = Decision_ELIGIBLE | Decision_BLOCKED

datatype authorization_status = Not_Authorized | Authorized

fun gate_status_value :: "gate_status \<Rightarrow> string" where
  "gate_status_value Gate_PASS = ''PASS''"
| "gate_status_value Gate_FAIL = ''FAIL''"
| "gate_status_value Gate_MISSING = ''MISSING''"
| "gate_status_value Gate_STALE = ''STALE''"
| "gate_status_value Gate_CONTRADICTORY = ''CONTRADICTORY''"
| "gate_status_value Gate_UNKNOWN = ''UNKNOWN''"

fun risk_class_value :: "risk_class \<Rightarrow> string" where
  "risk_class_value Class_LOW = ''LOW''"
| "risk_class_value Class_MEDIUM = ''MEDIUM''"
| "risk_class_value Class_HIGH = ''HIGH''"
| "risk_class_value Class_CRITICAL = ''CRITICAL''"
| "risk_class_value Class_UNKNOWN = ''UNKNOWN''"

fun decision_status_value :: "decision_status \<Rightarrow> string" where
  "decision_status_value Decision_ELIGIBLE = ''ELIGIBLE''"
| "decision_status_value Decision_BLOCKED = ''BLOCKED''"

fun authorization_value :: "authorization_status \<Rightarrow> string" where
  "authorization_value Not_Authorized = ''NOT_AUTHORIZED''"
| "authorization_value Authorized = ''AUTHORIZED''"

definition gate_status_of :: "json \<Rightarrow> gate_status option" where
  "gate_status_of v = map_of (map (\<lambda>x. (JStr (gate_status_value x), x))
     [Gate_PASS, Gate_FAIL, Gate_MISSING, Gate_STALE, Gate_CONTRADICTORY, Gate_UNKNOWN]) v"

definition risk_class_of :: "json \<Rightarrow> risk_class option" where
  "risk_class_of v = map_of (map (\<lambda>x. (JStr (risk_class_value x), x))
     [Class_LOW, Class_MEDIUM, Class_HIGH, Class_CRITICAL, Class_UNKNOWN]) v"

definition decision_status_of :: "json \<Rightarrow> decision_status option" where
  "decision_status_of v = map_of (map (\<lambda>x. (JStr (decision_status_value x), x)) [Decision_ELIGIBLE, Decision_BLOCKED]) v"

definition authorization_of :: "json \<Rightarrow> authorization_status option" where
  "authorization_of v = map_of (map (\<lambda>x. (JStr (authorization_value x), x)) [Not_Authorized, Authorized]) v"

text \<open>\<open>RiskClass(level.name)\<close>\<close>

fun class_of_level :: "risk_level \<Rightarrow> risk_class" where
  "class_of_level Risk_LOW = Class_LOW"
| "class_of_level Risk_MEDIUM = Class_MEDIUM"
| "class_of_level Risk_HIGH = Class_HIGH"
| "class_of_level Risk_CRITICAL = Class_CRITICAL"

subsection \<open>The hash of a value\<close>

definition canonical_hash :: "(string \<Rightarrow> string) \<Rightarrow> json \<Rightarrow> string res" where
  "canonical_hash H v = (case v of
     JObj _ \<Rightarrow> Inr (H (dump v))
   | _ \<Rightarrow> raise MergeValidationError ''canonical value must be an object'')"

subsection \<open>Gates\<close>

abbreviation mg_check :: "bool \<Rightarrow> string \<Rightarrow> unit res" where
  "mg_check b m \<equiv> raise_if b MergeValidationError m"

definition mg_text :: "string \<Rightarrow> string \<Rightarrow> bool \<Rightarrow> (string \<Rightarrow> bool) \<Rightarrow> unit res" where
  "mg_text label v allow_empty pattern = steps [
     mg_check (length v > 4000 \<or> secret_search v) (label @ '' is invalid''),
     mg_check (\<not> allow_empty \<and> blank v) (label @ '' is invalid''),
     mg_check (\<not> pattern v) (label @ '' is invalid'')]"

abbreviation any_text :: "string \<Rightarrow> bool" where
  "any_text \<equiv> \<lambda>_. True"

definition mg_strings :: "string \<Rightarrow> string list \<Rightarrow> bool \<Rightarrow> unit res" where
  "mg_strings label vs allow_empty = steps [
     mg_check (length vs > 200) (label @ '' is invalid''),
     mg_check (\<not> allow_empty \<and> vs = []) (label @ '' is invalid''),
     for_each (\<lambda>v. mg_text label v False any_text) vs]"

definition lower_letter :: "char \<Rightarrow> bool" where
  "lower_letter c = (let n = (of_char c :: nat) in 97 \<le> n \<and> n \<le> 122)"

text \<open>\<open>^[a-z][a-z0-9_-]{1,63}$\<close> and \<open>^[a-z][a-z0-9-]{2,127}$\<close>\<close>

definition gate_name_match :: "string \<Rightarrow> bool" where
  "gate_name_match s = (case s of [] \<Rightarrow> False | c # cs \<Rightarrow> lower_letter c \<and> 1 \<le> length cs \<and> length cs \<le> 63 \<and>
     list_all (\<lambda>x. is_lower_alnum x \<or> x = CHR ''_'' \<or> x = CHR ''-'') cs)"

definition merge_id_match :: "string \<Rightarrow> bool" where
  "merge_id_match s = (case s of [] \<Rightarrow> False | c # cs \<Rightarrow> lower_letter c \<and> 2 \<le> length cs \<and> length cs \<le> 127 \<and>
     list_all (\<lambda>x. is_lower_alnum x \<or> x = CHR ''-'') cs)"

text \<open>\<open>^[0-9a-fA-F]{40,64}$\<close>\<close>

definition sha_match :: "string \<Rightarrow> bool" where
  "sha_match s = (40 \<le> length s \<and> length s \<le> 64 \<and> list_all (\<lambda>c. is_hex (ascii_lower c)) s)"

record gate_evidence =
  ge_name :: string
  ge_status :: gate_status
  ge_evidence_refs :: "string list"
  ge_observed_at :: string
  ge_freshness :: string
  ge_detail :: string

definition gate_to_dict :: "gate_evidence \<Rightarrow> json" where
  "gate_to_dict g = JObj [(''name'', JStr (ge_name g)), (''status'', JStr (gate_status_value (ge_status g))),
     (''evidence_refs'', enc_strs (ge_evidence_refs g)), (''observed_at'', JStr (ge_observed_at g)),
     (''freshness'', JStr (ge_freshness g)), (''detail'', JStr (ge_detail g))]"

definition gate_validate :: "(string \<Rightarrow> bool) \<Rightarrow> gate_evidence \<Rightarrow> unit res" where
  "gate_validate clock g = steps [
     mg_text ''gate name'' (ge_name g) False gate_name_match,
     mg_strings ''evidence_refs'' (ge_evidence_refs g) False,
     mg_text ''observed_at'' (ge_observed_at g) True any_text,
     mg_check (ge_observed_at g \<noteq> [] \<and> \<not> clock (ge_observed_at g)) ''observed_at is invalid'',
     mg_text ''freshness'' (ge_freshness g) True any_text,
     mg_text ''detail'' (ge_detail g) True any_text]"

subsection \<open>Decisions\<close>

record merge_decision =
  md_schema_version :: string
  md_decision_id :: string
  md_project_id :: string
  md_task_id :: string
  md_base_sha :: string
  md_delivery_sha :: string
  md_risk_class :: risk_class
  md_gates :: "gate_evidence list"
  md_policy_id :: string
  md_policy_version :: string
  md_constitution_id :: string
  md_decision_status :: decision_status
  md_authorization_status :: authorization_status
  md_blocking_reasons :: "string list"
  md_evidence_hash :: string
  md_integrity_hash :: string
  md_expiry :: string
  md_policy_hash :: string
  md_risk_assessment :: "json option"
  md_authority_generation :: int
  md_kill_switch_active :: bool

text \<open>\<open>to_dict\<close> without the entry that \<open>integrity_payload\<close> removes, and with it\<close>

definition decision_entries :: "merge_decision \<Rightarrow> (string \<times> json) list" where
  "decision_entries d = [(''schema_version'', JStr (md_schema_version d)),
     (''decision_id'', JStr (md_decision_id d)), (''project_id'', JStr (md_project_id d)),
     (''task_id'', JStr (md_task_id d)), (''base_sha'', JStr (md_base_sha d)),
     (''delivery_sha'', JStr (md_delivery_sha d)), (''risk_class'', JStr (risk_class_value (md_risk_class d))),
     (''gates'', JList (map gate_to_dict (md_gates d))), (''policy_id'', JStr (md_policy_id d)),
     (''policy_version'', JStr (md_policy_version d)), (''constitution_id'', JStr (md_constitution_id d)),
     (''decision_status'', JStr (decision_status_value (md_decision_status d))),
     (''authorization_status'', JStr (authorization_value (md_authorization_status d))),
     (''blocking_reasons'', enc_strs (md_blocking_reasons d)), (''evidence_hash'', JStr (md_evidence_hash d)),
     (''expiry'', JStr (md_expiry d)), (''policy_hash'', JStr (md_policy_hash d)),
     (''risk_assessment'', (case md_risk_assessment d of None \<Rightarrow> JNull | Some v \<Rightarrow> v)),
     (''authority_generation'', JInt (md_authority_generation d)),
     (''kill_switch_active'', JBool (md_kill_switch_active d))]"

definition decision_to_dict :: "merge_decision \<Rightarrow> json" where
  "decision_to_dict d = JObj ((''integrity_hash'', JStr (md_integrity_hash d)) # decision_entries d)"

definition integrity_payload :: "merge_decision \<Rightarrow> json" where
  "integrity_payload d = JObj (decision_entries d)"

definition verify_integrity :: "(string \<Rightarrow> string) \<Rightarrow> merge_decision \<Rightarrow> bool" where
  "verify_integrity H d = (canonical_hash H (integrity_payload d) = Inr (md_integrity_hash d))"

text \<open>The loop over the gates, with the names seen\<close>

fun check_gates :: "(string \<Rightarrow> bool) \<Rightarrow> string list \<Rightarrow> gate_evidence list \<Rightarrow> unit res" where
  "check_gates clock seen [] = Inr ()"
| "check_gates clock seen (g # gs) = and_then (gate_validate clock g) (\<lambda>_.
     if ge_name g \<in> set seen then raise MergeValidationError ''gate names must be unique''
     else check_gates clock (ge_name g # seen) gs)"

definition check_risk :: "merge_decision \<Rightarrow> unit res" where
  "check_risk d = (case md_risk_assessment d of
     None \<Rightarrow> Inr ()
   | Some v \<Rightarrow> and_then (replace_exc (\<lambda>k. k = TypeError \<or> is_value_error k) MergeValidationError
         ''risk assessment is invalid'' (risk_from_dict v)) (\<lambda>a. steps [
       mg_check (rk_project_id a \<noteq> md_project_id d \<or> rk_task_id a \<noteq> md_task_id d)
         ''risk assessment identity does not match decision'',
       mg_check (class_of_level (rk_level a) \<noteq> md_risk_class d) ''risk assessment does not match decision risk'']))"

definition decision_validate :: "(string \<Rightarrow> bool) \<Rightarrow> merge_decision \<Rightarrow> unit res" where
  "decision_validate clock d = steps [
     mg_check (md_schema_version d \<noteq> ''1.0'') ''schema_version must be 1.0'',
     mg_text ''decision_id'' (md_decision_id d) False any_text,
     mg_text ''project_id'' (md_project_id d) False any_text,
     mg_text ''task_id'' (md_task_id d) False any_text,
     mg_text ''policy_id'' (md_policy_id d) False any_text,
     mg_text ''policy_version'' (md_policy_version d) False any_text,
     mg_text ''constitution_id'' (md_constitution_id d) False any_text,
     mg_check (\<not> merge_id_match (md_decision_id d)) ''decision_id is invalid'',
     mg_check (\<not> sha_match (md_base_sha d) \<or> \<not> sha_match (md_delivery_sha d)) ''revision identity is invalid'',
     mg_check (md_gates d = [] \<or> length (md_gates d) > 200) ''gates must contain 1 to 200 items'',
     check_gates clock [] (md_gates d),
     mg_strings ''blocking_reasons'' (md_blocking_reasons d) True,
     mg_check (\<not> sha256_match (md_evidence_hash d) \<or> \<not> sha256_match (md_integrity_hash d)) ''decision hashes are invalid'',
     mg_text ''expiry'' (md_expiry d) True any_text,
     mg_check (md_policy_hash d \<noteq> [] \<and> \<not> sha256_match (md_policy_hash d)) ''policy hash is invalid'',
     mg_check (md_authority_generation d < 0) ''authority generation is invalid'',
     check_risk d,
     (if md_decision_status d = Decision_BLOCKED then steps [
        mg_check (md_authorization_status d = Authorized) ''blocked decisions cannot authorize'',
        mg_check (md_blocking_reasons d = []) ''blocked decisions need reasons''] else Inr ()),
     (if md_authorization_status d = Authorized then steps [
        mg_check (md_decision_status d \<noteq> Decision_ELIGIBLE) ''only eligible decisions can authorize'',
        mg_check (md_blocking_reasons d \<noteq> []) ''authorized decisions cannot have blockers'',
        mg_check (md_policy_hash d \<noteq> [] \<and> md_authority_generation d < 1)
          ''authorized decisions need authority generation''] else Inr ())]"

subsection \<open>Reading a decision\<close>

text \<open>\<open>item.get(k, "")\<close>\<close>

definition get_or :: "json \<Rightarrow> string \<Rightarrow> json \<Rightarrow> json" where
  "get_or d k v = (case field k v of None \<Rightarrow> d | Some x \<Rightarrow> x)"

type_synonym raw_gate = "json \<times> gate_status \<times> json list \<times> json \<times> json \<times> json"

definition gate_fields :: "json \<Rightarrow> raw_gate option" where
  "gate_fields v = do {
     a \<leftarrow> field ''name'' v;
     b \<leftarrow> field ''status'' v; s \<leftarrow> gate_status_of b;
     c \<leftarrow> field ''evidence_refs'' v; cs \<leftarrow> tuple_of c;
     Some (a, s, cs, get_or (JStr []) ''observed_at'' v, get_or (JStr []) ''freshness'' v, get_or (JStr []) ''detail'' v)}"

definition gate_leaves :: "raw_gate \<Rightarrow> gate_evidence option" where
  "gate_leaves = (\<lambda>(a, s, cs, o', f, d). do {
     a' \<leftarrow> the_str a; cs' \<leftarrow> decode_all the_str cs; oa \<leftarrow> the_str o'; f' \<leftarrow> the_str f; d' \<leftarrow> the_str d;
     Some \<lparr>ge_name = a', ge_status = s, ge_evidence_refs = cs', ge_observed_at = oa, ge_freshness = f', ge_detail = d'\<rparr>})"

definition decision_keys :: "string list" where
  "decision_keys = [''schema_version'', ''decision_id'', ''project_id'', ''task_id'', ''base_sha'',
     ''delivery_sha'', ''risk_class'', ''gates'', ''policy_id'', ''policy_version'', ''constitution_id'',
     ''decision_status'', ''authorization_status'', ''blocking_reasons'', ''evidence_hash'',
     ''integrity_hash'', ''expiry'', ''policy_hash'', ''risk_assessment'']"

definition decision_keys_extended :: "string list" where
  "decision_keys_extended = decision_keys @ [''authority_generation'', ''kill_switch_active'']"

text \<open>Inside the \<open>try\<close>: enumerations, gates and tuples\<close>

type_synonym raw_decision =
  "risk_class \<times> raw_gate list \<times> decision_status \<times> authorization_status \<times> json list"

definition decision_fields :: "json \<Rightarrow> raw_decision option" where
  "decision_fields v = do {
     a \<leftarrow> field ''risk_class'' v; c \<leftarrow> risk_class_of a;
     b \<leftarrow> field ''gates'' v; bs \<leftarrow> tuple_of b; gs \<leftarrow> decode_all gate_fields bs;
     e \<leftarrow> field ''decision_status'' v; ds \<leftarrow> decision_status_of e;
     f \<leftarrow> field ''authorization_status'' v; au \<leftarrow> authorization_of f;
     g \<leftarrow> field ''blocking_reasons'' v; br \<leftarrow> tuple_of g;
     Some (c, gs, ds, au, br)}"

definition decision_leaves :: "json \<Rightarrow> raw_decision \<Rightarrow> merge_decision option" where
  "decision_leaves v = (\<lambda>(c, gs, ds, au, br). do {
     a1 \<leftarrow> Option.bind (field ''schema_version'' v) the_str;
     a2 \<leftarrow> Option.bind (field ''decision_id'' v) the_str;
     a3 \<leftarrow> Option.bind (field ''project_id'' v) the_str;
     a4 \<leftarrow> Option.bind (field ''task_id'' v) the_str;
     a5 \<leftarrow> Option.bind (field ''base_sha'' v) the_str;
     a6 \<leftarrow> Option.bind (field ''delivery_sha'' v) the_str;
     gs' \<leftarrow> decode_all gate_leaves gs;
     b1 \<leftarrow> Option.bind (field ''policy_id'' v) the_str;
     b2 \<leftarrow> Option.bind (field ''policy_version'' v) the_str;
     b3 \<leftarrow> Option.bind (field ''constitution_id'' v) the_str;
     br' \<leftarrow> decode_all the_str br;
     b4 \<leftarrow> Option.bind (field ''evidence_hash'' v) the_str;
     b5 \<leftarrow> Option.bind (field ''integrity_hash'' v) the_str;
     b6 \<leftarrow> Option.bind (field ''expiry'' v) the_str;
     b7 \<leftarrow> Option.bind (field ''policy_hash'' v) the_str;
     r \<leftarrow> field ''risk_assessment'' v;
     g \<leftarrow> the_int (get_or (JInt 0) ''authority_generation'' v);
     k \<leftarrow> the_bool (get_or (JBool False) ''kill_switch_active'' v);
     Some \<lparr>md_schema_version = a1, md_decision_id = a2, md_project_id = a3, md_task_id = a4,
       md_base_sha = a5, md_delivery_sha = a6, md_risk_class = c, md_gates = gs', md_policy_id = b1,
       md_policy_version = b2, md_constitution_id = b3, md_decision_status = ds,
       md_authorization_status = au, md_blocking_reasons = br', md_evidence_hash = b4,
       md_integrity_hash = b5, md_expiry = b6, md_policy_hash = b7,
       md_risk_assessment = (if r = JNull then None else Some r), md_authority_generation = g,
       md_kill_switch_active = k\<rparr>})"

definition decision_from_dict ::
  "(string \<Rightarrow> string) \<Rightarrow> (string \<Rightarrow> bool) \<Rightarrow> json \<Rightarrow> merge_decision res" where
  "decision_from_dict H clock v =
     (if \<not> (has_keys decision_keys v \<or> has_keys decision_keys_extended v)
      then raise MergeValidationError ''decision schema is missing or contains unknown fields''
      else (case decision_fields v of
        None \<Rightarrow> raise MergeValidationError ''invalid decision structure: ''
      | Some raw \<Rightarrow> (case decision_leaves v raw of
          None \<Rightarrow> raise TypeError ''''
        | Some d \<Rightarrow> and_then (decision_validate clock d) (\<lambda>_.
            if \<not> verify_integrity H d
            then raise MergeValidationError ''decision integrity hash does not match content''
            else Inr d))))"

subsection \<open>Lemmas\<close>

lemma merge_enum_of_value [simp]: "gate_status_of (JStr (gate_status_value x)) = Some x"
  by (cases x) (simp_all add: gate_status_of_def)

lemma risk_class_of_value [simp]: "risk_class_of (JStr (risk_class_value x)) = Some x"
  by (cases x) (simp_all add: risk_class_of_def)

lemma decision_status_of_value [simp]: "decision_status_of (JStr (decision_status_value x)) = Some x"
  by (cases x) (simp_all add: decision_status_of_def)

lemma authorization_of_value [simp]: "authorization_of (JStr (authorization_value x)) = Some x"
  by (cases x) (simp_all add: authorization_of_def)

definition raw_of_gate :: "gate_evidence \<Rightarrow> raw_gate" where
  "raw_of_gate g = (JStr (ge_name g), ge_status g, map JStr (ge_evidence_refs g), JStr (ge_observed_at g),
     JStr (ge_freshness g), JStr (ge_detail g))"

lemma gate_dec [simp]:
  "gate_fields (gate_to_dict g) = Some (raw_of_gate g)" "gate_leaves (raw_of_gate g) = Some g"
  by (simp_all add: gate_fields_def gate_to_dict_def field_def raw_of_gate_def gate_leaves_def get_or_def)

lemma decision_dict_fields:
  "field ''schema_version'' (decision_to_dict d) = Some (JStr (md_schema_version d))"
  "field ''decision_id'' (decision_to_dict d) = Some (JStr (md_decision_id d))"
  "field ''project_id'' (decision_to_dict d) = Some (JStr (md_project_id d))"
  "field ''task_id'' (decision_to_dict d) = Some (JStr (md_task_id d))"
  "field ''base_sha'' (decision_to_dict d) = Some (JStr (md_base_sha d))"
  "field ''delivery_sha'' (decision_to_dict d) = Some (JStr (md_delivery_sha d))"
  "field ''risk_class'' (decision_to_dict d) = Some (JStr (risk_class_value (md_risk_class d)))"
  "field ''gates'' (decision_to_dict d) = Some (JList (map gate_to_dict (md_gates d)))"
  "field ''policy_id'' (decision_to_dict d) = Some (JStr (md_policy_id d))"
  "field ''policy_version'' (decision_to_dict d) = Some (JStr (md_policy_version d))"
  "field ''constitution_id'' (decision_to_dict d) = Some (JStr (md_constitution_id d))"
  "field ''decision_status'' (decision_to_dict d) = Some (JStr (decision_status_value (md_decision_status d)))"
  "field ''authorization_status'' (decision_to_dict d) = Some (JStr (authorization_value (md_authorization_status d)))"
  "field ''blocking_reasons'' (decision_to_dict d) = Some (enc_strs (md_blocking_reasons d))"
  "field ''evidence_hash'' (decision_to_dict d) = Some (JStr (md_evidence_hash d))"
  "field ''integrity_hash'' (decision_to_dict d) = Some (JStr (md_integrity_hash d))"
  "field ''expiry'' (decision_to_dict d) = Some (JStr (md_expiry d))"
  "field ''policy_hash'' (decision_to_dict d) = Some (JStr (md_policy_hash d))"
  "field ''risk_assessment'' (decision_to_dict d) =
     Some (case md_risk_assessment d of None \<Rightarrow> JNull | Some v \<Rightarrow> v)"
  "get_or (JInt 0) ''authority_generation'' (decision_to_dict d) = JInt (md_authority_generation d)"
  "get_or (JBool False) ''kill_switch_active'' (decision_to_dict d) = JBool (md_kill_switch_active d)"
  by (simp_all add: decision_to_dict_def decision_entries_def field_def get_or_def)

lemma decision_has_keys: "has_keys decision_keys_extended (decision_to_dict d)"
proof -
  have "set (map fst ((''integrity_hash'', JStr (md_integrity_hash d)) # decision_entries d)) = set decision_keys_extended"
    by (simp add: decision_entries_def decision_keys_extended_def decision_keys_def insert_commute)
  then show ?thesis by (simp add: has_keys_def decision_to_dict_def)
qed

lemma decision_fields_enc:
  "decision_fields (decision_to_dict d) = Some (md_risk_class d, map raw_of_gate (md_gates d),
     md_decision_status d, md_authorization_status d, map JStr (md_blocking_reasons d))"
proof -
  have "decode_all gate_fields (map gate_to_dict gs) = Some (map raw_of_gate gs)" for gs
    by (induction gs) simp_all
  then show ?thesis by (simp add: decision_fields_def decision_dict_fields)
qed

lemma decision_leaves_enc:
  assumes "md_risk_assessment d \<noteq> Some JNull"
  shows "decision_leaves (decision_to_dict d) (md_risk_class d, map raw_of_gate (md_gates d),
     md_decision_status d, md_authorization_status d, map JStr (md_blocking_reasons d)) = Some d"
proof -
  have "(if (case md_risk_assessment d of None \<Rightarrow> JNull | Some v \<Rightarrow> v) = JNull then None
      else Some (case md_risk_assessment d of None \<Rightarrow> JNull | Some v \<Rightarrow> v)) = md_risk_assessment d"
    using assms by (cases "md_risk_assessment d") auto
  then show ?thesis by (simp add: decision_leaves_def decision_dict_fields the_bool_def)
qed

lemma decision_risk_not_null: "decision_validate clock d = Inr () \<Longrightarrow> md_risk_assessment d \<noteq> Some JNull"
  by (auto simp: decision_validate_def steps_ok check_risk_def and_then_ok risk_from_dict_def has_keys_def
      split: option.splits)

lemma decision_dec_enc:
  assumes "decision_validate clock d = Inr ()" "verify_integrity H d"
  shows "decision_from_dict H clock (decision_to_dict d) = Inr d"
  using assms decision_leaves_enc [OF decision_risk_not_null [OF assms(1)]]
  by (simp add: decision_from_dict_def decision_has_keys decision_fields_enc)

lemma decision_dec_ok:
  "decision_from_dict H clock v = Inr d \<Longrightarrow> decision_validate clock d = Inr () \<and> verify_integrity H d"
  by (auto simp: decision_from_dict_def and_then_ok split: if_splits option.splits)

text \<open>The codec for one hash and one clock\<close>

definition sound_decision :: "(string \<Rightarrow> string) \<Rightarrow> (string \<Rightarrow> bool) \<Rightarrow> merge_decision \<Rightarrow> bool" where
  "sound_decision H clock d \<longleftrightarrow> decision_validate clock d = Inr () \<and> verify_integrity H d"

interpretation decision_codec: json_codec decision_to_dict "decision_from_dict H clock" "sound_decision H clock"
  for H clock
proof
  show "sound_decision H clock d \<Longrightarrow> decision_from_dict H clock (decision_to_dict d) = Inr d" for d
    by (simp add: sound_decision_def decision_dec_enc)
  show "decision_from_dict H clock v = Inr d \<Longrightarrow> sound_decision H clock d" for v d
    by (simp add: sound_decision_def decision_dec_ok)
qed

end
