(* ===== verification/MergePolicy.thy ===== *)
theory MergePolicy
  imports Merge "HOL-Library.Multiset"
begin

section \<open>The merge policy engine (merge_policy.py)\<close>

text \<open>
  \<open>evaluate\<close> turns the observations of a delivery into a merge decision: it authorises only when
  nothing blocks. The policy, the kill-switch snapshot and the call's arguments are records; the
  hash and the clock are the arguments \<open>H\<close> and \<open>clock\<close> of the decision model.
\<close>

record kill_switch_snapshot =
  ks_active :: bool
  ks_generation :: int
  ks_event_id :: string
  ks_changed_at :: string
  ks_reason :: string

record merge_policy =
  mp_policy_id :: string
  mp_version :: string
  mp_allowed_risk_classes :: "risk_class list"
  mp_require_human_merge :: bool
  mp_permanently_forbidden :: "risk_class list"
  mp_policy_hash :: string
  mp_freshness_limits :: json
  mp_stop_signal :: kill_switch_snapshot
  mp_authority_generation :: int

definition required_gates :: "string list" where
  "required_gates = [''constitution'', ''policy'', ''plan'', ''implementation'', ''review'', ''compliance'',
     ''validation'', ''risk'', ''caller_clean'', ''base_sha'', ''authorized_paths'', ''remote_state'',
     ''delivery_branch'', ''kill_switch'']"

definition policy_validate :: "merge_policy \<Rightarrow> unit res" where
  "policy_validate p = steps [
     mg_check (blank (mp_policy_id p) \<or> blank (mp_version p)) ''merge policy identity is required'',
     mg_check (mp_allowed_risk_classes p = []) ''allowed_risk_classes cannot be empty'',
     mg_check (length (remdups (mp_allowed_risk_classes p)) \<noteq> length (mp_allowed_risk_classes p))
       ''allowed_risk_classes must be unique'',
     mg_check (list_ex (\<lambda>c. c \<in> set (mp_permanently_forbidden p)) (mp_allowed_risk_classes p))
       ''forbidden risk classes cannot be allowed'',
     mg_check (mp_policy_hash p \<noteq> [] \<and> length (mp_policy_hash p) \<noteq> 64) ''policy hash is invalid'',
     mg_check (mp_authority_generation p < 0) ''authority generation is invalid'']"

text \<open>What may stand in \<open>gates\<close>: a gate, a mapping, or something else. Of a mapping of gates the
  code takes the values.\<close>

datatype gate_input = Gate gate_evidence | Gate_Mapping json | Not_A_Gate

definition gate_of_input :: "gate_input \<Rightarrow> gate_evidence res" where
  "gate_of_input g = (case g of
     Gate e \<Rightarrow> Inr e
   | Gate_Mapping v \<Rightarrow> (case gate_fields v of
       None \<Rightarrow> raise MergeValidationError ''invalid gate evidence''
     | Some raw \<Rightarrow> (case gate_leaves raw of
         None \<Rightarrow> raise MergeValidationError ''''
       | Some e \<Rightarrow> Inr e))
   | Not_A_Gate \<Rightarrow> raise MergeValidationError ''invalid gate evidence'')"

definition normalize_gates :: "(string \<Rightarrow> bool) \<Rightarrow> gate_input list \<Rightarrow> gate_evidence list res" where
  "normalize_gates clock gs =
     and_then (map_res (\<lambda>g. and_then (gate_of_input g) (\<lambda>e. and_then (gate_validate clock e) (\<lambda>_. Inr e))) gs)
       (\<lambda>es. if es = [] then raise MergeValidationError ''gates cannot be empty''
         else if length (remdups (map ge_name es)) \<noteq> length es
         then raise MergeValidationError ''gate names must be unique''
         else Inr (sort_key ge_name es))"

text \<open>The keyword arguments of \<open>evaluate\<close>\<close>

record evaluation =
  ev_project_id :: string
  ev_task_id :: string
  ev_base_sha :: string
  ev_delivery_sha :: string
  ev_constitution_id :: string
  ev_risk_class :: risk_class
  ev_risk_assessment :: "risk_assessment option"
  ev_gates :: "gate_input list"
  ev_expiry :: string

definition check_assessment :: "merge_policy \<Rightarrow> evaluation \<Rightarrow> unit res" where
  "check_assessment p e = (case ev_risk_assessment e of
     Some a \<Rightarrow> steps [
       risk_validate a,
       mg_check (rk_project_id a \<noteq> ev_project_id e \<or> rk_task_id a \<noteq> ev_task_id e)
         ''Risk Engine assessment identity does not match decision'',
       mg_check (class_of_level (rk_level a) \<noteq> ev_risk_class e) ''risk class does not match Risk Engine assessment'']
   | None \<Rightarrow> mg_check (mp_policy_hash p \<noteq> []) ''active policy decisions require Risk Engine assessment'')"

text \<open>The blockers in the order the code finds them; the gates are already sorted by name.\<close>

definition missing_blockers :: "gate_evidence list \<Rightarrow> string list" where
  "missing_blockers gs = map (\<lambda>n. ''missing gate: '' @ n) (filter (\<lambda>n. n \<notin> set (map ge_name gs)) required_gates)"

definition status_blockers :: "gate_evidence list \<Rightarrow> string list" where
  "status_blockers gs = map (\<lambda>g. ''gate '' @ ge_name g @ '': '' @ gate_status_value (ge_status g))
     (filter (\<lambda>g. ge_status g \<noteq> Gate_PASS) gs)"

definition stop_ref :: "kill_switch_snapshot \<Rightarrow> string" where
  "stop_ref k = ''kill-switch:'' @ ks_event_id k @ '':'' @ show_int (ks_generation k)"

definition stop_blockers :: "merge_policy \<Rightarrow> gate_evidence list \<Rightarrow> string list" where
  "stop_blockers p gs = (let k = mp_stop_signal p in
     if ks_active k
     then [''emergency stop is active: '' @ ks_event_id k @ '' generation '' @ show_int (ks_generation k)]
     else if mp_policy_hash p \<noteq> []
     then (case find (\<lambda>g. ge_name g = ''kill_switch'') gs of
         None \<Rightarrow> []
       | Some g \<Rightarrow> if stop_ref k \<notin> set (ge_evidence_refs g) then [''kill-switch evidence is not current''] else [])
     else [])"

definition risk_blockers :: "merge_policy \<Rightarrow> risk_class \<Rightarrow> string list" where
  "risk_blockers p c =
     (if c \<in> set (mp_permanently_forbidden p) then [''risk class '' @ risk_class_value c @ '' is forbidden'']
      else if c \<notin> set (mp_allowed_risk_classes p)
      then [''risk class '' @ risk_class_value c @ '' is not permitted by policy''] else [])"

definition merge_blockers :: "merge_policy \<Rightarrow> risk_class \<Rightarrow> gate_evidence list \<Rightarrow> string list" where
  "merge_blockers p c gs = missing_blockers gs @ status_blockers gs @ stop_blockers p gs @ risk_blockers p c @
     (if mp_require_human_merge p then [''human merge approval is required by policy''] else [])"

definition evidence_payload :: "gate_evidence list \<Rightarrow> json" where
  "evidence_payload gs = JObj (map (\<lambda>g. (ge_name g, gate_to_dict g)) gs)"

definition identity_payload :: "merge_policy \<Rightarrow> evaluation \<Rightarrow> gate_evidence list \<Rightarrow> json" where
  "identity_payload p e gs = JObj [(''schema_version'', JStr ''1.0''), (''project_id'', JStr (ev_project_id e)),
     (''task_id'', JStr (ev_task_id e)), (''base_sha'', JStr (ev_base_sha e)),
     (''delivery_sha'', JStr (ev_delivery_sha e)), (''risk_class'', JStr (risk_class_value (ev_risk_class e))),
     (''gates'', JList (map gate_to_dict gs)), (''authority_generation'', JInt (mp_authority_generation p)),
     (''kill_switch_active'', JBool (ks_active (mp_stop_signal p))), (''policy_id'', JStr (mp_policy_id p)),
     (''policy_version'', JStr (mp_version p)), (''constitution_id'', JStr (ev_constitution_id e)),
     (''expiry'', JStr (ev_expiry e)), (''policy_hash'', JStr (mp_policy_hash p))]"

definition with_integrity :: "(string \<Rightarrow> string) \<Rightarrow> merge_decision \<Rightarrow> merge_decision res" where
  "with_integrity H d = and_then (canonical_hash H (integrity_payload d)) (\<lambda>h. Inr (d\<lparr>md_integrity_hash := h\<rparr>))"

definition draft_decision ::
  "merge_policy \<Rightarrow> evaluation \<Rightarrow> gate_evidence list \<Rightarrow> string \<Rightarrow> string \<Rightarrow> merge_decision" where
  "draft_decision p e gs evidence identity = (let bs = merge_blockers p (ev_risk_class e) gs in
     \<lparr>md_schema_version = ''1.0'', md_decision_id = ''decision-'' @ take 32 identity,
      md_project_id = ev_project_id e, md_task_id = ev_task_id e, md_base_sha = ev_base_sha e,
      md_delivery_sha = ev_delivery_sha e, md_risk_class = ev_risk_class e, md_gates = gs,
      md_policy_id = mp_policy_id p, md_policy_version = mp_version p,
      md_constitution_id = ev_constitution_id e,
      md_decision_status = (if bs \<noteq> [] then Decision_BLOCKED else Decision_ELIGIBLE),
      md_authorization_status = (if bs \<noteq> [] then Not_Authorized else Authorized),
      md_blocking_reasons = sort (remdups bs), md_evidence_hash = evidence, md_integrity_hash = [],
      md_expiry = ev_expiry e, md_policy_hash = mp_policy_hash p,
      md_risk_assessment = map_option risk_to_dict (ev_risk_assessment e),
      md_authority_generation = mp_authority_generation p,
      md_kill_switch_active = ks_active (mp_stop_signal p)\<rparr>)"

text \<open>\<open>MergePolicyEngine(policy).evaluate(...)\<close>, as \<open>aggregate_merge_gates\<close> calls it\<close>

definition evaluate ::
  "(string \<Rightarrow> string) \<Rightarrow> (string \<Rightarrow> bool) \<Rightarrow> merge_policy \<Rightarrow> evaluation \<Rightarrow> merge_decision res" where
  "evaluate H clock p e =
     and_then (policy_validate p) (\<lambda>_.
     and_then (check_assessment p e) (\<lambda>_.
       if \<not> sha_match (ev_base_sha e) \<or> \<not> sha_match (ev_delivery_sha e)
       then raise MergeValidationError ''revision identity is invalid''
       else and_then (normalize_gates clock (ev_gates e)) (\<lambda>gs.
         and_then (canonical_hash H (evidence_payload gs)) (\<lambda>evidence.
         and_then (canonical_hash H (identity_payload p e gs)) (\<lambda>identity.
         and_then (with_integrity H (draft_decision p e gs evidence identity)) (\<lambda>d.
         and_then (decision_validate clock d) (\<lambda>_. Inr d)))))))"

subsection \<open>Lemmas\<close>

text \<open>What it takes to merge\<close>

definition may_merge :: "merge_policy \<Rightarrow> risk_class \<Rightarrow> gate_evidence list \<Rightarrow> bool" where
  "may_merge p c gs \<longleftrightarrow> set required_gates \<subseteq> ge_name ` set gs \<and> (\<forall>g\<in>set gs. ge_status g = Gate_PASS) \<and>
     \<not> ks_active (mp_stop_signal p) \<and>
     (mp_policy_hash p \<noteq> [] \<longrightarrow> (\<forall>g\<in>set gs. ge_name g = ''kill_switch'' \<longrightarrow>
        stop_ref (mp_stop_signal p) \<in> set (ge_evidence_refs g))) \<and>
     c \<in> set (mp_allowed_risk_classes p) \<and> c \<notin> set (mp_permanently_forbidden p) \<and> \<not> mp_require_human_merge p"

lemma missing_none: "missing_blockers gs = [] \<longleftrightarrow> set required_gates \<subseteq> ge_name ` set gs"
  by (auto simp: missing_blockers_def filter_empty_conv)

lemma status_none: "status_blockers gs = [] \<longleftrightarrow> (\<forall>g\<in>set gs. ge_status g = Gate_PASS)"
  by (auto simp: status_blockers_def filter_empty_conv)

lemma find_name_distinct:
  assumes "distinct (map ge_name gs)" "g \<in> set gs"
  shows "find (\<lambda>x. ge_name x = ge_name g) gs = Some g"
  using assms by (induction gs) (auto simp: image_iff)

lemma stop_none:
  assumes "distinct (map ge_name gs)"
  shows "stop_blockers p gs = [] \<longleftrightarrow> \<not> ks_active (mp_stop_signal p) \<and>
    (mp_policy_hash p \<noteq> [] \<longrightarrow> (\<forall>g\<in>set gs. ge_name g = ''kill_switch'' \<longrightarrow>
        stop_ref (mp_stop_signal p) \<in> set (ge_evidence_refs g)))"
proof (cases "find (\<lambda>x. ge_name x = ''kill_switch'') gs")
  case None
  then have "\<forall>g\<in>set gs. ge_name g \<noteq> ''kill_switch''" by (auto simp: find_None_iff)
  then show ?thesis using None by (auto simp: stop_blockers_def Let_def)
next
  case (Some k)
  then have k: "k \<in> set gs" "ge_name k = ''kill_switch''" by (auto simp: find_Some_iff)
  have "g = k" if "g \<in> set gs" "ge_name g = ''kill_switch''" for g
    using that k assms by (metis distinct_map inj_on_def)
  then have "(\<forall>g\<in>set gs. ge_name g = ''kill_switch'' \<longrightarrow> P g) \<longleftrightarrow> P k" for P :: "gate_evidence \<Rightarrow> bool"
    using k by blast
  then show ?thesis unfolding stop_blockers_def Let_def by (simp add: Some)
qed

lemma risk_none: "risk_blockers p c = [] \<longleftrightarrow> c \<in> set (mp_allowed_risk_classes p) \<and> c \<notin> set (mp_permanently_forbidden p)"
  by (auto simp: risk_blockers_def)

lemma blockers_none:
  "distinct (map ge_name gs) \<Longrightarrow> merge_blockers p c gs = [] \<longleftrightarrow> may_merge p c gs"
  by (auto simp: merge_blockers_def may_merge_def missing_none status_none stop_none risk_none)

text \<open>Valid inputs, decoded and sorted\<close>

lemma map_res_ok: "map_res f xs = Inr ys \<longleftrightarrow> list_all2 (\<lambda>x y. f x = Inr y) xs ys"
proof (induction xs arbitrary: ys)
  case (Cons x xs)
  then show ?case by (cases ys) (auto simp: and_then_ok list_all2_Cons1)
qed auto

lemma normalize_gates_iff:
  "normalize_gates clock gs = Inr ns \<longleftrightarrow>
    (\<exists>es. list_all2 (\<lambda>g e. gate_of_input g = Inr e) gs es \<and> (\<forall>e\<in>set es. gate_validate clock e = Inr ()) \<and>
       es \<noteq> [] \<and> distinct (map ge_name es) \<and> ns = sort_key ge_name es)"
proof -
  have "list_all2 (\<lambda>g e. and_then (gate_of_input g) (\<lambda>e. and_then (gate_validate clock e) (\<lambda>_. Inr e)) = Inr e) gs es
      \<longleftrightarrow> list_all2 (\<lambda>g e. gate_of_input g = Inr e) gs es \<and> (\<forall>e\<in>set es. gate_validate clock e = Inr ())" for es
  proof (induction gs arbitrary: es)
    case (Cons g gs)
    then show ?case by (cases es) (auto simp: and_then_ok)
  qed auto
  then show ?thesis
    unfolding normalize_gates_def and_then_ok map_res_ok
    by (auto simp: raise_def length_remdups_distinct [symmetric] eq_commute)
qed

lemma normalize_gates_distinct:
  assumes "normalize_gates clock gs = Inr ns"
  shows "distinct (map ge_name ns)"
proof -
  from assms obtain es where es: "distinct (map ge_name es)" "ns = sort_key ge_name es"
    by (auto simp: normalize_gates_iff)
  have "mset (map ge_name ns) = mset (map ge_name es)" by (simp add: es(2))
  with es(1) show ?thesis using mset_eq_imp_distinct_iff by blast
qed

lemma canonical_hash_object [simp]: "canonical_hash H (JObj kvs) = Inr (H (dump (JObj kvs)))"
  by (simp add: canonical_hash_def)

definition final_decision :: "(string \<Rightarrow> string) \<Rightarrow> merge_policy \<Rightarrow> evaluation \<Rightarrow> gate_evidence list \<Rightarrow> merge_decision" where
  "final_decision H p e gs =
     (let d = draft_decision p e gs (H (dump (evidence_payload gs))) (H (dump (identity_payload p e gs)))
      in d\<lparr>md_integrity_hash := H (dump (integrity_payload d))\<rparr>)"

lemma evaluate_iff:
  "evaluate H clock p e = Inr d \<longleftrightarrow> policy_validate p = Inr () \<and> check_assessment p e = Inr () \<and>
     sha_match (ev_base_sha e) \<and> sha_match (ev_delivery_sha e) \<and>
     (\<exists>gs. normalize_gates clock (ev_gates e) = Inr gs \<and> d = final_decision H p e gs \<and>
        decision_validate clock d = Inr ())"
  by (auto simp: evaluate_def and_then_ok evidence_payload_def identity_payload_def integrity_payload_def
      with_integrity_def final_decision_def Let_def)

lemma final_decision_fields:
  "md_gates (final_decision H p e gs) = gs"
  "md_blocking_reasons (final_decision H p e gs) = sort (remdups (merge_blockers p (ev_risk_class e) gs))"
  "md_authorization_status (final_decision H p e gs) =
     (if merge_blockers p (ev_risk_class e) gs = [] then Authorized else Not_Authorized)"
  "md_decision_status (final_decision H p e gs) =
     (if merge_blockers p (ev_risk_class e) gs = [] then Decision_ELIGIBLE else Decision_BLOCKED)"
  by (simp_all add: final_decision_def draft_decision_def Let_def)

lemma final_decision_integrity: "verify_integrity H (final_decision H p e gs)"
  by (simp add: verify_integrity_def final_decision_def integrity_payload_def decision_entries_def Let_def)

lemma evaluate_sound: "evaluate H clock p e = Inr d \<Longrightarrow> sound_decision H clock d"
  by (auto simp: evaluate_iff sound_decision_def final_decision_integrity)

lemma normalize_gates_perm:
  assumes "normalize_gates clock gs = Inr ns" "mset gs' = mset gs"
  shows "normalize_gates clock gs' = Inr ns"
proof -
  from assms(1) obtain es where es: "list_all2 (\<lambda>g e. gate_of_input g = Inr e) gs es"
      "\<forall>e\<in>set es. gate_validate clock e = Inr ()" "es \<noteq> []" "distinct (map ge_name es)" "ns = sort_key ge_name es"
    by (auto simp: normalize_gates_iff)
  from list_all2_reorder_left_invariance [OF es(1) assms(2)]
  obtain es' where es': "list_all2 (\<lambda>g e. gate_of_input g = Inr e) gs' es'" "mset es' = mset es" by auto
  have set': "set es' = set es" using es'(2) by (rule mset_eq_setD)
  have d: "distinct (map ge_name es')"
    using es(4) es'(2) by (metis mset_eq_imp_distinct_iff mset_map)
  have "sort_key ge_name es' = ns"
  proof -
    have "inj_on ge_name (set es')" using d by (simp add: distinct_map)
    then show ?thesis unfolding es(5) using es'(2) by (intro sort_key_eq_sort_key) simp_all
  qed
  with es es' set' d show ?thesis unfolding normalize_gates_iff by (intro exI [of _ es']) auto
qed

subsection \<open>A gate whose failure cannot be told\<close>

lemma secret_search_in_append: "secret_search_in ws s \<Longrightarrow> secret_search_in ws (a @ s)"
  by (induction a) auto

lemma secret_word_colon:
  assumes "w \<in> set secret_words"
  shows "secret_search (a @ w @ CHR '':'' # b)"
proof -
  have low: "map ascii_lower w = w" using assms
    by (auto simp: secret_words_def ascii_lower_def Let_def)
  have sp: "dropWhile py_space (CHR '':'' # b) = CHR '':'' # b" by (simp add: py_space_def)
  have "secret_after secret_words (w @ CHR '':'' # b)"
    unfolding secret_after_def list_ex_iff
    by (rule bexI [OF _ assms]) (simp add: low sp del: dropWhile.simps)
  moreover have "w \<noteq> []" using assms by (auto simp: secret_words_def)
  ultimately have "secret_search_in secret_words (w @ CHR '':'' # b)"
    by (cases w) simp_all
  then show ?thesis unfolding secret_search_def by (rule secret_search_in_append)
qed

lemma bad_blocker:
  assumes "g \<in> set gs" "ge_status g \<noteq> Gate_PASS" "ge_name g = a @ w" "w \<in> set secret_words"
  shows "decision_validate clock (final_decision H p e gs) \<noteq> Inr ()"
proof -
  let ?b = "''gate '' @ ge_name g @ '': '' @ gate_status_value (ge_status g)"
  have "?b \<in> set (merge_blockers p (ev_risk_class e) gs)"
    using assms(1,2) by (auto simp: merge_blockers_def status_blockers_def)
  then have m: "?b \<in> set (md_blocking_reasons (final_decision H p e gs))" by (simp add: final_decision_fields)
  have "secret_search ?b"
    using secret_word_colon [OF assms(4), of "''gate '' @ a" "'' '' @ gate_status_value (ge_status g)"]
    by (simp add: assms(3))
  then have "mg_text ''blocking_reasons'' ?b False any_text \<noteq> Inr ()"
    by (simp add: mg_text_def steps_ok)
  with m have "mg_strings ''blocking_reasons'' (md_blocking_reasons (final_decision H p e gs)) True \<noteq> Inr ()"
    by (auto simp: mg_strings_def steps_ok for_each_ok)
  then show ?thesis by (auto simp: decision_validate_def steps_ok)
qed

lemma normalize_gates_member:
  assumes "normalize_gates clock gs = Inr ns" "Gate g \<in> set gs"
  shows "g \<in> set ns"
proof -
  from assms(1) obtain es where es: "list_all2 (\<lambda>g e. gate_of_input g = Inr e) gs es" "ns = sort_key ge_name es"
    by (auto simp: normalize_gates_iff)
  from assms(2) obtain i where i: "i < length gs" "gs ! i = Gate g" by (auto simp: in_set_conv_nth)
  then have "es ! i = g" using list_all2_nthD [OF es(1) i(1)] by (simp add: gate_of_input_def)
  then have "g \<in> set es" using i(1) list_all2_lengthD [OF es(1)] by auto
  then show ?thesis by (simp add: es(2))
qed

subsection \<open>A concrete delivery\<close>

definition sample_hash :: "string \<Rightarrow> string" where
  "sample_hash t = replicate 64 (CHR ''a'')"

definition sample_policy :: merge_policy where
  "sample_policy = \<lparr>mp_policy_id = ''policy-a'', mp_version = ''1'', mp_allowed_risk_classes = [Class_LOW, Class_MEDIUM],
     mp_require_human_merge = False, mp_permanently_forbidden = [Class_HIGH, Class_CRITICAL, Class_UNKNOWN],
     mp_policy_hash = [], mp_freshness_limits = JObj [],
     mp_stop_signal = \<lparr>ks_active = False, ks_generation = 0, ks_event_id = ''stop-bootstrap'', ks_changed_at = [], ks_reason = []\<rparr>,
     mp_authority_generation = 0\<rparr>"

definition passed :: "string \<Rightarrow> gate_evidence" where
  "passed n = \<lparr>ge_name = n, ge_status = Gate_PASS, ge_evidence_refs = [''evidence''], ge_observed_at = [],
     ge_freshness = [], ge_detail = []\<rparr>"

definition sample_evaluation :: evaluation where
  "sample_evaluation = \<lparr>ev_project_id = ''project-a'', ev_task_id = ''task-a'',
     ev_base_sha = replicate 40 (CHR ''a''), ev_delivery_sha = replicate 40 (CHR ''b''),
     ev_constitution_id = ''constitution'', ev_risk_class = Class_LOW, ev_risk_assessment = None,
     ev_gates = map (\<lambda>n. Gate (passed n)) required_gates, ev_expiry = []\<rparr>"

definition sample_gates :: "gate_evidence list" where
  "sample_gates = sort_key ge_name (map passed required_gates)"

lemma mg_text_ok:
  "mg_text l v e P = Inr () \<longleftrightarrow> length v \<le> 4000 \<and> \<not> secret_search v \<and> (e \<or> \<not> blank v) \<and> P v"
  by (auto simp: mg_text_def steps_ok)

lemma mg_strings_ok:
  "mg_strings l vs e = Inr () \<longleftrightarrow> length vs \<le> 200 \<and> (e \<or> vs \<noteq> []) \<and>
     (\<forall>v\<in>set vs. mg_text l v False any_text = Inr ())"
  by (auto simp: mg_strings_def steps_ok for_each_ok)

lemma check_gates_ok:
  "check_gates clock seen gs = Inr () \<longleftrightarrow> (\<forall>g\<in>set gs. gate_validate clock g = Inr ()) \<and>
     distinct (map ge_name gs) \<and> set seen \<inter> ge_name ` set gs = {}"
  by (induction gs arbitrary: seen) (auto simp: and_then_ok)

lemmas plain_text = mg_text_ok no_secret secret_sep_def blank_def py_space_def

lemma required_names: "list_all (\<lambda>n. gate_name_match n \<and> list_all (\<lambda>c. \<not> secret_sep c) n \<and> \<not> blank n \<and>
    length n \<le> 4000) required_gates"
  by code_simp

lemma passed_valid: "n \<in> set required_gates \<Longrightarrow> gate_validate clock (passed n) = Inr ()"
  using required_names
  by (auto simp: list_all_iff gate_validate_def steps_ok mg_strings_ok plain_text passed_def)

lemma sample_normalized: "normalize_gates clock (ev_gates sample_evaluation) = Inr sample_gates"
proof -
  have "list_all2 (\<lambda>g e. gate_of_input g = Inr e) (map (\<lambda>n. Gate (passed n)) ns) (map passed ns)" for ns
    by (induction ns) (simp_all add: gate_of_input_def)
  moreover have "distinct required_gates" "required_gates \<noteq> []" by (simp_all add: required_gates_def)
  moreover have "map ge_name (map passed ns) = ns" for ns by (induction ns) (simp_all add: passed_def)
  ultimately show ?thesis
    unfolding normalize_gates_iff sample_gates_def
    by (intro exI [of _ "map passed required_gates"]) (simp add: sample_evaluation_def passed_valid)
qed

lemma sample_gates_valid: "check_gates clock [] sample_gates = Inr ()"
  using normalize_gates_distinct [OF sample_normalized]
  by (auto simp: check_gates_ok sample_gates_def passed_valid)

lemma sample_no_blockers: "merge_blockers sample_policy Class_LOW sample_gates = []"
proof -
  have d: "distinct (map ge_name sample_gates)" by (rule normalize_gates_distinct [OF sample_normalized])
  have "may_merge sample_policy Class_LOW sample_gates"
    by (simp add: may_merge_def sample_gates_def sample_policy_def image_image) (simp add: passed_def)
  with d show ?thesis by (simp add: blockers_none)
qed

lemmas hex_chars = is_hex_def is_digit_def ascii_lower_def is_lower_alnum_def lower_letter_def Let_def

lemma sha: "sha_match (replicate 40 (CHR ''a''))" "sha_match (replicate 40 (CHR ''b''))"
    "sha256_match (replicate 64 (CHR ''a''))"
  by (simp_all add: sha_match_def sha256_match_def list_all_iff hex_chars)

lemma sample_decision_valid:
  "decision_validate clock (final_decision sample_hash sample_policy sample_evaluation sample_gates) = Inr ()"
proof -
  have l: "length sample_gates = 14" by (simp add: sample_gates_def required_gates_def)
  then have n: "sample_gates \<noteq> []" by auto
  have c: "ev_risk_class sample_evaluation = Class_LOW" by (simp add: sample_evaluation_def)
  have id: "merge_id_match (''decision-'' @ replicate 32 (CHR ''a''))"
    by (simp add: merge_id_match_def list_all_iff hex_chars)
  have t: "list_all (\<lambda>c. \<not> secret_sep c) (''decision-'' @ replicate 32 (CHR ''a''))"
    by (simp add: list_all_iff secret_sep_def)
  show ?thesis
    unfolding decision_validate_def steps_ok final_decision_def Let_def draft_decision_def sample_hash_def
      c sample_no_blockers
    using l n id sha no_secret [OF t]
    by (simp add: sample_gates_valid mg_strings_ok check_risk_def)
      (simp add: sample_evaluation_def sample_policy_def plain_text steps_ok)
qed

lemma sample_evaluated:
  "evaluate sample_hash (\<lambda>_. True) sample_policy sample_evaluation =
     Inr (final_decision sample_hash sample_policy sample_evaluation sample_gates)"
proof -
  have "policy_validate sample_policy = Inr ()" by code_simp
  moreover have "check_assessment sample_policy sample_evaluation = Inr ()"
    by (simp add: check_assessment_def sample_evaluation_def sample_policy_def)
  moreover have "sha_match (ev_base_sha sample_evaluation) \<and> sha_match (ev_delivery_sha sample_evaluation)"
    by (simp add: sample_evaluation_def sha)
  ultimately show ?thesis using sample_normalized sample_decision_valid by (simp add: evaluate_iff)
qed

subsection \<open>Properties\<close>

text \<open>C5. Fail closed: whenever \<open>evaluate\<close> returns a decision, it authorises the merge exactly when
  every required gate was observed, every observed gate passed, no emergency stop is active, under
  an active policy the kill-switch gate names the current stop event, the risk class is allowed and
  not forbidden, and the policy asks for no human; it is then ELIGIBLE and has no blockers, and
  otherwise BLOCKED with reasons.\<close>

theorem evaluate_authorizes_iff:
  assumes "evaluate H clock p e = Inr d"
  shows "(md_authorization_status d = Authorized \<longleftrightarrow> may_merge p (ev_risk_class e) (md_gates d)) \<and>
    (md_decision_status d = Decision_ELIGIBLE \<longleftrightarrow> md_authorization_status d = Authorized) \<and>
    (md_blocking_reasons d = [] \<longleftrightarrow> md_authorization_status d = Authorized)"
proof -
  from assms obtain gs where gs: "normalize_gates clock (ev_gates e) = Inr gs" "d = final_decision H p e gs"
    by (auto simp: evaluate_iff)
  have "merge_blockers p (ev_risk_class e) gs = [] \<longleftrightarrow> may_merge p (ev_risk_class e) gs"
    by (rule blockers_none [OF normalize_gates_distinct [OF gs(1)]])
  moreover have "sort (remdups xs) = [] \<longleftrightarrow> xs = []" for xs :: "string list"
    using sort_key_empty [of "\<lambda>x. x" "remdups xs"] by simp
  ultimately show ?thesis by (simp add: gs(2) final_decision_fields)
qed

theorem evaluate_authorizes_iff_witness:
  "md_authorization_status (final_decision sample_hash sample_policy sample_evaluation sample_gates) = Authorized"
proof -
  have "may_merge sample_policy (ev_risk_class sample_evaluation) sample_gates"
  proof -
    have "distinct (map ge_name sample_gates)" by (rule normalize_gates_distinct [OF sample_normalized])
    moreover have "merge_blockers sample_policy (ev_risk_class sample_evaluation) sample_gates = []"
      using sample_no_blockers by (simp add: sample_evaluation_def)
    ultimately show ?thesis by (simp add: blockers_none)
  qed
  with evaluate_authorizes_iff [OF sample_evaluated] show ?thesis by (simp add: final_decision_fields(1))
qed

text \<open>The decision does not depend on the order in which the gates are given: any permutation
  of them gives the same decision, identity and hashes included.\<close>

theorem evaluate_order_irrelevant:
  assumes "evaluate H clock p e = Inr d" "mset gs' = mset (ev_gates e)"
  shows "evaluate H clock p (e\<lparr>ev_gates := gs'\<rparr>) = Inr d"
proof -
  from assms(1) obtain gs where gs: "policy_validate p = Inr ()" "check_assessment p e = Inr ()"
     "sha_match (ev_base_sha e)" "sha_match (ev_delivery_sha e)"
     "normalize_gates clock (ev_gates e) = Inr gs" "d = final_decision H p e gs" "decision_validate clock d = Inr ()"
    by (auto simp: evaluate_iff)
  have "final_decision H p (e\<lparr>ev_gates := gs'\<rparr>) gs = final_decision H p e gs"
    by (simp add: final_decision_def draft_decision_def identity_payload_def Let_def)
  moreover have "check_assessment p (e\<lparr>ev_gates := gs'\<rparr>) = check_assessment p e"
    by (cases "ev_risk_assessment e") (simp_all add: check_assessment_def)
  ultimately show ?thesis
    using gs normalize_gates_perm [OF gs(5) assms(2)] unfolding evaluate_iff by simp
qed

theorem evaluate_order_irrelevant_witness:
  "evaluate sample_hash (\<lambda>_. True) sample_policy (sample_evaluation\<lparr>ev_gates := rev (ev_gates sample_evaluation)\<rparr>) =
     Inr (final_decision sample_hash sample_policy sample_evaluation sample_gates)"
  by (rule evaluate_order_irrelevant [OF sample_evaluated]) simp

text \<open>What \<open>evaluate\<close> returns is valid, carries the hash of its content, and is what one reads
  back from its JSON form. Reading never accepts a decision that is invalid, or whose content does
  not have the hash it carries.\<close>

theorem decision_roundtrip:
  assumes "evaluate H clock p e = Inr d" "decision_from_dict H clock v = Inr d'"
  shows "decision_from_dict H clock (decision_to_dict d) = Inr d \<and>
    decision_validate clock d' = Inr () \<and> md_integrity_hash d' = H (dump (integrity_payload d'))"
  using decision_codec.dec_enc [OF evaluate_sound [OF assms(1)]] decision_dec_ok [OF assms(2)]
  by (auto simp: verify_integrity_def integrity_payload_def)

theorem decision_roundtrip_witness:
  "decision_from_dict sample_hash (\<lambda>_. True)
     (decision_to_dict (final_decision sample_hash sample_policy sample_evaluation sample_gates)) =
   Inr (final_decision sample_hash sample_policy sample_evaluation sample_gates)"
  using decision_roundtrip [OF sample_evaluated
      decision_codec.dec_enc [OF evaluate_sound [OF sample_evaluated]]] by (rule conjunct1)

text \<open>A gate that has not passed and whose name ends in one of the words of the secret pattern
  never yields a BLOCKED decision: its blocking reason, the name followed by a colon, is itself
  rejected as a secret, and \<open>evaluate\<close> raises.\<close>

theorem secret_named_gate_raises:
  assumes "Gate g \<in> set (ev_gates e)" "ge_status g \<noteq> Gate_PASS" "ge_name g = a @ w" "w \<in> set secret_words"
  shows "\<exists>x. evaluate H clock p e = Inl x"
proof -
  have "evaluate H clock p e \<noteq> Inr d" for d
    using bad_blocker [OF normalize_gates_member [OF _ assms(1)] assms(2-4)] by (auto simp: evaluate_iff)
  then show ?thesis by (cases "evaluate H clock p e") auto
qed

theorem secret_named_gate_raises_witness:
  "gate_validate (\<lambda>_. True) ((passed ''scan-token'')\<lparr>ge_status := Gate_FAIL\<rparr>) = Inr () \<and>
   (\<exists>x. evaluate sample_hash (\<lambda>_. True) sample_policy
      (sample_evaluation\<lparr>ev_gates := [Gate ((passed ''scan-token'')\<lparr>ge_status := Gate_FAIL\<rparr>)]\<rparr>) = Inl x)"
proof -
  have "gate_validate (\<lambda>_. True) ((passed ''scan-token'')\<lparr>ge_status := Gate_FAIL\<rparr>) = Inr ()" by code_simp
  moreover have "\<exists>x. evaluate sample_hash (\<lambda>_. True) sample_policy
      (sample_evaluation\<lparr>ev_gates := [Gate ((passed ''scan-token'')\<lparr>ge_status := Gate_FAIL\<rparr>)]\<rparr>) = Inl x"
    by (rule secret_named_gate_raises [where g = "(passed ''scan-token'')\<lparr>ge_status := Gate_FAIL\<rparr>" and
        a = "''scan-''" and w = "''token''"]) (simp_all add: passed_def secret_words_def)
  ultimately show ?thesis by blast
qed

end
