(* ===== verification/RemoteIdentity.thy ===== *)
theory RemoteIdentity
  imports Prelude
begin

section \<open>Remote identities (remote_identity.py)\<close>

text \<open>
  The equality key of a Git remote. \<open>urlparse\<close> of the standard library is written out for the
  texts that reach it (no control characters or spaces). What it asks of bracketed hosts, and the
  file-system resolution of a \<open>file\<close> remote, are the arguments \<open>bracket_ok\<close> and \<open>as_uri\<close>.
\<close>

subsection \<open>Text helpers\<close>

text \<open>\<open>s.partition(c)\<close>, without and with what follows the separator, and \<open>s.rpartition(c)[0], [2]\<close>\<close>

definition before :: "char \<Rightarrow> string \<Rightarrow> string" where
  "before c s = takeWhile (\<lambda>x. x \<noteq> c) s"

definition after :: "char \<Rightarrow> string \<Rightarrow> string" where
  "after c s = drop 1 (dropWhile (\<lambda>x. x \<noteq> c) s)"

definition after_last :: "char \<Rightarrow> string \<Rightarrow> string" where
  "after_last c s = rev (takeWhile (\<lambda>x. x \<noteq> c) (rev s))"

definition before_last :: "char \<Rightarrow> string \<Rightarrow> string" where
  "before_last c s = rev (drop 1 (dropWhile (\<lambda>x. x \<noteq> c) (rev s)))"

definition strip_slash :: "string \<Rightarrow> string" where
  "strip_slash s = rev (dropWhile (\<lambda>x. x = CHR ''/'') (rev (dropWhile (\<lambda>x. x = CHR ''/'') s)))"

text \<open>\<open>str.lower\<close> below 256\<close>

definition lower_char :: "char \<Rightarrow> char" where
  "lower_char c = (let n = (of_char c :: nat) in
     if 65 \<le> n \<and> n \<le> 90 \<or> 192 \<le> n \<and> n \<le> 222 \<and> n \<noteq> 215 then char_of (n + 32) else c)"

definition py_lower :: "string \<Rightarrow> string" where
  "py_lower s = map lower_char s"

definition ascii_alpha :: "char \<Rightarrow> bool" where
  "ascii_alpha c = (let n = (of_char c :: nat) in 65 \<le> n \<and> n \<le> 90 \<or> 97 \<le> n \<and> n \<le> 122)"

definition word_char :: "char \<Rightarrow> bool" where
  "word_char c = (ascii_alpha c \<or> is_digit c \<or> c = CHR ''.'' \<or> c = CHR ''_'' \<or> c = CHR ''-'')"

subsection \<open>Paths\<close>

text \<open>\<open>^[^\x00-\x20\x7f]+$\<close>\<close>

definition safe_path :: "string \<Rightarrow> bool" where
  "safe_path s = (s \<noteq> [] \<and> list_all (\<lambda>c. let n = (of_char c :: nat) in 32 < n \<and> n \<noteq> 127) s)"

definition dot_git :: string where
  "dot_git = ''.git''"

definition remote_path :: "string \<Rightarrow> string res" where
  "remote_path v =
     (if \<not> safe_path v then raise RemoteIdentityError ''origin has unsupported whitespace or control characters''
      else if CHR 0x5C \<in> set v \<or> ''..'' \<in> set (split_on (CHR ''/'') v)
      then raise RemoteIdentityError ''origin path traversal is unsupported''
      else (let w = strip_slash v in
        if w = [] then raise RemoteIdentityError ''origin repository path is missing''
        else (let x = (if ends_with dot_git w then take (length w - 4) w else w) in
          if x = [] \<or> ends_with ''/'' x \<or> [] \<in> set (split_on (CHR ''/'') x)
          then raise RemoteIdentityError ''origin repository path is malformed''
          else Inr x)))"

definition display_path :: "string \<Rightarrow> string res" where
  "display_path v =
     (if \<not> safe_path v \<or> CHR 0x5C \<in> set v then raise RemoteIdentityError ''origin path is malformed''
      else Inr (strip_slash v))"

subsection \<open>The two spellings of a remote\<close>

text \<open>\<open>^(?P<user>[A-Za-z0-9._-]+)@(?P<host>[^:/\s]+):(?P<path>[^\s]+)$\<close>: the user ends at the first
  at sign, the host at the first colon after it.\<close>

definition scp_match :: "string \<Rightarrow> (string \<times> string \<times> string) option" where
  "scp_match s = (let u = before (CHR ''@'') s; t = after (CHR ''@'') s;
       h = before (CHR '':'') t; p = after (CHR '':'') t in
     if CHR ''@'' \<in> set s \<and> CHR '':'' \<in> set t \<and> u \<noteq> [] \<and> list_all word_char u \<and>
        h \<noteq> [] \<and> list_all (\<lambda>c. c \<noteq> CHR ''/'' \<and> \<not> py_space c) h \<and> p \<noteq> [] \<and> list_all (\<lambda>c. \<not> py_space c) p
     then Some (u, h, p) else None)"

record url =
  url_scheme :: string
  url_netloc :: string
  url_path :: string
  url_query :: string
  url_fragment :: string

text \<open>The scheme is what stands before the first colon, if it looks like one.\<close>

definition has_scheme :: "string \<Rightarrow> bool" where
  "has_scheme s = (CHR '':'' \<in> set s \<and> (case before (CHR '':'') s of [] \<Rightarrow> False | c # cs \<Rightarrow> ascii_alpha c \<and>
     list_all (\<lambda>x. ascii_alpha x \<or> is_digit x \<or> x = CHR ''+'' \<or> x = CHR ''-'' \<or> x = CHR ''.'') (c # cs)))"

definition netloc_end :: "char \<Rightarrow> bool" where
  "netloc_end c = (c = CHR ''/'' \<or> c = CHR ''?'' \<or> c = CHR ''#'')"

text \<open>The parameters of the last path segment, which \<open>urlparse\<close> splits off for \<open>https\<close> and which
  the code never looks at\<close>

definition drop_params :: "string \<Rightarrow> string" where
  "drop_params p = (if CHR ''/'' \<in> set p then before_last (CHR ''/'') p @ CHR ''/'' # before (CHR '';'') (after_last (CHR ''/'') p)
     else before (CHR '';'') p)"

definition urlparse :: "(string \<Rightarrow> bool) \<Rightarrow> string \<Rightarrow> url res" where
  "urlparse bracket_ok s =
     (let scheme = (if has_scheme s then py_lower (before (CHR '':'') s) else []);
          t = (if has_scheme s then after (CHR '':'') s else s);
          nl = starts_with ''//'' t;
          netloc = (if nl then takeWhile (\<lambda>c. \<not> netloc_end c) (drop 2 t) else []);
          r = (if nl then dropWhile (\<lambda>c. \<not> netloc_end c) (drop 2 t) else t);
          r' = before (CHR ''#'') r; p = before (CHR ''?'') r'
      in if (CHR ''['' \<in> set netloc) \<noteq> (CHR '']'' \<in> set netloc) then raise ValueError ''Invalid IPv6 URL''
         else if CHR ''['' \<in> set netloc \<and> \<not> bracket_ok netloc then raise ValueError ''Invalid IPv6 URL''
         else Inr \<lparr>url_scheme = scheme, url_netloc = netloc,
            url_path = (if scheme = ''https'' \<and> CHR '';'' \<in> set p then drop_params p else p),
            url_query = after (CHR ''?'') r', url_fragment = after (CHR ''#'') r\<rparr>)"

definition url_userinfo :: "url \<Rightarrow> string" where
  "url_userinfo u = before_last (CHR ''@'') (url_netloc u)"

definition url_username :: "url \<Rightarrow> string" where
  "url_username u = before (CHR '':'') (url_userinfo u)"

definition url_password :: "url \<Rightarrow> string" where
  "url_password u = after (CHR '':'') (url_userinfo u)"

definition url_hostinfo :: "url \<Rightarrow> string \<times> string" where
  "url_hostinfo u = (let h = after_last (CHR ''@'') (url_netloc u) in
     if CHR ''['' \<in> set h
     then (let b = after (CHR ''['') h in (before (CHR '']'') b, after (CHR '':'') (after (CHR '']'') b)))
     else (before (CHR '':'') h, after (CHR '':'') h))"

text \<open>Empty for the \<open>None\<close> of the library; the code lowers the whole of it, zone included.\<close>

definition url_hostname :: "url \<Rightarrow> string" where
  "url_hostname u = py_lower (fst (url_hostinfo u))"

definition url_port :: "url \<Rightarrow> nat option res" where
  "url_port u = (let p = snd (url_hostinfo u) in
     if p = [] then Inr None
     else if \<not> list_all is_digit p then raise ValueError ''Port could not be cast to integer value''
     else if digits_value p > 65535 then raise ValueError ''Port out of range 0-65535''
     else Inr (Some (digits_value p)))"

record remote_info =
  rem_normalized :: string
  rem_identity :: string
  rem_host :: string
  rem_scheme :: string

definition parse_remote_url :: "(string \<Rightarrow> bool) \<Rightarrow> (string \<Rightarrow> string) \<Rightarrow> string \<Rightarrow> remote_info res" where
  "parse_remote_url bracket_ok as_uri v =
     (if \<not> safe_path v then raise RemoteIdentityError ''origin has unsupported whitespace or control characters''
      else (case scp_match v of
        Some (user, h, p) \<Rightarrow>
          if CHR ''/'' \<notin> set p then raise RemoteIdentityError ''origin SCP path is malformed''
          else (let host = py_lower h in
            and_then (remote_path p) (\<lambda>path. and_then (display_path p) (\<lambda>shown.
              Inr \<lparr>rem_normalized = ''ssh://'' @ user @ ''@'' @ host @ ''/'' @ shown,
                rem_identity = host @ ''/'' @ path, rem_host = host, rem_scheme = ''ssh''\<rparr>)))
      | None \<Rightarrow> and_then (urlparse bracket_ok v) (\<lambda>u.
          if url_scheme u \<notin> {''https'', ''ssh'', ''git'', ''file''}
          then raise RemoteIdentityError ''origin scheme is unsupported or missing''
          else if url_username u \<noteq> [] \<and> url_scheme u = ''https''
          then raise RemoteIdentityError ''origin contains credentials''
          else if url_password u \<noteq> [] \<or> url_query u \<noteq> [] \<or> url_fragment u \<noteq> []
          then raise RemoteIdentityError ''origin contains credentials or unsupported URL components''
          else if url_hostname u = []
          then (if url_scheme u \<noteq> ''file'' \<or> \<not> starts_with ''/'' (url_path u)
            then raise RemoteIdentityError ''origin host is missing''
            else (let c = as_uri (url_path u) in
              Inr \<lparr>rem_normalized = c, rem_identity = c, rem_host = [], rem_scheme = ''file''\<rparr>))
          else if url_scheme u = ''file'' then raise RemoteIdentityError ''file origin host is unsupported''
          else if \<not> starts_with ''/'' (url_path u) then raise RemoteIdentityError ''origin path is malformed''
          else and_then (replace_exc (\<lambda>k. is_value_error k) RemoteIdentityError ''origin port is malformed'' (url_port u)) (\<lambda>port.
            let ps = (case port of None \<Rightarrow> [] | Some n \<Rightarrow> if n = 0 then [] else CHR '':'' # show_nat n);
                host = url_hostname u in
            and_then (remote_path (url_path u)) (\<lambda>path. and_then (display_path (url_path u)) (\<lambda>shown.
              let usr = (if url_username u = [] then [] else url_username u @ ''@'') in
              Inr \<lparr>rem_normalized = url_scheme u @ ''://'' @ usr @ host @ ps @ ''/'' @ shown,
                rem_identity = host @ ps @ ''/'' @ path, rem_host = host, rem_scheme = url_scheme u\<rparr>))))))"

definition canonical_remote_identity :: "(string \<Rightarrow> bool) \<Rightarrow> (string \<Rightarrow> string) \<Rightarrow> string \<Rightarrow> string res" where
  "canonical_remote_identity bracket_ok as_uri v =
     and_then (parse_remote_url bracket_ok as_uri v) (\<lambda>i. Inr (rem_identity i))"

subsection \<open>Plain names\<close>

definition plain :: "string \<Rightarrow> bool" where
  "plain s \<longleftrightarrow> s \<noteq> [] \<and> list_all word_char s"

lemma word_char_plain:
  assumes "word_char c"
  shows "c \<noteq> CHR ''/''" "c \<noteq> CHR '':''" "c \<noteq> CHR ''@''" "c \<noteq> CHR ''?''" "c \<noteq> CHR ''#''" "c \<noteq> CHR ''[''"
    "c \<noteq> CHR '']''" "c \<noteq> CHR '';''" "c \<noteq> CHR 0x5C" "\<not> py_space c"
    "32 < (of_char c :: nat) \<and> (of_char c :: nat) \<noteq> 127"
  using assms by (auto simp: word_char_def ascii_alpha_def is_digit_def py_space_def Let_def)

lemma not_word:
  "\<not> word_char (CHR ''/'')" "\<not> word_char (CHR '':'')" "\<not> word_char (CHR ''@'')" "\<not> word_char (CHR ''?'')"
  "\<not> word_char (CHR ''#'')" "\<not> word_char (CHR ''['')" "\<not> word_char (CHR '']'')" "\<not> word_char (CHR '';'')"
  "\<not> word_char (CHR 0x5C)"
  by (simp_all add: word_char_def ascii_alpha_def is_digit_def Let_def)

lemma plain_notin:
  assumes "plain s"
  shows "CHR ''/'' \<notin> set s" "CHR '':'' \<notin> set s" "CHR ''@'' \<notin> set s" "CHR ''?'' \<notin> set s" "CHR ''#'' \<notin> set s"
    "CHR ''['' \<notin> set s" "CHR '']'' \<notin> set s" "CHR '';'' \<notin> set s" "CHR 0x5C \<notin> set s"
  using assms not_word unfolding plain_def list_all_iff by blast+

lemma plain_not_Nil: "plain s \<Longrightarrow> s \<noteq> []"
  by (simp add: plain_def)

lemma safe_append: "safe_path (a @ b) \<longleftrightarrow> (a = [] \<or> safe_path a) \<and> (b = [] \<or> safe_path b) \<and> (a \<noteq> [] \<or> b \<noteq> [])"
  by (auto simp: safe_path_def)

lemma safe_Cons: "safe_path (c # b) \<longleftrightarrow> 32 < (of_char c :: nat) \<and> (of_char c :: nat) \<noteq> 127 \<and> (b = [] \<or> safe_path b)"
  by (auto simp: safe_path_def Let_def)

lemma plain_safe: "plain s \<Longrightarrow> safe_path s"
  using word_char_plain(11) by (auto simp: plain_def safe_path_def list_all_iff Let_def)

lemma plain_no_space: "plain s \<Longrightarrow> list_all (\<lambda>c. \<not> py_space c) s"
  using word_char_plain(10) by (auto simp: plain_def list_all_iff)

lemma before_append: "c \<notin> set a \<Longrightarrow> before c (a @ c # b) = a"
  by (induction a) (auto simp: before_def)

lemma before_none: "c \<notin> set a \<Longrightarrow> before c a = a"
  by (induction a) (auto simp: before_def)

lemma after_append: "c \<notin> set a \<Longrightarrow> after c (a @ c # b) = b"
  by (induction a) (auto simp: after_def)

lemma after_none: "c \<notin> set a \<Longrightarrow> after c a = []"
  by (induction a) (auto simp: after_def)

lemma cut_last: "after_last c s = rev (before c (rev s))" "before_last c s = rev (after c (rev s))"
  by (simp_all add: after_last_def before_def before_last_def after_def)

lemma after_last_append: "c \<notin> set b \<Longrightarrow> after_last c (a @ c # b) = b"
  by (simp add: cut_last before_append)

lemma after_last_none: "c \<notin> set b \<Longrightarrow> after_last c b = b"
  by (simp add: cut_last before_none)

lemma before_last_append: "c \<notin> set b \<Longrightarrow> before_last c (a @ c # b) = a"
  by (simp add: cut_last after_append)

lemma before_last_none: "c \<notin> set b \<Longrightarrow> before_last c b = []"
  by (simp add: cut_last after_none)

lemmas cut_simps = before_append before_none after_append after_none after_last_append after_last_none
  before_last_append before_last_none

lemma strip_slash_plain:
  assumes "w \<noteq> []" "hd w \<noteq> CHR ''/''" "last w \<noteq> CHR ''/''"
  shows "strip_slash w = w" "strip_slash (CHR ''/'' # w) = w" "strip_slash (CHR ''/'' # w @ ''/'') = w"
proof -
  have d: "dropWhile (\<lambda>x. x = CHR ''/'') (w @ v) = w @ v" for v using assms(1,2) by (cases w) auto
  have r: "dropWhile (\<lambda>x. x = CHR ''/'') (rev w) = rev w"
    using assms(1,3) by (cases w rule: rev_cases) auto
  show "strip_slash w = w" using d [of "[]"] r by (simp add: strip_slash_def)
  show "strip_slash (CHR ''/'' # w) = w" using d [of "[]"] r by (simp add: strip_slash_def)
  show "strip_slash (CHR ''/'' # w @ ''/'') = w" using d [of "''/''"] r by (simp add: strip_slash_def)
qed

lemma two_segments:
  assumes "plain x" "plain y"
  shows "split_on (CHR ''/'') (x @ CHR ''/'' # y) = [x, y]"
    "hd (x @ CHR ''/'' # y) \<noteq> CHR ''/''" "last (x @ CHR ''/'' # y) \<noteq> CHR ''/''"
    "\<not> ends_with ''/'' (x @ CHR ''/'' # y)" "CHR 0x5C \<notin> set (x @ CHR ''/'' # y)" "safe_path (x @ CHR ''/'' # y)"
proof -
  note p = plain_notin [OF assms(1)] plain_notin [OF assms(2)] plain_not_Nil [OF assms(1)] plain_not_Nil [OF assms(2)]
  show "split_on (CHR ''/'') (x @ CHR ''/'' # y) = [x, y]" using p by (simp add: split_on_append_sep split_on_plain)
  show "hd (x @ CHR ''/'' # y) \<noteq> CHR ''/''" using p by (cases x) auto
  show l: "last (x @ CHR ''/'' # y) \<noteq> CHR ''/''" using p last_in_set [of y] by (auto simp del: last_in_set)
  show "\<not> ends_with ''/'' (x @ CHR ''/'' # y)"
    using l by (metis ends_with_iff last_snoc)
  show "CHR 0x5C \<notin> set (x @ CHR ''/'' # y)" using p by auto
  show "safe_path (x @ CHR ''/'' # y)"
    using plain_safe [OF assms(1)] plain_safe [OF assms(2)] by (simp add: safe_append safe_Cons)
qed

lemma plain_git: "plain y \<Longrightarrow> plain (y @ dot_git)"
  by (simp add: plain_def dot_git_def word_char_def ascii_alpha_def Let_def)

lemma git_not_dots: "y @ dot_git \<noteq> ''..''"
  by (auto simp: dot_git_def append_eq_Cons_conv)

lemma ends_with_git: "ends_with dot_git (a @ dot_git)"
  by (auto simp: ends_with_iff)

lemma take_git: "take (length (a @ dot_git) - 4) (a @ dot_git) = a"
  by (simp add: dot_git_def)

text \<open>The path with or without a slash in front, the suffix \<open>.git\<close> and a slash at the end\<close>

lemma remote_path_spellings:
  assumes x: "plain x" "x \<noteq> ''..''" and y: "plain y" "y \<noteq> ''..''" "\<not> ends_with dot_git (x @ CHR ''/'' # y)"
    and z: "a \<in> {[], ''/''}" "g \<in> {[], dot_git}" "t \<in> {[], ''/''}"
  shows "remote_path (a @ x @ CHR ''/'' # y @ g @ t) = Inr (x @ CHR ''/'' # y)"
    "display_path (a @ x @ CHR ''/'' # y @ g @ t) = Inr (x @ CHR ''/'' # y @ g)"
    "safe_path (a @ x @ CHR ''/'' # y @ g @ t)" "list_all (\<lambda>c. \<not> py_space c) (a @ x @ CHR ''/'' # y @ g @ t)"
proof -
  let ?w = "x @ CHR ''/'' # y @ g" and ?v = "x @ CHR ''/'' # y"
  have pg: "plain (y @ g)" "y @ g \<noteq> ''..''" using z(2) y plain_git [OF y(1)] git_not_dots by auto
  note w = two_segments [OF x(1) pg(1)] and v = two_segments [OF x(1) y(1)]
  have e: "(if ends_with dot_git ?w then take (length ?w - 4) ?w else ?w) = ?v"
    using z(2) y(3) ends_with_git [of ?v] take_git [of ?v] by auto
  have n: "x \<noteq> []" "y \<noteq> []" using x y plain_not_Nil by auto
  have sl: "split_on (CHR ''/'') (a @ ?w @ t) = (if a = [] then [] else [[]]) @ [x, y @ g] @ (if t = [] then [] else [[]])"
    using z(1,3) w(1) split_on_append_sep [of "CHR ''/''" ?w "[]"] by auto
  have strip: "strip_slash (a @ ?w @ t) = ?w"
    using z(1,3) strip_slash_plain [of ?w] w(2,3) by (auto simp: strip_slash_def)
  have bs: "CHR 0x5C \<notin> set (a @ ?w @ t)" using w(5) z(1,3) by auto
  show s: "safe_path (a @ x @ CHR ''/'' # y @ g @ t)" using w(6) z(1,3) by (auto simp: safe_Cons safe_append)
  then have "safe_path (a @ ?w @ t)" by simp
  then show "remote_path (a @ x @ CHR ''/'' # y @ g @ t) = Inr ?v"
    using bs sl x(2) pg(2) n v(1,4) e strip by (simp add: remote_path_def Let_def)
  show "display_path (a @ x @ CHR ''/'' # y @ g @ t) = Inr ?w"
    using s bs strip by (simp add: display_path_def)
  show "list_all (\<lambda>c. \<not> py_space c) (a @ x @ CHR ''/'' # y @ g @ t)"
    using plain_no_space [OF x(1)] plain_no_space [OF pg(1)] z(1,3) by (auto simp: py_space_def list_all_iff)
qed

lemma bare_path:
  assumes "plain x" "x \<noteq> ''..''" "plain y" "y \<noteq> ''..''" "\<not> ends_with dot_git (x @ CHR ''/'' # y)"
  shows "remote_path (CHR ''/'' # x @ CHR ''/'' # y) = Inr (x @ CHR ''/'' # y)"
  using remote_path_spellings(1) [OF assms, of "''/''" "[]" "[]"] by simp

lemma scp_match_plain:
  assumes "plain u" "plain h" "p \<noteq> []" "list_all (\<lambda>c. \<not> py_space c) p"
  shows "scp_match (u @ CHR ''@'' # h @ CHR '':'' # p) = Some (u, h, p)"
proof -
  note n = plain_notin [OF assms(1)] plain_notin [OF assms(2)]
  have "list_all (\<lambda>c. c \<noteq> CHR ''/'' \<and> \<not> py_space c) h"
    using plain_no_space [OF assms(2)] n(10) by (auto simp: list_all_iff)
  with assms n show ?thesis by (simp add: scp_match_def Let_def cut_simps plain_def)
qed

lemma scp_match_url:
  assumes "CHR '':'' \<in> set (before (CHR ''@'') v)"
  shows "scp_match v = None"
proof -
  have "\<not> list_all word_char (before (CHR ''@'') v)" using assms not_word(2) by (auto simp: list_all_iff)
  then show ?thesis by (auto simp: scp_match_def Let_def)
qed

text \<open>A URL with one of the three network schemes, a user or none, and a plain host\<close>

definition netloc_of :: "string option \<Rightarrow> string \<Rightarrow> string" where
  "netloc_of u h = (case u of None \<Rightarrow> h | Some x \<Rightarrow> x @ CHR ''@'' # h)"

lemma urlparse_plain:
  assumes s: "s \<in> {''https'', ''ssh'', ''git''}" and u: "pred_option plain u" "plain h"
    and p: "CHR ''?'' \<notin> set p" "CHR ''#'' \<notin> set p"
  shows "urlparse b (s @ ''://'' @ netloc_of u h @ CHR ''/'' # p) =
    Inr \<lparr>url_scheme = s, url_netloc = netloc_of u h,
      url_path = (if s = ''https'' \<and> CHR '';'' \<in> set p then drop_params (CHR ''/'' # p) else CHR ''/'' # p),
      url_query = [], url_fragment = []\<rparr>"
proof -
  let ?n = "netloc_of u h"
  have c: "CHR '':'' \<notin> set s" using s by auto
  have sc: "has_scheme (s @ CHR '':'' # t)" "py_lower s = s" for t
    using s c by (auto simp: has_scheme_def before_append ascii_alpha_def py_lower_def lower_char_def Let_def)
  have n: "list_all (\<lambda>c. \<not> netloc_end c) ?n" "CHR ''['' \<notin> set ?n" "CHR '']'' \<notin> set ?n"
    using u plain_notin [OF u(2)] plain_notin
    by (cases u; auto simp: netloc_of_def netloc_end_def list_all_iff)+
  have t: "takeWhile (\<lambda>c. \<not> netloc_end c) (?n @ CHR ''/'' # p) = ?n"
    "dropWhile (\<lambda>c. \<not> netloc_end c) (?n @ CHR ''/'' # p) = CHR ''/'' # p"
    using n(1) by (auto simp: list_all_iff netloc_end_def)
  have f: "before (CHR ''#'') (CHR ''/'' # p) = CHR ''/'' # p" "after (CHR ''#'') (CHR ''/'' # p) = []"
    "before (CHR ''?'') (CHR ''/'' # p) = CHR ''/'' # p" "after (CHR ''?'') (CHR ''/'' # p) = []"
    using p by (intro before_none after_none; simp)+
  have v: "s @ ''://'' @ ?n @ CHR ''/'' # p = s @ CHR '':'' # ''//'' @ ?n @ CHR ''/'' # p" by simp
  show ?thesis unfolding v urlparse_def
    using n(2,3) by (auto simp: sc before_append [OF c] after_append [OF c] starts_with_def t f Let_def)
qed

text \<open>The identity of a URL that passes the tests\<close>

lemma parsed_identity:
  assumes "safe_path v" "scp_match v = None" "urlparse b v = Inr w"
    and "url_scheme w \<in> {''https'', ''ssh'', ''git'', ''file''}" "url_scheme w \<noteq> ''file''"
    and "url_username w = [] \<or> url_scheme w \<noteq> ''https''"
    and "url_password w = []" "url_query w = []" "url_fragment w = []" "url_hostname w \<noteq> []"
    and "starts_with ''/'' (url_path w)" "url_port w = Inr None"
    and "remote_path (url_path w) = Inr q" "display_path (url_path w) = Inr d"
  shows "canonical_remote_identity b f v = Inr (url_hostname w @ CHR ''/'' # q)"
proof -
  have n: "\<not> (url_username w \<noteq> [] \<and> url_scheme w = ''https'')" using assms(6) by blast
  show ?thesis
    unfolding canonical_remote_identity_def parse_remote_url_def
    by (simp only: assms(1-5,7-) n option.case and_then_simps not_True_eq_False if_False de_Morgan_disj
        replace_exc_Inr Let_def simp_thms remote_info.simps append_Nil) simp
qed

lemma parse_url_any:
  assumes s: "s \<in> {''https'', ''ssh'', ''git''}" and u: "pred_option plain u" "plain h" "s = ''https'' \<longrightarrow> u = None"
    and p: "CHR ''?'' \<notin> set p" "CHR ''#'' \<notin> set p" "safe_path p"
    and w: "w = (if s = ''https'' \<and> CHR '';'' \<in> set p then drop_params (CHR ''/'' # p) else CHR ''/'' # p)"
    and q: "starts_with ''/'' w" "remote_path w = Inr q" "display_path w = Inr d"
  shows "canonical_remote_identity b f (s @ ''://'' @ netloc_of u h @ CHR ''/'' # p) = Inr (py_lower h @ CHR ''/'' # q)"
proof -
  let ?v = "s @ ''://'' @ netloc_of u h @ CHR ''/'' # p"
  let ?u = "\<lparr>url_scheme = s, url_netloc = netloc_of u h, url_path = w, url_query = [], url_fragment = []\<rparr>"
  note nh = plain_notin [OF u(2)]
  have "safe_path (netloc_of u h)" using u by (cases u) (auto simp: netloc_of_def safe_append safe_Cons plain_safe)
  moreover have "safe_path s" using s by (auto simp: safe_path_def)
  ultimately have safe: "safe_path ?v" using p(3) by (simp add: safe_append safe_Cons)
  have "CHR '':'' \<in> set (before (CHR ''@'') ?v)" using s by (auto simp: before_def)
  then have scp: "scp_match ?v = None" by (rule scp_match_url)
  have parsed: "urlparse b ?v = Inr ?u" unfolding w using s u(1,2) p(1,2) by (rule urlparse_plain)
  have ui: "url_userinfo ?u = (case u of None \<Rightarrow> [] | Some x \<Rightarrow> x)"
    using nh by (cases u) (simp_all add: url_userinfo_def netloc_of_def cut_simps)
  have "CHR '':'' \<notin> set (case u of None \<Rightarrow> [] | Some x \<Rightarrow> x)"
    using u(1) plain_notin(2) by (cases u) auto
  then have un: "url_username ?u = (case u of None \<Rightarrow> [] | Some x \<Rightarrow> x)" and pw: "url_password ?u = []"
    unfolding url_username_def url_password_def ui by (simp_all add: cut_simps)
  have hi: "url_hostinfo ?u = (h, [])"
    using nh by (cases u) (simp_all add: url_hostinfo_def netloc_of_def cut_simps Let_def)
  have hn: "url_hostname ?u = py_lower h" "url_port ?u = Inr None"
    by (simp_all add: url_hostname_def url_port_def hi)
  have "py_lower h \<noteq> []" using plain_not_Nil [OF u(2)] by (simp add: py_lower_def)
  then show ?thesis
    using parsed_identity [OF safe scp parsed] s u(3) q by (auto simp: un pw hn)
qed

lemma parse_url_plain:
  assumes s: "s \<in> {''https'', ''ssh'', ''git''}" and u: "pred_option plain u" "plain h" "s = ''https'' \<longrightarrow> u = None"
    and p: "CHR ''?'' \<notin> set p" "CHR ''#'' \<notin> set p" "CHR '';'' \<notin> set p" "safe_path p" "CHR 0x5C \<notin> set p"
    and q: "remote_path (CHR ''/'' # p) = Inr q"
  shows "canonical_remote_identity b f (s @ ''://'' @ netloc_of u h @ CHR ''/'' # p) = Inr (py_lower h @ CHR ''/'' # q)"
proof (rule parse_url_any [OF s u p(1,2,4)])
  show "CHR ''/'' # p = (if s = ''https'' \<and> CHR '';'' \<in> set p then drop_params (CHR ''/'' # p) else CHR ''/'' # p)"
    using p(3) by simp
  show "starts_with ''/'' (CHR ''/'' # p)" by (simp add: starts_with_def)
  show "display_path (CHR ''/'' # p) = Inr (strip_slash (CHR ''/'' # p))"
    using p(4,5) by (simp add: display_path_def safe_Cons)
qed (rule q)

text \<open>An \<open>https\<close> path whose last segment carries parameters\<close>

lemma parse_url_params:
  assumes "plain h" "plain x" "plain y" "x \<noteq> ''..''" "y \<noteq> ''..''" "\<not> ends_with dot_git (x @ CHR ''/'' # y)"
    and z: "safe_path z" "CHR ''/'' \<notin> set z" "CHR ''?'' \<notin> set z" "CHR ''#'' \<notin> set z"
  shows "canonical_remote_identity b f (''https'' @ ''://'' @ netloc_of None h @ CHR ''/'' # x @ CHR ''/'' # y @ CHR '';'' # z) =
    Inr (py_lower h @ CHR ''/'' # x @ CHR ''/'' # y)"
proof -
  note nx = plain_notin [OF assms(2)] and ny = plain_notin [OF assms(3)] and s = two_segments [OF assms(2,3)]
  have "before_last (CHR ''/'') (CHR ''/'' # x @ CHR ''/'' # y @ CHR '';'' # z) = CHR ''/'' # x"
    using before_last_append [of "CHR ''/''" "y @ CHR '';'' # z" "CHR ''/'' # x"] ny z(2) by simp
  moreover have "after_last (CHR ''/'') (CHR ''/'' # x @ CHR ''/'' # y @ CHR '';'' # z) = y @ CHR '';'' # z"
    using after_last_append [of "CHR ''/''" "y @ CHR '';'' # z" "CHR ''/'' # x"] ny z(2) by simp
  ultimately have d: "drop_params (CHR ''/'' # x @ CHR ''/'' # y @ CHR '';'' # z) = CHR ''/'' # x @ CHR ''/'' # y"
    using before_append [OF ny(8)] by (simp add: drop_params_def)
  show ?thesis
  proof (rule parse_url_any)
    show "CHR ''/'' # x @ CHR ''/'' # y = (if ''https'' = ''https'' \<and> CHR '';'' \<in> set (x @ CHR ''/'' # y @ CHR '';'' # z)
        then drop_params (CHR ''/'' # x @ CHR ''/'' # y @ CHR '';'' # z) else CHR ''/'' # x @ CHR ''/'' # y @ CHR '';'' # z)"
      by (simp add: d)
    show "starts_with ''/'' (CHR ''/'' # x @ CHR ''/'' # y)" by (simp add: starts_with_def)
    show "remote_path (CHR ''/'' # x @ CHR ''/'' # y) = Inr (x @ CHR ''/'' # y)"
      by (rule bare_path [OF assms(2,4,3,5,6)])
    show "display_path (CHR ''/'' # x @ CHR ''/'' # y) = Inr (strip_slash (CHR ''/'' # x @ CHR ''/'' # y))"
      using s(5,6) by (simp add: display_path_def safe_Cons)
    show "safe_path (x @ CHR ''/'' # y @ CHR '';'' # z)"
      using s(6) z(1) by (auto simp: safe_append safe_Cons)
  qed (use assms(1) nx ny z in auto)
qed

text \<open>An unbalanced bracket makes \<open>urlparse\<close> itself raise, outside the \<open>try\<close>.\<close>

lemma bracket_value_error:
  "canonical_remote_identity b f ''https://[host/x'' = Inl (Exc ValueError ''Invalid IPv6 URL'')"
  by code_simp

subsection \<open>Properties\<close>

text \<open>C35. The spellings of one repository have one identity: the SCP form and the \<open>https\<close>, \<open>ssh\<close> and
  \<open>git\<close> URLs, each with or without the suffix \<open>.git\<close> and a slash at the end, with any plain user where the
  scheme permits one and the host in any case, are all \<open>host/owner/name\<close> with the host in lower case.\<close>

theorem remote_spellings_agree:
  assumes "plain user" "plain h" "plain x" "plain y" "x \<noteq> ''..''" "y \<noteq> ''..''" "\<not> ends_with dot_git (x @ CHR ''/'' # y)"
    and "suffix \<in> {[], dot_git}" "slash \<in> {[], ''/''}"
    and "scheme \<in> {''https'', ''ssh'', ''git''}" "pred_option plain u" "scheme = ''https'' \<longrightarrow> u = None"
  shows "canonical_remote_identity b f (user @ CHR ''@'' # h @ CHR '':'' # x @ CHR ''/'' # y @ suffix @ slash) =
      Inr (py_lower h @ CHR ''/'' # x @ CHR ''/'' # y) \<and>
    canonical_remote_identity b f (scheme @ ''://'' @ netloc_of u h @ CHR ''/'' # x @ CHR ''/'' # y @ suffix @ slash) =
      Inr (py_lower h @ CHR ''/'' # x @ CHR ''/'' # y)"
proof
  let ?p = "x @ CHR ''/'' # y @ suffix @ slash"
  note bare = remote_path_spellings [OF assms(3,5,4,6,7) _ assms(8,9), of "[]", simplified]
    and slashed = remote_path_spellings [OF assms(3,5,4,6,7) _ assms(8,9), of "''/''", simplified]
  have m: "scp_match (user @ CHR ''@'' # h @ CHR '':'' # ?p) = Some (user, h, ?p)"
    by (rule scp_match_plain [OF assms(1,2)]) (use bare(4) in simp_all)
  have safe: "safe_path (user @ CHR ''@'' # h @ CHR '':'' # ?p)"
    using plain_safe [OF assms(1)] plain_safe [OF assms(2)] bare(3) by (auto simp: safe_append safe_Cons)
  show "canonical_remote_identity b f (user @ CHR ''@'' # h @ CHR '':'' # ?p) =
      Inr (py_lower h @ CHR ''/'' # x @ CHR ''/'' # y)"
    by (simp add: canonical_remote_identity_def parse_remote_url_def safe m Let_def bare(1,2))
  have g: "plain (y @ suffix)" using assms(4,8) plain_git by auto
  show "canonical_remote_identity b f (scheme @ ''://'' @ netloc_of u h @ CHR ''/'' # ?p) =
      Inr (py_lower h @ CHR ''/'' # x @ CHR ''/'' # y)"
    using plain_notin [OF assms(3)] plain_notin [OF g] assms(2,9-12) bare(3) slashed(1) by (intro parse_url_plain) auto
qed

theorem remote_spellings_agree_witness:
  "canonical_remote_identity (\<lambda>_. True) (\<lambda>p. ''file://'' @ p) ''git@Example.org:team/tool.git'' = Inr ''example.org/team/tool'' \<and>
   canonical_remote_identity (\<lambda>_. True) (\<lambda>p. ''file://'' @ p) ''https://Example.org/team/tool.git'' = Inr ''example.org/team/tool''"
proof -
  have "plain ''git'' \<and> plain ''Example.org'' \<and> plain ''team'' \<and> plain ''tool''"
    by (simp add: plain_def word_char_def ascii_alpha_def Let_def)
  moreover have "py_lower ''Example.org'' = ''example.org''" by code_simp
  moreover have "\<not> ends_with dot_git (''team'' @ CHR ''/'' # ''tool'')"
    by (simp add: ends_with_def starts_with_def dot_git_def)
  ultimately show ?thesis
    using remote_spellings_agree [of "''git''" "''Example.org''" "''team''" "''tool''" dot_git "[]" "''https''" None
        "\<lambda>_. True" "\<lambda>p. ''file://'' @ p"] by (simp add: dot_git_def netloc_of_def)
qed

text \<open>Two different \<open>https\<close> remotes can have one identity: whatever follows a semicolon in the
  last segment is split off by \<open>urlparse\<close> as parameters, which the code never looks at.\<close>

theorem remote_params_ignored:
  assumes "plain h" "plain x" "plain y" "x \<noteq> ''..''" "y \<noteq> ''..''" "\<not> ends_with dot_git (x @ CHR ''/'' # y)"
    and "safe_path z" "CHR ''/'' \<notin> set z" "CHR ''?'' \<notin> set z" "CHR ''#'' \<notin> set z"
  shows "canonical_remote_identity b f (''https'' @ ''://'' @ netloc_of None h @ CHR ''/'' # x @ CHR ''/'' # y @ CHR '';'' # z) =
    canonical_remote_identity b f (''https'' @ ''://'' @ netloc_of None h @ CHR ''/'' # x @ CHR ''/'' # y)"
proof -
  have "canonical_remote_identity b f (''https'' @ ''://'' @ netloc_of None h @ CHR ''/'' # (x @ CHR ''/'' # y)) =
      Inr (py_lower h @ CHR ''/'' # x @ CHR ''/'' # y)"
    using plain_notin [OF assms(2)] plain_notin [OF assms(3)] assms(1) two_segments(6) [OF assms(2,3)]
      bare_path [OF assms(2,4,3,5,6)] by (intro parse_url_plain) auto
  with parse_url_params [OF assms] show ?thesis by simp
qed

theorem remote_params_ignored_witness:
  "canonical_remote_identity (\<lambda>_. True) (\<lambda>p. ''file://'' @ p) (''https'' @ ''://'' @ netloc_of None ''example.org'' @ CHR ''/'' # ''team'' @ CHR ''/'' # ''tool'' @ CHR '';'' # ''evil'') =
   canonical_remote_identity (\<lambda>_. True) (\<lambda>p. ''file://'' @ p) (''https'' @ ''://'' @ netloc_of None ''example.org'' @ CHR ''/'' # ''team'' @ CHR ''/'' # ''tool'')"
  by (rule remote_params_ignored)
    (simp_all add: plain_def word_char_def ascii_alpha_def safe_path_def ends_with_def starts_with_def dot_git_def Let_def)

end
