(* ===== verification/Plan.thy ===== *)
theory Plan
  imports DependencyDag RemoteIdentity "HOL-Library.Monad_Syntax"
begin

section \<open>Execution plans (models.py)\<close>

text \<open>
  The plan of the Director: tasks with dependencies, of their own and in a separate list of
  edges, bound to a repository. A field that no test of the source looks into, or only for its
  truth value, keeps its JSON value here, so that what the source accepts in it is accepted; the
  other fields have their declared types. In \<open>plan_from_dict\<close> a value of another type in such a
  field is reported as a \<open>TypeError\<close>; a string in the place of a list of strings, which Python
  would iterate, counts as ill-typed. \<open>bracket_ok\<close> and \<open>as_uri\<close> are those of \<open>RemoteIdentity\<close>.
\<close>

subsection \<open>Data\<close>

datatype plan_status = Plan_READY | Plan_NO_JUSTIFIED_WORK | Plan_BLOCKED | Plan_HUMAN_REQUIRED

fun plan_status_value :: "plan_status \<Rightarrow> string" where
  "plan_status_value Plan_READY = ''READY''"
| "plan_status_value Plan_NO_JUSTIFIED_WORK = ''NO_JUSTIFIED_WORK''"
| "plan_status_value Plan_BLOCKED = ''BLOCKED''"
| "plan_status_value Plan_HUMAN_REQUIRED = ''HUMAN_REQUIRED''"

definition plan_status_of :: "json \<Rightarrow> plan_status option" where
  "plan_status_of v = map_of (map (\<lambda>s. (JStr (plan_status_value s), s))
     [Plan_READY, Plan_NO_JUSTIFIED_WORK, Plan_BLOCKED, Plan_HUMAN_REQUIRED]) v"

record repository_context =
  rc_root :: json
  rc_branch :: json
  rc_origin :: json
  rc_clean :: json
  rc_head_sha :: json

record task =
  tk_task_id :: string
  tk_title :: string
  tk_objective :: string
  tk_allowed_paths :: json
  tk_dependencies :: "string list"
  tk_acceptance_criteria :: json
  tk_validation_commands :: json
  tk_risk_level :: string
  tk_assigned_role :: string
  tk_status :: plan_status
  tk_requirement_refs :: "string list"

record execution_plan =
  ep_schema_version :: string
  ep_plan_id :: string
  ep_created_at :: string
  ep_repository :: repository_context
  ep_goal :: string
  ep_scope :: json
  ep_assumptions :: json
  ep_risks :: json
  ep_architecture_impact :: json
  ep_tasks :: "task list"
  ep_dependencies :: "(string \<times> json) list list"
  ep_parallel_groups :: "string list list"
  ep_required_reviews :: json
  ep_required_evidence :: json
  ep_human_intervention :: json
  ep_status :: plan_status
  ep_objective_id :: "string option"
  ep_requirement_refs :: "string list"

subsection \<open>Validation\<close>

abbreviation plan_check :: "bool \<Rightarrow> string \<Rightarrow> unit res" where
  "plan_check b m \<equiv> raise_if b PlanValidationError m"

definition plan_requirement_ref :: "string \<Rightarrow> bool" where
  "plan_requirement_ref = id_match ''requirement-''"

definition validate_task :: "string list \<Rightarrow> task \<Rightarrow> unit res" where
  "validate_task ids t = steps [
     plan_check (list_ex blank [tk_task_id t, tk_title t, tk_objective t, tk_risk_level t, tk_assigned_role t])
       ''task required fields are incomplete'',
     plan_check (tk_assigned_role t \<noteq> ''Implementer'') ''tasks must be assigned to Implementer'',
     plan_check (\<not> distinct (tk_requirement_refs t))
       (''task '' @ tk_task_id t @ '' requirement_refs must be unique''),
     plan_check (list_ex (\<lambda>r. \<not> plan_requirement_ref r) (tk_requirement_refs t))
       (''task '' @ tk_task_id t @ '' has an invalid requirement reference''),
     plan_check (\<not> truthy (tk_acceptance_criteria t) \<or> \<not> truthy (tk_validation_commands t))
       (''task '' @ tk_task_id t @ '' needs criteria and validation''),
     plan_check (\<not> set (tk_dependencies t) \<subseteq> set ids)
       (''task '' @ tk_task_id t @ '' has an unknown dependency'')]"

text \<open>One entry of \<open>dependencies\<close>; looking an unhashable value up in the set is a \<open>TypeError\<close>.\<close>

definition known_id :: "string list \<Rightarrow> json \<Rightarrow> bool" where
  "known_id ids v = (v \<in> set (map JStr ids))"

definition validate_dependency :: "string list \<Rightarrow> (string \<times> json) list \<Rightarrow> unit res" where
  "validate_dependency ids d =
     (case (map_of d ''task_id'', map_of d ''depends_on'', set (map fst d) = {''task_id'', ''depends_on''}) of
        (Some a, Some b, True) \<Rightarrow>
          if \<not> hashable a then raise TypeError ''unhashable type''
          else if \<not> known_id ids a then raise PlanValidationError ''dependencies reference unknown tasks''
          else if \<not> hashable b then raise TypeError ''unhashable type''
          else plan_check (\<not> known_id ids b) ''dependencies reference unknown tasks''
      | _ \<Rightarrow> raise PlanValidationError ''dependencies must contain task_id and depends_on'')"

definition dep_from :: "(string \<times> json) list \<Rightarrow> string" where
  "dep_from d = (case map_of d ''task_id'' of Some (JStr x) \<Rightarrow> x | _ \<Rightarrow> [])"

definition dep_on :: "(string \<times> json) list \<Rightarrow> string" where
  "dep_on d = (case map_of d ''depends_on'' of Some (JStr x) \<Rightarrow> x | _ \<Rightarrow> [])"

definition task_ids :: "execution_plan \<Rightarrow> string list" where
  "task_ids p = map tk_task_id (ep_tasks p)"

text \<open>What the plan makes a task depend on: its own list, then the edges that name it\<close>

definition task_needs :: "execution_plan \<Rightarrow> task \<Rightarrow> string list" where
  "task_needs p t = tk_dependencies t @
     map dep_on (filter (\<lambda>d. dep_from d = tk_task_id t) (ep_dependencies p))"

definition plan_edges :: "execution_plan \<Rightarrow> edges" where
  "plan_edges p = map (\<lambda>t. (tk_task_id t, task_needs p t)) (ep_tasks p)"

definition plan_header :: "(string \<Rightarrow> bool) \<Rightarrow> (string \<Rightarrow> string) \<Rightarrow> execution_plan \<Rightarrow> unit res" where
  "plan_header bracket_ok as_uri p = steps [
     plan_check (ep_schema_version p \<noteq> ''1.0'') ''schema_version must be 1.0'',
     for_each (\<lambda>(n, v). plan_check (blank v) (n @ '' is required''))
       [(''plan_id'', ep_plan_id p), (''created_at'', ep_created_at p), (''goal'', ep_goal p)],
     plan_check (case ep_objective_id p of None \<Rightarrow> False | Some w \<Rightarrow> \<not> id_match ''objective-'' w) ''objective_id is invalid'',
     plan_check (list_ex (\<lambda>r. \<not> plan_requirement_ref r) (ep_requirement_refs p))
       ''requirement_refs contain an invalid reference'',
     plan_check (\<not> distinct (ep_requirement_refs p)) ''requirement_refs must be unique'',
     plan_check (ep_requirement_refs p \<noteq> [] \<and> ep_objective_id p = None) ''requirement_refs require objective_id'',
     plan_check (\<not> (truthy (rc_root (ep_repository p)) \<and> truthy (rc_branch (ep_repository p)) \<and>
         truthy (rc_origin (ep_repository p)) \<and> truthy (rc_head_sha (ep_repository p))))
       ''repository context is incomplete'',
     (case the_str (rc_origin (ep_repository p)) of
        None \<Rightarrow> raise PlanValidationError ''repository origin is invalid''
      | Some w \<Rightarrow> and_then (replace_exc (\<lambda>k. k = RemoteIdentityError) PlanValidationError ''repository origin is invalid''
          (canonical_remote_identity bracket_ok as_uri w)) (\<lambda>_. Inr ())),
     plan_check (\<not> is_dict (ep_scope p) \<or> \<not> is_dict (ep_architecture_impact p))
       ''scope and architecture_impact must be objects'']"

definition plan_outcome :: "execution_plan \<Rightarrow> unit res" where
  "plan_outcome p = (case ep_status p of
     Plan_READY \<Rightarrow> steps [
       plan_check (ep_tasks p = []) ''READY plans require at least one task'',
       plan_check (truthy (ep_human_intervention p)) ''READY plans cannot contain unresolved human intervention'']
   | Plan_NO_JUSTIFIED_WORK \<Rightarrow> steps [
       plan_check (ep_tasks p \<noteq> [] \<or> truthy (ep_human_intervention p) \<or> ep_dependencies p \<noteq> [] \<or>
           ep_parallel_groups p \<noteq> [])
         ''no-work plan contains executable work or blockers'',
       plan_check (field ''planning_outcome'' (ep_architecture_impact p) \<noteq> Some (JStr ''NO_JUSTIFIED_WORK'') \<or>
           \<not> truthy (field_or JNull ''assessment_hash'' (ep_scope p)))
         ''no-work plans require bound assessment evidence'']
   | _ \<Rightarrow> Inr ())"

definition plan_cycle :: exc where
  "plan_cycle = Exc PlanValidationError ''task dependencies contain a cycle''"

definition plan_validate :: "(string \<Rightarrow> bool) \<Rightarrow> (string \<Rightarrow> string) \<Rightarrow> execution_plan \<Rightarrow> unit res" where
  "plan_validate bracket_ok as_uri p = steps [
     plan_header bracket_ok as_uri p,
     plan_check (\<not> distinct (task_ids p)) ''task_id values must be unique'',
     for_each (\<lambda>t. steps [
         validate_task (task_ids p) t,
         plan_check (\<not> set (tk_requirement_refs t) \<subseteq> set (ep_requirement_refs p))
           (''task '' @ tk_task_id t @ '' references requirements outside the plan'')]) (ep_tasks p),
     plan_outcome p,
     for_each (\<lambda>g. plan_check (g = [] \<or> \<not> set g \<subseteq> set (task_ids p))
       ''parallel_groups reference unknown or empty tasks'') (ep_parallel_groups p),
     for_each (validate_dependency (task_ids p)) (ep_dependencies p),
     validate_acyclic plan_cycle (plan_edges p) (task_ids p)]"

subsection \<open>The JSON form\<close>

definition repository_to_dict :: "repository_context \<Rightarrow> json" where
  "repository_to_dict r = JObj [(''root'', rc_root r), (''branch'', rc_branch r), (''origin'', rc_origin r),
     (''clean'', rc_clean r), (''head_sha'', rc_head_sha r)]"

definition task_to_dict :: "task \<Rightarrow> json" where
  "task_to_dict t = JObj [
     (''task_id'', JStr (tk_task_id t)),
     (''title'', JStr (tk_title t)),
     (''objective'', JStr (tk_objective t)),
     (''allowed_paths'', tk_allowed_paths t),
     (''dependencies'', enc_strs (tk_dependencies t)),
     (''acceptance_criteria'', tk_acceptance_criteria t),
     (''validation_commands'', tk_validation_commands t),
     (''risk_level'', JStr (tk_risk_level t)),
     (''assigned_role'', JStr (tk_assigned_role t)),
     (''status'', JStr (plan_status_value (tk_status t))),
     (''requirement_refs'', enc_strs (tk_requirement_refs t))]"

definition plan_to_dict :: "execution_plan \<Rightarrow> json" where
  "plan_to_dict p = JObj [
     (''schema_version'', JStr (ep_schema_version p)),
     (''plan_id'', JStr (ep_plan_id p)),
     (''created_at'', JStr (ep_created_at p)),
     (''repository'', repository_to_dict (ep_repository p)),
     (''goal'', JStr (ep_goal p)),
     (''scope'', ep_scope p),
     (''assumptions'', ep_assumptions p),
     (''risks'', ep_risks p),
     (''architecture_impact'', ep_architecture_impact p),
     (''tasks'', JList (map task_to_dict (ep_tasks p))),
     (''dependencies'', JList (map JObj (ep_dependencies p))),
     (''parallel_groups'', JList (map enc_strs (ep_parallel_groups p))),
     (''required_reviews'', ep_required_reviews p),
     (''required_evidence'', ep_required_evidence p),
     (''human_intervention'', ep_human_intervention p),
     (''status'', JStr (plan_status_value (ep_status p))),
     (''objective_id'', enc_opt (ep_objective_id p)),
     (''requirement_refs'', enc_strs (ep_requirement_refs p))]"

definition plan_keys :: "string list" where
  "plan_keys = [''schema_version'', ''plan_id'', ''created_at'', ''repository'', ''goal'', ''scope'',
     ''assumptions'', ''risks'', ''architecture_impact'', ''tasks'', ''dependencies'',
     ''parallel_groups'', ''required_reviews'', ''required_evidence'', ''human_intervention'', ''status'']"

definition missing_fields :: "json \<Rightarrow> string list" where
  "missing_fields v = sort (filter (\<lambda>k. field k v = None) plan_keys)"

text \<open>\<open>RepositoryContext(**v)\<close>: exactly its five keys\<close>

definition repository_of :: "json \<Rightarrow> repository_context option" where
  "repository_of v = (if \<not> has_keys [''root'', ''branch'', ''origin'', ''clean'', ''head_sha''] v then None else do {
     a \<leftarrow> field ''root'' v; b \<leftarrow> field ''branch'' v; c \<leftarrow> field ''origin'' v; d \<leftarrow> field ''clean'' v;
     e \<leftarrow> field ''head_sha'' v;
     Some \<lparr>rc_root = a, rc_branch = b, rc_origin = c, rc_clean = d, rc_head_sha = e\<rparr>})"

definition task_keys :: "string list" where
  "task_keys = [''task_id'', ''title'', ''objective'', ''allowed_paths'', ''dependencies'',
     ''acceptance_criteria'', ''validation_commands'', ''risk_level'', ''assigned_role'', ''status'']"

text \<open>\<open>Task(**{**item, "status": PlanStatus(item["status"])})\<close>: the ten required keys, one
  optional key and no other; the fields are those of the object until \<open>task_leaves\<close> looks at them.\<close>

definition task_fields :: "json \<Rightarrow> (json \<times> plan_status) option" where
  "task_fields v = (if has_keys task_keys v \<or> has_keys (''requirement_refs'' # task_keys) v
     then do { g \<leftarrow> field ''status'' v; st \<leftarrow> plan_status_of g; Some (v, st)}
     else None)"

definition task_leaves :: "json \<times> plan_status \<Rightarrow> task option" where
  "task_leaves = (\<lambda>(v, st). do {
     a \<leftarrow> Option.bind (field ''task_id'' v) the_str;
     b \<leftarrow> Option.bind (field ''title'' v) the_str;
     c \<leftarrow> Option.bind (field ''objective'' v) the_str;
     d \<leftarrow> field ''allowed_paths'' v;
     e \<leftarrow> Option.bind (field ''dependencies'' v) str_list;
     f \<leftarrow> field ''acceptance_criteria'' v;
     g \<leftarrow> field ''validation_commands'' v;
     h \<leftarrow> Option.bind (field ''risk_level'' v) the_str;
     i \<leftarrow> Option.bind (field ''assigned_role'' v) the_str;
     j \<leftarrow> str_list (field_or (JList []) ''requirement_refs'' v);
     Some \<lparr>tk_task_id = a, tk_title = b, tk_objective = c, tk_allowed_paths = d, tk_dependencies = e,
       tk_acceptance_criteria = f, tk_validation_commands = g, tk_risk_level = h, tk_assigned_role = i,
       tk_status = st, tk_requirement_refs = j\<rparr>})"

definition plan_fields :: "json \<Rightarrow> (repository_context \<times> (json \<times> plan_status) list \<times> plan_status) option" where
  "plan_fields v = do {
     r \<leftarrow> Option.bind (field ''repository'' v) repository_of;
     e \<leftarrow> field ''tasks'' v; es \<leftarrow> tuple_of e; ts \<leftarrow> decode_all task_fields es;
     g \<leftarrow> field ''status'' v; st \<leftarrow> plan_status_of g;
     Some (r, ts, st)}"

definition plan_leaves :: "json \<Rightarrow> repository_context \<times> (json \<times> plan_status) list \<times> plan_status \<Rightarrow> execution_plan option" where
  "plan_leaves v = (\<lambda>(r, ts, st). do {
     a \<leftarrow> Option.bind (field ''schema_version'' v) the_str;
     b \<leftarrow> Option.bind (field ''plan_id'' v) the_str;
     c \<leftarrow> Option.bind (field ''created_at'' v) the_str;
     d \<leftarrow> Option.bind (field ''goal'' v) the_str;
     sc \<leftarrow> field ''scope'' v; as \<leftarrow> field ''assumptions'' v; ri \<leftarrow> field ''risks'' v;
     ai \<leftarrow> field ''architecture_impact'' v;
     ts' \<leftarrow> decode_all task_leaves ts;
     ds \<leftarrow> Option.bind (Option.bind (field ''dependencies'' v) the_list) (decode_all the_obj);
     pg \<leftarrow> Option.bind (Option.bind (field ''parallel_groups'' v) the_list) (decode_all str_list);
     rv \<leftarrow> field ''required_reviews'' v; re \<leftarrow> field ''required_evidence'' v;
     hi \<leftarrow> field ''human_intervention'' v;
     ob \<leftarrow> opt_str (field_or JNull ''objective_id'' v);
     rr \<leftarrow> str_list (field_or (JList []) ''requirement_refs'' v);
     Some \<lparr>ep_schema_version = a, ep_plan_id = b, ep_created_at = c, ep_repository = r, ep_goal = d,
       ep_scope = sc, ep_assumptions = as, ep_risks = ri, ep_architecture_impact = ai, ep_tasks = ts',
       ep_dependencies = ds, ep_parallel_groups = pg, ep_required_reviews = rv,
       ep_required_evidence = re, ep_human_intervention = hi, ep_status = st, ep_objective_id = ob,
       ep_requirement_refs = rr\<rparr>})"

definition plan_from_dict :: "(string \<Rightarrow> bool) \<Rightarrow> (string \<Rightarrow> string) \<Rightarrow> json \<Rightarrow> execution_plan res" where
  "plan_from_dict bracket_ok as_uri v =
     (if \<not> is_dict v then raise AttributeError ''keys''
      else if missing_fields v \<noteq> []
      then raise PlanValidationError (''missing plan fields: '' @ join_str '', '' (missing_fields v))
      else (case plan_fields v of
        None \<Rightarrow> raise PlanValidationError ''invalid plan structure: ''
      | Some raw \<Rightarrow> (case plan_leaves v raw of
          None \<Rightarrow> raise TypeError ''''
        | Some p \<Rightarrow> and_then (plan_validate bracket_ok as_uri p) (\<lambda>_. Inr p))))"

subsection \<open>Facts about the edges\<close>

lemma plan_edges_ids: "map fst (plan_edges p) = task_ids p"
  by (simp add: plan_edges_def task_ids_def)

lemma validate_dependency_ok:
  "validate_dependency ids d = Inr () \<longleftrightarrow> set (map fst d) = {''task_id'', ''depends_on''} \<and>
     map_of d ''task_id'' = Some (JStr (dep_from d)) \<and> map_of d ''depends_on'' = Some (JStr (dep_on d)) \<and>
     dep_from d \<in> set ids \<and> dep_on d \<in> set ids"
proof -
  have k: "known_id ids v \<longleftrightarrow> (\<exists>x\<in>set ids. v = JStr x)" for v by (auto simp: known_id_def)
  show ?thesis
    by (cases "map_of d ''task_id''"; cases "map_of d ''depends_on''";
      cases "set (map fst d) = {''task_id'', ''depends_on''}")
      (auto simp: validate_dependency_def dep_from_def dep_on_def k hashable_def split: json.splits if_splits)
qed

lemma validate_task_known: "validate_task ids t = Inr () \<Longrightarrow> set (tk_dependencies t) \<subseteq> set ids"
  by (simp add: validate_task_def steps_ok)

definition plan_wf :: "(string \<Rightarrow> bool) \<Rightarrow> (string \<Rightarrow> string) \<Rightarrow> execution_plan \<Rightarrow> bool" where
  "plan_wf b f p \<longleftrightarrow> plan_header b f p = Inr () \<and> plan_outcome p = Inr () \<and> distinct (task_ids p) \<and>
     (\<forall>t\<in>set (ep_tasks p). validate_task (task_ids p) t = Inr () \<and>
        set (tk_requirement_refs t) \<subseteq> set (ep_requirement_refs p)) \<and>
     (\<forall>g\<in>set (ep_parallel_groups p). g \<noteq> [] \<and> set g \<subseteq> set (task_ids p)) \<and>
     (\<forall>d\<in>set (ep_dependencies p). validate_dependency (task_ids p) d = Inr ())"

lemma plan_validate_wf_dag:
  "plan_validate b f p = Inr () \<longleftrightarrow> plan_wf b f p \<and> validate_acyclic plan_cycle (plan_edges p) (task_ids p) = Inr ()"
  by (auto simp: plan_validate_def plan_wf_def steps_ok for_each_ok)

lemma plan_needs_known:
  assumes "plan_wf b f p" "t \<in> set (ep_tasks p)"
  shows "set (task_needs p t) \<subseteq> set (task_ids p)"
  using assms validate_task_known [of "task_ids p" t]
  by (auto simp: plan_wf_def task_needs_def validate_dependency_ok)

lemma plan_edges_closed: "plan_wf b f p \<Longrightarrow> closed_edges (plan_edges p)"
  using plan_needs_known [of b f p]
  by (auto simp: closed_edges_def plan_edges_ids list_all_iff) (auto simp: plan_edges_def)

lemma plan_edge_rel:
  assumes "distinct (task_ids p)"
  shows "edge_rel (plan_edges p) = {(tk_task_id t, d) | t d. t \<in> set (ep_tasks p) \<and> d \<in> set (task_needs p t)}"
proof -
  have "map_of (plan_edges p) x = Some ds \<longleftrightarrow> (x, ds) \<in> set (plan_edges p)" for x ds
    using assms by (intro map_of_eq_Some_iff) (simp add: plan_edges_ids)
  then show ?thesis by (auto simp: edge_rel_def plan_edges_def)
qed

lemma plan_acyclic_iff:
  assumes "plan_wf b f p"
  shows "validate_acyclic plan_cycle (plan_edges p) (task_ids p) = Inr () \<longleftrightarrow> acyclic (edge_rel (plan_edges p))"
  using plan_edges_closed [OF assms] by (intro validate_acyclic_iff) (simp_all add: plan_edges_ids)

text \<open>In an acyclic relation every set that is not exhausted has an element whose successors in
  the universe are all in the set.\<close>

lemma acyclic_next:
  assumes "finite V" "acyclic r" "x \<in> V" "x \<notin> D"
  shows "\<exists>y\<in>V. y \<notin> D \<and> (\<forall>z\<in>V. (y, z) \<in> r \<longrightarrow> z \<in> D)"
proof -
  let ?r = "r \<inter> V \<times> V"
  have "finite ?r" using assms(1) by (simp add: finite_Int)
  moreover have "acyclic ?r" using assms(2) by (rule acyclic_subset) simp
  ultimately have "wf (?r\<inverse>)" by (rule finite_acyclic_wf_converse)
  from wfE_min [OF this, of x "V - D"] assms(3,4) obtain y
    where "y \<in> V - D" "\<And>z. (z, y) \<in> ?r\<inverse> \<Longrightarrow> z \<notin> V - D" by auto
  then show ?thesis by blast
qed

subsection \<open>Properties of validation\<close>

text \<open>Validation accepts exactly the plans whose parts are valid, whose references resolve and
  whose tasks, with the edges of both places, do not depend on each other in a cycle.\<close>

theorem plan_validate_iff:
  "plan_validate b f p = Inr () \<longleftrightarrow>
     plan_header b f p = Inr () \<and> plan_outcome p = Inr () \<and> distinct (task_ids p) \<and>
     list_all (\<lambda>t. validate_task (task_ids p) t = Inr () \<and>
       set (tk_requirement_refs t) \<subseteq> set (ep_requirement_refs p)) (ep_tasks p) \<and>
     list_all (\<lambda>g. g \<noteq> [] \<and> set g \<subseteq> set (task_ids p)) (ep_parallel_groups p) \<and>
     list_all (\<lambda>d. set (map fst d) = {''task_id'', ''depends_on''} \<and>
       map_of d ''task_id'' = Some (JStr (dep_from d)) \<and> map_of d ''depends_on'' = Some (JStr (dep_on d)) \<and>
       dep_from d \<in> set (task_ids p) \<and> dep_on d \<in> set (task_ids p)) (ep_dependencies p) \<and>
     acyclic ({(tk_task_id t, d) | t d. t \<in> set (ep_tasks p) \<and> d \<in> set (tk_dependencies t)} \<union>
       {(tk_task_id t, dep_on d) | t d. t \<in> set (ep_tasks p) \<and> d \<in> set (ep_dependencies p) \<and> dep_from d = tk_task_id t})"
proof -
  have "{(tk_task_id t, d) | t d. t \<in> set (ep_tasks p) \<and> d \<in> set (task_needs p t)} =
      {(tk_task_id t, d) | t d. t \<in> set (ep_tasks p) \<and> d \<in> set (tk_dependencies t)} \<union>
      {(tk_task_id t, dep_on d) | t d. t \<in> set (ep_tasks p) \<and> d \<in> set (ep_dependencies p) \<and> dep_from d = tk_task_id t}"
    by (auto simp: task_needs_def)
  moreover have "plan_validate b f p = Inr () \<longleftrightarrow> plan_wf b f p \<and> acyclic (edge_rel (plan_edges p))"
    using plan_acyclic_iff by (auto simp: plan_validate_wf_dag)
  ultimately show ?thesis using plan_edge_rel [of p]
    by (auto simp: plan_wf_def list_all_iff validate_dependency_ok)
qed

text \<open>C32. Work on a validated plan cannot get stuck: while some task is not done, a task that is
  not done has everything it depends on done.\<close>

theorem plan_progress:
  assumes "plan_validate b f p = Inr ()" and "u \<in> set (ep_tasks p)" and "tk_task_id u \<notin> D"
  shows "\<exists>t. t \<in> set (ep_tasks p) \<and> tk_task_id t \<notin> D \<and> set (tk_dependencies t) \<subseteq> D \<and>
    dep_on ` {d \<in> set (ep_dependencies p). dep_from d = tk_task_id t} \<subseteq> D"
proof -
  have wf: "plan_wf b f p" and ac: "acyclic (edge_rel (plan_edges p))"
    using assms(1) plan_acyclic_iff by (auto simp: plan_validate_wf_dag)
  have "tk_task_id u \<in> set (task_ids p)" using assms(2) by (simp add: task_ids_def)
  from acyclic_next [OF _ ac this assms(3)] obtain y
    where y: "y \<in> set (task_ids p)" "y \<notin> D" "\<And>z. z \<in> set (task_ids p) \<Longrightarrow> (y, z) \<in> edge_rel (plan_edges p) \<Longrightarrow> z \<in> D"
    by auto
  from y(1) obtain t where t: "t \<in> set (ep_tasks p)" "tk_task_id t = y" by (auto simp: task_ids_def)
  have "distinct (task_ids p)" using wf by (simp add: plan_wf_def)
  then have "(y, z) \<in> edge_rel (plan_edges p)" if "z \<in> set (task_needs p t)" for z
    using t that by (auto simp: plan_edge_rel)
  then have "set (task_needs p t) \<subseteq> D" using y(3) plan_needs_known [OF wf t(1)] by blast
  then have "set (tk_dependencies t) \<subseteq> D" "dep_on ` {d \<in> set (ep_dependencies p). dep_from d = tk_task_id t} \<subseteq> D"
    by (auto simp: task_needs_def)
  with t y show ?thesis by blast
qed

subsection \<open>Reading back\<close>

lemma plan_status_of_value [simp]: "plan_status_of (JStr (plan_status_value s)) = Some s"
  by (cases s) (simp_all add: plan_status_of_def)

lemma repository_roundtrip: "repository_of (repository_to_dict r) = Some r"
  by (simp add: repository_of_def repository_to_dict_def has_keys_def field_def)

lemma task_has_keys: "has_keys (''requirement_refs'' # task_keys) (task_to_dict t)"
  by (simp add: has_keys_def task_keys_def task_to_dict_def insert_commute)

lemma task_roundtrip: "Option.bind (task_fields (task_to_dict t)) task_leaves = Some t"
  by (simp add: task_fields_def task_has_keys) (simp add: task_leaves_def task_to_dict_def field_def field_or_def)

lemma plan_missing: "missing_fields (plan_to_dict p) = []"
  by (simp add: missing_fields_def plan_keys_def plan_to_dict_def field_def)

lemma plan_fields_enc:
  assumes "decode_all task_fields (map task_to_dict (ep_tasks p)) = Some ts"
  shows "plan_fields (plan_to_dict p) = Some (ep_repository p, ts, ep_status p)"
proof -
  have "field ''repository'' (plan_to_dict p) = Some (repository_to_dict (ep_repository p))"
    "field ''tasks'' (plan_to_dict p) = Some (JList (map task_to_dict (ep_tasks p)))"
    "field ''status'' (plan_to_dict p) = Some (JStr (plan_status_value (ep_status p)))"
    by (simp_all add: plan_to_dict_def field_def)
  then show ?thesis using assms by (simp add: plan_fields_def repository_roundtrip tuple_of_def)
qed

lemma plan_leaves_enc:
  assumes "decode_all task_leaves ts = Some (ep_tasks p)"
  shows "plan_leaves (plan_to_dict p) (ep_repository p, ts, ep_status p) = Some p"
  using assms by (simp add: plan_leaves_def) (simp add: plan_to_dict_def field_def field_or_def)

text \<open>Printing a plan and reading it back gives the same plan when it is valid, and the
  exception of its validation when it is not.\<close>

theorem plan_roundtrip:
  "plan_from_dict b f (plan_to_dict p) = and_then (plan_validate b f p) (\<lambda>_. Inr p)"
proof -
  obtain ts where "decode_all task_fields (map task_to_dict (ep_tasks p)) = Some ts"
    "decode_all task_leaves ts = Some (ep_tasks p)"
    using decode_all_two_stages [of task_fields task_to_dict task_leaves, OF task_roundtrip] by blast
  moreover have "is_dict (plan_to_dict p)" by (simp add: is_dict_def plan_to_dict_def)
  ultimately show ?thesis
    by (simp add: plan_from_dict_def plan_missing plan_fields_enc plan_leaves_enc)
qed

subsection \<open>A plan\<close>

definition sample_task :: "string \<Rightarrow> string list \<Rightarrow> task" where
  "sample_task i ds = \<lparr>tk_task_id = i, tk_title = ''Title'', tk_objective = ''Objective'',
     tk_allowed_paths = enc_strs [''src''], tk_dependencies = ds, tk_acceptance_criteria = enc_strs [''done''],
     tk_validation_commands = enc_strs [''make''], tk_risk_level = ''LOW'', tk_assigned_role = ''Implementer'',
     tk_status = Plan_READY, tk_requirement_refs = []\<rparr>"

definition sample_plan :: execution_plan where
  "sample_plan = \<lparr>ep_schema_version = ''1.0'', ep_plan_id = ''plan-1'', ep_created_at = ''today'',
     ep_repository = \<lparr>rc_root = JStr ''/r'', rc_branch = JStr ''main'', rc_origin = JStr ''https://example.org/t/r'',
       rc_clean = JBool True, rc_head_sha = JStr ''abc''\<rparr>,
     ep_goal = ''Goal'', ep_scope = JObj [], ep_assumptions = JList [], ep_risks = JList [],
     ep_architecture_impact = JObj [], ep_tasks = [sample_task ''a'' [''b''], sample_task ''b'' [], sample_task ''c'' []],
     ep_dependencies = [[(''task_id'', JStr ''c''), (''depends_on'', JStr ''a'')]],
     ep_parallel_groups = [[''b'']], ep_required_reviews = JList [], ep_required_evidence = JList [],
     ep_human_intervention = JList [], ep_status = Plan_READY, ep_objective_id = None, ep_requirement_refs = []\<rparr>"

lemma sample_plan_valid: "plan_validate (\<lambda>_. True) (\<lambda>p. ''file://'' @ p) sample_plan = Inr ()"
  by code_simp

theorem plan_progress_witness:
  "\<exists>t. t \<in> set (ep_tasks sample_plan) \<and> tk_task_id t \<notin> {''b''} \<and> set (tk_dependencies t) \<subseteq> {''b''} \<and>
    dep_on ` {d \<in> set (ep_dependencies sample_plan). dep_from d = tk_task_id t} \<subseteq> {''b''}"
  by (rule plan_progress [OF sample_plan_valid, of "sample_task ''c'' []"]) (simp_all add: sample_plan_def sample_task_def)

end
