(* ===== verification/Timestamps.thy ===== *)
theory Timestamps
  imports Prelude
begin

section \<open>Timestamps\<close>

text \<open>
  \<open>datetime.strptime(value, "%Y-%m-%dT%H:%M:%SZ")\<close> of the standard library. An instant is the list
  of year, month, day, hour, minute and second; \<open>datetime\<close> compares them in this order, as lists
  are compared here. The directives read one or two digits (\<open>%d\<close> also a space and a digit), the
  letters of the format match in either case; sixty seconds pass the pattern but no \<open>datetime\<close> has
  them. \<open>None\<close> is the \<open>ValueError\<close>.
\<close>

type_synonym instant = "nat list"

definition leap_year :: "nat \<Rightarrow> bool" where
  "leap_year y = (y mod 4 = 0 \<and> (y mod 100 \<noteq> 0 \<or> y mod 400 = 0))"

definition days_in_month :: "nat \<Rightarrow> nat \<Rightarrow> nat" where
  "days_in_month y m = (if m = 2 then (if leap_year y then 29 else 28)
     else if m \<in> {4, 6, 9, 11} then 30 else 31)"

definition valid_instant :: "instant \<Rightarrow> bool" where
  "valid_instant t = (case t of
     [y, mo, d, h, mi, s] \<Rightarrow> 1 \<le> y \<and> 1 \<le> mo \<and> mo \<le> 12 \<and> 1 \<le> d \<and> d \<le> days_in_month y mo \<and> h \<le> 23 \<and> mi \<le> 59 \<and> s \<le> 59
   | _ \<Rightarrow> False)"

definition short_number :: "string \<Rightarrow> bool" where
  "short_number s = (s \<noteq> [] \<and> length s \<le> 2 \<and> list_all is_digit s)"

definition day_number :: "string \<Rightarrow> bool" where
  "day_number s = (short_number s \<or> (case s of [a, b] \<Rightarrow> a = CHR '' '' \<and> is_digit b | _ \<Rightarrow> False))"

text \<open>The text cut into its six fields\<close>

definition time_texts :: "string \<Rightarrow> string list option" where
  "time_texts s =
     (if s = [] \<or> last s \<notin> {CHR ''Z'', CHR ''z''} then None
      else (let v = butlast s; t = (\<lambda>c. c \<noteq> CHR ''T'' \<and> c \<noteq> CHR ''t'');
                ds = split_on (CHR ''-'') (takeWhile t v); ts = split_on (CHR '':'') (drop 1 (dropWhile t v))
            in if list_all t v then None
               else (case (ds, ts) of ([y, mo, d], [h, mi, sec]) \<Rightarrow> Some [y, mo, d, h, mi, sec] | _ \<Rightarrow> None)))"

definition strptime :: "string \<Rightarrow> instant option" where
  "strptime s = (case time_texts s of
     Some [y, mo, d, h, mi, sec] \<Rightarrow>
       if length y = 4 \<and> list_all is_digit y \<and> short_number mo \<and> day_number d \<and> short_number h \<and>
          short_number mi \<and> short_number sec
       then (let t = map digits_value [y, mo, (if hd d = CHR '' '' then tl d else d), h, mi, sec] in
         if valid_instant t then Some t else None)
       else None
   | _ \<Rightarrow> None)"

subsection \<open>Clocks\<close>

text \<open>\<open>strftime\<close> with the same format; the year is not padded.\<close>

definition pad2 :: "nat \<Rightarrow> string" where
  "pad2 n = (if n < 10 then CHR ''0'' # show_nat n else show_nat n)"

definition show_time :: "instant \<Rightarrow> string" where
  "show_time t = (case t of
     [y, mo, d, h, mi, s] \<Rightarrow> show_nat y @ ''-'' @ pad2 mo @ ''-'' @ pad2 d @ ''T'' @ pad2 h @ '':'' @ pad2 mi @ '':'' @ pad2 s @ ''Z''
   | _ \<Rightarrow> [])"

text \<open>\<open>t + timedelta(seconds=n)\<close> in UTC: \<open>n\<close> times the next second\<close>

definition next_second :: "instant \<Rightarrow> instant" where
  "next_second t = (case t of
     [y, mo, d, h, mi, s] \<Rightarrow>
       if s < 59 then [y, mo, d, h, mi, s + 1]
       else if mi < 59 then [y, mo, d, h, mi + 1, 0]
       else if h < 23 then [y, mo, d, h + 1, 0, 0]
       else if d < days_in_month y mo then [y, mo, d + 1, 0, 0, 0]
       else if mo < 12 then [y, mo + 1, 1, 0, 0, 0]
       else [y + 1, 1, 1, 0, 0, 0]
   | _ \<Rightarrow> t)"

definition later_by :: "nat \<Rightarrow> instant \<Rightarrow> instant" where
  "later_by n t = (next_second ^^ n) t"

text \<open>Instants of a clock that can be written with four digits for the year, and their
  successors for a while\<close>

definition clock_time :: "instant \<Rightarrow> bool" where
  "clock_time t \<longleftrightarrow> valid_instant t \<and> 1000 \<le> hd t \<and> hd t \<le> 5000"

lemma valid_instantE:
  assumes "valid_instant t"
  obtains y mo d h mi s where "t = [y, mo, d, h, mi, s]" "1 \<le> y" "1 \<le> mo" "mo \<le> 12" "1 \<le> d" "d \<le> days_in_month y mo"
    "h \<le> 23" "mi \<le> 59" "s \<le> 59"
  using assms by (auto simp: valid_instant_def split: list.splits)

lemma days_in_month_bounds: "1 \<le> days_in_month y m" "days_in_month y m \<le> 31"
  by (auto simp: days_in_month_def)

lemma next_second_valid: "valid_instant t \<Longrightarrow> valid_instant (next_second t)"
  by (erule valid_instantE) (auto simp: next_second_def valid_instant_def days_in_month_bounds(1) [simplified])

lemma next_second_greater: "valid_instant t \<Longrightarrow> t < next_second t"
  by (erule valid_instantE) (auto simp: next_second_def)

lemma next_second_year: "valid_instant t \<Longrightarrow> hd t \<le> hd (next_second t) \<and> hd (next_second t) \<le> Suc (hd t)"
  by (erule valid_instantE) (auto simp: next_second_def)

lemma later_by_valid: "valid_instant t \<Longrightarrow> valid_instant (later_by n t)"
  by (induction n) (simp_all add: later_by_def next_second_valid)

lemma later_by_greater: "valid_instant t \<Longrightarrow> 0 < n \<Longrightarrow> t < later_by n t"
proof (induction n)
  case (Suc n)
  have "later_by n t < later_by (Suc n) t"
    using next_second_greater [OF later_by_valid [OF Suc.prems(1), of n]] by (simp add: later_by_def)
  with Suc show ?case by (cases n) (auto simp: later_by_def intro: order_less_trans)
qed simp

lemma later_by_year: "valid_instant t \<Longrightarrow> hd t \<le> hd (later_by n t) \<and> hd (later_by n t) \<le> hd t + n"
proof (induction n)
  case (Suc n)
  then show ?case using next_second_year [OF later_by_valid [OF Suc.prems, of n]] by (simp add: later_by_def)
qed (simp add: later_by_def)

text \<open>What is shown is read back.\<close>

lemma pad2_digits:
  assumes "n < 60"
  shows "short_number (pad2 n)" "digits_value (pad2 n) = n" "pad2 n \<noteq> []" "list_all is_digit (pad2 n)"
proof -
  have l: "length (show_nat n) \<le> (if n < 10 then 1 else 2)"
    using length_show_nat [of n 0] length_show_nat [of n 1] assms by simp
  have z: "is_digit (CHR ''0'')" by (simp add: is_digit_def)
  have "digits_value (CHR ''0'' # ds) = digits_value ds" for ds by (simp add: digits_value_def)
  then show "digits_value (pad2 n) = n" by (simp add: pad2_def digits_value_show)
  show ne: "pad2 n \<noteq> []" using show_nat_Cons [of n] by (auto simp: pad2_def)
  show "list_all is_digit (pad2 n)" using show_nat_digits [of n] z by (simp add: pad2_def)
  then show "short_number (pad2 n)" using l ne by (auto simp: short_number_def pad2_def split: if_splits)
qed

lemma digits_not:
  "list_all is_digit s \<Longrightarrow> CHR ''-'' \<notin> set s \<and> CHR '':'' \<notin> set s \<and> CHR ''T'' \<notin> set s \<and> CHR ''t'' \<notin> set s \<and> CHR '' '' \<notin> set s"
  by (auto simp: list_all_iff is_digit_def Let_def)

lemma strptime_show:
  assumes "valid_instant t" "1000 \<le> hd t" "hd t \<le> 9999"
  shows "strptime (show_time t) = Some t"
proof -
  from assms(1) obtain y mo d h mi s where t: "t = [y, mo, d, h, mi, s]"
    and v: "mo \<le> 12" "d \<le> days_in_month y mo" "h \<le> 23" "mi \<le> 59" "s \<le> 59"
    by (elim valid_instantE) simp
  have b: "mo < 60" "d < 60" "h < 60" "mi < 60" "s < 60"
    using v days_in_month_bounds(2) [of y mo] by linarith+
  have y: "1000 \<le> y" "y \<le> 9999" using assms(2,3) by (simp_all add: t)
  have ly: "length (show_nat y) = 4"
  proof -
    have "\<exists>z. y = 10 * z + y mod 10 \<and> 100 \<le> z" using y by (intro exI [of _ "y div 10"]) simp
    moreover have "length (show_nat n) = Suc (length (show_nat (n div 10)))" if "10 \<le> n" for n
      using that by (subst show_nat.simps) simp
    moreover have "length (show_nat n) = 1" if "n < 10" for n using that by (subst show_nat.simps) simp
    ultimately show ?thesis using y
      by (simp add: div_mult2_eq [symmetric])
  qed
  note nd = digits_not [OF show_nat_digits [of y]] digits_not [OF pad2_digits(4) [OF b(1)]] digits_not [OF pad2_digits(4) [OF b(2)]]
    digits_not [OF pad2_digits(4) [OF b(3)]] digits_not [OF pad2_digits(4) [OF b(4)]] digits_not [OF pad2_digits(4) [OF b(5)]]
  let ?date = "show_nat y @ CHR ''-'' # pad2 mo @ CHR ''-'' # pad2 d"
  let ?time = "pad2 h @ CHR '':'' # pad2 mi @ CHR '':'' # pad2 s"
  have st: "show_time t = ?date @ CHR ''T'' # ?time @ ''Z''" by (simp add: show_time_def t)
  have bl: "butlast (show_time t) = ?date @ CHR ''T'' # ?time" "last (show_time t) = CHR ''Z''" "show_time t \<noteq> []"
    unfolding st by (simp_all add: butlast_append)
  let ?P = "\<lambda>c. c \<noteq> CHR ''T'' \<and> c \<noteq> CHR ''t''"
  have dt: "\<And>c. c \<in> set ?date \<Longrightarrow> ?P c" using nd by auto
  have tw: "takeWhile ?P (?date @ CHR ''T'' # ?time) = ?date" "dropWhile ?P (?date @ CHR ''T'' # ?time) = CHR ''T'' # ?time"
    using dt takeWhile_append2 [of ?date ?P "CHR ''T'' # ?time"] dropWhile_append2 [of ?date ?P "CHR ''T'' # ?time"] by simp_all
  have sp: "split_on (CHR ''-'') ?date = [show_nat y, pad2 mo, pad2 d]" "split_on (CHR '':'') ?time = [pad2 h, pad2 mi, pad2 s]"
    using nd by (simp_all add: split_on_append_sep split_on_plain)
  have tt: "time_texts (show_time t) = Some [show_nat y, pad2 mo, pad2 d, pad2 h, pad2 mi, pad2 s]"
    unfolding time_texts_def Let_def bl tw using bl(3) by (simp add: sp)
  have hd: "hd (pad2 d) \<noteq> CHR '' ''" using nd(3) pad2_digits(3) [OF b(2)] hd_in_set by metis
  show ?thesis using assms(1) hd ly show_nat_digits [of y] pad2_digits [OF b(1)] pad2_digits [OF b(2)] pad2_digits [OF b(3)]
      pad2_digits [OF b(4)] pad2_digits [OF b(5)]
    unfolding strptime_def tt by (simp add: digits_value_show day_number_def Let_def t)
qed

end
