(* ===== verification/CapabilityProfile.thy ===== *)
theory CapabilityProfile
  imports CanonicalJson Timestamps "HOL-Library.Monad_Syntax"
begin

section \<open>Capability profiles (capability_profiles.py)\<close>

text \<open>
  The attributable record of what a provider was observed to support, with its validator, its
  content hash, its expiry and the registry of a project. \<open>H\<close> is the hexadecimal SHA-256 of a text
  in UTF-8. Instants are those of \<open>Timestamps\<close>.
\<close>

datatype capability_status = Cap_SUPPORTED | Cap_UNSUPPORTED | Cap_UNKNOWN

fun capability_status_value :: "capability_status \<Rightarrow> string" where
  "capability_status_value Cap_SUPPORTED = ''SUPPORTED''"
| "capability_status_value Cap_UNSUPPORTED = ''UNSUPPORTED''"
| "capability_status_value Cap_UNKNOWN = ''UNKNOWN''"

definition capability_status_of :: "json \<Rightarrow> capability_status option" where
  "capability_status_of v = map_of (map (\<lambda>s. (JStr (capability_status_value s), s))
     [Cap_SUPPORTED, Cap_UNSUPPORTED, Cap_UNKNOWN]) v"

record capability_observation =
  co_name :: string
  co_status :: capability_status
  co_value :: "string option"

record capability_profile =
  cp_schema_version :: string
  cp_profile_id :: string
  cp_project_id :: string
  cp_provider_id :: string
  cp_profile_version :: int
  cp_provenance_source :: string
  cp_provenance_sha256 :: string
  cp_observed_at :: string
  cp_expires_at :: "string option"
  cp_capabilities :: "capability_observation list"
  cp_profile_sha256 :: string

definition observation_to_dict :: "capability_observation \<Rightarrow> json" where
  "observation_to_dict o' = JObj [(''name'', JStr (co_name o')),
     (''status'', JStr (capability_status_value (co_status o'))), (''value'', enc_opt (co_value o'))]"

definition profile_to_dict :: "capability_profile \<Rightarrow> json" where
  "profile_to_dict p = JObj [
     (''schema_version'', JStr (cp_schema_version p)),
     (''profile_id'', JStr (cp_profile_id p)),
     (''project_id'', JStr (cp_project_id p)),
     (''provider_id'', JStr (cp_provider_id p)),
     (''profile_version'', JInt (cp_profile_version p)),
     (''provenance_source'', JStr (cp_provenance_source p)),
     (''provenance_sha256'', JStr (cp_provenance_sha256 p)),
     (''observed_at'', JStr (cp_observed_at p)),
     (''expires_at'', enc_opt (cp_expires_at p)),
     (''capabilities'', JList (map observation_to_dict (cp_capabilities p))),
     (''profile_sha256'', JStr (cp_profile_sha256 p))]"

subsection \<open>Validation\<close>

abbreviation cap_check :: "bool \<Rightarrow> string \<Rightarrow> unit res" where
  "cap_check b m \<equiv> raise_if b CapabilityProfileError m"

abbreviation cap_error :: "string \<Rightarrow> 'a res" where
  "cap_error m \<equiv> raise CapabilityProfileError m"

definition cap_text :: "string \<Rightarrow> string \<Rightarrow> unit res" where
  "cap_text label v = steps [
     cap_check (blank v \<or> length v > 4000) (label @ '' is invalid''),
     cap_check (secret_or_token v) (label @ '' contains secret-shaped data'')]"

text \<open>\<open>^[a-z0-9][a-z0-9-]{0,79}$\<close> and the same after \<open>project-\<close>\<close>

definition cap_id :: "string \<Rightarrow> bool" where
  "cap_id = id_match []"

definition cap_project_id :: "string \<Rightarrow> bool" where
  "cap_project_id = id_match ''project-''"

definition observation_validate :: "capability_observation \<Rightarrow> unit res" where
  "observation_validate o' = steps [
     cap_text ''capability name'' (co_name o'),
     (case co_value o' of None \<Rightarrow> Inr () | Some v \<Rightarrow> cap_text ''capability value'' v)]"

text \<open>The loop over the capabilities, with the set of names seen\<close>

fun check_capabilities :: "string list \<Rightarrow> capability_observation list \<Rightarrow> unit res" where
  "check_capabilities names [] = Inr ()"
| "check_capabilities names (c # cs) = and_then (observation_validate c) (\<lambda>_.
     if co_name c \<in> set names then cap_error ''capability names must be unique''
     else check_capabilities (co_name c # names) cs)"

definition cap_timestamp :: "string \<Rightarrow> instant res" where
  "cap_timestamp v = (case strptime v of
     None \<Rightarrow> cap_error ''timestamp is not a real UTC instant'' | Some t \<Rightarrow> Inr t)"

definition capability_profile_hash :: "(string \<Rightarrow> string) \<Rightarrow> capability_profile \<Rightarrow> string" where
  "capability_profile_hash H p = H (dump (profile_to_dict (p\<lparr>cp_profile_sha256 := []\<rparr>)))"

definition check_expiry :: "capability_profile \<Rightarrow> instant \<Rightarrow> unit res" where
  "check_expiry p observed = (case cp_expires_at p of
     None \<Rightarrow> Inr ()
   | Some e \<Rightarrow> steps [
       cap_check (\<not> timestamp_match e) ''expires_at is invalid'',
       and_then (cap_timestamp e) (\<lambda>t. cap_check (t \<le> observed) ''expires_at must be after observed_at'')])"

definition profile_validate :: "(string \<Rightarrow> string) \<Rightarrow> capability_profile \<Rightarrow> unit res" where
  "profile_validate H p = steps [
     cap_check (cp_schema_version p \<noteq> ''1.0'') ''schema_version must be 1.0'',
     cap_check (\<not> cap_id (cp_profile_id p) \<or> \<not> starts_with ''profile-'' (cp_profile_id p)) ''profile_id is invalid'',
     cap_check (\<not> cap_project_id (cp_project_id p)) ''project_id is invalid'',
     cap_check (\<not> cap_id (cp_provider_id p)) ''provider_id is invalid'',
     cap_check (cp_profile_version p < 1) ''profile_version must be positive'',
     cap_text ''provenance_source'' (cp_provenance_source p),
     cap_check (\<not> sha256_match (cp_provenance_sha256 p)) ''provenance_sha256 is invalid'',
     cap_check (cp_provenance_sha256 p \<noteq> H (cp_provenance_source p)) ''provenance_sha256 does not match provenance'',
     cap_check (\<not> timestamp_match (cp_observed_at p)) ''observed_at is invalid'',
     and_then (cap_timestamp (cp_observed_at p)) (check_expiry p),
     cap_check (cp_capabilities p = []) ''capabilities must not be empty'',
     cap_check (length (cp_capabilities p) > 200) ''capabilities exceed the bound'',
     check_capabilities [] (cp_capabilities p),
     cap_check (\<not> sha256_match (cp_profile_sha256 p)) ''profile_sha256 is invalid'',
     cap_check (cp_profile_sha256 p \<noteq> capability_profile_hash H p) ''profile_sha256 does not match profile content'']"

subsection \<open>Use of a profile\<close>

definition require_supported :: "capability_profile \<Rightarrow> string \<Rightarrow> string res" where
  "require_supported p name = (case filter (\<lambda>c. co_name c = name) (cp_capabilities p) of
     [c] \<Rightarrow> if co_status c \<noteq> Cap_SUPPORTED then cap_error (''capability '' @ py_repr name @ '' is not supported'')
       else (case co_value c of
           None \<Rightarrow> cap_error (''capability '' @ py_repr name @ '' has no value'')
         | Some v \<Rightarrow> Inr v)
   | _ \<Rightarrow> cap_error (''capability '' @ py_repr name @ '' is not supported''))"

definition validate_binding :: "capability_profile \<Rightarrow> string \<Rightarrow> string \<Rightarrow> unit res" where
  "validate_binding p project provider = cap_check (cp_project_id p \<noteq> project \<or> cp_provider_id p \<noteq> provider)
     ''profile binding does not match request''"

definition is_stale :: "capability_profile \<Rightarrow> string \<Rightarrow> bool res" where
  "is_stale p now =
     (if \<not> timestamp_match now then cap_error ''now is invalid''
      else and_then (cap_timestamp now) (\<lambda>t. case cp_expires_at p of
          None \<Rightarrow> Inr False
        | Some e \<Rightarrow> and_then (cap_timestamp e) (\<lambda>u. Inr (u \<le> t))))"

definition validate_at :: "(string \<Rightarrow> string) \<Rightarrow> capability_profile \<Rightarrow> string \<Rightarrow> unit res" where
  "validate_at H p now = steps [
     profile_validate H p,
     and_then (is_stale p now) (\<lambda>b. cap_check b ''profile evidence is stale'')]"

subsection \<open>The registry of a project\<close>

record profile_registry =
  rg_project_id :: string
  rg_profiles :: "((string \<times> string) \<times> capability_profile) list"

definition open_registry :: "string \<Rightarrow> profile_registry res" where
  "open_registry project = (if \<not> cap_project_id project then cap_error ''project_id is invalid''
     else Inr \<lparr>rg_project_id = project, rg_profiles = []\<rparr>)"

definition registry_record :: "(string \<Rightarrow> string) \<Rightarrow> capability_profile \<Rightarrow> profile_registry \<Rightarrow> profile_registry res" where
  "registry_record H p r =
     and_then (validate_binding p (rg_project_id r) (cp_provider_id p)) (\<lambda>_.
     and_then (profile_validate H p) (\<lambda>_.
       let key = (cp_provider_id p, cp_profile_id p) in
       if (case map_of (rg_profiles r) key of None \<Rightarrow> False | Some q \<Rightarrow> cp_profile_version p \<le> cp_profile_version q)
       then cap_error ''profile version must advance monotonically''
       else Inr (r\<lparr>rg_profiles := dict_set key p (rg_profiles r)\<rparr>)))"

definition registry_get :: "string \<Rightarrow> string \<Rightarrow> profile_registry \<Rightarrow> capability_profile res" where
  "registry_get provider profile r = (case map_of (rg_profiles r) (provider, profile) of
     None \<Rightarrow> cap_error ''profile is not registered'' | Some p \<Rightarrow> Inr p)"

subsection \<open>The JSON form\<close>

definition profile_keys :: "string list" where
  "profile_keys = [''schema_version'', ''profile_id'', ''project_id'', ''provider_id'', ''profile_version'',
     ''provenance_source'', ''provenance_sha256'', ''observed_at'', ''expires_at'', ''capabilities'', ''profile_sha256'']"

definition observation_fields :: "json \<Rightarrow> (json \<times> capability_status \<times> json) option" where
  "observation_fields v = do {
     a \<leftarrow> field ''name'' v; b \<leftarrow> field ''status'' v; st \<leftarrow> capability_status_of b; c \<leftarrow> field ''value'' v;
     Some (a, st, c)}"

definition observation_leaves :: "json \<times> capability_status \<times> json \<Rightarrow> capability_observation option" where
  "observation_leaves = (\<lambda>(a, st, c). do {
     a' \<leftarrow> the_str a; c' \<leftarrow> opt_str c;
     Some \<lparr>co_name = a', co_status = st, co_value = c'\<rparr>})"

definition profile_fields :: "json \<Rightarrow> (json \<times> capability_status \<times> json) list option" where
  "profile_fields v = do {
     e \<leftarrow> field ''capabilities'' v; es \<leftarrow> tuple_of e; decode_all observation_fields es}"

definition profile_leaves :: "json \<Rightarrow> (json \<times> capability_status \<times> json) list \<Rightarrow> capability_profile option" where
  "profile_leaves v cs = do {
     a \<leftarrow> Option.bind (field ''schema_version'' v) the_str;
     b \<leftarrow> Option.bind (field ''profile_id'' v) the_str;
     c \<leftarrow> Option.bind (field ''project_id'' v) the_str;
     d \<leftarrow> Option.bind (field ''provider_id'' v) the_str;
     e \<leftarrow> Option.bind (field ''profile_version'' v) the_int;
     f \<leftarrow> Option.bind (field ''provenance_source'' v) the_str;
     g \<leftarrow> Option.bind (field ''provenance_sha256'' v) the_str;
     h \<leftarrow> Option.bind (field ''observed_at'' v) the_str;
     i \<leftarrow> Option.bind (field ''expires_at'' v) opt_str;
     cs' \<leftarrow> decode_all observation_leaves cs;
     j \<leftarrow> Option.bind (field ''profile_sha256'' v) the_str;
     Some \<lparr>cp_schema_version = a, cp_profile_id = b, cp_project_id = c, cp_provider_id = d, cp_profile_version = e,
       cp_provenance_source = f, cp_provenance_sha256 = g, cp_observed_at = h, cp_expires_at = i,
       cp_capabilities = cs', cp_profile_sha256 = j\<rparr>}"

text \<open>As in \<open>RoadmapCodec\<close>, a leaf of a wrong type is reported as a \<open>TypeError\<close>.\<close>

definition profile_from_dict :: "(string \<Rightarrow> string) \<Rightarrow> json \<Rightarrow> capability_profile res" where
  "profile_from_dict H v =
     (if \<not> has_keys profile_keys v
      then cap_error ''profile schema is missing or contains unknown fields''
      else (case profile_fields v of
        None \<Rightarrow> cap_error ''invalid profile structure: ''
      | Some cs \<Rightarrow> (case profile_leaves v cs of
          None \<Rightarrow> raise TypeError ''''
        | Some p \<Rightarrow> and_then (profile_validate H p) (\<lambda>_. Inr p))))"

subsection \<open>Reading back\<close>

lemma capability_status_of_value [simp]: "capability_status_of (JStr (capability_status_value s)) = Some s"
  by (cases s) (simp_all add: capability_status_of_def)

lemma observation_roundtrip: "Option.bind (observation_fields (observation_to_dict c)) observation_leaves = Some c"
  by (simp add: observation_fields_def observation_to_dict_def observation_leaves_def field_def)

lemma profile_dict_fields:
  "field ''schema_version'' (profile_to_dict p) = Some (JStr (cp_schema_version p))"
  "field ''profile_id'' (profile_to_dict p) = Some (JStr (cp_profile_id p))"
  "field ''project_id'' (profile_to_dict p) = Some (JStr (cp_project_id p))"
  "field ''provider_id'' (profile_to_dict p) = Some (JStr (cp_provider_id p))"
  "field ''profile_version'' (profile_to_dict p) = Some (JInt (cp_profile_version p))"
  "field ''provenance_source'' (profile_to_dict p) = Some (JStr (cp_provenance_source p))"
  "field ''provenance_sha256'' (profile_to_dict p) = Some (JStr (cp_provenance_sha256 p))"
  "field ''observed_at'' (profile_to_dict p) = Some (JStr (cp_observed_at p))"
  "field ''expires_at'' (profile_to_dict p) = Some (enc_opt (cp_expires_at p))"
  "field ''capabilities'' (profile_to_dict p) = Some (JList (map observation_to_dict (cp_capabilities p)))"
  "field ''profile_sha256'' (profile_to_dict p) = Some (JStr (cp_profile_sha256 p))"
  by (simp_all add: profile_to_dict_def field_def)

lemma profile_has_keys: "has_keys profile_keys (profile_to_dict p)"
  by (simp add: has_keys_def profile_keys_def profile_to_dict_def)

lemma profile_dec_enc: "profile_from_dict H (profile_to_dict p) = and_then (profile_validate H p) (\<lambda>_. Inr p)"
proof -
  obtain cs where cs: "decode_all observation_fields (map observation_to_dict (cp_capabilities p)) = Some cs"
    "decode_all observation_leaves cs = Some (cp_capabilities p)"
    using decode_all_two_stages [of observation_fields observation_to_dict observation_leaves, OF observation_roundtrip]
    by blast
  then have "profile_fields (profile_to_dict p) = Some cs"
    by (simp add: profile_fields_def profile_dict_fields tuple_of_def)
  moreover have "profile_leaves (profile_to_dict p) cs = Some p"
    using cs(2) by (simp add: profile_leaves_def profile_dict_fields)
  ultimately show ?thesis by (simp add: profile_from_dict_def profile_has_keys)
qed

lemma profile_dec_ok: "profile_from_dict H v = Inr p \<Longrightarrow> profile_validate H p = Inr ()"
  by (auto simp: profile_from_dict_def and_then_ok split: if_splits option.splits)

subsection \<open>Facts\<close>

lemma check_capabilities_ok:
  "check_capabilities ns cs = Inr () \<longleftrightarrow> list_all (\<lambda>c. observation_validate c = Inr ()) cs \<and>
     distinct (map co_name cs) \<and> set ns \<inter> co_name ` set cs = {}"
  by (induction cs arbitrary: ns) (auto simp: and_then_ok)

lemma require_supported_ok:
  assumes "distinct (map co_name (cp_capabilities p))"
  shows "require_supported p n = Inr v \<longleftrightarrow>
     \<lparr>co_name = n, co_status = Cap_SUPPORTED, co_value = Some v\<rparr> \<in> set (cp_capabilities p)"
proof -
  have one: "filter (\<lambda>c. co_name c = n) cs = [c]" if "distinct (map co_name cs)" "c \<in> set cs" "co_name c = n" for cs c
    using that by (induction cs) (auto simp: filter_empty_conv, metis image_eqI)
  show ?thesis
  proof
    assume "require_supported p n = Inr v"
    then obtain c where c: "filter (\<lambda>c. co_name c = n) (cp_capabilities p) = [c]" "co_status c = Cap_SUPPORTED" "co_value c = Some v"
      by (auto simp: require_supported_def split: list.splits option.splits if_splits)
    from c(1) have "c \<in> set (cp_capabilities p)" "co_name c = n"
      by (metis (mono_tags, lifting) filter_eq_ConsD in_set_conv_decomp)+
    moreover have "c = \<lparr>co_name = n, co_status = Cap_SUPPORTED, co_value = Some v\<rparr>" using c \<open>co_name c = n\<close> by (cases c) simp
    ultimately show "\<lparr>co_name = n, co_status = Cap_SUPPORTED, co_value = Some v\<rparr> \<in> set (cp_capabilities p)" by simp
  next
    assume "\<lparr>co_name = n, co_status = Cap_SUPPORTED, co_value = Some v\<rparr> \<in> set (cp_capabilities p)"
    from one [OF assms this] show "require_supported p n = Inr v" by (simp add: require_supported_def)
  qed
qed

lemma profile_valid_expiry:
  assumes "profile_validate H p = Inr ()" "cp_expires_at p = Some e"
  shows "\<exists>t u. strptime (cp_observed_at p) = Some t \<and> strptime e = Some u \<and> t < u"
  using assms
  by (auto simp: profile_validate_def steps_ok and_then_ok check_expiry_def cap_timestamp_def split: option.splits)

text \<open>Staleness of a valid profile at a real instant\<close>

lemma is_stale_valid:
  assumes "profile_validate H p = Inr ()"
  shows "is_stale p now = Inr b \<longleftrightarrow> timestamp_match now \<and> (\<exists>t. strptime now = Some t \<and>
     b = (case cp_expires_at p of None \<Rightarrow> False | Some e \<Rightarrow> the (strptime e) \<le> t))"
  using profile_valid_expiry [OF assms]
  by (auto simp: is_stale_def and_then_ok cap_timestamp_def split: option.splits)

lemma validate_at_ok:
  "validate_at H p now = Inr () \<longleftrightarrow> profile_validate H p = Inr () \<and> is_stale p now = Inr False"
  by (auto simp: validate_at_def steps_ok and_then_ok)

subsection \<open>Histories of a registry\<close>

text \<open>Recording a list of profiles; one that is refused changes nothing.\<close>

fun record_all :: "(string \<Rightarrow> string) \<Rightarrow> capability_profile list \<Rightarrow> profile_registry \<Rightarrow> profile_registry" where
  "record_all H [] r = r"
| "record_all H (p # ps) r = record_all H ps (case registry_record H p r of Inl _ \<Rightarrow> r | Inr r' \<Rightarrow> r')"

definition registry_ok :: "(string \<Rightarrow> string) \<Rightarrow> profile_registry \<Rightarrow> bool" where
  "registry_ok H r \<longleftrightarrow> (\<forall>k p. map_of (rg_profiles r) k = Some p \<longrightarrow>
     k = (cp_provider_id p, cp_profile_id p) \<and> cp_project_id p = rg_project_id r \<and> profile_validate H p = Inr ())"

lemma registry_record_ok:
  assumes "registry_record H p r = Inr r'"
  shows "rg_project_id r' = rg_project_id r" "cp_project_id p = rg_project_id r" "profile_validate H p = Inr ()"
    "map_of (rg_profiles r') = (map_of (rg_profiles r))((cp_provider_id p, cp_profile_id p) \<mapsto> p)"
    "\<And>q. map_of (rg_profiles r) (cp_provider_id p, cp_profile_id p) = Some q \<Longrightarrow> cp_profile_version q < cp_profile_version p"
  using assms
  by (auto simp: registry_record_def and_then_ok Let_def validate_binding_def update_conv' split: if_splits)

lemma record_all_ok:
  assumes "registry_ok H r"
  shows "registry_ok H (record_all H ps r) \<and>
    (\<forall>k p. map_of (rg_profiles r) k = Some p \<longrightarrow>
      (\<exists>q. map_of (rg_profiles (record_all H ps r)) k = Some q \<and> (q = p \<or> cp_profile_version p < cp_profile_version q)))"
  using assms
proof (induction ps arbitrary: r)
  case (Cons p ps)
  show ?case
  proof (cases "registry_record H p r")
    case (Inl e)
    with Cons show ?thesis by simp
  next
    case (Inr r')
    note r' = registry_record_ok [OF Inr]
    have "registry_ok H r'" using Cons.prems r'(1-4) by (auto simp: registry_ok_def)
    note ih = Cons.IH [OF this]
    have "\<exists>q. map_of (rg_profiles (record_all H ps r')) k = Some q \<and> (q = a \<or> cp_profile_version a < cp_profile_version q)"
      if "map_of (rg_profiles r) k = Some a" for k a
    proof (cases "k = (cp_provider_id p, cp_profile_id p)")
      case True
      then have "map_of (rg_profiles r') k = Some p" "cp_profile_version a < cp_profile_version p"
        using r'(4,5) that by auto
      with ih show ?thesis by (metis order_less_trans)
    next
      case False
      then have "map_of (rg_profiles r') k = Some a" using r'(4) that by simp
      with ih show ?thesis by blast
    qed
    with ih Inr show ?thesis by simp
  qed
qed auto

subsection \<open>A profile\<close>

definition sample_profile :: "int \<Rightarrow> capability_profile" where
  "sample_profile n = \<lparr>cp_schema_version = ''1.0'', cp_profile_id = ''profile-a'', cp_project_id = ''project-a'',
     cp_provider_id = ''provider-a'', cp_profile_version = n, cp_provenance_source = ''measured'',
     cp_provenance_sha256 = replicate 64 (CHR ''0''), cp_observed_at = ''2024-01-01T00:00:00Z'',
     cp_expires_at = Some ''2024-02-01T00:00:00Z'',
     cp_capabilities = [\<lparr>co_name = ''plan'', co_status = Cap_SUPPORTED, co_value = Some ''yes''\<rparr>],
     cp_profile_sha256 = replicate 64 (CHR ''0'')\<rparr>"

text \<open>A hash, for evaluation\<close>

definition zero_hash :: "string \<Rightarrow> string" where
  "zero_hash s = replicate 64 (CHR ''0'')"

lemma sha256_zeros: "sha256_match (replicate 64 (CHR ''0''))"
  by (simp add: sha256_match_def is_hex_def is_digit_def list_all_iff)

lemma sample_profile_parts:
  "cap_id ''profile-a'' \<and> starts_with ''profile-'' ''profile-a'' \<and> cap_project_id ''project-a'' \<and> cap_id ''provider-a'' \<and>
   cap_text ''provenance_source'' ''measured'' = Inr () \<and> timestamp_match ''2024-01-01T00:00:00Z'' \<and>
   timestamp_match ''2024-02-01T00:00:00Z'' \<and> strptime ''2024-01-01T00:00:00Z'' = Some [2024, 1, 1, 0, 0, 0] \<and>
   strptime ''2024-02-01T00:00:00Z'' = Some [2024, 2, 1, 0, 0, 0] \<and>
   check_capabilities [] [\<lparr>co_name = ''plan'', co_status = Cap_SUPPORTED, co_value = Some ''yes''\<rparr>] = Inr ()"
  by code_simp

lemma sample_profile_valid: "0 < n \<Longrightarrow> profile_validate zero_hash (sample_profile n) = Inr ()"
  using sample_profile_parts sha256_zeros
  by (simp add: profile_validate_def sample_profile_def steps_ok zero_hash_def capability_profile_hash_def
      cap_timestamp_def check_expiry_def)

lemma sample_profile_stale:
  "is_stale (sample_profile n) ''2024-01-15T00:00:00Z'' = Inr False \<and> is_stale (sample_profile n) ''2024-02-01T00:00:00Z'' = Inr True"
proof -
  have "timestamp_match ''2024-01-15T00:00:00Z'' \<and> strptime ''2024-01-15T00:00:00Z'' = Some [2024, 1, 15, 0, 0, 0]"
    by code_simp
  then show ?thesis using sample_profile_parts by (simp add: is_stale_def sample_profile_def cap_timestamp_def)
qed

subsection \<open>Properties\<close>

text \<open>However profiles are offered to a registry, every profile it holds stays valid, stays bound
  to its project and its key, and is only ever replaced by one of a higher version.\<close>

theorem registry_history_safe:
  assumes "open_registry project = Inr r0" and "map_of (rg_profiles (record_all H ps r0)) k = Some p"
  shows "k = (cp_provider_id p, cp_profile_id p) \<and> cp_project_id p = project \<and> profile_validate H p = Inr () \<and>
      (\<exists>q. map_of (rg_profiles (record_all H (ps @ qs) r0)) k = Some q \<and>
        (q = p \<or> cp_profile_version p < cp_profile_version q))"
proof -
  have app: "record_all H (ps @ qs) r = record_all H qs (record_all H ps r)" for r
    by (induction ps arbitrary: r) simp_all
  have proj: "rg_project_id (record_all H ps r) = rg_project_id r" for r
    by (induction ps arbitrary: r) (auto simp: registry_record_ok(1) split: sum.splits)
  have r0: "registry_ok H r0" "rg_project_id r0 = project"
    using assms(1) by (auto simp: open_registry_def registry_ok_def split: if_splits)
  have ok: "registry_ok H (record_all H ps r0)" using record_all_ok [OF r0(1)] by blast
  have "k = (cp_provider_id p, cp_profile_id p) \<and> cp_project_id p = project \<and> profile_validate H p = Inr ()"
    using ok assms(2) proj [of r0] r0(2) unfolding registry_ok_def by metis
  moreover have "\<exists>q. map_of (rg_profiles (record_all H (ps @ qs) r0)) k = Some q \<and> (q = p \<or> cp_profile_version p < cp_profile_version q)"
    using record_all_ok [OF ok, of qs] assms(2) unfolding app by blast
  ultimately show ?thesis by blast
qed

theorem registry_history_safe_witness:
  "map_of (rg_profiles (record_all zero_hash [sample_profile 2, sample_profile 1] \<lparr>rg_project_id = ''project-a'', rg_profiles = []\<rparr>))
     (''provider-a'', ''profile-a'') = Some (sample_profile 2) \<and>
   (\<exists>q. map_of (rg_profiles (record_all zero_hash ([sample_profile 2, sample_profile 1] @ [sample_profile 3])
        \<lparr>rg_project_id = ''project-a'', rg_profiles = []\<rparr>)) (''provider-a'', ''profile-a'') = Some q \<and>
      (q = sample_profile 2 \<or> cp_profile_version (sample_profile 2) < cp_profile_version q))"
proof -
  let ?r0 = "\<lparr>rg_project_id = ''project-a'', rg_profiles = []\<rparr>"
  have o': "open_registry ''project-a'' = Inr ?r0" using sample_profile_parts by (simp add: open_registry_def)
  have f: "cp_provider_id (sample_profile n) = ''provider-a'' \<and> cp_profile_id (sample_profile n) = ''profile-a'' \<and>
      cp_profile_version (sample_profile n) = n \<and> cp_project_id (sample_profile n) = ''project-a''" for n
    by (simp add: sample_profile_def)
  have s: "registry_record zero_hash (sample_profile 2) ?r0 =
      Inr \<lparr>rg_project_id = ''project-a'', rg_profiles = [((''provider-a'', ''profile-a''), sample_profile 2)]\<rparr>"
    by (simp add: registry_record_def validate_binding_def f sample_profile_valid raise_if_def)
  have t: "registry_record zero_hash (sample_profile 1) \<lparr>rg_project_id = ''project-a'',
      rg_profiles = [((''provider-a'', ''profile-a''), sample_profile 2)]\<rparr> = cap_error ''profile version must advance monotonically''"
    by (simp add: registry_record_def validate_binding_def f sample_profile_valid raise_if_def)
  have m: "map_of (rg_profiles (record_all zero_hash [sample_profile 2, sample_profile 1] ?r0)) (''provider-a'', ''profile-a'') = Some (sample_profile 2)"
    by (simp add: s t raise_def)
  note h = registry_history_safe [OF o' m, of "[sample_profile 3]"]
  show ?thesis by (rule conjI [OF m conjunct2 [OF conjunct2 [OF conjunct2 [OF h]]]])
qed

text \<open>Reading the printed form of a profile gives the profile back when it is valid, and the
  exception of its validation otherwise.\<close>

theorem profile_roundtrip: "profile_from_dict H (profile_to_dict p) = and_then (profile_validate H p) (\<lambda>_. Inr p)"
  by (rule profile_dec_enc)

end
