(* ===== verification/CapabilitySelection.thy ===== *)
theory CapabilitySelection
  imports CapabilityProfile "HOL-Library.Multiset"
begin

section \<open>Capability selection (capability_selection.py)\<close>

text \<open>
  The first eligible candidate under explicit gates. The tests of the source that a gate is a
  boolean or \<open>None\<close> and that a priority is an integer hold by typing. The main result gives the
  outcome of \<open>select\<close> in closed form over a direct statement of what makes a candidate acceptable.
\<close>

record selection_gates =
  gt_policy_eligible :: "bool option"
  gt_privacy_eligible :: "bool option"
  gt_independence_eligible :: "bool option"
  gt_budget_eligible :: "bool option"
  gt_health_eligible :: "bool option"
  gt_empirical_evidence_eligible :: "bool option"
  gt_allow_fallback :: bool

text \<open>\<open>SelectionGates()\<close>\<close>

definition default_gates :: selection_gates where
  "default_gates = \<lparr>gt_policy_eligible = None, gt_privacy_eligible = None, gt_independence_eligible = None,
     gt_budget_eligible = None, gt_health_eligible = None, gt_empirical_evidence_eligible = None,
     gt_allow_fallback = True\<rparr>"

definition gate_values :: "selection_gates \<Rightarrow> (string \<times> bool option) list" where
  "gate_values g = [(''policy'', gt_policy_eligible g), (''privacy'', gt_privacy_eligible g),
     (''independence'', gt_independence_eligible g), (''budget'', gt_budget_eligible g),
     (''health'', gt_health_eligible g), (''empirical_evidence'', gt_empirical_evidence_eligible g)]"

definition gates_failed :: "selection_gates \<Rightarrow> string list" where
  "gates_failed g = map (\<lambda>(n, v). if v = Some False then n else ''missing:'' @ n)
     (filter (\<lambda>(n, v). v \<noteq> Some True) (gate_values g))"

record capability_candidate =
  cc_profile :: capability_profile
  cc_priority :: int
  cc_diagnostic_only :: bool

definition candidate_validate :: "(string \<Rightarrow> string) \<Rightarrow> capability_candidate \<Rightarrow> unit res" where
  "candidate_validate H c = steps [
     profile_validate H (cc_profile c),
     raise_if (cc_priority c < 0) CapabilitySelectionError ''candidate priority must not be negative'']"

record selection_result =
  sr_provider_id :: string
  sr_profile_id :: string
  sr_fallback_used :: bool
  sr_considered_candidates :: "string list"
  sr_rejected_reasons :: "string list"

definition diagnostic_only_provider_ids :: "string list" where
  "diagnostic_only_provider_ids = [''provider-qwen'', ''qwen3.5:9b-q4_K_M'']"

abbreviation provider_of :: "capability_candidate \<Rightarrow> string" where
  "provider_of c \<equiv> cp_provider_id (cc_profile c)"

definition candidate_key :: "capability_candidate \<Rightarrow> int \<times> string \<times> string" where
  "candidate_key c = (cc_priority c, provider_of c, cp_profile_id (cc_profile c))"

definition order_candidates :: "capability_candidate list \<Rightarrow> capability_candidate list" where
  "order_candidates cs = sort_key candidate_key cs"

text \<open>The body of the \<open>try\<close>. It raises only the two exceptions the code handles
  (\<open>candidate_evidence_class\<close> below).\<close>

definition candidate_evidence :: "(string \<Rightarrow> string) \<Rightarrow> string \<Rightarrow> string \<Rightarrow> capability_candidate \<Rightarrow> unit res" where
  "candidate_evidence H project now c = steps [
     candidate_validate H c,
     validate_binding (cc_profile c) project (provider_of c),
     validate_at H (cc_profile c) now]"

definition rejection_reason ::
    "(string \<Rightarrow> string) \<Rightarrow> string \<Rightarrow> string list \<Rightarrow> string \<Rightarrow> selection_gates \<Rightarrow> capability_candidate \<Rightarrow> string option" where
  "rejection_reason H project required now gates c =
     (case candidate_evidence H project now c of
        Inl e \<Rightarrow> Some (exc_msg e)
      | Inr _ \<Rightarrow>
          if cc_diagnostic_only c \<or> provider_of c \<in> set diagnostic_only_provider_ids then Some ''diagnostic-only candidate''
          else if gates_failed gates \<noteq> [] then Some (''failed gates: '' @ join_str '','' (gates_failed gates))
          else map_option (\<lambda>n. ''required capability is not supported: '' @ n)
            (find (\<lambda>n. \<not> is_ok (require_supported (cc_profile c) n)) required))"

text \<open>One candidate of the loop, at its index; the reasons are kept in order.\<close>

type_synonym selecting = "string list \<times> (string \<times> string \<times> bool) option"

fun select_loop :: "(capability_candidate \<Rightarrow> string option) \<Rightarrow> bool \<Rightarrow> nat \<Rightarrow> capability_candidate list \<Rightarrow> selecting \<Rightarrow> selecting" where
  "select_loop reason fallback i [] st = st"
| "select_loop reason fallback i (c # cs) (rejected, selected) = select_loop reason fallback (Suc i) cs
     (case reason c of
        Some m \<Rightarrow> (rejected @ [provider_of c @ '': '' @ m], selected)
      | None \<Rightarrow>
          if 0 < i \<and> \<not> fallback then (rejected @ [provider_of c @ '': fallback is not permitted''], selected)
          else if selected = None then (rejected, Some (provider_of c, cp_profile_id (cc_profile c), 0 < i))
          else (rejected, selected))"

definition select_candidate ::
    "(string \<Rightarrow> string) \<Rightarrow> capability_candidate list \<Rightarrow> string \<Rightarrow> string list \<Rightarrow> string \<Rightarrow> selection_gates option \<Rightarrow>
     (string \<times> string) list \<Rightarrow> selection_result res" where
  "select_candidate H cs project req now gates pre =
     (let g = (case gates of None \<Rightarrow> default_gates | Some g \<Rightarrow> g);
          required = sort (remdups req);
          ordered = order_candidates cs;
          reason = (\<lambda>c. case map_of pre (provider_of c) of Some m \<Rightarrow> Some m
            | None \<Rightarrow> rejection_reason H project required now g c)
      in if required = [] then raise CapabilitySelectionError ''required_capabilities must not be empty''
         else (case select_loop reason (gt_allow_fallback g) 0 ordered ([], None) of
             (rejected, None) \<Rightarrow> raise CapabilitySelectionError (''no eligible capability candidate: '' @ join_str ''; '' rejected)
           | (rejected, Some (p, q, f)) \<Rightarrow> Inr \<lparr>sr_provider_id = p, sr_profile_id = q, sr_fallback_used = f,
               sr_considered_candidates = map provider_of ordered, sr_rejected_reasons = rejected\<rparr>))"

subsection \<open>Which candidates are acceptable\<close>

definition gates_open :: "selection_gates \<Rightarrow> bool" where
  "gates_open g \<longleftrightarrow> gt_policy_eligible g = Some True \<and> gt_privacy_eligible g = Some True \<and>
     gt_independence_eligible g = Some True \<and> gt_budget_eligible g = Some True \<and>
     gt_health_eligible g = Some True \<and> gt_empirical_evidence_eligible g = Some True"

definition fresh_evidence :: "(string \<Rightarrow> string) \<Rightarrow> string \<Rightarrow> string \<Rightarrow> capability_candidate \<Rightarrow> bool" where
  "fresh_evidence H project now c \<longleftrightarrow> profile_validate H (cc_profile c) = Inr () \<and> 0 \<le> cc_priority c \<and>
     cp_project_id (cc_profile c) = project \<and> timestamp_match now \<and> strptime now \<noteq> None \<and>
     (\<forall>e. cp_expires_at (cc_profile c) = Some e \<longrightarrow> the (strptime now) < the (strptime e))"

definition acceptable :: "(string \<Rightarrow> string) \<Rightarrow> string \<Rightarrow> string set \<Rightarrow> string \<Rightarrow> selection_gates \<Rightarrow> capability_candidate \<Rightarrow> bool" where
  "acceptable H project req now g c \<longleftrightarrow> fresh_evidence H project now c \<and>
     \<not> cc_diagnostic_only c \<and> provider_of c \<notin> set diagnostic_only_provider_ids \<and> gates_open g \<and>
     (\<forall>n\<in>req. \<exists>v. \<lparr>co_name = n, co_status = Cap_SUPPORTED, co_value = Some v\<rparr> \<in> set (cp_capabilities (cc_profile c)))"

lemma gates_failed_Nil: "gates_failed g = [] \<longleftrightarrow> gates_open g"
  by (simp add: gates_failed_def gate_values_def gates_open_def)

lemma profile_valid_names: "profile_validate H p = Inr () \<Longrightarrow> distinct (map co_name (cp_capabilities p))"
  by (simp add: profile_validate_def steps_ok check_capabilities_ok)

lemma candidate_evidence_ok:
  "candidate_evidence H project now c = Inr () \<longleftrightarrow> fresh_evidence H project now c"
proof -
  have "is_stale p now = Inr False \<longleftrightarrow> timestamp_match now \<and> strptime now \<noteq> None \<and>
      (\<forall>e. cp_expires_at p = Some e \<longrightarrow> the (strptime now) < the (strptime e))"
    if "profile_validate H p = Inr ()" for p
    by (auto simp: is_stale_valid [OF that] not_le split: option.splits)
  then show ?thesis
    by (auto simp: fresh_evidence_def candidate_evidence_def candidate_validate_def validate_binding_def validate_at_ok steps_ok)
qed

lemma rejection_reason_None:
  "rejection_reason H project required now g c = None \<longleftrightarrow> acceptable H project (set required) now g c"
proof (cases "candidate_evidence H project now c")
  case (Inl e)
  then have "candidate_evidence H project now c \<noteq> Inr ()" by simp
  then have "\<not> acceptable H project (set required) now g c"
    unfolding candidate_evidence_ok by (simp add: acceptable_def)
  then show ?thesis using Inl by (simp add: rejection_reason_def)
next
  case (Inr u)
  then have ok: "candidate_evidence H project now c = Inr ()" by simp
  then have "profile_validate H (cc_profile c) = Inr ()" by (simp add: candidate_evidence_ok fresh_evidence_def)
  note d = profile_valid_names [OF this]
  have "find (\<lambda>n. \<not> is_ok (require_supported (cc_profile c) n)) required = None \<longleftrightarrow>
      (\<forall>n\<in>set required. \<exists>v. \<lparr>co_name = n, co_status = Cap_SUPPORTED, co_value = Some v\<rparr> \<in> set (cp_capabilities (cc_profile c)))"
    by (auto simp: find_None_iff is_ok_iff require_supported_ok [OF d])
  moreover have "rejection_reason H project required now g c = None \<longleftrightarrow>
      \<not> (cc_diagnostic_only c \<or> provider_of c \<in> set diagnostic_only_provider_ids) \<and> gates_open g \<and>
      find (\<lambda>n. \<not> is_ok (require_supported (cc_profile c) n)) required = None"
    unfolding rejection_reason_def Inr sum.case gates_failed_Nil [symmetric] by simp
  ultimately show ?thesis using ok unfolding candidate_evidence_ok acceptable_def by simp
qed

text \<open>The evidence of a candidate fails only with the two exceptions that are handled.\<close>

lemma cap_raises:
  "raises_only {CapabilityProfileError} (cap_text l v)"
  "raises_only {CapabilityProfileError} (cap_timestamp w)"
  "raises_only {CapabilityProfileError} (validate_binding p project provider)"
  by (auto simp: cap_text_def cap_timestamp_def validate_binding_def raises_only_steps split: option.splits)

lemma observation_raises: "raises_only {CapabilityProfileError} (observation_validate c)"
  by (auto simp: observation_validate_def cap_raises split: option.splits intro!: raises_only_steps)

lemma check_capabilities_raises: "raises_only {CapabilityProfileError} (check_capabilities ns cs)"
  by (induction cs arbitrary: ns) (auto simp: observation_raises intro!: raises_only_and_then)

lemma profile_validate_raises: "raises_only {CapabilityProfileError} (profile_validate H p)"
proof -
  have "raises_only {CapabilityProfileError} (check_expiry p t)" for t
    by (auto simp: check_expiry_def cap_raises split: option.splits intro!: raises_only_steps raises_only_and_then)
  then show ?thesis
    by (auto simp: profile_validate_def cap_raises check_capabilities_raises intro!: raises_only_steps raises_only_and_then)
qed

lemma is_stale_raises: "raises_only {CapabilityProfileError} (is_stale p now)"
  by (auto simp: is_stale_def cap_raises split: option.splits intro!: raises_only_and_then)

lemma validate_at_raises: "raises_only {CapabilityProfileError} (validate_at H p now)"
  by (auto simp: validate_at_def profile_validate_raises is_stale_raises intro!: raises_only_steps raises_only_and_then)

lemma candidate_evidence_class:
  "raises_only {CapabilityProfileError, CapabilitySelectionError} (candidate_evidence H project now c)"
proof -
  note m = raises_only_mono [of "{CapabilityProfileError}"]
  show ?thesis
    unfolding candidate_evidence_def candidate_validate_def
    by (auto intro!: raises_only_steps m profile_validate_raises cap_raises validate_at_raises)
qed

subsection \<open>The loop in closed form\<close>

definition loop_picks :: "(capability_candidate \<Rightarrow> string option) \<Rightarrow> bool \<Rightarrow> nat \<times> capability_candidate \<Rightarrow> bool" where
  "loop_picks reason fallback = (\<lambda>(i, c). reason c = None \<and> (i = 0 \<or> fallback))"

definition loop_notes :: "(capability_candidate \<Rightarrow> string option) \<Rightarrow> bool \<Rightarrow> nat \<times> capability_candidate \<Rightarrow> string list" where
  "loop_notes reason fallback = (\<lambda>(i, c). case reason c of
     Some m \<Rightarrow> [provider_of c @ '': '' @ m]
   | None \<Rightarrow> if 0 < i \<and> \<not> fallback then [provider_of c @ '': fallback is not permitted''] else [])"

definition picked :: "nat \<times> capability_candidate \<Rightarrow> string \<times> string \<times> bool" where
  "picked = (\<lambda>(i, c). (provider_of c, cp_profile_id (cc_profile c), 0 < i))"

lemma select_loop_spec:
  "select_loop reason fallback i cs (rejected, selected) =
     (rejected @ concat (map (loop_notes reason fallback) (enumerate i cs)),
      case selected of Some s \<Rightarrow> Some s | None \<Rightarrow> map_option picked (find (loop_picks reason fallback) (enumerate i cs)))"
proof (induction cs arbitrary: i rejected selected)
  case (Cons c cs)
  show ?case
    by (cases "reason c"; cases selected; cases fallback)
      (use Cons.IH in \<open>simp_all add: loop_notes_def loop_picks_def picked_def\<close>)
qed (simp split: option.splits)

definition all_reasons ::
    "(string \<Rightarrow> string) \<Rightarrow> string \<Rightarrow> string list \<Rightarrow> string \<Rightarrow> selection_gates \<Rightarrow> (string \<times> string) list \<Rightarrow> capability_candidate \<Rightarrow> string option" where
  "all_reasons H project req now g pre c = (case map_of pre (provider_of c) of
     Some m \<Rightarrow> Some m | None \<Rightarrow> rejection_reason H project (sort (remdups req)) now g c)"

lemma all_reasons_None:
  "all_reasons H project req now g pre c = None \<longleftrightarrow>
     map_of pre (provider_of c) = None \<and> acceptable H project (set req) now g c"
  by (simp add: all_reasons_def rejection_reason_None split: option.splits)

lemma req_empty: "sort (remdups req) = [] \<longleftrightarrow> req = []"
  by (metis length_0_conv length_sort remdups_eq_nil_iff)

subsection \<open>Properties\<close>

text \<open>Selection takes, in the order of priority, provider and profile, the first candidate that is
  acceptable and was not rejected beforehand, and only the very first candidate when fallback is
  forbidden; it reports a fallback exactly when that candidate is not the first. Without such a
  candidate, and without required capabilities, it raises.\<close>

theorem select_candidate_correct:
  "select_candidate H cs project req now gates pre =
     (let g = case_option default_gates id gates; es = enumerate 0 (order_candidates cs);
          reasons = concat (map (loop_notes (all_reasons H project req now g pre) (gt_allow_fallback g)) es)
      in if req = [] then raise CapabilitySelectionError ''required_capabilities must not be empty''
         else (case find (\<lambda>(i, c). map_of pre (provider_of c) = None \<and> acceptable H project (set req) now g c \<and>
                   (i = 0 \<or> gt_allow_fallback g)) es of
             None \<Rightarrow> raise CapabilitySelectionError (''no eligible capability candidate: '' @ join_str ''; '' reasons)
           | Some (i, c) \<Rightarrow> Inr \<lparr>sr_provider_id = provider_of c, sr_profile_id = cp_profile_id (cc_profile c),
               sr_fallback_used = (i > 0), sr_considered_candidates = map provider_of (order_candidates cs),
               sr_rejected_reasons = reasons\<rparr>))"
proof -
  obtain g where g: "g = case_option default_gates id gates" by blast
  have g': "(case gates of None \<Rightarrow> default_gates | Some g \<Rightarrow> g) = g" by (simp add: g split: option.splits)
  have p: "loop_picks (all_reasons H project req now g pre) (gt_allow_fallback g) =
      (\<lambda>(i, c). map_of pre (provider_of c) = None \<and> acceptable H project (set req) now g c \<and> (i = 0 \<or> gt_allow_fallback g))"
    by (auto simp: loop_picks_def all_reasons_None fun_eq_iff)
  have r: "(\<lambda>c. case map_of pre (provider_of c) of Some m \<Rightarrow> Some m
      | None \<Rightarrow> rejection_reason H project (sort (remdups req)) now g c) = all_reasons H project req now g pre"
    by (simp add: all_reasons_def fun_eq_iff)
  show ?thesis
    unfolding select_candidate_def Let_def g' r req_empty select_loop_spec g [symmetric] p
    by (auto simp: picked_def split: option.splits)
qed

text \<open>The outcome does not depend on the order in which the candidates are given, provided that no
  two of them agree in priority, provider and profile.\<close>

theorem select_order_irrelevant:
  assumes "mset cs = mset cs'" and "inj_on candidate_key (set cs)"
  shows "select_candidate H cs project req now gates pre = select_candidate H cs' project req now gates pre"
proof -
  have "order_candidates cs = order_candidates cs'"
    unfolding order_candidates_def
    using assms by (intro sort_key_eq_sort_key) simp_all
  then show ?thesis by (simp add: select_candidate_def)
qed

definition sample_candidate :: "int \<Rightarrow> capability_candidate" where
  "sample_candidate n = \<lparr>cc_profile = sample_profile 1, cc_priority = n, cc_diagnostic_only = False\<rparr>"

theorem select_order_irrelevant_witness:
  "select_candidate zero_hash [sample_candidate 1, sample_candidate 0] ''project-a'' [''plan''] ''2024-01-15T00:00:00Z'' None [] =
   select_candidate zero_hash [sample_candidate 0, sample_candidate 1] ''project-a'' [''plan''] ''2024-01-15T00:00:00Z'' None []"
proof -
  have "candidate_key (sample_candidate 1) \<noteq> candidate_key (sample_candidate 0)"
    by (simp add: candidate_key_def sample_candidate_def)
  then show ?thesis by (intro select_order_irrelevant) auto
qed

end
