(* ===== verification/JsonText.thy ===== *)
theory JsonText
  imports CanonicalJson
begin

section \<open>Reading JSON text\<close>

text \<open>
  \<open>json.loads\<close> of the standard library, on texts whose characters and escapes are below 256; a
  text with an escape beyond that range has no value here. \<open>None\<close> is the \<open>JSONDecodeError\<close> or the
  \<open>ValueError\<close> of an integer of more than 4300 digits. \<open>fl\<close> maps the text of a number with a
  fraction or an exponent to the text \<open>json.dumps\<close> prints for its float. The depth of nesting, which
  in Python is bounded by the recursion limit, is not bounded here. The main results are that the
  fuel of the parser, the length of the text, is enough, and that canonical text is read back.
\<close>

subsection \<open>Strings and numbers\<close>

definition json_ws :: "char \<Rightarrow> bool" where
  "json_ws c = (let n = (of_char c :: nat) in n = 32 \<or> n = 9 \<or> n = 10 \<or> n = 13)"

definition skip_ws :: "string \<Rightarrow> string" where
  "skip_ws s = dropWhile json_ws s"

definition hex_value :: "char \<Rightarrow> nat option" where
  "hex_value c = (let n = (of_char c :: nat) in
     if 48 \<le> n \<and> n \<le> 57 then Some (n - 48) else if 65 \<le> n \<and> n \<le> 70 then Some (n - 55)
     else if 97 \<le> n \<and> n \<le> 102 then Some (n - 87) else None)"

text \<open>The character of an escape of one letter\<close>

definition simple_escape :: "char \<Rightarrow> char option" where
  "simple_escape c = map_of [(CHR 0x22, CHR 0x22), (CHR 0x5C, CHR 0x5C), (CHR ''/'', CHR ''/''),
     (CHR ''b'', CHR 0x08), (CHR ''f'', CHR 0x0C), (CHR ''n'', CHR 0x0A), (CHR ''r'', CHR 0x0D), (CHR ''t'', CHR 0x09)] c"

definition unicode_escape :: "char \<Rightarrow> char \<Rightarrow> char \<Rightarrow> char \<Rightarrow> char option" where
  "unicode_escape a b c d = (case (hex_value a, hex_value b, hex_value c, hex_value d) of
     (Some 0, Some 0, Some x, Some y) \<Rightarrow> Some (char_of (16 * x + y))
   | _ \<Rightarrow> None)"

definition push :: "char \<Rightarrow> (string \<times> string) option \<Rightarrow> (string \<times> string) option" where
  "push c r = map_option (\<lambda>(w, t). (c # w, t)) r"

text \<open>After the opening quotation mark\<close>

fun str_body :: "string \<Rightarrow> (string \<times> string) option" where
  "str_body [] = None"
| "str_body (c # s) =
     (if c = CHR 0x22 then Some ([], s)
      else if c = CHR 0x5C then (case s of
          [] \<Rightarrow> None
        | e # s1 \<Rightarrow> (case simple_escape e of
            Some x \<Rightarrow> push x (str_body s1)
          | None \<Rightarrow> (case s1 of
              a # b # d # f # s2 \<Rightarrow> if e = CHR ''u'' then (case unicode_escape a b d f of
                  Some x \<Rightarrow> push x (str_body s2) | None \<Rightarrow> None) else None
            | _ \<Rightarrow> None)))
      else if (of_char c :: nat) < 32 then None
      else push c (str_body s))"

text \<open>The digits of a number after its sign: a zero, or digits that do not start with one\<close>

definition int_digits :: "string \<Rightarrow> string" where
  "int_digits s = (case s of [] \<Rightarrow> [] | c # t \<Rightarrow> if c = CHR ''0'' then [c] else takeWhile is_digit s)"

definition fraction_text :: "string \<Rightarrow> string" where
  "fraction_text s = (case s of [] \<Rightarrow> [] | c # t \<Rightarrow>
     if c = CHR ''.'' \<and> takeWhile is_digit t \<noteq> [] then c # takeWhile is_digit t else [])"

definition exponent_text :: "string \<Rightarrow> string" where
  "exponent_text s = (case s of [] \<Rightarrow> [] | c # t \<Rightarrow>
     (let g = (case t of [] \<Rightarrow> [] | x # _ \<Rightarrow> if x = CHR ''+'' \<or> x = CHR ''-'' then [x] else []);
          ds = takeWhile is_digit (drop (length g) t)
      in if (c = CHR ''e'' \<or> c = CHR ''E'') \<and> ds \<noteq> [] then c # g @ ds else []))"

definition parse_number :: "(string \<Rightarrow> string) \<Rightarrow> string \<Rightarrow> (json \<times> string) option" where
  "parse_number fl s =
     (let g = (if starts_with ''-'' s then ''-'' else []); s1 = drop (length g) s;
          ds = int_digits s1; s2 = drop (length ds) s1;
          fr = fraction_text s2; s3 = drop (length fr) s2; ex = exponent_text s3; s4 = drop (length ex) s3
      in if ds = [] then None
         else if fr = [] \<and> ex = []
         then (if length ds > 4300 then None
           else Some (JInt (if g = [] then int (digits_value ds) else - int (digits_value ds)), s2))
         else Some (JFloat (fl (g @ ds @ fr @ ex)), s4))"

definition json_words :: "(string \<times> json) list" where
  "json_words = [(''null'', JNull), (''true'', JBool True), (''false'', JBool False),
     (''NaN'', JFloat ''NaN''), (''Infinity'', JFloat ''Infinity''), (''-Infinity'', JFloat ''-Infinity'')]"

definition parse_word :: "string \<Rightarrow> (json \<times> string) option" where
  "parse_word s = map_option (\<lambda>(w, v). (v, drop (length w) s)) (find (\<lambda>(w, v). starts_with w s) json_words)"

subsection \<open>Values\<close>

text \<open>A later member of an object replaces the value of an earlier one with the same key.
  \<open>elements\<close> and \<open>members\<close> read what follows an opening bracket or a comma; the first argument
  is the fuel.\<close>

fun parse_value :: "(string \<Rightarrow> string) \<Rightarrow> nat \<Rightarrow> string \<Rightarrow> (json \<times> string) option"
  and elements :: "(string \<Rightarrow> string) \<Rightarrow> nat \<Rightarrow> string \<Rightarrow> (json list \<times> string) option"
  and members :: "(string \<Rightarrow> string) \<Rightarrow> nat \<Rightarrow> (string \<times> json) list \<Rightarrow> string \<Rightarrow> ((string \<times> json) list \<times> string) option" where
  "parse_value fl 0 s = None"
| "parse_value fl (Suc n) s = (case s of
     [] \<Rightarrow> None
   | c # t \<Rightarrow>
       if c = CHR 0x22 then map_option (\<lambda>(w, r). (JStr w, r)) (str_body t)
       else if c = CHR ''['' then
         (let u = skip_ws t in
          if starts_with '']'' u then Some (JList [], drop 1 u)
          else map_option (\<lambda>(vs, r). (JList vs, r)) (elements fl n u))
       else if c = CHR ''{'' then
         (let u = skip_ws t in
          if starts_with ''}'' u then Some (JObj [], drop 1 u)
          else map_option (\<lambda>(kvs, r). (JObj kvs, r)) (members fl n [] u))
       else (case parse_word s of Some x \<Rightarrow> Some x | None \<Rightarrow> parse_number fl s))"
| "elements fl 0 s = None"
| "elements fl (Suc n) s = (case parse_value fl n s of
     None \<Rightarrow> None
   | Some (v, r) \<Rightarrow> (case skip_ws r of
       [] \<Rightarrow> None
     | c # t \<Rightarrow> if c = CHR '']'' then Some ([v], t)
         else if c = CHR '','' then map_option (\<lambda>(vs, r). (v # vs, r)) (elements fl n (skip_ws t))
         else None))"
| "members fl 0 kvs s = None"
| "members fl (Suc n) kvs s = (case s of
     [] \<Rightarrow> None
   | q # s1 \<Rightarrow> if q \<noteq> CHR 0x22 then None else (case str_body s1 of
       None \<Rightarrow> None
     | Some (k, r) \<Rightarrow> (case skip_ws r of
         [] \<Rightarrow> None
       | d # t \<Rightarrow> if d \<noteq> CHR '':'' then None else (case parse_value fl n (skip_ws t) of
           None \<Rightarrow> None
         | Some (v, r') \<Rightarrow> (case skip_ws r' of
             [] \<Rightarrow> None
           | c # u \<Rightarrow> if c = CHR ''}'' then Some (dict_set k v kvs, u)
               else if c = CHR '','' then members fl n (dict_set k v kvs) (skip_ws u)
               else None)))))"

definition loads :: "(string \<Rightarrow> string) \<Rightarrow> string \<Rightarrow> json option" where
  "loads fl s = (case parse_value fl (Suc (length s)) (skip_ws s) of
     None \<Rightarrow> None
   | Some (v, r) \<Rightarrow> if skip_ws r = [] then Some v else None)"

subsection \<open>The fuel is enough\<close>

lemma length_skip_ws: "length (skip_ws s) \<le> length s"
  by (simp add: skip_ws_def length_dropWhile_le)

lemma push_Some: "push c r = Some (w, t) \<longleftrightarrow> (\<exists>w'. r = Some (w', t) \<and> w = c # w')"
  by (auto simp: push_def)

lemma str_body_shorter: "str_body s = Some (w, r) \<Longrightarrow> length r < length s"
proof (induction s arbitrary: w rule: str_body.induct)
  case (2 c s)
  consider "c = CHR 0x22" | "c = CHR 0x5C" "c \<noteq> CHR 0x22" | "c \<noteq> CHR 0x22" "c \<noteq> CHR 0x5C" by blast
  then show ?case
  proof cases
    case 2
    then obtain e s1 where s: "s = e # s1" using "2.prems" by (cases s) auto
    show ?thesis
    proof (cases "simple_escape e")
      case (Some x)
      then obtain w' where "str_body s1 = Some (w', r)" using 2 "2.prems" s by (auto simp: push_Some)
      from "2.IH"(2) [OF 2(2,1) s Some this] show ?thesis using s by simp
    next
      case None
      with 2 "2.prems" s obtain a b d f s2 x w' where n: "s1 = a # b # d # f # s2" "e = CHR ''u''"
        "unicode_escape a b d f = Some x" "str_body s2 = Some (w', r)"
        by (auto simp: push_Some split: list.splits if_splits option.splits)
      have "length r < length s2"
        using "2.IH"(1) [OF 2(2,1) s None n(1) refl refl refl n(2,3,4)] .
      then show ?thesis using s n(1) by simp
    qed
  next
    case 3
    with "2.prems" obtain w' where "\<not> (of_char c :: nat) < 32" "str_body s = Some (w', r)"
      by (auto simp: push_Some split: if_splits)
    from "2.IH"(3) [OF 3 this] show ?thesis by simp
  qed (use "2.prems" in auto)
qed simp

lemma drop_shorter: "s \<noteq> [] \<Longrightarrow> 0 < k \<Longrightarrow> length (drop k s) < length s"
  by simp

lemma parse_word_shorter:
  assumes "parse_word s = Some (v, r)"
  shows "length r < length s"
proof -
  from assms obtain w where w: "find (\<lambda>(w, v). starts_with w s) json_words = Some (w, v)" "r = drop (length w) s"
    by (auto simp: parse_word_def)
  then have "(w, v) \<in> set json_words" "starts_with w s" by (auto simp: find_Some_iff dest: nth_mem)
  moreover have "\<forall>x\<in>set json_words. fst x \<noteq> []" by (simp add: json_words_def)
  ultimately have "w \<noteq> []" "s \<noteq> []" by (auto simp: starts_with_iff)
  then show ?thesis using w(2) by (simp add: drop_shorter)
qed

lemma parse_number_shorter:
  assumes "parse_number fl s = Some (v, r)"
  shows "length r < length s"
proof -
  obtain g where g: "g = (if starts_with ''-'' s then ''-'' else [])" by blast
  obtain s1 where s1: "s1 = drop (length g) s" by blast
  obtain ds where ds: "ds = int_digits s1" by blast
  obtain s2 where s2: "s2 = drop (length ds) s1" by blast
  obtain fr where fr: "fr = fraction_text s2" by blast
  obtain ex where ex: "ex = exponent_text (drop (length fr) s2)" by blast
  from assms have n: "ds \<noteq> []" and r: "r = s2 \<or> r = drop (length ex) (drop (length fr) s2)"
    unfolding parse_number_def Let_def g [symmetric] s1 [symmetric] ds [symmetric] s2 [symmetric] fr [symmetric] ex [symmetric]
    by (auto split: if_splits)
  from n have "s1 \<noteq> []" by (auto simp: ds int_digits_def)
  then have "length s2 < length s1" using n by (simp add: s2)
  moreover have "length r \<le> length s2" using r by auto
  moreover have "length s1 \<le> length s" by (simp add: s1)
  ultimately show ?thesis by linarith
qed

text \<open>What a parser reads with some fuel it reads with any fuel that covers the text consumed.\<close>

lemma parse_fuel:
  "parse_value fl n s = Some (v, r) \<Longrightarrow>
     length r < length s \<and> (\<forall>m. length s - length r \<le> m \<longrightarrow> parse_value fl m s = Some (v, r))"
  "elements fl n s = Some (vs, r) \<Longrightarrow>
     length r < length s \<and> (\<forall>m. length s - length r \<le> m \<longrightarrow> elements fl m s = Some (vs, r))"
  "members fl n kvs s = Some (kvs', r) \<Longrightarrow>
     length r < length s \<and> (\<forall>m. length s - length r \<le> m \<longrightarrow> members fl m kvs s = Some (kvs', r))"
proof (induction fl n s and fl n s and fl n kvs s arbitrary: v r and vs r and kvs' r
    rule: parse_value_elements_members.induct)
  case (2 fl n s)
  then obtain c t where s: "s = c # t" by (cases s) auto
  have skip: "length (skip_ws t) \<le> length t" by (rule length_skip_ws)
  consider (str) "c = CHR 0x22" | (arr) "c = CHR ''[''" | (obj) "c = CHR ''{''"
    | (other) "c \<noteq> CHR 0x22" "c \<noteq> CHR ''[''" "c \<noteq> CHR ''{''" by blast
  then show ?case
  proof cases
    case str
    with "2.prems" s obtain w where w: "str_body t = Some (w, r)" "v = JStr w" by auto
    have "parse_value fl m s = Some (v, r)" if "length s - length r \<le> m" for m
      using that s str w str_body_shorter [OF w(1)] by (cases m) auto
    then show ?thesis using str_body_shorter [OF w(1)] s by simp
  next
    case arr
    show ?thesis
    proof (cases "starts_with '']'' (skip_ws t)")
      case True
      then have r: "r = drop 1 (skip_ws t)" "v = JList []" "skip_ws t \<noteq> []"
        using "2.prems" s arr by (auto simp: Let_def starts_with_def)
      have l: "length r < length s" using r(1) skip s by simp
      have "parse_value fl m s = Some (v, r)" if "length s - length r \<le> m" for m
        using that l s arr True r by (cases m) (auto simp: Let_def)
      with l show ?thesis by blast
    next
      case False
      with "2.prems" s arr obtain vs where vs: "elements fl n (skip_ws t) = Some (vs, r)" "v = JList vs"
        by (auto simp: Let_def)
      have ih: "length r < length (skip_ws t)"
        "\<And>m. length (skip_ws t) - length r \<le> m \<Longrightarrow> elements fl m (skip_ws t) = Some (vs, r)"
        using "2.IH"(1) [OF s _ arr refl False vs(1)] arr by auto
      have "parse_value fl m s = Some (v, r)" if "length s - length r \<le> m" for m
        using that ih(1) ih(2) [of "m - 1"] skip s arr False vs(2) by (cases m) (auto simp: Let_def)
      with ih(1) skip s show ?thesis by auto
    qed
  next
    case obj
    show ?thesis
    proof (cases "starts_with ''}'' (skip_ws t)")
      case True
      then have r: "r = drop 1 (skip_ws t)" "v = JObj []" "skip_ws t \<noteq> []"
        using "2.prems" s obj by (auto simp: Let_def starts_with_def)
      have l: "length r < length s" using r(1) skip s by simp
      have "parse_value fl m s = Some (v, r)" if "length s - length r \<le> m" for m
        using that l s obj True r by (cases m) (auto simp: Let_def)
      with l show ?thesis by blast
    next
      case False
      with "2.prems" s obj obtain kvs where kvs: "members fl n [] (skip_ws t) = Some (kvs, r)" "v = JObj kvs"
        by (auto simp: Let_def)
      have ih: "length r < length (skip_ws t)"
        "\<And>m. length (skip_ws t) - length r \<le> m \<Longrightarrow> members fl m [] (skip_ws t) = Some (kvs, r)"
        using "2.IH"(2) [OF s _ _ obj refl False kvs(1)] obj by auto
      have "parse_value fl m s = Some (v, r)" if "length s - length r \<le> m" for m
        using that ih(1) ih(2) [of "m - 1"] skip s obj False kvs(2) by (cases m) (auto simp: Let_def)
      with ih(1) skip s show ?thesis by auto
    qed
  next
    case other
    then have p: "(case parse_word s of Some x \<Rightarrow> Some x | None \<Rightarrow> parse_number fl s) = Some (v, r)"
      using "2.prems" unfolding s by simp
    then have l: "length r < length s"
      by (auto dest: parse_word_shorter parse_number_shorter split: option.splits)
    have "parse_value fl m s = Some (v, r)" if "length s - length r \<le> m" for m
      using that l other p unfolding s by (cases m) simp_all
    with l show ?thesis by blast
  qed
next
  case (4 fl n s)
  from "4.prems" obtain v r1 c t where v: "parse_value fl n s = Some (v, r1)" and c: "skip_ws r1 = c # t"
    by (auto split: option.splits list.splits)
  have skip: "length (c # t) \<le> length r1" using length_skip_ws [of r1] c by simp
  have ih: "length r1 < length s" "\<And>m. length s - length r1 \<le> m \<Longrightarrow> parse_value fl m s = Some (v, r1)"
    using "4.IH"(1) [OF v] by auto
  show ?case
  proof (cases "c = CHR '']''")
    case True
    then have r: "r = t" "vs = [v]" using "4.prems" v c by auto
    have "elements fl m s = Some (vs, r)" if "length s - length r \<le> m" for m
      using that ih(1) ih(2) [of "m - 1"] skip c r True by (cases m) auto
    with r ih(1) skip show ?thesis by auto
  next
    case False
    with "4.prems" v c obtain vs' where e: "c = CHR '',''" "elements fl n (skip_ws t) = Some (vs', r)" "vs = v # vs'"
      by (auto split: if_splits)
    have ih2: "length r < length (skip_ws t)"
      "\<And>m. length (skip_ws t) - length r \<le> m \<Longrightarrow> elements fl m (skip_ws t) = Some (vs', r)"
      using "4.IH"(2) [OF v refl c False e(1,2)] by auto
    have st: "length (skip_ws t) \<le> length t" by (rule length_skip_ws)
    have "elements fl m s = Some (vs, r)" if "length s - length r \<le> m" for m
      using that ih(1) ih(2) [of "m - 1"] ih2(1) ih2(2) [of "m - 1"] skip st c e False by (cases m) auto
    with ih(1) ih2(1) skip st show ?thesis by auto
  qed
next
  case (6 fl n kvs s)
  from "6.prems" obtain q s1 k r1 d t v r2 c u where q: "s = q # s1" "q = CHR 0x22" "str_body s1 = Some (k, r1)"
      "skip_ws r1 = d # t" "d = CHR '':''" and v: "parse_value fl n (skip_ws t) = Some (v, r2)" and c: "skip_ws r2 = c # u"
    by (auto split: option.splits list.splits if_splits)
  have skip: "length (d # t) \<le> length r1" "length (c # u) \<le> length r2" "length (skip_ws t) \<le> length t"
      "length (skip_ws u) \<le> length u" "length r1 < length s1"
    using length_skip_ws [of r1] length_skip_ws [of r2] q(4) c length_skip_ws str_body_shorter [OF q(3)] by auto
  have ih: "length r2 < length (skip_ws t)"
    "\<And>m. length (skip_ws t) - length r2 \<le> m \<Longrightarrow> parse_value fl m (skip_ws t) = Some (v, r2)"
    using "6.IH"(1) [OF q(1) _ q(3) refl q(4) _ v] q by auto
  show ?case
  proof (cases "c = CHR ''}''")
    case True
    then have r: "r = u" "kvs' = dict_set k v kvs" using "6.prems" q v c by auto
    have "members fl m kvs s = Some (kvs', r)" if "length s - length r \<le> m" for m
      using that ih(1) ih(2) [of "m - 1"] skip q c r True by (cases m) auto
    with r ih(1) skip q show ?thesis by auto
  next
    case False
    with "6.prems" q v c have e: "c = CHR '',''" "members fl n (dict_set k v kvs) (skip_ws u) = Some (kvs', r)"
      by (auto split: if_splits)
    have ih2: "length r < length (skip_ws u)"
      "\<And>m. length (skip_ws u) - length r \<le> m \<Longrightarrow> members fl m (dict_set k v kvs) (skip_ws u) = Some (kvs', r)"
      using "6.IH"(2) [OF q(1) _ q(3) refl q(4) _ v refl c False e] q by auto
    have "members fl m kvs s = Some (kvs', r)" if "length s - length r \<le> m" for m
      using that ih(1) ih(2) [of "m - 1"] ih2(1) ih2(2) [of "m - 1"] skip q c e False by (cases m) auto
    with ih(1) ih2(1) skip q show ?thesis by auto
  qed
qed simp_all

definition reads :: "(string \<Rightarrow> string) \<Rightarrow> string \<Rightarrow> json \<Rightarrow> string \<Rightarrow> bool" where
  "reads fl s v r \<longleftrightarrow> (\<exists>n. parse_value fl n s = Some (v, r))"

definition reads_elements :: "(string \<Rightarrow> string) \<Rightarrow> string \<Rightarrow> json list \<Rightarrow> string \<Rightarrow> bool" where
  "reads_elements fl s vs r \<longleftrightarrow> (\<exists>n. elements fl n s = Some (vs, r))"

definition reads_members :: "(string \<Rightarrow> string) \<Rightarrow> (string \<times> json) list \<Rightarrow> string \<Rightarrow> (string \<times> json) list \<Rightarrow> string \<Rightarrow> bool" where
  "reads_members fl kvs s kvs' r \<longleftrightarrow> (\<exists>n. members fl n kvs s = Some (kvs', r))"

lemma loads_reads:
  "loads fl s = Some v \<longleftrightarrow> (\<exists>r. reads fl (skip_ws s) v r \<and> skip_ws r = [])"
proof
  assume "loads fl s = Some v"
  then obtain r where "parse_value fl (Suc (length s)) (skip_ws s) = Some (v, r)" "skip_ws r = []"
    unfolding loads_def by (auto simp del: parse_value.simps split: option.splits if_splits)
  then show "\<exists>r. reads fl (skip_ws s) v r \<and> skip_ws r = []" unfolding reads_def by blast
next
  assume "\<exists>r. reads fl (skip_ws s) v r \<and> skip_ws r = []"
  then obtain n r where r: "parse_value fl n (skip_ws s) = Some (v, r)" "skip_ws r = []" by (auto simp: reads_def)
  have "length (skip_ws s) - length r \<le> Suc (length s)" using length_skip_ws [of s] by simp
  then have "parse_value fl (Suc (length s)) (skip_ws s) = Some (v, r)" using parse_fuel(1) [OF r(1)] by blast
  with r(2) show "loads fl s = Some v" by (simp add: loads_def)
qed

lemma reads_raise: "reads fl s v r \<Longrightarrow> \<exists>n. \<forall>m\<ge>n. parse_value fl m s = Some (v, r)"
  by (metis parse_fuel(1) reads_def)

lemma reads_elements_one:
  assumes "reads fl s v (CHR '']'' # t)"
  shows "reads_elements fl s [v] t"
proof -
  from assms obtain n where "parse_value fl n s = Some (v, CHR '']'' # t)" by (auto simp: reads_def)
  then have "elements fl (Suc n) s = Some ([v], t)" by (simp add: skip_ws_def json_ws_def Let_def)
  then show ?thesis unfolding reads_elements_def by blast
qed

lemma reads_elements_more:
  assumes "reads fl s v (CHR '','' # t)" "reads_elements fl t vs r" "skip_ws t = t"
  shows "reads_elements fl s (v # vs) r"
proof -
  from reads_raise [OF assms(1)] obtain n where n: "\<And>m. n \<le> m \<Longrightarrow> parse_value fl m s = Some (v, CHR '','' # t)" by blast
  from assms(2) parse_fuel(2) obtain k where k: "\<And>m. k \<le> m \<Longrightarrow> elements fl m t = Some (vs, r)"
    unfolding reads_elements_def by blast
  have w: "skip_ws (CHR '','' # t) = CHR '','' # t" by (simp add: skip_ws_def json_ws_def Let_def)
  have "elements fl (Suc (max n k)) s = Some (v # vs, r)" using n [of "max n k"] k [of "max n k"] assms(3) w by simp
  then show ?thesis unfolding reads_elements_def by blast
qed

lemma reads_members_one:
  assumes "str_body s = Some (k, CHR '':'' # t)" "reads fl t v (CHR ''}'' # u)" "skip_ws t = t"
  shows "reads_members fl kvs (CHR 0x22 # s) (dict_set k v kvs) u"
proof -
  from assms(2) obtain n where "parse_value fl n t = Some (v, CHR ''}'' # u)" by (auto simp: reads_def)
  then have "members fl (Suc n) kvs (CHR 0x22 # s) = Some (dict_set k v kvs, u)"
    using assms by (simp add: skip_ws_def json_ws_def Let_def)
  then show ?thesis unfolding reads_members_def by blast
qed

lemma reads_members_more:
  assumes "str_body s = Some (k, CHR '':'' # t)" "reads fl t v (CHR '','' # u)" "skip_ws t = t"
    and "reads_members fl (dict_set k v kvs) u kvs' r" "skip_ws u = u"
  shows "reads_members fl kvs (CHR 0x22 # s) kvs' r"
proof -
  from reads_raise [OF assms(2)] obtain n where n: "\<And>m. n \<le> m \<Longrightarrow> parse_value fl m t = Some (v, CHR '','' # u)" by blast
  from assms(4) parse_fuel(3) obtain j where j: "\<And>m. j \<le> m \<Longrightarrow> members fl m (dict_set k v kvs) u = Some (kvs', r)"
    unfolding reads_members_def by blast
  have w: "skip_ws (CHR '':'' # t) = CHR '':'' # t" "skip_ws (CHR '','' # u) = CHR '','' # u"
    by (simp_all add: skip_ws_def json_ws_def Let_def)
  have "members fl (Suc (max n j)) kvs (CHR 0x22 # s) = Some (kvs', r)"
    using n [of "max n j"] j [of "max n j"] assms(1,3,5) w by simp
  then show ?thesis unfolding reads_members_def by blast
qed

lemma reads_list:
  assumes "reads_elements fl s vs r" "skip_ws s = s" "\<not> starts_with '']'' s"
  shows "reads fl (CHR ''['' # s) (JList vs) r"
proof -
  from assms obtain n where "elements fl n s = Some (vs, r)" by (auto simp: reads_elements_def)
  then have "parse_value fl (Suc n) (CHR ''['' # s) = Some (JList vs, r)" using assms by (simp add: Let_def)
  then show ?thesis unfolding reads_def by blast
qed

lemma reads_obj:
  assumes "reads_members fl [] s kvs r" "skip_ws s = s" "\<not> starts_with ''}'' s"
  shows "reads fl (CHR ''{'' # s) (JObj kvs) r"
proof -
  from assms obtain n where "members fl n [] s = Some (kvs, r)" by (auto simp: reads_members_def)
  then have "parse_value fl (Suc n) (CHR ''{'' # s) = Some (JObj kvs, r)" using assms by (simp add: Let_def)
  then show ?thesis unfolding reads_def by blast
qed

subsection \<open>Canonical text is read back\<close>

text \<open>The value a canonical text stands for: members sorted by key\<close>

fun canon :: "json \<Rightarrow> json" where
  "canon (JList vs) = JList (map canon vs)"
| "canon (JObj kvs) = JObj (sort_key fst (map (\<lambda>(k, v). (k, canon v)) kvs))"
| "canon v = v"

text \<open>No floats, no key twice, no integer that is too long to be read\<close>

fun plain_json :: "json \<Rightarrow> bool" where
  "plain_json (JFloat t) = False"
| "plain_json (JInt i) = (length (show_nat (nat \<bar>i\<bar>)) \<le> 4300)"
| "plain_json (JList vs) = list_all plain_json vs"
| "plain_json (JObj kvs) = (distinct (map fst kvs) \<and> list_all (\<lambda>(k, v). plain_json v) kvs)"
| "plain_json v = True"

lemma hex_digit_value: "k < 16 \<Longrightarrow> hex_value (hex_digit k) = Some k"
  by (simp add: hex_value_def hex_digit_def Let_def)

lemma escape_chars:
  "char_of (34 :: nat) = CHR 0x22" "char_of (92 :: nat) = CHR 0x5C" "char_of (8 :: nat) = CHR 0x08"
  "char_of (9 :: nat) = CHR 0x09" "char_of (10 :: nat) = CHR 0x0A" "char_of (12 :: nat) = CHR 0x0C"
  "char_of (13 :: nat) = CHR 0x0D"
  by code_simp+

lemma str_body_escape: "str_body (escape_char c @ t) = push c (str_body t)"
proof -
  obtain n where n: "n = (of_char c :: nat)" by blast
  have c: "c = char_of n" by (simp add: n)
  consider "n = 34" | "n = 92" | "n = 8" | "n = 9" | "n = 10" | "n = 12" | "n = 13"
    | (ctrl) "n < 32" "n \<notin> {8, 9, 10, 12, 13}" | (plain) "32 \<le> n" "n \<noteq> 34" "n \<noteq> 92" by force
  then show ?thesis
  proof cases
    case ctrl
    have h: "hex_value (CHR ''0'') = Some 0" "n div 16 < 16" using ctrl by (simp_all add: hex_value_def)
    have "unicode_escape CHR ''0'' CHR ''0'' (hex_digit (n div 16)) (hex_digit (n mod 16)) = Some c"
      using hex_digit_value [OF h(2)] hex_digit_value [of "n mod 16"] by (simp add: unicode_escape_def h(1) c)
    moreover have "escape_char c = [CHR 0x5C, CHR ''u'', CHR ''0'', CHR ''0'', hex_digit (n div 16), hex_digit (n mod 16)]"
      using ctrl by (simp add: escape_char_def n Let_def)
    ultimately show ?thesis by (simp add: simple_escape_def)
  next
    case plain
    then have "escape_char c = [c]" "c \<noteq> CHR 0x22" "c \<noteq> CHR 0x5C" by (auto simp: escape_char_def n)
    then show ?thesis using plain n by simp
  qed (auto simp: escape_char_def n [symmetric] c escape_chars simple_escape_def)
qed

lemma str_body_dump: "str_body (concat (map escape_char s) @ CHR 0x22 # r) = Some (s, r)"
  by (induction s) (simp_all add: str_body_escape push_def)

text \<open>Integers\<close>

definition json_end :: "string \<Rightarrow> bool" where
  "json_end r = (case r of [] \<Rightarrow> True | c # _ \<Rightarrow> c = CHR '','' \<or> c = CHR '']'' \<or> c = CHR ''}'')"

lemma json_end_stops:
  assumes "json_end r"
  shows "takeWhile is_digit r = []" "fraction_text r = []" "exponent_text r = []"
  using assms by (auto simp: json_end_def fraction_text_def exponent_text_def is_digit_def Let_def split: list.splits)

lemma takeWhile_digits: "list_all is_digit ds \<Longrightarrow> takeWhile is_digit (ds @ r) = ds @ takeWhile is_digit r"
  by (induction ds) auto

lemma int_digits_show:
  assumes "json_end r"
  shows "int_digits (show_nat n @ r) = show_nat n"
proof -
  from show_nat_Cons [of n] obtain c cs where c: "show_nat n = c # cs" "c = CHR ''0'' \<longrightarrow> cs = []" by blast
  have "takeWhile is_digit (show_nat n @ r) = show_nat n"
    using show_nat_digits [of n] json_end_stops(1) [OF assms] by (simp add: takeWhile_digits)
  with c show ?thesis by (auto simp: int_digits_def)
qed

lemma parse_number_show:
  assumes "json_end r" "length (show_nat (nat \<bar>i\<bar>)) \<le> 4300"
  shows "parse_number fl (show_int i @ r) = Some (JInt i, r)"
proof -
  obtain c cs where c: "show_nat (nat \<bar>i\<bar>) = c # cs" "is_digit c" using show_nat_Cons by blast
  then have minus: "c \<noteq> CHR ''-''" by (auto simp: is_digit_def Let_def)
  note ds = int_digits_show [OF assms(1), of "nat \<bar>i\<bar>"]
  have ne: "show_nat (nat \<bar>i\<bar>) \<noteq> []" using c by simp
  show ?thesis
  proof (cases "i < 0")
    case True
    then have "show_int i = CHR ''-'' # show_nat (nat \<bar>i\<bar>)" by (simp add: show_int_def)
    then show ?thesis using True ds ne json_end_stops [OF assms(1)] assms(2)
      by (simp add: parse_number_def starts_with_def digits_value_show)
  next
    case False
    then have "show_int i = show_nat (nat \<bar>i\<bar>)" by (simp add: show_int_def)
    moreover have "\<not> starts_with ''-'' (show_nat (nat \<bar>i\<bar>) @ r)" using c minus by (simp add: starts_with_def)
    ultimately show ?thesis using False ds ne json_end_stops [OF assms(1)] assms(2)
      by (simp add: parse_number_def digits_value_show)
  qed
qed

lemma digit_no_word:
  assumes "is_digit c"
  shows "c \<noteq> CHR ''n''" "c \<noteq> CHR ''t''" "c \<noteq> CHR ''f''" "c \<noteq> CHR ''N''" "c \<noteq> CHR ''I''" "c \<noteq> CHR ''-''"
  using assms by (auto simp: is_digit_def Let_def)

lemma parse_word_digit:
  assumes "is_digit c"
  shows "parse_word (c # s) = None" "parse_word (CHR ''-'' # c # s) = None"
  using digit_no_word [OF assms] by (simp_all add: parse_word_def json_words_def starts_with_def)

definition starter :: "char \<Rightarrow> bool" where
  "starter c = (\<not> json_ws c \<and> c \<noteq> CHR '']'' \<and> c \<noteq> CHR ''}'')"

lemma digit_starter: "is_digit c \<Longrightarrow> starter c \<and> c \<noteq> CHR 0x22 \<and> c \<noteq> CHR ''['' \<and> c \<noteq> CHR ''{''"
  by (auto simp: starter_def is_digit_def json_ws_def Let_def)

lemma show_int_start:
  "\<exists>c t. show_int i = c # t \<and> starter c \<and> c \<noteq> CHR 0x22 \<and> c \<noteq> CHR ''['' \<and> c \<noteq> CHR ''{''"
proof -
  obtain c cs where c: "show_nat (nat \<bar>i\<bar>) = c # cs" "is_digit c" using show_nat_Cons by blast
  show ?thesis
  proof (cases "i < 0")
    case True
    then have "show_int i = CHR ''-'' # show_nat (nat (- i))" by (simp add: show_int_def)
    then show ?thesis by (simp add: starter_def json_ws_def Let_def)
  next
    case False
    then have "show_int i = c # cs" using c by (simp add: show_int_def)
    then show ?thesis using digit_starter [OF c(2)] by blast
  qed
qed

lemma reads_int:
  assumes "json_end r" "length (show_nat (nat \<bar>i\<bar>)) \<le> 4300"
  shows "reads fl (show_int i @ r) (JInt i) r"
proof -
  obtain c cs where c: "show_nat (nat \<bar>i\<bar>) = c # cs" "is_digit c" using show_nat_Cons by blast
  have "parse_word (show_int i @ r) = None"
    using c parse_word_digit by (auto simp: show_int_def)
  moreover from show_int_start [of i] obtain x t where "show_int i = x # t" "x \<noteq> CHR 0x22" "x \<noteq> CHR ''[''" "x \<noteq> CHR ''{''"
    by blast
  ultimately have "parse_value fl (Suc 0) (show_int i @ r) = parse_number fl (show_int i @ r)" by simp
  then show ?thesis using parse_number_show [OF assms] unfolding reads_def by metis
qed

text \<open>Lists and objects\<close>

lemma sort_key_pairs: "sort_key fst (map (\<lambda>(k, v). (k, h v)) kvs) = map (\<lambda>(k, v). (k, h v)) (sort_key fst kvs)"
proof (induction kvs)
  case (Cons x kvs)
  have "insort_key fst (k, h v) (map (\<lambda>(k, v). (k, h v)) ys) = map (\<lambda>(k, v). (k, h v)) (insort_key fst (k, v) ys)" for k v ys
    by (induction ys) auto
  with Cons show ?case by (cases x) simp
qed simp

lemma dump_start:
  assumes "plain_json v"
  shows "\<exists>c t. dump v = c # t \<and> starter c"
proof (cases v)
  case (JInt i)
  then show ?thesis using show_int_start [of i] by auto
qed (use assms in \<open>auto simp: starter_def json_ws_def dump_str_def Let_def\<close>)

lemma starter_skip: "starter c \<Longrightarrow> skip_ws (c # t) = c # t \<and> \<not> starts_with '']'' (c # t) \<and> \<not> starts_with ''}'' (c # t)"
  by (simp add: starter_def skip_ws_def starts_with_def)

definition member_text :: "string \<times> json \<Rightarrow> string" where
  "member_text = (\<lambda>(k, v). dump_str k @ CHR '':'' # dump v)"

lemma dump_obj:
  "dump (JObj kvs) = CHR ''{'' # join_on (CHR '','') (map member_text (sort_key fst kvs)) @ ''}''"
  unfolding dump.simps sort_key_pairs by (simp add: member_text_def case_prod_beta' comp_def)

lemma reads_dump_elements:
  assumes "vs \<noteq> []" and "\<And>v r. v \<in> set vs \<Longrightarrow> json_end r \<Longrightarrow> reads fl (dump v @ r) (canon v) r"
    and "list_all plain_json vs"
  shows "reads_elements fl (join_on (CHR '','') (map dump vs) @ CHR '']'' # r) (map canon vs) r"
  using assms
proof (induction vs)
  case (Cons v vs)
  show ?case
  proof (cases vs)
    case Nil
    have "reads fl (dump v @ CHR '']'' # r) (canon v) (CHR '']'' # r)" using Cons.prems by (simp add: json_end_def)
    then show ?thesis using Nil by (simp add: reads_elements_one)
  next
    case (Cons w ws)
    let ?t = "join_on (CHR '','') (map dump vs) @ CHR '']'' # r"
    have j: "join_on (CHR '','') (map dump (v # vs)) @ CHR '']'' # r = dump v @ CHR '','' # ?t"
      using Cons by (simp add: join_on_Cons_sep)
    have "reads fl (dump v @ CHR '','' # ?t) (canon v) (CHR '','' # ?t)" using Cons.prems(2) by (simp add: json_end_def)
    moreover have "reads_elements fl ?t (map canon vs) r" using Cons.IH Cons.prems Cons by simp
    moreover have "skip_ws ?t = ?t"
    proof -
      from Cons.prems(3) Cons dump_start [of w] obtain c t where "dump w = c # t" "starter c" by auto
      then show ?thesis using Cons by (cases ws) (simp_all add: starter_skip)
    qed
    ultimately show ?thesis unfolding j by (simp add: reads_elements_more)
  qed
qed simp

lemma reads_dump_members:
  assumes "kvs \<noteq> []" and "\<And>k v r. (k, v) \<in> set kvs \<Longrightarrow> json_end r \<Longrightarrow> reads fl (dump v @ r) (canon v) r"
    and "list_all (\<lambda>(k, v). plain_json v) kvs" and "distinct (map fst acc @ map fst kvs)"
  shows "reads_members fl acc (join_on (CHR '','') (map member_text kvs) @ CHR ''}'' # r)
    (acc @ map (\<lambda>(k, v). (k, canon v)) kvs) r"
  using assms
proof (induction kvs arbitrary: acc)
  case (Cons kv kvs)
  obtain k v where kv: "kv = (k, v)" by fastforce
  have put: "dict_set k (canon v) acc = acc @ [(k, canon v)]" using Cons.prems(4) kv by (intro dict_set_new) auto
  from Cons.prems(3) kv dump_start [of v] obtain c t where v: "dump v = c # t" "starter c" by auto
  then have skip: "skip_ws (dump v @ u) = dump v @ u" for u by (simp add: starter_skip)
  have mt: "member_text kv @ u = CHR 0x22 # concat (map escape_char k) @ CHR 0x22 # CHR '':'' # dump v @ u" for u
    by (simp add: kv member_text_def dump_str_def)
  note body = str_body_dump [of k]
  show ?case
  proof (cases kvs)
    case Nil
    have "reads fl (dump v @ CHR ''}'' # r) (canon v) (CHR ''}'' # r)"
      using Cons.prems(2) [of k v] kv by (simp add: json_end_def)
    from reads_members_one [OF body this skip, of acc] show ?thesis unfolding put using Nil kv mt by simp
  next
    case (Cons w ws)
    let ?t = "join_on (CHR '','') (map member_text kvs) @ CHR ''}'' # r"
    have j: "join_on (CHR '','') (map member_text (kv # kvs)) @ CHR ''}'' # r = member_text kv @ CHR '','' # ?t"
      using Cons by (simp add: join_on_Cons_sep)
    have rv: "reads fl (dump v @ CHR '','' # ?t) (canon v) (CHR '','' # ?t)"
      using Cons.prems(2) [of k v] kv by (simp add: json_end_def)
    have rm: "reads_members fl (dict_set k (canon v) acc) ?t (acc @ map (\<lambda>(k, v). (k, canon v)) (kv # kvs)) r"
    proof -
      have "reads_members fl (acc @ [(k, canon v)]) ?t ((acc @ [(k, canon v)]) @ map (\<lambda>(k, v). (k, canon v)) kvs) r"
        by (rule Cons.IH) (use Cons.prems Cons kv in auto)
      then show ?thesis by (simp add: put kv)
    qed
    have "skip_ws ?t = ?t"
      using Cons by (cases w; cases ws) (simp_all add: member_text_def dump_str_def skip_ws_def json_ws_def Let_def)
    from reads_members_more [OF body rv skip rm this] show ?thesis unfolding j mt .
  qed
qed simp

lemma reads_dump: "plain_json v \<Longrightarrow> json_end r \<Longrightarrow> reads fl (dump v @ r) (canon v) r"
proof (induction v arbitrary: r rule: dump.induct)
  case 1
  have "parse_value fl (Suc 0) (''null'' @ r) = Some (JNull, r)"
    by (simp add: parse_word_def json_words_def starts_with_def)
  then show ?case unfolding reads_def by (auto simp del: parse_value.simps)
next
  case (2 b)
  have "parse_value fl (Suc 0) (dump (JBool b) @ r) = Some (JBool b, r)"
    by (simp add: parse_word_def json_words_def starts_with_def)
  then show ?case unfolding reads_def by (auto simp del: parse_value.simps)
next
  case (3 i)
  then show ?case by (simp add: reads_int)
next
  case (5 s)
  have "parse_value fl (Suc 0) (dump (JStr s) @ r) = Some (JStr s, r)"
    by (simp add: dump_str_def str_body_dump)
  then show ?case unfolding reads_def by (auto simp del: parse_value.simps)
next
  case (6 vs)
  show ?case
  proof (cases vs)
    case Nil
    have "parse_value fl (Suc 0) (dump (JList []) @ r) = Some (JList [], r)"
      by (simp add: skip_ws_def json_ws_def starts_with_def Let_def)
    then show ?thesis unfolding reads_def Nil by (auto simp del: parse_value.simps)
  next
    case (Cons w ws)
    from 6 Cons dump_start [of w] obtain c t where "dump w = c # t" "starter c" by auto
    then have "\<exists>u. join_on (CHR '','') (map dump vs) @ CHR '']'' # r = c # u" "starter c"
      using Cons by (cases ws; simp)+
    moreover have "reads_elements fl (join_on (CHR '','') (map dump vs) @ CHR '']'' # r) (map canon vs) r"
      using 6 Cons by (intro reads_dump_elements) (auto simp: list_all_iff)
    ultimately show ?thesis by (auto simp: starter_skip intro: reads_list)
  qed
next
  case (7 kvs)
  show ?case
  proof (cases kvs)
    case Nil
    have "parse_value fl (Suc 0) (dump (JObj []) @ r) = Some (JObj [], r)"
      by (simp add: skip_ws_def json_ws_def starts_with_def Let_def)
    then show ?thesis unfolding reads_def Nil by (auto simp del: parse_value.simps)
  next
    case (Cons w ws)
    let ?s = "sort_key fst kvs"
    have ne: "?s \<noteq> []" using Cons by (simp add: sort_key_empty)
    then obtain k v ms where m: "?s = (k, v) # ms" by (cases ?s) auto
    let ?t = "join_on (CHR '','') (map member_text ?s) @ CHR ''}'' # r"
    have "\<exists>u. ?t = CHR 0x22 # u" using m by (cases ms) (simp_all add: member_text_def dump_str_def)
    moreover have "starter (CHR 0x22)" by (simp add: starter_def json_ws_def Let_def)
    ultimately have t: "skip_ws ?t = ?t" "\<not> starts_with ''}'' ?t" using starter_skip by metis+
    have "reads_members fl [] ?t ([] @ map (\<lambda>(k, v). (k, canon v)) ?s) r"
    proof (rule reads_dump_members [OF ne])
      show "reads fl (dump v @ r) (canon v) r" if "(k, v) \<in> set ?s" "json_end r" for k v r
        using "7.IH" [of "(k, v)" k v r] "7.prems"(1) that by (auto simp: list_all_iff)
      show "list_all (\<lambda>(k, v). plain_json v) ?s" using "7.prems"(1) by (auto simp: list_all_iff)
      show "distinct (map fst [] @ map fst ?s)" using "7.prems"(1) by (simp add: distinct_map)
    qed
    from reads_obj [OF this t] show ?thesis unfolding dump_obj canon.simps sort_key_pairs by simp
  qed
qed simp

text \<open>Reading canonical text gives the value back, with its members sorted.\<close>

lemma loads_dump: "plain_json v \<Longrightarrow> loads fl (dump v) = Some (canon v)"
proof -
  assume v: "plain_json v"
  from dump_start [OF v] obtain c t where "dump v = c # t" "starter c" by blast
  then have "skip_ws (dump v) = dump v" by (simp add: starter_skip)
  moreover have "reads fl (dump v @ []) (canon v) []" by (rule reads_dump [OF v]) (simp add: json_end_def)
  moreover have "skip_ws [] = []" by (simp add: skip_ws_def)
  ultimately show ?thesis by (auto simp: loads_reads)
qed

text \<open>Canonical text determines the value up to the order of members.\<close>

lemma dump_inj: "plain_json v \<Longrightarrow> plain_json w \<Longrightarrow> dump v = dump w \<Longrightarrow> canon v = canon w"
  by (metis loads_dump option.inject)

end
