(* ===== verification/SealedState.thy ===== *)
theory SealedState
  imports JsonText
begin

section \<open>Exported state with a hash\<close>

text \<open>
  The invalidator and the ledgers export their state as one canonical JSON text, an object whose
  member \<open>state_sha256\<close> is the hash of the canonical text of the other members, and read it back
  with the same test. \<open>H\<close> is the hexadecimal SHA-256 of a text in UTF-8, \<open>fl\<close> the reading of
  floats of \<open>JsonText\<close>.
\<close>

text \<open>\<open>json.dumps({**payload, "state_sha256": ...})\<close>\<close>

definition seal :: "(string \<Rightarrow> string) \<Rightarrow> (string \<times> json) list \<Rightarrow> string" where
  "seal H kvs = dump (JObj (kvs @ [(''state_sha256'', JStr (H (dump (JObj kvs))))]))"

text \<open>What \<open>payload = json.loads(text)\<close> and \<open>payload.pop("state_sha256")\<close> give: the members
  without the hash, and the hash; \<open>TypeError\<close> for a list, \<open>AttributeError\<close> for a value without
  \<open>pop\<close>.\<close>

definition unseal :: "(string \<Rightarrow> string) \<Rightarrow> string \<Rightarrow> ((string \<times> json) list \<times> json) res" where
  "unseal fl text = (case loads fl text of
     None \<Rightarrow> raise ValueError ''''
   | Some (JObj kvs) \<Rightarrow> (case map_of kvs ''state_sha256'' of
         None \<Rightarrow> raise KeyError ''state_sha256''
       | Some h \<Rightarrow> Inr (filter (\<lambda>(k, v). k \<noteq> ''state_sha256'') kvs, h))
   | Some (JList _) \<Rightarrow> raise TypeError ''''
   | Some _ \<Rightarrow> raise AttributeError ''pop'')"

text \<open>A payload as the exporters build it\<close>

definition sealable :: "(string \<times> json) list \<Rightarrow> bool" where
  "sealable kvs \<longleftrightarrow> plain_json (JObj kvs) \<and> ''state_sha256'' \<notin> fst ` set kvs"

definition canon_members :: "(string \<times> json) list \<Rightarrow> (string \<times> json) list" where
  "canon_members kvs = sort_key fst (map (\<lambda>(k, v). (k, canon v)) kvs)"

lemma canon_obj: "canon (JObj kvs) = JObj (canon_members kvs)"
  by (simp add: canon_members_def)

lemma dump_canon: "dump (canon v) = dump v"
proof (induction v rule: dump.induct)
  case (6 vs)
  then have "map dump (map canon vs) = map dump vs" by simp
  then show ?case by (simp only: canon.simps dump.simps)
next
  case (7 kvs)
  have m: "map (\<lambda>(k, v). (k, dump v)) (map (\<lambda>(k, v). (k, canon v)) kvs) = map (\<lambda>(k, v). (k, dump v)) kvs"
    using 7 by auto
  have "sort_key fst (map (\<lambda>(k, v). (k, dump v)) (sort_key fst (map (\<lambda>(k, v). (k, canon v)) kvs))) =
      sort_key fst (map (\<lambda>(k, v). (k, dump v)) kvs)"
    unfolding sort_key_pairs [symmetric] m by (simp add: sort_key_id_if_sorted)
  then show ?case by (simp add: case_prod_unfold)
qed simp_all

lemma map_of_sorted: "distinct (map fst kvs) \<Longrightarrow> map_of (sort_key fst kvs) = map_of kvs"
  by (intro map_of_inject_set [THEN iffD2]) (simp_all add: distinct_map)

lemma map_of_canon: "map_of (map (\<lambda>(k, v). (k, canon v)) kvs) k = map_option canon (map_of kvs k)"
  by (induction kvs) auto

lemma map_of_canon_members:
  "distinct (map fst kvs) \<Longrightarrow> map_of (canon_members kvs) k = map_option canon (map_of kvs k)"
proof -
  assume d: "distinct (map fst kvs)"
  have "map fst (map (\<lambda>(k, v). (k, canon v)) kvs) = map fst kvs" by (induction kvs) auto
  then have "distinct (map fst (map (\<lambda>(k, v). (k, canon v)) kvs))" using d by (simp only:)
  from map_of_sorted [OF this] show ?thesis by (simp only: canon_members_def map_of_canon)
qed

lemma unseal_seal:
  assumes "sealable kvs"
  shows "unseal fl (seal H kvs) = Inr (canon_members kvs, JStr (H (dump (JObj kvs))))"
proof -
  let ?h = "(''state_sha256'', JStr (H (dump (JObj kvs))))"
  have p: "plain_json (JObj (kvs @ [?h]))" using assms by (auto simp: sealable_def)
  then have d: "distinct (map fst (kvs @ [?h]))" by (simp only: plain_json.simps)
  have l: "loads fl (seal H kvs) = Some (JObj (canon_members (kvs @ [?h])))"
    unfolding seal_def canon_obj [symmetric] by (rule loads_dump [OF p])
  have "map_of kvs ''state_sha256'' = None" using assms by (simp add: sealable_def map_of_eq_None_iff)
  then have h: "map_of (canon_members (kvs @ [?h])) ''state_sha256'' = Some (JStr (H (dump (JObj kvs))))"
    unfolding map_of_canon_members [OF d] map_of_append map_add_def by simp
  have "filter (\<lambda>(k, v). k \<noteq> ''state_sha256'') (map (\<lambda>(k, v). (k, canon v)) kvs) = map (\<lambda>(k, v). (k, canon v)) kvs"
    using assms by (force simp: sealable_def filter_id_conv)
  then have "filter (\<lambda>(k, v). k \<noteq> ''state_sha256'') (canon_members (kvs @ [?h])) = canon_members kvs"
    by (simp add: canon_members_def filter_sort)
  then show ?thesis using l h by (simp add: unseal_def)
qed

lemma dump_canon_members: "dump (JObj (canon_members kvs)) = dump (JObj kvs)"
  using dump_canon [of "JObj kvs"] by (simp only: canon_obj)

text \<open>Reading the members of a canonical object\<close>

lemma field_canon: "plain_json v \<Longrightarrow> field k (canon v) = map_option canon (field k v)"
proof (cases v)
  case (JObj kvs)
  assume "plain_json v"
  then have "distinct (map fst kvs)" by (simp add: JObj)
  then show ?thesis unfolding JObj canon_obj field_def by (simp add: map_of_canon_members)
qed (simp_all add: field_def)

lemma has_keys_canon: "has_keys ks (canon v) = has_keys ks v"
proof (cases v)
  case (JObj kvs)
  have "fst ` set (canon_members kvs) = fst ` set kvs" by (force simp: canon_members_def)
  then show ?thesis unfolding JObj canon_obj has_keys_def by simp
qed (simp_all add: has_keys_def)

lemma canon_enc_opt [simp]: "canon (enc_opt x) = enc_opt x"
  by (cases x) (simp_all add: enc_opt_def)

lemma canon_enc_strs [simp]: "canon (enc_strs xs) = enc_strs xs"
  by (simp add: enc_strs_def)

lemma plain_enc [simp]: "plain_json (enc_opt x)" "plain_json (enc_strs xs)"
  by (simp_all add: enc_opt_def enc_strs_def list_all_iff split: option.splits)

lemma decode_all_canon:
  "(\<And>x. x \<in> set xs \<Longrightarrow> f (canon (g x)) = f (g x)) \<Longrightarrow> decode_all f (map canon (map g xs)) = decode_all f (map g xs)"
  by (induction xs) (auto split: option.splits)

end
