(* ===== verification/CapabilityInvalidation.thy ===== *)
theory CapabilityInvalidation
  imports CapabilityProfile SealedState
begin

section \<open>Invalidation of capability evidence (capability_invalidation.py)\<close>

text \<open>
  Evidence records, tombstones and the invalidator with its two dictionaries. Every operation
  returns its result together with the state, because some of them change the state and raise.
  \<open>H\<close> is the hexadecimal SHA-256 of a text in UTF-8.
\<close>

datatype invalidation_reason = Inv_STALE | Inv_PROVIDER_UPGRADE | Inv_HEALTH_CHANGE | Inv_CONFLICT
  | Inv_CROSS_PROJECT | Inv_REPLAY | Inv_SUPERSEDED

fun invalidation_reason_value :: "invalidation_reason \<Rightarrow> string" where
  "invalidation_reason_value Inv_STALE = ''STALE''"
| "invalidation_reason_value Inv_PROVIDER_UPGRADE = ''PROVIDER_UPGRADE''"
| "invalidation_reason_value Inv_HEALTH_CHANGE = ''HEALTH_CHANGE''"
| "invalidation_reason_value Inv_CONFLICT = ''CONFLICT''"
| "invalidation_reason_value Inv_CROSS_PROJECT = ''CROSS_PROJECT''"
| "invalidation_reason_value Inv_REPLAY = ''REPLAY''"
| "invalidation_reason_value Inv_SUPERSEDED = ''SUPERSEDED''"

definition invalidation_reason_of :: "json \<Rightarrow> invalidation_reason option" where
  "invalidation_reason_of v = map_of (map (\<lambda>r. (JStr (invalidation_reason_value r), r))
     [Inv_STALE, Inv_PROVIDER_UPGRADE, Inv_HEALTH_CHANGE, Inv_CONFLICT, Inv_CROSS_PROJECT, Inv_REPLAY, Inv_SUPERSEDED]) v"

record capability_evidence =
  ce_profile :: capability_profile
  ce_provider_state_sha256 :: string
  ce_health_generation :: int
  ce_recorded_at :: string

definition evidence_to_dict :: "capability_evidence \<Rightarrow> json" where
  "evidence_to_dict e = JObj [
     (''profile'', profile_to_dict (ce_profile e)),
     (''provider_state_sha256'', JStr (ce_provider_state_sha256 e)),
     (''health_generation'', JInt (ce_health_generation e)),
     (''recorded_at'', JStr (ce_recorded_at e))]"

abbreviation inv_check :: "bool \<Rightarrow> string \<Rightarrow> unit res" where
  "inv_check b m \<equiv> raise_if b CapabilityInvalidationError m"

abbreviation inv_error :: "string \<Rightarrow> 'a res" where
  "inv_error m \<equiv> raise CapabilityInvalidationError m"

text \<open>\<open>except CapabilityProfileError as exc: raise CapabilityInvalidationError(str(exc))\<close>\<close>

definition as_invalidation :: "'a res \<Rightarrow> 'a res" where
  "as_invalidation r = rethrow (\<lambda>k. k = CapabilityProfileError) CapabilityInvalidationError [] r"

definition evidence_validate :: "(string \<Rightarrow> string) \<Rightarrow> capability_evidence \<Rightarrow> unit res" where
  "evidence_validate H e = steps [
     profile_validate H (ce_profile e),
     inv_check (\<not> sha256_match (ce_provider_state_sha256 e)) ''provider_state_sha256 is invalid'',
     inv_check (ce_health_generation e < 0) ''health_generation must not be negative'',
     as_invalidation (validate_at H (ce_profile e) (ce_recorded_at e))]"

record invalidation_record =
  ir_project_id :: string
  ir_provider_id :: string
  ir_profile_id :: string
  ir_profile_sha256 :: string
  ir_reason :: invalidation_reason
  ir_invalidated_at :: string

definition invalidation_to_dict :: "invalidation_record \<Rightarrow> json" where
  "invalidation_to_dict r = JObj [
     (''project_id'', JStr (ir_project_id r)),
     (''provider_id'', JStr (ir_provider_id r)),
     (''profile_id'', JStr (ir_profile_id r)),
     (''profile_sha256'', JStr (ir_profile_sha256 r)),
     (''reason'', JStr (invalidation_reason_value (ir_reason r))),
     (''invalidated_at'', JStr (ir_invalidated_at r))]"

text \<open>The module's \<open>_validate_timestamp\<close>: no pattern, only \<open>strptime\<close>\<close>

definition check_timestamp :: "string \<Rightarrow> unit res" where
  "check_timestamp v = inv_check (strptime v = None) ''timestamp is invalid''"

definition invalidation_validate :: "invalidation_record \<Rightarrow> unit res" where
  "invalidation_validate r = steps [
     inv_check (\<not> starts_with ''project-'' (ir_project_id r) \<or> ir_provider_id r = [] \<or> ir_profile_id r = [])
       ''invalidation binding is invalid'',
     inv_check (\<not> sha256_match (ir_profile_sha256 r)) ''profile_sha256 is invalid'',
     check_timestamp (ir_invalidated_at r)]"

subsection \<open>The invalidator\<close>

type_synonym evidence_key = "string \<times> string \<times> string"

record invalidator =
  iv_records :: "(evidence_key \<times> capability_evidence) list"
  iv_invalidated :: "(string \<times> invalidation_record) list"

definition new_invalidator :: invalidator where
  "new_invalidator = \<lparr>iv_records = [], iv_invalidated = []\<rparr>"

definition evidence_key :: "capability_evidence \<Rightarrow> evidence_key" where
  "evidence_key e = (cp_project_id (ce_profile e), cp_provider_id (ce_profile e), cp_profile_id (ce_profile e))"

abbreviation evidence_hash :: "capability_evidence \<Rightarrow> string" where
  "evidence_hash e \<equiv> cp_profile_sha256 (ce_profile e)"

abbreviation tombstoned :: "string \<Rightarrow> invalidator \<Rightarrow> bool" where
  "tombstoned h s \<equiv> map_of (iv_invalidated s) h \<noteq> None"

definition tombstone :: "capability_evidence \<Rightarrow> invalidation_reason \<Rightarrow> string \<Rightarrow> invalidation_record" where
  "tombstone e reason at = \<lparr>ir_project_id = cp_project_id (ce_profile e), ir_provider_id = cp_provider_id (ce_profile e),
     ir_profile_id = cp_profile_id (ce_profile e), ir_profile_sha256 = evidence_hash e, ir_reason = reason,
     ir_invalidated_at = at\<rparr>"

definition bury :: "string \<Rightarrow> invalidation_record \<Rightarrow> invalidator \<Rightarrow> invalidator" where
  "bury h r s = s\<lparr>iv_invalidated := dict_set h r (iv_invalidated s)\<rparr>"

definition invalidate ::
    "(string \<Rightarrow> string) \<Rightarrow> capability_evidence \<Rightarrow> invalidation_reason \<Rightarrow> string \<Rightarrow> invalidator \<Rightarrow> invalidation_record res \<times> invalidator" where
  "invalidate H e reason at s = (let r = tombstone e reason at in
     case steps [evidence_validate H e, invalidation_validate r] of
       Inl x \<Rightarrow> (Inl x, s)
     | Inr _ \<Rightarrow> (Inr r, bury (evidence_hash e) r s))"

definition record_evidence :: "(string \<Rightarrow> string) \<Rightarrow> capability_evidence \<Rightarrow> invalidator \<Rightarrow> unit res \<times> invalidator" where
  "record_evidence H e s = (case evidence_validate H e of
     Inl x \<Rightarrow> (Inl x, s)
   | Inr _ \<Rightarrow>
       if tombstoned (evidence_hash e) s then (inv_error ''invalidated evidence cannot be resurrected'', s)
       else (case map_of (iv_records s) (evidence_key e) of
           None \<Rightarrow> (Inr (), s\<lparr>iv_records := dict_set (evidence_key e) e (iv_records s)\<rparr>)
         | Some previous \<Rightarrow>
             if cp_profile_version (ce_profile e) \<le> cp_profile_version (ce_profile previous)
             then (if evidence_hash e \<noteq> evidence_hash previous
               then (inv_error ''conflicting profile evidence was invalidated'',
                 bury (evidence_hash e) (tombstone e Inv_CONFLICT (ce_recorded_at e)) s)
               else (inv_error ''profile version must advance monotonically'', s))
             else (case invalidate H previous Inv_SUPERSEDED (ce_recorded_at e) s of
                 (Inl x, s') \<Rightarrow> (Inl x, s')
               | (Inr _, s') \<Rightarrow> (Inr (), s'\<lparr>iv_records := dict_set (evidence_key e) e (iv_records s')\<rparr>))))"

text \<open>The generator of \<open>invalidate_provider\<close>: evidence already treated stays invalidated when a
  later one raises.\<close>

fun invalidate_each ::
    "(string \<Rightarrow> string) \<Rightarrow> invalidation_reason \<Rightarrow> string \<Rightarrow> capability_evidence list \<Rightarrow> invalidator \<Rightarrow> invalidation_record list res \<times> invalidator" where
  "invalidate_each H reason at [] s = (Inr [], s)"
| "invalidate_each H reason at (e # es) s = (case invalidate H e reason at s of
     (Inl x, s') \<Rightarrow> (Inl x, s')
   | (Inr r, s') \<Rightarrow> (case invalidate_each H reason at es s' of
       (Inl x, s'') \<Rightarrow> (Inl x, s'')
     | (Inr rs, s'') \<Rightarrow> (Inr (r # rs), s'')))"

definition invalidate_provider ::
    "(string \<Rightarrow> string) \<Rightarrow> string \<Rightarrow> string \<Rightarrow> string \<Rightarrow> invalidation_reason \<Rightarrow> invalidator \<Rightarrow> invalidation_record list res \<times> invalidator" where
  "invalidate_provider H provider state_sha at reason s =
     (if length state_sha \<noteq> 64 then (inv_error ''provider_state_sha256 is invalid'', s)
      else invalidate_each H reason at
        (filter (\<lambda>e. cp_provider_id (ce_profile e) = provider \<and> ce_provider_state_sha256 e \<noteq> state_sha) (map snd (iv_records s))) s)"

text \<open>\<open>self.invalidate(...)\<close>, then \<open>raise CapabilityInvalidationError(m)\<close>\<close>

definition invalidate_and_raise ::
    "(string \<Rightarrow> string) \<Rightarrow> capability_evidence \<Rightarrow> invalidation_reason \<Rightarrow> string \<Rightarrow> string \<Rightarrow> invalidator \<Rightarrow> bool res \<times> invalidator" where
  "invalidate_and_raise H e reason at m s = (case invalidate H e reason at s of
     (Inl x, s') \<Rightarrow> (Inl x, s') | (Inr _, s') \<Rightarrow> (inv_error m, s'))"

definition eligible ::
    "(string \<Rightarrow> string) \<Rightarrow> capability_evidence \<Rightarrow> string \<Rightarrow> string \<Rightarrow> int \<Rightarrow> string \<Rightarrow> invalidator \<Rightarrow> bool res \<times> invalidator" where
  "eligible H e project state_sha generation now s =
     (case steps [evidence_validate H e,
         as_invalidation (validate_binding (ce_profile e) project (cp_provider_id (ce_profile e)))] of
        Inl x \<Rightarrow> (Inl x, s)
      | Inr _ \<Rightarrow>
          if tombstoned (evidence_hash e) s then (inv_error ''profile evidence is invalidated'', s)
          else (case validate_at H (ce_profile e) now of
              Inl (Exc k m) \<Rightarrow>
                if k \<noteq> CapabilityProfileError then (Inl (Exc k m), s)
                else if contains_text ''stale'' m then invalidate_and_raise H e Inv_STALE now m s
                else (inv_error m, s)
            | Inr _ \<Rightarrow>
                if ce_provider_state_sha256 e \<noteq> state_sha
                then invalidate_and_raise H e Inv_PROVIDER_UPGRADE now ''provider state changed'' s
                else if ce_health_generation e \<noteq> generation
                then invalidate_and_raise H e Inv_HEALTH_CHANGE now ''provider health generation changed'' s
                else (Inr True, s)))"

subsection \<open>Export and import\<close>

definition export_payload :: "invalidator \<Rightarrow> (string \<times> json) list" where
  "export_payload s = [(''schema_version'', JStr ''1.0''),
     (''records'', JList (map (evidence_to_dict \<circ> snd) (sort_key fst (iv_records s)))),
     (''tombstones'', JList (map (invalidation_to_dict \<circ> snd) (sort_key fst (iv_invalidated s))))]"

definition export_state :: "(string \<Rightarrow> string) \<Rightarrow> invalidator \<Rightarrow> string" where
  "export_state H s = seal H (export_payload s)"

text \<open>One entry of \<open>records\<close>; as in \<open>CapabilityProfile\<close>, a leaf of a wrong type is reported as a
  \<open>TypeError\<close>.\<close>

definition evidence_of :: "(string \<Rightarrow> string) \<Rightarrow> json \<Rightarrow> capability_evidence res" where
  "evidence_of H v =
     (case (field ''profile'' v, field ''provider_state_sha256'' v, field ''health_generation'' v, field ''recorded_at'' v) of
        (Some a, Some b, Some c, Some d) \<Rightarrow>
          and_then (replace_exc (\<lambda>k. is_value_error k \<or> k = TypeError \<or> k = KeyError) CapabilityInvalidationError
            ''invalidation evidence is invalid'' (profile_from_dict H a)) (\<lambda>p.
          (case (the_str b, the_int c, the_str d) of
             (Some b', Some c', Some d') \<Rightarrow> and_then
               (evidence_validate H \<lparr>ce_profile = p, ce_provider_state_sha256 = b', ce_health_generation = c', ce_recorded_at = d'\<rparr>)
               (\<lambda>_. Inr \<lparr>ce_profile = p, ce_provider_state_sha256 = b', ce_health_generation = c', ce_recorded_at = d'\<rparr>)
           | _ \<Rightarrow> raise TypeError ''''))
      | _ \<Rightarrow> inv_error ''invalidation evidence is invalid'')"

definition invalidation_of :: "json \<Rightarrow> invalidation_record res" where
  "invalidation_of v =
     (case (field ''project_id'' v, field ''provider_id'' v, field ''profile_id'' v, field ''profile_sha256'' v,
        Option.bind (field ''reason'' v) invalidation_reason_of, field ''invalidated_at'' v) of
        (Some a, Some b, Some c, Some d, Some r, Some t) \<Rightarrow>
          (case (the_str a, the_str b, the_str c, the_str d, the_str t) of
             (Some a', Some b', Some c', Some d', Some t') \<Rightarrow>
               (let x = \<lparr>ir_project_id = a', ir_provider_id = b', ir_profile_id = c', ir_profile_sha256 = d',
                  ir_reason = r, ir_invalidated_at = t'\<rparr> in and_then (invalidation_validate x) (\<lambda>_. Inr x))
           | _ \<Rightarrow> raise TypeError '''')
      | _ \<Rightarrow> inv_error ''invalidation tombstone is invalid'')"

definition open_state :: "(string \<Rightarrow> string) \<Rightarrow> (string \<Rightarrow> string) \<Rightarrow> string \<Rightarrow> (string \<times> json) list res" where
  "open_state H fl text = replace_exc (\<lambda>k. (is_value_error k \<or> k = TypeError \<or> k = KeyError) \<and> k \<noteq> CapabilityInvalidationError)
     CapabilityInvalidationError ''invalidation state is invalid''
     (and_then (unseal fl text) (\<lambda>(kvs, h).
        if h \<noteq> JStr (H (dump (JObj kvs))) then inv_error ''invalidation state hash is invalid''
        else if map_of kvs ''schema_version'' \<noteq> Some (JStr ''1.0'') \<or> Option.bind (map_of kvs ''tombstones'') the_list = None
        then inv_error ''invalidation state schema is invalid''
        else Inr kvs))"

definition from_state :: "(string \<Rightarrow> string) \<Rightarrow> (string \<Rightarrow> string) \<Rightarrow> string \<Rightarrow> invalidator res" where
  "from_state H fl text = and_then (open_state H fl text) (\<lambda>kvs.
     case Option.bind (map_of kvs ''records'') the_list of
       None \<Rightarrow> inv_error ''invalidation records are invalid''
     | Some rs \<Rightarrow> and_then (map_res (evidence_of H) rs) (\<lambda>es.
         and_then (map_res invalidation_of (the (Option.bind (map_of kvs ''tombstones'') the_list))) (\<lambda>ts.
           Inr \<lparr>iv_records = fold (\<lambda>e. dict_set (evidence_key e) e) es [],
             iv_invalidated = fold (\<lambda>r. dict_set (ir_profile_sha256 r) r) ts []\<rparr>)))"

definition invalidation_digest :: "(string \<Rightarrow> string) \<Rightarrow> invalidator \<Rightarrow> string" where
  "invalidation_digest H s = H (join_on (CHR ''|'') (map (\<lambda>(k, r).
     join_on (CHR '':'') [k, invalidation_reason_value (ir_reason r), ir_invalidated_at r]) (sort_key fst (iv_invalidated s))))"

subsection \<open>Valid evidence and valid tombstones\<close>

lemma as_invalidation_ok [simp]: "as_invalidation r = Inr x \<longleftrightarrow> r = Inr x"
  by (simp add: as_invalidation_def)

lemma as_invalidation_Inr [simp]: "as_invalidation (Inr x) = Inr x"
  by (simp add: as_invalidation_def)

lemma evidence_validate_ok:
  "evidence_validate H e = Inr () \<longleftrightarrow> profile_validate H (ce_profile e) = Inr () \<and>
     sha256_match (ce_provider_state_sha256 e) \<and> 0 \<le> ce_health_generation e \<and>
     validate_at H (ce_profile e) (ce_recorded_at e) = Inr ()"
  by (auto simp: evidence_validate_def steps_ok)

lemma profile_valid_ids:
  assumes "profile_validate H p = Inr ()"
  shows "starts_with ''project-'' (cp_project_id p)" "cp_provider_id p \<noteq> []" "cp_profile_id p \<noteq> []"
    "sha256_match (cp_profile_sha256 p)"
proof -
  have "cap_project_id (cp_project_id p)" "cap_id (cp_provider_id p)" "cap_id (cp_profile_id p)" "sha256_match (cp_profile_sha256 p)"
    using assms unfolding profile_validate_def steps_ok list.pred_inject raise_if_ok by (elim conjE; blast)+
  then show "starts_with ''project-'' (cp_project_id p)" "cp_provider_id p \<noteq> []" "cp_profile_id p \<noteq> []"
    "sha256_match (cp_profile_sha256 p)"
    by (auto simp: cap_project_id_def cap_id_def dest: id_match_nonempty) (simp add: id_match_def)
qed

lemma evidence_recorded_real: "evidence_validate H e = Inr () \<Longrightarrow> strptime (ce_recorded_at e) \<noteq> None"
  by (auto simp: evidence_validate_ok validate_at_ok is_stale_valid)

lemma tombstone_valid:
  assumes "evidence_validate H e = Inr ()"
  shows "invalidation_validate (tombstone e reason at) = Inr () \<longleftrightarrow> strptime at \<noteq> None"
  using profile_valid_ids [of H "ce_profile e"] assms
  by (auto simp: invalidation_validate_def steps_ok tombstone_def check_timestamp_def evidence_validate_ok)

lemma invalidate_valid:
  assumes "evidence_validate H e = Inr ()" "strptime at \<noteq> None"
  shows "invalidate H e reason at s = (Inr (tombstone e reason at), bury (evidence_hash e) (tombstone e reason at) s)"
proof -
  have "steps [evidence_validate H e, invalidation_validate (tombstone e reason at)] = Inr ()"
    using assms tombstone_valid [OF assms(1)] by (simp add: steps_ok)
  then show ?thesis by (simp add: invalidate_def Let_def)
qed

subsection \<open>The invariant\<close>

text \<open>Integers that \<open>json.dumps\<close> can print\<close>

definition small_int :: "int \<Rightarrow> bool" where
  "small_int i = (length (show_nat (nat \<bar>i\<bar>)) \<le> 4300)"

definition good_evidence :: "(string \<Rightarrow> string) \<Rightarrow> capability_evidence \<Rightarrow> bool" where
  "good_evidence H e \<longleftrightarrow> evidence_validate H e = Inr () \<and> small_int (cp_profile_version (ce_profile e)) \<and>
     small_int (ce_health_generation e)"

definition inv_ok :: "(string \<Rightarrow> string) \<Rightarrow> invalidator \<Rightarrow> bool" where
  "inv_ok H s \<longleftrightarrow> distinct (map fst (iv_records s)) \<and> distinct (map fst (iv_invalidated s)) \<and>
     (\<forall>(k, e) \<in> set (iv_records s). k = evidence_key e \<and> good_evidence H e) \<and>
     (\<forall>(h, r) \<in> set (iv_invalidated s). h = ir_profile_sha256 r \<and> invalidation_validate r = Inr ())"

lemma new_invalidator_ok: "inv_ok H new_invalidator"
  by (simp add: inv_ok_def new_invalidator_def)

lemma set_dict_set: "set (dict_set k v d) \<subseteq> insert (k, v) (set d)"
  by (induction d) auto

lemma inv_ok_record:
  assumes "inv_ok H s" "good_evidence H e"
  shows "inv_ok H (s\<lparr>iv_records := dict_set (evidence_key e) e (iv_records s)\<rparr>)"
  using assms set_dict_set [of "evidence_key e" e "iv_records s"]
  by (fastforce simp: inv_ok_def intro: distinct_update)

lemma inv_ok_bury:
  assumes "inv_ok H s" "invalidation_validate r = Inr ()" "h = ir_profile_sha256 r"
  shows "inv_ok H (bury h r s)"
  using assms set_dict_set [of h r "iv_invalidated s"]
  by (fastforce simp: inv_ok_def bury_def intro: distinct_update)

lemma tombstoned_bury [simp]: "tombstoned h (bury h' r s) \<longleftrightarrow> h = h' \<or> tombstoned h s"
  by (simp add: bury_def update_conv')

lemma bury_records [simp]: "iv_records (bury h r s) = iv_records s"
  by (simp add: bury_def)

lemma invalidate_cases:
  obtains x where "invalidate H e reason at s = (Inl x, s)"
  | "evidence_validate H e = Inr ()" "invalidation_validate (tombstone e reason at) = Inr ()"
    "invalidate H e reason at s = (Inr (tombstone e reason at), bury (evidence_hash e) (tombstone e reason at) s)"
proof (cases "steps [evidence_validate H e, invalidation_validate (tombstone e reason at)]")
  case (Inl x)
  then show ?thesis using that(1) by (simp add: invalidate_def)
next
  case (Inr u)
  then have "evidence_validate H e = Inr ()" "invalidation_validate (tombstone e reason at) = Inr ()" by (simp_all add: steps_ok)
  then show ?thesis using that(2) Inr by (simp add: invalidate_def Let_def)
qed

text \<open>What no operation undoes\<close>

definition later :: "invalidator \<Rightarrow> invalidator \<Rightarrow> bool" where
  "later s s' \<longleftrightarrow> (\<forall>h. tombstoned h s \<longrightarrow> tombstoned h s')"

lemma later_refl [simp]: "later s s"
  by (simp add: later_def)

lemma later_trans: "later s t \<Longrightarrow> later t u \<Longrightarrow> later s u"
  by (simp add: later_def)

lemma later_bury [simp]: "later s (bury h r s)"
  unfolding later_def tombstoned_bury by blast

lemma later_record [simp]: "later s (t\<lparr>iv_records := x\<rparr>) \<longleftrightarrow> later s t"
  by (simp add: later_def)

lemma invalidate_keeps:
  assumes "inv_ok H s"
  shows "inv_ok H (snd (invalidate H e reason at s)) \<and> later s (snd (invalidate H e reason at s))"
  by (rule invalidate_cases [of H e reason at s]) (use assms in \<open>auto intro!: inv_ok_bury simp: tombstone_def\<close>)

lemma invalidate_each_keeps:
  "inv_ok H s \<Longrightarrow> inv_ok H (snd (invalidate_each H reason at es s)) \<and> later s (snd (invalidate_each H reason at es s))"
proof (induction es arbitrary: s)
  case (Cons e es)
  obtain r s' where i: "invalidate H e reason at s = (r, s')" by fastforce
  then have "inv_ok H s' \<and> later s s'" using invalidate_keeps [OF Cons.prems, of e reason at] by simp
  moreover from this Cons.IH [of s'] have "inv_ok H (snd (invalidate_each H reason at es s')) \<and> later s (snd (invalidate_each H reason at es s'))"
    using later_trans by blast
  ultimately show ?case using i by (auto split: sum.splits prod.splits)
qed simp

lemma record_keeps:
  assumes "inv_ok H s" "small_int (cp_profile_version (ce_profile e))" "small_int (ce_health_generation e)"
  shows "inv_ok H (snd (record_evidence H e s)) \<and> later s (snd (record_evidence H e s))"
proof (cases "evidence_validate H e")
  case (Inr u)
  then have v: "evidence_validate H e = Inr ()" by simp
  have ge: "good_evidence H e" using v assms(2,3) by (simp add: good_evidence_def)
  have tv: "invalidation_validate (tombstone e Inv_CONFLICT (ce_recorded_at e)) = Inr ()"
    using tombstone_valid [OF v] evidence_recorded_real [OF v] by blast
  show ?thesis
  proof (cases "map_of (iv_records s) (evidence_key e)")
    case None
    then show ?thesis using v assms(1) inv_ok_record [OF assms(1) ge] by (auto simp: record_evidence_def)
  next
    case (Some previous)
    obtain r s' where i: "invalidate H previous Inv_SUPERSEDED (ce_recorded_at e) s = (r, s')" by fastforce
    then have s': "inv_ok H s' \<and> later s s'" using invalidate_keeps [OF assms(1), of previous Inv_SUPERSEDED "ce_recorded_at e"] by simp
    have "inv_ok H (bury (evidence_hash e) (tombstone e Inv_CONFLICT (ce_recorded_at e)) s)"
      using assms(1) tv by (intro inv_ok_bury) (simp_all add: tombstone_def)
    then show ?thesis using v Some i s' assms(1) inv_ok_record [OF _ ge, of s']
      by (auto simp: record_evidence_def split: sum.splits)
  qed
qed (use assms in \<open>simp add: record_evidence_def\<close>)

lemma eligible_keeps:
  assumes "inv_ok H s"
  shows "inv_ok H (snd (eligible H e project sha gen now s)) \<and> later s (snd (eligible H e project sha gen now s))"
proof -
  have r: "inv_ok H (snd (invalidate_and_raise H e reason at m s)) \<and> later s (snd (invalidate_and_raise H e reason at m s))" for reason at m
  proof -
    obtain x s' where "invalidate H e reason at s = (x, s')" by fastforce
    then show ?thesis using invalidate_keeps [OF assms, of e reason at] by (auto simp: invalidate_and_raise_def split: sum.splits)
  qed
  show ?thesis unfolding eligible_def using assms r by (auto split: sum.splits exc.splits)
qed

subsection \<open>Restart\<close>

lemma observation_canon:
  "observation_fields (canon (observation_to_dict c)) = observation_fields (observation_to_dict c)"
  "plain_json (observation_to_dict c)"
proof -
  show p: "plain_json (observation_to_dict c)" by (simp add: observation_to_dict_def)
  have "field ''name'' (observation_to_dict c) = Some (JStr (co_name c))"
    "field ''status'' (observation_to_dict c) = Some (JStr (capability_status_value (co_status c)))"
    "field ''value'' (observation_to_dict c) = Some (enc_opt (co_value c))"
    by (simp_all add: observation_to_dict_def field_def)
  then show "observation_fields (canon (observation_to_dict c)) = observation_fields (observation_to_dict c)"
    unfolding observation_fields_def field_canon [OF p] by simp
qed

lemma plain_profile: "small_int (cp_profile_version p) \<Longrightarrow> plain_json (profile_to_dict p)"
  by (simp add: profile_to_dict_def small_int_def list_all_iff observation_canon)

lemma profile_canon:
  assumes "small_int (cp_profile_version p)" "profile_validate H p = Inr ()"
  shows "profile_from_dict H (canon (profile_to_dict p)) = Inr p"
proof -
  note pl = plain_profile [OF assms(1)]
  obtain cs where cs: "decode_all observation_fields (map observation_to_dict (cp_capabilities p)) = Some cs"
    "decode_all observation_leaves cs = Some (cp_capabilities p)"
    using decode_all_two_stages [of observation_fields observation_to_dict observation_leaves, OF observation_roundtrip]
    by blast
  then have "decode_all observation_fields (map canon (map observation_to_dict (cp_capabilities p))) = Some cs"
    using decode_all_canon [of "cp_capabilities p" observation_fields observation_to_dict] observation_canon(1) by metis
  then have "profile_fields (canon (profile_to_dict p)) = Some cs"
    unfolding profile_fields_def field_canon [OF pl] by (simp add: profile_dict_fields tuple_of_def)
  moreover have "profile_leaves (canon (profile_to_dict p)) cs = Some p"
    using cs(2) unfolding profile_leaves_def field_canon [OF pl] by (simp add: profile_dict_fields)
  ultimately show ?thesis using assms(2) by (simp add: profile_from_dict_def has_keys_canon profile_has_keys)
qed

lemma evidence_collapse:
  "\<lparr>ce_profile = ce_profile e, ce_provider_state_sha256 = ce_provider_state_sha256 e,
     ce_health_generation = ce_health_generation e, ce_recorded_at = ce_recorded_at e\<rparr> = e"
  by simp

lemma invalidation_collapse:
  "\<lparr>ir_project_id = ir_project_id r, ir_provider_id = ir_provider_id r, ir_profile_id = ir_profile_id r,
     ir_profile_sha256 = ir_profile_sha256 r, ir_reason = ir_reason r, ir_invalidated_at = ir_invalidated_at r\<rparr> = r"
  by simp

lemma evidence_canon:
  assumes "good_evidence H e"
  shows "evidence_of H (canon (evidence_to_dict e)) = Inr e" "plain_json (evidence_to_dict e)"
proof -
  have e: "evidence_validate H e = Inr ()" "small_int (cp_profile_version (ce_profile e))" "small_int (ce_health_generation e)"
    "profile_validate H (ce_profile e) = Inr ()"
    using assms by (auto simp: good_evidence_def evidence_validate_ok)
  show pl: "plain_json (evidence_to_dict e)"
    using e(3) plain_profile [OF e(2)] by (simp add: evidence_to_dict_def small_int_def)
  have "field ''profile'' (evidence_to_dict e) = Some (profile_to_dict (ce_profile e))"
    "field ''provider_state_sha256'' (evidence_to_dict e) = Some (JStr (ce_provider_state_sha256 e))"
    "field ''health_generation'' (evidence_to_dict e) = Some (JInt (ce_health_generation e))"
    "field ''recorded_at'' (evidence_to_dict e) = Some (JStr (ce_recorded_at e))"
    by (simp_all add: evidence_to_dict_def field_def)
  then show "evidence_of H (canon (evidence_to_dict e)) = Inr e"
    unfolding evidence_of_def field_canon [OF pl] using profile_canon [OF e(2,4)] e(1)
    by (simp add: evidence_collapse)
qed

lemma invalidation_reason_of_value [simp]: "invalidation_reason_of (JStr (invalidation_reason_value r)) = Some r"
  by (cases r) (simp_all add: invalidation_reason_of_def)

lemma invalidation_canon:
  assumes "invalidation_validate r = Inr ()"
  shows "invalidation_of (canon (invalidation_to_dict r)) = Inr r" "plain_json (invalidation_to_dict r)"
proof -
  show pl: "plain_json (invalidation_to_dict r)" by (simp add: invalidation_to_dict_def)
  have "field ''project_id'' (invalidation_to_dict r) = Some (JStr (ir_project_id r))"
    "field ''provider_id'' (invalidation_to_dict r) = Some (JStr (ir_provider_id r))"
    "field ''profile_id'' (invalidation_to_dict r) = Some (JStr (ir_profile_id r))"
    "field ''profile_sha256'' (invalidation_to_dict r) = Some (JStr (ir_profile_sha256 r))"
    "field ''reason'' (invalidation_to_dict r) = Some (JStr (invalidation_reason_value (ir_reason r)))"
    "field ''invalidated_at'' (invalidation_to_dict r) = Some (JStr (ir_invalidated_at r))"
    by (simp_all add: invalidation_to_dict_def field_def)
  then show "invalidation_of (canon (invalidation_to_dict r)) = Inr r"
    unfolding invalidation_of_def field_canon [OF pl] using assms by (simp add: Let_def invalidation_collapse)
qed

lemma map_res_on: "(\<And>x. x \<in> set xs \<Longrightarrow> f (g x) = Inr x) \<Longrightarrow> map_res f (map g xs) = Inr xs"
  by (induction xs) auto

text \<open>Rebuilding a dictionary from its values\<close>

lemma fold_dict_set:
  "map_of (fold (\<lambda>v. dict_set (key v) v) vs d) k = (case find (\<lambda>v. key v = k) (rev vs) of Some v \<Rightarrow> Some v | None \<Rightarrow> map_of d k)"
proof (induction vs arbitrary: d)
  case (Cons v vs)
  have "find P (xs @ [x]) = (case find P xs of Some y \<Rightarrow> Some y | None \<Rightarrow> if P x then Some x else None)" for P xs and x :: 'a
    by (induction xs) auto
  with Cons show ?case by (auto simp: update_conv' split: option.splits)
qed simp

lemma distinct_fold_dict_set:
  "distinct (map fst d) \<Longrightarrow> distinct (map fst (fold (\<lambda>v. dict_set (key v) v) vs d))"
  by (induction vs arbitrary: d) (auto intro: distinct_update)

lemma set_fold_dict_set:
  "set (fold (\<lambda>v. dict_set (key v) v) vs d) \<subseteq> set d \<union> (\<lambda>v. (key v, v)) ` set vs"
proof (induction vs arbitrary: d)
  case (Cons v vs)
  then show ?case using set_dict_set [of "key v" v d] by fastforce
qed simp

lemma rebuild:
  assumes "distinct (map fst d)" "\<And>k v. (k, v) \<in> set d \<Longrightarrow> k = key v"
  shows "map_of (fold (\<lambda>v. dict_set (key v) v) (map snd (sort_key fst d)) []) = map_of d"
proof
  fix k
  let ?vs = "map snd (sort_key fst d)"
  have keys: "key v = k \<and> v \<in> set ?vs \<longleftrightarrow> (k, v) \<in> set d" for v k using assms(2) by force
  show "map_of (fold (\<lambda>v. dict_set (key v) v) ?vs []) k = map_of d k"
  proof (cases "map_of d k")
    case None
    then have "(k, v) \<notin> set d" for v by (force simp: map_of_eq_None_iff)
    then have "key v \<noteq> k" if "v \<in> set ?vs" for v using keys [of v k] that by blast
    then have "find (\<lambda>v. key v = k) (rev ?vs) = None" by (auto simp: find_None_iff)
    then show ?thesis using None by (simp add: fold_dict_set)
  next
    case (Some v)
    then have v: "(k, v) \<in> set d" by (rule map_of_SomeD)
    obtain w where w: "find (\<lambda>v. key v = k) (rev ?vs) = Some w"
      using v keys [of v k] by (cases "find (\<lambda>v. key v = k) (rev ?vs)") (auto simp: find_None_iff)
    then have "key w = k" "w \<in> set ?vs" by (auto simp: find_Some_iff) (metis length_map length_rev length_sort nth_mem rev_map set_map set_rev set_sort)+
    then have "(k, w) \<in> set d" using keys by blast
    then have "w = v" using v assms(1) by (metis map_of_is_SomeI option.inject)
    then show ?thesis using w Some by (simp add: fold_dict_set)
  qed
qed

lemma export_sealable:
  assumes "inv_ok H s"
  shows "sealable (export_payload s)"
proof -
  have "list_all plain_json (map (evidence_to_dict \<circ> snd) (sort_key fst (iv_records s)))"
    using assms evidence_canon(2) by (fastforce simp: list_all_iff inv_ok_def)
  moreover have "list_all plain_json (map (invalidation_to_dict \<circ> snd) (sort_key fst (iv_invalidated s)))"
    using assms invalidation_canon(2) by (fastforce simp: list_all_iff inv_ok_def)
  ultimately show ?thesis by (simp add: sealable_def export_payload_def)
qed

lemma import_export:
  assumes ok: "inv_ok H s"
  shows "\<exists>s'. from_state H fl (export_state H s) = Inr s' \<and> map_of (iv_records s') = map_of (iv_records s) \<and>
    map_of (iv_invalidated s') = map_of (iv_invalidated s) \<and> inv_ok H s'"
proof -
  let ?p = "export_payload s"
  let ?es = "map snd (sort_key fst (iv_records s))" and ?ts = "map snd (sort_key fst (iv_invalidated s))"
  have d: "distinct (map fst ?p)" by (simp add: export_payload_def)
  have lk: "map_of (canon_members ?p) ''schema_version'' = Some (JStr ''1.0'')"
    "map_of (canon_members ?p) ''records'' = Some (JList (map (canon \<circ> evidence_to_dict) ?es))"
    "map_of (canon_members ?p) ''tombstones'' = Some (JList (map (canon \<circ> invalidation_to_dict) ?ts))"
    by (simp_all add: map_of_canon_members [OF d]) (simp_all add: export_payload_def)
  have "open_state H fl (export_state H s) = Inr (canon_members ?p)"
    by (simp add: open_state_def export_state_def unseal_seal [OF export_sealable [OF ok]] dump_canon_members lk del: dump.simps)
  moreover have "map_res (evidence_of H) (map (canon \<circ> evidence_to_dict) ?es) = Inr ?es"
    using ok evidence_canon(1) by (intro map_res_on) (fastforce simp: inv_ok_def)
  moreover have "map_res invalidation_of (map (canon \<circ> invalidation_to_dict) ?ts) = Inr ?ts"
    using ok invalidation_canon(1) by (intro map_res_on) (fastforce simp: inv_ok_def)
  ultimately have f: "from_state H fl (export_state H s) =
      Inr \<lparr>iv_records = fold (\<lambda>e. dict_set (evidence_key e) e) ?es [],
        iv_invalidated = fold (\<lambda>r. dict_set (ir_profile_sha256 r) r) ?ts []\<rparr>" (is "_ = Inr ?s'")
    by (simp add: from_state_def lk)
  have m: "map_of (iv_records ?s') = map_of (iv_records s)" "map_of (iv_invalidated ?s') = map_of (iv_invalidated s)"
    using ok rebuild [of "iv_records s" evidence_key] rebuild [of "iv_invalidated s" ir_profile_sha256]
    by (auto simp: inv_ok_def)
  have "(k, e) \<in> set (iv_records ?s') \<Longrightarrow> k = evidence_key e \<and> good_evidence H e" for k e
    using ok set_fold_dict_set [of evidence_key ?es "[]"] by (fastforce simp: inv_ok_def)
  moreover have "(h, r) \<in> set (iv_invalidated ?s') \<Longrightarrow> h = ir_profile_sha256 r \<and> invalidation_validate r = Inr ()" for h r
    using ok set_fold_dict_set [of ir_profile_sha256 ?ts "[]"] by (fastforce simp: inv_ok_def)
  ultimately have "inv_ok H ?s'" by (auto simp: inv_ok_def intro!: distinct_fold_dict_set)
  with f m show ?thesis by blast
qed

subsection \<open>Histories\<close>

text \<open>One call of an operation, whatever it returns, or a restart from the exported text\<close>

inductive inv_step :: "(string \<Rightarrow> string) \<Rightarrow> (string \<Rightarrow> string) \<Rightarrow> invalidator \<Rightarrow> invalidator \<Rightarrow> bool" for H fl where
  step_record: "small_int (cp_profile_version (ce_profile e)) \<Longrightarrow> small_int (ce_health_generation e) \<Longrightarrow>
     inv_step H fl s (snd (record_evidence H e s))"
| step_invalidate: "inv_step H fl s (snd (invalidate H e reason at s))"
| step_provider: "inv_step H fl s (snd (invalidate_provider H provider state_sha at reason s))"
| step_eligible: "inv_step H fl s (snd (eligible H e project state_sha gen now s))"
| step_restart: "from_state H fl (export_state H s) = Inr s' \<Longrightarrow> inv_step H fl s s'"

lemma inv_step_keeps: "inv_step H fl s s' \<Longrightarrow> inv_ok H s \<Longrightarrow> inv_ok H s' \<and> later s s'"
proof (induction rule: inv_step.induct)
  case (step_record e s)
  then show ?case by (intro record_keeps)
next
  case (step_provider s provider state_sha at reason)
  then show ?case by (auto simp: invalidate_provider_def invalidate_each_keeps)
next
  case (step_restart s s')
  with import_export [of H s fl] show ?case by (auto simp: later_def)
qed (simp_all add: invalidate_keeps eligible_keeps)

lemma inv_steps_keep: "(inv_step H fl)\<^sup>*\<^sup>* s s' \<Longrightarrow> inv_ok H s \<Longrightarrow> inv_ok H s' \<and> later s s'"
proof (induction rule: rtranclp_induct)
  case (step t u)
  then show ?case using inv_step_keeps [of H fl t u] later_trans by blast
qed simp

subsection \<open>Properties\<close>

lemma eligible_True:
  "fst (eligible H e project state_sha gen now s) = Inr True \<longleftrightarrow>
     evidence_validate H e = Inr () \<and> cp_project_id (ce_profile e) = project \<and> \<not> tombstoned (evidence_hash e) s \<and>
     validate_at H (ce_profile e) now = Inr () \<and> ce_provider_state_sha256 e = state_sha \<and> ce_health_generation e = gen"
proof -
  have r: "fst (invalidate_and_raise H e reason at m s) \<noteq> Inr True" for reason at m
    by (auto simp: invalidate_and_raise_def raise_def split: sum.splits prod.splits)
  have st: "steps [evidence_validate H e, as_invalidation (validate_binding (ce_profile e) project (cp_provider_id (ce_profile e)))] = Inr u
      \<longleftrightarrow> evidence_validate H e = Inr () \<and> cp_project_id (ce_profile e) = project" for u
    by (simp add: steps_ok validate_binding_def)
  show ?thesis
  proof (cases "steps [evidence_validate H e, as_invalidation (validate_binding (ce_profile e) project (cp_provider_id (ce_profile e)))]")
    case (Inl x)
    then have "\<not> (evidence_validate H e = Inr () \<and> cp_project_id (ce_profile e) = project)" using st [of "()"] by auto
    then show ?thesis by (auto simp: eligible_def Inl)
  next
    case (Inr u)
    then have "evidence_validate H e = Inr () \<and> cp_project_id (ce_profile e) = project" using st by blast
    then show ?thesis using r unfolding eligible_def Inr
      by (auto simp: raise_def split: sum.splits exc.splits)
  qed
qed

subsection \<open>Evidence\<close>

definition sample_evidence :: "int \<Rightarrow> capability_evidence" where
  "sample_evidence n = \<lparr>ce_profile = sample_profile n, ce_provider_state_sha256 = replicate 64 (CHR ''0''),
     ce_health_generation = 0, ce_recorded_at = ''2024-01-15T00:00:00Z''\<rparr>"

lemma sample_evidence_valid: "0 < n \<Longrightarrow> evidence_validate zero_hash (sample_evidence n) = Inr ()"
  using sample_profile_valid [of n] sample_profile_stale [of n] sha256_zeros
  by (simp add: evidence_validate_ok validate_at_ok) (simp add: sample_evidence_def)

lemma sample_time: "strptime ''2024-01-15T00:00:00Z'' \<noteq> None"
  by code_simp

lemma sample_reach:
  "(inv_step zero_hash id)\<^sup>*\<^sup>* new_invalidator
     (snd (invalidate zero_hash (sample_evidence 1) Inv_STALE ''2024-01-15T00:00:00Z'' new_invalidator)) \<and>
   tombstoned (replicate 64 (CHR ''0'')) (snd (invalidate zero_hash (sample_evidence 1) Inv_STALE ''2024-01-15T00:00:00Z'' new_invalidator))"
proof
  show "(inv_step zero_hash id)\<^sup>*\<^sup>* new_invalidator
     (snd (invalidate zero_hash (sample_evidence 1) Inv_STALE ''2024-01-15T00:00:00Z'' new_invalidator))"
    by (rule r_into_rtranclp) (rule inv_step.step_invalidate)
  have "evidence_hash (sample_evidence 1) = replicate 64 (CHR ''0'')" by (simp add: sample_evidence_def sample_profile_def)
  then show "tombstoned (replicate 64 (CHR ''0'')) (snd (invalidate zero_hash (sample_evidence 1) Inv_STALE ''2024-01-15T00:00:00Z'' new_invalidator))"
    using sample_evidence_valid [of 1] sample_time by (simp add: invalidate_valid bury_def update_conv')
qed

text \<open>C22. Invalidated evidence stays invalidated through every later operation, also one that raises,
  and through restarts from the exported text: it is never recorded again and never eligible.\<close>

theorem tombstones_permanent:
  assumes "(inv_step H fl)\<^sup>*\<^sup>* new_invalidator s" and "tombstoned (evidence_hash e) s"
    and "(inv_step H fl)\<^sup>*\<^sup>* s s'"
  shows "tombstoned (evidence_hash e) s' \<and> fst (record_evidence H e s') \<noteq> Inr () \<and>
    fst (eligible H e project state_sha gen now s') \<noteq> Inr True"
proof -
  have "inv_ok H s" using inv_steps_keep [OF assms(1) new_invalidator_ok] by blast
  then have t: "tombstoned (evidence_hash e) s'" using inv_steps_keep [OF assms(3)] assms(2) by (simp add: later_def)
  then have "fst (record_evidence H e s') \<noteq> Inr ()" by (auto simp: record_evidence_def raise_def split: sum.splits)
  moreover have "fst (eligible H e project state_sha gen now s') \<noteq> Inr True" using t unfolding eligible_True by blast
  ultimately show ?thesis using t by blast
qed

theorem tombstones_permanent_witness:
  "fst (eligible zero_hash (sample_evidence 2) ''project-a'' (replicate 64 (CHR ''0'')) 0 ''2024-01-15T00:00:00Z''
     (snd (invalidate zero_hash (sample_evidence 1) Inv_STALE ''2024-01-15T00:00:00Z'' new_invalidator))) \<noteq> Inr True"
proof -
  have h: "evidence_hash (sample_evidence 2) = replicate 64 (CHR ''0'')" by (simp add: sample_evidence_def sample_profile_def)
  let ?s = "snd (invalidate zero_hash (sample_evidence 1) Inv_STALE ''2024-01-15T00:00:00Z'' new_invalidator)"
  have t: "tombstoned (evidence_hash (sample_evidence 2)) ?s" unfolding h using sample_reach by blast
  show ?thesis
    using tombstones_permanent [OF conjunct1 [OF sample_reach] t rtranclp.rtrancl_refl] by blast
qed

text \<open>C34. A restart loses nothing: reading the exported text back gives a state with the same evidence
  under every key and the same tombstone under every hash.\<close>

theorem restart_lossless:
  assumes "(inv_step H fl)\<^sup>*\<^sup>* new_invalidator s"
  shows "\<exists>s'. from_state H fl (export_state H s) = Inr s' \<and> map_of (iv_records s') = map_of (iv_records s) \<and>
    map_of (iv_invalidated s') = map_of (iv_invalidated s)"
  using import_export inv_steps_keep [OF assms new_invalidator_ok] by blast

theorem restart_lossless_witness:
  "\<exists>s'. from_state zero_hash id (export_state zero_hash (snd (invalidate zero_hash (sample_evidence 1) Inv_STALE ''2024-01-15T00:00:00Z'' new_invalidator)))
      = Inr s' \<and> tombstoned (replicate 64 (CHR ''0'')) s'"
  using restart_lossless [OF conjunct1 [OF sample_reach]] conjunct2 [OF sample_reach] by metis

text \<open>Evidence is eligible exactly when it is valid, belongs to the project, is not invalidated, has not
  expired at a real instant, and matches the provider's state and health generation.\<close>

theorem eligible_correct:
  "fst (eligible H e project state_sha gen now s) = Inr True \<longleftrightarrow>
     evidence_validate H e = Inr () \<and> cp_project_id (ce_profile e) = project \<and> \<not> tombstoned (evidence_hash e) s \<and>
     is_stale (ce_profile e) now = Inr False \<and> ce_provider_state_sha256 e = state_sha \<and> ce_health_generation e = gen"
  unfolding eligible_True by (auto simp: validate_at_ok evidence_validate_ok)

text \<open>New evidence gets through: evidence that is valid, not invalidated and of a higher version than
  what is held is recorded, is eligible at once, and what it replaces is invalidated.\<close>

theorem record_evidence_replaces:
  assumes "(inv_step H fl)\<^sup>*\<^sup>* new_invalidator s" and "evidence_validate H e = Inr ()"
    and "\<not> tombstoned (evidence_hash e) s" and "map_of (iv_records s) (evidence_key e) = Some old"
    and "cp_profile_version (ce_profile old) < cp_profile_version (ce_profile e)" and "evidence_hash old \<noteq> evidence_hash e"
  shows "\<exists>s'. record_evidence H e s = (Inr (), s') \<and> map_of (iv_records s') (evidence_key e) = Some e \<and>
    tombstoned (evidence_hash old) s' \<and>
    fst (eligible H e (cp_project_id (ce_profile e)) (ce_provider_state_sha256 e) (ce_health_generation e) (ce_recorded_at e) s') = Inr True"
proof -
  have "inv_ok H s" using inv_steps_keep [OF assms(1) new_invalidator_ok] by blast
  then have "evidence_validate H old = Inr ()"
    using map_of_SomeD [OF assms(4)] by (fastforce simp: inv_ok_def good_evidence_def)
  from invalidate_valid [OF this evidence_recorded_real [OF assms(2)]]
  have i: "invalidate H old Inv_SUPERSEDED (ce_recorded_at e) s =
      (Inr (tombstone old Inv_SUPERSEDED (ce_recorded_at e)), bury (evidence_hash old) (tombstone old Inv_SUPERSEDED (ce_recorded_at e)) s)" .
  let ?b = "bury (evidence_hash old) (tombstone old Inv_SUPERSEDED (ce_recorded_at e)) s"
  let ?s' = "?b\<lparr>iv_records := dict_set (evidence_key e) e (iv_records ?b)\<rparr>"
  have r: "record_evidence H e s = (Inr (), ?s')"
    using assms(2-5) i by (simp add: record_evidence_def)
  have t: "tombstoned h ?s' \<longleftrightarrow> h = evidence_hash old \<or> tombstoned h s" for h by (simp add: bury_def update_conv')
  have "\<not> tombstoned (evidence_hash e) ?s'" unfolding t using assms(3,6) by simp
  then have "fst (eligible H e (cp_project_id (ce_profile e)) (ce_provider_state_sha256 e) (ce_health_generation e) (ce_recorded_at e) ?s') = Inr True"
    unfolding eligible_True using assms(2) by (simp add: evidence_validate_ok)
  moreover have "map_of (iv_records ?s') (evidence_key e) = Some e" by (simp add: update_conv')
  ultimately show ?thesis using r t by blast
qed

text \<open>A hash that tells the two versions 1 and 7 of the sample profile apart\<close>

definition mark_hash :: "string \<Rightarrow> string" where
  "mark_hash s = replicate 64 (if CHR ''7'' \<in> set s then CHR ''7'' else CHR ''0'')"

definition marked_evidence :: capability_evidence where
  "marked_evidence = (sample_evidence 7)\<lparr>ce_profile := (sample_profile 7)\<lparr>cp_profile_sha256 := replicate 64 (CHR ''7'')\<rparr>\<rparr>"

lemma marked_dumps:
  "CHR ''7'' \<notin> set (dump (profile_to_dict ((sample_profile 1)\<lparr>cp_profile_sha256 := []\<rparr>)))"
  "CHR ''7'' \<in> set (dump (profile_to_dict ((sample_profile 7)\<lparr>cp_profile_sha256 := []\<rparr>)))"
  "CHR ''7'' \<notin> set ''measured''"
  by code_simp+

lemma marked_valid:
  "evidence_validate mark_hash (sample_evidence 1) = Inr ()" "evidence_validate mark_hash marked_evidence = Inr ()"
proof -
  have s: "sha256_match (replicate 64 (CHR ''7''))" by (simp add: sha256_match_def is_hex_def is_digit_def list_all_iff)
  have h: "mark_hash (dump (profile_to_dict ((sample_profile 1)\<lparr>cp_profile_sha256 := []\<rparr>))) = replicate 64 (CHR ''0'')"
    "mark_hash (dump (profile_to_dict ((sample_profile 7)\<lparr>cp_profile_sha256 := []\<rparr>))) = replicate 64 (CHR ''7'')"
    "mark_hash ''measured'' = replicate 64 (CHR ''0'')"
    using marked_dumps by (simp_all add: mark_hash_def)
  have p: "profile_validate mark_hash (sample_profile 1) = Inr ()"
    "profile_validate mark_hash ((sample_profile 7)\<lparr>cp_profile_sha256 := replicate 64 (CHR ''7'')\<rparr>) = Inr ()"
    using sample_profile_parts sha256_zeros s h
    by (simp_all add: profile_validate_def sample_profile_def steps_ok capability_profile_hash_def cap_timestamp_def check_expiry_def)
  have st: "is_stale ((sample_profile 7)\<lparr>cp_profile_sha256 := x\<rparr>) now = is_stale (sample_profile 7) now" for x now
    by (simp add: is_stale_def)
  show "evidence_validate mark_hash (sample_evidence 1) = Inr ()" "evidence_validate mark_hash marked_evidence = Inr ()"
    using p sha256_zeros sample_profile_stale
    by (simp_all add: evidence_validate_ok validate_at_ok sample_evidence_def marked_evidence_def st)
qed

theorem record_evidence_replaces_witness:
  "\<exists>s'. record_evidence mark_hash marked_evidence (snd (record_evidence mark_hash (sample_evidence 1) new_invalidator)) = (Inr (), s') \<and>
     map_of (iv_records s') (evidence_key marked_evidence) = Some marked_evidence \<and> tombstoned (evidence_hash (sample_evidence 1)) s'"
proof -
  let ?s = "snd (record_evidence mark_hash (sample_evidence 1) new_invalidator)"
  have k: "evidence_key marked_evidence = evidence_key (sample_evidence 1)"
    by (simp add: evidence_key_def marked_evidence_def sample_evidence_def sample_profile_def)
  have "small_int 1 \<and> small_int 0" by code_simp
  then have sm: "small_int (cp_profile_version (ce_profile (sample_evidence 1))) \<and> small_int (ce_health_generation (sample_evidence 1))"
    by (simp add: sample_evidence_def sample_profile_def)
  have r: "(inv_step mark_hash id)\<^sup>*\<^sup>* new_invalidator ?s"
    using sm by (intro r_into_rtranclp inv_step.step_record) simp_all
  have s: "?s = \<lparr>iv_records = [(evidence_key (sample_evidence 1), sample_evidence 1)], iv_invalidated = []\<rparr>"
    by (simp add: record_evidence_def marked_valid new_invalidator_def)
  have v: "cp_profile_version (ce_profile (sample_evidence 1)) < cp_profile_version (ce_profile marked_evidence)"
    "evidence_hash (sample_evidence 1) \<noteq> evidence_hash marked_evidence"
    by (simp_all add: marked_evidence_def sample_evidence_def sample_profile_def)
  have n: "\<not> tombstoned (evidence_hash marked_evidence) ?s" "map_of (iv_records ?s) (evidence_key marked_evidence) = Some (sample_evidence 1)"
    unfolding s k by simp_all
  from record_evidence_replaces [OF r marked_valid(2) n v] show ?thesis by blast
qed

end
