(* ===== verification/Campaign.thy ===== *)
theory Campaign
  imports StoreCell Timestamps CanonicalJson "HOL-Library.Monad_Syntax"
begin

section \<open>Campaigns and their store (campaign_runner.py)\<close>

text \<open>
  The durable state of a campaign with its validator and its JSON form, and the store with its one
  file: create, load, save, claim. The readings of the clock are arguments, one per call of
  \<open>now()\<close>. Locks and temporary files are not modelled: an operation of the store is one step. A
  leaf of a document whose JSON type is not the declared one is reported as a \<open>TypeError\<close>; the
  source accepts a lease owner or an event status that is no text, and booleans as numbers.
\<close>

datatype campaign_status = Camp_RUNNING | Camp_WAITING_CI | Camp_WAITING_REVIEW | Camp_WAITING_GITHUB
  | Camp_WAITING_ARTIFACT | Camp_WAITING_DEPLOYMENT | Camp_WAITING_PROVIDER | Camp_WAITING_EXTERNAL
  | Camp_RETRY_BACKOFF | Camp_COMPLETE | Camp_NO_JUSTIFIED_WORK | Camp_HUMAN_REQUIRED
  | Camp_BLOCKED_NON_RETRYABLE | Camp_CANCELLED

fun campaign_status_value :: "campaign_status \<Rightarrow> string" where
  "campaign_status_value Camp_RUNNING = ''RUNNING''"
| "campaign_status_value Camp_WAITING_CI = ''WAITING_CI''"
| "campaign_status_value Camp_WAITING_REVIEW = ''WAITING_REVIEW''"
| "campaign_status_value Camp_WAITING_GITHUB = ''WAITING_GITHUB''"
| "campaign_status_value Camp_WAITING_ARTIFACT = ''WAITING_ARTIFACT''"
| "campaign_status_value Camp_WAITING_DEPLOYMENT = ''WAITING_DEPLOYMENT''"
| "campaign_status_value Camp_WAITING_PROVIDER = ''WAITING_PROVIDER''"
| "campaign_status_value Camp_WAITING_EXTERNAL = ''WAITING_EXTERNAL''"
| "campaign_status_value Camp_RETRY_BACKOFF = ''RETRY_BACKOFF''"
| "campaign_status_value Camp_COMPLETE = ''COMPLETE''"
| "campaign_status_value Camp_NO_JUSTIFIED_WORK = ''NO_JUSTIFIED_WORK''"
| "campaign_status_value Camp_HUMAN_REQUIRED = ''HUMAN_REQUIRED''"
| "campaign_status_value Camp_BLOCKED_NON_RETRYABLE = ''BLOCKED_NON_RETRYABLE''"
| "campaign_status_value Camp_CANCELLED = ''CANCELLED''"

definition waiting_statuses :: "campaign_status list" where
  "waiting_statuses = [Camp_WAITING_CI, Camp_WAITING_REVIEW, Camp_WAITING_GITHUB, Camp_WAITING_ARTIFACT,
     Camp_WAITING_DEPLOYMENT, Camp_WAITING_PROVIDER, Camp_WAITING_EXTERNAL, Camp_RETRY_BACKOFF]"

definition campaign_terminal :: "campaign_status list" where
  "campaign_terminal = [Camp_COMPLETE, Camp_NO_JUSTIFIED_WORK, Camp_HUMAN_REQUIRED, Camp_BLOCKED_NON_RETRYABLE, Camp_CANCELLED]"

text \<open>\<open>CampaignStatus(v)\<close>\<close>

definition campaign_status_of :: "json \<Rightarrow> campaign_status option" where
  "campaign_status_of v = map_of (map (\<lambda>s. (JStr (campaign_status_value s), s))
     (Camp_RUNNING # waiting_statuses @ campaign_terminal)) v"

record campaign_event =
  cev_sequence :: int
  cev_event_type :: string
  cev_status :: string
  cev_timestamp :: string
  cev_summary :: string

record campaign_state =
  cs_schema_version :: string
  cs_campaign_id :: string
  cs_project_id :: string
  cs_session_id :: string
  cs_status :: campaign_status
  cs_phase :: string
  cs_reason :: "string option"
  cs_resource :: "string option"
  cs_expected_condition :: "string option"
  cs_created_at :: string
  cs_updated_at :: string
  cs_waiting_since :: "string option"
  cs_next_check_at :: "string option"
  cs_lease_owner :: "string option"
  cs_lease_expires_at :: "string option"
  cs_retry_count :: int
  cs_retry_budget :: int
  cs_operation_id :: string
  cs_target_sha :: string
  cs_lineage_binding :: string
  cs_wake_generation :: int
  cs_event_sequence :: int
  cs_events :: "campaign_event list"
  cs_policy_binding :: "string option"
  cs_authority_generation :: "int option"

subsection \<open>Validation\<close>

abbreviation camp_check :: "bool \<Rightarrow> string \<Rightarrow> unit res" where
  "camp_check b m \<equiv> raise_if b CampaignRunnerError m"

abbreviation camp_error :: "string \<Rightarrow> 'a res" where
  "camp_error m \<equiv> raise CampaignRunnerError m"

definition parse_timestamp :: "string \<Rightarrow> instant res" where
  "parse_timestamp v = (case strptime v of None \<Rightarrow> camp_error ''campaign timestamp is invalid'' | Some t \<Rightarrow> Inr t)"

definition check_time :: "string \<Rightarrow> unit res" where
  "check_time v = and_then (parse_timestamp v) (\<lambda>_. Inr ())"

definition check_opt :: "(string \<Rightarrow> unit res) \<Rightarrow> string option \<Rightarrow> unit res" where
  "check_opt f v = (case v of None \<Rightarrow> Inr () | Some w \<Rightarrow> f w)"

definition campaign_ident :: "string \<Rightarrow> string \<Rightarrow> bool" where
  "campaign_ident p v = (starts_with p v \<and> CHR ''/'' \<notin> set v \<and> CHR 0x5C \<notin> set v)"

text \<open>\<open>^[0-9a-f]{40}$\<close>\<close>

definition sha1_match :: "string \<Rightarrow> bool" where
  "sha1_match s = (length s = 40 \<and> list_all is_hex s)"

definition bad_text :: "string \<Rightarrow> bool" where
  "bad_text v = (blank v \<or> length v > 4000)"

definition event_validate :: "int \<times> campaign_event \<Rightarrow> unit res" where
  "event_validate = (\<lambda>(n, e). steps [
     camp_check (cev_sequence e \<noteq> n \<or> blank (cev_event_type e) \<or> blank (cev_summary e)) ''campaign event is invalid'',
     check_time (cev_timestamp e)])"

text \<open>\<open>not v\<close> for a text or \<open>None\<close>\<close>

definition unset :: "string option \<Rightarrow> bool" where
  "unset v = (v = None \<or> v = Some [])"

definition check_waiting :: "campaign_state \<Rightarrow> unit res" where
  "check_waiting s =
     (if cs_status s \<in> set waiting_statuses
      then steps [
        camp_check (unset (cs_reason s) \<or> unset (cs_resource s) \<or> unset (cs_expected_condition s))
          ''waiting campaign requires wake condition'',
        camp_check (unset (cs_waiting_since s) \<or> unset (cs_next_check_at s)) ''waiting campaign requires schedule'']
      else camp_check (cs_waiting_since s \<noteq> None \<or> cs_next_check_at s \<noteq> None)
        ''non-waiting campaign cannot retain wake schedule'')"

text \<open>The tests before those of the journal\<close>

definition campaign_front :: "campaign_state \<Rightarrow> unit res" where
  "campaign_front s = steps [
     camp_check (cs_schema_version s \<noteq> ''1.0'') ''campaign schema_version must be 1.0'',
     for_each (\<lambda>(l, v, p). camp_check (\<not> campaign_ident p v) (l @ '' is invalid''))
       [(''campaign_id'', cs_campaign_id s, ''campaign-''), (''project_id'', cs_project_id s, ''project-''),
        (''session_id'', cs_session_id s, ''session-''), (''operation_id'', cs_operation_id s, ''operation-'')],
     camp_check (bad_text (cs_phase s)) ''campaign phase is invalid'',
     check_opt (\<lambda>v. camp_check (bad_text v) ''campaign reason is invalid'') (cs_reason s),
     for_each (\<lambda>(l, v). check_opt (\<lambda>w. camp_check (bad_text w) (''campaign '' @ l @ '' is invalid'')) v)
       [(''resource'', cs_resource s), (''expected_condition'', cs_expected_condition s)],
     check_time (cs_created_at s),
     check_time (cs_updated_at s),
     check_opt check_time (cs_waiting_since s),
     check_opt check_time (cs_next_check_at s),
     check_opt check_time (cs_lease_expires_at s),
     camp_check ((cs_lease_owner s = None) \<noteq> (cs_lease_expires_at s = None)) ''campaign lease fields must be paired'',
     check_waiting s,
     camp_check (cs_retry_count s < 0) ''retry_count is invalid'',
     camp_check (\<not> (0 \<le> cs_retry_budget s \<and> cs_retry_budget s \<le> 1000)) ''retry_budget is invalid'',
     camp_check (cs_retry_count s > cs_retry_budget s) ''retry_count exceeds retry_budget'',
     camp_check (\<not> sha1_match (cs_target_sha s)) ''target_sha is invalid'',
     camp_check (blank (cs_lineage_binding s)) ''lineage_binding is invalid'',
     check_opt (\<lambda>v. camp_check (blank v) ''policy_binding is invalid'') (cs_policy_binding s),
     camp_check (case cs_authority_generation s of None \<Rightarrow> False | Some g \<Rightarrow> g < 1) ''authority_generation is invalid'',
     camp_check (cs_wake_generation s < 0) ''wake_generation is invalid'',
     camp_check (cs_event_sequence s < 0) ''event_sequence is invalid'']"

definition campaign_validate :: "campaign_state \<Rightarrow> unit res" where
  "campaign_validate s = steps [
     campaign_front s,
     camp_check (length (cs_events s) > 500 \<or> int (length (cs_events s)) \<noteq> cs_event_sequence s)
       ''campaign event journal is invalid'',
     for_each event_validate (zip [1..int (length (cs_events s))] (cs_events s))]"

subsection \<open>The JSON form\<close>

definition enc_int_opt :: "int option \<Rightarrow> json" where
  "enc_int_opt v = (case v of None \<Rightarrow> JNull | Some i \<Rightarrow> JInt i)"

definition campaign_event_to_dict :: "campaign_event \<Rightarrow> json" where
  "campaign_event_to_dict e = JObj [(''sequence'', JInt (cev_sequence e)), (''event_type'', JStr (cev_event_type e)),
     (''status'', JStr (cev_status e)), (''timestamp'', JStr (cev_timestamp e)), (''summary'', JStr (cev_summary e))]"

definition campaign_to_dict :: "campaign_state \<Rightarrow> json" where
  "campaign_to_dict s = JObj [
     (''schema_version'', JStr (cs_schema_version s)),
     (''campaign_id'', JStr (cs_campaign_id s)),
     (''project_id'', JStr (cs_project_id s)),
     (''session_id'', JStr (cs_session_id s)),
     (''status'', JStr (campaign_status_value (cs_status s))),
     (''phase'', JStr (cs_phase s)),
     (''reason'', enc_opt (cs_reason s)),
     (''resource'', enc_opt (cs_resource s)),
     (''expected_condition'', enc_opt (cs_expected_condition s)),
     (''created_at'', JStr (cs_created_at s)),
     (''updated_at'', JStr (cs_updated_at s)),
     (''waiting_since'', enc_opt (cs_waiting_since s)),
     (''next_check_at'', enc_opt (cs_next_check_at s)),
     (''lease_owner'', enc_opt (cs_lease_owner s)),
     (''lease_expires_at'', enc_opt (cs_lease_expires_at s)),
     (''retry_count'', JInt (cs_retry_count s)),
     (''retry_budget'', JInt (cs_retry_budget s)),
     (''operation_id'', JStr (cs_operation_id s)),
     (''target_sha'', JStr (cs_target_sha s)),
     (''lineage_binding'', JStr (cs_lineage_binding s)),
     (''wake_generation'', JInt (cs_wake_generation s)),
     (''event_sequence'', JInt (cs_event_sequence s)),
     (''events'', JList (map campaign_event_to_dict (cs_events s))),
     (''policy_binding'', enc_opt (cs_policy_binding s)),
     (''authority_generation'', enc_int_opt (cs_authority_generation s))]"

definition campaign_keys :: "string list" where
  "campaign_keys = [''schema_version'', ''campaign_id'', ''project_id'', ''session_id'', ''status'', ''phase'',
     ''reason'', ''resource'', ''expected_condition'', ''created_at'', ''updated_at'', ''waiting_since'',
     ''next_check_at'', ''lease_owner'', ''lease_expires_at'', ''retry_count'', ''retry_budget'', ''operation_id'',
     ''target_sha'', ''lineage_binding'', ''wake_generation'', ''event_sequence'', ''events'']"

text \<open>\<open>CampaignEvent(**item)\<close>: exactly the five fields\<close>

definition event_keys :: "string list" where
  "event_keys = [''sequence'', ''event_type'', ''status'', ''timestamp'', ''summary'']"

definition campaign_event_leaves :: "json \<Rightarrow> campaign_event option" where
  "campaign_event_leaves v = do {
     a \<leftarrow> Option.bind (field ''sequence'' v) the_int;
     b \<leftarrow> Option.bind (field ''event_type'' v) the_str;
     c \<leftarrow> Option.bind (field ''status'' v) the_str;
     d \<leftarrow> Option.bind (field ''timestamp'' v) the_str;
     e \<leftarrow> Option.bind (field ''summary'' v) the_str;
     Some \<lparr>cev_sequence = a, cev_event_type = b, cev_status = c, cev_timestamp = d, cev_summary = e\<rparr>}"

definition campaign_structure :: "json \<Rightarrow> (json list \<times> campaign_status) option" where
  "campaign_structure v = (if \<not> list_all (\<lambda>k. field k v \<noteq> None) campaign_keys then None else do {
     e \<leftarrow> field ''events'' v; es \<leftarrow> tuple_of e;
     _ \<leftarrow> (if list_all (has_keys event_keys) es then Some () else None);
     g \<leftarrow> field ''status'' v; st \<leftarrow> campaign_status_of g;
     Some (es, st)})"

definition campaign_leaves :: "json \<Rightarrow> json list \<times> campaign_status \<Rightarrow> campaign_state option" where
  "campaign_leaves v = (\<lambda>(es, st). do {
     a \<leftarrow> Option.bind (field ''schema_version'' v) the_str;
     b \<leftarrow> Option.bind (field ''campaign_id'' v) the_str;
     c \<leftarrow> Option.bind (field ''project_id'' v) the_str;
     d \<leftarrow> Option.bind (field ''session_id'' v) the_str;
     e \<leftarrow> Option.bind (field ''phase'' v) the_str;
     f \<leftarrow> Option.bind (field ''reason'' v) opt_str;
     g \<leftarrow> Option.bind (field ''resource'' v) opt_str;
     h \<leftarrow> Option.bind (field ''expected_condition'' v) opt_str;
     i \<leftarrow> Option.bind (field ''created_at'' v) the_str;
     j \<leftarrow> Option.bind (field ''updated_at'' v) the_str;
     k \<leftarrow> Option.bind (field ''waiting_since'' v) opt_str;
     l \<leftarrow> Option.bind (field ''next_check_at'' v) opt_str;
     m \<leftarrow> Option.bind (field ''lease_owner'' v) opt_str;
     n \<leftarrow> Option.bind (field ''lease_expires_at'' v) opt_str;
     p \<leftarrow> Option.bind (field ''retry_count'' v) the_int;
     q \<leftarrow> Option.bind (field ''retry_budget'' v) the_int;
     r \<leftarrow> Option.bind (field ''operation_id'' v) the_str;
     s \<leftarrow> Option.bind (field ''target_sha'' v) the_str;
     t \<leftarrow> Option.bind (field ''lineage_binding'' v) the_str;
     u \<leftarrow> Option.bind (field ''wake_generation'' v) the_int;
     w \<leftarrow> Option.bind (field ''event_sequence'' v) the_int;
     es' \<leftarrow> decode_all campaign_event_leaves es;
     x \<leftarrow> opt_str (field_or JNull ''policy_binding'' v);
     y \<leftarrow> opt_int (field_or JNull ''authority_generation'' v);
     Some \<lparr>cs_schema_version = a, cs_campaign_id = b, cs_project_id = c, cs_session_id = d, cs_status = st,
       cs_phase = e, cs_reason = f, cs_resource = g, cs_expected_condition = h, cs_created_at = i,
       cs_updated_at = j, cs_waiting_since = k, cs_next_check_at = l, cs_lease_owner = m,
       cs_lease_expires_at = n, cs_retry_count = p, cs_retry_budget = q, cs_operation_id = r,
       cs_target_sha = s, cs_lineage_binding = t, cs_wake_generation = u, cs_event_sequence = w,
       cs_events = es', cs_policy_binding = x, cs_authority_generation = y\<rparr>})"

definition campaign_from_dict :: "json \<Rightarrow> campaign_state res" where
  "campaign_from_dict v =
     (if \<not> is_dict v then camp_error ''campaign state is not an object''
      else if \<not> set (keys_of v) \<subseteq> set (campaign_keys @ [''policy_binding'', ''authority_generation''])
      then camp_error ''campaign schema is missing or contains unknown fields''
      else (case campaign_structure v of
        None \<Rightarrow> camp_error ''campaign state structure is invalid''
      | Some raw \<Rightarrow> (case campaign_leaves v raw of
          None \<Rightarrow> raise TypeError ''''
        | Some s \<Rightarrow> and_then (campaign_validate s) (\<lambda>_. Inr s))))"

subsection \<open>The store\<close>

text \<open>The campaign's file, and the two places where a retry that could not be saved is kept\<close>

record campaign_store =
  cm_project_id :: string
  cm_campaign_id :: string
  cm_file :: file_content
  cm_deferred :: file_content
  cm_legacy :: file_content

definition campaign_identity :: "campaign_store \<Rightarrow> campaign_state \<Rightarrow> unit res" where
  "campaign_identity st s = steps [
     campaign_validate s,
     camp_check (cs_project_id s \<noteq> cm_project_id st \<or> cs_campaign_id s \<noteq> cm_campaign_id st)
       ''campaign state identity does not match store'']"

definition campaign_load_unlocked :: "campaign_store \<Rightarrow> campaign_state option res" where
  "campaign_load_unlocked st = load_cell campaign_from_dict (Exc CampaignRunnerError ''campaign state cannot be read'') (cm_file st)"

definition campaign_save_unlocked :: "campaign_state \<Rightarrow> campaign_store \<Rightarrow> campaign_store" where
  "campaign_save_unlocked s st = st\<lparr>cm_file := Json (campaign_to_dict s)\<rparr>"

definition campaign_create :: "campaign_state \<Rightarrow> campaign_store \<Rightarrow> campaign_state res \<times> campaign_store" where
  "campaign_create s st = (case campaign_identity st s of
     Inl e \<Rightarrow> (Inl e, st)
   | Inr _ \<Rightarrow> (case campaign_load_unlocked st of
       Inl e \<Rightarrow> (Inl e, st)
     | Inr (Some t) \<Rightarrow> (if t = s then Inr t else camp_error ''campaign already exists with different content'', st)
     | Inr None \<Rightarrow> (Inr s, campaign_save_unlocked s st)))"

definition campaign_load :: "campaign_store \<Rightarrow> campaign_state res" where
  "campaign_load st = and_then (campaign_load_unlocked st) (\<lambda>r. case r of
     None \<Rightarrow> camp_error ''campaign state was not found'' | Some s \<Rightarrow> Inr s)"

definition campaign_save :: "campaign_state \<Rightarrow> campaign_store \<Rightarrow> campaign_state res \<times> campaign_store" where
  "campaign_save s st = (case campaign_identity st s of
     Inl e \<Rightarrow> (Inl e, st)
   | Inr _ \<Rightarrow> (case campaign_load st of
       Inl e \<Rightarrow> (Inl e, st)
     | Inr t \<Rightarrow>
         if cs_event_sequence s < cs_event_sequence t then (camp_error ''campaign event sequence regressed'', st)
         else if cs_event_sequence s = cs_event_sequence t \<and> s \<noteq> t then (camp_error ''campaign state changed concurrently'', st)
         else (Inr s, campaign_save_unlocked s st)))"

text \<open>The state as it is written by a claim; \<open>checked\<close> and \<open>at\<close> are the two readings of the clock.\<close>

definition claimed_by :: "string \<Rightarrow> instant \<Rightarrow> instant \<Rightarrow> campaign_state \<Rightarrow> campaign_state" where
  "claimed_by worker expiry at s = (let e = \<lparr>cev_sequence = cs_event_sequence s + 1, cev_event_type = ''WORK_CLAIM'',
       cev_status = campaign_status_value (cs_status s), cev_timestamp = show_time at,
       cev_summary = ''provider/work lease claimed''\<rparr> in
     s\<lparr>cs_lease_owner := Some worker, cs_lease_expires_at := Some (show_time expiry), cs_updated_at := cev_timestamp e,
       cs_event_sequence := cev_sequence e, cs_events := cs_events s @ [e]\<rparr>)"

definition claim_checks :: "string \<Rightarrow> string \<Rightarrow> instant res" where
  "claim_checks worker lease_expires_at =
     (if \<not> starts_with ''runner-'' worker \<or> CHR ''/'' \<in> set worker
      then camp_error ''campaign worker identity is invalid''
      else parse_timestamp lease_expires_at)"

text \<open>The campaign is leased and the lease has not expired.\<close>

definition live_lease :: "instant \<Rightarrow> campaign_state \<Rightarrow> bool res" where
  "live_lease checked s = (if cs_lease_owner s = None then Inr False
     else and_then (parse_timestamp (case cs_lease_expires_at s of None \<Rightarrow> [] | Some t \<Rightarrow> t)) (\<lambda>t. Inr (checked < t)))"

definition campaign_claim ::
    "string \<Rightarrow> string \<Rightarrow> instant \<Rightarrow> instant \<Rightarrow> campaign_store \<Rightarrow> campaign_state option res \<times> campaign_store" where
  "campaign_claim worker lease_expires_at checked at st = (case claim_checks worker lease_expires_at of
     Inl e \<Rightarrow> (Inl e, st)
   | Inr expiry \<Rightarrow> (case campaign_load st of
       Inl e \<Rightarrow> (Inl e, st)
     | Inr s \<Rightarrow>
         if cs_status s \<in> set campaign_terminal then (Inr None, st)
         else (case live_lease checked s of
             Inl e \<Rightarrow> (Inl e, st)
           | Inr True \<Rightarrow> (Inr None, st)
           | Inr False \<Rightarrow> (let c = claimed_by worker expiry at s in (Inr (Some c), campaign_save_unlocked c st)))))"

definition make_initial_state ::
    "string \<Rightarrow> string \<Rightarrow> string \<Rightarrow> string \<Rightarrow> string \<Rightarrow> string \<Rightarrow> string \<Rightarrow> int \<Rightarrow> instant \<Rightarrow> string option \<Rightarrow> int option \<Rightarrow> campaign_state res" where
  "make_initial_state project campaign session phase operation sha lineage budget now policy authority =
     (let s = \<lparr>cs_schema_version = ''1.0'', cs_campaign_id = campaign, cs_project_id = project, cs_session_id = session,
         cs_status = Camp_RUNNING, cs_phase = phase, cs_reason = None, cs_resource = None, cs_expected_condition = None,
         cs_created_at = show_time now, cs_updated_at = show_time now, cs_waiting_since = None, cs_next_check_at = None,
         cs_lease_owner = None, cs_lease_expires_at = None, cs_retry_count = 0, cs_retry_budget = budget,
         cs_operation_id = operation, cs_target_sha = sha, cs_lineage_binding = lineage, cs_wake_generation = 0,
         cs_event_sequence = 0, cs_events = [], cs_policy_binding = policy, cs_authority_generation = authority\<rparr>
      in and_then (campaign_validate s) (\<lambda>_. Inr s))"

subsection \<open>Reading back what was written\<close>

definition campaign_ok :: "campaign_state \<Rightarrow> bool" where
  "campaign_ok s \<longleftrightarrow> campaign_validate s = Inr ()"

lemma campaign_status_of_value [simp]: "campaign_status_of (JStr (campaign_status_value s)) = Some s"
  by (cases s) (simp_all add: campaign_status_of_def waiting_statuses_def campaign_terminal_def)

lemma campaign_event_roundtrip: "campaign_event_leaves (campaign_event_to_dict e) = Some e"
  by (simp add: campaign_event_leaves_def campaign_event_to_dict_def field_def)

lemma campaign_event_keys: "has_keys event_keys (campaign_event_to_dict e)"
  by (simp add: has_keys_def campaign_event_to_dict_def event_keys_def)

lemma opt_int_enc_int_opt [simp]: "opt_int (enc_int_opt v) = Some v"
  by (simp add: opt_int_def enc_int_opt_def split: option.splits)

lemma campaign_dict_keys:
  "is_dict (campaign_to_dict s)"
  "keys_of (campaign_to_dict s) = campaign_keys @ [''policy_binding'', ''authority_generation'']"
  by (simp_all add: is_dict_def keys_of_def campaign_to_dict_def campaign_keys_def)

lemma campaign_fields:
  "list_all (\<lambda>k. field k (campaign_to_dict s) \<noteq> None) campaign_keys"
  by (simp add: field_def campaign_to_dict_def campaign_keys_def)

lemma campaign_structure_enc:
  "campaign_structure (campaign_to_dict s) = Some (map campaign_event_to_dict (cs_events s), cs_status s)"
proof -
  have "field ''events'' (campaign_to_dict s) = Some (JList (map campaign_event_to_dict (cs_events s)))"
    "field ''status'' (campaign_to_dict s) = Some (JStr (campaign_status_value (cs_status s)))"
    by (simp_all add: field_def campaign_to_dict_def)
  moreover have "list_all (has_keys event_keys) (map campaign_event_to_dict (cs_events s))"
    by (simp add: list_all_iff campaign_event_keys)
  ultimately show ?thesis using campaign_fields by (simp add: campaign_structure_def tuple_of_def)
qed

lemma campaign_leaves_enc:
  "campaign_leaves (campaign_to_dict s) (map campaign_event_to_dict (cs_events s), cs_status s) = Some s"
  by (simp add: campaign_leaves_def field_def field_or_def campaign_to_dict_def campaign_event_roundtrip)

lemma campaign_dec_enc: "campaign_from_dict (campaign_to_dict s) = and_then (campaign_validate s) (\<lambda>_. Inr s)"
  by (simp add: campaign_from_dict_def campaign_dict_keys campaign_structure_enc campaign_leaves_enc)

lemma campaign_dec_ok: "campaign_from_dict v = Inr s \<Longrightarrow> campaign_ok s"
  by (auto simp: campaign_from_dict_def campaign_ok_def and_then_ok split: if_splits option.splits)

interpretation campaign_codec: json_codec campaign_to_dict campaign_from_dict campaign_ok
proof
  fix s v
  show "campaign_ok s \<Longrightarrow> campaign_from_dict (campaign_to_dict s) = Inr s"
    by (simp add: campaign_dec_enc campaign_ok_def)
  show "campaign_from_dict v = Inr s \<Longrightarrow> campaign_ok s"
    by (rule campaign_dec_ok)
qed


end
