(* ===== verification/CampaignRunner.thy ===== *)
theory CampaignRunner
  imports Campaign
begin

section \<open>The campaign runner (campaign_runner.py)\<close>

text \<open>
  \<open>PersistentCampaignRunner\<close> with its retries and the file that keeps a retry which could not be
  saved. An operation is a function on worlds that returns a result or an exception. The world holds
  the files of the campaign, the clock and what happens around the runner: before the \<open>k\<close>-th lock of
  the project is taken other processes may change the campaign's file (\<open>wd_others k\<close>), the lock may
  be held beyond the time the runner waits (\<open>wd_busy k\<close>), another runner may hold the operation lock
  (\<open>wd_running k\<close>). What is done under a lock is one step. The clock does not go back: before its
  \<open>n\<close>-th reading \<open>wd_drift n\<close> seconds pass. \<open>probe\<close> and \<open>work\<close> are callables of the caller; they get the
  number of readings so far, so that they may answer differently each time, and \<open>Inl\<close> is the name of
  the class of the exception they raise. SHA-256 is the argument \<open>H\<close>. Unsafe paths (symbolic links)
  and failures of the file system are not modelled.
\<close>

record runner =
  rn_base_backoff_seconds :: nat
  rn_max_backoff_seconds :: nat
  rn_worker_id :: string
  rn_lease_seconds :: nat
  rn_sleep :: bool

definition new_runner :: "nat \<Rightarrow> nat \<Rightarrow> string \<Rightarrow> bool \<Rightarrow> runner res" where
  "new_runner base limit uuid sleep =
     (if \<not> (1 \<le> base \<and> base \<le> limit) then camp_error ''backoff bounds are invalid''
      else Inr \<lparr>rn_base_backoff_seconds = base, rn_max_backoff_seconds = limit,
        rn_worker_id = ''runner-'' @ uuid, rn_lease_seconds = 300, rn_sleep = sleep\<rparr>)"

record wait_request =
  wr_status :: campaign_status
  wr_reason :: string
  wr_resource :: string
  wr_expected_condition :: string
  wr_next_check_at :: string

definition new_wait_request :: "wait_request \<Rightarrow> wait_request res" where
  "new_wait_request w =
     (if wr_status w \<notin> set waiting_statuses then camp_error ''wait request status is not resumable'' else Inr w)"

record step_result =
  sr_outcome :: string
  sr_wait :: "wait_request option"
  sr_reason :: "string option"

definition step_outcomes :: "string list" where
  "step_outcomes = [''CONTINUE'', ''WAIT'', ''RETRY'', ''COMPLETE'', ''HUMAN_REQUIRED'', ''BLOCKED_NON_RETRYABLE'',
     ''CANCELLED'', ''NO_JUSTIFIED_WORK'']"

definition new_step_result :: "step_result \<Rightarrow> step_result res" where
  "new_step_result r =
     (if sr_outcome r \<notin> set step_outcomes then camp_error ''campaign step outcome is invalid''
      else if sr_outcome r = ''WAIT'' \<and> sr_wait r = None then camp_error ''WAIT outcome requires a wait request''
      else if sr_outcome r \<noteq> ''WAIT'' \<and> sr_wait r \<noteq> None then camp_error ''only WAIT may carry a wait request''
      else Inr r)"

subsection \<open>Worlds and actions\<close>

record world =
  wd_store :: campaign_store
  wd_now :: instant
  wd_reads :: nat
  wd_drift :: "nat \<Rightarrow> nat"
  wd_locks :: nat
  wd_busy :: "nat \<Rightarrow> bool"
  wd_running :: "nat \<Rightarrow> bool"
  wd_others :: "nat \<Rightarrow> file_content \<Rightarrow> file_content"

type_synonym 'a act = "world \<Rightarrow> 'a res \<times> world"
type_synonym campaign_probe = "nat \<Rightarrow> campaign_state \<Rightarrow> string + bool"
type_synonym campaign_work = "nat \<Rightarrow> campaign_state \<Rightarrow> string + step_result"

definition return_act :: "'a res \<Rightarrow> 'a act" where
  "return_act r = (\<lambda>w. (r, w))"

definition then_act :: "'a act \<Rightarrow> ('a \<Rightarrow> 'b act) \<Rightarrow> 'b act" where
  "then_act m f = (\<lambda>w. case m w of (Inl e, v) \<Rightarrow> (Inl e, v) | (Inr x, v) \<Rightarrow> f x v)"

definition read_clock :: "instant act" where
  "read_clock = (\<lambda>w. let t = later_by (wd_drift w (wd_reads w)) (wd_now w) in
     (Inr t, w\<lparr>wd_now := t, wd_reads := wd_reads w + 1\<rparr>))"

text \<open>\<open>with project_lock(...)\<close>: what the others did before, then the body or a \<open>LockError\<close>\<close>

definition locked :: "(campaign_store \<Rightarrow> 'a res \<times> campaign_store) \<Rightarrow> 'a act" where
  "locked f = (\<lambda>w. let k = wd_locks w; st = (wd_store w)\<lparr>cm_file := wd_others w k (cm_file (wd_store w))\<rparr> in
     if wd_busy w k
     then (raise LockError (''lock is held: project-'' @ cm_project_id st @ ''.lock''), w\<lparr>wd_store := st, wd_locks := k + 1\<rparr>)
     else (case f st of (r, st') \<Rightarrow> (r, w\<lparr>wd_store := st', wd_locks := k + 1\<rparr>)))"

definition load_act :: "campaign_state act" where
  "load_act = locked (\<lambda>st. (campaign_load st, st))"

definition save_act :: "campaign_state \<Rightarrow> campaign_state act" where
  "save_act s = (\<lambda>w. case campaign_identity (wd_store w) s of
     Inl e \<Rightarrow> (Inl e, w) | Inr _ \<Rightarrow> locked (campaign_save s) w)"

definition claim_act :: "string \<Rightarrow> string \<Rightarrow> campaign_state option act" where
  "claim_act worker expiry = (case claim_checks worker expiry of
     Inl e \<Rightarrow> return_act (Inl e)
   | Inr _ \<Rightarrow> then_act read_clock (\<lambda>checked. then_act read_clock (\<lambda>at. locked (campaign_claim worker expiry checked at))))"

subsection \<open>The deferred retry\<close>

text \<open>\<open>v or d\<close>\<close>

definition or_else :: "string option \<Rightarrow> string \<Rightarrow> string" where
  "or_else v d = (case v of None \<Rightarrow> d | Some s \<Rightarrow> if s = [] then d else s)"

definition deferred_payload :: "campaign_state \<Rightarrow> campaign_state \<Rightarrow> (string \<times> json) list" where
  "deferred_payload before after = [(''schema_version'', JStr ''1.0''), (''before'', campaign_to_dict before),
     (''after'', campaign_to_dict after)]"

definition retry_digest :: "(string \<Rightarrow> string) \<Rightarrow> (string \<times> json) list \<Rightarrow> string" where
  "retry_digest H kvs = H (dump_ascii (JObj kvs))"

definition deferred_json :: "(string \<Rightarrow> string) \<Rightarrow> campaign_state \<Rightarrow> campaign_state \<Rightarrow> json" where
  "deferred_json H before after = (let kvs = deferred_payload before after in
     JObj (kvs @ [(''sha256'', JStr (retry_digest H kvs))]))"

abbreviation inconsistent :: "'a res" where
  "inconsistent \<equiv> camp_error ''deferred retry evidence is inconsistent''"

text \<open>The state that the retry of \<open>before\<close> must have led to, given what only \<open>after\<close> knows\<close>

definition expected_after :: "campaign_state \<Rightarrow> campaign_state \<Rightarrow> string \<Rightarrow> string \<Rightarrow> campaign_state" where
  "expected_after before after reason event_timestamp =
     (let exhausted = cs_retry_count before \<ge> cs_retry_budget before;
          status = (if exhausted then Camp_BLOCKED_NON_RETRYABLE else Camp_RETRY_BACKOFF);
          e = \<lparr>cev_sequence = cs_event_sequence before + 1,
            cev_event_type = (if exhausted then ''RETRY_EXHAUSTED'' else ''RETRY_BACKOFF''),
            cev_status = campaign_status_value status, cev_timestamp = event_timestamp, cev_summary = reason\<rparr>
      in before\<lparr>cs_status := status, cs_reason := Some reason, cs_updated_at := cs_updated_at after,
          cs_waiting_since := (if exhausted then None else Some (cs_updated_at after)),
          cs_next_check_at := (if exhausted then None else cs_next_check_at after),
          cs_retry_count := (if exhausted then cs_retry_count before else cs_retry_count before + 1),
          cs_lease_owner := None, cs_lease_expires_at := None, cs_event_sequence := cev_sequence e,
          cs_events := cs_events before @ [e],
          cs_resource := (if exhausted then cs_resource before
            else Some (or_else (cs_resource before) ''campaign-external-boundary'')),
          cs_expected_condition := (if exhausted then cs_expected_condition before
            else Some (or_else (cs_expected_condition before) ''retry budget remains''))\<rparr>)"

text \<open>The timestamp of the last event, which old versions read from the clock once more\<close>

definition event_time :: "bool \<Rightarrow> campaign_state \<Rightarrow> string res" where
  "event_time legacy after =
     (if \<not> legacy then Inr (cs_updated_at after)
      else if cs_events after = [] then inconsistent
      else (let t = cev_timestamp (last (cs_events after)) in
        and_then (parse_timestamp (cs_updated_at after)) (\<lambda>u. and_then (parse_timestamp t) (\<lambda>v.
          if u = v \<or> u = next_second v then Inr t else inconsistent))))"

definition check_deferred :: "bool \<Rightarrow> campaign_state \<Rightarrow> campaign_state \<Rightarrow> (campaign_state \<times> campaign_state) res" where
  "check_deferred legacy before after = and_then (event_time legacy after) (\<lambda>t. case cs_reason after of
     None \<Rightarrow> inconsistent
   | Some reason \<Rightarrow>
       if cs_status before \<in> set campaign_terminal \<or> after \<noteq> expected_after before after reason t then inconsistent
       else if cs_retry_count before \<ge> cs_retry_budget before then Inr (before, after)
       else (case cs_next_check_at after of
           None \<Rightarrow> inconsistent
         | Some n \<Rightarrow> and_then (parse_timestamp n) (\<lambda>next. and_then (parse_timestamp (cs_updated_at after)) (\<lambda>u.
             if next \<le> u then inconsistent else Inr (before, after)))))"

definition read_deferred ::
    "(string \<Rightarrow> string) \<Rightarrow> campaign_store \<Rightarrow> file_content \<Rightarrow> bool \<Rightarrow> (campaign_state \<times> campaign_state) res" where
  "read_deferred H st f legacy = (case f of
     Json (JObj kvs) \<Rightarrow>
       if set (map fst kvs) \<noteq> {''schema_version'', ''before'', ''after'', ''sha256''} then inconsistent
       else if field ''schema_version'' (JObj kvs) \<noteq> Some (JStr ''1.0'') \<or>
         field ''sha256'' (JObj kvs) \<noteq> Some (JStr (retry_digest H (filter (\<lambda>kv. fst kv \<noteq> ''sha256'') kvs))) then inconsistent
       else and_then (campaign_from_dict (field_or JNull ''before'' (JObj kvs))) (\<lambda>before.
            and_then (campaign_from_dict (field_or JNull ''after'' (JObj kvs))) (\<lambda>after.
            and_then (steps [campaign_identity st before, campaign_identity st after])
              (\<lambda>_. check_deferred legacy before after)))
   | _ \<Rightarrow> inconsistent)"

definition defer_retry :: "(string \<Rightarrow> string) \<Rightarrow> campaign_state \<Rightarrow> campaign_state \<Rightarrow> unit act" where
  "defer_retry H before after = (\<lambda>w. let st = wd_store w in case cm_deferred st of
     No_File \<Rightarrow> (Inr (), w\<lparr>wd_store := st\<lparr>cm_deferred := Json (deferred_json H before after)\<rparr>\<rparr>)
   | f \<Rightarrow> (and_then (read_deferred H st f False) (\<lambda>r.
       if r \<noteq> (before, after) then camp_error ''conflicting deferred retry evidence'' else Inr ()), w))"

text \<open>Whether the file under the old name is a deferred retry, not a campaign that is called so\<close>

definition legacy_candidate :: "campaign_store \<Rightarrow> bool" where
  "legacy_candidate st = (case cm_legacy st of
     No_File \<Rightarrow> False
   | Not_Json \<Rightarrow> True
   | Json v \<Rightarrow> (case campaign_from_dict v of
       Inl _ \<Rightarrow> True
     | Inr s \<Rightarrow> \<not> (cs_project_id s = cm_project_id st \<and> cs_campaign_id s = cm_campaign_id st @ ''.deferred-retry'')))"

definition deferred_records :: "(string \<Rightarrow> string) \<Rightarrow> campaign_store \<Rightarrow> (campaign_state \<times> campaign_state) list res" where
  "deferred_records H st = map_res (\<lambda>(f, legacy). read_deferred H st f legacy)
     ((if cm_deferred st \<noteq> No_File then [(cm_deferred st, False)] else []) @
      (if legacy_candidate st then [(cm_legacy st, True)] else []))"

definition settle_deferred :: "campaign_state \<Rightarrow> campaign_state \<Rightarrow> campaign_store \<Rightarrow> unit res \<times> campaign_store" where
  "settle_deferred before after st =
     (let cleaned = (\<lambda>st'. st'\<lparr>cm_deferred := No_File, cm_legacy := (if legacy_candidate st then No_File else cm_legacy st)\<rparr>)
      in case campaign_load_unlocked st of
        Inl e \<Rightarrow> (Inl e, st)
      | Inr current \<Rightarrow>
          if current = Some before then (Inr (), cleaned (campaign_save_unlocked after st))
          else if current \<noteq> Some after then (camp_error ''deferred retry conflicts with current campaign state'', st)
          else (Inr (), cleaned st))"

definition recover_deferred :: "(string \<Rightarrow> string) \<Rightarrow> unit act" where
  "recover_deferred H = (\<lambda>w. case deferred_records H (wd_store w) of
     Inl e \<Rightarrow> (Inl e, w)
   | Inr [] \<Rightarrow> (Inr (), w)
   | Inr ((before, after) # rs) \<Rightarrow>
       if list_ex (\<lambda>r. r \<noteq> (before, after)) rs then (camp_error ''conflicting deferred retry evidence'', w)
       else locked (settle_deferred before after) w)"

subsection \<open>Events and retries\<close>

definition append_campaign_event :: "campaign_state \<Rightarrow> string \<Rightarrow> string \<Rightarrow> string \<Rightarrow> instant \<Rightarrow> campaign_state" where
  "append_campaign_event s event_type status summary now = (let e = \<lparr>cev_sequence = cs_event_sequence s + 1,
       cev_event_type = event_type, cev_status = status, cev_timestamp = show_time now, cev_summary = summary\<rparr> in
     s\<lparr>cs_updated_at := cev_timestamp e, cs_event_sequence := cev_sequence e,
       cs_wake_generation := cs_wake_generation s + (if event_type = ''WAKE'' then 1 else 0),
       cs_events := cs_events s @ [e]\<rparr>)"

definition backoff_delay :: "runner \<Rightarrow> int \<Rightarrow> nat" where
  "backoff_delay R count = min (rn_max_backoff_seconds R) (rn_base_backoff_seconds R * 2 ^ nat (min (count - 1) 10))"

definition retry_state :: "runner \<Rightarrow> campaign_state \<Rightarrow> string \<Rightarrow> instant \<Rightarrow> campaign_state res" where
  "retry_state R s reason now = (let count = cs_retry_count s + 1 in
     if count > cs_retry_budget s
     then Inr ((append_campaign_event s ''RETRY_EXHAUSTED'' ''BLOCKED_NON_RETRYABLE'' reason now)
       \<lparr>cs_status := Camp_BLOCKED_NON_RETRYABLE, cs_reason := Some reason, cs_waiting_since := None,
        cs_next_check_at := None, cs_retry_count := count - 1, cs_lease_owner := None, cs_lease_expires_at := None\<rparr>)
     else (let u = append_campaign_event s ''RETRY_BACKOFF'' (campaign_status_value Camp_RETRY_BACKOFF) reason now in
       and_then (parse_timestamp (cs_updated_at u)) (\<lambda>t. Inr (u
         \<lparr>cs_status := Camp_RETRY_BACKOFF, cs_reason := Some reason,
          cs_resource := Some (or_else (cs_resource s) ''campaign-external-boundary''),
          cs_expected_condition := Some (or_else (cs_expected_condition s) ''retry budget remains''),
          cs_waiting_since := Some (cs_updated_at u),
          cs_next_check_at := Some (show_time (later_by (backoff_delay R count) t)),
          cs_retry_count := count, cs_lease_owner := None, cs_lease_expires_at := None\<rparr>))))"

definition retry_save :: "(string \<Rightarrow> string) \<Rightarrow> campaign_state \<Rightarrow> campaign_state \<Rightarrow> campaign_state act" where
  "retry_save H s updated = (\<lambda>w. case save_act updated w of
     (Inl e, v) \<Rightarrow>
       if exc_kind e = LockError then then_act (defer_retry H s updated) (\<lambda>_. return_act (Inr updated)) v else (Inl e, v)
   | (Inr _, v) \<Rightarrow> (Inr updated, v))"

definition retry_act :: "(string \<Rightarrow> string) \<Rightarrow> runner \<Rightarrow> campaign_state \<Rightarrow> string \<Rightarrow> campaign_state act" where
  "retry_act H R s reason = then_act read_clock (\<lambda>now.
     then_act (return_act (retry_state R s reason now)) (retry_save H s))"

definition save_updated :: "campaign_state \<Rightarrow> campaign_state act" where
  "save_updated s = then_act (save_act s) (\<lambda>_. return_act (Inr s))"

definition apply_result :: "(string \<Rightarrow> string) \<Rightarrow> runner \<Rightarrow> campaign_state \<Rightarrow> step_result \<Rightarrow> campaign_state act" where
  "apply_result H R s r =
     (if sr_outcome r = ''RETRY'' then retry_act H R s (or_else (sr_reason r) ''governed step requested bounded retry'')
      else then_act read_clock (\<lambda>now.
        if sr_outcome r = ''WAIT'' then (case sr_wait r of
            None \<Rightarrow> return_act (raise AssertionError [])
          | Some wait \<Rightarrow> then_act read_clock (\<lambda>at.
              save_updated ((append_campaign_event s ''WAIT'' (campaign_status_value (wr_status wait))
                  (or_else (sr_reason r) (wr_reason wait)) at)
                \<lparr>cs_status := wr_status wait, cs_reason := Some (wr_reason wait), cs_resource := Some (wr_resource wait),
                 cs_expected_condition := Some (wr_expected_condition wait), cs_waiting_since := Some (show_time now),
                 cs_next_check_at := Some (wr_next_check_at wait), cs_retry_count := cs_retry_count s,
                 cs_lease_owner := None, cs_lease_expires_at := None\<rparr>)))
        else (case (if sr_outcome r = ''CONTINUE'' then Some Camp_RUNNING else campaign_status_of (JStr (sr_outcome r))) of
            None \<Rightarrow> return_act (raise ValueError [])
          | Some target \<Rightarrow> then_act read_clock (\<lambda>at.
              save_updated ((append_campaign_event s ''STEP'' (campaign_status_value target)
                  (or_else (sr_reason r) (sr_outcome r)) at)
                \<lparr>cs_status := target, cs_reason := sr_reason r, cs_waiting_since := None, cs_next_check_at := None,
                 cs_lease_owner := None, cs_lease_expires_at := None\<rparr>)))))"

subsection \<open>A tick\<close>

definition work_act :: "(string \<Rightarrow> string) \<Rightarrow> runner \<Rightarrow> campaign_work \<Rightarrow> campaign_state act" where
  "work_act H R work = then_act read_clock (\<lambda>now.
     then_act (claim_act (rn_worker_id R) (show_time (later_by (rn_lease_seconds R) now))) (\<lambda>c. case c of
       None \<Rightarrow> load_act
     | Some claimed \<Rightarrow> (\<lambda>w. case work (wd_reads w) claimed of
         Inl cls \<Rightarrow> retry_act H R claimed (''work invocation failed: '' @ cls) w
       | Inr r \<Rightarrow> apply_result H R claimed r w)))"

definition wake_act :: "(string \<Rightarrow> string) \<Rightarrow> runner \<Rightarrow> campaign_work \<Rightarrow> campaign_state \<Rightarrow> campaign_state act" where
  "wake_act H R work s = then_act read_clock (\<lambda>at w.
     case save_act ((append_campaign_event s ''WAKE'' ''RUNNING'' ''external condition satisfied'' at)
         \<lparr>cs_status := Camp_RUNNING, cs_reason := None, cs_resource := None, cs_expected_condition := None,
          cs_waiting_since := None, cs_next_check_at := None\<rparr>) w of
       (Inl e, v) \<Rightarrow> if exc_kind e = CampaignRunnerError \<and> contains_text ''changed concurrently'' (exc_msg e)
         then load_act v else (Inl e, v)
     | (Inr _, v) \<Rightarrow> work_act H R work v)"

definition probe_act ::
    "(string \<Rightarrow> string) \<Rightarrow> runner \<Rightarrow> campaign_probe \<Rightarrow> campaign_work \<Rightarrow> (campaign_state \<Rightarrow> unit res) \<Rightarrow> campaign_state \<Rightarrow> campaign_state act" where
  "probe_act H R probe work guard s = (\<lambda>w. case probe (wd_reads w) s of
     Inl cls \<Rightarrow> retry_act H R s (''external probe failed: '' @ cls) w
   | Inr False \<Rightarrow> retry_act H R s ''external condition not satisfied'' w
   | Inr True \<Rightarrow> then_act (return_act (guard s)) (\<lambda>_. wake_act H R work s) w)"

definition tick_locked ::
    "(string \<Rightarrow> string) \<Rightarrow> runner \<Rightarrow> campaign_probe \<Rightarrow> campaign_work \<Rightarrow> (campaign_state \<Rightarrow> unit res) \<Rightarrow> campaign_state act" where
  "tick_locked H R probe work guard = then_act (recover_deferred H) (\<lambda>_. then_act load_act (\<lambda>s.
     if cs_status s \<in> set campaign_terminal then return_act (Inr s)
     else then_act read_clock (\<lambda>now.
       if cs_status s \<in> set waiting_statuses
       then then_act (return_act (parse_timestamp (or_else (cs_next_check_at s) []))) (\<lambda>due.
         if now < due then return_act (Inr s) else probe_act H R probe work guard s)
       else work_act H R work)))"

definition tick ::
    "(string \<Rightarrow> string) \<Rightarrow> runner \<Rightarrow> campaign_probe \<Rightarrow> campaign_work \<Rightarrow> (campaign_state \<Rightarrow> unit res) \<Rightarrow> campaign_state act" where
  "tick H R probe work guard = (\<lambda>w. if wd_running w (wd_locks w) then load_act w else tick_locked H R probe work guard w)"

subsection \<open>The loop\<close>

text \<open>\<open>sleep(_sleep_seconds(state))\<close>: the clock then stands at the next check, or where it stood\<close>

definition sleep_until :: "campaign_state \<Rightarrow> unit act" where
  "sleep_until s = (case cs_next_check_at s of
     None \<Rightarrow> return_act (Inr ())
   | Some n \<Rightarrow> then_act (return_act (parse_timestamp n)) (\<lambda>due. then_act read_clock (\<lambda>now w. (Inr (), w\<lparr>wd_now := max now due\<rparr>))))"

partial_function (option) run_loop ::
    "(string \<Rightarrow> string) \<Rightarrow> runner \<Rightarrow> campaign_probe \<Rightarrow> campaign_work \<Rightarrow> int option \<Rightarrow> int \<Rightarrow> world \<Rightarrow> (campaign_state res \<times> world) option" where
  "run_loop H R probe work max_ticks ticks w = (case tick H R probe work (\<lambda>_. Inr ()) w of
     (Inl e, v) \<Rightarrow> Some (Inl e, v)
   | (Inr s, v) \<Rightarrow>
       if cs_status s \<in> set campaign_terminal then Some (Inr s, v)
       else if (case max_ticks of None \<Rightarrow> False | Some m \<Rightarrow> ticks + 1 \<ge> m) then Some (Inr s, v)
       else (case sleep_until s v of
           (Inl e, u) \<Rightarrow> Some (Inl e, u)
         | (Inr _, u) \<Rightarrow>
             if \<not> rn_sleep R then Some (camp_error ''persistent runner requires a sleep function'', u)
             else run_loop H R probe work max_ticks (ticks + 1) u))"

definition run_forever ::
    "(string \<Rightarrow> string) \<Rightarrow> runner \<Rightarrow> campaign_probe \<Rightarrow> campaign_work \<Rightarrow> int option \<Rightarrow> world \<Rightarrow> (campaign_state res \<times> world) option" where
  "run_forever H R probe work max_ticks w = run_loop H R probe work max_ticks 0 w"

subsection \<open>Commands\<close>

definition reset_retry :: "string \<Rightarrow> campaign_state act" where
  "reset_retry reason = then_act load_act (\<lambda>s.
     if cs_status s \<noteq> Camp_RETRY_BACKOFF then return_act (camp_error ''campaign is not in a retryable terminal state'')
     else if blank reason then return_act (camp_error ''retry reset reason is required'')
     else then_act read_clock (\<lambda>at. then_act read_clock (\<lambda>since. then_act read_clock (\<lambda>next.
       save_updated ((append_campaign_event s ''RETRY_RESET'' (campaign_status_value Camp_WAITING_EXTERNAL) reason at)
         \<lparr>cs_status := Camp_WAITING_EXTERNAL, cs_reason := Some (py_strip reason),
          cs_expected_condition := Some ''external probe after repaired driver'', cs_resource := cs_resource s,
          cs_waiting_since := Some (show_time since), cs_next_check_at := Some (show_time next),
          cs_retry_count := 0, cs_lease_owner := None, cs_lease_expires_at := None\<rparr>)))))"

definition schedule_retry :: "(string \<Rightarrow> string) \<Rightarrow> runner \<Rightarrow> string \<Rightarrow> campaign_state act" where
  "schedule_retry H R reason = (\<lambda>w. if wd_running w (wd_locks w)
     then (raise LockError (''lock is held: campaign-'' @ cm_project_id (wd_store w) @ ''-'' @ cm_campaign_id (wd_store w) @ ''.lock''), w)
     else then_act (recover_deferred H) (\<lambda>_. then_act load_act (\<lambda>s.
       if cs_status s \<in> set campaign_terminal then return_act (Inr s)
       else if blank reason then return_act (camp_error ''retry reason is required'')
       else retry_act H R s (py_strip reason))) w)"

definition invalidate_binding :: "string \<Rightarrow> campaign_state act" where
  "invalidate_binding reason = then_act load_act (\<lambda>s.
     if cs_status s \<in> set campaign_terminal then return_act (Inr s)
     else if blank reason then return_act (camp_error ''stale binding reason is required'')
     else then_act read_clock (\<lambda>at.
       save_updated ((append_campaign_event s ''STALE_BINDING'' (campaign_status_value Camp_BLOCKED_NON_RETRYABLE) reason at)
         \<lparr>cs_status := Camp_BLOCKED_NON_RETRYABLE, cs_reason := Some (py_strip reason), cs_waiting_since := None,
          cs_next_check_at := None, cs_lease_owner := None, cs_lease_expires_at := None\<rparr>)))"

end
