(* ===== verification/CampaignSafety.thy ===== *)
theory CampaignSafety
  imports CampaignRunner "HOL-Library.Sublist"
begin

section \<open>Nothing recorded is lost: the runner among other processes\<close>

text \<open>
  The runner reads a state, does something long, and saves a successor; between the two other
  processes may write. \<open>save\<close> compares only event numbers. The lemmas show by rely and guarantee that
  this is enough: if the others only continue what is stored, so does the runner. A triple
  \<open>sat P m Q\<close> says that \<open>m\<close>, from a file with \<open>P\<close>, only continues the file, and that a result \<open>x\<close>
  leaves a file with \<open>Q x\<close>.
\<close>

subsection \<open>Continuing a campaign\<close>

definition campaign_bindings :: "campaign_state \<Rightarrow> string list \<times> int \<times> string option \<times> int option" where
  "campaign_bindings s = ([cs_schema_version s, cs_campaign_id s, cs_project_id s, cs_session_id s, cs_phase s,
     cs_created_at s, cs_operation_id s, cs_target_sha s, cs_lineage_binding s],
     cs_retry_budget s, cs_policy_binding s, cs_authority_generation s)"

text \<open>\<open>t\<close> is \<open>s\<close>, or \<open>s\<close> was not terminal and \<open>t\<close> is the same campaign with more events after those of \<open>s\<close>.\<close>

definition continues :: "campaign_state \<Rightarrow> campaign_state \<Rightarrow> bool" where
  "continues s t \<longleftrightarrow> t = s \<or> (cs_status s \<notin> set campaign_terminal \<and> strict_prefix (cs_events s) (cs_events t) \<and>
     campaign_bindings t = campaign_bindings s)"

abbreviation campaign_held :: "file_content \<Rightarrow> campaign_state \<Rightarrow> bool" where
  "campaign_held \<equiv> holds campaign_from_dict"

text \<open>What may become of the campaign's file\<close>

definition keeps :: "file_content \<Rightarrow> file_content \<Rightarrow> bool" where
  "keeps f g \<longleftrightarrow> f = No_File \<or> g = f \<or> (\<exists>s t. campaign_held f s \<and> continues s t \<and> g = Json (campaign_to_dict t))"

lemma continues_refl [simp]: "continues s s"
  by (simp add: continues_def)

lemma continues_trans: "continues s t \<Longrightarrow> continues t u \<Longrightarrow> continues s u"
  unfolding continues_def by (metis prefix_order.strict_trans)

lemma held_written [simp]: "campaign_held (Json (campaign_to_dict s)) t \<longleftrightarrow> campaign_ok s \<and> t = s"
  by (auto simp: holds_def campaign_dec_enc and_then_ok campaign_ok_def)

lemma keeps_refl [simp]: "keeps f f"
  by (simp add: keeps_def)

lemma keeps_trans:
  assumes "keeps f g" and "keeps g h"
  shows "keeps f h"
proof -
  consider "f = No_File" | "g = f" | s t where "campaign_held f s" "continues s t" "g = Json (campaign_to_dict t)"
    using assms(1) by (auto simp: keeps_def)
  then show ?thesis
  proof cases
    case 3
    from assms(2) 3(3) consider "h = g" | u where "campaign_ok t" "continues t u" "h = Json (campaign_to_dict u)"
      by (auto simp: keeps_def)
    then show ?thesis
    proof cases
      case 2
      then show ?thesis using 3(1) continues_trans [OF 3(2)] unfolding keeps_def by blast
    qed (use assms(1) in simp)
  qed (use assms in \<open>simp_all add: keeps_def\<close>)
qed

lemma keeps_held:
  assumes "keeps f g" and "campaign_held f s"
  shows "\<exists>t. continues s t \<and> (campaign_held g t \<or> g = Json (campaign_to_dict t))"
proof -
  have "f \<noteq> No_File" using assms(2) by (auto simp: holds_def)
  then consider "g = f" | u t where "campaign_held f u" "continues u t" "g = Json (campaign_to_dict t)"
    using assms(1) by (auto simp: keeps_def)
  then show ?thesis
  proof cases
    case 1
    then show ?thesis using assms(2) continues_refl by blast
  next
    case 2
    then show ?thesis using holds_unique [OF assms(2)] by blast
  qed
qed

text \<open>\<open>s\<close> has been in the file.\<close>

definition seen :: "campaign_state \<Rightarrow> file_content \<Rightarrow> bool" where
  "seen s f \<longleftrightarrow> (\<exists>g. (campaign_held g s \<or> g = Json (campaign_to_dict s)) \<and> keeps g f)"

lemma seen_keeps: "seen s f \<Longrightarrow> keeps f g \<Longrightarrow> seen s g"
  unfolding seen_def using keeps_trans by blast

lemma held_seen: "campaign_held f s \<Longrightarrow> seen s f"
  unfolding seen_def using keeps_refl by blast

lemma seen_held:
  assumes "seen s f" and "campaign_held f t"
  shows "campaign_ok s \<and> continues s t"
proof -
  obtain g where g: "campaign_held g s \<or> g = Json (campaign_to_dict s)" "keeps g f"
    using assms(1) by (auto simp: seen_def)
  then consider "f = g" | u v where "campaign_held g u" "continues u v" "f = Json (campaign_to_dict v)"
    by (auto simp: keeps_def holds_def)
  then show ?thesis
  proof cases
    case 1
    then show ?thesis using g(1) assms(2) by (auto dest: holds_unique campaign_codec.holds_valid)
  next
    case 2
    then have "u = s" using g(1) by (auto dest: holds_unique)
    with 2 assms(2) show ?thesis by (auto dest: campaign_codec.holds_valid)
  qed
qed

lemma campaign_ok_sequence: "campaign_ok s \<Longrightarrow> cs_event_sequence s = int (length (cs_events s))"
  by (simp add: campaign_ok_def campaign_validate_def steps_ok)

subsection \<open>Triples\<close>

abbreviation campaign_file :: "world \<Rightarrow> file_content" where
  "campaign_file w \<equiv> cm_file (wd_store w)"

text \<open>The others only continue what is stored.\<close>

definition rely :: "world \<Rightarrow> bool" where
  "rely w \<longleftrightarrow> (\<forall>k f. keeps f (wd_others w k f))"

definition sat :: "(file_content \<Rightarrow> bool) \<Rightarrow> 'a act \<Rightarrow> ('a \<Rightarrow> file_content \<Rightarrow> bool) \<Rightarrow> bool" where
  "sat P m Q \<longleftrightarrow> (\<forall>w r v. rely w \<and> P (campaign_file w) \<and> m w = (r, v) \<longrightarrow>
     rely v \<and> keeps (campaign_file w) (campaign_file v) \<and> (\<forall>x. r = Inr x \<longrightarrow> Q x (campaign_file v)))"

lemma satI:
  "(\<And>w r v. rely w \<Longrightarrow> P (campaign_file w) \<Longrightarrow> m w = (r, v) \<Longrightarrow>
     rely v \<and> keeps (campaign_file w) (campaign_file v) \<and> (\<forall>x. r = Inr x \<longrightarrow> Q x (campaign_file v))) \<Longrightarrow> sat P m Q"
  unfolding sat_def by blast

lemma satD:
  assumes "sat P m Q" "rely w" "P (campaign_file w)" "m w = (r, v)"
  shows "rely v" "keeps (campaign_file w) (campaign_file v)" "r = Inr x \<Longrightarrow> Q x (campaign_file v)"
  using assms unfolding sat_def by blast+

lemma sat_return: "(\<And>x f. r = Inr x \<Longrightarrow> P f \<Longrightarrow> Q x f) \<Longrightarrow> sat P (return_act r) Q"
  by (simp add: sat_def return_act_def)

lemma sat_weaken: "sat P m Q \<Longrightarrow> (\<And>x f. Q x f \<Longrightarrow> Q' x f) \<Longrightarrow> sat P m Q'"
  unfolding sat_def by blast

lemma sat_strengthen: "sat P m Q \<Longrightarrow> (\<And>f. P' f \<Longrightarrow> P f) \<Longrightarrow> sat P' m Q"
  unfolding sat_def by blast

lemma sat_read: "sat P read_clock (\<lambda>_. P)"
  by (auto simp: sat_def read_clock_def rely_def Let_def)

lemma sat_then:
  assumes m: "sat P m Q" and f: "\<And>x. sat (Q x) (f x) T"
  shows "sat P (then_act m f) T"
proof (rule satI)
  fix w r v
  assume w: "rely w" "P (campaign_file w)" "then_act m f w = (r, v)"
  obtain r' u where mw: "m w = (r', u)" by (cases "m w")
  note u = satD [OF m w(1,2) mw]
  show "rely v \<and> keeps (campaign_file w) (campaign_file v) \<and> (\<forall>x. r = Inr x \<longrightarrow> T x (campaign_file v))"
  proof (cases r')
    case (Inl e)
    then have "r = Inl e" "v = u" using w(3) by (simp_all add: then_act_def mw)
    then show ?thesis using u(1,2) by simp
  next
    case (Inr x)
    then have fu: "f x u = (r, v)" using w(3) by (simp add: then_act_def mw)
    note v = satD [OF f u(1) u(3) [OF Inr] fu]
    show ?thesis using v keeps_trans [OF u(2) v(2)] by blast
  qed
qed

lemma sat_then_return: "(\<And>x. sat P (f x) T) \<Longrightarrow> sat P (then_act (return_act r) f) T"
proof (cases r)
  case (Inr x)
  have "then_act (return_act (Inr x)) f = f x" by (simp add: then_act_def return_act_def)
  then show "(\<And>x. sat P (f x) T) \<Longrightarrow> ?thesis" by (simp add: Inr)
qed (simp add: sat_def then_act_def return_act_def)

lemma sat_locked:
  assumes stable: "\<And>f g. P f \<Longrightarrow> keeps f g \<Longrightarrow> P g"
    and body: "\<And>st r st'. P (cm_file st) \<Longrightarrow> body st = (r, st') \<Longrightarrow>
      keeps (cm_file st) (cm_file st') \<and> (\<forall>x. r = Inr x \<longrightarrow> Q x (cm_file st'))"
  shows "sat P (locked body) Q"
proof (rule satI)
  fix w r v
  assume w: "rely w" "P (campaign_file w)" "locked body w = (r, v)"
  let ?st = "(wd_store w)\<lparr>cm_file := wd_others w (wd_locks w) (campaign_file w)\<rparr>"
  have k: "keeps (campaign_file w) (cm_file ?st)" using w(1) by (simp add: rely_def)
  have P: "P (cm_file ?st)" by (rule stable [OF w(2) k])
  obtain r' st' where b: "body ?st = (r', st')" by (cases "body ?st")
  note q = body [OF P b]
  have "keeps (campaign_file w) (cm_file st')" using keeps_trans [OF k] q by blast
  moreover have "(\<exists>e. r = Inl e) \<and> campaign_file v = cm_file ?st \<or> r = r' \<and> campaign_file v = cm_file st'"
    using w(3) b by (auto simp: locked_def Let_def raise_def split: if_splits)
  moreover have "wd_others v = wd_others w"
    using w(3) b by (auto simp: locked_def Let_def split: if_splits)
  ultimately show "rely v \<and> keeps (campaign_file w) (campaign_file v) \<and> (\<forall>x. r = Inr x \<longrightarrow> Q x (campaign_file v))"
    using w(1) k q unfolding rely_def by (metis sum.distinct(1))
qed

text \<open>A result that does not touch the world's file\<close>

lemma sat_branch:
  assumes "\<And>w. m w = m' w w" and "\<And>u. sat P (m' u) Q"
  shows "sat P m Q"
proof (rule satI)
  fix w r v
  assume "rely w" "P (campaign_file w)" "m w = (r, v)"
  then show "rely v \<and> keeps (campaign_file w) (campaign_file v) \<and> (\<forall>x. r = Inr x \<longrightarrow> Q x (campaign_file v))"
    using satD [OF assms(2) [of w], of w r v] assms(1) [of w] by simp
qed

subsection \<open>The store\<close>

lemma campaign_load_held: "campaign_load st = Inr s \<longleftrightarrow> campaign_held (cm_file st) s"
  by (auto simp: campaign_load_def campaign_load_unlocked_def and_then_ok split: option.splits)

lemma sat_load: "sat P load_act (\<lambda>s f. seen s f \<and> campaign_ok s)" if "\<And>f g. P f \<Longrightarrow> keeps f g \<Longrightarrow> P g"
  unfolding load_act_def
  by (rule sat_locked [OF that])
    (auto simp: campaign_load_held held_seen dest: campaign_codec.holds_valid)

lemma identity_ok: "campaign_identity st s = Inr () \<Longrightarrow> campaign_ok s"
  by (simp add: campaign_identity_def steps_ok campaign_ok_def)

lemma save_cases:
  assumes "campaign_save t st = (r, st')"
  obtains (failed) "\<exists>e. r = Inl e" "st' = st"
  | (saved) u where "campaign_held (cm_file st) u" "campaign_ok t" "\<not> cs_event_sequence t < cs_event_sequence u"
      "cs_event_sequence t = cs_event_sequence u \<Longrightarrow> t = u" "r = Inr t" "st' = campaign_save_unlocked t st"
proof (cases "campaign_identity st t")
  case (Inl e)
  then have "r = Inl e" "st' = st" using assms by (simp_all add: campaign_save_def)
  then show thesis using failed by blast
next
  case (Inr i)
  note i = this
  show thesis
  proof (cases "campaign_load st")
    case (Inl e)
    then have "r = Inl e" "st' = st" using assms i by (simp_all add: campaign_save_def)
    then show thesis using failed by blast
  next
    case (Inr u)
    then have h: "campaign_held (cm_file st) u" by (simp add: campaign_load_held)
    note e = assms [unfolded campaign_save_def i Inr sum.case]
    show thesis
    proof (cases "cs_event_sequence t < cs_event_sequence u \<or> (cs_event_sequence t = cs_event_sequence u \<and> t \<noteq> u)")
      case True
      then have "\<exists>m. r = camp_error m \<and> st' = st" using e by (metis Pair_inject)
      then show thesis using failed unfolding raise_def by blast
    next
      case False
      then have n: "\<not> cs_event_sequence t < cs_event_sequence u" "\<not> (cs_event_sequence t = cs_event_sequence u \<and> t \<noteq> u)"
        by blast+
      from e [unfolded if_not_P [OF n(1)] if_not_P [OF n(2)]] have "r = Inr t" "st' = campaign_save_unlocked t st" by blast+
      moreover have "campaign_ok t" using identity_ok [of st t] i by simp
      ultimately show thesis using saved [OF h _ n(1)] n(2) by blast
    qed
  qed
qed

lemma save_continues:
  assumes sv: "campaign_save t st = (r, st')" and s: "seen s (cm_file st)"
    and t: "continues s t" "cs_event_sequence t = cs_event_sequence s + 1"
  shows "keeps (cm_file st) (cm_file st')"
proof -
  show ?thesis
    using sv
  proof (cases rule: save_cases)
    case (saved u)
    have u: "continues s u" "campaign_ok s" "campaign_ok u"
      using seen_held [OF s saved(1)] saved(1) campaign_codec.holds_valid by blast+
    have "continues u t"
    proof (cases "u = s")
      case False
      then have "length (cs_events s) < length (cs_events u)"
        using u(1) by (auto simp: continues_def strict_prefix_def prefix_def)
      then have "cs_event_sequence t \<le> cs_event_sequence u"
        using t(2) campaign_ok_sequence [OF u(2)] campaign_ok_sequence [OF u(3)] by simp
      then show ?thesis using saved(3,4) by simp
    qed (use t in simp)
    then show ?thesis using saved(1,6) by (auto simp: keeps_def campaign_save_unlocked_def)
  qed simp
qed

lemma save_result:
  assumes "campaign_save t st = (Inr x, st')"
  shows "x = t \<and> campaign_ok t \<and> cm_file st' = Json (campaign_to_dict t)"
  using assms by (cases rule: save_cases) (auto simp: campaign_save_unlocked_def)

lemma sat_save:
  assumes "continues s t" "cs_event_sequence t = cs_event_sequence s + 1"
  shows "sat (seen s) (save_act t) (\<lambda>x f. x = t \<and> seen t f \<and> campaign_ok t)"
  unfolding save_act_def
proof (rule sat_branch [where m' = "\<lambda>w. case campaign_identity (wd_store w) t of Inl e \<Rightarrow> return_act (Inl e) | Inr _ \<Rightarrow> locked (campaign_save t)"])
  show "sat (seen s) (case campaign_identity (wd_store u) t of Inl e \<Rightarrow> return_act (Inl e) | Inr _ \<Rightarrow> locked (campaign_save t))
    (\<lambda>x f. x = t \<and> seen t f \<and> campaign_ok t)" for u
  proof (cases "campaign_identity (wd_store u) t")
    case (Inl e)
    then show ?thesis by (auto intro: sat_return)
  next
    case (Inr i)
    have "sat (seen s) (locked (campaign_save t)) (\<lambda>x f. x = t \<and> seen t f \<and> campaign_ok t)"
      by (rule sat_locked [OF seen_keeps])
        (use assms save_continues save_result held_seen in \<open>fastforce\<close>)+
    with Inr show ?thesis by simp
  qed
qed (auto simp: return_act_def split: sum.splits)

lemma claim_cases:
  assumes "campaign_claim worker expiry checked at st = (r, st')"
  obtains (refused) "\<forall>t. r \<noteq> Inr (Some t)" "st' = st"
  | (claimed) s e where "campaign_held (cm_file st) s" "cs_status s \<notin> set campaign_terminal" "claim_checks worker expiry = Inr e"
      "r = Inr (Some (claimed_by worker e at s))" "st' = campaign_save_unlocked (claimed_by worker e at s) st"
proof (cases "claim_checks worker expiry")
  case (Inl x)
  then have "r = Inl x" "st' = st" using assms by (simp_all add: campaign_claim_def)
  then show thesis using refused by blast
next
  case (Inr e)
  note i = this
  show thesis
  proof (cases "campaign_load st")
    case (Inl x)
    then have "r = Inl x" "st' = st" using assms i by (simp_all add: campaign_claim_def)
    then show thesis using refused by blast
  next
    case (Inr s)
    then have h: "campaign_held (cm_file st) s" by (simp add: campaign_load_held)
    note c = assms [unfolded campaign_claim_def i Inr sum.case]
    show thesis
    proof (cases "cs_status s \<in> set campaign_terminal \<or> live_lease checked s \<noteq> Inr False")
      case True
      then have "(\<forall>t. r \<noteq> Inr (Some t)) \<and> st' = st" using c by (auto split: if_splits sum.splits bool.splits)
      then show thesis using refused by blast
    next
      case False
      with c have "r = Inr (Some (claimed_by worker e at s))" "st' = campaign_save_unlocked (claimed_by worker e at s) st"
        by (auto simp: Let_def)
      then show thesis using claimed [OF h _ i] False by blast
    qed
  qed
qed

lemma sat_claim: "sat P (claim_act worker expiry) (\<lambda>c f. case c of None \<Rightarrow> True
    | Some t \<Rightarrow> seen t f \<and> cs_status t \<notin> set campaign_terminal)" if "\<And>f g. P f \<Longrightarrow> keeps f g \<Longrightarrow> P g"
proof -
  have "sat P (locked (campaign_claim worker expiry checked at)) (\<lambda>c f. case c of None \<Rightarrow> True
    | Some t \<Rightarrow> seen t f \<and> cs_status t \<notin> set campaign_terminal)" for checked at
  proof (rule sat_locked [OF that])
    fix st r st'
    assume c: "campaign_claim worker expiry checked at st = (r, st')"
    then show "keeps (cm_file st) (cm_file st') \<and> (\<forall>x. r = Inr x \<longrightarrow> (case x of None \<Rightarrow> True
      | Some t \<Rightarrow> seen t (cm_file st') \<and> cs_status t \<notin> set campaign_terminal))"
    proof (cases rule: claim_cases)
      case (claimed s e)
      note 2 = this
      let ?t = "claimed_by worker e at s"
      have "continues s ?t" "cs_status ?t = cs_status s"
        using 2(2) by (auto simp: continues_def claimed_by_def campaign_bindings_def strict_prefix_def Let_def)
      moreover have "cm_file st' = Json (campaign_to_dict ?t)" by (simp add: 2(5) campaign_save_unlocked_def)
      moreover have "seen ?t (Json (campaign_to_dict ?t))" unfolding seen_def using keeps_refl by blast
      ultimately show ?thesis using 2(1,2,4) by (auto simp: keeps_def)
    qed (auto split: option.splits)
  qed
  then show ?thesis unfolding claim_act_def
    by (auto split: sum.splits intro!: sat_return sat_then [OF sat_read])
qed

subsection \<open>The runner\<close>

lemma raises_only_for_each: "(\<And>x. x \<in> set xs \<Longrightarrow> raises_only K (f x)) \<Longrightarrow> raises_only K (for_each f xs)"
proof (induction xs)
  case (Cons x xs)
  show ?case using Cons.IH Cons.prems [of x] Cons.prems by (cases "f x") (simp_all add: for_each.simps)
qed (simp add: for_each.simps)

lemma check_time_raises: "raises_only {CampaignRunnerError} (check_time v)"
  by (auto simp: check_time_def parse_timestamp_def intro!: raises_only_and_then split: option.splits)

lemma check_opt_raises: "(\<And>w. raises_only K (f w)) \<Longrightarrow> raises_only K (check_opt f v)"
  by (simp add: check_opt_def split: option.splits)

lemma campaign_validate_raises: "raises_only {CampaignRunnerError} (campaign_validate s)"
proof -
  have "raises_only {CampaignRunnerError} (check_waiting s)"
    by (auto simp: check_waiting_def intro!: raises_only_steps)
  moreover have "raises_only {CampaignRunnerError} (event_validate x)" for x
    by (auto simp: event_validate_def check_time_raises intro!: raises_only_steps split: prod.splits)
  moreover have "raises_only {CampaignRunnerError} (campaign_front s)" if "raises_only {CampaignRunnerError} (check_waiting s)"
    unfolding campaign_front_def
    by (intro raises_only_steps) (simp add: that check_time_raises check_opt_raises raises_only_for_each split: prod.splits)
  ultimately show ?thesis
    unfolding campaign_validate_def by (intro raises_only_steps) (simp add: raises_only_for_each)
qed

lemma save_lock_error:
  assumes "save_act t w = (Inl x, v)" "exc_kind x = LockError"
  shows "campaign_ok t"
proof (cases "campaign_identity (wd_store w) t")
  case (Inl e)
  have "raises_only {CampaignRunnerError} (campaign_identity (wd_store w) t)"
    unfolding campaign_identity_def by (rule raises_only_steps) (simp add: campaign_validate_raises)
  from raises_onlyD [OF this Inl] have "exc_kind e = CampaignRunnerError" by simp
  then show ?thesis using assms Inl by (auto simp: save_act_def)
next
  case (Inr i)
  then show ?thesis using identity_ok [of "wd_store w" t] by simp
qed

lemma append_continues:
  assumes "cs_status s \<notin> set campaign_terminal" and "campaign_bindings t = campaign_bindings s"
    and "cs_events t = cs_events (append_campaign_event s ty st sm now)"
  shows "continues s t"
  using assms by (auto simp: continues_def append_campaign_event_def strict_prefix_def prefix_def Let_def)

lemma retry_state_continues:
  assumes "retry_state R s reason now = Inr u" and "cs_status s \<notin> set campaign_terminal"
  shows "continues s u" "cs_event_sequence u = cs_event_sequence s + 1"
proof -
  show "cs_event_sequence u = cs_event_sequence s + 1"
    using assms by (auto simp: retry_state_def append_campaign_event_def and_then_ok Let_def split: if_splits)
  have "campaign_bindings u = campaign_bindings s \<and> (\<exists>e. cs_events u = cs_events s @ [e])"
    using assms
    by (auto simp: retry_state_def append_campaign_event_def campaign_bindings_def and_then_ok Let_def split: if_splits)
  then show "continues s u" using assms(2) by (auto simp: continues_def strict_prefix_def prefix_def)
qed

lemma defer_file:
  "defer_retry H s t w = (r, v) \<Longrightarrow> campaign_file v = campaign_file w \<and> wd_others v = wd_others w"
  by (auto simp: defer_retry_def Let_def split: file_content.splits)

definition ok_state :: "campaign_state \<Rightarrow> file_content \<Rightarrow> bool" where
  "ok_state s f \<longleftrightarrow> campaign_ok s"

lemma sat_retry:
  assumes "cs_status s \<notin> set campaign_terminal"
  shows "sat (seen s) (retry_act H R s reason) ok_state"
proof -
  have "sat (\<lambda>f. retry_state R s reason now = Inr u \<and> seen s f) (retry_save H s u) ok_state" for now u
  proof (rule satI)
    fix w r v
    assume w: "rely w" "retry_state R s reason now = Inr u \<and> seen s (campaign_file w)"
      and c: "retry_save H s u w = (r, v)"
    obtain r' w' where m: "save_act u w = (r', w')" by (cases "save_act u w")
    note u = conjunct1 [OF w(2)]
    note sv = satD [OF sat_save [OF retry_state_continues [OF u assms]] w(1) conjunct2 [OF w(2)] m]
    have "campaign_file v = campaign_file w' \<and> wd_others v = wd_others w' \<and> (\<forall>x. r = Inr x \<longrightarrow> campaign_ok x)"
    proof (cases r')
      case (Inl e)
      show ?thesis
      proof (cases "exc_kind e = LockError")
        case True
        then have "campaign_ok u" "then_act (defer_retry H s u) (\<lambda>_. return_act (Inr u)) w' = (r, v)"
          using c m Inl save_lock_error [of u w e w'] by (simp_all add: retry_save_def)
        then show ?thesis using defer_file [of H s u w']
          by (auto simp: then_act_def return_act_def split: prod.splits sum.splits)
      next
        case False
        then have "r = Inl e" "v = w'" using c by (simp_all add: retry_save_def m Inl)
        then show ?thesis by simp
      qed
    next
      case (Inr x)
      then have "r = Inr u" "v = w'" using c by (simp_all add: retry_save_def m)
      then show ?thesis using sv(3) [OF Inr] by simp
    qed
    then show "rely v \<and> keeps (campaign_file w) (campaign_file v) \<and> (\<forall>x. r = Inr x \<longrightarrow> ok_state x (campaign_file v))"
      using sv(1,2) by (simp add: rely_def ok_state_def)
  qed
  moreover have "sat (seen s) (return_act (retry_state R s reason now)) (\<lambda>u f. retry_state R s reason now = Inr u \<and> seen s f)"
    for now by (rule sat_return) blast
  ultimately show ?thesis unfolding retry_act_def by (intro sat_then [OF sat_read] sat_then)
qed

lemma sat_save_updated:
  assumes "continues s t" "cs_event_sequence t = cs_event_sequence s + 1"
  shows "sat (seen s) (save_updated t) ok_state"
  unfolding save_updated_def
  by (rule sat_then [OF sat_save [OF assms]]) (auto intro: sat_return simp: ok_state_def)

lemma append_sequence [simp]: "cs_event_sequence (append_campaign_event s ty st sm now) = cs_event_sequence s + 1"
  by (simp add: append_campaign_event_def Let_def)

lemma append_bindings [simp]: "campaign_bindings (append_campaign_event s ty st sm now) = campaign_bindings s"
  by (simp add: append_campaign_event_def campaign_bindings_def Let_def)

lemma sat_apply:
  assumes "cs_status s \<notin> set campaign_terminal"
  shows "sat (seen s) (apply_result H R s r) ok_state"
proof -
  have u: "sat (seen s) (save_updated t) ok_state"
    if "campaign_bindings t = campaign_bindings (append_campaign_event s ty st sm at)"
      "cs_events t = cs_events (append_campaign_event s ty st sm at)"
      "cs_event_sequence t = cs_event_sequence (append_campaign_event s ty st sm at)" for t ty st sm at
    using that by (intro sat_save_updated append_continues [OF assms]) simp_all
  show ?thesis
    unfolding apply_result_def
    by (auto simp: sat_retry [OF assms] campaign_bindings_def split: option.splits
        intro!: sat_then [OF sat_read] u sat_return)
qed

lemma sat_load_ok: "sat P load_act ok_state" if "\<And>f g. P f \<Longrightarrow> keeps f g \<Longrightarrow> P g"
  by (rule sat_weaken [OF sat_load [OF that]]) (simp_all add: ok_state_def)

lemma sat_work: "sat (\<lambda>_. True) (work_act H R work) ok_state"
proof -
  have c: "sat (\<lambda>f. seen t f \<and> cs_status t \<notin> set campaign_terminal) (\<lambda>w. case work (wd_reads w) t of
         Inl cls \<Rightarrow> retry_act H R t (''work invocation failed: '' @ cls) w
       | Inr r \<Rightarrow> apply_result H R t r w) ok_state" for t
  proof (cases "cs_status t \<in> set campaign_terminal")
    case False
    show ?thesis
      by (rule sat_branch [where m' = "\<lambda>u. case work (wd_reads u) t of
         Inl cls \<Rightarrow> retry_act H R t (''work invocation failed: '' @ cls)
       | Inr r \<Rightarrow> apply_result H R t r"])
        (auto split: sum.splits intro: sat_strengthen [OF sat_retry [OF False]] sat_strengthen [OF sat_apply [OF False]])
  qed (simp add: sat_def)
  show ?thesis
    unfolding work_act_def
  proof (intro sat_then [OF sat_read] sat_then [OF sat_claim])
    fix c
    show "sat (\<lambda>f. case c of None \<Rightarrow> True | Some t \<Rightarrow> seen t f \<and> cs_status t \<notin> set campaign_terminal)
      (case c of None \<Rightarrow> load_act | Some claimed \<Rightarrow> (\<lambda>w. case work (wd_reads w) claimed of
         Inl cls \<Rightarrow> retry_act H R claimed (''work invocation failed: '' @ cls) w
       | Inr r \<Rightarrow> apply_result H R claimed r w)) ok_state"
      by (cases c) (simp_all add: sat_load_ok c)
  qed simp
qed

lemma sat_catch:
  assumes m: "sat P m Q" and h: "\<And>e. sat (\<lambda>_. True) (h e) T" and k: "\<And>x. sat (Q x) (k x) T"
  shows "sat P (\<lambda>w. case m w of (Inl e, v) \<Rightarrow> h e v | (Inr x, v) \<Rightarrow> k x v) T"
proof (rule satI)
  fix w r v
  assume w: "rely w" "P (campaign_file w)" and c: "(case m w of (Inl e, v) \<Rightarrow> h e v | (Inr x, v) \<Rightarrow> k x v) = (r, v)"
  obtain r' u where mw: "m w = (r', u)" by (cases "m w")
  note u = satD [OF m w mw]
  show "rely v \<and> keeps (campaign_file w) (campaign_file v) \<and> (\<forall>x. r = Inr x \<longrightarrow> T x (campaign_file v))"
  proof (cases r')
    case (Inl e)
    have "h e u = (r, v)" using c by (simp add: mw Inl)
    from satD [OF h u(1) _ this] show ?thesis using keeps_trans [OF u(2)] by blast
  next
    case (Inr x)
    have "k x u = (r, v)" using c by (simp add: mw Inr)
    from satD [OF k u(1) u(3) [OF Inr] this] show ?thesis using keeps_trans [OF u(2)] by blast
  qed
qed

lemma sat_if: "(B \<Longrightarrow> sat P m Q) \<Longrightarrow> (\<not> B \<Longrightarrow> sat P n Q) \<Longrightarrow> sat P (\<lambda>v. if B then m v else n v) Q"
  by (cases B) simp_all

lemma sat_if_act: "sat P m Q \<Longrightarrow> sat P n Q \<Longrightarrow> sat P (if B then m else n) Q"
  by simp

lemma sat_raise: "sat P (\<lambda>v. (Inl e, v)) Q"
  by (simp add: sat_def)

lemma sat_wake:
  assumes "cs_status s \<notin> set campaign_terminal"
  shows "sat (seen s) (wake_act H R work s) ok_state"
proof -
  have "sat (\<lambda>_. True) (\<lambda>v. if exc_kind e = CampaignRunnerError \<and> contains_text ''changed concurrently'' (exc_msg e)
         then load_act v else (Inl e, v)) ok_state" for e
    by (rule sat_if) (simp_all add: sat_load_ok sat_raise)
  note h = this
  have "sat (seen s) (\<lambda>w. case save_act t w of
       (Inl e, v) \<Rightarrow> if exc_kind e = CampaignRunnerError \<and> contains_text ''changed concurrently'' (exc_msg e)
         then load_act v else (Inl e, v)
     | (Inr _, v) \<Rightarrow> work_act H R work v) ok_state"
    if "continues s t" "cs_event_sequence t = cs_event_sequence s + 1" for t
    by (rule sat_catch [OF sat_save [OF that] h sat_strengthen [OF sat_work]]) simp
  note k = this
  have c: "continues s (append_campaign_event s ty st sm now\<lparr>cs_status := a, cs_reason := b, cs_resource := c,
      cs_expected_condition := d, cs_waiting_since := e, cs_next_check_at := f\<rparr>)" for ty st sm now a b c d e f
    by (rule append_continues [OF assms]) (simp_all add: append_campaign_event_def campaign_bindings_def Let_def)
  show ?thesis unfolding wake_act_def by (rule sat_then [OF sat_read], rule k [OF c]) simp
qed

lemma sat_probe:
  assumes "cs_status s \<notin> set campaign_terminal"
  shows "sat (seen s) (probe_act H R probe work guard s) ok_state"
  unfolding probe_act_def
  by (rule sat_branch [where m' = "\<lambda>u. case probe (wd_reads u) s of
     Inl cls \<Rightarrow> retry_act H R s (''external probe failed: '' @ cls)
   | Inr False \<Rightarrow> retry_act H R s ''external condition not satisfied''
   | Inr True \<Rightarrow> then_act (return_act (guard s)) (\<lambda>_. wake_act H R work s)"])
    (auto split: sum.splits bool.splits intro: sat_retry [OF assms] sat_then [OF sat_return] sat_wake [OF assms])

text \<open>Recovery continues what it finds.\<close>

lemma check_deferred_continues:
  assumes "check_deferred legacy before after = Inr p"
  shows "p = (before, after) \<and> continues before after"
proof -
  obtain t reason where r: "cs_reason after = Some reason" "cs_status before \<notin> set campaign_terminal"
      "after = expected_after before after reason t"
    and p: "p = (before, after)"
    using assms by (auto simp: check_deferred_def and_then_ok split: option.splits if_splits)
  have "campaign_bindings (expected_after before after reason t) = campaign_bindings before"
    "strict_prefix (cs_events before) (cs_events (expected_after before after reason t))"
    by (simp_all add: expected_after_def campaign_bindings_def strict_prefix_def Let_def)
  then show ?thesis using r p by (metis continues_def)
qed

lemma read_deferred_continues: "read_deferred H st f legacy = Inr (b, a) \<Longrightarrow> continues b a"
  by (auto simp: read_deferred_def and_then_ok dest!: check_deferred_continues
      split: file_content.splits json.splits if_splits)

lemma deferred_continues:
  assumes "deferred_records H st = Inr rs" and "(b, a) \<in> set rs"
  shows "continues b a"
proof -
  have "list_all (\<lambda>(b, a). continues b a) rs"
    using assms(1) unfolding deferred_records_def
    by (rule map_res_all) (auto dest: read_deferred_continues)
  then show ?thesis using assms(2) by (auto simp: list_all_iff)
qed

lemma sat_settle:
  assumes "continues before after"
  shows "sat (\<lambda>_. True) (locked (settle_deferred before after)) (\<lambda>_ _. True)"
proof (rule sat_locked)
  fix st r st'
  assume s: "settle_deferred before after st = (r, st')"
  have "cm_file st' = cm_file st \<or> campaign_held (cm_file st) before \<and> cm_file st' = Json (campaign_to_dict after)"
    using s by (auto simp: settle_deferred_def campaign_load_unlocked_def campaign_save_unlocked_def Let_def
        split: sum.splits if_splits)
  then show "keeps (cm_file st) (cm_file st') \<and> (\<forall>x. r = Inr x \<longrightarrow> True)"
    using assms by (auto simp: keeps_def)
qed simp

lemma sat_recover: "sat (\<lambda>_. True) (recover_deferred H) (\<lambda>_ _. True)"
proof (rule satI)
  fix w r v
  assume w: "rely w" "recover_deferred H w = (r, v)"
  show "rely v \<and> keeps (campaign_file w) (campaign_file v) \<and> (\<forall>x. r = Inr x \<longrightarrow> True)"
  proof (cases "\<exists>b a rs. deferred_records H (wd_store w) = Inr ((b, a) # rs) \<and> \<not> list_ex (\<lambda>r. r \<noteq> (b, a)) rs")
    case True
    then obtain b a rs where d: "deferred_records H (wd_store w) = Inr ((b, a) # rs)" "\<not> list_ex (\<lambda>r. r \<noteq> (b, a)) rs"
      by blast
    have "continues b a" using deferred_continues [OF d(1)] by simp
    moreover have "locked (settle_deferred b a) w = (r, v)" using w(2) d by (simp add: recover_deferred_def)
    ultimately show ?thesis using satD [OF sat_settle w(1)] by blast
  next
    case False
    have "snd (recover_deferred H w) = w"
    proof (cases "deferred_records H (wd_store w)")
      case (Inr rs)
      note d = this
      show ?thesis
      proof (cases rs)
        case (Cons p ps)
        obtain b a where p: "p = (b, a)" by (cases p)
        then have "list_ex (\<lambda>r. r \<noteq> (b, a)) ps" using False d Cons by blast
        then show ?thesis by (simp only: recover_deferred_def d Cons p sum.case list.case prod.case if_True snd_conv)
      qed (simp add: recover_deferred_def d)
    qed (simp add: recover_deferred_def)
    then have "v = w" by (simp only: w(2) snd_conv)
    then show ?thesis using w(1) by simp
  qed
qed

lemma sat_tick: "sat (\<lambda>_. True) (tick H R probe work guard) ok_state"
proof -
  have "sat (\<lambda>_. True) (tick_locked H R probe work guard) ok_state"
    unfolding tick_locked_def
  proof (intro sat_then [OF sat_recover] sat_then [OF sat_load])
    fix s
    have ok: "sat (\<lambda>f. seen s f \<and> campaign_ok s) (return_act (Inr s)) ok_state"
      by (rule sat_return) (simp add: ok_state_def)
    show "sat (\<lambda>f. seen s f \<and> campaign_ok s) (if cs_status s \<in> set campaign_terminal then return_act (Inr s)
     else then_act read_clock (\<lambda>now.
       if cs_status s \<in> set waiting_statuses
       then then_act (return_act (parse_timestamp (or_else (cs_next_check_at s) []))) (\<lambda>due.
         if now < due then return_act (Inr s) else probe_act H R probe work guard s)
       else work_act H R work)) ok_state"
    proof (cases "cs_status s \<in> set campaign_terminal")
      case False
      have "sat (\<lambda>f. seen s f \<and> campaign_ok s) (probe_act H R probe work guard s) ok_state"
        by (rule sat_strengthen [OF sat_probe [OF False]]) simp
      moreover have "sat (\<lambda>f. seen s f \<and> campaign_ok s) (work_act H R work) ok_state"
        by (rule sat_strengthen [OF sat_work]) simp
      ultimately show ?thesis
        unfolding if_not_P [OF False]
        by (intro sat_then [OF sat_read] sat_if_act sat_then_return ok)
    qed (simp add: ok)
  qed simp
  then have "sat (\<lambda>_. True) (if b then load_act else tick_locked H R probe work guard) ok_state" for b
    by (intro sat_if_act sat_load_ok TrueI)
  note t = this
  show ?thesis unfolding tick_def
    by (rule sat_branch [where m' = "\<lambda>u. if wd_running u (wd_locks u) then load_act else tick_locked H R probe work guard"])
      (simp_all only: if_distribR t)
qed

subsection \<open>Any operation of a runner\<close>

datatype runner_op = Op_tick campaign_probe campaign_work "campaign_state \<Rightarrow> unit res"
  | Op_run campaign_probe campaign_work "int option"
  | Op_reset string | Op_schedule string | Op_invalidate string

text \<open>\<open>None\<close> if the operation does not return, which only the loop may do\<close>

fun runner_outcome :: "(string \<Rightarrow> string) \<Rightarrow> runner \<Rightarrow> runner_op \<Rightarrow> world \<Rightarrow> (campaign_state res \<times> world) option" where
  "runner_outcome H R (Op_tick probe work guard) w = Some (tick H R probe work guard w)"
| "runner_outcome H R (Op_run probe work max_ticks) w = run_forever H R probe work max_ticks w"
| "runner_outcome H R (Op_reset reason) w = Some (reset_retry reason w)"
| "runner_outcome H R (Op_schedule reason) w = Some (schedule_retry H R reason w)"
| "runner_outcome H R (Op_invalidate reason) w = Some (invalidate_binding reason w)"

definition safe_result :: "world \<Rightarrow> campaign_state res \<times> world \<Rightarrow> bool" where
  "safe_result w rv \<longleftrightarrow> (case rv of (r, v) \<Rightarrow>
     rely v \<and> keeps (campaign_file w) (campaign_file v) \<and> (\<forall>x. r = Inr x \<longrightarrow> campaign_ok x))"

lemma sat_safe: "sat (\<lambda>_. True) m ok_state \<Longrightarrow> rely w \<Longrightarrow> safe_result w (m w)"
  by (cases "m w") (auto simp: sat_def safe_result_def ok_state_def)

lemma sat_sleep: "sat P (sleep_until s) (\<lambda>_ _. True)"
proof -
  have "sat P (\<lambda>w. (Inr (), w\<lparr>wd_now := max now due\<rparr>)) (\<lambda>_ _. True)" for now due
    by (simp add: sat_def rely_def)
  note k = this
  show ?thesis
  proof (cases "cs_next_check_at s")
    case None
    then show ?thesis by (simp add: sleep_until_def sat_return)
  next
    case (Some n)
    then show ?thesis by (auto simp: sleep_until_def intro!: sat_then_return sat_then [OF sat_read] k)
  qed
qed

lemma run_loop_safe:
  assumes "run_loop H R probe work mx k w = Some rv" and "rely w"
  shows "safe_result w rv"
proof -
  have "rely w \<longrightarrow> safe_result w rv"
  proof (rule run_loop.raw_induct [of "\<lambda>H R probe work mx k w rv. rely w \<longrightarrow> safe_result w rv", OF _ assms(1)])
    fix loop H R probe work mx k w rv
    assume IH: "\<And>H R probe work mx k w rv. loop H R probe work mx k w = Some rv \<Longrightarrow> rely w \<longrightarrow> safe_result w rv"
      and eq: "(case tick H R probe work (\<lambda>_. Inr ()) w of
     (Inl e, v) \<Rightarrow> Some (Inl e, v)
   | (Inr s, v) \<Rightarrow>
       if cs_status s \<in> set campaign_terminal then Some (Inr s, v)
       else if (case mx of None \<Rightarrow> False | Some m \<Rightarrow> k + 1 \<ge> m) then Some (Inr s, v)
       else (case sleep_until s v of
           (Inl e, u) \<Rightarrow> Some (Inl e, u)
         | (Inr _, u) \<Rightarrow>
             if \<not> rn_sleep R then Some (camp_error ''persistent runner requires a sleep function'', u)
             else loop H R probe work mx (k + 1) u)) = Some rv"
    show "rely w \<longrightarrow> safe_result w rv"
    proof
      assume w: "rely w"
      obtain r v where t: "tick H R probe work (\<lambda>_. Inr ()) w = (r, v)" by (cases "tick H R probe work (\<lambda>_. Inr ()) w")
      have tv: "safe_result w (r, v)" using sat_safe [OF sat_tick w] t by metis
      then have v: "rely v" "keeps (campaign_file w) (campaign_file v)" by (simp_all add: safe_result_def)
      show "safe_result w rv"
      proof (cases r)
        case (Inl e)
        then show ?thesis using eq tv by (simp add: t)
      next
        case (Inr s)
        obtain q u where sl: "sleep_until s v = (q, u)" by (cases "sleep_until s v")
        from satD [OF sat_sleep v(1) TrueI sl]
        have u: "rely u" "keeps (campaign_file w) (campaign_file u)" using keeps_trans [OF v(2)] by blast+
        have "rv = (r, v) \<or> (\<exists>e. rv = (Inl e, u)) \<or> loop H R probe work mx (k + 1) u = Some rv"
          using eq by (auto simp: t Inr sl raise_def split: if_splits option.splits sum.splits)
        then consider "rv = (r, v)" | e where "rv = (Inl e, u)" | "loop H R probe work mx (k + 1) u = Some rv" by blast
        then show ?thesis
        proof cases
          case 3
          from IH [OF 3] u have "safe_result u rv" by blast
          then show ?thesis using keeps_trans [OF u(2)] by (auto simp: safe_result_def)
        qed (use tv u in \<open>simp_all add: safe_result_def\<close>)
      qed
    qed
  qed
  with assms(2) show ?thesis by blast
qed

lemma sat_reset: "sat (\<lambda>_. True) (reset_retry reason) ok_state"
  unfolding reset_retry_def
proof (rule sat_then [OF sat_load])
  fix s
  let ?P = "\<lambda>f. seen s f \<and> campaign_ok s"
  show "sat ?P (if cs_status s \<noteq> Camp_RETRY_BACKOFF then return_act (camp_error ''campaign is not in a retryable terminal state'')
     else if blank reason then return_act (camp_error ''retry reset reason is required'')
     else then_act read_clock (\<lambda>at. then_act read_clock (\<lambda>since. then_act read_clock (\<lambda>next.
       save_updated ((append_campaign_event s ''RETRY_RESET'' (campaign_status_value Camp_WAITING_EXTERNAL) reason at)
         \<lparr>cs_status := Camp_WAITING_EXTERNAL, cs_reason := Some (py_strip reason),
          cs_expected_condition := Some ''external probe after repaired driver'', cs_resource := cs_resource s,
          cs_waiting_since := Some (show_time since), cs_next_check_at := Some (show_time next),
          cs_retry_count := 0, cs_lease_owner := None, cs_lease_expires_at := None\<rparr>))))) ok_state"
  proof (cases "cs_status s = Camp_RETRY_BACKOFF \<and> \<not> blank reason")
    case True
    then have nt: "cs_status s \<notin> set campaign_terminal" by (simp add: campaign_terminal_def)
    have "sat ?P (save_updated t) ok_state"
      if "campaign_bindings t = campaign_bindings s" "cs_events t = cs_events (append_campaign_event s ty st sm at)"
        "cs_event_sequence t = cs_event_sequence s + 1" for t ty st sm at
      by (rule sat_strengthen [OF sat_save_updated [OF append_continues [OF nt that(1,2)] that(3)]]) simp
    with True show ?thesis
      by (auto intro!: sat_then [OF sat_read] simp: append_campaign_event_def campaign_bindings_def Let_def)
  qed (auto intro!: sat_return)
qed simp

lemma sat_invalidate: "sat (\<lambda>_. True) (invalidate_binding reason) ok_state"
  unfolding invalidate_binding_def
proof (rule sat_then [OF sat_load])
  fix s
  let ?P = "\<lambda>f. seen s f \<and> campaign_ok s"
  show "sat ?P (if cs_status s \<in> set campaign_terminal then return_act (Inr s)
     else if blank reason then return_act (camp_error ''stale binding reason is required'')
     else then_act read_clock (\<lambda>at.
       save_updated ((append_campaign_event s ''STALE_BINDING'' (campaign_status_value Camp_BLOCKED_NON_RETRYABLE) reason at)
         \<lparr>cs_status := Camp_BLOCKED_NON_RETRYABLE, cs_reason := Some (py_strip reason), cs_waiting_since := None,
          cs_next_check_at := None, cs_lease_owner := None, cs_lease_expires_at := None\<rparr>))) ok_state"
  proof (cases "cs_status s \<in> set campaign_terminal \<or> blank reason")
    case False
    then have nt: "cs_status s \<notin> set campaign_terminal" by blast
    have "sat ?P (save_updated t) ok_state"
      if "campaign_bindings t = campaign_bindings s" "cs_events t = cs_events (append_campaign_event s ty st sm at)"
        "cs_event_sequence t = cs_event_sequence s + 1" for t ty st sm at
      by (rule sat_strengthen [OF sat_save_updated [OF append_continues [OF nt that(1,2)] that(3)]]) simp
    with False show ?thesis
      by (auto intro!: sat_then [OF sat_read] simp: append_campaign_event_def campaign_bindings_def Let_def)
  qed (auto intro!: sat_return simp: ok_state_def)
qed simp

lemma sat_schedule: "sat (\<lambda>_. True) (schedule_retry H R reason) ok_state"
proof -
  have body: "sat (\<lambda>_. True) (then_act (recover_deferred H) (\<lambda>_. then_act load_act (\<lambda>s.
       if cs_status s \<in> set campaign_terminal then return_act (Inr s)
       else if blank reason then return_act (camp_error ''retry reason is required'')
       else retry_act H R s (py_strip reason)))) ok_state"
  proof (intro sat_then [OF sat_recover] sat_then [OF sat_load])
    fix s
    show "sat (\<lambda>f. seen s f \<and> campaign_ok s) (if cs_status s \<in> set campaign_terminal then return_act (Inr s)
       else if blank reason then return_act (camp_error ''retry reason is required'')
       else retry_act H R s (py_strip reason)) ok_state"
      by (auto intro!: sat_return simp: ok_state_def)
        (rule sat_strengthen [OF sat_retry]; simp)
  qed simp
  show ?thesis unfolding schedule_retry_def
    by (rule sat_branch [where m' = "\<lambda>w. if wd_running w (wd_locks w)
     then (\<lambda>v. (raise LockError (''lock is held: campaign-'' @ cm_project_id (wd_store w) @ ''-'' @ cm_campaign_id (wd_store w) @ ''.lock''), v))
     else then_act (recover_deferred H) (\<lambda>_. then_act load_act (\<lambda>s.
       if cs_status s \<in> set campaign_terminal then return_act (Inr s)
       else if blank reason then return_act (camp_error ''retry reason is required'')
       else retry_act H R s (py_strip reason)))"])
      (simp_all add: body, simp add: raise_def sat_raise)
qed

lemma runner_outcome_safe:
  assumes "runner_outcome H R op w = Some rv" and "rely w"
  shows "safe_result w rv"
  using assms
  by (cases op) (auto simp: run_forever_def intro: run_loop_safe
      dest: sat_safe [OF sat_tick] sat_safe [OF sat_reset] sat_safe [OF sat_schedule] sat_safe [OF sat_invalidate])

text \<open>Any number of operations of any number of runners, in any order\<close>

inductive runner_steps :: "(string \<Rightarrow> string) \<Rightarrow> world \<Rightarrow> world \<Rightarrow> bool" for H where
  none: "runner_steps H w w"
| step: "runner_steps H w v \<Longrightarrow> runner_outcome H R op v = Some (r, u) \<Longrightarrow> runner_steps H w u"

lemma runner_steps_safe:
  assumes "runner_steps H w v" and "rely w"
  shows "rely v \<and> keeps (campaign_file w) (campaign_file v)"
  using assms
proof (induction rule: runner_steps.induct)
  case (step w v R op r u)
  then have "safe_result v (r, u)" using runner_outcome_safe by blast
  then show ?case using step keeps_trans by (auto simp: safe_result_def)
qed simp

subsection \<open>Samples\<close>

definition sample_campaign :: campaign_state where
  "sample_campaign = \<lparr>cs_schema_version = ''1.0'', cs_campaign_id = ''campaign-a'', cs_project_id = ''project-a'',
     cs_session_id = ''session-a'', cs_status = Camp_RUNNING, cs_phase = ''build'', cs_reason = None, cs_resource = None,
     cs_expected_condition = None, cs_created_at = ''2026-01-01T00:00:00Z'', cs_updated_at = ''2026-01-01T00:00:00Z'',
     cs_waiting_since = None, cs_next_check_at = None, cs_lease_owner = None, cs_lease_expires_at = None,
     cs_retry_count = 0, cs_retry_budget = 3, cs_operation_id = ''operation-a'', cs_target_sha = replicate 40 (CHR ''0''),
     cs_lineage_binding = ''lineage'', cs_wake_generation = 0, cs_event_sequence = 0, cs_events = [],
     cs_policy_binding = None, cs_authority_generation = None\<rparr>"

definition sample_campaign_store :: "campaign_state \<Rightarrow> campaign_store" where
  "sample_campaign_store s = \<lparr>cm_project_id = ''project-a'', cm_campaign_id = ''campaign-a'',
     cm_file = Json (campaign_to_dict s), cm_deferred = No_File, cm_legacy = No_File\<rparr>"

text \<open>No time passes but in sleep, no lock is held, nobody else writes.\<close>

definition quiet_world :: "campaign_state \<Rightarrow> world" where
  "quiet_world s = \<lparr>wd_store = sample_campaign_store s, wd_now = [2026, 1, 1, 0, 0, 0], wd_reads = 0, wd_drift = (\<lambda>_. 0),
     wd_locks = 0, wd_busy = (\<lambda>_. False), wd_running = (\<lambda>_. False), wd_others = (\<lambda>_ f. f)\<rparr>"

definition sample_runner :: runner where
  "sample_runner = \<lparr>rn_base_backoff_seconds = 30, rn_max_backoff_seconds = 600, rn_worker_id = ''runner-a'',
     rn_lease_seconds = 300, rn_sleep = True\<rparr>"

lemma sample_times [simp]:
  "strptime ''2026-01-01T00:00:00Z'' = Some [2026, 1, 1, 0, 0, 0]"
  by code_simp

lemma sample_campaign_ok: "campaign_ok sample_campaign"
  by (simp add: campaign_ok_def campaign_validate_def campaign_front_def sample_campaign_def steps_ok for_each_ok campaign_ident_def
      bad_text_def blank_def py_space_def check_opt_def check_time_def parse_timestamp_def check_waiting_def
      waiting_statuses_def sha1_match_def list_all_iff is_hex_def is_digit_def starts_with_def)

lemma quiet_rely: "rely (quiet_world s)"
  by (simp add: rely_def quiet_world_def)

lemma quiet_file [simp]: "campaign_file (quiet_world s) = Json (campaign_to_dict s)"
  by (simp add: quiet_world_def sample_campaign_store_def)

subsection \<open>The properties\<close>

text \<open>C1. Whatever any number of campaign runners do in any order, while the other processes only
  continue what is stored: the stored campaign stays the same campaign with the same bindings, its
  recorded events stay, more events only follow them, and from a terminal status it does not change
  at all. No concurrent change is ever lost.\<close>

theorem campaign_history_safe:
  assumes "runner_steps H w v" and "rely w" and "campaign_held (campaign_file w) s"
  shows "\<exists>t. continues s t \<and> (campaign_held (campaign_file v) t \<or> campaign_file v = Json (campaign_to_dict t))"
  using runner_steps_safe [OF assms(1,2)] keeps_held [OF _ assms(3)] by blast

definition failing_tick :: "campaign_state act" where
  "failing_tick = tick (\<lambda>_. []) sample_runner (\<lambda>_ _. Inr True) (\<lambda>_ _. Inl ''OSError'') (\<lambda>_. Inr ())"

lemma failing_tick_steps: "runner_steps (\<lambda>_. []) w (snd (failing_tick w))"
  by (rule runner_steps.step [OF runner_steps.none, where R = sample_runner and r = "fst (failing_tick w)"
        and op = "Op_tick (\<lambda>_ _. Inr True) (\<lambda>_ _. Inl ''OSError'') (\<lambda>_. Inr ())"])
    (simp add: failing_tick_def)

theorem campaign_history_safe_witness:
  "\<exists>t. continues sample_campaign t \<and> (campaign_held (campaign_file (snd (failing_tick (quiet_world sample_campaign)))) t
     \<or> campaign_file (snd (failing_tick (quiet_world sample_campaign))) = Json (campaign_to_dict t))"
  by (rule campaign_history_safe [OF failing_tick_steps quiet_rely]) (simp add: sample_campaign_ok)

text \<open>C39. Every state an operation of the runner returns passes the validator, whatever the caller's
  probe and work return, as long as what happens around the runner only continues what is stored.\<close>

theorem runner_result_valid:
  assumes "runner_outcome H R op w = Some (Inr s, v)" and "rely w"
  shows "campaign_validate s = Inr ()"
  using runner_outcome_safe [OF assms] by (simp add: safe_result_def campaign_ok_def)

end
