(* ===== verification/CampaignRetry.thy ===== *)
theory CampaignRetry
  imports CampaignSafety
begin

section \<open>Leases, retries and the retry budget\<close>

text \<open>
  What a runner achieves when nobody interferes: the lemmas follow one tick step by step through a
  world in which locks are free and nobody else writes. They give the exclusiveness of a claim, the
  bounds of the backoff, the recovery of a deferred retry, and that a campaign whose work never
  succeeds ends in \<open>BLOCKED_NON_RETRYABLE\<close>. The last section is about the limit of 500 events, which a
  claim does not respect.
\<close>

subsection \<open>Validity of changed states\<close>

definition events_ok :: "campaign_event list \<Rightarrow> bool" where
  "events_ok es \<longleftrightarrow> (\<forall>x\<in>set (zip [1..int (length es)] es). event_validate x = Inr ())"

definition time_ok :: "string \<Rightarrow> bool" where
  "time_ok v \<longleftrightarrow> strptime v \<noteq> None"

lemma check_time_ok [simp]: "check_time v = Inr () \<longleftrightarrow> time_ok v"
  by (auto simp: check_time_def parse_timestamp_def time_ok_def raise_def split: option.splits)

lemma check_opt_ok [simp]: "check_opt f v = Inr () \<longleftrightarrow> (v = None \<or> f (the v) = Inr ())"
  by (simp add: check_opt_def split: option.splits)

lemma parse_timestamp_ok: "strptime v = Some t \<Longrightarrow> parse_timestamp v = Inr t"
  by (simp add: parse_timestamp_def)

lemma events_ok_append:
  "events_ok (es @ [e]) \<longleftrightarrow> events_ok es \<and> event_validate (int (length es) + 1, e) = Inr ()"
proof -
  have "[1..int (length es) + 1] = [1..int (length es)] @ [int (length es) + 1]" by (simp add: upto_rec2)
  then have "zip [1..int (length es) + 1] (es @ [e]) = zip [1..int (length es)] es @ [(int (length es) + 1, e)]" by simp
  then show ?thesis by (auto simp: events_ok_def add.commute)
qed

text \<open>The part of the validator that no operation changes, and the rest\<close>

definition fixed_ok :: "campaign_state \<Rightarrow> bool" where
  "fixed_ok s \<longleftrightarrow> cs_schema_version s = ''1.0'' \<and> campaign_ident ''campaign-'' (cs_campaign_id s) \<and>
     campaign_ident ''project-'' (cs_project_id s) \<and> campaign_ident ''session-'' (cs_session_id s) \<and>
     campaign_ident ''operation-'' (cs_operation_id s) \<and> \<not> bad_text (cs_phase s) \<and> time_ok (cs_created_at s) \<and>
     0 \<le> cs_retry_budget s \<and> cs_retry_budget s \<le> 1000 \<and> sha1_match (cs_target_sha s) \<and> \<not> blank (cs_lineage_binding s) \<and>
     (cs_policy_binding s = None \<or> \<not> blank (the (cs_policy_binding s))) \<and>
     (cs_authority_generation s = None \<or> \<not> the (cs_authority_generation s) < 1)"

definition varying_ok :: "campaign_state \<Rightarrow> bool" where
  "varying_ok s \<longleftrightarrow> (cs_reason s = None \<or> \<not> bad_text (the (cs_reason s))) \<and>
     (cs_resource s = None \<or> \<not> bad_text (the (cs_resource s))) \<and>
     (cs_expected_condition s = None \<or> \<not> bad_text (the (cs_expected_condition s))) \<and>
     time_ok (cs_updated_at s) \<and> (cs_waiting_since s = None \<or> time_ok (the (cs_waiting_since s))) \<and>
     (cs_next_check_at s = None \<or> time_ok (the (cs_next_check_at s))) \<and>
     (cs_lease_expires_at s = None \<or> time_ok (the (cs_lease_expires_at s))) \<and>
     (cs_lease_owner s = None \<longleftrightarrow> cs_lease_expires_at s = None) \<and> check_waiting s = Inr () \<and>
     0 \<le> cs_retry_count s \<and> cs_retry_count s \<le> cs_retry_budget s \<and> 0 \<le> cs_wake_generation s"

text \<open>The journal without its limit\<close>

definition events_numbered :: "campaign_state \<Rightarrow> bool" where
  "events_numbered s \<longleftrightarrow> int (length (cs_events s)) = cs_event_sequence s \<and> events_ok (cs_events s)"

lemma campaign_front_ok:
  "campaign_front s = Inr () \<longleftrightarrow> fixed_ok s \<and> varying_ok s \<and> 0 \<le> cs_event_sequence s"
proof -
  have g: "(case v of None \<Rightarrow> False | Some g \<Rightarrow> g < (1 :: int)) \<longleftrightarrow> \<not> (v = None \<or> \<not> the v < 1)" for v
    by (cases v) auto
  have n: "\<not> ((a = None) \<noteq> (b = None)) \<longleftrightarrow> (a = None \<longleftrightarrow> b = None)" for a :: "string option" and b :: "string option" by blast
  show ?thesis
    unfolding campaign_front_def steps_ok list.pred_inject for_each_ok
    unfolding list.set ball_simps prod.case raise_if_ok check_opt_ok check_time_ok not_not g n not_less fixed_ok_def varying_ok_def
    by (rule iffI; elim conjE; intro conjI; (assumption | rule TrueI | rule list.pred_inject(1)))
qed

lemma campaign_ok_parts:
  "campaign_ok s \<longleftrightarrow> fixed_ok s \<and> varying_ok s \<and> events_numbered s \<and> length (cs_events s) \<le> 500"
  unfolding campaign_ok_def campaign_validate_def steps_ok list.pred_inject campaign_front_ok
  by (auto simp: events_numbered_def events_ok_def for_each_ok)

lemma fixed_bindings: "campaign_bindings t = campaign_bindings s \<Longrightarrow> fixed_ok t = fixed_ok s"
  by (simp add: campaign_bindings_def fixed_ok_def)

lemma journal_append:
  assumes "events_numbered s" "cs_events t = cs_events s @ [e]" "cs_event_sequence t = cs_event_sequence s + 1"
    and "cev_sequence e = cs_event_sequence s + 1" "\<not> blank (cev_event_type e)" "\<not> blank (cev_summary e)"
      "time_ok (cev_timestamp e)"
  shows "events_numbered t"
  using assms by (simp add: events_numbered_def events_ok_append event_validate_def steps_ok)

lemma too_many_events:
  assumes "fixed_ok s" "varying_ok s" "0 \<le> cs_event_sequence s" "500 < length (cs_events s)"
  shows "campaign_validate s = camp_error ''campaign event journal is invalid''"
proof (cases "0 \<le> cs_event_sequence s")
  case True
  then have "campaign_front s = Inr ()" using assms by (simp add: campaign_front_ok)
  then show ?thesis using assms(4) by (simp add: campaign_validate_def steps.simps raise_if_def raise_def)
qed (use assms in simp)

lemma campaign_ok_room:
  assumes "fixed_ok t" "varying_ok t" "events_numbered t"
  shows "campaign_validate t = (if length (cs_events t) \<le> 500 then Inr () else camp_error ''campaign event journal is invalid'')"
proof (cases "length (cs_events t) \<le> 500")
  case True
  then show ?thesis using assms campaign_ok_parts [of t] by (simp add: campaign_ok_def)
next
  case False
  then show ?thesis using assms too_many_events [of t] by (simp add: events_numbered_def)
qed

subsection \<open>A claim\<close>

definition shows_time :: "instant \<Rightarrow> bool" where
  "shows_time t \<longleftrightarrow> strptime (show_time t) = Some t"

lemma clock_shows: "valid_instant t \<Longrightarrow> 1000 \<le> hd t \<Longrightarrow> hd t \<le> 9999 \<Longrightarrow> shows_time t"
  by (simp add: shows_time_def strptime_show)

lemma shows_time_ok: "shows_time t \<Longrightarrow> time_ok (show_time t)"
  by (simp add: shows_time_def time_ok_def)

lemma claimed_parts:
  assumes "campaign_ok s" "shows_time expiry" "shows_time at"
  shows "fixed_ok (claimed_by worker expiry at s)" "varying_ok (claimed_by worker expiry at s)"
    "events_numbered (claimed_by worker expiry at s)"
proof -
  let ?t = "claimed_by worker expiry at s"
  have f: "cs_events ?t = cs_events s @ [\<lparr>cev_sequence = cs_event_sequence s + 1, cev_event_type = ''WORK_CLAIM'',
       cev_status = campaign_status_value (cs_status s), cev_timestamp = show_time at,
       cev_summary = ''provider/work lease claimed''\<rparr>]" "cs_event_sequence ?t = cs_event_sequence s + 1"
    by (simp_all add: claimed_by_def)
  have s: "fixed_ok s" "varying_ok s" "events_numbered s" using assms(1) by (simp_all add: campaign_ok_parts)
  show "events_numbered ?t"
    by (rule journal_append [OF s(3) f]) (simp_all add: assms shows_time_ok blank_def py_space_def)
  have "campaign_bindings ?t = campaign_bindings s" by (simp add: campaign_bindings_def claimed_by_def Let_def)
  then show "fixed_ok ?t" using s(1) fixed_bindings by blast
  have "check_waiting ?t = check_waiting s" by (simp add: check_waiting_def claimed_by_def Let_def)
  moreover have "cs_reason ?t = cs_reason s" "cs_resource ?t = cs_resource s" "cs_expected_condition ?t = cs_expected_condition s"
    "cs_updated_at ?t = show_time at" "cs_waiting_since ?t = cs_waiting_since s" "cs_next_check_at ?t = cs_next_check_at s"
    "cs_lease_expires_at ?t = Some (show_time expiry)" "cs_lease_owner ?t = Some worker" "cs_retry_count ?t = cs_retry_count s"
    "cs_retry_budget ?t = cs_retry_budget s" "cs_wake_generation ?t = cs_wake_generation s"
    by (simp_all add: claimed_by_def Let_def)
  ultimately show "varying_ok ?t" using s(2) shows_time_ok [OF assms(2)] shows_time_ok [OF assms(3)]
    by (simp add: varying_ok_def)
qed

lemma load_written:
  "cm_file st = Json (campaign_to_dict s) \<Longrightarrow> campaign_load st = and_then (campaign_validate s) (\<lambda>_. Inr s)"
  by (cases "campaign_validate s")
    (simp_all add: campaign_load_def campaign_load_unlocked_def load_cell_def campaign_dec_enc)

lemma claim_written:
  assumes "campaign_claim worker (show_time expiry) checked at st = (Inr (Some c), st')" "shows_time expiry"
  obtains s where "campaign_held (cm_file st) s" "cs_status s \<notin> set campaign_terminal" "c = claimed_by worker expiry at s"
    "st' = campaign_save_unlocked c st"
proof -
  have e: "claim_checks worker (show_time expiry) = Inr x \<Longrightarrow> x = expiry" for x
    using assms(2) by (auto simp: claim_checks_def parse_timestamp_def shows_time_def split: if_splits)
  show thesis
    using assms(1)
  proof (cases rule: claim_cases)
    case (claimed s x)
    then show thesis using that [OF claimed(1,2)] e [OF claimed(3)] by simp
  qed simp
qed

text \<open>C25. A claim is exclusive: after a successful claim, every further claim that looks at the clock
  before the lease expires, of whatever worker, gets nothing and writes nothing.\<close>

theorem claim_exclusive:
  assumes "campaign_claim worker (show_time expiry) checked at st = (Inr (Some c), st')"
    and "shows_time expiry" and "shows_time at" and "checked' < expiry"
  shows "campaign_claim worker' expiry' checked' at' st' = (case claim_checks worker' expiry' of Inl e \<Rightarrow> Inl e
    | Inr _ \<Rightarrow> if length (cs_events c) \<le> 500 then Inr None else camp_error ''campaign event journal is invalid'', st')"
proof -
  obtain s where s: "campaign_held (cm_file st) s" "cs_status s \<notin> set campaign_terminal"
    and c: "c = claimed_by worker expiry at s" and "st' = campaign_save_unlocked c st"
    by (rule claim_written [OF assms(1,2)])
  then have st': "cm_file st' = Json (campaign_to_dict c)" by (simp add: campaign_save_unlocked_def)
  have f: "cs_status c = cs_status s" "cs_lease_owner c = Some worker" "cs_lease_expires_at c = Some (show_time expiry)"
    by (simp_all add: c claimed_by_def Let_def)
  have "campaign_validate c = (if length (cs_events c) \<le> 500 then Inr () else camp_error ''campaign event journal is invalid'')"
    unfolding c by (rule campaign_ok_room; rule claimed_parts [OF campaign_codec.holds_valid [OF s(1)] assms(2,3)])
  then have l: "campaign_load st' = (if length (cs_events c) \<le> 500 then Inr c else camp_error ''campaign event journal is invalid'')"
    using load_written [OF st'] by (simp add: raise_def)
  have "live_lease checked' c = Inr True"
    using assms(2,4) by (simp add: live_lease_def f parse_timestamp_def shows_time_def)
  then show ?thesis using s(2) by (simp add: campaign_claim_def l f raise_def split: sum.splits)
qed

text \<open>The limit of 500 events is checked on loading and on saving, but not by a claim: on a campaign
  with 500 events a claim succeeds and writes a 501st, and from then on the file cannot be loaded,
  and no store operation repairs it.\<close>

theorem claim_bricks_campaign:
  assumes "campaign_held (cm_file st) s" and "length (cs_events s) = 500" and "cs_status s \<notin> set campaign_terminal"
    and "live_lease checked s = Inr False" and "claim_checks worker lease = Inr expiry"
    and "shows_time expiry" and "shows_time at"
  shows "\<exists>c st'. campaign_claim worker lease checked at st = (Inr (Some c), st') \<and>
    campaign_load st' = camp_error ''campaign event journal is invalid'' \<and>
    (\<forall>t. snd (campaign_save t st') = st' \<and> snd (campaign_create t st') = st') \<and>
    (\<forall>w l k a. snd (campaign_claim w l k a st') = st')"
proof -
  let ?c = "claimed_by worker expiry at s"
  let ?st = "campaign_save_unlocked ?c st"
  have "campaign_claim worker lease checked at st = (Inr (Some ?c), ?st)"
    using assms(1,3-5) by (simp add: campaign_claim_def campaign_load_held [THEN iffD2] Let_def)
  moreover have "length (cs_events ?c) = 501" using assms(2) by (simp add: claimed_by_def Let_def)
  then have v: "campaign_validate ?c = camp_error ''campaign event journal is invalid''"
    using campaign_ok_room [OF claimed_parts [OF campaign_codec.holds_valid [OF assms(1)] assms(6,7)]] by simp
  have f: "cm_file ?st = Json (campaign_to_dict ?c)" by (simp add: campaign_save_unlocked_def)
  have l: "campaign_load ?st = camp_error ''campaign event journal is invalid''"
    unfolding load_written [OF f] v by (simp add: raise_def)
  moreover have "snd (campaign_save t ?st) = ?st" for t
    by (simp add: campaign_save_def l raise_def split: sum.splits)
  moreover have "campaign_load_unlocked ?st = Inl (Exc CampaignRunnerError ''campaign event journal is invalid'')"
    unfolding campaign_load_unlocked_def f load_cell_def file_content.case campaign_dec_enc v by (simp add: raise_def)
  then have "snd (campaign_create t ?st) = ?st" for t
    by (simp add: campaign_create_def split: sum.splits)
  moreover have "snd (campaign_claim w m k a ?st) = ?st" for w m k a
    by (simp add: campaign_claim_def l raise_def split: sum.splits)
  ultimately show ?thesis by blast
qed

subsection \<open>Without interference\<close>

text \<open>Nobody interferes, and the file holds \<open>s\<close>, a campaign of this store without a deferred retry.\<close>

definition quiet :: "world \<Rightarrow> bool" where
  "quiet w \<longleftrightarrow> wd_busy w = (\<lambda>_. False) \<and> wd_running w = (\<lambda>_. False) \<and> wd_others w = (\<lambda>_ f. f) \<and>
     cm_deferred (wd_store w) = No_File \<and> cm_legacy (wd_store w) = No_File"

definition own_campaign :: "world \<Rightarrow> campaign_state \<Rightarrow> bool" where
  "own_campaign w s \<longleftrightarrow> cs_project_id s = cm_project_id (wd_store w) \<and> cs_campaign_id s = cm_campaign_id (wd_store w)"

definition holding :: "world \<Rightarrow> campaign_state \<Rightarrow> bool" where
  "holding w s \<longleftrightarrow> quiet w \<and> campaign_ok s \<and> own_campaign w s \<and> campaign_held (campaign_file w) s"

text \<open>\<open>v\<close> comes from \<open>w\<close> within \<open>n\<close> seconds of the clock.\<close>

definition within :: "nat \<Rightarrow> world \<Rightarrow> world \<Rightarrow> bool" where
  "within n w v \<longleftrightarrow> (\<exists>k\<le>n. wd_now v = later_by k (wd_now w)) \<and> wd_drift v = wd_drift w"

text \<open>The clock can run for \<open>n\<close> seconds and still show a year of four digits.\<close>

definition clock_room :: "nat \<Rightarrow> world \<Rightarrow> bool" where
  "clock_room n w \<longleftrightarrow> valid_instant (wd_now w) \<and> 1000 \<le> hd (wd_now w) \<and> hd (later_by n (wd_now w)) \<le> 9999"

definition drift_bound :: "nat \<Rightarrow> world \<Rightarrow> bool" where
  "drift_bound d w \<longleftrightarrow> (\<forall>n. wd_drift w n \<le> d)"

lemma later_by_0 [simp]: "later_by 0 t = t"
  by (simp add: later_by_def)

lemma later_by_add: "later_by m (later_by n t) = later_by (m + n) t"
  by (simp add: later_by_def funpow_add)

lemma within_trans: "within m w v \<Longrightarrow> within n v u \<Longrightarrow> within (m + n) w u"
proof -
  assume a: "within m w v" "within n v u"
  then obtain j k where "j \<le> m" "wd_now v = later_by j (wd_now w)" "k \<le> n" "wd_now u = later_by k (wd_now v)"
    by (auto simp: within_def)
  then have "wd_now u = later_by (k + j) (wd_now w)" "k + j \<le> m + n" by (simp_all add: later_by_add)
  with a show ?thesis unfolding within_def by auto
qed

lemma within_mono: "within m w v \<Longrightarrow> m \<le> n \<Longrightarrow> within n w v"
  unfolding within_def using le_trans by blast

lemma clock_room_within:
  assumes "clock_room (m + n) w" and "within m w v"
  shows "clock_room n v"
proof -
  obtain k where k: "k \<le> m" "wd_now v = later_by k (wd_now w)" using assms(2) by (auto simp: within_def)
  have "later_by (m + n) (wd_now w) = later_by (m - k) (later_by (n + k) (wd_now w))"
    using k(1) by (simp add: later_by_add)
  then have "hd (later_by (n + k) (wd_now w)) \<le> 9999"
    using assms(1) later_by_year [of "later_by (n + k) (wd_now w)" "m - k"] later_by_valid [of "wd_now w" "n + k"]
    by (auto simp: clock_room_def)
  then show ?thesis
    using assms(1) k(2) later_by_valid [of "wd_now w" k] later_by_year [of "wd_now w" k]
    by (simp add: clock_room_def later_by_add)
qed

lemma clock_room_mono:
  assumes "clock_room n w" and "m \<le> n"
  shows "clock_room m w"
proof -
  have "later_by n (wd_now w) = later_by (n - m) (later_by m (wd_now w))" using assms(2) by (simp add: later_by_add)
  then show ?thesis
    using assms(1) later_by_year [of "later_by m (wd_now w)" "n - m"] later_by_valid [of "wd_now w" m]
    by (auto simp: clock_room_def)
qed

lemma clock_room_shows: "clock_room n w \<Longrightarrow> m \<le> n \<Longrightarrow> shows_time (later_by m (wd_now w))"
proof -
  assume a: "clock_room n w" "m \<le> n"
  then have "later_by n (wd_now w) = later_by (n - m) (later_by m (wd_now w))" by (simp add: later_by_add)
  then show ?thesis
    using a later_by_year [of "wd_now w" m] later_by_year [of "later_by m (wd_now w)" "n - m"] later_by_valid [of "wd_now w" m]
    by (intro clock_shows) (auto simp: clock_room_def)
qed

lemma clock_room_now: "clock_room n w \<Longrightarrow> shows_time (wd_now w)"
  using clock_room_shows [of n w 0] by simp

subsection \<open>The actions one by one\<close>

lemma own_store [simp]: "(st :: campaign_store)\<lparr>cm_file := cm_file st\<rparr> = st"
  by (cases st) simp

lemma own_world [simp]: "(w :: world)\<lparr>wd_store := wd_store w\<rparr> = w"
  by (cases w) simp

lemma read_quiet:
  assumes "drift_bound d w"
  shows "\<exists>v. read_clock w = (Inr (wd_now v), v) \<and> within d w v \<and> wd_store v = wd_store w \<and>
    (\<forall>s. holding w s \<longrightarrow> holding v s) \<and> drift_bound d v"
  using assms
  by (auto simp: read_clock_def within_def holding_def quiet_def own_campaign_def drift_bound_def Let_def
      intro!: exI [of _ "wd_drift w (wd_reads w)"])

lemma locked_quiet:
  "quiet w \<Longrightarrow> locked f w = (fst (f (wd_store w)), w\<lparr>wd_store := snd (f (wd_store w)), wd_locks := wd_locks w + 1\<rparr>)"
  by (cases "f (wd_store w)") (simp add: locked_def quiet_def Let_def)

lemma load_quiet:
  assumes "holding w s"
  shows "load_act w = (Inr s, w\<lparr>wd_locks := wd_locks w + 1\<rparr>)"
proof -
  have "campaign_load (wd_store w) = Inr s" using assms by (simp add: holding_def campaign_load_held)
  then show ?thesis using assms by (simp add: load_act_def holding_def locked_quiet)
qed

lemma locks_only:
  "holding (w\<lparr>wd_locks := n\<rparr>) s = holding w s" "within k (w\<lparr>wd_locks := n\<rparr>) v = within k w v"
  "within k v (w\<lparr>wd_locks := n\<rparr>) = within k v w" "drift_bound d (w\<lparr>wd_locks := n\<rparr>) = drift_bound d w"
  "clock_room k (w\<lparr>wd_locks := n\<rparr>) = clock_room k w"
  by (simp_all add: holding_def quiet_def own_campaign_def within_def drift_bound_def clock_room_def)

lemma within_same: "wd_now v = wd_now w \<Longrightarrow> wd_drift v = wd_drift w \<Longrightarrow> within 0 w v"
  by (simp add: within_def)

lemma save_quiet:
  assumes "holding w s" "campaign_ok t" "own_campaign w t" "cs_event_sequence t = cs_event_sequence s + 1"
  shows "\<exists>v. save_act t w = (Inr t, v) \<and> holding v t \<and> within 0 w v"
proof -
  let ?st = "campaign_save_unlocked t (wd_store w)"
  let ?v = "w\<lparr>wd_store := ?st, wd_locks := wd_locks w + 1\<rparr>"
  have "campaign_identity (wd_store w) t = Inr ()"
    using assms(2,3) by (simp add: campaign_identity_def steps_ok campaign_ok_def own_campaign_def)
  moreover have "campaign_load (wd_store w) = Inr s" using assms(1) by (simp add: holding_def campaign_load_held)
  ultimately have "campaign_identity (wd_store w) t = Inr ()" "campaign_save t (wd_store w) = (Inr t, ?st)"
    using assms(4) by (simp_all add: campaign_save_def)
  then have "save_act t w = (Inr t, ?v)"
    using assms(1) by (simp add: save_act_def holding_def locked_quiet)
  moreover have "holding ?v t"
    using assms(1-3) by (simp add: holding_def quiet_def own_campaign_def campaign_save_unlocked_def)
  moreover have "within 0 w ?v" by (rule within_same) simp_all
  ultimately show ?thesis by blast
qed

subsection \<open>A retry\<close>

definition retried :: "runner \<Rightarrow> instant \<Rightarrow> campaign_state \<Rightarrow> campaign_state \<Rightarrow> bool" where
  "retried R now s u \<longleftrightarrow> campaign_bindings u = campaign_bindings s \<and> length (cs_events u) = length (cs_events s) + 1 \<and>
     cs_event_sequence u = cs_event_sequence s + 1 \<and> cs_lease_owner u = None \<and>
     (if cs_retry_count s < cs_retry_budget s
      then cs_status u = Camp_RETRY_BACKOFF \<and> cs_retry_count u = cs_retry_count s + 1 \<and> cs_waiting_since u = Some (show_time now) \<and>
        cs_next_check_at u = Some (show_time (later_by (backoff_delay R (cs_retry_count s + 1)) now))
      else cs_status u = Camp_BLOCKED_NON_RETRYABLE \<and> cs_retry_count u = cs_retry_count s)"

lemma retry_words: "\<not> bad_text ''campaign-external-boundary''" "\<not> bad_text ''retry budget remains''"
  by (simp_all add: bad_text_def blank_def py_space_def)

lemma or_else_ok: "v = None \<or> \<not> bad_text (the v) \<Longrightarrow> \<not> bad_text d \<Longrightarrow> \<not> bad_text (or_else v d) \<and> or_else v d \<noteq> []"
  by (auto simp: or_else_def bad_text_def split: option.splits)

lemma show_time_Nil: "shows_time t \<Longrightarrow> show_time t \<noteq> []"
  by (auto simp: shows_time_def strptime_def time_texts_def)

lemma terminal_not_waiting: "Camp_BLOCKED_NON_RETRYABLE \<notin> set waiting_statuses" "Camp_RETRY_BACKOFF \<in> set waiting_statuses"
    "Camp_RUNNING \<notin> set waiting_statuses" "Camp_RUNNING \<notin> set campaign_terminal" "Camp_RETRY_BACKOFF \<notin> set campaign_terminal"
    "Camp_BLOCKED_NON_RETRYABLE \<in> set campaign_terminal"
  by (simp_all add: waiting_statuses_def campaign_terminal_def)

lemma varying_retry:
  assumes "varying_ok s" "\<not> bad_text reason" "time_ok at" "time_ok next" "at \<noteq> []" "next \<noteq> []"
    and "0 \<le> count" "count \<le> cs_retry_budget u" "cs_wake_generation u = cs_wake_generation s"
    and u: "cs_reason u = Some reason" "cs_updated_at u = at" "cs_lease_owner u = None" "cs_lease_expires_at u = None"
      "cs_retry_count u = count"
    and w: "cs_status u = Camp_BLOCKED_NON_RETRYABLE \<and> cs_waiting_since u = None \<and> cs_next_check_at u = None \<and>
        cs_resource u = cs_resource s \<and> cs_expected_condition u = cs_expected_condition s \<or>
      cs_status u = Camp_RETRY_BACKOFF \<and> cs_waiting_since u = Some at \<and> cs_next_check_at u = Some next \<and>
        cs_resource u = Some (or_else (cs_resource s) ''campaign-external-boundary'') \<and>
        cs_expected_condition u = Some (or_else (cs_expected_condition s) ''retry budget remains'')"
  shows "varying_ok u"
proof -
  have s: "cs_resource s = None \<or> \<not> bad_text (the (cs_resource s))"
    "cs_expected_condition s = None \<or> \<not> bad_text (the (cs_expected_condition s))" "0 \<le> cs_wake_generation s"
    using assms(1) by (simp_all add: varying_ok_def)
  note o = or_else_ok [OF s(1) retry_words(1)] or_else_ok [OF s(2) retry_words(2)]
  have "reason \<noteq> []" using assms(2) by (auto simp: bad_text_def)
  then have "check_waiting u = Inr ()"
    using w by (elim disjE conjE) (simp_all add: check_waiting_def terminal_not_waiting steps_ok unset_def u o assms(5,6))
  moreover have "(cs_resource u = None \<or> \<not> bad_text (the (cs_resource u))) \<and>
      (cs_expected_condition u = None \<or> \<not> bad_text (the (cs_expected_condition u))) \<and>
      (cs_waiting_since u = None \<or> time_ok (the (cs_waiting_since u))) \<and> (cs_next_check_at u = None \<or> time_ok (the (cs_next_check_at u)))"
    using w by (elim disjE conjE) (simp_all add: o s assms(3,4))
  ultimately show ?thesis
    unfolding varying_ok_def by (simp add: u assms(2,3,7,8,9) s(3))
qed

lemma retry_state_effect:
  assumes "retry_state R s reason now = Inr u" and "parse_timestamp (show_time now) = Inr now"
  shows "cs_updated_at u = show_time now" "cs_reason u = Some reason"
      "cs_lease_owner u = None" "cs_lease_expires_at u = None" "cs_wake_generation u = cs_wake_generation s"
      "cs_event_sequence u = cs_event_sequence s + 1" "cs_retry_budget u = cs_retry_budget s"
      "cs_retry_count u = (if cs_retry_count s < cs_retry_budget s then cs_retry_count s + 1 else cs_retry_count s)"
      "campaign_bindings u = campaign_bindings s"
    and "\<exists>ty st. ty \<in> {''RETRY_EXHAUSTED'', ''RETRY_BACKOFF''} \<and> cs_events u = cs_events s @ [\<lparr>cev_sequence = cs_event_sequence s + 1,
        cev_event_type = ty, cev_status = st, cev_timestamp = show_time now, cev_summary = reason\<rparr>]"
    and "cs_status u = Camp_BLOCKED_NON_RETRYABLE \<and> cs_waiting_since u = None \<and> cs_next_check_at u = None \<and>
        cs_resource u = cs_resource s \<and> cs_expected_condition u = cs_expected_condition s \<and> \<not> cs_retry_count s < cs_retry_budget s \<or>
      cs_status u = Camp_RETRY_BACKOFF \<and> cs_waiting_since u = Some (show_time now) \<and>
        cs_next_check_at u = Some (show_time (later_by (backoff_delay R (cs_retry_count s + 1)) now)) \<and>
        cs_resource u = Some (or_else (cs_resource s) ''campaign-external-boundary'') \<and>
        cs_expected_condition u = Some (or_else (cs_expected_condition s) ''retry budget remains'') \<and> cs_retry_count s < cs_retry_budget s"
  using assms
  by (auto simp: retry_state_def append_campaign_event_def campaign_bindings_def Let_def split: if_splits)

lemma retry_state_ok:
  assumes "campaign_ok s" "\<not> bad_text reason" "length (cs_events s) < 500"
    and "shows_time now" "shows_time (later_by (backoff_delay R (cs_retry_count s + 1)) now)"
  shows "\<exists>u. retry_state R s reason now = Inr u \<and> campaign_ok u \<and> retried R now s u"
proof -
  have s: "fixed_ok s" "varying_ok s" "events_numbered s" using assms(1) by (simp_all add: campaign_ok_parts)
  have n: "0 \<le> cs_retry_count s" "cs_retry_count s \<le> cs_retry_budget s" using s(2) by (simp_all add: varying_ok_def)
  have p: "parse_timestamp (show_time now) = Inr now" using assms(4) by (simp add: shows_time_def parse_timestamp_def)
  have "\<exists>u. retry_state R s reason now = Inr u"
    by (cases "cs_retry_count s + 1 > cs_retry_budget s") (simp_all add: retry_state_def append_campaign_event_def Let_def p)
  then obtain u where u: "retry_state R s reason now = Inr u" ..
  note f = retry_state_effect [OF u p]
  have "varying_ok u"
    by (rule varying_retry [OF s(2) assms(2) shows_time_ok [OF assms(4)] shows_time_ok [OF assms(5)] show_time_Nil [OF assms(4)]
        show_time_Nil [OF assms(5)] _ _ f(5,2,1,3,4) refl])
      (use n f(7,8,11) in \<open>auto split: if_splits\<close>)
  moreover have "fixed_ok u" using fixed_bindings [OF f(9)] s(1) by simp
  moreover have "events_numbered u"
  proof -
    from f(10) obtain ty st where ty: "ty \<in> {''RETRY_EXHAUSTED'', ''RETRY_BACKOFF''}"
      and e: "cs_events u = cs_events s @ [\<lparr>cev_sequence = cs_event_sequence s + 1,
        cev_event_type = ty, cev_status = st, cev_timestamp = show_time now, cev_summary = reason\<rparr>]" by blast
    have "\<not> blank ty" using ty by (auto simp: blank_def py_space_def)
    with assms(2) shows_time_ok [OF assms(4)] show ?thesis
      by (intro journal_append [OF s(3) e f(6)]) (auto simp: bad_text_def)
  qed
  moreover have "length (cs_events u) = length (cs_events s) + 1" using f(10) by auto
  moreover from this have "retried R now s u"
    using f(3,6,8,9,11) by (auto simp: retried_def)
  ultimately have "campaign_ok u \<and> retried R now s u"
    using assms(3) by (simp add: campaign_ok_parts)
  with u show ?thesis by blast
qed

lemma then_act_ok: "m w = (Inr x, v) \<Longrightarrow> then_act m f w = f x v"
  by (simp add: then_act_def)

lemma own_bindings: "own_campaign w s \<Longrightarrow> campaign_bindings u = campaign_bindings s \<Longrightarrow> wd_store v = wd_store w \<Longrightarrow> own_campaign v u"
  by (simp add: own_campaign_def campaign_bindings_def)

lemma retry_quiet:
  assumes "holding w s" "\<not> bad_text reason" "length (cs_events s) < 500"
    and "drift_bound d w" "clock_room (d + rn_max_backoff_seconds R) w"
  shows "\<exists>u v now. retry_act H R s reason w = (Inr u, v) \<and> holding v u \<and> retried R now s u \<and> within d w v \<and> wd_now v = now"
proof -
  obtain v where v: "read_clock w = (Inr (wd_now v), v)" "within d w v" "holding v s"
    using read_quiet [OF assms(4)] assms(1) by blast
  note room = clock_room_within [OF assms(5) v(2)]
  have "backoff_delay R (cs_retry_count s + 1) \<le> rn_max_backoff_seconds R" by (simp add: backoff_delay_def)
  note sh = clock_room_now [OF room] clock_room_shows [OF room this]
  have s: "campaign_ok s" using v(3) by (simp add: holding_def)
  obtain u where u: "retry_state R s reason (wd_now v) = Inr u" "campaign_ok u" "retried R (wd_now v) s u"
    using retry_state_ok [OF s assms(2,3) sh] by blast
  have b: "campaign_bindings u = campaign_bindings s" "cs_event_sequence u = cs_event_sequence s + 1"
    using u(3) by (simp_all add: retried_def)
  have "own_campaign v u" using v(3) own_bindings [OF _ b(1) refl] by (simp add: holding_def)
  from save_quiet [OF v(3) u(2) this b(2)] obtain x where x: "save_act u v = (Inr u, x)" "holding x u" "within 0 v x" by blast
  have "retry_act H R s reason w = (Inr u, x)"
    by (simp add: retry_act_def then_act_def return_act_def v(1) u(1) retry_save_def x(1))
  moreover have "within d w x" using within_trans [OF v(2) x(3)] by simp
  moreover have "wd_now x = wd_now v" using x(3) by (simp add: within_def)
  ultimately show ?thesis using x(2) u(3) by metis
qed

lemma claim_quiet:
  assumes "holding w s" "cs_status s \<notin> set campaign_terminal" "cs_lease_owner s = None" "length (cs_events s) < 500"
    and "shows_time expiry" "starts_with ''runner-'' worker" "CHR ''/'' \<notin> set worker"
    and "drift_bound d w" "clock_room (d + d) w"
  shows "\<exists>v at. claim_act worker (show_time expiry) w = (Inr (Some (claimed_by worker expiry at s)), v) \<and>
    holding v (claimed_by worker expiry at s) \<and> within (d + d) w v"
proof -
  have cc: "claim_checks worker (show_time expiry) = Inr expiry"
    using assms(5-7) by (simp add: claim_checks_def parse_timestamp_def shows_time_def)
  obtain v where v: "read_clock w = (Inr (wd_now v), v)" "within d w v" "holding v s" "drift_bound d v"
    using read_quiet [OF assms(8)] assms(1) by blast
  obtain x where x: "read_clock v = (Inr (wd_now x), x)" "within d v x" "holding x s"
    using read_quiet [OF v(4)] v(3) by blast
  have wx: "within (d + d) w x" by (rule within_trans [OF v(2) x(2)])
  have "clock_room 0 x" using clock_room_within [OF _ wx, of 0] assms(9) by simp
  note at = clock_room_now [OF this]
  let ?c = "claimed_by worker expiry (wd_now x) s"
  let ?y = "x\<lparr>wd_store := campaign_save_unlocked ?c (wd_store x), wd_locks := wd_locks x + 1\<rparr>"
  have s: "campaign_ok s" "quiet x" "own_campaign x s" "campaign_load (wd_store x) = Inr s"
    using x(3) by (simp_all add: holding_def campaign_load_held)
  have "campaign_claim worker (show_time expiry) (wd_now v) (wd_now x) (wd_store x) =
      (Inr (Some ?c), campaign_save_unlocked ?c (wd_store x))"
    using assms(2,3) by (simp add: campaign_claim_def cc s(4) live_lease_def Let_def)
  then have "claim_act worker (show_time expiry) w = (Inr (Some ?c), ?y)"
    by (simp add: claim_act_def cc then_act_def v(1) x(1) locked_quiet [OF s(2)])
  moreover have "campaign_ok ?c"
    using campaign_ok_parts [of ?c] claimed_parts [OF s(1) assms(5) at] assms(4) by (simp add: claimed_by_def Let_def)
  then have "holding ?y ?c"
    using s(2,3) by (simp add: holding_def quiet_def own_campaign_def campaign_save_unlocked_def claimed_by_def Let_def)
  moreover have "within (d + d) w ?y" using wx by (simp add: within_def)
  ultimately show ?thesis by blast
qed

subsection \<open>Work that never succeeds\<close>

text \<open>What such a probe and such a work may do: the probe answers as it likes or raises, the work raises
  or asks for a retry, and texts fit the limits.\<close>

definition probe_fits :: "campaign_probe \<Rightarrow> bool" where
  "probe_fits probe \<longleftrightarrow> (\<forall>n s c. probe n s = Inl c \<longrightarrow> length c \<le> 3900)"

definition work_never_succeeds :: "campaign_work \<Rightarrow> bool" where
  "work_never_succeeds work \<longleftrightarrow> (\<forall>n s. case work n s of
     Inl c \<Rightarrow> length c \<le> 3900
   | Inr r \<Rightarrow> sr_outcome r = ''RETRY'' \<and> (case sr_reason r of None \<Rightarrow> True | Some m \<Rightarrow> m = [] \<or> \<not> bad_text m))"

definition runner_ok :: "runner \<Rightarrow> bool" where
  "runner_ok R \<longleftrightarrow> 1 \<le> rn_base_backoff_seconds R \<and> rn_base_backoff_seconds R \<le> rn_max_backoff_seconds R \<and>
     starts_with ''runner-'' (rn_worker_id R) \<and> CHR ''/'' \<notin> set (rn_worker_id R)"

lemma bad_text_prefix: "\<not> blank p \<Longrightarrow> length p + length c \<le> 4000 \<Longrightarrow> \<not> bad_text (p @ c)"
  by (auto simp: bad_text_def blank_def)

lemma retry_reasons:
  "length c \<le> 3900 \<Longrightarrow> \<not> bad_text (''external probe failed: '' @ c)"
  "length c \<le> 3900 \<Longrightarrow> \<not> bad_text (''work invocation failed: '' @ c)"
  "\<not> bad_text ''external condition not satisfied''"
  "\<not> bad_text ''governed step requested bounded retry''"
  by (rule bad_text_prefix; simp add: blank_def py_space_def)+ (simp_all add: bad_text_def blank_def py_space_def)

text \<open>One due tick uses one retry, or ends the campaign. It records at most three events.\<close>

definition one_retry :: "runner \<Rightarrow> instant \<Rightarrow> campaign_state \<Rightarrow> campaign_state \<Rightarrow> bool" where
  "one_retry R now s u \<longleftrightarrow> campaign_bindings u = campaign_bindings s \<and> length (cs_events u) \<le> length (cs_events s) + 3 \<and>
     cs_lease_owner u = None \<and>
     (if cs_retry_count s < cs_retry_budget s
      then cs_status u = Camp_RETRY_BACKOFF \<and> cs_retry_count u = cs_retry_count s + 1 \<and>
        cs_next_check_at u = Some (show_time (later_by (backoff_delay R (cs_retry_count s + 1)) now))
      else cs_status u = Camp_BLOCKED_NON_RETRYABLE \<and> cs_retry_count u = cs_retry_count s)"

lemma retried_after:
  assumes "retried R now t u" "length (cs_events t) \<le> length (cs_events s) + 2"
    and "campaign_bindings t = campaign_bindings s" "cs_retry_count t = cs_retry_count s"
  shows "one_retry R now s u"
  using assms by (auto simp: one_retry_def retried_def campaign_bindings_def)

lemma work_quiet:
  assumes "holding w s" "cs_status s \<notin> set campaign_terminal" "cs_lease_owner s = None" "length (cs_events s) < 499"
    and "work_never_succeeds work" "runner_ok R" "drift_bound d w"
    and "clock_room (4 * d + rn_max_backoff_seconds R + rn_lease_seconds R) w"
  shows "\<exists>u v now. work_act H R work w = (Inr u, v) \<and> holding v u \<and> one_retry R now s u \<and>
    length (cs_events u) = length (cs_events s) + 2 \<and> within (4 * d) w v \<and> wd_now v = now"
proof -
  let ?B = "rn_max_backoff_seconds R" and ?L = "rn_lease_seconds R"
  obtain v where v: "read_clock w = (Inr (wd_now v), v)" "within d w v" "holding v s" "drift_bound d v"
    using read_quiet [OF assms(7)] assms(1) by blast
  have rv: "clock_room (3 * d + ?B + ?L) v" by (rule clock_room_within [OF _ v(2)]) (use assms(8) in \<open>simp add: algebra_simps\<close>)
  let ?e = "later_by ?L (wd_now v)"
  have e: "shows_time ?e" by (rule clock_room_shows [OF rv]) simp
  have r2: "clock_room (d + d) v" by (rule clock_room_mono [OF rv]) simp
  have n: "length (cs_events s) < 500" using assms(4) by simp
  have wk: "starts_with ''runner-'' (rn_worker_id R)" "CHR ''/'' \<notin> set (rn_worker_id R)"
    using assms(6) by (simp_all add: runner_ok_def)
  obtain x at where x: "claim_act (rn_worker_id R) (show_time ?e) v = (Inr (Some (claimed_by (rn_worker_id R) ?e at s)), x)"
      "holding x (claimed_by (rn_worker_id R) ?e at s)" "within (d + d) v x"
    using claim_quiet [OF v(3) assms(2,3) n e wk v(4) r2] by blast
  let ?c = "claimed_by (rn_worker_id R) ?e at s"
  have c: "length (cs_events ?c) = length (cs_events s) + 1" "cs_retry_count ?c = cs_retry_count s"
      "campaign_bindings ?c = campaign_bindings s"
    by (simp_all add: claimed_by_def campaign_bindings_def Let_def)
  have rx: "clock_room (d + ?B) x" by (rule clock_room_within [OF clock_room_mono [OF rv] x(3)]) simp
  have w: "work_act H R work w = (case work (wd_reads x) ?c of
      Inl cls \<Rightarrow> retry_act H R ?c (''work invocation failed: '' @ cls) x | Inr r \<Rightarrow> apply_result H R ?c r x)"
    by (simp add: work_act_def then_act_def v(1) x(1))
  have "\<exists>m. \<not> bad_text m \<and> work_act H R work w = retry_act H R ?c m x"
  proof (cases "work (wd_reads x) ?c")
    case (Inl cls)
    then have "length cls \<le> 3900"
      using assms(5) [unfolded work_never_succeeds_def, rule_format, of "wd_reads x" ?c] by simp
    with Inl show ?thesis using retry_reasons(2) by (auto simp: w)
  next
    case (Inr q)
    then have q: "sr_outcome q = ''RETRY''" "case sr_reason q of None \<Rightarrow> True | Some m \<Rightarrow> m = [] \<or> \<not> bad_text m"
      using assms(5) [unfolded work_never_succeeds_def, rule_format, of "wd_reads x" ?c] by simp_all
    then have "\<not> bad_text (or_else (sr_reason q) ''governed step requested bounded retry'')"
      using retry_reasons(4) by (auto simp: or_else_def split: option.splits)
    moreover have "work_act H R work w = retry_act H R ?c (or_else (sr_reason q) ''governed step requested bounded retry'') x"
      by (simp add: w Inr apply_result_def q(1))
    ultimately show ?thesis by blast
  qed
  then obtain m where m: "\<not> bad_text m" "work_act H R work w = retry_act H R ?c m x" by blast
  have dx: "drift_bound d x" using v(4) x(3) by (simp add: drift_bound_def within_def)
  have lc: "length (cs_events ?c) < 500" using c(1) assms(4) by simp
  obtain u y where u: "retry_act H R ?c m x = (Inr u, y)" "holding y u" "retried R (wd_now y) ?c u" "within d x y"
    using retry_quiet [OF x(2) m(1) lc dx rx] by blast
  have "within (4 * d) w y" by (rule within_mono [OF within_trans [OF v(2) within_trans [OF x(3) u(4)]]]) simp
  moreover have "length (cs_events u) = length (cs_events s) + 2" using u(3) c(1) by (simp add: retried_def)
  moreover have "one_retry R (wd_now y) s u"
    by (rule retried_after [OF u(3) _ c(3,2)]) (simp add: c(1))
  ultimately show ?thesis using u(1,2) m(2) by metis
qed

definition woken :: "instant \<Rightarrow> campaign_state \<Rightarrow> campaign_state" where
  "woken at s = (append_campaign_event s ''WAKE'' ''RUNNING'' ''external condition satisfied'' at)
     \<lparr>cs_status := Camp_RUNNING, cs_reason := None, cs_resource := None,
      cs_expected_condition := None, cs_waiting_since := None, cs_next_check_at := None\<rparr>"

lemma woken_ok:
  assumes "campaign_ok s" "length (cs_events s) < 500" "shows_time at"
  shows "campaign_ok (woken at s)"
proof -
  let ?t = "woken at s"
  have s: "fixed_ok s" "varying_ok s" "events_numbered s" using assms(1) by (simp_all add: campaign_ok_parts)
  have e: "cs_events ?t = cs_events s @ [\<lparr>cev_sequence = cs_event_sequence s + 1, cev_event_type = ''WAKE'',
       cev_status = ''RUNNING'', cev_timestamp = show_time at, cev_summary = ''external condition satisfied''\<rparr>]"
    "cs_event_sequence ?t = cs_event_sequence s + 1"
    by (simp_all add: woken_def append_campaign_event_def Let_def)
  have "events_numbered ?t"
    by (rule journal_append [OF s(3) e]) (simp_all add: assms shows_time_ok blank_def py_space_def)
  moreover have "fixed_ok ?t"
    using s(1) fixed_bindings [of ?t s] by (simp add: woken_def campaign_bindings_def append_campaign_event_def Let_def)
  moreover have "varying_ok ?t"
    using s(2) shows_time_ok [OF assms(3)]
    by (simp add: varying_ok_def woken_def append_campaign_event_def Let_def check_waiting_def terminal_not_waiting)
  ultimately show ?thesis using e(1) assms(2) by (simp add: campaign_ok_parts)
qed

lemma wake_quiet:
  assumes "holding w s" "length (cs_events s) < 498" "cs_lease_owner s = None"
    and "work_never_succeeds work" "runner_ok R" "drift_bound d w"
    and "clock_room (5 * d + rn_max_backoff_seconds R + rn_lease_seconds R) w"
  shows "\<exists>u v now. wake_act H R work s w = (Inr u, v) \<and> holding v u \<and> one_retry R now s u \<and> within (5 * d) w v \<and> wd_now v = now"
proof -
  let ?BL = "rn_max_backoff_seconds R + rn_lease_seconds R"
  obtain v where v: "read_clock w = (Inr (wd_now v), v)" "within d w v" "holding v s" "drift_bound d v"
    using read_quiet [OF assms(6)] assms(1) by blast
  have rv: "clock_room (4 * d + ?BL) v"
    by (rule clock_room_within [OF _ v(2)]) (use assms(7) in \<open>simp add: algebra_simps\<close>)
  let ?t = "woken (wd_now v) s"
  have t: "campaign_ok ?t"
    using woken_ok [OF _ _ clock_room_now [OF rv]] v(3) assms(2) by (simp add: holding_def)
  have f: "campaign_bindings ?t = campaign_bindings s" "cs_event_sequence ?t = cs_event_sequence s + 1"
      "length (cs_events ?t) = length (cs_events s) + 1" "cs_retry_count ?t = cs_retry_count s" "cs_retry_budget ?t = cs_retry_budget s"
      "cs_status ?t = Camp_RUNNING" "cs_lease_owner ?t = None"
    using assms(3) by (simp_all add: woken_def campaign_bindings_def append_campaign_event_def Let_def)
  have "own_campaign v ?t" using v(3) own_bindings [OF _ f(1) refl] by (simp add: holding_def)
  from save_quiet [OF v(3) t this f(2)] obtain x where x: "save_act ?t v = (Inr ?t, x)" "holding x ?t" "within 0 v x" by blast
  have rx: "clock_room (4 * d + rn_max_backoff_seconds R + rn_lease_seconds R) x"
    by (rule clock_room_within [OF _ x(3)]) (use rv in \<open>simp add: algebra_simps\<close>)
  have dx: "drift_bound d x" using v(4) x(3) by (simp add: drift_bound_def within_def)
  have w: "wake_act H R work s w = work_act H R work x"
    using x(1) by (simp add: wake_act_def then_act_def v(1) woken_def)
  have "cs_status ?t \<notin> set campaign_terminal" "length (cs_events ?t) < 499"
    using assms(2) by (simp_all add: f terminal_not_waiting)
  from work_quiet [OF x(2) this(1) f(7) this(2) assms(4,5) dx rx]
  obtain u y where u: "work_act H R work x = (Inr u, y)" "holding y u" "one_retry R (wd_now y) ?t u"
      "length (cs_events u) = length (cs_events ?t) + 2" "within (4 * d) x y" by blast
  have "within (5 * d) w y" by (rule within_mono [OF within_trans [OF v(2) within_trans [OF x(3) u(5)]]]) simp
  moreover have "one_retry R (wd_now y) s u" using u(3,4) by (simp add: one_retry_def f)
  ultimately show ?thesis using u(1,2) w by metis
qed

lemma recover_quiet: "quiet w \<Longrightarrow> recover_deferred H w = (Inr (), w)"
  by (simp add: recover_deferred_def deferred_records_def legacy_candidate_def quiet_def)

definition due_at :: "instant \<Rightarrow> campaign_state \<Rightarrow> bool" where
  "due_at now s \<longleftrightarrow> (cs_status s \<in> set waiting_statuses \<longrightarrow>
     (\<exists>n t. cs_next_check_at s = Some n \<and> strptime n = Some t \<and> t \<le> now))"

lemma strptime_Nil: "strptime [] = None"
  by (simp add: strptime_def time_texts_def)

lemma later_by_le: "valid_instant t \<Longrightarrow> t \<le> later_by n t"
  using later_by_greater [of t n] by (cases n) auto

lemma tick_quiet:
  assumes "holding w s" "cs_status s \<notin> set campaign_terminal" "cs_lease_owner s = None" "length (cs_events s) < 498"
    and "probe_fits probe" "work_never_succeeds work" "runner_ok R" "drift_bound d w" "due_at (wd_now w) s"
    and "clock_room (6 * d + rn_max_backoff_seconds R + rn_lease_seconds R) w"
  shows "\<exists>u v now. tick H R probe work (\<lambda>_. Inr ()) w = (Inr u, v) \<and> holding v u \<and> one_retry R now s u \<and>
    within (6 * d) w v \<and> wd_now v = now"
proof -
  let ?BL = "rn_max_backoff_seconds R + rn_lease_seconds R"
  let ?w = "w\<lparr>wd_locks := wd_locks w + 1\<rparr>"
  have q: "quiet w" using assms(1) by (simp add: holding_def)
  have w': "holding ?w s" "drift_bound d ?w" "clock_room (6 * d + ?BL) ?w"
    using assms(1,8,10) by (simp_all add: locks_only algebra_simps)
  obtain v where v: "read_clock ?w = (Inr (wd_now v), v)" "within d ?w v" "holding v s" "drift_bound d v"
    using read_quiet [OF w'(2)] w'(1) by blast
  have rv: "clock_room (5 * d + ?BL) v"
    by (rule clock_room_within [OF _ v(2)]) (use w'(3) in \<open>simp add: algebra_simps\<close>)
  have le: "wd_now w \<le> wd_now v"
    using v(2) w'(3) later_by_le [of "wd_now w"] by (auto simp: within_def clock_room_def)
  have due: "\<exists>due. parse_timestamp (or_else (cs_next_check_at s) []) = Inr due \<and> \<not> wd_now v < due"
    if wt: "cs_status s \<in> set waiting_statuses"
  proof -
    obtain n x where n: "cs_next_check_at s = Some n" "strptime n = Some x" "x \<le> wd_now w"
      using assms(9) wt unfolding due_at_def by blast
    then have "n \<noteq> []" by (auto simp: strptime_Nil)
    then have "parse_timestamp (or_else (cs_next_check_at s) []) = Inr x" by (simp add: n or_else_def parse_timestamp_def)
    then show ?thesis using n(3) le by (meson leD order_trans)
  qed
  then have t: "tick H R probe work (\<lambda>_. Inr ()) w = (if cs_status s \<in> set waiting_statuses
      then probe_act H R probe work (\<lambda>_. Inr ()) s v else work_act H R work v)"
    using q assms(2)
    by (auto simp: tick_def tick_locked_def then_act_def recover_quiet load_quiet [OF assms(1)] v(1) v(1) [simplified] return_act_def quiet_def)
  have "\<exists>u y. tick H R probe work (\<lambda>_. Inr ()) w = (Inr u, y) \<and> holding y u \<and> one_retry R (wd_now y) s u \<and> within (5 * d) v y"
  proof (cases "cs_status s \<in> set waiting_statuses")
    case False
    have "clock_room (4 * d + rn_max_backoff_seconds R + rn_lease_seconds R) v" by (rule clock_room_mono [OF rv]) simp
    note room = this
    have l: "length (cs_events s) < 499" using assms(4) by simp
    obtain u y where "work_act H R work v = (Inr u, y)" "holding y u" "one_retry R (wd_now y) s u" "within (4 * d) v y"
      using work_quiet [OF v(3) assms(2,3) l assms(6,7) v(4) room] by blast
    then show ?thesis using False t within_mono [of "4 * d" v y "5 * d"] by auto
  next
    case True
    have retry: "\<exists>u y. retry_act H R s m v = (Inr u, y) \<and> holding y u \<and> one_retry R (wd_now y) s u \<and> within (5 * d) v y"
      if bt: "\<not> bad_text m" for m
    proof -
      have "clock_room (d + rn_max_backoff_seconds R) v" by (rule clock_room_mono [OF rv]) simp
      note room = this
      have l: "length (cs_events s) < 500" using assms(4) by simp
      obtain u y where u: "retry_act H R s m v = (Inr u, y)" "holding y u" "retried R (wd_now y) s u" "within d v y"
        using retry_quiet [OF v(3) bt l v(4) room] by blast
      have "one_retry R (wd_now y) s u" by (rule retried_after [OF u(3)]) simp_all
      then show ?thesis using u within_mono [OF u(4), of "5 * d"] by auto
    qed
    have p: "tick H R probe work (\<lambda>_. Inr ()) w = (case probe (wd_reads v) s of
       Inl cls \<Rightarrow> retry_act H R s (''external probe failed: '' @ cls) v
     | Inr False \<Rightarrow> retry_act H R s ''external condition not satisfied'' v
     | Inr True \<Rightarrow> wake_act H R work s v)"
      using t True by (simp add: probe_act_def then_act_def return_act_def split: sum.splits bool.splits)
    show ?thesis
    proof (cases "probe (wd_reads v) s")
      case (Inl cls)
      then have "length cls \<le> 3900" using assms(5) by (auto simp: probe_fits_def)
      from retry [OF retry_reasons(1) [OF this]] show ?thesis by (simp add: p Inl)
    next
      case (Inr b)
      have "clock_room (5 * d + rn_max_backoff_seconds R + rn_lease_seconds R) v" by (rule clock_room_mono [OF rv]) simp
      from wake_quiet [OF v(3) assms(4,3,6,7) v(4) this] retry [OF retry_reasons(3)]
      show ?thesis by (cases b) (simp_all add: p Inr)
    qed
  qed
  then obtain u y where u: "tick H R probe work (\<lambda>_. Inr ()) w = (Inr u, y)" "holding y u" "one_retry R (wd_now y) s u"
      "within (5 * d) v y" by blast
  have "within (6 * d) ?w y" by (rule within_mono [OF within_trans [OF v(2) u(4)]]) simp
  then have "within (6 * d) w y" by (simp add: locks_only)
  then show ?thesis using u by metis
qed

subsection \<open>The retry budget ends the loop\<close>

lemma sleep_quiet:
  assumes "holding w s" "cs_next_check_at s = Some (show_time due)" "shows_time due" "drift_bound d w"
    and "due = later_by k (wd_now w)"
  shows "\<exists>v. sleep_until s w = (Inr (), v) \<and> holding v s \<and> within (d + k) w v \<and> due \<le> wd_now v"
proof -
  obtain v where v: "read_clock w = (Inr (wd_now v), v)" "within d w v" "holding v s"
    using read_quiet [OF assms(4)] assms(1) by blast
  let ?v = "v\<lparr>wd_now := max (wd_now v) due\<rparr>"
  have "sleep_until s w = (Inr (), ?v)"
    using assms(2,3) by (simp add: sleep_until_def then_act_def return_act_def v(1) parse_timestamp_def shows_time_def)
  moreover have "holding ?v s" using v(3) by (simp add: holding_def quiet_def own_campaign_def)
  moreover have "within (d + k) w ?v"
  proof -
    obtain j where j: "j \<le> d" "wd_now v = later_by j (wd_now w)" "wd_drift v = wd_drift w" using v(2) by (auto simp: within_def)
    have "wd_now ?v = later_by j (wd_now w) \<or> wd_now ?v = later_by k (wd_now w)" by (simp add: max_def j(2) assms(5))
    moreover have "j \<le> d + k" "k \<le> d + k" using j(1) by simp_all
    moreover have "wd_drift ?v = wd_drift w" using j(3) by simp
    ultimately show ?thesis unfolding within_def by blast
  qed
  ultimately show ?thesis by (metis max.cobounded2 world.select_convs(2) world.surjective world.update_convs(2))
qed

text \<open>The seconds that one round takes at most, with drift \<open>d\<close>\<close>

definition round_seconds :: "nat \<Rightarrow> runner \<Rightarrow> nat" where
  "round_seconds d R = 7 * d + rn_max_backoff_seconds R + rn_lease_seconds R"

lemma run_loop_quiet:
  assumes "holding w s" "cs_status s \<notin> set campaign_terminal" "cs_lease_owner s = None"
    and "n = nat (cs_retry_budget s - cs_retry_count s)" "length (cs_events s) + 3 * (n + 1) \<le> 500"
    and "probe_fits probe" "work_never_succeeds work" "runner_ok R" "rn_sleep R" "drift_bound d w" "due_at (wd_now w) s"
    and "clock_room ((n + 1) * round_seconds d R) w"
  shows "\<exists>u v. run_loop H R probe work None k w = Some (Inr u, v) \<and> holding v u \<and>
    cs_status u = Camp_BLOCKED_NON_RETRYABLE \<and> cs_retry_count u = cs_retry_budget s \<and> campaign_bindings u = campaign_bindings s"
  using assms
proof (induction n arbitrary: w s k)
  case (0 w s k)
  have "cs_retry_count s \<le> cs_retry_budget s" using "0.prems"(1) by (simp add: holding_def campaign_ok_parts varying_ok_def)
  then have full: "\<not> cs_retry_count s < cs_retry_budget s" "cs_retry_count s = cs_retry_budget s" using "0.prems"(4) by simp_all
  have l: "length (cs_events s) < 498" using "0.prems"(5) by simp
  have room: "clock_room (6 * d + rn_max_backoff_seconds R + rn_lease_seconds R) w"
    by (rule clock_room_mono [OF "0.prems"(12)]) (simp add: round_seconds_def)
  obtain u v now where t: "tick H R probe work (\<lambda>_. Inr ()) w = (Inr u, v)" "holding v u" "one_retry R now s u"
    using tick_quiet [OF "0.prems"(1-3) l "0.prems"(6-8,10,11) room] by blast
  have u: "cs_status u = Camp_BLOCKED_NON_RETRYABLE" "cs_retry_count u = cs_retry_budget s" "campaign_bindings u = campaign_bindings s"
    using t(3) full by (simp_all add: one_retry_def)
  have "run_loop H R probe work None k w = Some (Inr u, v)"
    by (subst run_loop.simps) (simp add: t(1) u(1) terminal_not_waiting)
  then show ?case using t(2) u by blast
next
  case (Suc n w s k)
  have more: "cs_retry_count s < cs_retry_budget s" using Suc.prems(4) by simp
  have l: "length (cs_events s) < 498" using Suc.prems(5) by simp
  have room: "clock_room (6 * d + rn_max_backoff_seconds R + rn_lease_seconds R) w"
    by (rule clock_room_mono [OF Suc.prems(12)]) (simp add: round_seconds_def)
  obtain u v where t: "tick H R probe work (\<lambda>_. Inr ()) w = (Inr u, v)" "holding v u" "one_retry R (wd_now v) s u" "within (6 * d) w v"
    using tick_quiet [OF Suc.prems(1-3) l Suc.prems(6-8,10,11) room] by blast
  let ?delay = "backoff_delay R (cs_retry_count s + 1)"
  let ?due = "later_by ?delay (wd_now v)"
  have b: "?delay \<le> rn_max_backoff_seconds R" by (simp add: backoff_delay_def)
  have u: "cs_status u = Camp_RETRY_BACKOFF" "cs_retry_count u = cs_retry_count s + 1" "campaign_bindings u = campaign_bindings s"
      "cs_next_check_at u = Some (show_time ?due)" "length (cs_events u) \<le> length (cs_events s) + 3" "cs_lease_owner u = None"
    using t(3) more by (simp_all add: one_retry_def)
  have bu: "cs_retry_budget u = cs_retry_budget s" using u(3) by (simp add: campaign_bindings_def)
  have dv: "drift_bound d v" using Suc.prems(10) t(4) by (simp add: drift_bound_def within_def)
  have rv: "clock_room (d + rn_max_backoff_seconds R + (n + 1) * round_seconds d R) v"
    by (rule clock_room_within [OF clock_room_mono [OF Suc.prems(12)] t(4)]) (simp add: round_seconds_def)
  have sd: "shows_time ?due" by (rule clock_room_shows [OF rv]) (use b in simp)
  obtain x where x: "sleep_until u v = (Inr (), x)" "holding x u" "within (d + ?delay) v x" "?due \<le> wd_now x"
    using sleep_quiet [OF t(2) u(4) sd dv refl] by blast
  have rx: "clock_room ((n + 1) * round_seconds d R) x"
    by (rule clock_room_within [OF clock_room_mono [OF rv] x(3)]) (use b in simp)
  have dx: "drift_bound d x" using dv x(3) by (simp add: drift_bound_def within_def)
  have du: "due_at (wd_now x) u" using x(4) sd u(4) by (auto simp: due_at_def shows_time_def)
  have nt: "cs_status u \<notin> set campaign_terminal" by (simp add: u(1) terminal_not_waiting)
  have n: "n = nat (cs_retry_budget u - cs_retry_count u)" using Suc.prems(4) by (simp add: bu u(2))
  have lu: "length (cs_events u) + 3 * (n + 1) \<le> 500" using Suc.prems(5) u(5) by simp
  obtain r y where y: "run_loop H R probe work None (k + 1) x = Some (Inr r, y)" "holding y r"
      "cs_status r = Camp_BLOCKED_NON_RETRYABLE" "cs_retry_count r = cs_retry_budget u" "campaign_bindings r = campaign_bindings u"
    using Suc.IH [OF x(2) nt u(6) n lu Suc.prems(6-9) dx du rx] by blast
  have "run_loop H R probe work None k w = run_loop H R probe work None (k + 1) x"
    by (subst run_loop.simps) (use Suc.prems(9) nt in \<open>simp add: t(1) x(1)\<close>)
  then show ?case using y bu u(3) by auto
qed

text \<open>C21. The loop cannot run for ever on work that never succeeds: without interference, whatever the
  probe answers, \<open>run_forever\<close> without a limit of ticks returns, with the campaign blocked and its retry
  budget used up, and that state is stored. The journal must have room for three events per retry.\<close>

theorem retry_budget_ends_campaign:
  assumes "holding w s" and "cs_status s \<notin> set campaign_terminal" and "cs_lease_owner s = None"
    and "int (length (cs_events s)) + 3 * (cs_retry_budget s - cs_retry_count s + 1) \<le> 500"
    and "probe_fits probe" and "work_never_succeeds work" and "runner_ok R" and "rn_sleep R"
    and "drift_bound d w" and "due_at (wd_now w) s"
    and "clock_room (nat (cs_retry_budget s - cs_retry_count s + 1) * round_seconds d R) w"
  shows "\<exists>u v. run_forever H R probe work None w = Some (Inr u, v) \<and> campaign_held (campaign_file v) u \<and>
    cs_status u = Camp_BLOCKED_NON_RETRYABLE \<and> cs_retry_count u = cs_retry_budget s \<and> campaign_bindings u = campaign_bindings s"
proof -
  define n where "n = nat (cs_retry_budget s - cs_retry_count s)"
  have "cs_retry_count s \<le> cs_retry_budget s" using assms(1) by (simp add: holding_def campaign_ok_parts varying_ok_def)
  then have n: "nat (cs_retry_budget s - cs_retry_count s + 1) = n + 1" "int n = cs_retry_budget s - cs_retry_count s"
    by (simp_all add: n_def)
  have "int (length (cs_events s) + 3 * (n + 1)) \<le> 500" using assms(4) by (simp add: n(2))
  then have e: "length (cs_events s) + 3 * (n + 1) \<le> 500" by (simp only: of_nat_le_numeral_iff)
  have room: "clock_room ((n + 1) * round_seconds d R) w" using assms(11) n(1) by simp
  show ?thesis
    using run_loop_quiet [OF assms(1-3) n_def e assms(5-10) room, of H 0]
    unfolding run_forever_def holding_def by blast
qed

lemma quiet_holding: "campaign_ok s \<Longrightarrow> cs_project_id s = ''project-a'' \<Longrightarrow> cs_campaign_id s = ''campaign-a'' \<Longrightarrow> holding (quiet_world s) s"
  by (simp add: holding_def quiet_def own_campaign_def quiet_world_def sample_campaign_store_def)

lemma sample_fields: "cs_status sample_campaign = Camp_RUNNING" "cs_retry_count sample_campaign = 0"
    "cs_retry_budget sample_campaign = 3" "cs_lease_owner sample_campaign = None" "cs_events sample_campaign = []"
    "cs_project_id sample_campaign = ''project-a''" "cs_campaign_id sample_campaign = ''campaign-a''"
  by (simp_all add: sample_campaign_def)

lemma quiet_drift: "wd_drift (quiet_world s) n = 0"
  by (simp add: quiet_world_def)

lemma sample_holding: "holding (quiet_world sample_campaign) sample_campaign"
  by (rule quiet_holding [OF sample_campaign_ok]) (simp_all add: sample_fields)

lemma sample_room: "n \<le> 7000 \<Longrightarrow> clock_room n (quiet_world s)"
proof -
  assume n: "n \<le> 7000"
  have v: "valid_instant [2026, 1, 1, 0, 0, 0]" by (simp add: valid_instant_def days_in_month_def)
  show ?thesis using later_by_year [OF v, of n] n v by (simp add: clock_room_def quiet_world_def)
qed

theorem retry_budget_ends_campaign_witness:
  "\<exists>u v. run_forever (\<lambda>_. []) sample_runner (\<lambda>_ _. Inr True) (\<lambda>_ _. Inl ''OSError'') None (quiet_world sample_campaign) = Some (Inr u, v) \<and>
    campaign_held (campaign_file v) u \<and> cs_status u = Camp_BLOCKED_NON_RETRYABLE \<and>
    cs_retry_count u = cs_retry_budget sample_campaign \<and> campaign_bindings u = campaign_bindings sample_campaign"
  by (rule retry_budget_ends_campaign [OF sample_holding, where d = 0])
    (simp_all add: sample_fields terminal_not_waiting probe_fits_def work_never_succeeds_def runner_ok_def
      sample_runner_def drift_bound_def quiet_drift due_at_def starts_with_def sample_room round_seconds_def)

subsection \<open>The deferred retry\<close>

text \<open>The waiting time\<close>

lemma backoff_bounds:
  assumes "runner_ok R" "1 \<le> count"
  shows "rn_base_backoff_seconds R \<le> backoff_delay R count" "backoff_delay R count \<le> rn_max_backoff_seconds R"
    "1 \<le> backoff_delay R count"
proof -
  have "rn_base_backoff_seconds R * 1 \<le> rn_base_backoff_seconds R * 2 ^ nat (min (count - 1) 10)"
    by (rule mult_le_mono2) simp
  then show b: "rn_base_backoff_seconds R \<le> backoff_delay R count"
    using assms(1) by (simp add: backoff_delay_def runner_ok_def)
  show "backoff_delay R count \<le> rn_max_backoff_seconds R" by (simp add: backoff_delay_def)
  show "1 \<le> backoff_delay R count" using b assms(1) by (simp add: runner_ok_def)
qed

text \<open>C38. A retry waits between the two bounds of the runner: the state it schedules is valid, and its
  next check lies at least the base and at most the maximum after the moment it was recorded, doubling
  with each retry up to the maximum, unless the budget is used up, which ends the campaign.\<close>

theorem retry_within_bounds:
  assumes "campaign_ok s" and "\<not> bad_text reason" and "length (cs_events s) < 500" and "runner_ok R"
    and "shows_time now" and "\<forall>n\<le>rn_max_backoff_seconds R. shows_time (later_by n now)"
  shows "\<exists>u. retry_state R s reason now = Inr u \<and> campaign_ok u \<and>
    (if cs_retry_count s < cs_retry_budget s
     then \<exists>delay. cs_next_check_at u = Some (show_time (later_by delay now)) \<and> rn_base_backoff_seconds R \<le> delay \<and>
       delay \<le> rn_max_backoff_seconds R \<and> delay = min (rn_max_backoff_seconds R) (rn_base_backoff_seconds R * 2 ^ nat (min (cs_retry_count s) 10))
     else cs_status u = Camp_BLOCKED_NON_RETRYABLE \<and> cs_retry_count u = cs_retry_budget s)"
proof -
  have n: "0 \<le> cs_retry_count s" "cs_retry_count s \<le> cs_retry_budget s"
    using assms(1) by (simp_all add: campaign_ok_parts varying_ok_def)
  then have "1 \<le> cs_retry_count s + 1" by simp
  note b = backoff_bounds [OF assms(4) this]
  have "shows_time (later_by (backoff_delay R (cs_retry_count s + 1)) now)" using assms(6) b(2) by blast
  from retry_state_ok [OF assms(1,2,3,5) this] obtain u
    where u: "retry_state R s reason now = Inr u" "campaign_ok u" "retried R now s u" by blast
  show ?thesis
    by (rule exI [of _ u]) (use u b n in \<open>auto simp: retried_def backoff_delay_def\<close>)
qed

lemma own_wake [simp]: "s\<lparr>cs_wake_generation := cs_wake_generation s\<rparr> = (s :: campaign_state)"
  by (cases s) simp

lemma retry_expected:
  assumes "retry_state R s reason now = Inr u" "parse_timestamp (show_time now) = Inr now"
  shows "expected_after s u reason (cs_updated_at u) = u"
proof (cases "cs_retry_count s + 1 > cs_retry_budget s")
  case True
  then have u: "u = (append_campaign_event s ''RETRY_EXHAUSTED'' ''BLOCKED_NON_RETRYABLE'' reason now)
       \<lparr>cs_status := Camp_BLOCKED_NON_RETRYABLE, cs_reason := Some reason, cs_waiting_since := None,
        cs_next_check_at := None, cs_retry_count := cs_retry_count s, cs_lease_owner := None, cs_lease_expires_at := None\<rparr>"
    using assms by (simp add: retry_state_def Let_def)
  show ?thesis using True unfolding u by (simp add: expected_after_def append_campaign_event_def Let_def)
next
  case False
  show ?thesis using assms False by (auto simp: retry_state_def expected_after_def append_campaign_event_def Let_def)
qed

lemma check_deferred_retry:
  assumes "retry_state R s reason now = Inr u" "retried R now s u" "shows_time now" "runner_ok R" "0 \<le> cs_retry_count s"
    and "shows_time (later_by (backoff_delay R (cs_retry_count s + 1)) now)" "cs_status s \<notin> set campaign_terminal"
    and "valid_instant now"
  shows "check_deferred False s u = Inr (s, u)"
proof -
  have p: "parse_timestamp (show_time now) = Inr now" using assms(3) by (simp add: shows_time_def parse_timestamp_def)
  note f = retry_state_effect [OF assms(1) p]
  have d: "1 \<le> backoff_delay R (cs_retry_count s + 1)" using backoff_bounds(3) [OF assms(4)] assms(5) by simp
  then have lt: "\<not> later_by (backoff_delay R (cs_retry_count s + 1)) now \<le> now"
    using later_by_greater [OF assms(8), of "backoff_delay R (cs_retry_count s + 1)"] by (simp add: not_le)
  have e: "expected_after s u reason (show_time now) = u" using retry_expected [OF assms(1) p] by (simp add: f(1))
  have n: "cs_retry_count s < cs_retry_budget s \<Longrightarrow>
      cs_next_check_at u = Some (show_time (later_by (backoff_delay R (cs_retry_count s + 1)) now))"
    using assms(2) by (simp add: retried_def)
  have q: "parse_timestamp (show_time (later_by (backoff_delay R (cs_retry_count s + 1)) now)) =
      Inr (later_by (backoff_delay R (cs_retry_count s + 1)) now)"
    using assms(6) by (simp add: shows_time_def parse_timestamp_def)
  show ?thesis
  proof (cases "cs_retry_count s < cs_retry_budget s")
    case True
    then show ?thesis using assms(7)
      by (simp add: check_deferred_def event_time_def f(1,2) e n p q lt)
  next
    case False
    then show ?thesis using assms(7) by (simp add: check_deferred_def event_time_def f(1,2) e)
  qed
qed

lemma read_deferred_written:
  assumes "campaign_ok s" "campaign_ok u" "check_deferred False s u = Inr (s, u)"
    and "campaign_identity st s = Inr ()" "campaign_identity st u = Inr ()"
  shows "read_deferred H st (Json (deferred_json H s u)) False = Inr (s, u)"
proof -
  have d: "campaign_from_dict (campaign_to_dict s) = Inr s" "campaign_from_dict (campaign_to_dict u) = Inr u"
    using assms(1,2) by (simp_all add: campaign_codec.dec_enc)
  have f: "set (map fst (deferred_payload s u) @ [''sha256'']) = {''schema_version'', ''before'', ''after'', ''sha256''}"
    "field ''schema_version'' (JObj (deferred_payload s u @ [(''sha256'', x)])) = Some (JStr ''1.0'')"
    "field ''sha256'' (JObj (deferred_payload s u @ [(''sha256'', x)])) = Some x"
    "field_or JNull ''before'' (JObj (deferred_payload s u @ [(''sha256'', x)])) = campaign_to_dict s"
    "field_or JNull ''after'' (JObj (deferred_payload s u @ [(''sha256'', x)])) = campaign_to_dict u"
    "filter (\<lambda>kv. fst kv \<noteq> ''sha256'') (deferred_payload s u @ [(''sha256'', x)]) = deferred_payload s u" for x
    by (auto simp: deferred_payload_def field_def field_or_def)
  show ?thesis
    by (simp add: read_deferred_def deferred_json_def Let_def f d assms(3-5) steps.simps del: filter_append set_append)
qed

text \<open>C30. A retry that cannot be saved because the project's lock is held is not lost: the runner reports
  the same state, leaves the campaign's file as it was, and the next recovery puts the store into the very
  state that a successful save would have given.\<close>

theorem deferred_retry_recovered:
  assumes "holding w s" and "cs_status s \<notin> set campaign_terminal" and "\<not> bad_text reason"
    and "length (cs_events s) < 500" and "drift_bound d w" and "clock_room (d + rn_max_backoff_seconds R) w" and "runner_ok R"
  shows "\<exists>u v busy x. retry_act H R s reason w = (Inr u, v) \<and>
    retry_act H R s reason (w\<lparr>wd_busy := \<lambda>_. True\<rparr>) = (Inr u, busy) \<and> campaign_file busy = campaign_file w \<and>
    recover_deferred H (busy\<lparr>wd_busy := \<lambda>_. False\<rparr>) = (Inr (), x) \<and> wd_store x = wd_store v"
proof -
  obtain v where v: "read_clock w = (Inr (wd_now v), v)" "within d w v" "wd_store v = wd_store w" "holding v s"
    using read_quiet [OF assms(5)] assms(1) by blast
  let ?wb = "w\<lparr>wd_busy := \<lambda>_. True\<rparr>" and ?vb = "v\<lparr>wd_busy := \<lambda>_. True\<rparr>"
  have vb: "read_clock ?wb = (Inr (wd_now v), ?vb)" using v(1) by (auto simp: read_clock_def Let_def)
  note room = clock_room_within [OF assms(6) v(2)]
  have "backoff_delay R (cs_retry_count s + 1) \<le> rn_max_backoff_seconds R" by (simp add: backoff_delay_def)
  note sh = clock_room_now [OF room] clock_room_shows [OF room this]
  have s: "campaign_ok s" "own_campaign v s" "campaign_load_unlocked (wd_store w) = Inr (Some s)" "quiet v"
    using v(3,4) by (simp_all add: holding_def campaign_load_unlocked_def)
  have n: "0 \<le> cs_retry_count s" using s(1) by (simp add: campaign_ok_parts varying_ok_def)
  obtain u where u: "retry_state R s reason (wd_now v) = Inr u" "campaign_ok u" "retried R (wd_now v) s u"
    using retry_state_ok [OF s(1) assms(3,4) sh] by blast
  have b: "campaign_bindings u = campaign_bindings s" "cs_event_sequence u = cs_event_sequence s + 1"
    using u(3) by (simp_all add: retried_def)
  have ou: "own_campaign v u" by (rule own_bindings [OF s(2) b(1) refl])
  have id: "campaign_identity (wd_store w) s = Inr ()" "campaign_identity (wd_store w) u = Inr ()"
    using s(1,2) u(2) ou v(3) by (simp_all add: campaign_identity_def steps_ok campaign_ok_def own_campaign_def)
  have sv: "campaign_save u (wd_store w) = (Inr u, campaign_save_unlocked u (wd_store w))"
  proof -
    have "campaign_load (wd_store w) = Inr s" by (simp add: campaign_load_def s(3))
    then show ?thesis by (simp add: campaign_save_def id b(2))
  qed
  let ?v = "v\<lparr>wd_store := campaign_save_unlocked u (wd_store w), wd_locks := wd_locks v + 1\<rparr>"
  have direct: "retry_act H R s reason w = (Inr u, ?v)"
    by (simp add: retry_act_def then_act_def return_act_def v(1,3) u(1) retry_save_def save_act_def id locked_quiet [OF s(4)] sv)
  let ?st = "(wd_store w)\<lparr>cm_deferred := Json (deferred_json H s u)\<rparr>"
  let ?b = "?vb\<lparr>wd_store := ?st, wd_locks := wd_locks v + 1\<rparr>"
  have q: "wd_others v = (\<lambda>_ f. f)" "wd_busy v = (\<lambda>_. False)" "cm_deferred (wd_store w) = No_File" "cm_legacy (wd_store w) = No_File"
    using s(4) v(3) by (simp_all add: quiet_def)
  have deferred: "retry_act H R s reason ?wb = (Inr u, ?b)"
    by (simp add: retry_act_def then_act_def return_act_def vb v(3) u(1) retry_save_def save_act_def id locked_def q raise_def
        Let_def defer_retry_def)
  have "check_deferred False s u = Inr (s, u)"
    by (rule check_deferred_retry [OF u(1,3) sh(1) assms(7) n sh(2) assms(2)]) (use room in \<open>simp add: clock_room_def\<close>)
  moreover have "campaign_identity ?st s = Inr ()" "campaign_identity ?st u = Inr ()"
    using id by (simp_all add: campaign_identity_def)
  ultimately have "read_deferred H ?st (Json (deferred_json H s u)) False = Inr (s, u)"
    using read_deferred_written [OF s(1) u(2)] by blast
  then have rec: "deferred_records H ?st = Inr [(s, u)]"
    by (simp add: deferred_records_def legacy_candidate_def q)
  have "campaign_load_unlocked ?st = Inr (Some s)" using s(3) by (simp add: campaign_load_unlocked_def)
  then have settled: "settle_deferred s u ?st = (Inr (), campaign_save_unlocked u (wd_store w))"
    using q(3,4) by (cases "wd_store w") (simp add: settle_deferred_def Let_def campaign_save_unlocked_def legacy_candidate_def)
  have "recover_deferred H (?b\<lparr>wd_busy := \<lambda>_. False\<rparr>) =
      (Inr (), ?b\<lparr>wd_busy := \<lambda>_. False, wd_store := campaign_save_unlocked u (wd_store w), wd_locks := wd_locks v + 1 + 1\<rparr>)"
    by (simp add: recover_deferred_def rec locked_def q Let_def settled)
  then show ?thesis using direct deferred by (intro exI conjI) (assumption | simp)+
qed

subsection \<open>Witnesses\<close>

definition sample_now :: instant where
  "sample_now = [2026, 1, 1, 0, 0, 0]"

lemma sample_now_valid: "valid_instant sample_now"
  by (simp add: valid_instant_def days_in_month_def sample_now_def)

lemma sample_shows: "n \<le> 7000 \<Longrightarrow> shows_time (later_by n sample_now)"
  using later_by_valid [OF sample_now_valid, of n] later_by_year [OF sample_now_valid, of n] by (intro clock_shows) (auto simp: sample_now_def)

lemma sample_shows_now: "shows_time sample_now"
  using sample_shows [of 0] by simp

text \<open>The lease end of the samples\<close>

abbreviation sample_expiry :: instant where
  "sample_expiry \<equiv> later_by 300 sample_now"

lemma sample_claim_checks: "starts_with ''runner-'' worker \<Longrightarrow> CHR ''/'' \<notin> set worker \<Longrightarrow>
    claim_checks worker (show_time sample_expiry) = Inr sample_expiry"
  using sample_shows [of 300] by (simp add: claim_checks_def parse_timestamp_def shows_time_def)

lemma sample_claim:
  assumes "campaign_ok s" "cs_status s = Camp_RUNNING" "cs_lease_owner s = None"
  shows "campaign_claim ''runner-a'' (show_time sample_expiry) sample_now sample_now (sample_campaign_store s) =
    (Inr (Some (claimed_by ''runner-a'' sample_expiry sample_now s)),
     campaign_save_unlocked (claimed_by ''runner-a'' sample_expiry sample_now s) (sample_campaign_store s))"
proof -
  have "campaign_load (sample_campaign_store s) = Inr s"
    using assms(1) by (simp add: campaign_load_held sample_campaign_store_def)
  then show ?thesis
    by (simp add: campaign_claim_def sample_claim_checks starts_with_def assms terminal_not_waiting live_lease_def Let_def)
qed

theorem claim_exclusive_witness:
  "campaign_claim ''runner-b'' (show_time sample_expiry) (later_by 100 sample_now) sample_now
    (campaign_save_unlocked (claimed_by ''runner-a'' sample_expiry sample_now sample_campaign) (sample_campaign_store sample_campaign)) =
    (Inr None, campaign_save_unlocked (claimed_by ''runner-a'' sample_expiry sample_now sample_campaign) (sample_campaign_store sample_campaign))"
proof -
  have "later_by 300 sample_now = later_by 200 (later_by 100 sample_now)" by (simp add: later_by_add)
  then have "later_by 100 sample_now < sample_expiry"
    using later_by_greater [OF later_by_valid [OF sample_now_valid, of 100], of 200] by simp
  from claim_exclusive [OF sample_claim [OF sample_campaign_ok sample_fields(1,4)] sample_shows [of 300] sample_shows_now this,
      of "''runner-b''" "show_time sample_expiry" sample_now]
  show ?thesis by (simp add: sample_claim_checks starts_with_def claimed_by_def sample_fields Let_def)
qed

text \<open>A campaign with a full journal\<close>

definition full_event :: "int \<Rightarrow> campaign_event" where
  "full_event i = \<lparr>cev_sequence = i, cev_event_type = ''STEP'', cev_status = ''RUNNING'',
     cev_timestamp = ''2026-01-01T00:00:00Z'', cev_summary = ''step''\<rparr>"

definition full_campaign :: campaign_state where
  "full_campaign = sample_campaign\<lparr>cs_event_sequence := 500, cs_events := map full_event [1..500]\<rparr>"

lemma full_campaign_fields: "cs_status full_campaign = Camp_RUNNING" "cs_lease_owner full_campaign = None"
    "length (cs_events full_campaign) = 500"
  by (simp_all add: full_campaign_def sample_fields)

lemma full_campaign_ok: "campaign_ok full_campaign"
proof -
  have "event_validate (i, full_event i) = Inr ()" for i
    by (simp add: event_validate_def steps_ok full_event_def blank_def py_space_def time_ok_def)
  moreover have "set (zip [1..500] (map full_event [1..500])) = (\<lambda>i. (i, full_event i)) ` {1..500}"
    by (simp add: zip_map2 zip_same_conv_map image_image)
  ultimately have "events_numbered full_campaign"
    by (auto simp: events_numbered_def events_ok_def full_campaign_def)
  moreover have "fixed_ok full_campaign = fixed_ok sample_campaign"
    by (rule fixed_bindings) (simp add: full_campaign_def campaign_bindings_def)
  moreover have "varying_ok full_campaign = varying_ok sample_campaign"
    by (simp add: full_campaign_def varying_ok_def check_waiting_def)
  ultimately show ?thesis
    using sample_campaign_ok full_campaign_fields(3) by (simp add: campaign_ok_parts)
qed

theorem claim_bricks_campaign_witness:
  "\<exists>c st'. campaign_claim ''runner-a'' (show_time sample_expiry) sample_now sample_now (sample_campaign_store full_campaign) = (Inr (Some c), st') \<and>
    campaign_load st' = camp_error ''campaign event journal is invalid''"
proof -
  have h: "campaign_held (cm_file (sample_campaign_store full_campaign)) full_campaign"
    by (simp add: sample_campaign_store_def full_campaign_ok)
  have l: "live_lease sample_now full_campaign = Inr False" by (simp add: live_lease_def full_campaign_fields)
  have t: "cs_status full_campaign \<notin> set campaign_terminal" by (simp add: full_campaign_fields terminal_not_waiting)
  have c: "claim_checks ''runner-a'' (show_time sample_expiry) = Inr sample_expiry"
    by (rule sample_claim_checks) (simp_all add: starts_with_def)
  from claim_bricks_campaign [OF h full_campaign_fields(3) t l c sample_shows [of 300] sample_shows_now]
  show ?thesis by auto
qed

theorem runner_result_valid_witness:
  "\<exists>u v. runner_outcome (\<lambda>_. []) sample_runner (Op_tick (\<lambda>_ _. Inr True) (\<lambda>_ _. Inl ''OSError'') (\<lambda>_. Inr ())) (quiet_world sample_campaign)
      = Some (Inr u, v) \<and> cs_retry_count u = 1 \<and> campaign_validate u = Inr ()"
proof -
  have "\<exists>u v now. tick (\<lambda>_. []) sample_runner (\<lambda>_ _. Inr True) (\<lambda>_ _. Inl ''OSError'') (\<lambda>_. Inr ()) (quiet_world sample_campaign) = (Inr u, v) \<and>
      holding v u \<and> one_retry sample_runner now sample_campaign u \<and> within (6 * 0) (quiet_world sample_campaign) v \<and> wd_now v = now"
    by (rule tick_quiet [OF sample_holding])
      (simp_all add: sample_fields terminal_not_waiting probe_fits_def work_never_succeeds_def runner_ok_def
        sample_runner_def drift_bound_def quiet_drift due_at_def starts_with_def sample_room)
  then obtain u v now where t: "runner_outcome (\<lambda>_. []) sample_runner (Op_tick (\<lambda>_ _. Inr True) (\<lambda>_ _. Inl ''OSError'') (\<lambda>_. Inr ())) (quiet_world sample_campaign)
      = Some (Inr u, v)" "one_retry sample_runner now sample_campaign u"
    by auto
  from runner_result_valid [OF t(1) quiet_rely] t show ?thesis by (auto simp: one_retry_def sample_fields)
qed

theorem retry_within_bounds_witness:
  "\<exists>u delay. retry_state sample_runner sample_campaign ''timeout'' sample_now = Inr u \<and> campaign_ok u \<and>
     cs_next_check_at u = Some (show_time (later_by delay sample_now)) \<and> 30 \<le> delay \<and> delay \<le> 600 \<and> delay = 30"
proof -
  have r: "rn_base_backoff_seconds sample_runner = 30" "rn_max_backoff_seconds sample_runner = 600" "runner_ok sample_runner"
    by (simp_all add: sample_runner_def runner_ok_def starts_with_def)
  have e: "length (cs_events sample_campaign) < 500" by (simp add: sample_fields)
  have b: "\<not> bad_text ''timeout''" by (simp add: bad_text_def blank_def py_space_def)
  have t: "\<forall>n\<le>rn_max_backoff_seconds sample_runner. shows_time (later_by n sample_now)" using sample_shows by (simp add: r)
  from retry_within_bounds [OF sample_campaign_ok b e r(3) sample_shows_now t] show ?thesis by (auto simp: sample_fields r)
qed

theorem deferred_retry_recovered_witness:
  "\<exists>u v busy x. retry_act (\<lambda>_. ''digest'') sample_runner sample_campaign ''timeout'' (quiet_world sample_campaign) = (Inr u, v) \<and>
    retry_act (\<lambda>_. ''digest'') sample_runner sample_campaign ''timeout'' ((quiet_world sample_campaign)\<lparr>wd_busy := \<lambda>_. True\<rparr>) = (Inr u, busy) \<and>
    campaign_file busy = campaign_file (quiet_world sample_campaign) \<and>
    recover_deferred (\<lambda>_. ''digest'') (busy\<lparr>wd_busy := \<lambda>_. False\<rparr>) = (Inr (), x) \<and> wd_store x = wd_store v"
  by (rule deferred_retry_recovered [OF sample_holding, where d = 0])
    (simp_all add: sample_fields terminal_not_waiting bad_text_def blank_def py_space_def drift_bound_def quiet_drift
      sample_room sample_runner_def runner_ok_def starts_with_def)

end
