(* ===== verification/Session.thy ===== *)
theory Session
  imports Lifecycle StoreCell "HOL-Library.Monad_Syntax"
begin

section \<open>Sessions and their store (session_models.py, session_store.py)\<close>

text \<open>
  The session with its events, its table of transitions and its JSON form, and the store with its
  two directories: one file per session, and the artifacts of each session, which are written once.
  The store is a record of two association lists, from session identifiers to files and from
  session and artifact name to the text of the artifact. Symbolic links, temporary files and failures
  of the file system are not modelled, and the paths that the source builds are the names here. A
  leaf of a document whose JSON type is not the declared one is reported as a \<open>TypeError\<close>; the source,
  which does not look at them, accepts it. The texts of Python's own exceptions are empty here, and an
  artifact name that is no simple file name is not followed. SHA-256 is the argument \<open>H\<close>.
\<close>

datatype session_status = Sess_PLANNING | Sess_READY | Sess_EXECUTING | Sess_REVIEWING | Sess_CORRECTING
  | Sess_COMPLIANCE | Sess_DELIVERING | Sess_PR_READY | Sess_BLOCKED | Sess_RETRY_REQUIRED | Sess_HUMAN_REQUIRED
  | Sess_NO_JUSTIFIED_WORK | Sess_COMPLETED | Sess_AUDITED | Sess_CANCELLED | Sess_FAILED | Sess_STALE

fun session_status_value :: "session_status \<Rightarrow> string" where
  "session_status_value Sess_PLANNING = ''PLANNING''"
| "session_status_value Sess_READY = ''READY''"
| "session_status_value Sess_EXECUTING = ''EXECUTING''"
| "session_status_value Sess_REVIEWING = ''REVIEWING''"
| "session_status_value Sess_CORRECTING = ''CORRECTING''"
| "session_status_value Sess_COMPLIANCE = ''COMPLIANCE''"
| "session_status_value Sess_DELIVERING = ''DELIVERING''"
| "session_status_value Sess_PR_READY = ''PR_READY''"
| "session_status_value Sess_BLOCKED = ''BLOCKED''"
| "session_status_value Sess_RETRY_REQUIRED = ''RETRY_REQUIRED''"
| "session_status_value Sess_HUMAN_REQUIRED = ''HUMAN_REQUIRED''"
| "session_status_value Sess_NO_JUSTIFIED_WORK = ''NO_JUSTIFIED_WORK''"
| "session_status_value Sess_COMPLETED = ''COMPLETED''"
| "session_status_value Sess_AUDITED = ''AUDITED''"
| "session_status_value Sess_CANCELLED = ''CANCELLED''"
| "session_status_value Sess_FAILED = ''FAILED''"
| "session_status_value Sess_STALE = ''STALE''"

definition all_session_statuses :: "session_status list" where
  "all_session_statuses = [Sess_PLANNING, Sess_READY, Sess_EXECUTING, Sess_REVIEWING, Sess_CORRECTING, Sess_COMPLIANCE,
     Sess_DELIVERING, Sess_PR_READY, Sess_BLOCKED, Sess_RETRY_REQUIRED, Sess_HUMAN_REQUIRED, Sess_NO_JUSTIFIED_WORK,
     Sess_COMPLETED, Sess_AUDITED, Sess_CANCELLED, Sess_FAILED, Sess_STALE]"

text \<open>\<open>SessionStatus(v)\<close>\<close>

definition session_status_of :: "string \<Rightarrow> session_status option" where
  "session_status_of v = map_of (map (\<lambda>s. (session_status_value s, s)) all_session_statuses) v"

definition actor_values :: "string list" where
  "actor_values = [''DIRECTOR'', ''PLANNER'', ''IMPLEMENTER'', ''REVIEWER'', ''COMPLIANCE'', ''RELEASE_MANAGER'',
     ''HUMAN'', ''SYSTEM'']"

definition session_terminal :: "session_status list" where
  "session_terminal = [Sess_COMPLETED, Sess_AUDITED, Sess_CANCELLED, Sess_NO_JUSTIFIED_WORK]"

text \<open>\<open>ALLOWED_TRANSITIONS\<close>: the table as it is written, what the loop adds to the active statuses, and the
  three additions after it\<close>

fun first_targets :: "session_status \<Rightarrow> session_status list" where
  "first_targets Sess_PLANNING = [Sess_READY, Sess_NO_JUSTIFIED_WORK]"
| "first_targets Sess_READY = [Sess_EXECUTING, Sess_NO_JUSTIFIED_WORK]"
| "first_targets Sess_EXECUTING = [Sess_REVIEWING]"
| "first_targets Sess_REVIEWING = [Sess_CORRECTING, Sess_COMPLIANCE]"
| "first_targets Sess_CORRECTING = [Sess_REVIEWING]"
| "first_targets Sess_COMPLIANCE = [Sess_DELIVERING]"
| "first_targets Sess_DELIVERING = [Sess_PR_READY]"
| "first_targets Sess_PR_READY = [Sess_COMPLETED]"
| "first_targets _ = []"

fun late_targets :: "session_status \<Rightarrow> session_status list" where
  "late_targets Sess_RETRY_REQUIRED = [Sess_READY, Sess_BLOCKED, Sess_NO_JUSTIFIED_WORK]"
| "late_targets Sess_BLOCKED = [Sess_RETRY_REQUIRED, Sess_NO_JUSTIFIED_WORK]"
| "late_targets Sess_STALE = [Sess_READY]"
| "late_targets _ = []"

definition session_targets :: "session_status \<Rightarrow> session_status list" where
  "session_targets s = first_targets s @
     (if s \<in> set session_terminal then [] else [Sess_BLOCKED, Sess_HUMAN_REQUIRED, Sess_FAILED, Sess_STALE, Sess_CANCELLED]) @
     late_targets s"

record session_event =
  sv_event_id :: string
  sv_operation_id :: string
  sv_timestamp :: string
  sv_session_id :: string
  sv_event_type :: string
  sv_from_status :: "string option"
  sv_to_status :: string
  sv_summary :: string
  sv_evidence_refs :: "string list"
  sv_blocking_issues :: "string list"
  sv_actor :: string

record session =
  sn_session_id :: string
  sn_project_id :: string
  sn_goal :: string
  sn_created_at :: string
  sn_updated_at :: string
  sn_base_sha :: string
  sn_current_stage :: string
  sn_status :: session_status
  sn_plan_path :: "string option"
  sn_execution_report_path :: "string option"
  sn_review_report_path :: "string option"
  sn_compliance_report_path :: "string option"
  sn_delivery_report_path :: "string option"
  sn_delivery_branch :: "string option"
  sn_pr_url :: "string option"
  sn_blocking_issues :: "string list"
  sn_required_human_actions :: "string list"
  sn_events :: "session_event list"
  sn_attempts :: "(string \<times> int) list"
  sn_artifact_hashes :: "(string \<times> string) list"
  sn_schema_version :: string

subsection \<open>The JSON form\<close>

definition session_event_to_dict :: "session_event \<Rightarrow> json" where
  "session_event_to_dict e = JObj [(''event_id'', JStr (sv_event_id e)), (''operation_id'', JStr (sv_operation_id e)),
     (''timestamp'', JStr (sv_timestamp e)), (''session_id'', JStr (sv_session_id e)),
     (''event_type'', JStr (sv_event_type e)), (''from_status'', enc_opt (sv_from_status e)),
     (''to_status'', JStr (sv_to_status e)), (''summary'', JStr (sv_summary e)),
     (''evidence_refs'', enc_strs (sv_evidence_refs e)), (''blocking_issues'', enc_strs (sv_blocking_issues e)),
     (''actor'', JStr (sv_actor e))]"

definition session_to_dict :: "session \<Rightarrow> json" where
  "session_to_dict s = JObj [
     (''session_id'', JStr (sn_session_id s)),
     (''project_id'', JStr (sn_project_id s)),
     (''goal'', JStr (sn_goal s)),
     (''created_at'', JStr (sn_created_at s)),
     (''updated_at'', JStr (sn_updated_at s)),
     (''base_sha'', JStr (sn_base_sha s)),
     (''current_stage'', JStr (sn_current_stage s)),
     (''status'', JStr (session_status_value (sn_status s))),
     (''plan_path'', enc_opt (sn_plan_path s)),
     (''execution_report_path'', enc_opt (sn_execution_report_path s)),
     (''review_report_path'', enc_opt (sn_review_report_path s)),
     (''compliance_report_path'', enc_opt (sn_compliance_report_path s)),
     (''delivery_report_path'', enc_opt (sn_delivery_report_path s)),
     (''delivery_branch'', enc_opt (sn_delivery_branch s)),
     (''pr_url'', enc_opt (sn_pr_url s)),
     (''blocking_issues'', enc_strs (sn_blocking_issues s)),
     (''required_human_actions'', enc_strs (sn_required_human_actions s)),
     (''events'', JList (map session_event_to_dict (sn_events s))),
     (''attempts'', JObj (map (\<lambda>(k, n). (k, JInt n)) (sn_attempts s))),
     (''artifact_hashes'', JObj (map (\<lambda>(k, h). (k, JStr h)) (sn_artifact_hashes s))),
     (''schema_version'', JStr (sn_schema_version s))]"

definition session_keys :: "string list" where
  "session_keys = [''session_id'', ''project_id'', ''goal'', ''created_at'', ''updated_at'', ''base_sha'',
     ''current_stage'', ''status'', ''plan_path'', ''execution_report_path'', ''review_report_path'',
     ''compliance_report_path'', ''delivery_report_path'', ''delivery_branch'', ''pr_url'', ''blocking_issues'',
     ''required_human_actions'', ''events'', ''attempts'', ''artifact_hashes'', ''schema_version'']"

definition session_event_keys :: "string list" where
  "session_event_keys = [''event_id'', ''operation_id'', ''timestamp'', ''session_id'', ''event_type'', ''from_status'',
     ''to_status'', ''summary'', ''evidence_refs'', ''blocking_issues'', ''actor'']"

text \<open>\<open>SessionEvent(**item)\<close>\<close>

definition session_event_of :: "json \<Rightarrow> session_event option" where
  "session_event_of v = (if \<not> has_keys session_event_keys v then None else do {
     a \<leftarrow> Option.bind (field ''event_id'' v) the_str;
     b \<leftarrow> Option.bind (field ''operation_id'' v) the_str;
     c \<leftarrow> Option.bind (field ''timestamp'' v) the_str;
     d \<leftarrow> Option.bind (field ''session_id'' v) the_str;
     e \<leftarrow> Option.bind (field ''event_type'' v) the_str;
     f \<leftarrow> Option.bind (field ''from_status'' v) opt_str;
     g \<leftarrow> Option.bind (field ''to_status'' v) the_str;
     h \<leftarrow> Option.bind (field ''summary'' v) the_str;
     i \<leftarrow> Option.bind (field ''evidence_refs'' v) str_list;
     j \<leftarrow> Option.bind (field ''blocking_issues'' v) str_list;
     k \<leftarrow> Option.bind (field ''actor'' v) the_str;
     Some \<lparr>sv_event_id = a, sv_operation_id = b, sv_timestamp = c, sv_session_id = d, sv_event_type = e,
       sv_from_status = f, sv_to_status = g, sv_summary = h, sv_evidence_refs = i, sv_blocking_issues = j, sv_actor = k\<rparr>})"

definition entry_of :: "(json \<Rightarrow> 'a option) \<Rightarrow> string \<times> json \<Rightarrow> (string \<times> 'a) option" where
  "entry_of f = (\<lambda>(k, v). map_option (Pair k) (f v))"

definition session_leaves :: "json \<Rightarrow> session_event list \<Rightarrow> session_status \<Rightarrow> session option" where
  "session_leaves v es st = do {
     a \<leftarrow> Option.bind (field ''session_id'' v) the_str;
     b \<leftarrow> Option.bind (field ''project_id'' v) the_str;
     c \<leftarrow> Option.bind (field ''goal'' v) the_str;
     d \<leftarrow> Option.bind (field ''created_at'' v) the_str;
     e \<leftarrow> Option.bind (field ''updated_at'' v) the_str;
     f \<leftarrow> Option.bind (field ''base_sha'' v) the_str;
     g \<leftarrow> Option.bind (field ''current_stage'' v) the_str;
     h \<leftarrow> Option.bind (field ''plan_path'' v) opt_str;
     i \<leftarrow> Option.bind (field ''execution_report_path'' v) opt_str;
     j \<leftarrow> Option.bind (field ''review_report_path'' v) opt_str;
     k \<leftarrow> Option.bind (field ''compliance_report_path'' v) opt_str;
     l \<leftarrow> Option.bind (field ''delivery_report_path'' v) opt_str;
     m \<leftarrow> Option.bind (field ''delivery_branch'' v) opt_str;
     n \<leftarrow> Option.bind (field ''pr_url'' v) opt_str;
     p \<leftarrow> Option.bind (field ''blocking_issues'' v) str_list;
     q \<leftarrow> Option.bind (field ''required_human_actions'' v) str_list;
     r \<leftarrow> Option.bind (Option.bind (field ''attempts'' v) the_obj) (decode_all (entry_of the_int));
     s \<leftarrow> Option.bind (Option.bind (field ''artifact_hashes'' v) the_obj) (decode_all (entry_of the_str));
     t \<leftarrow> Option.bind (field ''schema_version'' v) the_str;
     Some \<lparr>sn_session_id = a, sn_project_id = b, sn_goal = c, sn_created_at = d, sn_updated_at = e, sn_base_sha = f,
       sn_current_stage = g, sn_status = st, sn_plan_path = h, sn_execution_report_path = i, sn_review_report_path = j,
       sn_compliance_report_path = k, sn_delivery_report_path = l, sn_delivery_branch = m, sn_pr_url = n,
       sn_blocking_issues = p, sn_required_human_actions = q, sn_events = es, sn_attempts = r,
       sn_artifact_hashes = s, sn_schema_version = t\<rparr>}"

definition session_from_dict :: "json \<Rightarrow> session res" where
  "session_from_dict v =
     (if \<not> is_dict v then raise AttributeError []
      else if field ''schema_version'' v \<noteq> Some (JStr ''1.0'') then raise ValueError ''HUMAN_REQUIRED: unsupported session schema''
      else if \<not> has_keys session_keys v then raise ValueError ''session schema is missing or contains unknown fields''
      else (case Option.bind (Option.bind (field ''events'' v) tuple_of) (decode_all session_event_of) of
        None \<Rightarrow> raise TypeError []
      | Some es \<Rightarrow> (case Option.bind (Option.bind (field ''status'' v) the_str) session_status_of of
          None \<Rightarrow> raise ValueError []
        | Some st \<Rightarrow> (case session_leaves v es st of None \<Rightarrow> raise TypeError [] | Some s \<Rightarrow> Inr s))))"

subsection \<open>The store\<close>

record session_store =
  st_state_dir :: string
  st_sessions :: "(string \<times> file_content) list"
  st_artifacts :: "((string \<times> string) \<times> string) list"

abbreviation store_error :: "string \<Rightarrow> 'a res" where
  "store_error m \<equiv> raise SessionStoreError m"

text \<open>\<open>not session_id or session_id in {".", ".."} or Path(session_id).name != session_id\<close>\<close>

definition session_id_invalid :: "string \<Rightarrow> bool" where
  "session_id_invalid i = (i = [] \<or> i = ''.'' \<or> i = ''..'' \<or> CHR ''/'' \<in> set i)"

text \<open>\<open>Path(name).name == name and name.endswith(".json")\<close>\<close>

definition json_filename :: "string \<Rightarrow> bool" where
  "json_filename n = (CHR ''/'' \<notin> set n \<and> ends_with ''.json'' n)"

definition session_save :: "session \<Rightarrow> session_store \<Rightarrow> unit res \<times> session_store" where
  "session_save s st =
     (if session_id_invalid (sn_session_id s) then (store_error ''invalid session identifier'', st)
      else (Inr (), st\<lparr>st_sessions := dict_set (sn_session_id s) (Json (session_to_dict s)) (st_sessions st)\<rparr>))"

definition session_load :: "string \<Rightarrow> session_store \<Rightarrow> session res" where
  "session_load i st =
     (if session_id_invalid i then store_error ''invalid session identifier''
      else (case map_of (st_sessions st) i of
          None \<Rightarrow> store_error ''session not found''
        | Some No_File \<Rightarrow> store_error ''session not found''
        | Some Not_Json \<Rightarrow> store_error []
        | Some (Json v) \<Rightarrow> (case session_from_dict v of
            Inr s \<Rightarrow> Inr s
          | Inl (Exc c m) \<Rightarrow> if is_value_error c \<or> c \<in> {TypeError, KeyError, OSError} then store_error m else Inl (Exc c m))))"

definition session_list :: "session_store \<Rightarrow> session list res" where
  "session_list st = map_res (\<lambda>i. session_load i st) (sort_key (\<lambda>i. i @ ''.json'') (map fst (st_sessions st)))"

definition artifact_path :: "session_store \<Rightarrow> string \<Rightarrow> string \<Rightarrow> string" where
  "artifact_path st i n = st_state_dir st @ ''/artifacts/'' @ i @ ''/'' @ n"

definition write_artifact :: "(string \<Rightarrow> string) \<Rightarrow> string \<Rightarrow> string \<Rightarrow> string \<Rightarrow> session_store \<Rightarrow> (string \<times> string) res \<times> session_store" where
  "write_artifact H i n content st =
     (if session_id_invalid i then (store_error ''invalid session identifier'', st)
      else if \<not> json_filename n then (store_error ''artifact name must be a simple JSON filename'', st)
      else (case map_of (st_artifacts st) (i, n) of
          Some old \<Rightarrow> (if H old = H content then Inr (artifact_path st i n, H old)
            else store_error ''artifact is immutable and already exists'', st)
        | None \<Rightarrow> (Inr (artifact_path st i n, H content), st\<lparr>st_artifacts := dict_set (i, n) content (st_artifacts st)\<rparr>)))"

definition replace_artifact_for_recovery ::
    "(string \<Rightarrow> string) \<Rightarrow> string \<Rightarrow> string \<Rightarrow> string \<Rightarrow> string \<Rightarrow> session_store \<Rightarrow> (string \<times> string \<times> string) res \<times> session_store" where
  "replace_artifact_for_recovery H i n content backup st =
     (if \<not> json_filename backup then (store_error ''backup artifact name must be a simple JSON filename'', st)
      else (case map_of (st_artifacts st) (i, n) of
          None \<Rightarrow> (store_error ''recovery target artifact is missing or unsafe'', st)
        | Some old \<Rightarrow> (case write_artifact H i backup old st of
            (Inl e, u) \<Rightarrow> (Inl e, u)
          | (Inr _, u) \<Rightarrow> (let v = u\<lparr>st_artifacts := dict_set (i, n) content (st_artifacts u)\<rparr> in
              (Inr (artifact_path st i n, H content, H (the (map_of (st_artifacts v) (i, backup)))), v)))))"

subsection \<open>What the table, the codec and the store satisfy\<close>

interpretation session_table: lifecycle session_targets session_terminal
proof
  fix s
  show "s \<in> set session_terminal \<Longrightarrow> session_targets s = []"
    by (cases s) (simp_all add: session_terminal_def session_targets_def)
  show "s \<notin> set session_terminal \<Longrightarrow> session_targets s \<noteq> []"
    by (cases s) (simp_all add: session_terminal_def session_targets_def)
qed

lemma status_of_value [simp]: "session_status_of (session_status_value s) = Some s"
  by (cases s) (simp_all add: session_status_of_def all_session_statuses_def)

lemma status_value_inj [simp]: "session_status_value s = session_status_value t \<longleftrightarrow> s = t"
  by (metis status_of_value option.inject)

lemma status_value_nonempty [simp]: "session_status_value s \<noteq> []"
  by (cases s) simp_all

lemma session_event_round_trip: "session_event_of (session_event_to_dict e) = Some e"
  by (simp add: session_event_of_def session_event_to_dict_def has_keys_def keys_of_def session_event_keys_def field_def)

lemma entry_of_all:
  "(\<And>x. f (g x) = Some x) \<Longrightarrow> decode_all (entry_of f) (map (\<lambda>(k, v). (k, g v)) xs) = Some xs"
  by (rule decode_all_map) (auto simp: entry_of_def)

lemma session_field:
  "field ''session_id'' (session_to_dict s) = Some (JStr (sn_session_id s))"
  "field ''project_id'' (session_to_dict s) = Some (JStr (sn_project_id s))"
  "field ''goal'' (session_to_dict s) = Some (JStr (sn_goal s))"
  "field ''created_at'' (session_to_dict s) = Some (JStr (sn_created_at s))"
  "field ''updated_at'' (session_to_dict s) = Some (JStr (sn_updated_at s))"
  "field ''base_sha'' (session_to_dict s) = Some (JStr (sn_base_sha s))"
  "field ''current_stage'' (session_to_dict s) = Some (JStr (sn_current_stage s))"
  "field ''status'' (session_to_dict s) = Some (JStr (session_status_value (sn_status s)))"
  "field ''plan_path'' (session_to_dict s) = Some (enc_opt (sn_plan_path s))"
  "field ''execution_report_path'' (session_to_dict s) = Some (enc_opt (sn_execution_report_path s))"
  "field ''review_report_path'' (session_to_dict s) = Some (enc_opt (sn_review_report_path s))"
  "field ''compliance_report_path'' (session_to_dict s) = Some (enc_opt (sn_compliance_report_path s))"
  "field ''delivery_report_path'' (session_to_dict s) = Some (enc_opt (sn_delivery_report_path s))"
  "field ''delivery_branch'' (session_to_dict s) = Some (enc_opt (sn_delivery_branch s))"
  "field ''pr_url'' (session_to_dict s) = Some (enc_opt (sn_pr_url s))"
  "field ''blocking_issues'' (session_to_dict s) = Some (enc_strs (sn_blocking_issues s))"
  "field ''required_human_actions'' (session_to_dict s) = Some (enc_strs (sn_required_human_actions s))"
  "field ''events'' (session_to_dict s) = Some (JList (map session_event_to_dict (sn_events s)))"
  "field ''attempts'' (session_to_dict s) = Some (JObj (map (\<lambda>(k, n). (k, JInt n)) (sn_attempts s)))"
  "field ''artifact_hashes'' (session_to_dict s) = Some (JObj (map (\<lambda>(k, h). (k, JStr h)) (sn_artifact_hashes s)))"
  "field ''schema_version'' (session_to_dict s) = Some (JStr (sn_schema_version s))"
  by (simp_all add: session_to_dict_def field_def)

lemma session_shape: "is_dict (session_to_dict s)" "has_keys session_keys (session_to_dict s)"
  by (simp_all add: session_to_dict_def is_dict_def has_keys_def keys_of_def session_keys_def)

lemma session_round_trip:
  "sn_schema_version s = ''1.0'' \<Longrightarrow> session_from_dict (session_to_dict s) = Inr s"
  by (simp add: session_from_dict_def session_shape session_field tuple_of_def session_event_round_trip
      session_leaves_def entry_of_all the_int_def the_str_def the_obj_def)

lemma session_leaves_version:
  assumes "session_leaves v es st = Some s" and "field ''schema_version'' v = Some (JStr w)"
  shows "sn_schema_version s = w"
  using assms(1) unfolding session_leaves_def assms(2) by (clarsimp simp: bind_eq_Some_conv the_str_def)

lemma session_from_dict_version: "session_from_dict v = Inr s \<Longrightarrow> sn_schema_version s = ''1.0''"
  unfolding session_from_dict_def
  by (simp only: raise_not_ok if_not_P split: if_splits option.splits) (metis session_leaves_version sum.inject(2))

interpretation session_codec: json_codec session_to_dict session_from_dict "\<lambda>s. sn_schema_version s = ''1.0''"
  by unfold_locales (rule session_round_trip session_from_dict_version, assumption)+

subsection \<open>What the store keeps\<close>

lemma map_of_dict_set [simp]: "map_of (dict_set k v d) j = (if j = k then Some v else map_of d j)"
  by (simp add: update_conv)

lemma load_after_save:
  assumes "sn_schema_version s = ''1.0''" and "session_save s st = (Inr (), u)"
  shows "session_load (sn_session_id s) u = Inr s"
  using assms by (auto simp: session_save_def session_load_def session_codec.dec_enc raise_def split: if_splits)

lemma load_other_after_save: "i \<noteq> sn_session_id s \<Longrightarrow> session_load i (snd (session_save s st)) = session_load i st"
  by (auto simp add: session_save_def session_load_def split: if_splits)

text \<open>A run of operations on the artifacts\<close>

datatype artifact_op = Art_Write string string string | Art_Replace string string string string

fun artifact_step :: "(string \<Rightarrow> string) \<Rightarrow> artifact_op \<Rightarrow> session_store \<Rightarrow> session_store" where
  "artifact_step H (Art_Write i n c) st = snd (write_artifact H i n c st)"
| "artifact_step H (Art_Replace i n c b) st = snd (replace_artifact_for_recovery H i n c b st)"

fun artifact_target :: "artifact_op \<Rightarrow> (string \<times> string) option" where
  "artifact_target (Art_Write i n c) = None"
| "artifact_target (Art_Replace i n c b) = Some (i, n)"

fun separate_backup :: "artifact_op \<Rightarrow> bool" where
  "separate_backup (Art_Write i n c) = True"
| "separate_backup (Art_Replace i n c b) = (b \<noteq> n)"

definition artifact_run :: "(string \<Rightarrow> string) \<Rightarrow> artifact_op list \<Rightarrow> session_store \<Rightarrow> session_store" where
  "artifact_run H ops st = fold (artifact_step H) ops st"

text \<open>The digests of the artifacts of a session\<close>

definition digests :: "(string \<Rightarrow> string) \<Rightarrow> string \<Rightarrow> session_store \<Rightarrow> string set" where
  "digests H i st = {H c |c n. map_of (st_artifacts st) (i, n) = Some c}"

lemma write_artifact_keeps:
  "map_of (st_artifacts st) k = Some c \<Longrightarrow> map_of (st_artifacts (snd (write_artifact H i n d st))) k = Some c"
  by (auto simp: write_artifact_def Let_def split: option.splits)

lemma write_artifact_stores:
  assumes "write_artifact H i n c st = (Inr r, u)"
  shows "\<exists>d. map_of (st_artifacts u) (i, n) = Some d \<and> H d = H c" "r = (artifact_path st i n, H c)"
  using assms by (auto simp: write_artifact_def raise_def split: if_splits option.splits)

lemma write_artifact_name: "write_artifact H i n c st = (Inr r, u) \<Longrightarrow> json_filename n"
  by (auto simp: write_artifact_def raise_def split: if_splits)

lemma replace_keeps_others:
  assumes "map_of (st_artifacts st) k = Some c" and "k \<noteq> (i, n)"
  shows "map_of (st_artifacts (snd (replace_artifact_for_recovery H i n d b st))) k = Some c"
proof (cases "map_of (st_artifacts st) (i, n)")
  case (Some old)
  obtain r u where w: "write_artifact H i b old st = (r, u)" by fastforce
  have "map_of (st_artifacts u) k = Some c" using write_artifact_keeps [OF assms(1), of H i b old] w by simp
  then show ?thesis using assms Some w
    by (simp add: replace_artifact_for_recovery_def Let_def split: sum.splits)
qed (use assms in \<open>simp add: replace_artifact_for_recovery_def\<close>)

lemma replace_keeps_digest:
  assumes "map_of (st_artifacts st) (i, n) = Some c" and "b \<noteq> n"
  shows "H c \<in> digests H i (snd (replace_artifact_for_recovery H i n d b st))"
proof -
  obtain r u where w: "write_artifact H i b c st = (r, u)" by fastforce
  have kept: "map_of (st_artifacts u) (i, n) = Some c" using write_artifact_keeps [OF assms(1), of H i b c] w by simp
  show ?thesis
  proof (cases r)
    case (Inl e)
    then show ?thesis using assms w kept by (auto simp: replace_artifact_for_recovery_def digests_def)
  next
    case (Inr q)
    with write_artifact_stores(1) [of H i b c st q u] w obtain x
      where "map_of (st_artifacts u) (i, b) = Some x" "H x = H c" by auto
    then show ?thesis using assms w Inr
      unfolding digests_def by (intro CollectI exI [of _ x] exI [of _ b]) (simp add: replace_artifact_for_recovery_def Let_def w write_artifact_name [OF w [unfolded Inr]])
  qed
qed

lemma artifact_step_keeps:
  "map_of (st_artifacts st) k = Some c \<Longrightarrow> artifact_target op \<noteq> Some k \<Longrightarrow>
   map_of (st_artifacts (artifact_step H op st)) k = Some c"
  by (cases op) (auto intro: write_artifact_keeps replace_keeps_others)

lemma artifact_step_digests: "separate_backup op \<Longrightarrow> digests H i st \<subseteq> digests H i (artifact_step H op st)"
proof
  fix x
  assume sep: "separate_backup op" and "x \<in> digests H i st"
  then obtain c n where c: "x = H c" "map_of (st_artifacts st) (i, n) = Some c" by (auto simp: digests_def)
  show "x \<in> digests H i (artifact_step H op st)"
  proof (cases "artifact_target op = Some (i, n)")
    case True
    with sep c show ?thesis by (cases op) (auto intro: replace_keeps_digest)
  next
    case False
    from artifact_step_keeps [OF c(2) False] c(1) show ?thesis by (auto simp: digests_def)
  qed
qed

text \<open>C28. Through any run of writes and recoveries whose backups have a name of their own, the digest of
  every artifact that a session ever had is the digest of one that it still has; and the text under a
  name changes only by a recovery of this name.
\<close>

theorem artifact_history_safe:
  assumes "list_all separate_backup ops"
  shows "digests H i st \<subseteq> digests H i (artifact_run H ops st) \<and>
    (list_all (\<lambda>op. artifact_target op \<noteq> Some (i, n)) ops \<longrightarrow>
      map_of (st_artifacts st) (i, n) = Some c \<longrightarrow> map_of (st_artifacts (artifact_run H ops st)) (i, n) = Some c)"
  using assms
proof (induction ops arbitrary: st)
  case (Cons op ops)
  then have IH: "digests H i (artifact_step H op st) \<subseteq> digests H i (artifact_run H ops (artifact_step H op st))"
    and IH2: "list_all (\<lambda>op. artifact_target op \<noteq> Some (i, n)) ops \<longrightarrow>
      map_of (st_artifacts (artifact_step H op st)) (i, n) = Some c \<longrightarrow>
      map_of (st_artifacts (artifact_run H ops (artifact_step H op st))) (i, n) = Some c" by simp_all
  have "digests H i st \<subseteq> digests H i (artifact_step H op st)"
    using Cons.prems by (intro artifact_step_digests) simp
  moreover have "artifact_target op \<noteq> Some (i, n) \<Longrightarrow> map_of (st_artifacts st) (i, n) = Some c \<Longrightarrow>
      map_of (st_artifacts (artifact_step H op st)) (i, n) = Some c" by (rule artifact_step_keeps)
  ultimately show ?case using IH IH2 by (auto simp: artifact_run_def)
qed (simp add: artifact_run_def)

definition sample_artifact_ops :: "artifact_op list" where
  "sample_artifact_ops = [Art_Write ''s'' ''plan.json'' ''other'', Art_Replace ''s'' ''plan.json'' ''new'' ''backup.json'',
     Art_Replace ''s'' ''missing.json'' ''new'' ''backup.json'']"

definition sample_artifacts :: session_store where
  "sample_artifacts = \<lparr>st_state_dir = ''/state'', st_sessions = [],
     st_artifacts = [((''s'', ''plan.json''), ''old''), ((''s'', ''report.json''), ''report'')]\<rparr>"

lemma artifact_history_safe_witness:
  "''old'' \<in> digests id ''s'' (artifact_run id sample_artifact_ops sample_artifacts) \<and>
   map_of (st_artifacts (artifact_run id sample_artifact_ops sample_artifacts)) (''s'', ''report.json'') = Some ''report''"
proof -
  have sep: "list_all separate_backup sample_artifact_ops" by (simp add: sample_artifact_ops_def)
  have "''old'' \<in> digests id ''s'' sample_artifacts"
    by (auto simp: digests_def sample_artifacts_def intro: exI [of _ "''plan.json''"])
  then show ?thesis
    using artifact_history_safe [OF sep, of id "''s''" sample_artifacts "''report.json''" "''report''"]
    by (auto simp: sample_artifact_ops_def sample_artifacts_def)
qed

text \<open>A recovery whose backup has the name of the artifact succeeds and keeps no copy: the old text is
  under no name of the session, though the method promises to retain it.
\<close>

theorem recovery_loses_text:
  assumes "\<not> session_id_invalid i" and "json_filename n" and "st_artifacts st = [((i, n), old)]" and "H new \<noteq> H old"
  shows "fst (replace_artifact_for_recovery H i n new n st) = Inr (artifact_path st i n, H new, H new) \<and>
    H old \<notin> digests H i (snd (replace_artifact_for_recovery H i n new n st))"
  using assms by (auto simp: replace_artifact_for_recovery_def write_artifact_def digests_def Let_def split: if_splits)

lemma recovery_loses_text_witness:
  "''old'' \<notin> digests id ''s'' (snd (replace_artifact_for_recovery id ''s'' ''plan.json'' ''new'' ''plan.json''
     \<lparr>st_state_dir = ''/state'', st_sessions = [], st_artifacts = [((''s'', ''plan.json''), ''old'')]\<rparr>))"
  using recovery_loses_text [of "''s''" "''plan.json''"
      "\<lparr>st_state_dir = ''/state'', st_sessions = [], st_artifacts = [((''s'', ''plan.json''), ''old'')]\<rparr>" "''old''" id "''new''"]
  by (simp add: session_id_invalid_def json_filename_def ends_with_def starts_with_def)

end
