(* ===== verification/Project.thy ===== *)
theory Project
  imports Session RemoteIdentity Timestamps "HOL-Library.Monad_Syntax" "HOL-Library.Sublist"
begin

section \<open>Registered projects (project_models.py, project_registry.py)\<close>

text \<open>
  The record of a registered repository, its JSON form, and the registry: one document that lists
  the projects, and the operations on it. The host (the home directory, symbolic links, the
  resolution of paths and Git) is the record \<open>host\<close>, and \<open>pru\<close> is \<open>parse_remote_url\<close> with the two
  arguments of its theory; the reading of the clock is an argument. The lock makes each operation one
  step. A leaf of the document whose JSON type is not the declared one is a \<open>TypeError\<close> here, and the
  failures of the file system are not modelled.
\<close>

datatype project_status = Proj_ACTIVE | Proj_STALE | Proj_BLOCKED | Proj_DISABLED

fun project_status_value :: "project_status \<Rightarrow> string" where
  "project_status_value Proj_ACTIVE = ''ACTIVE''"
| "project_status_value Proj_STALE = ''STALE''"
| "project_status_value Proj_BLOCKED = ''BLOCKED''"
| "project_status_value Proj_DISABLED = ''DISABLED''"

definition project_status_of :: "string \<Rightarrow> project_status option" where
  "project_status_of v = map_of (map (\<lambda>s. (project_status_value s, s)) [Proj_ACTIVE, Proj_STALE, Proj_BLOCKED, Proj_DISABLED]) v"

record project_policy =
  pp_allowed_remote_hosts :: "string list"
  pp_allow_dirty_planning :: bool
  pp_allow_live_execution :: bool
  pp_allow_delivery :: bool
  pp_require_human_merge :: bool
  pp_maximum_correction_rounds :: int

definition default_policy :: project_policy where
  "default_policy = \<lparr>pp_allowed_remote_hosts = [], pp_allow_dirty_planning = False, pp_allow_live_execution = False,
     pp_allow_delivery = False, pp_require_human_merge = True, pp_maximum_correction_rounds = 2\<rparr>"

text \<open>\<open>__post_init__\<close>\<close>

definition policy_valid :: "project_policy \<Rightarrow> bool" where
  "policy_valid p = (0 \<le> pp_maximum_correction_rounds p \<and> pp_maximum_correction_rounds p \<le> 3)"

record project =
  pj_project_id :: string
  pj_name :: string
  pj_repository_root :: string
  pj_origin_url :: string
  pj_default_branch :: string
  pj_current_head_sha :: string
  pj_registered_at :: string
  pj_verified_at :: string
  pj_status :: project_status
  pj_policy :: project_policy
  pj_metadata :: "(string \<times> json) list"

subsection \<open>The JSON form\<close>

definition policy_to_dict :: "project_policy \<Rightarrow> json" where
  "policy_to_dict p = JObj [(''allowed_remote_hosts'', enc_strs (pp_allowed_remote_hosts p)),
     (''allow_dirty_planning'', JBool (pp_allow_dirty_planning p)),
     (''allow_live_execution'', JBool (pp_allow_live_execution p)), (''allow_delivery'', JBool (pp_allow_delivery p)),
     (''require_human_merge'', JBool (pp_require_human_merge p)),
     (''maximum_correction_rounds'', JInt (pp_maximum_correction_rounds p))]"

definition project_to_dict :: "project \<Rightarrow> json" where
  "project_to_dict p = JObj [(''project_id'', JStr (pj_project_id p)), (''name'', JStr (pj_name p)),
     (''repository_root'', JStr (pj_repository_root p)), (''origin_url'', JStr (pj_origin_url p)),
     (''default_branch'', JStr (pj_default_branch p)), (''current_head_sha'', JStr (pj_current_head_sha p)),
     (''registered_at'', JStr (pj_registered_at p)), (''verified_at'', JStr (pj_verified_at p)),
     (''status'', JStr (project_status_value (pj_status p))), (''policy'', policy_to_dict (pj_policy p)),
     (''metadata'', JObj (pj_metadata p))]"

definition policy_keys :: "string list" where
  "policy_keys = [''allowed_remote_hosts'', ''allow_dirty_planning'', ''allow_live_execution'', ''allow_delivery'',
     ''require_human_merge'', ''maximum_correction_rounds'']"

text \<open>\<open>ProjectPolicy(**payload["policy"])\<close>: keys that are absent take the defaults\<close>

definition policy_from_dict :: "json \<Rightarrow> project_policy res" where
  "policy_from_dict v = (if \<not> is_dict v \<or> \<not> set (keys_of v) \<subseteq> set policy_keys then raise TypeError [] else
     (case do {
        a \<leftarrow> str_list (field_or (JList []) ''allowed_remote_hosts'' v);
        b \<leftarrow> the_bool (field_or (JBool False) ''allow_dirty_planning'' v);
        c \<leftarrow> the_bool (field_or (JBool False) ''allow_live_execution'' v);
        d \<leftarrow> the_bool (field_or (JBool False) ''allow_delivery'' v);
        e \<leftarrow> the_bool (field_or (JBool True) ''require_human_merge'' v);
        f \<leftarrow> the_int (field_or (JInt 2) ''maximum_correction_rounds'' v);
        Some \<lparr>pp_allowed_remote_hosts = a, pp_allow_dirty_planning = b, pp_allow_live_execution = c,
          pp_allow_delivery = d, pp_require_human_merge = e, pp_maximum_correction_rounds = f\<rparr>} of
        None \<Rightarrow> raise TypeError []
      | Some p \<Rightarrow> if policy_valid p then Inr p else raise ValueError ''maximum_correction_rounds must be between 0 and 3''))"

definition project_keys :: "string list" where
  "project_keys = [''project_id'', ''name'', ''repository_root'', ''origin_url'', ''default_branch'', ''current_head_sha'',
     ''registered_at'', ''verified_at'', ''status'', ''policy'', ''metadata'']"

definition project_leaves :: "json \<Rightarrow> project_policy \<Rightarrow> project_status \<Rightarrow> project option" where
  "project_leaves v pol st = do {
     a \<leftarrow> Option.bind (field ''project_id'' v) the_str;
     b \<leftarrow> Option.bind (field ''name'' v) the_str;
     c \<leftarrow> Option.bind (field ''repository_root'' v) the_str;
     d \<leftarrow> Option.bind (field ''origin_url'' v) the_str;
     e \<leftarrow> Option.bind (field ''default_branch'' v) the_str;
     f \<leftarrow> Option.bind (field ''current_head_sha'' v) the_str;
     g \<leftarrow> Option.bind (field ''registered_at'' v) the_str;
     h \<leftarrow> Option.bind (field ''verified_at'' v) the_str;
     m \<leftarrow> Option.bind (field ''metadata'' v) the_obj;
     Some \<lparr>pj_project_id = a, pj_name = b, pj_repository_root = c, pj_origin_url = d, pj_default_branch = e,
       pj_current_head_sha = f, pj_registered_at = g, pj_verified_at = h, pj_status = st, pj_policy = pol, pj_metadata = m\<rparr>}"

definition project_from_dict :: "json \<Rightarrow> project res" where
  "project_from_dict v =
     (if tuple_of v = None then raise TypeError []
      else if \<not> has_keys project_keys v then raise ValueError ''project schema is missing or contains unknown fields''
      else (case field ''policy'' v of None \<Rightarrow> raise KeyError ''policy'' | Some w \<Rightarrow>
        and_then (policy_from_dict w) (\<lambda>pol.
          case Option.bind (Option.bind (field ''status'' v) the_str) project_status_of of
            None \<Rightarrow> raise ValueError []
          | Some st \<Rightarrow> (case project_leaves v pol st of None \<Rightarrow> raise TypeError [] | Some p \<Rightarrow> Inr p))))"

subsection \<open>The registry's document\<close>

abbreviation registry_error :: "string \<Rightarrow> 'a res" where
  "registry_error m \<equiv> raise ProjectRegistryError m"

definition registry_load :: "file_content \<Rightarrow> project list res" where
  "registry_load f = (case f of
     No_File \<Rightarrow> Inr []
   | Not_Json \<Rightarrow> registry_error ''HUMAN_REQUIRED: invalid project registry: ''
   | Json v \<Rightarrow> rethrow (\<lambda>c. is_value_error c \<or> c \<in> {OSError, KeyError, TypeError}) ProjectRegistryError
       ''HUMAN_REQUIRED: invalid project registry: ''
       (if \<not> is_dict v then raise AttributeError []
        else if field ''schema_version'' v \<noteq> Some (JStr ''1.0'')
        then registry_error ''HUMAN_REQUIRED: unsupported project registry schema''
        else (case tuple_of (field_or (JList []) ''projects'' v) of
            None \<Rightarrow> raise TypeError [] | Some vs \<Rightarrow> map_res project_from_dict vs)))"

definition registry_save :: "project list \<Rightarrow> file_content" where
  "registry_save ps = Json (JObj [(''schema_version'', JStr ''1.0''), (''projects'', JList (map project_to_dict ps))])"

text \<open>\<open>sorted(..., key=lambda item: (item.name, item.project_id))\<close>\<close>

definition registry_list :: "file_content \<Rightarrow> project list res" where
  "registry_list f = and_then (registry_load f) (\<lambda>ps. Inr (sort_key pj_name (sort_key pj_project_id ps)))"

definition project_get :: "string \<Rightarrow> file_content \<Rightarrow> project res" where
  "project_get n f = and_then (registry_load f) (\<lambda>ps.
     case filter (\<lambda>p. pj_name p = n \<or> pj_project_id p = n) ps of
       [p] \<Rightarrow> Inr p | _ \<Rightarrow> registry_error ''project selection is missing or ambiguous'')"

text \<open>\<open>_mark_unlocked\<close>; \<open>replaced\<close> is the list that it saves\<close>

definition replaced :: "project \<Rightarrow> project list \<Rightarrow> project list" where
  "replaced q ps = map (\<lambda>p. if pj_project_id p = pj_project_id q then q else p) ps"

definition registry_put :: "project \<Rightarrow> bool \<Rightarrow> file_content \<Rightarrow> project res \<times> file_content" where
  "registry_put q persist f = (case registry_load f of
     Inl e \<Rightarrow> (Inl e, f)
   | Inr ps \<Rightarrow> (Inr q, if persist then registry_save (replaced q ps) else f))"

definition verification_entry :: "project \<Rightarrow> string option \<Rightarrow> string option \<Rightarrow> string option \<Rightarrow> instant \<Rightarrow> json" where
  "verification_entry p reason at head now = JObj [(''previous_sha'', JStr (pj_current_head_sha p)),
     (''new_sha'', JStr (case head of Some h \<Rightarrow> if h = [] then pj_current_head_sha p else h | None \<Rightarrow> pj_current_head_sha p)),
     (''verified_at'', JStr (case at of Some t \<Rightarrow> if t = [] then show_time now else t | None \<Rightarrow> show_time now)),
     (''reason'', JStr (case reason of Some r \<Rightarrow> if r = [] then ''verification'' else r | None \<Rightarrow> ''verification''))]"

definition last_five :: "'a list \<Rightarrow> 'a list" where
  "last_five xs = drop (length xs - 5) xs"

definition mark_metadata ::
    "project \<Rightarrow> string option \<Rightarrow> string option \<Rightarrow> string option \<Rightarrow> instant \<Rightarrow> (string \<times> json) list res" where
  "mark_metadata p reason at head now =
     (let m = (case reason of None \<Rightarrow> pj_metadata p | Some r \<Rightarrow>
          if r = [] then pj_metadata p else dict_set ''last_verification_reason'' (JStr r) (pj_metadata p));
          told = (case reason of None \<Rightarrow> False | Some r \<Rightarrow> r \<noteq> [])
      in (case tuple_of (case map_of m ''verification_history'' of None \<Rightarrow> JList [] | Some v \<Rightarrow> v) of
          None \<Rightarrow> raise TypeError []
        | Some old \<Rightarrow> Inr (dict_set ''verification_history''
            (JList (last_five (if told \<or> head \<noteq> None then old @ [verification_entry p reason at head now] else old))) m)))"

definition registry_mark ::
    "project \<Rightarrow> project_status \<Rightarrow> string option \<Rightarrow> string option \<Rightarrow> string option \<Rightarrow> bool \<Rightarrow> instant \<Rightarrow> file_content \<Rightarrow>
     project res \<times> file_content" where
  "registry_mark p status reason at head persist now f = (case mark_metadata p reason at head now of
     Inl e \<Rightarrow> (Inl e, f)
   | Inr m \<Rightarrow> registry_put (p\<lparr>
       pj_current_head_sha := (case head of Some h \<Rightarrow> if h = [] then pj_current_head_sha p else h | None \<Rightarrow> pj_current_head_sha p),
       pj_verified_at := (case at of Some t \<Rightarrow> if t = [] then pj_verified_at p else t | None \<Rightarrow> pj_verified_at p),
       pj_status := status, pj_metadata := m\<rparr>) persist f)"

subsection \<open>Operations\<close>

record host =
  hs_expanduser :: "string \<Rightarrow> string"
  hs_is_symlink :: "string \<Rightarrow> bool"
  hs_resolve_strict :: "string \<Rightarrow> string res"
  hs_resolve :: "string \<Rightarrow> string"
  hs_git :: "string \<Rightarrow> string list \<Rightarrow> string res"

text \<open>\<open>Path(p).parts\<close> and \<open>Path(p).name\<close> of POSIX paths; \<open>p == q or p in q.parents\<close>\<close>

definition path_segments :: "string \<Rightarrow> string list" where
  "path_segments p = filter (\<lambda>w. w \<noteq> [] \<and> w \<noteq> ''.'') (split_on (CHR ''/'') p)"

definition path_root :: "string \<Rightarrow> string list" where
  "path_root p = (if starts_with ''//'' p \<and> \<not> starts_with ''///'' p then [''//'']
     else if starts_with ''/'' p then [''/''] else [])"

definition path_parts :: "string \<Rightarrow> string list" where
  "path_parts p = path_root p @ path_segments p"

definition path_name :: "string \<Rightarrow> string" where
  "path_name p = (if path_segments p = [] then [] else last (path_segments p))"

definition within_path :: "string \<Rightarrow> string \<Rightarrow> bool" where
  "within_path p q = prefix (path_parts p) (path_parts q)"

definition nested :: "string \<Rightarrow> string \<Rightarrow> bool" where
  "nested p q = (within_path p q \<or> within_path q p)"

definition registry_remote :: "(string \<Rightarrow> remote_info res) \<Rightarrow> string \<Rightarrow> remote_info res" where
  "registry_remote pru v = rethrow (\<lambda>c. c = RemoteIdentityError) ProjectRegistryError [] (pru v)"

definition registry_canonical :: "(string \<Rightarrow> remote_info res) \<Rightarrow> string \<Rightarrow> string res" where
  "registry_canonical pru v = and_then (registry_remote pru v) (\<lambda>i. Inr (rem_identity i))"

definition check_existing ::
    "(string \<Rightarrow> remote_info res) \<Rightarrow> string \<Rightarrow> string \<Rightarrow> bool \<Rightarrow> project \<Rightarrow> unit res" where
  "check_existing pru root identity accept p =
     (if nested (pj_repository_root p) root then registry_error ''repository duplicates or nests a registered project''
      else and_then (registry_canonical pru (pj_origin_url p)) (\<lambda>old.
        raise_if (old = identity \<and> \<not> accept) ProjectRegistryError ''origin is already registered by another project''))"

text \<open>The inspection of the repository that \<open>_add_unlocked\<close> begins with: its root, branch, remote and head\<close>

definition inspect_repository ::
    "host \<Rightarrow> (string \<Rightarrow> remote_info res) \<Rightarrow> string \<Rightarrow> project_policy \<Rightarrow> string \<Rightarrow> (string \<times> string \<times> remote_info \<times> string) res" where
  "inspect_repository hs pru state_dir pol repository =
     (let requested = hs_expanduser hs repository in
      and_then (hs_resolve_strict hs requested) (\<lambda>root.
      if hs_is_symlink hs requested then registry_error ''symlink repository path is not registrable''
      else if nested state_dir root then registry_error ''repository must be outside AGF state directory''
      else if path_name root = ''.git'' then registry_error ''.git directory cannot be registered as a project''
      else and_then (hs_git hs root [''rev-parse'', ''--show-toplevel'']) (\<lambda>top.
      if path_parts (hs_resolve hs top) \<noteq> path_parts root
      then registry_error ''repository path must be the canonical repository root''
      else and_then (hs_git hs root [''branch'', ''--show-current'']) (\<lambda>branch.
      if branch = [] then registry_error ''detached HEAD is not registrable''
      else and_then (hs_git hs root [''config'', ''--get'', ''remote.origin.url'']) (\<lambda>origin.
      if origin = [] then registry_error ''origin remote is required''
      else and_then (registry_remote pru origin) (\<lambda>remote.
      if pp_allowed_remote_hosts pol \<noteq> [] \<and> rem_host remote \<notin> set (pp_allowed_remote_hosts pol)
      then registry_error ''origin host is not allowed by project policy''
      else and_then (hs_git hs root [''rev-parse'', ''HEAD'']) (\<lambda>head. Inr (root, branch, remote, head))))))))"

definition registry_add ::
    "(string \<Rightarrow> string) \<Rightarrow> host \<Rightarrow> (string \<Rightarrow> remote_info res) \<Rightarrow> string \<Rightarrow> string \<Rightarrow> string \<Rightarrow> project_policy option \<Rightarrow>
     (string \<times> json) list \<Rightarrow> bool \<Rightarrow> instant \<Rightarrow> file_content \<Rightarrow> project res \<times> file_content" where
  "registry_add H hs pru state_dir name repository policy metadata accept now f =
     (let pol = (case policy of None \<Rightarrow> default_policy | Some p \<Rightarrow> p) in
      case inspect_repository hs pru state_dir pol repository of
        Inl e \<Rightarrow> (Inl e, f)
      | Inr (root, branch, remote, head) \<Rightarrow> (case registry_load f of
          Inl e \<Rightarrow> (Inl e, f)
        | Inr ps \<Rightarrow> (case for_each (check_existing pru root (rem_identity remote) accept) ps of
            Inl e \<Rightarrow> (Inl e, f)
          | Inr _ \<Rightarrow> (let i = ''project-'' @ take 16 (H root) in
              if list_ex (\<lambda>p. pj_name p = name \<or> pj_project_id p = i) ps
              then (registry_error ''project name or identity already exists'', f)
              else (let p = \<lparr>pj_project_id = i, pj_name = name, pj_repository_root = root,
                  pj_origin_url = rem_normalized remote, pj_default_branch = branch, pj_current_head_sha = head,
                  pj_registered_at = show_time now, pj_verified_at = show_time now, pj_status = Proj_ACTIVE,
                  pj_policy = pol, pj_metadata = metadata\<rparr>
                in (Inr p, registry_save (ps @ [p])))))))"

definition verify_loaded ::
    "host \<Rightarrow> (string \<Rightarrow> remote_info res) \<Rightarrow> project \<Rightarrow> bool \<Rightarrow> instant \<Rightarrow> file_content \<Rightarrow> project res \<times> file_content" where
  "verify_loaded hs pru p persist now f =
     (let stale = (\<lambda>m. registry_mark p Proj_STALE (Some m) None None persist now f);
          root = pj_repository_root p;
          inspected = and_then (hs_git hs root [''config'', ''--get'', ''remote.origin.url'']) (\<lambda>origin.
            and_then (hs_git hs root [''rev-parse'', ''HEAD'']) (\<lambda>head.
            and_then (hs_git hs root [''branch'', ''--show-current'']) (\<lambda>branch. Inr (origin, head, branch))))
      in case inspected of
        Inl e \<Rightarrow> if exc_kind e = ProjectRegistryError then stale (exc_msg e) else (Inl e, f)
      | Inr (origin, head, branch) \<Rightarrow> (case registry_canonical pru origin of
          Inl e \<Rightarrow> if exc_kind e = ProjectRegistryError then stale (exc_msg e) else (Inl e, f)
        | Inr normalized \<Rightarrow> (case registry_canonical pru (pj_origin_url p) of
            Inl e \<Rightarrow> if exc_kind e = ProjectRegistryError then stale (exc_msg e) else (Inl e, f)
          | Inr stored \<Rightarrow>
              if normalized \<noteq> stored then stale ''repository origin changed''
              else if branch = [] then stale ''repository is detached''
              else if branch \<noteq> pj_default_branch p then stale ''registered branch identity changed''
              else if head \<noteq> pj_current_head_sha p
              then registry_mark p Proj_ACTIVE (Some ''observed HEAD advanced'') (Some (show_time now)) (Some head) persist now f
              else registry_mark p Proj_ACTIVE None (Some (show_time now)) None persist now f)))"

definition registry_verify ::
    "host \<Rightarrow> (string \<Rightarrow> remote_info res) \<Rightarrow> string \<Rightarrow> bool \<Rightarrow> instant \<Rightarrow> file_content \<Rightarrow> project res \<times> file_content" where
  "registry_verify hs pru n persist now f = (case project_get n f of
     Inl e \<Rightarrow> (Inl e, f) | Inr p \<Rightarrow> verify_loaded hs pru p persist now f)"

definition registry_set_status :: "string \<Rightarrow> project_status \<Rightarrow> file_content \<Rightarrow> project res \<times> file_content" where
  "registry_set_status n status f = (case project_get n f of
     Inl e \<Rightarrow> (Inl e, f) | Inr p \<Rightarrow> registry_put (p\<lparr>pj_status := status\<rparr>) True f)"

definition registry_remove :: "string \<Rightarrow> session_store \<Rightarrow> file_content \<Rightarrow> unit res \<times> file_content" where
  "registry_remove n st f = (case project_get n f of
     Inl e \<Rightarrow> (Inl e, f)
   | Inr p \<Rightarrow> (case session_list st of
       Inl e \<Rightarrow> (Inl e, f)
     | Inr ss \<Rightarrow> (let alive = filter (\<lambda>s. sn_project_id s = pj_project_id p \<and> sn_status s \<notin> set session_terminal) ss in
         if alive \<noteq> []
         then (registry_error (''project has active sessions: '' @ join_str '', '' (map sn_session_id (take 10 alive)) @
           (if 10 < length alive then ''...'' else [])), f)
         else (case registry_load f of
             Inl e \<Rightarrow> (Inl e, f)
           | Inr ps \<Rightarrow> (Inr (), registry_save (filter (\<lambda>q. pj_project_id q \<noteq> pj_project_id p) ps))))))"

subsection \<open>What the codec satisfies\<close>

lemma project_status_of_value [simp]: "project_status_of (project_status_value s) = Some s"
  by (cases s) (simp_all add: project_status_of_def)

lemma policy_round_trip: "policy_valid p \<Longrightarrow> policy_from_dict (policy_to_dict p) = Inr p"
  by (simp add: policy_from_dict_def policy_to_dict_def is_dict_def keys_of_def policy_keys_def field_or_def field_def policy_valid_def)

lemma policy_from_dict_valid: "policy_from_dict v = Inr p \<Longrightarrow> policy_valid p"
  by (auto simp: policy_from_dict_def raise_def split: if_splits option.splits)

lemma project_round_trip: "policy_valid (pj_policy p) \<Longrightarrow> project_from_dict (project_to_dict p) = Inr p"
  by (simp add: project_from_dict_def project_to_dict_def tuple_of_def has_keys_def keys_of_def project_keys_def field_def
      policy_round_trip project_leaves_def)

lemma project_leaves_policy: "project_leaves v pol st = Some p \<Longrightarrow> pj_policy p = pol"
  unfolding project_leaves_def by (clarsimp simp: bind_eq_Some_conv)

lemma project_from_dict_valid:
  assumes "project_from_dict v = Inr p"
  shows "policy_valid (pj_policy p)"
proof -
  from assms obtain w pol st where "policy_from_dict w = Inr pol" "project_leaves v pol st = Some p"
    unfolding project_from_dict_def by (auto simp: raise_def and_then_ok split: if_splits option.splits)
  then show ?thesis using policy_from_dict_valid project_leaves_policy by blast
qed

interpretation project_codec: json_codec project_to_dict project_from_dict "\<lambda>p. policy_valid (pj_policy p)"
  by unfold_locales (rule project_round_trip project_from_dict_valid, assumption)+

lemma load_after_registry_save:
  assumes "list_all (\<lambda>p. policy_valid (pj_policy p)) ps"
  shows "registry_load (registry_save ps) = Inr ps"
proof -
  have "map_res project_from_dict (map project_to_dict ps) = Inr ps"
    using assms by (intro map_res_map project_codec.dec_enc) (simp add: list_all_iff)
  then show ?thesis by (simp add: registry_load_def registry_save_def is_dict_def field_def field_or_def tuple_of_def)
qed

lemma registry_load_valid: "registry_load f = Inr ps \<Longrightarrow> list_all (\<lambda>p. policy_valid (pj_policy p)) ps"
  by (auto simp: registry_load_def raise_def split: file_content.splits if_splits option.splits
      intro: map_res_all project_codec.dec_valid)

end
