(* ===== verification/SessionManager.thy ===== *)
theory SessionManager
  imports Project CanonicalJson
begin

section \<open>The life of a session (session_manager.py)\<close>

text \<open>
  The operations of \<open>SessionManager\<close> on the store of sessions: the appending of an event, the public
  \<open>transition\<close> and \<open>cancel\<close>, the internal \<open>_transition_locked\<close>, \<open>_mark_stale\<close> and
  \<open>_mark_retry_required\<close>, the start of a session up to its first plan, \<open>resume\<close> with its gates, the
  reconciliation with the canonical target, and what \<open>complete\<close>, \<open>audit_readonly\<close> and
  \<open>reconcile_external_result\<close> record. The locks make each one step. The readings of the clock (after
  the year 999), the fresh identifiers, the plan that the Director makes, and what the plan checks, the
  provider evidence and the delivery reconciliation find are arguments.
\<close>

abbreviation manager_error :: "string \<Rightarrow> 'a res" where
  "manager_error m \<equiv> raise SessionManagerError m"

text \<open>\<open>" ".join(goal.split())\<close>\<close>

definition py_words :: "string \<Rightarrow> string list" where
  "py_words s = filter (\<lambda>w. w \<noteq> []) (split_on (CHR '' '') (map (\<lambda>c. if py_space c then CHR '' '' else c) s))"

definition new_session :: "string \<Rightarrow> string \<Rightarrow> string \<Rightarrow> string \<Rightarrow> instant \<Rightarrow> instant \<Rightarrow> session" where
  "new_session i project goal base created updated = \<lparr>sn_session_id = i, sn_project_id = project,
     sn_goal = join_on (CHR '' '') (py_words goal), sn_created_at = show_time created, sn_updated_at = show_time updated,
     sn_base_sha = base, sn_current_stage = session_status_value Sess_PLANNING, sn_status = Sess_PLANNING,
     sn_plan_path = None, sn_execution_report_path = None, sn_review_report_path = None, sn_compliance_report_path = None,
     sn_delivery_report_path = None, sn_delivery_branch = None, sn_pr_url = None, sn_blocking_issues = [],
     sn_required_human_actions = [], sn_events = [], sn_attempts = [], sn_artifact_hashes = [], sn_schema_version = ''1.0''\<rparr>"

definition append_session_event ::
    "session_status option \<Rightarrow> session_status \<Rightarrow> string \<Rightarrow> string list \<Rightarrow> string list \<Rightarrow> string \<Rightarrow> string \<Rightarrow>
     instant \<Rightarrow> string \<Rightarrow> session \<Rightarrow> session" where
  "append_session_event from to summary refs issues actor op now uuid s =
     (let e = \<lparr>sv_event_id = ''event-'' @ uuid, sv_operation_id = op, sv_timestamp = show_time now,
          sv_session_id = sn_session_id s,
          sv_event_type = (case from of None \<Rightarrow> ''NONE'' | Some f \<Rightarrow> session_status_value f) @ ''_TO_'' @ session_status_value to,
          sv_from_status = map_option session_status_value from, sv_to_status = session_status_value to,
          sv_summary = take 500 summary, sv_evidence_refs = refs, sv_blocking_issues = issues, sv_actor = actor\<rparr>
      in s\<lparr>sn_events := sn_events s @ [e], sn_status := to, sn_current_stage := session_status_value to,
          sn_updated_at := show_time now, sn_blocking_issues := issues\<rparr>)"

definition manager_save :: "session \<Rightarrow> session_store \<Rightarrow> session res \<times> session_store" where
  "manager_save s st = (case session_save s st of
     (Inl e, u) \<Rightarrow> (Inl (if exc_kind e \<in> {OSError, SessionStoreError}
        then Exc SessionManagerError ''HUMAN_REQUIRED: transition persistence is uncertain'' else e), u)
   | (Inr _, u) \<Rightarrow> (Inr s, u))"

definition used_operation :: "string \<Rightarrow> session \<Rightarrow> bool" where
  "used_operation op s = list_ex (\<lambda>e. sv_operation_id e = op) (sn_events s)"

subsection \<open>Public transitions\<close>

record transition_request =
  tq_to_status :: session_status
  tq_summary :: string
  tq_actor :: string
  tq_evidence_refs :: "string list"
  tq_blocking_issues :: "string list"
  tq_operation_id :: "string option"

definition request_operation :: "transition_request \<Rightarrow> string" where
  "request_operation q = (case tq_operation_id q of
     Some op \<Rightarrow> if op = [] then ''transition:'' @ session_status_value (tq_to_status q) else op
   | None \<Rightarrow> ''transition:'' @ session_status_value (tq_to_status q))"

definition check_request :: "transition_request \<Rightarrow> unit res" where
  "check_request q = steps [
     raise_if (tq_actor q \<notin> set actor_values) SessionManagerError ''invalid event actor'',
     raise_if (tq_to_status q = Sess_NO_JUSTIFIED_WORK) SessionManagerError ''no-work disposition requires bound assessment evidence'',
     raise_if (tq_to_status q = Sess_COMPLETED) SessionManagerError ''completion requires verified Objective acceptance evidence'',
     raise_if (tq_to_status q = Sess_AUDITED) SessionManagerError ''audit disposition requires read-only evidence'']"

definition session_transition ::
    "string \<Rightarrow> transition_request \<Rightarrow> instant \<Rightarrow> string \<Rightarrow> session_store \<Rightarrow> session res \<times> session_store" where
  "session_transition i q now uuid st = (case check_request q of
     Inl e \<Rightarrow> (Inl e, st)
   | Inr _ \<Rightarrow> (case session_load i st of
       Inl e \<Rightarrow> (Inl e, st)
     | Inr s \<Rightarrow>
         if used_operation (request_operation q) s then (Inr s, st)
         else if sn_status s = tq_to_status q then (Inr s, st)
         else if tq_to_status q \<notin> set (session_targets (sn_status s))
         then (manager_error (''invalid session transition: '' @ session_status_value (sn_status s) @ '' -> '' @
           session_status_value (tq_to_status q)), st)
         else manager_save (append_session_event (Some (sn_status s)) (tq_to_status q)
             (if tq_summary q = [] then session_status_value (tq_to_status q) else tq_summary q)
             (tq_evidence_refs q) (tq_blocking_issues q) (tq_actor q) (request_operation q) now uuid s) st))"

definition session_cancel :: "string \<Rightarrow> string \<Rightarrow> instant \<Rightarrow> string \<Rightarrow> session_store \<Rightarrow> session res \<times> session_store" where
  "session_cancel i reason now uuid st = session_transition i \<lparr>tq_to_status = Sess_CANCELLED, tq_summary = reason,
     tq_actor = ''HUMAN'', tq_evidence_refs = [], tq_blocking_issues = [], tq_operation_id = Some (''cancel:'' @ i)\<rparr> now uuid st"

subsection \<open>Transitions of a session that is already loaded\<close>

definition transition_locked ::
    "session \<Rightarrow> session_status \<Rightarrow> string \<Rightarrow> string \<Rightarrow> string \<Rightarrow> instant \<Rightarrow> string \<Rightarrow> session_store \<Rightarrow> session res \<times> session_store" where
  "transition_locked s status summary actor op now uuid st =
     (if used_operation op s then (Inr s, st)
      else manager_save (append_session_event (Some (sn_status s)) status summary [] [] actor op now uuid s) st)"

definition mark_stale ::
    "session \<Rightarrow> string \<Rightarrow> string \<Rightarrow> instant \<Rightarrow> string \<Rightarrow> session_store \<Rightarrow> session res \<times> session_store" where
  "mark_stale s reason action now uuid st =
     (if used_operation (''stale:'' @ reason) s then (Inr s, st)
      else manager_save ((append_session_event (Some (sn_status s)) Sess_STALE reason [] [reason] ''SYSTEM''
          (''stale:'' @ reason) now uuid s)\<lparr>sn_required_human_actions := [action]\<rparr>) st)"

definition mark_retry_required ::
    "session \<Rightarrow> string \<Rightarrow> string \<Rightarrow> instant \<Rightarrow> string \<Rightarrow> session_store \<Rightarrow> session res \<times> session_store" where
  "mark_retry_required s reason evidence_ref now uuid st =
     (let key = (case map_of (sn_artifact_hashes s) ''provider_evidence'' of None \<Rightarrow> evidence_ref | Some h \<Rightarrow> h);
          op = ''retry-required:'' @ sn_session_id s @ '':'' @ key
      in if used_operation op s then (Inr s, st)
         else manager_save (append_session_event (Some (sn_status s)) Sess_RETRY_REQUIRED reason [evidence_ref] [reason]
             ''SYSTEM'' op now uuid s) st)"

subsection \<open>The start of a session\<close>

text \<open>\<open>json.dumps(..., sort_keys=True) + "\n"\<close> of strings, whose keys are given in their order\<close>

definition strings_text :: "(string \<times> string) list \<Rightarrow> string" where
  "strings_text kvs = ''{'' @ join_str '', '' (map (\<lambda>(k, v). dump_str_ascii k @ '': '' @ dump_str_ascii v) kvs) @ ''}'' @ [CHR 0x0A]"

definition commit_initial_plan ::
    "(string \<Rightarrow> string) \<Rightarrow> session \<Rightarrow> bool \<Rightarrow> string \<Rightarrow> string \<Rightarrow> instant \<Rightarrow> string \<Rightarrow> session_store \<Rightarrow>
     session res \<times> session_store" where
  "commit_initial_plan H s ready plan_path plan_hash now uuid st =
     (let status = (if ready then Sess_READY else Sess_HUMAN_REQUIRED);
          issues = (if ready then [] else [''generated plan requires human clarification'']);
          t = s\<lparr>sn_plan_path := Some plan_path, sn_blocking_issues := issues,
            sn_required_human_actions := (if ready then [] else [''clarify the goal'']),
            sn_artifact_hashes := dict_set ''plan'' plan_hash (sn_artifact_hashes s)\<rparr>;
          u = append_session_event (Some Sess_PLANNING) status ''session started and plan generated'' [plan_path] issues
            ''DIRECTOR'' ''session-start'' now uuid t;
          origin = strings_text [(''initial_plan_sha256'', plan_hash), (''project_id'', sn_project_id s),
            (''protocol'', ''governed-session/1''), (''schema_version'', ''1.0''), (''session_id'', sn_session_id s)]
      in case write_artifact H (sn_session_id s) ''planning-origin.json'' origin st of
          (Inl e, v) \<Rightarrow> (Inl e, v)
        | (Inr (_, origin_hash), v) \<Rightarrow>
            manager_save (u\<lparr>sn_artifact_hashes := dict_set ''planning_origin'' origin_hash (sn_artifact_hashes u)\<rparr>) v)"

text \<open>\<open>create\<close> is the Director's plan as text with whether it is ready, \<open>check\<close> the result of
  \<open>_verify_initial_worktree\<close>.\<close>

definition finish_initial_plan ::
    "(string \<Rightarrow> string) \<Rightarrow> (string \<times> bool) res \<Rightarrow> unit res \<Rightarrow> instant \<Rightarrow> string \<Rightarrow> session \<Rightarrow> session_store \<Rightarrow>
     session res \<times> session_store" where
  "finish_initial_plan H create check now uuid s st =
     (let attempts = (case map_of (sn_attempts s) ''initial_planning'' of None \<Rightarrow> 0 | Some n \<Rightarrow> n) in
      if attempts < 0 then (manager_error ''initial planning attempt history is invalid'', st)
      else if 2 \<le> attempts
      then manager_save (append_session_event (Some Sess_PLANNING) Sess_BLOCKED ''initial planning retry budget exhausted'' []
          [''initial planning retry budget exhausted''] ''SYSTEM'' ''initial-planning-exhausted'' now uuid s) st
      else (let t = s\<lparr>sn_attempts := dict_set ''initial_planning'' (attempts + 1) (sn_attempts s)\<rparr> in
        case manager_save t st of
          (Inl e, u) \<Rightarrow> (Inl e, u)
        | (Inr _, u) \<Rightarrow> (case create of
            Inl e \<Rightarrow> (Inl e, u)
          | Inr (content, ready) \<Rightarrow> (case check of
              Inl e \<Rightarrow> (Inl e, u)
            | Inr _ \<Rightarrow> (let candidate = H content; previous = map_of (sn_artifact_hashes t) ''initial_plan_candidate'' in
                if previous \<noteq> None \<and> previous \<noteq> Some candidate
                then (manager_error ''initial planning candidate changed during recovery'', u)
                else (let v = t\<lparr>sn_artifact_hashes := dict_set ''initial_plan_candidate'' candidate (sn_artifact_hashes t)\<rparr> in
                  case manager_save v u of
                    (Inl e, w) \<Rightarrow> (Inl e, w)
                  | (Inr _, w) \<Rightarrow> (case write_artifact H (sn_session_id v) ''plan.json'' content w of
                      (Inl e, x) \<Rightarrow> (Inl e, x)
                    | (Inr (plan_path, plan_hash), x) \<Rightarrow> commit_initial_plan H v ready plan_path plan_hash now uuid x)))))))"

text \<open>\<open>start\<close>: the clock is read at the verification, twice for the session, and for its event;
  \<open>prints\<close> are the two fingerprints of a dirty worktree.\<close>

definition start_session ::
    "(string \<Rightarrow> string) \<Rightarrow> host \<Rightarrow> (string \<Rightarrow> remote_info res) \<Rightarrow> string \<Rightarrow> string \<Rightarrow> string \<Rightarrow> string \<times> string \<Rightarrow>
     (string \<times> bool) res \<Rightarrow> unit res \<Rightarrow> (nat \<Rightarrow> instant) \<Rightarrow> string \<Rightarrow> file_content \<Rightarrow> session_store \<Rightarrow>
     session res \<times> file_content \<times> session_store" where
  "start_session H hs pru name goal nonce prints create check now uuid f st =
     (case project_get name f of
        Inl e \<Rightarrow> (Inl e, f, st)
      | Inr p0 \<Rightarrow> (case registry_verify hs pru (pj_project_id p0) True (now 0) f of
          (Inl e, g) \<Rightarrow> (Inl e, g, st)
        | (Inr p, g) \<Rightarrow>
          if pj_status p \<noteq> Proj_ACTIVE then (manager_error ''project verification failed; inspect stale reason'', g, st)
          else (case hs_git hs (pj_repository_root p) [''status'', ''--porcelain''] of
              Inl e \<Rightarrow> (Inl e, g, st)
            | Inr changes \<Rightarrow>
              if changes \<noteq> [] \<and> \<not> pp_allow_dirty_planning (pj_policy p)
              then (manager_error ''project is dirty and policy disallows dirty planning'', g, st)
              else (let i = ''session-'' @ take 20 (H (pj_project_id p @ '':'' @ goal @ '':'' @ pj_current_head_sha p @ '':'' @ nonce));
                  s = new_session i (pj_project_id p) goal (pj_current_head_sha p) (now 1) (now 2);
                  recorded = (if changes = [] then (Inr s, st)
                    else if fst prints \<noteq> snd prints then (manager_error ''worktree changed while recording planning state'', st)
                    else (case write_artifact H i ''initial-planning-worktree.json'' (strings_text [(''sha256'', fst prints)]) st of
                        (Inl e, u) \<Rightarrow> (Inl e, u)
                      | (Inr (_, digest), u) \<Rightarrow> (Inr (s\<lparr>sn_artifact_hashes := [(''initial_planning_worktree'', digest)]\<rparr>), u)))
                in case recorded of
                    (Inl e, u) \<Rightarrow> (Inl e, g, u)
                  | (Inr t, u) \<Rightarrow> (case manager_save t u of
                      (Inl e, v) \<Rightarrow> (Inl e, g, v)
                    | (Inr _, v) \<Rightarrow> (case finish_initial_plan H create check (now 3) uuid t v of (r, w) \<Rightarrow> (r, g, w)))))))"

end
