(* ===== verification/SessionRecovery.thy ===== *)
theory SessionRecovery
  imports SessionManager
begin

section \<open>Resuming, reconciling and closing a session (session_manager.py)\<close>

text \<open>
  \<open>resume\<close> with all of its gates, the reconciliation with the canonical target, and what
  \<open>bind_objective_plan\<close>, \<open>complete\<close>, \<open>audit_readonly\<close> and \<open>reconcile_external_result\<close> record in
  the session. What the collaborators of \<open>resume\<close> find is the record \<open>resume_view\<close>: a component
  that may also write is a function on the store.
\<close>

subsection \<open>Reconciliation with the canonical target\<close>

definition historical :: "(string \<times> string) list \<Rightarrow> (string \<times> string) list" where
  "historical hs = map (\<lambda>(k, h). (''historical:'' @ k, h)) hs"

text \<open>\<open>{**new, **old}\<close>\<close>

definition dict_merge :: "('k \<times> 'v) list \<Rightarrow> ('k \<times> 'v) list \<Rightarrow> ('k \<times> 'v) list" where
  "dict_merge new old = fold (\<lambda>(k, v) d. dict_set k v d) old new"

definition reconcile_target ::
    "host \<Rightarrow> session \<Rightarrow> project \<Rightarrow> instant \<Rightarrow> string \<Rightarrow> session_store \<Rightarrow> session res \<times> session_store" where
  "reconcile_target hs s p now uuid st =
     (let root = pj_repository_root p;
          issues = sn_blocking_issues s; actions = sn_required_human_actions s;
          target_drift = (issues \<noteq> [] \<and> list_all (starts_with ''base SHA drifted:'') issues);
          drift_actions = (actions \<noteq> [] \<and> list_all (\<lambda>a. contains_text ''drift'' (py_lower a)) actions) in
      if pj_status p \<noteq> Proj_ACTIVE then (manager_error ''project registration is not ACTIVE'', st)
      else (case hs_git hs root [''branch'', ''--show-current''] of Inl e \<Rightarrow> (Inl e, st) | Inr branch \<Rightarrow>
      if branch \<noteq> pj_default_branch p then (manager_error ''project is not on its canonical branch'', st)
      else (case hs_git hs root [''status'', ''--porcelain''] of Inl e \<Rightarrow> (Inl e, st) | Inr changes \<Rightarrow>
      if changes \<noteq> [] then (manager_error ''canonical target repository is dirty'', st)
      else (case hs_git hs root [''rev-parse'', ''HEAD''] of Inl e \<Rightarrow> (Inl e, st) | Inr head \<Rightarrow>
      if head \<noteq> pj_current_head_sha p then (manager_error ''canonical target verification is inconsistent'', st)
      else if sn_base_sha s = head then (Inr s, st)
      else if sn_status s \<noteq> Sess_BLOCKED \<and> sn_status s \<noteq> Sess_STALE \<and> sn_status s \<noteq> Sess_RETRY_REQUIRED
      then (manager_error ''session state is not recoverable by target reconciliation'', st)
      else if actions \<noteq> [] \<and> \<not> (target_drift \<and> drift_actions)
      then (manager_error ''session has unresolved human-required actions'', st)
      else if issues \<noteq> [] \<and> \<not> target_drift then (manager_error ''session has unresolved blocking issues'', st)
      else manager_save (append_session_event (Some (sn_status s)) Sess_READY
          ''canonical target reconciled; historical checkpoint retired; no delivery provenance asserted'' [] []
          ''SYSTEM'' (''canonical-target-reconcile:'' @ head) now uuid
          (s\<lparr>sn_base_sha := head, sn_current_stage := ''REASSESSMENT'', sn_status := Sess_READY, sn_plan_path := None,
            sn_execution_report_path := None, sn_review_report_path := None, sn_compliance_report_path := None,
            sn_delivery_report_path := None, sn_delivery_branch := None, sn_pr_url := None, sn_blocking_issues := [],
            sn_required_human_actions := [],
            sn_artifact_hashes := dict_merge [(''canonical_target'', head)] (historical (sn_artifact_hashes s))\<rparr>)) st))))"

definition reconcile_canonical_target ::
    "host \<Rightarrow> (string \<Rightarrow> remote_info res) \<Rightarrow> string \<Rightarrow> (nat \<Rightarrow> instant) \<Rightarrow> string \<Rightarrow> file_content \<Rightarrow> session_store \<Rightarrow>
     session res \<times> file_content \<times> session_store" where
  "reconcile_canonical_target hs pru i now uuid f st = (case session_load i st of
     Inl e \<Rightarrow> (Inl e, f, st)
   | Inr s \<Rightarrow>
     if sn_status s \<in> set session_terminal then (manager_error ''terminal session cannot reconcile a target'', f, st)
     else (case project_get (sn_project_id s) f of
         Inl e \<Rightarrow> (Inl e, f, st)
       | Inr _ \<Rightarrow> (case registry_verify hs pru (sn_project_id s) True (now 0) f of
           (Inl e, g) \<Rightarrow> (Inl e, g, st)
         | (Inr p, g) \<Rightarrow> (case reconcile_target hs s p (now 1) uuid st of (r, u) \<Rightarrow> (r, g, u)))))"

subsection \<open>Records of other outcomes\<close>

text \<open>The end of \<open>bind_objective_plan\<close>, given the artifact of the projected plan\<close>

definition record_objective_plan ::
    "session \<Rightarrow> string \<Rightarrow> string \<Rightarrow> string \<Rightarrow> string \<Rightarrow> instant \<Rightarrow> string \<Rightarrow> session_store \<Rightarrow> session res \<times> session_store" where
  "record_objective_plan s new_path digest component approved now uuid st =
     (case map_of (sn_artifact_hashes s) ''plan'' of
        None \<Rightarrow> (raise KeyError ''plan'', st)
      | Some old \<Rightarrow>
        (let t = s\<lparr>sn_plan_path := Some new_path, sn_artifact_hashes := dict_set ''objective_binding'' component
             (dict_set ''plan'' digest (dict_set ''predecessor_plan'' old (sn_artifact_hashes s)))\<rparr>
         in manager_save (append_session_event (Some (sn_status t)) (sn_status t)
             ''first executable plan bound to authenticated Objective'' [new_path] (sn_blocking_issues t) ''DIRECTOR''
             (''objective-plan:'' @ approved) now uuid t) st))"

text \<open>The end of \<open>complete\<close>, given the verdict, its evidence hash and the artifact of the report\<close>

definition record_completion ::
    "session \<Rightarrow> bool \<Rightarrow> string \<Rightarrow> string \<Rightarrow> string \<Rightarrow> instant \<Rightarrow> string \<Rightarrow> session_store \<Rightarrow> session res \<times> session_store" where
  "record_completion s success evidence path digest now uuid st =
     (if sn_status s = Sess_COMPLETED then (Inr s, st)
      else if used_operation (''completion:'' @ evidence) s then (Inr s, st)
      else (let t = s\<lparr>sn_artifact_hashes :=
            dict_set (if success then ''completion'' else ''completion_attempt'') digest (sn_artifact_hashes s)\<rparr>
        in manager_save (append_session_event (Some (sn_status t)) (if success then Sess_COMPLETED else sn_status t)
            (if success then ''Objective acceptance verified'' else ''Objective acceptance pending'') [path]
            (sn_blocking_issues t) ''DIRECTOR'' (''completion:'' @ evidence) now uuid t) st))"

text \<open>The end of \<open>audit_readonly\<close> on a session that is not audited yet, given the report it has written\<close>

definition record_audit ::
    "session \<Rightarrow> string \<Rightarrow> string \<Rightarrow> string \<Rightarrow> instant \<Rightarrow> string \<Rightarrow> session_store \<Rightarrow> session res \<times> session_store" where
  "record_audit s path digest report_sha now uuid st =
     (if sn_status s \<noteq> Sess_READY \<and> sn_status s \<noteq> Sess_BLOCKED
      then (manager_error ''read-only audit requires a READY or BLOCKED session'', st)
      else if \<not> contains_text ''audit'' (map ascii_lower (sn_goal s))
      then (manager_error ''read-only audit needs an explicitly stated audit goal'', st)
      else (let t = s\<lparr>sn_artifact_hashes := dict_set ''read_only_audit'' digest (sn_artifact_hashes s)\<rparr> in
        manager_save (append_session_event (Some (sn_status s)) Sess_AUDITED
          ''static read-only audit recorded, not an approved execution'' [path] [] ''REVIEWER''
          (''audit-readonly:'' @ report_sha) now uuid t) st))"

text \<open>The end of \<open>reconcile_external_result\<close>, given the accepted result and where it is stored\<close>

definition record_external_result ::
    "session \<Rightarrow> string \<Rightarrow> string \<Rightarrow> string \<Rightarrow> string \<Rightarrow> instant \<Rightarrow> string \<Rightarrow> session_store \<Rightarrow> session res \<times> session_store" where
  "record_external_result s target_sha acceptance_id stored path now uuid st =
     manager_save (append_session_event (Some (sn_status s)) Sess_READY
       ''external result accepted; original action was not AGF-authorized'' [path] [] ''RELEASE_MANAGER''
       (''external-result-acceptance:'' @ acceptance_id) now uuid
       (s\<lparr>sn_base_sha := target_sha, sn_current_stage := ''REASSESSMENT'', sn_status := Sess_READY,
         sn_blocking_issues := [], sn_required_human_actions := [],
         sn_artifact_hashes := dict_merge [(''external_result_acceptance'', stored)] (historical (sn_artifact_hashes s))\<rparr>)) st"

subsection \<open>\<open>resume\<close>\<close>

text \<open>
  \<open>rv_delivery\<close>, \<open>rv_recovered\<close> and \<open>rv_repair\<close> are \<open>_reconcile_verified_delivery\<close>,
  \<open>_recover_initial_plan\<close> and \<open>_repair_reconciled_lineage_binding\<close>; \<open>rv_snapshot\<close> says whether the
  recorded dirty worktree is still there; \<open>rv_create\<close> and \<open>rv_check\<close> are as for a start;
  \<open>rv_plan_check\<close> is what the two validations of the plan raise; \<open>rv_delivered\<close> whether the plan's
  scope names a delivered task, \<open>None\<close> if it cannot be read; \<open>rv_acceptance\<close> the component and plan
  hashes of the Objective, \<open>rv_plan_content\<close> the plan's content hash; \<open>rv_evidence\<close> the path of the
  provider evidence, \<open>rv_fresh\<close> whether it is bound to this session; \<open>rv_authority\<close> the resolution
  of the project's authority.
\<close>

record resume_view =
  rv_delivery :: "session \<Rightarrow> session_store \<Rightarrow> session option res \<times> session_store"
  rv_snapshot :: bool
  rv_recovered :: "session \<Rightarrow> session_store \<Rightarrow> session option res \<times> session_store"
  rv_create :: "(string \<times> bool) res"
  rv_check :: "unit res"
  rv_plan_check :: "unit res"
  rv_repair :: "session \<Rightarrow> session_store \<Rightarrow> session option res \<times> session_store"
  rv_delivered :: "bool option res"
  rv_acceptance :: "(string \<times> string) res"
  rv_plan_content :: "string res"
  rv_evidence :: "string res"
  rv_fresh :: bool
  rv_authority :: "unit res"

text \<open>\<open>x or y\<close> of a component that may find nothing\<close>

definition found_or :: "session option res \<times> session_store \<Rightarrow> (session_store \<Rightarrow> session res \<times> session_store) \<Rightarrow> session res \<times> session_store" where
  "found_or r k = (case r of (Inl e, u) \<Rightarrow> (Inl e, u) | (Inr (Some t), u) \<Rightarrow> (Inr t, u) | (Inr None, u) \<Rightarrow> k u)"

text \<open>The branch of a session whose first plan was interrupted\<close>

definition resume_planning ::
    "(string \<Rightarrow> string) \<Rightarrow> host \<Rightarrow> resume_view \<Rightarrow> session \<Rightarrow> project \<Rightarrow> instant \<Rightarrow> string \<Rightarrow> session_store \<Rightarrow> session res \<times> session_store" where
  "resume_planning H hs v s p now uuid st =
     (if \<not> fst ` set (sn_artifact_hashes s) \<subseteq> {''initial_planning_worktree'', ''initial_plan_candidate''} \<or>
         sn_events s \<noteq> [] \<or> pj_current_head_sha p \<noteq> sn_base_sha s
      then mark_stale s ''initial planning state is inconsistent'' ''inspect session evidence'' now uuid st
      else (case hs_git hs (pj_repository_root p) [''status'', ''--porcelain''] of
          Inl e \<Rightarrow> (Inl e, st)
        | Inr changes \<Rightarrow>
            if \<not> (if map_of (sn_artifact_hashes s) ''initial_planning_worktree'' \<noteq> None
              then pp_allow_dirty_planning (pj_policy p) \<and> changes \<noteq> [] \<and> rv_snapshot v else changes = [])
            then mark_stale s ''worktree changed during initial planning'' ''restore the original state'' now uuid st
            else found_or (rv_recovered v s st) (finish_initial_plan H (rv_create v) (rv_check v) now uuid s)))"

text \<open>The end, once the plan and its lineage hold\<close>

definition resume_ready ::
    "resume_view \<Rightarrow> session \<Rightarrow> project \<Rightarrow> bool \<Rightarrow> bool \<Rightarrow> instant \<Rightarrow> string \<Rightarrow> session_store \<Rightarrow> session res \<times> session_store" where
  "resume_ready v s p execute confirm now uuid st =
     (if sn_status s = Sess_READY \<and> execute
      then (if \<not> pp_allow_live_execution (pj_policy p)
        then (manager_error ''execution is not authorized by project policy'', st)
        else if confirm \<and> \<not> pp_allow_delivery (pj_policy p)
        then (manager_error ''delivery is not authorized by project policy'', st)
        else (case rv_authority v of
            Inl e \<Rightarrow> (Inl (if exc_kind e \<in> {AuthorityContextError, ConstitutionVerificationError}
              then Exc SessionManagerError (exc_msg e) else e), st)
          | Inr _ \<Rightarrow> transition_locked s Sess_EXECUTING ''execution authorization checkpoint; pipeline stage not executed''
              ''HUMAN'' (''resume-execution:'' @ sn_session_id s) now uuid st))
      else (Inr s, st))"

text \<open>The branches on the Objective and on the provider evidence of a ready session\<close>

definition resume_evidence ::
    "resume_view \<Rightarrow> session \<Rightarrow> project \<Rightarrow> bool \<Rightarrow> bool \<Rightarrow> instant \<Rightarrow> string \<Rightarrow> session_store \<Rightarrow> session res \<times> session_store" where
  "resume_evidence v s p execute confirm now uuid st =
     (let provider = (\<lambda>u. if sn_status s = Sess_READY \<and> map_of (sn_artifact_hashes s) ''provider_evidence'' \<noteq> None
        then (case rv_evidence v of
            Inl e \<Rightarrow> (Inl e, u)
          | Inr path \<Rightarrow> if rv_fresh v then resume_ready v s p execute confirm now uuid u
              else mark_retry_required s ''historical provider observation cannot authorize recovery; fresh retry required''
                path now uuid u)
        else resume_ready v s p execute confirm now uuid u)
      in case map_of (sn_artifact_hashes s) ''objective_binding'' of
          Some binding \<Rightarrow>
            if sn_status s = Sess_READY
            then (case rv_acceptance v of
                Inl e \<Rightarrow> (Inl e, st)
              | Inr (component, approved) \<Rightarrow> (case rv_plan_content v of
                  Inl e \<Rightarrow> (Inl e, st)
                | Inr content \<Rightarrow> if component = binding \<and> content = approved then (Inr s, st) else provider st))
            else provider st
        | None \<Rightarrow> provider st)"

definition resume_locked ::
    "(string \<Rightarrow> string) \<Rightarrow> host \<Rightarrow> (string \<Rightarrow> remote_info res) \<Rightarrow> resume_view \<Rightarrow> session \<Rightarrow> project \<Rightarrow> bool \<Rightarrow> bool \<Rightarrow>
     instant \<Rightarrow> string \<Rightarrow> session_store \<Rightarrow> session res \<times> session_store" where
  "resume_locked H hs pru v s p execute confirm now uuid st =
     (let root = pj_repository_root p;
          observed = and_then (hs_git hs root [''config'', ''--get'', ''remote.origin.url'']) (\<lambda>url.
            and_then (registry_remote pru url) (\<lambda>origin.
            and_then (hs_git hs root [''rev-parse'', ''HEAD'']) (\<lambda>head.
            and_then (hs_git hs root [''branch'', ''--show-current'']) (\<lambda>branch. Inr (rem_identity origin, head, branch)))))
      in if pj_status p \<noteq> Proj_ACTIVE
         then mark_stale s (''project status is '' @ project_status_value (pj_status p))
           ''restore project policy and identity through an explicit human action'' now uuid st
         else (case observed of
           Inl e \<Rightarrow> if exc_kind e = ProjectRegistryError then mark_stale s (exc_msg e) ''repair repository identity'' now uuid st
             else (Inl e, st)
         | Inr (origin, head, branch) \<Rightarrow> (case registry_remote pru (pj_origin_url p) of
           Inl e \<Rightarrow> (Inl e, st)
         | Inr registered \<Rightarrow>
           if origin \<noteq> rem_identity registered \<or> branch \<noteq> pj_default_branch p
           then mark_stale s ''repository origin or branch changed'' ''restore the registered repository identity'' now uuid st
           else if head \<noteq> sn_base_sha s
           then found_or (rv_delivery v s st) (mark_stale s (''base SHA drifted: expected '' @ sn_base_sha s @ '', found '' @ head)
             ''review the drift and start a new session if appropriate'' now uuid)
           else if sn_status s = Sess_PLANNING \<and> (sn_plan_path s = None \<or> sn_plan_path s = Some [])
           then resume_planning H hs v s p now uuid st
           else (case rv_plan_check v of
             Inl e \<Rightarrow> if exc_kind e = SessionManagerError
               then found_or (rv_repair v s st) (mark_stale s (exc_msg e) ''inspect or restore session evidence'' now uuid)
               else (Inl e, st)
           | Inr _ \<Rightarrow>
             if sn_plan_path s = None \<or> sn_plan_path s = Some [] then resume_evidence v s p execute confirm now uuid st
             else (case rv_delivered v of
               Inl e \<Rightarrow> (Inl e, st)
             | Inr None \<Rightarrow> mark_stale s ''reconciled plan is unreadable'' ''restore session evidence'' now uuid st
             | Inr (Some True) \<Rightarrow> (Inr s, st)
             | Inr (Some False) \<Rightarrow> resume_evidence v s p execute confirm now uuid st)))))"

definition resume_session ::
    "(string \<Rightarrow> string) \<Rightarrow> host \<Rightarrow> (string \<Rightarrow> remote_info res) \<Rightarrow> resume_view \<Rightarrow> string \<Rightarrow> string option \<Rightarrow> bool \<Rightarrow> bool \<Rightarrow> bool \<Rightarrow>
     instant \<Rightarrow> string \<Rightarrow> file_content \<Rightarrow> session_store \<Rightarrow> session res \<times> session_store" where
  "resume_session H hs pru v i project_name execute confirm_execution confirm_delivery now uuid f st =
     (if confirm_execution \<and> \<not> execute then (manager_error ''--confirm-execution requires --execute'', st)
      else if confirm_delivery \<and> \<not> execute then (manager_error ''--confirm-delivery requires --execute'', st)
      else if confirm_delivery \<and> \<not> confirm_execution
      then (manager_error ''--confirm-delivery requires --confirm-execution'', st)
      else (case session_load i st of
        Inl e \<Rightarrow> (Inl e, st)
      | Inr s \<Rightarrow>
        if sn_status s \<in> set session_terminal then (manager_error ''terminal session cannot resume'', st)
        else (case project_get (sn_project_id s) f of
          Inl e \<Rightarrow> (Inl e, st)
        | Inr p \<Rightarrow>
          if project_name \<noteq> None \<and> project_name \<noteq> Some (pj_name p) \<and> project_name \<noteq> Some (pj_project_id p)
          then (manager_error ''selected project does not match session project'', st)
          else resume_locked H hs pru v s p execute confirm_delivery now uuid st)))"

end
