(* ===== verification/ProjectSafety.thy ===== *)
theory ProjectSafety
  imports Project
begin

section \<open>What the project registry keeps\<close>

text \<open>
  Runs of the registry's operations on its document, each with a host, a clock and a session store of
  its own: the registered projects keep identities, names and directories of their own. Then what a
  removal checks, and two places where the registry does not do what it means to.
\<close>

definition identity :: "project \<Rightarrow> string \<times> string \<times> string" where
  "identity p = (pj_project_id p, pj_name p, pj_repository_root p)"

definition separate :: "(string \<times> string \<times> string) list \<Rightarrow> bool" where
  "separate ks = (distinct (map fst ks) \<and> distinct (map (fst \<circ> snd) ks) \<and>
     sorted_wrt (\<lambda>a b. \<not> nested (snd (snd a)) (snd (snd b))) ks)"

definition projects_ok :: "project list \<Rightarrow> bool" where
  "projects_ok ps = (separate (map identity ps) \<and> list_all (\<lambda>p. policy_valid (pj_policy p)) ps)"

definition registry_file_ok :: "file_content \<Rightarrow> bool" where
  "registry_file_ok f = (case registry_load f of Inl _ \<Rightarrow> False | Inr ps \<Rightarrow> projects_ok ps)"

datatype registry_op =
    Reg_Add string string "project_policy option" "(string \<times> json) list" bool
  | Reg_Verify string bool
  | Reg_Set string project_status
  | Reg_Remove string session_store

text \<open>A step with the host and the time it finds\<close>

fun registry_step :: "(string \<Rightarrow> string) \<Rightarrow> (string \<Rightarrow> remote_info res) \<Rightarrow> string \<Rightarrow>
    host \<times> instant \<times> registry_op \<Rightarrow> file_content \<Rightarrow> file_content" where
  "registry_step H pru d (hs, now, Reg_Add n r p m a) f = snd (registry_add H hs pru d n r p m a now f)"
| "registry_step H pru d (hs, now, Reg_Verify n persist) f = snd (registry_verify hs pru n persist now f)"
| "registry_step H pru d (hs, now, Reg_Set n st) f = snd (registry_set_status n st f)"
| "registry_step H pru d (hs, now, Reg_Remove n st) f = snd (registry_remove n st f)"

fun proper_policy :: "registry_op \<Rightarrow> bool" where
  "proper_policy (Reg_Add n r (Some p) m a) = policy_valid p"
| "proper_policy _ = True"

subsection \<open>Preservation\<close>

lemma registry_ok_saved: "projects_ok ps \<Longrightarrow> registry_file_ok (registry_save ps)"
  by (simp add: registry_file_ok_def load_after_registry_save projects_ok_def)

lemma registry_file_okE:
  assumes "registry_file_ok f"
  obtains ps where "registry_load f = Inr ps" "projects_ok ps"
  using assms by (auto simp: registry_file_ok_def split: sum.splits)

lemma identity_replaced:
  assumes "distinct (map pj_project_id ps)" and "p \<in> set ps" and "identity q = identity p"
  shows "map identity (replaced q ps) = map identity ps"
proof -
  have "identity x = identity q" if "x \<in> set ps" "pj_project_id x = pj_project_id q" for x
    using assms that by (auto simp: identity_def distinct_map inj_on_def)
  then show ?thesis by (simp add: replaced_def)
qed

lemma projects_ok_ids: "projects_ok ps \<Longrightarrow> distinct (map pj_project_id ps)"
  by (simp add: projects_ok_def separate_def identity_def comp_def)

lemma registry_ok_replaced:
  assumes "projects_ok ps" and "p \<in> set ps" and "identity q = identity p" and "policy_valid (pj_policy q)"
  shows "projects_ok (replaced q ps)"
proof -
  have "list_all (\<lambda>p. policy_valid (pj_policy p)) (replaced q ps)"
    using assms(1,4) by (auto simp: projects_ok_def list_all_iff replaced_def)
  then show ?thesis
    using assms(1) identity_replaced [OF projects_ok_ids [OF assms(1)] assms(2,3)] by (simp add: projects_ok_def)
qed

lemma single_case: "(case xs of [y] \<Rightarrow> Inr y | _ \<Rightarrow> raise c m) = Inr x \<longleftrightarrow> xs = [x]"
  by (simp add: raise_def split: list.splits)

lemma project_getD:
  assumes "project_get n f = Inr p"
  obtains ps where "registry_load f = Inr ps" "p \<in> set ps" "pj_name p = n \<or> pj_project_id p = n"
proof -
  from assms obtain ps where l: "registry_load f = Inr ps"
    and "filter (\<lambda>p. pj_name p = n \<or> pj_project_id p = n) ps = [p]"
    by (auto simp: project_get_def and_then_ok single_case)
  then have "p \<in> set (filter (\<lambda>p. pj_name p = n \<or> pj_project_id p = n) ps)" by simp
  with l show ?thesis using that by auto
qed

lemma registry_put_ok:
  assumes "registry_file_ok f" and "project_get n f = Inr p" and "identity q = identity p" and "pj_policy q = pj_policy p"
  shows "registry_file_ok (snd (registry_put q persist f))"
proof -
  obtain ps where l: "registry_load f = Inr ps" and p: "p \<in> set ps" using project_getD [OF assms(2)] by blast
  with assms(1) have ok: "projects_ok ps" by (simp add: registry_file_ok_def)
  have "policy_valid (pj_policy p)" using ok p by (auto simp: projects_ok_def list_all_iff)
  with registry_ok_replaced [OF ok p assms(3)] assms(4) have "registry_file_ok (registry_save (replaced q ps))"
    by (simp add: registry_ok_saved)
  with assms(1) l show ?thesis by (simp add: registry_put_def)
qed

lemma registry_mark_ok:
  assumes "registry_file_ok f" and "project_get n f = Inr p"
  shows "registry_file_ok (snd (registry_mark p st r at h persist now f))"
  using assms by (auto simp: registry_mark_def identity_def intro: registry_put_ok split: sum.splits)

lemma registry_verify_ok: "registry_file_ok f \<Longrightarrow> registry_file_ok (snd (registry_verify hs pru n persist now f))"
  by (auto simp: registry_verify_def verify_loaded_def Let_def intro: registry_mark_ok split: sum.splits)

lemma registry_add_stores:
  assumes "registry_add H hs pru d n r pol m a now f = (Inr p, g)"
  obtains ps where "registry_load f = Inr ps" "g = registry_save (ps @ [p])" "pj_name p = n" "pj_status p = Proj_ACTIVE"
    "\<forall>q\<in>set ps. \<not> nested (pj_repository_root q) (pj_repository_root p) \<and> pj_name q \<noteq> n \<and> pj_project_id q \<noteq> pj_project_id p"
    "pj_policy p = (case pol of None \<Rightarrow> default_policy | Some x \<Rightarrow> x)"
  using assms
  by (auto simp: registry_add_def Let_def raise_def for_each_ok check_existing_def list_ex_iff split: sum.splits prod.splits if_splits)

lemma registry_add_fails: "registry_add H hs pru d n r pol m a now f = (Inl e, g) \<Longrightarrow> g = f"
  by (auto simp: registry_add_def Let_def split: sum.splits prod.splits if_splits)

lemma registry_add_ok:
  assumes "registry_file_ok f" and "proper_policy (Reg_Add n r pol m a)"
  shows "registry_file_ok (snd (registry_add H hs pru d n r pol m a now f))"
proof (cases "registry_add H hs pru d n r pol m a now f")
  case (Pair res g)
  show ?thesis
  proof (cases res)
    case (Inl e)
    then show ?thesis using Pair registry_add_fails assms(1) by fastforce
  next
    case (Inr p)
    from Inr Pair have "registry_add H hs pru d n r pol m a now f = (Inr p, g)" by simp
    then obtain ps where ps: "registry_load f = Inr ps" "g = registry_save (ps @ [p])" "pj_name p = n"
      "\<forall>q\<in>set ps. \<not> nested (pj_repository_root q) (pj_repository_root p) \<and> pj_name q \<noteq> n \<and> pj_project_id q \<noteq> pj_project_id p"
      "pj_policy p = (case pol of None \<Rightarrow> default_policy | Some x \<Rightarrow> x)" by (rule registry_add_stores)
    have "policy_valid (pj_policy p)" using assms(2) ps(5) by (cases pol) (simp_all add: policy_valid_def default_policy_def)
    moreover have "projects_ok ps" using assms(1) ps(1) by (simp add: registry_file_ok_def)
    ultimately have "projects_ok (ps @ [p])" using ps(3,4)
      by (auto simp: projects_ok_def separate_def identity_def sorted_wrt_append)
    then show ?thesis using Pair ps(2) by (simp add: registry_ok_saved)
  qed
qed

lemma registry_ok_filter: "projects_ok ps \<Longrightarrow> projects_ok (filter P ps)"
  by (auto simp: projects_ok_def separate_def list_all_iff sorted_wrt_map comp_def distinct_map_filter intro: sorted_wrt_filter)

lemma registry_removeD:
  assumes "registry_remove n st f = (r, g)"
  shows "g = f \<or> (\<exists>ps P. registry_load f = Inr ps \<and> g = registry_save (filter P ps))"
  using assms by (auto simp: registry_remove_def Let_def split: sum.splits if_splits)

lemma registry_remove_ok:
  assumes "registry_file_ok f"
  shows "registry_file_ok (snd (registry_remove n st f))"
proof -
  obtain ps where ps: "registry_load f = Inr ps" "projects_ok ps" using assms by (rule registry_file_okE)
  from registry_removeD [of n st f "fst (registry_remove n st f)" "snd (registry_remove n st f)"] show ?thesis
    using assms ps registry_ok_saved [OF registry_ok_filter [OF ps(2)]] by auto
qed

lemma registry_step_ok:
  assumes "registry_file_ok f" and "proper_policy op"
  shows "registry_file_ok (registry_step H pru d (hs, now, op) f)"
proof (cases op)
  case (Reg_Set n st)
  then show ?thesis using assms
    by (auto simp: registry_set_status_def identity_def intro: registry_put_ok split: sum.splits)
qed (use assms in \<open>simp_all add: registry_add_ok registry_verify_ok registry_remove_ok\<close>)

subsection \<open>Properties\<close>

definition registry_run :: "(string \<Rightarrow> string) \<Rightarrow> (string \<Rightarrow> remote_info res) \<Rightarrow> string \<Rightarrow>
    (host \<times> instant \<times> registry_op) list \<Rightarrow> file_content \<Rightarrow> file_content" where
  "registry_run H pru d ops f = fold (registry_step H pru d) ops f"

lemma registry_run_ok:
  "registry_file_ok f \<Longrightarrow> list_all (\<lambda>(_, _, op). proper_policy op) ops \<Longrightarrow> registry_file_ok (registry_run H pru d ops f)"
proof (induction ops arbitrary: f)
  case (Cons x ops)
  obtain hs now op where x: "x = (hs, now, op)" by (cases x) auto
  with Cons.prems have "registry_file_ok (registry_step H pru d x f)" by (auto intro: registry_step_ok)
  with Cons x show ?case by (simp add: registry_run_def)
qed (simp add: registry_run_def)

lemma registry_okD:
  assumes "projects_ok ps"
  shows "distinct (map pj_project_id ps)" "distinct (map pj_name ps)"
    "i < j \<Longrightarrow> j < length ps \<Longrightarrow> \<not> nested (pj_repository_root (ps ! i)) (pj_repository_root (ps ! j))"
  using assms by (simp_all add: projects_ok_def separate_def identity_def comp_def sorted_wrt_iff_nth_less)

text \<open>C17. Whatever operations a registry that starts empty goes through, on whatever hosts, its document can
  be read, no two projects share an identity or a name, and no project's directory is another's or lies
  inside it.
\<close>

theorem projects_history_safe:
  assumes "list_all (\<lambda>(_, _, op). proper_policy op) ops"
  shows "\<exists>ps. registry_load (registry_run H (parse_remote_url ok uri) d ops No_File) = Inr ps \<and>
    distinct (map pj_project_id ps) \<and> distinct (map pj_name ps) \<and>
    (\<forall>j < length ps. \<forall>i < j. \<not> nested (pj_repository_root (ps ! i)) (pj_repository_root (ps ! j)))"
proof -
  have "registry_file_ok No_File" by (simp add: registry_file_ok_def registry_load_def projects_ok_def separate_def)
  from registry_run_ok [OF this assms] obtain ps
    where "registry_load (registry_run H (parse_remote_url ok uri) d ops No_File) = Inr ps" "projects_ok ps"
    by (rule registry_file_okE)
  with registry_okD [of ps] show ?thesis by blast
qed

text \<open>A project is removed exactly when it is the one selected, the sessions can be read and all of this
  project's are over; then the document is the old one without it.
\<close>

theorem remove_correct:
  "registry_remove n st f = (Inr (), g) \<longleftrightarrow>
   (\<exists>p ps ss. project_get n f = Inr p \<and> registry_load f = Inr ps \<and> session_list st = Inr ss \<and>
     list_all (\<lambda>s. sn_project_id s \<noteq> pj_project_id p \<or> sn_status s \<in> set session_terminal) ss \<and>
     g = registry_save (filter (\<lambda>q. pj_project_id q \<noteq> pj_project_id p) ps))"
proof (cases "project_get n f")
  case (Inr p)
  then obtain ps where ps: "registry_load f = Inr ps" by (rule project_getD)
  have none: "filter (\<lambda>s. sn_project_id s = pj_project_id p \<and> sn_status s \<notin> set session_terminal) ss = [] \<longleftrightarrow>
      list_all (\<lambda>s. sn_project_id s \<noteq> pj_project_id p \<or> sn_status s \<in> set session_terminal) ss" for ss
    by (auto simp: filter_empty_conv list_all_iff)
  show ?thesis by (cases "session_list st") (auto simp: registry_remove_def Inr ps Let_def none raise_def split: if_splits)
qed (simp add: registry_remove_def)

lemma filter_singleD: "filter P xs = [x] \<Longrightarrow> x \<in> set xs"
  by (auto simp: filter_eq_Cons_iff)

lemma get_after_save:
  assumes "projects_ok ps"
  shows "project_get n (registry_save ps) = (case filter (\<lambda>p. pj_name p = n \<or> pj_project_id p = n) ps of
    [p] \<Rightarrow> Inr p | _ \<Rightarrow> registry_error ''project selection is missing or ambiguous'')"
  using assms by (simp add: project_get_def load_after_registry_save projects_ok_def)

lemma filter_replaced:
  assumes "projects_ok ps" and "filter (\<lambda>p. pj_name p = n \<or> pj_project_id p = n) ps = [p]" and "identity q = identity p"
  shows "filter (\<lambda>p. pj_name p = n \<or> pj_project_id p = n) (replaced q ps) = [q]"
proof -
  have p: "p \<in> set ps" using assms(2) by (rule filter_singleD)
  have same: "x = p" if "x \<in> set ps" "pj_project_id x = pj_project_id q" for x
    using projects_ok_ids [OF assms(1)] p assms(3) that by (auto simp: identity_def distinct_map inj_on_def)
  have r: "replaced q ps = map (\<lambda>x. if x = p then q else x) ps"
    using same assms(3) by (auto simp: replaced_def identity_def)
  have f: "pj_name (if x = p then q else x) = pj_name x" "pj_project_id (if x = p then q else x) = pj_project_id x" for x
    using assms(3) by (simp_all add: identity_def)
  show ?thesis unfolding r filter_map comp_def f assms(2) by simp
qed

lemma get_after_put:
  assumes "registry_file_ok f" and "project_get n f = Inr p" and "identity q = identity p" and "pj_policy q = pj_policy p"
  shows "project_get n (snd (registry_put q True f)) = Inr q \<and> registry_file_ok (snd (registry_put q True f)) \<and>
    fst (registry_put q True f) = Inr q"
proof -
  from assms(2) obtain ps where ps: "registry_load f = Inr ps" and one: "filter (\<lambda>p. pj_name p = n \<or> pj_project_id p = n) ps = [p]"
    by (auto simp: project_get_def and_then_ok single_case)
  have ok: "projects_ok ps" using assms(1) ps by (simp add: registry_file_ok_def)
  have p: "p \<in> set ps" using one by (rule filter_singleD)
  have "policy_valid (pj_policy q)" using ok p assms(4) by (auto simp: projects_ok_def list_all_iff)
  from registry_ok_replaced [OF ok p assms(3) this] filter_replaced [OF ok one assms(3)] show ?thesis
    by (simp add: registry_put_def ps get_after_save registry_ok_saved)
qed

text \<open>The repository has the registered identity, whatever spelling of its remote, is on the registered branch and has some head.\<close>

definition healthy :: "host \<Rightarrow> (string \<Rightarrow> remote_info res) \<Rightarrow> project \<Rightarrow> bool" where
  "healthy hs pru p = ((\<exists>origin i. hs_git hs (pj_repository_root p) [''config'', ''--get'', ''remote.origin.url''] = Inr origin \<and>
       registry_canonical pru origin = Inr i \<and> registry_canonical pru (pj_origin_url p) = Inr i) \<and>
     (\<exists>head. hs_git hs (pj_repository_root p) [''rev-parse'', ''HEAD''] = Inr head) \<and>
     hs_git hs (pj_repository_root p) [''branch'', ''--show-current''] = Inr (pj_default_branch p) \<and> pj_default_branch p \<noteq> [])"

text \<open>The history of verifications is a list, as every verification leaves it, or there is none yet.\<close>

definition history_is_list :: "project \<Rightarrow> bool" where
  "history_is_list p = (case map_of (pj_metadata p) ''verification_history'' of None \<Rightarrow> True | Some v \<Rightarrow> the_list v \<noteq> None)"

lemma mark_succeeds: "history_is_list p \<Longrightarrow> \<exists>m. mark_metadata p reason at head now = Inr m"
  by (auto simp: history_is_list_def mark_metadata_def tuple_of_def the_list_def Let_def update_conv split: option.splits json.splits)

lemma get_after_mark:
  assumes "registry_file_ok g" and "project_get n g = Inr p" and "history_is_list p"
  shows "\<exists>q h. registry_mark p status reason at head True now g = (Inr q, h) \<and> pj_status q = status \<and> project_get n h = Inr q"
proof -
  obtain m where m: "mark_metadata p reason at head now = Inr m" using mark_succeeds [OF assms(3)] by blast
  have "\<exists>q. registry_mark p status reason at head True now g = registry_put q True g \<and> identity q = identity p \<and> pj_policy q = pj_policy p \<and> pj_status q = status"
    unfolding registry_mark_def m sum.case by (intro exI conjI) (rule refl, simp_all add: identity_def)
  then show ?thesis using get_after_put [OF assms(1,2)] by (metis prod.collapse)
qed

text \<open>A project that the owner has disabled is active again after a verification that finds its
  repository in order, and stored as such: \<open>verify\<close>, with which \<open>start\<close> begins, does not look at the status.
\<close>

theorem verify_revives_disabled:
  assumes "registry_file_ok f" and "registry_set_status n Proj_DISABLED f = (Inr p, g)" and "healthy hs (parse_remote_url ok uri) p"
    and "history_is_list p"
  shows "pj_status p = Proj_DISABLED \<and> project_get n g = Inr p \<and>
    (\<exists>q h. registry_verify hs (parse_remote_url ok uri) n True now g = (Inr q, h) \<and>
      pj_status q = Proj_ACTIVE \<and> project_get n h = Inr q)"
proof -
  from assms(2) obtain p0 where p0: "project_get n f = Inr p0" "registry_put (p0\<lparr>pj_status := Proj_DISABLED\<rparr>) True f = (Inr p, g)"
    by (auto simp: registry_set_status_def split: sum.splits)
  have "identity (p0\<lparr>pj_status := Proj_DISABLED\<rparr>) = identity p0" by (simp add: identity_def)
  from get_after_put [OF assms(1) p0(1) this] p0(2)
  have g: "project_get n g = Inr p" "registry_file_ok g" and p: "p = p0\<lparr>pj_status := Proj_DISABLED\<rparr>" by auto
  have "\<exists>reason at head. registry_verify hs (parse_remote_url ok uri) n True now g = registry_mark p Proj_ACTIVE reason at head True now g"
    using assms(3) g(1) by (auto simp: registry_verify_def verify_loaded_def healthy_def Let_def) blast+
  then show ?thesis using get_after_mark [OF g(2,1) assms(4)] g(1) p by fastforce
qed

text \<open>A project may be added under a name that is the identity of another; from then on, the identity
  selects neither, and every operation on the other project's sessions, which is selected so, is refused.
\<close>

theorem shadowed_project_unreachable:
  assumes "registry_file_ok f" and "project_get n f = Inr q"
    and "registry_add H hs (parse_remote_url ok uri) d (pj_project_id q) r pol m a now f = (Inr p, g)"
    and "proper_policy (Reg_Add (pj_project_id q) r pol m a)"
  shows "project_get (pj_project_id q) g = registry_error ''project selection is missing or ambiguous''"
proof -
  let ?P = "\<lambda>x. pj_name x = pj_project_id q \<or> pj_project_id x = pj_project_id q"
  from assms(3) obtain ps where ps: "registry_load f = Inr ps" "g = registry_save (ps @ [p])" "pj_name p = pj_project_id q"
    by (rule registry_add_stores)
  obtain ps' where "registry_load f = Inr ps'" "q \<in> set ps'" using assms(2) by (rule project_getD)
  with ps(1) have q: "q \<in> set ps" by simp
  have "registry_file_ok g" using registry_add_ok [OF assms(1,4)] assms(3) by (metis snd_conv)
  then obtain ps'' where "registry_load g = Inr ps''" "projects_ok ps''" by (rule registry_file_okE)
  have "list_all (\<lambda>p. policy_valid (pj_policy p)) ps" using assms(1) ps(1) by (simp add: registry_file_ok_def projects_ok_def)
  moreover have "policy_valid (pj_policy p)"
    using assms(3,4) by (rule_tac registry_add_stores [OF assms(3)]) (auto simp: policy_valid_def default_policy_def split: option.splits)
  ultimately have l: "registry_load g = Inr (ps @ [p])" by (simp add: ps(2) load_after_registry_save)
  have "q \<in> set (filter ?P ps)" using q by simp
  then have "filter ?P ps \<noteq> []" by (metis empty_iff empty_set)
  then have "\<exists>x y ys. filter ?P (ps @ [p]) = x # y # ys"
  proof (cases "filter ?P ps")
    case (Cons x xs)
    then show ?thesis using ps(3) by (cases xs) simp_all
  qed simp
  then show ?thesis by (auto simp: project_get_def l)
qed

subsection \<open>Concrete registries\<close>

definition sample_host :: host where
  "sample_host = \<lparr>hs_expanduser = (\<lambda>p. p), hs_is_symlink = (\<lambda>p. False), hs_resolve_strict = Inr, hs_resolve = (\<lambda>p. p),
     hs_git = (\<lambda>root args.
       if args = [''rev-parse'', ''--show-toplevel''] then Inr root
       else if args = [''branch'', ''--show-current''] then Inr ''main''
       else if args = [''config'', ''--get'', ''remote.origin.url''] then Inr (''https://github.com'' @ root)
       else Inr ''c0ffee'')\<rparr>"

definition sample_project :: project where
  "sample_project = \<lparr>pj_project_id = ''project-1'', pj_name = ''alpha'', pj_repository_root = ''/repo/alpha'',
     pj_origin_url = ''https://github.com/repo/alpha'', pj_default_branch = ''main'', pj_current_head_sha = ''c0ffee'',
     pj_registered_at = [], pj_verified_at = [], pj_status = Proj_ACTIVE, pj_policy = default_policy, pj_metadata = []\<rparr>"

lemma sample_registry: "registry_load (registry_save [sample_project]) = Inr [sample_project]"
  by (rule load_after_registry_save) (simp add: sample_project_def default_policy_def policy_valid_def)

lemma sample_registry_ok: "registry_file_ok (registry_save [sample_project])"
  by (rule registry_ok_saved)
    (simp add: projects_ok_def separate_def identity_def sample_project_def default_policy_def policy_valid_def)

lemma projects_history_safe_witness:
  "\<exists>ps. registry_load (registry_run id (parse_remote_url (\<lambda>_. True) id) ''/state''
      [(sample_host, [2024, 1, 1, 0, 0, 0], Reg_Add ''alpha'' ''/repo/alpha'' None [] False),
       (sample_host, [2024, 1, 1, 0, 0, 0], Reg_Set ''alpha'' Proj_DISABLED)] No_File) = Inr ps \<and>
    distinct (map pj_project_id ps)"
  using projects_history_safe [of "[(sample_host, [2024, 1, 1, 0, 0, 0], Reg_Add ''alpha'' ''/repo/alpha'' None [] False),
       (sample_host, [2024, 1, 1, 0, 0, 0], Reg_Set ''alpha'' Proj_DISABLED)]" id "\<lambda>_. True" id "''/state''"]
  by auto

lemma remove_correct_witness:
  "registry_remove ''alpha'' sample_artifacts (registry_save [sample_project]) = (Inr (), registry_save [])"
  by (subst remove_correct, intro exI [of _ sample_project] exI [of _ "[sample_project]"] exI [of _ "[] :: session list"])
    (simp add: project_get_def sample_registry session_list_def sample_artifacts_def, simp add: sample_project_def)

lemma sample_remote:
  "registry_canonical (parse_remote_url (\<lambda>_. True) id) ''https://github.com/repo/alpha'' = Inr ''github.com/repo/alpha''"
  by code_simp

lemma verify_revives_disabled_witness:
  "\<exists>p g q h. registry_set_status ''alpha'' Proj_DISABLED (registry_save [sample_project]) = (Inr p, g) \<and>
    pj_status p = Proj_DISABLED \<and>
    registry_verify sample_host (parse_remote_url (\<lambda>_. True) id) ''alpha'' True [2024, 1, 1, 0, 0, 0] g = (Inr q, h) \<and>
    pj_status q = Proj_ACTIVE"
proof -
  let ?p = "sample_project\<lparr>pj_status := Proj_DISABLED\<rparr>"
  have s: "registry_set_status ''alpha'' Proj_DISABLED (registry_save [sample_project]) = (Inr ?p, registry_save [?p])"
    by (simp add: registry_set_status_def project_get_def sample_registry registry_put_def replaced_def)
      (simp add: sample_project_def)
  have h: "healthy sample_host (parse_remote_url (\<lambda>_. True) id) ?p"
    using sample_remote by (simp add: healthy_def sample_host_def sample_project_def)
  have m: "history_is_list ?p" by (simp add: history_is_list_def sample_project_def)
  show ?thesis using verify_revives_disabled [OF sample_registry_ok s h m] s by blast
qed

lemma shadowed_project_unreachable_witness:
  "project_get ''project-1'' (snd (registry_add id sample_host (parse_remote_url (\<lambda>_. True) id) ''/state'' ''project-1''
      ''/repo/beta'' None [] False [2024, 1, 1, 0, 0, 0] (registry_save [sample_project])))
    = registry_error ''project selection is missing or ambiguous''"
proof -
  have g: "project_get ''project-1'' (registry_save [sample_project]) = Inr sample_project"
    by (simp add: project_get_def sample_registry) (simp add: sample_project_def)
  have "is_ok (fst (registry_add id sample_host (parse_remote_url (\<lambda>_. True) id) ''/state'' (pj_project_id sample_project)
      ''/repo/beta'' None [] False [2024, 1, 1, 0, 0, 0] (registry_save [sample_project])))"
    by code_simp
  then obtain p f where a: "registry_add id sample_host (parse_remote_url (\<lambda>_. True) id) ''/state'' (pj_project_id sample_project)
      ''/repo/beta'' None [] False [2024, 1, 1, 0, 0, 0] (registry_save [sample_project]) = (Inr p, f)"
    unfolding is_ok_iff by (metis prod.collapse)
  have "project_get (pj_project_id sample_project) f = registry_error ''project selection is missing or ambiguous''"
    by (rule shadowed_project_unreachable [OF sample_registry_ok _ a]) (use g in \<open>simp_all add: sample_project_def\<close>)
  with a show ?thesis by (simp add: sample_project_def)
qed

end
