(* ===== verification/SessionSafety.thy ===== *)
theory SessionSafety
  imports SessionRecovery ProjectSafety
begin

section \<open>When a session may execute\<close>

text \<open>
  The gates of \<open>resume\<close> as one condition, and the effect of the public transitions on the store.
\<close>

fun executing :: "session res \<times> session_store \<Rightarrow> bool" where
  "executing (Inr t, u) = (sn_status t = Sess_EXECUTING)"
| "executing (Inl e, u) = False"

lemma executing_prod: "executing r \<longleftrightarrow> (\<exists>t. fst r = Inr t \<and> sn_status t = Sess_EXECUTING)"
  by (cases r; cases "fst r") auto

lemma manager_save_fst: "fst (manager_save s st) = Inr t \<Longrightarrow> t = s"
  by (auto simp: manager_save_def split: prod.splits sum.splits)

lemma manager_save_ok: "\<not> session_id_invalid (sn_session_id s) \<Longrightarrow>
    manager_save s st = (Inr s, st\<lparr>st_sessions := dict_set (sn_session_id s) (Json (session_to_dict s)) (st_sessions st)\<rparr>)"
  by (simp add: manager_save_def session_save_def)

lemma append_event_status [simp]: "sn_status (append_session_event from to sm refs issues actor op now uuid s) = to"
  by (simp add: append_session_event_def Let_def)

lemma append_event_id [simp]: "sn_session_id (append_session_event from to sm refs issues actor op now uuid s) = sn_session_id s"
  by (simp add: append_session_event_def Let_def)

lemma executing_save: "executing (manager_save s st) \<longleftrightarrow> \<not> session_id_invalid (sn_session_id s) \<and> sn_status s = Sess_EXECUTING"
  by (simp add: manager_save_def session_save_def raise_def)

lemma not_executing_stale: "sn_status s \<noteq> Sess_EXECUTING \<Longrightarrow> \<not> executing (mark_stale s r a now uuid st)"
  by (simp add: mark_stale_def executing_save)

lemma not_executing_retry: "sn_status s \<noteq> Sess_EXECUTING \<Longrightarrow> \<not> executing (mark_retry_required s r a now uuid st)"
  by (simp add: mark_retry_required_def Let_def executing_save)

lemma not_executing_commit: "\<not> executing (commit_initial_plan H s ready p h now uuid st)"
  by (auto simp: commit_initial_plan_def Let_def executing_save split: prod.splits sum.splits)

lemma not_executing_initial: "\<not> executing (finish_initial_plan H create check now uuid s st)"
  by (auto simp: finish_initial_plan_def Let_def executing_save not_executing_commit raise_def split: prod.splits sum.splits)

lemma not_executing_found_or:
  "(\<And>t u. r = (Inr (Some t), u) \<Longrightarrow> sn_status t \<noteq> Sess_EXECUTING) \<Longrightarrow> (\<And>u. \<not> executing (k u)) \<Longrightarrow> \<not> executing (found_or r k)"
  by (auto simp: found_or_def split: prod.splits sum.splits option.splits)

text \<open>The components of \<open>resume\<close> that may return a session of their own do not start an execution.\<close>

definition passive_view :: "resume_view \<Rightarrow> bool" where
  "passive_view v = (\<forall>s st t u. (rv_delivery v s st = (Inr (Some t), u) \<or> rv_recovered v s st = (Inr (Some t), u) \<or>
     rv_repair v s st = (Inr (Some t), u)) \<longrightarrow> sn_status t \<noteq> Sess_EXECUTING)"

lemma not_executing_planning:
  assumes "passive_view v" and "sn_status s \<noteq> Sess_EXECUTING"
  shows "\<not> executing (resume_planning H hs v s p now uuid st)"
proof -
  have "\<not> executing (found_or (rv_recovered v s st) (finish_initial_plan H (rv_create v) (rv_check v) now uuid s))"
    by (rule not_executing_found_or) (use assms(1) in \<open>auto simp: passive_view_def not_executing_initial\<close>)
  then show ?thesis using assms(2) by (simp add: resume_planning_def not_executing_stale split: sum.splits)
qed

definition execution_gates :: "resume_view \<Rightarrow> session \<Rightarrow> project \<Rightarrow> bool \<Rightarrow> bool" where
  "execution_gates v s p confirm = (pp_allow_live_execution (pj_policy p) \<and> (confirm \<longrightarrow> pp_allow_delivery (pj_policy p)) \<and>
     rv_authority v = Inr () \<and> \<not> used_operation (''resume-execution:'' @ sn_session_id s) s)"

lemma executing_ready:
  assumes "sn_status s = Sess_READY" and "\<not> session_id_invalid (sn_session_id s)"
  shows "executing (resume_ready v s p execute confirm now uuid st) \<longleftrightarrow> execute \<and> execution_gates v s p confirm"
  using assms by (auto simp: resume_ready_def execution_gates_def transition_locked_def executing_save raise_def split: sum.splits)

lemma not_executing_ready: "sn_status s \<noteq> Sess_EXECUTING \<Longrightarrow> sn_status s \<noteq> Sess_READY \<Longrightarrow>
    \<not> executing (resume_ready v s p execute confirm now uuid st)"
  by (simp add: resume_ready_def)

text \<open>The session is not bound to the Objective that is in force, and its provider evidence is its own.\<close>

definition evidence_gates :: "resume_view \<Rightarrow> session \<Rightarrow> bool" where
  "evidence_gates v s = ((case map_of (sn_artifact_hashes s) ''objective_binding'' of None \<Rightarrow> True
       | Some binding \<Rightarrow> (case (rv_acceptance v, rv_plan_content v) of
           (Inr (component, approved), Inr content) \<Rightarrow> component \<noteq> binding \<or> content \<noteq> approved | _ \<Rightarrow> False)) \<and>
     (map_of (sn_artifact_hashes s) ''provider_evidence'' = None \<or> is_ok (rv_evidence v) \<and> rv_fresh v))"

lemma executing_evidence:
  assumes "sn_status s = Sess_READY" and "\<not> session_id_invalid (sn_session_id s)"
  shows "executing (resume_evidence v s p execute confirm now uuid st) \<longleftrightarrow> evidence_gates v s \<and> execute \<and> execution_gates v s p confirm"
  using assms
  by (auto simp: resume_evidence_def Let_def evidence_gates_def executing_ready not_executing_retry is_ok_def
      split: option.splits sum.splits prod.splits)

lemma not_executing_evidence: "sn_status s \<noteq> Sess_EXECUTING \<Longrightarrow> sn_status s \<noteq> Sess_READY \<Longrightarrow>
    \<not> executing (resume_evidence v s p execute confirm now uuid st)"
  by (auto simp: resume_evidence_def Let_def not_executing_ready split: option.splits sum.splits prod.splits)

text \<open>The repository is the registered one, at the session's commit, and the plan and its lineage hold.\<close>

definition repository_gates ::
    "host \<Rightarrow> (string \<Rightarrow> remote_info res) \<Rightarrow> resume_view \<Rightarrow> session \<Rightarrow> project \<Rightarrow> bool" where
  "repository_gates hs pru v s p = (pj_status p = Proj_ACTIVE \<and>
     (case hs_git hs (pj_repository_root p) [''config'', ''--get'', ''remote.origin.url''] of Inl _ \<Rightarrow> False
      | Inr url \<Rightarrow> registry_canonical pru url = registry_canonical pru (pj_origin_url p) \<and> is_ok (registry_canonical pru url)) \<and>
     hs_git hs (pj_repository_root p) [''rev-parse'', ''HEAD''] = Inr (sn_base_sha s) \<and>
     hs_git hs (pj_repository_root p) [''branch'', ''--show-current''] = Inr (pj_default_branch p) \<and>
     rv_plan_check v = Inr () \<and>
     (sn_plan_path s = None \<or> sn_plan_path s = Some [] \<or> rv_delivered v = Inr (Some False)))"

lemma executing_locked:
  assumes "passive_view v" and "sn_status s \<noteq> Sess_EXECUTING" and "\<not> session_id_invalid (sn_session_id s)"
  shows "executing (resume_locked H hs pru v s p execute confirm now uuid st) \<longleftrightarrow>
    sn_status s = Sess_READY \<and> repository_gates hs pru v s p \<and> evidence_gates v s \<and> execute \<and> execution_gates v s p confirm"
proof -
  let ?root = "pj_repository_root p"
  note stale = not_executing_stale [OF assms(2)]
  have delivery: "\<not> executing (found_or (rv_delivery v s st) (mark_stale s r a now uuid))" for r a
    by (rule not_executing_found_or) (use assms(1) stale in \<open>auto simp: passive_view_def\<close>)
  have repair: "\<not> executing (found_or (rv_repair v s st) (mark_stale s r a now uuid))" for r a
    by (rule not_executing_found_or) (use assms(1) stale in \<open>auto simp: passive_view_def\<close>)
  have ev: "executing (resume_evidence v s p execute confirm now uuid st) \<longleftrightarrow>
      sn_status s = Sess_READY \<and> evidence_gates v s \<and> execute \<and> execution_gates v s p confirm"
    using executing_evidence [OF _ assms(3)] not_executing_evidence [OF assms(2)] by blast
  note pl = not_executing_planning [OF assms(1,2)]
  show ?thesis
  proof (cases "pj_status p = Proj_ACTIVE")
    case active: True
    show ?thesis
    proof (cases "hs_git hs ?root [''config'', ''--get'', ''remote.origin.url'']")
      case url: (Inr url)
      show ?thesis
      proof (cases "registry_remote pru url")
        case origin: (Inr origin)
        show ?thesis
        proof (cases "hs_git hs ?root [''rev-parse'', ''HEAD'']")
          case head: (Inr head)
          show ?thesis
          proof (cases "hs_git hs ?root [''branch'', ''--show-current'']")
            case branch: (Inr branch)
            show ?thesis
              by (auto simp: resume_locked_def Let_def repository_gates_def active url origin head branch registry_canonical_def
                  stale delivery repair ev pl is_ok_def assms(2) split: sum.splits option.splits bool.splits)
          qed (simp add: resume_locked_def Let_def repository_gates_def active url origin head stale)
        qed (simp add: resume_locked_def Let_def repository_gates_def active url origin stale)
      qed (simp add: resume_locked_def Let_def repository_gates_def active url stale registry_canonical_def)
    qed (simp add: resume_locked_def Let_def repository_gates_def active stale)
  qed (simp add: resume_locked_def Let_def repository_gates_def stale)
qed

text \<open>C10. \<open>resume\<close> puts a session that is not executing into execution exactly when execution is asked for
  (and a delivery, if asked for, with both confirmations), the session is ready, its project is the one
  named and active, the repository is the registered one on its branch at the session's commit, the plan
  with its lineage holds, the provider evidence is fresh, the session is not bound to the Objective that is
  in force with its approved plan (such a session is returned as it is), policy and authority allow it, and
  the operation of its execution was not used before. The confirmation of the execution itself is not
  among the conditions. The recoveries of deliveries, plans and lineage that \<open>resume\<close> calls are arguments, of
  which it is assumed that they do not return an executing session.
\<close>

theorem resume_executes_iff:
  assumes "passive_view v" and "session_load i st = Inr s" and "sn_status s \<noteq> Sess_EXECUTING" and "\<not> session_id_invalid (sn_session_id s)"
  shows "executing (resume_session H hs (parse_remote_url ok uri) v i name execute confirm_execution confirm_delivery now uuid f st) \<longleftrightarrow>
    execute \<and> (confirm_delivery \<longrightarrow> confirm_execution) \<and> sn_status s = Sess_READY \<and>
    (case project_get (sn_project_id s) f of Inl _ \<Rightarrow> False
     | Inr p \<Rightarrow> (name = None \<or> name = Some (pj_name p) \<or> name = Some (pj_project_id p)) \<and>
         repository_gates hs (parse_remote_url ok uri) v s p \<and> evidence_gates v s \<and> execution_gates v s p confirm_delivery)"
proof -
  have t: "Sess_READY \<notin> set session_terminal" by (simp add: session_terminal_def)
  show ?thesis
    using executing_locked [OF assms(1,3,4)] t
    by (auto simp: resume_session_def assms(2) raise_def split: sum.splits)
qed

subsection \<open>Public transitions\<close>

text \<open>What an accepted request appends\<close>

definition requested :: "transition_request \<Rightarrow> instant \<Rightarrow> string \<Rightarrow> session \<Rightarrow> session" where
  "requested q now uuid s = append_session_event (Some (sn_status s)) (tq_to_status q)
     (if tq_summary q = [] then session_status_value (tq_to_status q) else tq_summary q)
     (tq_evidence_refs q) (tq_blocking_issues q) (tq_actor q) (request_operation q) now uuid s"

text \<open>A public transition changes a stored session exactly when its actor is known, the target is neither
  a completion nor an audit nor the absence of work, the operation is new, the status differs and the
  table permits it; then the stored session is the old one with the event, and every other session is as
  before. A repeated operation or the present status returns the session as it is; all else is an error,
  and the store stays as it is.
\<close>

theorem transition_correct:
  assumes "session_load i st = Inr s" and "sn_session_id s = i" and "sn_schema_version s = ''1.0''"
    and "session_transition i q now uuid st = (r, u)"
  shows "(if check_request q = Inr () \<and> \<not> used_operation (request_operation q) s \<and> sn_status s \<noteq> tq_to_status q \<and>
        tq_to_status q \<in> set (session_targets (sn_status s))
      then r = Inr (requested q now uuid s) \<and> session_load i u = r
      else u = st \<and> (r = Inr s \<longleftrightarrow> check_request q = Inr () \<and>
        (used_operation (request_operation q) s \<or> sn_status s = tq_to_status q))) \<and>
    (\<forall>j. j \<noteq> i \<longrightarrow> session_load j u = session_load j st)"
proof (cases "check_request q = Inr () \<and> \<not> used_operation (request_operation q) s \<and> sn_status s \<noteq> tq_to_status q \<and>
    tq_to_status q \<in> set (session_targets (sn_status s))")
  case True
  have valid: "\<not> session_id_invalid i" using assms(1) by (auto simp: session_load_def raise_def)
  let ?t = "requested q now uuid s"
  have id: "sn_session_id ?t = i" using assms(2) by (simp add: requested_def)
  have version: "sn_schema_version ?t = ''1.0''" using assms(3) by (simp add: requested_def append_session_event_def Let_def)
  have "(r, u) = manager_save ?t st" using assms(1,4) True by (simp add: session_transition_def requested_def)
  then have ru: "r = Inr ?t" "session_save ?t st = (Inr (), u)" using valid id by (simp_all add: manager_save_ok session_save_def)
  have "session_load i u = Inr ?t" using load_after_save [OF version ru(2)] id by simp
  moreover have "session_load j u = session_load j st" if "j \<noteq> i" for j
    using load_other_after_save [of j ?t st] that id ru(2) by simp
  ultimately show ?thesis using True ru(1) by simp
next
  case False
  show ?thesis
  proof (cases "check_request q")
    case (Inl e)
    then show ?thesis using assms(4) by (auto simp: session_transition_def)
  next
    case (Inr x)
    then show ?thesis using assms(1,4) False by (auto simp: session_transition_def raise_def split: if_splits)
  qed
qed

text \<open>A session that was stale for some reason and has been made ready again is not made stale for the
  same reason a second time: \<open>resume\<close> finds the project inactive and returns the session, ready.
\<close>

theorem stale_reason_once:
  assumes "session_load i st = Inr s" and "sn_status s = Sess_READY" and "project_get (sn_project_id s) f = Inr p"
    and "pj_status p = Proj_DISABLED" and "used_operation ''stale:project status is DISABLED'' s"
  shows "resume_session H hs (parse_remote_url ok uri) v i None execute False False now uuid f st = (Inr s, st)"
  using assms by (simp add: resume_session_def session_terminal_def resume_locked_def mark_stale_def)

subsection \<open>Concrete sessions\<close>

definition event_of :: "string \<Rightarrow> session_status \<Rightarrow> session_status \<Rightarrow> session_event" where
  "event_of op from to = \<lparr>sv_event_id = ''event-1'', sv_operation_id = op, sv_timestamp = ''2024-01-01T00:00:00Z'',
     sv_session_id = ''session-1'', sv_event_type = session_status_value from @ ''_TO_'' @ session_status_value to,
     sv_from_status = Some (session_status_value from), sv_to_status = session_status_value to, sv_summary = ''done'',
     sv_evidence_refs = [], sv_blocking_issues = [], sv_actor = ''SYSTEM''\<rparr>"

definition ready_session :: "session_event list \<Rightarrow> session" where
  "ready_session es = (new_session ''session-1'' ''project-1'' ''Fix the links'' ''c0ffee'' [2024, 1, 1, 0, 0, 0] [2024, 1, 1, 0, 0, 0])
     \<lparr>sn_status := Sess_READY, sn_plan_path := Some ''/state/artifacts/session-1/plan.json'',
      sn_events := event_of ''session-start'' Sess_PLANNING Sess_READY # es\<rparr>"

definition store_of :: "session \<Rightarrow> session_store" where
  "store_of s = \<lparr>st_state_dir = ''/state'', st_sessions = [(sn_session_id s, Json (session_to_dict s))], st_artifacts = []\<rparr>"

definition quiet_view :: resume_view where
  "quiet_view = \<lparr>rv_delivery = (\<lambda>s st. (Inr None, st)), rv_snapshot = True, rv_recovered = (\<lambda>s st. (Inr None, st)),
     rv_create = Inr (''{}'', True), rv_check = Inr (), rv_plan_check = Inr (), rv_repair = (\<lambda>s st. (Inr None, st)),
     rv_delivered = Inr (Some False), rv_acceptance = Inr ([], []), rv_plan_content = Inr [], rv_evidence = Inr [],
     rv_fresh = True, rv_authority = Inr ()\<rparr>"

lemma store_of_load:
  "sn_schema_version s = ''1.0'' \<Longrightarrow> \<not> session_id_invalid (sn_session_id s) \<Longrightarrow> session_load (sn_session_id s) (store_of s) = Inr s"
  by (simp add: session_load_def store_of_def session_codec.dec_enc)

lemma ready_session_simps:
  "sn_session_id (ready_session es) = ''session-1''" "sn_schema_version (ready_session es) = ''1.0''"
  "sn_status (ready_session es) = Sess_READY" "sn_project_id (ready_session es) = ''project-1''"
  "sn_artifact_hashes (ready_session es) = []" "sn_base_sha (ready_session es) = ''c0ffee''"
  "sn_plan_path (ready_session es) = Some ''/state/artifacts/session-1/plan.json''"
  "sn_events (ready_session es) = event_of ''session-start'' Sess_PLANNING Sess_READY # es"
  by (simp_all add: ready_session_def new_session_def)

lemma session_1_valid: "\<not> session_id_invalid ''session-1''"
  by (simp add: session_id_invalid_def)

lemma ready_session_load: "session_load ''session-1'' (store_of (ready_session es)) = Inr (ready_session es)"
  using store_of_load [of "ready_session es"] by (simp add: ready_session_simps session_1_valid)

definition live_project :: project where
  "live_project = sample_project\<lparr>pj_policy := default_policy\<lparr>pp_allow_live_execution := True\<rparr>\<rparr>"

lemma live_registry: "project_get ''project-1'' (registry_save [live_project]) = Inr live_project"
proof -
  have "registry_load (registry_save [live_project]) = Inr [live_project]"
    by (rule load_after_registry_save) (simp add: live_project_def default_policy_def policy_valid_def)
  then show ?thesis by (simp add: project_get_def) (simp add: live_project_def sample_project_def)
qed

lemma resume_executes_iff_witness:
  "executing (resume_session id sample_host (parse_remote_url (\<lambda>_. True) id) quiet_view ''session-1'' None True False False
     [2024, 1, 1, 0, 0, 0] ''1'' (registry_save [live_project]) (store_of (ready_session [])))"
proof -
  have v: "passive_view quiet_view" by (simp add: passive_view_def quiet_view_def)
  have r: "repository_gates sample_host (parse_remote_url (\<lambda>_. True) id) quiet_view (ready_session []) live_project"
    using sample_remote
    by (simp add: repository_gates_def quiet_view_def ready_session_simps sample_host_def live_project_def sample_project_def)
  have e: "evidence_gates quiet_view (ready_session [])" "execution_gates quiet_view (ready_session []) live_project False"
    by (simp_all add: evidence_gates_def execution_gates_def quiet_view_def ready_session_simps live_project_def
        used_operation_def event_of_def)
  show ?thesis
    using resume_executes_iff [OF v ready_session_load, of "[]" id sample_host "\<lambda>_. True" id None True False False
        "[2024, 1, 1, 0, 0, 0]" "''1''" "registry_save [live_project]"] r e
    by (simp add: ready_session_simps session_1_valid live_registry)
qed

lemma transition_correct_witness:
  "fst (session_transition ''session-1'' \<lparr>tq_to_status = Sess_BLOCKED, tq_summary = ''stop'', tq_actor = ''HUMAN'',
      tq_evidence_refs = [], tq_blocking_issues = [], tq_operation_id = None\<rparr> [2024, 1, 1, 0, 0, 0] ''1''
      (store_of (ready_session []))) =
   Inr (requested \<lparr>tq_to_status = Sess_BLOCKED, tq_summary = ''stop'', tq_actor = ''HUMAN'',
      tq_evidence_refs = [], tq_blocking_issues = [], tq_operation_id = None\<rparr> [2024, 1, 1, 0, 0, 0] ''1'' (ready_session []))"
  using transition_correct [OF ready_session_load _ _ prod.collapse [symmetric], of "[]"
      "\<lparr>tq_to_status = Sess_BLOCKED, tq_summary = ''stop'', tq_actor = ''HUMAN'',
        tq_evidence_refs = [], tq_blocking_issues = [], tq_operation_id = None\<rparr>" "[2024, 1, 1, 0, 0, 0]" "''1''"]
  by (simp add: ready_session_simps check_request_def steps_ok actor_values_def used_operation_def event_of_def
      request_operation_def session_targets_def session_terminal_def)

lemma stale_reason_once_witness:
  "resume_session id sample_host (parse_remote_url (\<lambda>_. True) id) quiet_view ''session-1'' None False False False
     [2024, 1, 1, 0, 0, 0] ''1'' (registry_save [live_project\<lparr>pj_status := Proj_DISABLED\<rparr>])
     (store_of (ready_session [event_of ''stale:project status is DISABLED'' Sess_READY Sess_STALE,
        event_of ''transition:READY'' Sess_STALE Sess_READY])) =
   (Inr (ready_session [event_of ''stale:project status is DISABLED'' Sess_READY Sess_STALE,
        event_of ''transition:READY'' Sess_STALE Sess_READY]),
    store_of (ready_session [event_of ''stale:project status is DISABLED'' Sess_READY Sess_STALE,
        event_of ''transition:READY'' Sess_STALE Sess_READY]))"
proof -
  let ?p = "live_project\<lparr>pj_status := Proj_DISABLED\<rparr>"
  have "registry_load (registry_save [?p]) = Inr [?p]"
    by (rule load_after_registry_save) (simp add: live_project_def default_policy_def policy_valid_def)
  then have g: "project_get ''project-1'' (registry_save [?p]) = Inr ?p"
    by (simp add: project_get_def) (simp add: live_project_def sample_project_def)
  show ?thesis
    by (rule stale_reason_once [where p = ?p, OF ready_session_load]) (simp_all add: ready_session_simps g used_operation_def event_of_def)
qed

end
