(* ===== verification/SessionLineage.thy ===== *)
theory SessionLineage
  imports SessionSafety
begin

section \<open>The check of a session's events (resilience.py)\<close>

text \<open>
  \<open>validate_recovery_lineage\<close> reads the events of a session again and says whether they form a legal
  history. Timestamps are read by \<open>clk\<close>, which stands for \<open>datetime.fromisoformat\<close>: \<open>None\<close> for a text it
  rejects, else whether the text has an offset, and the instant. Python cannot compare an instant with
  an offset to one without. The properties relate the check to the operations of the session manager.
\<close>

datatype diagnostic_status = Diag_PASS | Diag_FAIL | Diag_UNKNOWN

type_synonym iso_reader = "string \<Rightarrow> (bool \<times> int) option"

definition assessment_event_refs :: "session_event \<Rightarrow> session \<Rightarrow> string list" where
  "assessment_event_refs e s = map path_name (filter (\<lambda>r. sn_session_id s \<in> set (path_parts r) \<and>
     starts_with ''assessment'' (path_name r) \<and> ends_with ''.json'' (path_name r)) (sv_evidence_refs e))"

definition valid_assessment_event :: "session_event \<Rightarrow> session \<Rightarrow> bool" where
  "valid_assessment_event e s = (sv_operation_id e = ''assessment:'' @ sn_session_id s \<and> sv_actor e = ''DIRECTOR'' \<and>
     sv_from_status e \<in> {Some ''READY'', Some ''RETRY_REQUIRED''} \<and> sv_to_status e \<in> {''READY'', ''BLOCKED''} \<and>
     length (remdups (assessment_event_refs e s)) = 1)"

text \<open>\<open>operation_id.split(":", 1)[1]\<close>\<close>

definition after_colon :: "string \<Rightarrow> string" where
  "after_colon op = drop 1 (dropWhile (\<lambda>c. c \<noteq> CHR '':'') op)"

definition names_ref :: "string \<Rightarrow> session_event \<Rightarrow> bool" where
  "names_ref n e = list_ex (\<lambda>r. path_name r = n) (sv_evidence_refs e)"

definition valid_recorded_observation :: "session_event \<Rightarrow> session \<Rightarrow> bool" where
  "valid_recorded_observation e s =
     (if sv_from_status e = Some ''READY'' \<and> sv_to_status e = ''READY''
      then (if valid_assessment_event e s then True
        else if sv_actor e = ''DIRECTOR'' \<and> starts_with ''objective-plan:'' (sv_operation_id e)
        then (let expected = drop (length ''objective-plan:'') (sv_operation_id e) in
          sha256_match expected \<and> names_ref (''objective-plan-'' @ expected @ ''.json'') e)
        else sv_actor e = ''RELEASE_MANAGER'' \<and>
          (starts_with ''external-advance:'' (sv_operation_id e) \<or> starts_with ''external-plan-recovery:'' (sv_operation_id e)) \<and>
          names_ref (after_colon (sv_operation_id e) @ ''.json'') e)
      else if sv_from_status e = Some ''BLOCKED'' \<and> sv_to_status e = ''READY''
      then sv_actor e = ''RELEASE_MANAGER'' \<and> starts_with ''external-advance:'' (sv_operation_id e) \<and>
        names_ref (after_colon (sv_operation_id e) @ ''.json'') e
      else False)"

text \<open>The operations seen so far, each with its first event and the assessments its events name\<close>

type_synonym seen_operations = "(string \<times> (session_event \<times> string list)) list"

text \<open>The part of the loop about operations: \<open>None\<close> for a repeated one\<close>

definition see_operation :: "session \<Rightarrow> session_event \<Rightarrow> seen_operations \<Rightarrow> seen_operations option" where
  "see_operation s e ops = (let refs = assessment_event_refs e s in
     case map_of ops (sv_operation_id e) of
       None \<Rightarrow> Some (dict_set (sv_operation_id e) (e, refs) ops)
     | Some (first, old) \<Rightarrow>
         if \<not> valid_assessment_event first s \<or> \<not> valid_assessment_event e s \<or> set refs \<inter> set old \<noteq> {} then None
         else Some (dict_set (sv_operation_id e) (first, old @ refs) ops))"

text \<open>\<open>event.timestamp.replace("Z", "+00:00")\<close>\<close>

definition replace_z :: "string \<Rightarrow> string" where
  "replace_z t = concat (map (\<lambda>c. if c = CHR ''Z'' then ''+00:00'' else [c]) t)"

text \<open>The three conversions in the \<open>try\<close> block\<close>

definition event_reading :: "iso_reader \<Rightarrow> session_event \<Rightarrow> (session_status \<times> session_status option \<times> bool \<times> int) option" where
  "event_reading clk e = do {
     target \<leftarrow> session_status_of (sv_to_status e);
     source \<leftarrow> (case sv_from_status e of None \<Rightarrow> Some None
       | Some f \<Rightarrow> if f = [] then Some None else map_option Some (session_status_of f));
     observed \<leftarrow> clk (replace_z (sv_timestamp e));
     Some (target, source, observed)}"

definition diag :: "diagnostic_status \<Rightarrow> string \<Rightarrow> (diagnostic_status \<times> string) res" where
  "diag d m = Inr (d, m)"

text \<open>What the loop carries: the operations seen, and the status and the time of the previous event\<close>

type_synonym lineage_state = "seen_operations \<times> (session_status \<times> bool \<times> int) option"

text \<open>One iteration: the verdict that ends the loop, or what it carries on\<close>

definition lineage_event ::
    "iso_reader \<Rightarrow> session \<Rightarrow> lineage_state \<Rightarrow> session_event \<Rightarrow> (diagnostic_status \<times> string) res + lineage_state" where
  "lineage_event clk s st e = (case st of (ops, prev) \<Rightarrow>
     (if sv_session_id e \<noteq> sn_session_id s then Inl (diag Diag_FAIL ''event session binding differs'')
      else if sv_operation_id e = [] then Inl (diag Diag_FAIL ''event operation identity is missing'')
      else (case see_operation s e ops of
        None \<Rightarrow> Inl (diag Diag_FAIL ''event operation identity is duplicated'')
      | Some ops' \<Rightarrow> (case event_reading clk e of
          None \<Rightarrow> Inl (diag Diag_FAIL ''event status or timestamp is invalid'')
        | Some (target, source, aware, at) \<Rightarrow>
            if sv_actor e \<notin> set actor_values \<or> sv_event_type e = [] \<or> sv_summary e = []
            then Inl (diag Diag_FAIL ''event identity or content is invalid'')
            else if (case prev of None \<Rightarrow> False | Some (p, _) \<Rightarrow> source \<noteq> Some p)
            then Inl (diag Diag_FAIL ''event status continuity is broken'')
            else if (case prev of None \<Rightarrow> False | Some (_, a, _) \<Rightarrow> a \<noteq> aware) then Inl (raise TypeError [])
            else if (case prev of None \<Rightarrow> False | Some (_, _, t) \<Rightarrow> at < t)
            then Inl (diag Diag_FAIL ''event ordering is not monotonic'')
            else if (case source of None \<Rightarrow> False | Some f \<Rightarrow> target \<notin> set (session_targets f)) \<and> \<not> valid_recorded_observation e s
            then Inl (diag Diag_FAIL ''event transition is not legal'')
            else if sv_event_type e \<noteq> (case source of None \<Rightarrow> ''NONE'' | Some f \<Rightarrow> session_status_value f) @ ''_TO_'' @ session_status_value target
            then Inl (diag Diag_FAIL ''event transition label is inconsistent'')
            else Inr (ops', Some (target, aware, at))))))"

fun lineage_loop ::
    "iso_reader \<Rightarrow> session \<Rightarrow> lineage_state \<Rightarrow> session_event list \<Rightarrow> (diagnostic_status \<times> string) res + lineage_state" where
  "lineage_loop clk s st [] = Inr st"
| "lineage_loop clk s st (e # es) = (case lineage_event clk s st e of Inl r \<Rightarrow> Inl r | Inr st' \<Rightarrow> lineage_loop clk s st' es)"

definition validate_recovery_lineage :: "iso_reader \<Rightarrow> session \<Rightarrow> (diagnostic_status \<times> string) res" where
  "validate_recovery_lineage clk s =
     (if sn_session_id s = [] \<or> sn_project_id s = [] \<or> sn_events s = []
      then diag Diag_UNKNOWN ''session binding or event lineage is missing''
      else (case lineage_loop clk s ([], None) (sn_events s) of
          Inl r \<Rightarrow> r
        | Inr (_, prev) \<Rightarrow> if map_option fst prev \<noteq> Some (sn_status s)
            then diag Diag_FAIL ''session status does not match lineage tail''
            else diag Diag_PASS ''session event lineage is valid''))"

record scorecard =
  sc_session_id :: string
  sc_status :: string
  sc_event_count :: nat
  sc_artifact_count :: nat
  sc_evidence_count :: nat
  sc_terminal :: bool

definition derive_scorecard :: "session \<Rightarrow> scorecard" where
  "derive_scorecard s = \<lparr>sc_session_id = sn_session_id s, sc_status = session_status_value (sn_status s),
     sc_event_count = length (sn_events s), sc_artifact_count = length (sn_artifact_hashes s),
     sc_evidence_count = sum_list (map (\<lambda>e. length (sv_evidence_refs e)) (sn_events s)),
     sc_terminal = (sn_status s \<in> set session_terminal)\<rparr>"

end
