(* ===== verification/LineageSafety.thy ===== *)
theory LineageSafety
  imports SessionLineage
begin

section \<open>The lineage check and the session manager\<close>

text \<open>
  A refinement between the writer and the reader of a session's events: what the public transitions,
  cancellation, the marking as stale, the execution checkpoint and the first plan append, the lineage
  check accepts, in every order. And the outcomes that other operations of the manager record, it rejects.
\<close>

subsection \<open>The clock\<close>

text \<open>The reader of timestamps understands what the manager writes, and orders it as the clock did.\<close>

definition clock_reader :: "iso_reader \<Rightarrow> (instant \<Rightarrow> int) \<Rightarrow> bool" where
  "clock_reader clk stamp = ((\<forall>t. clock_time t \<longrightarrow> clk (replace_z (show_time t)) = Some (True, stamp t)) \<and>
     (\<forall>t u. clock_time t \<longrightarrow> clock_time u \<longrightarrow> t \<le> u \<longrightarrow> stamp t \<le> stamp u))"

lemma clock_readerD:
  assumes "clock_reader clk stamp" and "clock_time t"
  shows "clk (replace_z (show_time t)) = Some (True, stamp t)" "clock_time u \<Longrightarrow> t \<le> u \<Longrightarrow> stamp t \<le> stamp u"
  using assms by (auto simp: clock_reader_def)

subsection \<open>The loop\<close>

lemma lineage_loop_append:
  "lineage_loop clk s st (es @ [e]) = (case lineage_loop clk s st es of Inl r \<Rightarrow> Inl r | Inr st' \<Rightarrow> lineage_event clk s st' e)"
  by (induction es arbitrary: st) (auto split: sum.splits)

lemma same_refs: "sn_session_id s = sn_session_id t \<Longrightarrow> assessment_event_refs e s = assessment_event_refs e t"
  by (simp add: assessment_event_refs_def)

lemma same_valid: "sn_session_id s = sn_session_id t \<Longrightarrow> valid_assessment_event e s = valid_assessment_event e t"
  by (simp add: valid_assessment_event_def same_refs [of s t])

lemma same_observation: "sn_session_id s = sn_session_id t \<Longrightarrow> valid_recorded_observation e s = valid_recorded_observation e t"
  by (simp add: valid_recorded_observation_def same_valid [of s t])

lemma same_see: "sn_session_id s = sn_session_id t \<Longrightarrow> see_operation s e ops = see_operation t e ops"
  unfolding see_operation_def by (simp only: same_refs [of s t] same_valid [of s t] cong: option.case_cong prod.case_cong if_cong)

lemma same_event:
  assumes "sn_session_id s = sn_session_id t"
  shows "lineage_event clk s = lineage_event clk t"
  unfolding lineage_event_def same_see [OF assms] same_observation [OF assms] assms ..

lemma same_loop: "sn_session_id s = sn_session_id t \<Longrightarrow> lineage_loop clk s st es = lineage_loop clk t st es"
  by (induction es arbitrary: st) (simp_all add: same_event [of s t] split: sum.splits)

lemma see_operation_keys:
  "see_operation s e ops = Some ops' \<Longrightarrow> dom (map_of ops') = insert (sv_operation_id e) (dom (map_of ops))"
  by (auto simp: see_operation_def Let_def update_conv' split: option.splits if_splits)

lemma see_operation_new: "map_of ops (sv_operation_id e) = None \<Longrightarrow> see_operation s e ops \<noteq> None"
  by (simp add: see_operation_def Let_def)

lemma lineage_event_keys:
  assumes "lineage_event clk s (ops, prev) e = Inr (ops', prev')"
  shows "dom (map_of ops') = insert (sv_operation_id e) (dom (map_of ops))"
proof (rule see_operation_keys)
  show "see_operation s e ops = Some ops'" using assms by (auto simp: lineage_event_def split: if_splits option.splits)
qed

lemma lineage_loop_keys:
  "lineage_loop clk s (ops, prev) es = Inr (ops', prev') \<Longrightarrow>
   dom (map_of ops') = sv_operation_id ` set es \<union> dom (map_of ops)"
proof (induction es arbitrary: ops prev)
  case (Cons e es)
  from Cons.prems obtain o1 p1 where e: "lineage_event clk s (ops, prev) e = Inr (o1, p1)"
    and r: "lineage_loop clk s (o1, p1) es = Inr (ops', prev')" by (auto split: sum.splits)
  from Cons.IH [OF r] lineage_event_keys [OF e] show ?case by auto
qed simp

text \<open>The events so far are accepted, and the last one is not after \<open>now\<close>.\<close>

definition lineage_ok :: "iso_reader \<Rightarrow> (instant \<Rightarrow> int) \<Rightarrow> session \<Rightarrow> instant \<Rightarrow> bool" where
  "lineage_ok clk stamp s now = (\<exists>ops a. lineage_loop clk s ([], None) (sn_events s) = Inr (ops, Some (sn_status s, True, a)) \<and>
     a \<le> stamp now \<and> sn_events s \<noteq> [])"

definition unstarted :: "session \<Rightarrow> bool" where
  "unstarted s = (sn_events s = [] \<and> sn_status s = Sess_PLANNING)"

lemma lineage_ok_pass:
  "lineage_ok clk stamp s now \<Longrightarrow> sn_session_id s \<noteq> [] \<Longrightarrow> sn_project_id s \<noteq> [] \<Longrightarrow>
   validate_recovery_lineage clk s = Inr (Diag_PASS, ''session event lineage is valid'')"
  by (auto simp: lineage_ok_def validate_recovery_lineage_def diag_def)

lemma lineage_ok_later: "lineage_ok clk stamp s now \<Longrightarrow> stamp now \<le> stamp later \<Longrightarrow> lineage_ok clk stamp s later"
  by (auto simp: lineage_ok_def intro: order_trans)

subsection \<open>One event\<close>

lemma append_event_events:
  "sn_events (append_session_event (Some f) to sm refs issues actor op now uuid s) = sn_events s @
    [\<lparr>sv_event_id = ''event-'' @ uuid, sv_operation_id = op, sv_timestamp = show_time now, sv_session_id = sn_session_id s,
      sv_event_type = session_status_value f @ ''_TO_'' @ session_status_value to, sv_from_status = Some (session_status_value f),
      sv_to_status = session_status_value to, sv_summary = take 500 sm, sv_evidence_refs = refs, sv_blocking_issues = issues,
      sv_actor = actor\<rparr>]"
  by (simp add: append_session_event_def Let_def)

text \<open>The event as the manager writes it, and what the check reads of it\<close>

lemma written_event:
  fixes e :: session_event
  assumes "clock_reader clk stamp" and "clock_time now"
    and "e = \<lparr>sv_event_id = ''event-'' @ uuid, sv_operation_id = op, sv_timestamp = show_time now, sv_session_id = sn_session_id s,
      sv_event_type = session_status_value f @ ''_TO_'' @ session_status_value to, sv_from_status = Some (session_status_value f),
      sv_to_status = session_status_value to, sv_summary = take 500 sm, sv_evidence_refs = refs, sv_blocking_issues = issues,
      sv_actor = actor\<rparr>"
    and "op \<noteq> []" and "map_of ops op = None" and "actor \<in> set actor_values" and "sm \<noteq> []"
    and "prev = None \<or> (\<exists>a. prev = Some (f, True, a) \<and> a \<le> stamp now)"
  shows "lineage_event clk s (ops, prev) e =
    (if to \<in> set (session_targets f) \<or> valid_recorded_observation e s
     then Inr (the (see_operation s e ops), Some (to, True, stamp now))
     else Inl (diag Diag_FAIL ''event transition is not legal''))"
proof -
  have r: "event_reading clk e = Some (to, Some f, True, stamp now)"
    using clock_readerD(1) [OF assms(1,2)] by (simp add: event_reading_def assms(3))
  obtain ops' where o: "see_operation s e ops = Some ops'"
    using see_operation_new [of ops e s] assms(3,5) by auto
  have p: "(case prev of None \<Rightarrow> False | Some (p, _) \<Rightarrow> Some f \<noteq> Some p) = False"
    "(case prev of None \<Rightarrow> False | Some (_, a, _) \<Rightarrow> a \<noteq> True) = False"
    "(case prev of None \<Rightarrow> False | Some (_, _, t) \<Rightarrow> stamp now < t) = False"
    using assms(8) by auto
  have i: "sv_session_id e = sn_session_id s" "sv_operation_id e = op" "sv_actor e = actor" "sv_summary e = take 500 sm"
    "sv_event_type e = session_status_value f @ ''_TO_'' @ session_status_value to" by (simp_all add: assms(3))
  show ?thesis using assms(4,6,7)
    unfolding lineage_event_def prod.case r o option.case p by (simp add: i)
qed

lemma not_used_fresh:
  assumes "lineage_loop clk s ([], None) (sn_events s) = Inr (ops, prev)" and "\<not> used_operation op s"
  shows "map_of ops op = None"
proof -
  from lineage_loop_keys [OF assms(1)] have "dom (map_of ops) = sv_operation_id ` set (sn_events s)" by simp
  moreover have "op \<notin> sv_operation_id ` set (sn_events s)" using assms(2) by (auto simp: used_operation_def list_ex_iff)
  ultimately show ?thesis by (metis domIff)
qed

text \<open>What an appended event does to the check\<close>

lemma append_event_check:
  assumes "clock_reader clk stamp" and "clock_time now"
    and "lineage_ok clk stamp s now \<or> unstarted s"
    and "op \<noteq> []" and "\<not> used_operation op s" and "actor \<in> set actor_values" and "sm \<noteq> []"
    and "t = append_session_event (Some (sn_status s)) to sm refs issues actor op now uuid s"
  shows "if to \<in> set (session_targets (sn_status s)) \<or> valid_recorded_observation (last (sn_events t)) s
    then lineage_ok clk stamp t now
    else lineage_loop clk t ([], None) (sn_events t) = Inl (diag Diag_FAIL ''event transition is not legal'')"
proof -
  obtain ops prev where l: "lineage_loop clk s ([], None) (sn_events s) = Inr (ops, prev)"
    and p: "prev = None \<or> (\<exists>a. prev = Some (sn_status s, True, a) \<and> a \<le> stamp now)"
    using assms(3) by (fastforce simp: lineage_ok_def unstarted_def)
  have i: "sn_session_id t = sn_session_id s" "sn_status t = to" using assms(8) by simp_all
  let ?e = "last (sn_events t)"
  have e: "sn_events t = sn_events s @ [?e]" using assms(8) append_event_events [of "sn_status s"] by simp
  have "lineage_event clk s (ops, prev) ?e =
    (if to \<in> set (session_targets (sn_status s)) \<or> valid_recorded_observation ?e s
     then Inr (the (see_operation s ?e ops), Some (to, True, stamp now))
     else Inl (diag Diag_FAIL ''event transition is not legal''))"
    by (rule written_event [OF assms(1,2) _ assms(4) not_used_fresh [OF l assms(5)] assms(6,7) p])
      (simp add: assms(8) append_event_events)
  moreover have "lineage_loop clk t ([], None) (sn_events t) = lineage_event clk s (ops, prev) ?e"
    by (subst e) (simp add: lineage_loop_append same_loop [OF i(1)] same_event [OF i(1)] l)
  ultimately show ?thesis using e by (auto simp: lineage_ok_def i(2))
qed

lemma append_lawful:
  assumes "clock_reader clk stamp" and "clock_time now" and "lineage_ok clk stamp s now \<or> unstarted s"
    and "op \<noteq> []" and "\<not> used_operation op s" and "actor \<in> set actor_values" and "sm \<noteq> []"
    and "to \<in> set (session_targets (sn_status s))"
  shows "lineage_ok clk stamp (append_session_event (Some (sn_status s)) to sm refs issues actor op now uuid s) now"
  using append_event_check [OF assms(1-7) refl, of to refs issues uuid] assms(8) by simp

subsection \<open>Runs of the manager\<close>

datatype session_call =
    Call_Transition transition_request
  | Call_Cancel string
  | Call_Stale string string
  | Call_Execute
  | Call_Plan "(string \<times> bool) res" "unit res"

text \<open>The calls on a stored session, with the guards under which \<open>resume\<close> makes the last three\<close>

definition on_session :: "string \<Rightarrow> (session \<Rightarrow> session_store \<Rightarrow> session res \<times> session_store) \<Rightarrow> session_store \<Rightarrow> session_store" where
  "on_session i k st = (case session_load i st of Inl _ \<Rightarrow> st | Inr s \<Rightarrow> snd (k s st))"

fun session_step ::
    "(string \<Rightarrow> string) \<Rightarrow> string \<Rightarrow> instant \<times> string \<times> session_call \<Rightarrow> session_store \<Rightarrow> session_store" where
  "session_step H i (now, uuid, Call_Transition q) st = snd (session_transition i q now uuid st)"
| "session_step H i (now, uuid, Call_Cancel reason) st = snd (session_cancel i reason now uuid st)"
| "session_step H i (now, uuid, Call_Stale reason action) st = on_session i (\<lambda>s u.
     if sn_status s \<in> set session_terminal then (Inr s, u) else mark_stale s reason action now uuid u) st"
| "session_step H i (now, uuid, Call_Execute) st = on_session i (\<lambda>s u.
     if sn_status s \<noteq> Sess_READY then (Inr s, u)
     else transition_locked s Sess_EXECUTING ''execution authorization checkpoint; pipeline stage not executed''
       ''HUMAN'' (''resume-execution:'' @ sn_session_id s) now uuid u) st"
| "session_step H i (now, uuid, Call_Plan create check) st = on_session i (\<lambda>s u.
     if sn_status s \<noteq> Sess_PLANNING \<or> sn_events s \<noteq> [] then (Inr s, u)
     else finish_initial_plan H create check now uuid s u) st"

fun with_reason :: "session_call \<Rightarrow> bool" where
  "with_reason (Call_Stale reason action) = (reason \<noteq> [])"
| "with_reason _ = True"

text \<open>The stored session\<close>

definition stored :: "iso_reader \<Rightarrow> (instant \<Rightarrow> int) \<Rightarrow> string \<Rightarrow> string \<Rightarrow> instant \<Rightarrow> session_store \<Rightarrow> bool" where
  "stored clk stamp i project now st = (\<exists>s. session_load i st = Inr s \<and> sn_session_id s = i \<and> sn_project_id s = project \<and>
     sn_schema_version s = ''1.0'' \<and> (lineage_ok clk stamp s now \<or> unstarted s))"

lemma stored_valid_id: "stored clk stamp i project now st \<Longrightarrow> \<not> session_id_invalid i"
  by (auto simp: stored_def session_load_def raise_def)

lemma storedI:
  assumes "session_load i st = Inr s" and "sn_session_id s = i" and "sn_project_id s = project" and "sn_schema_version s = ''1.0''"
    and "lineage_ok clk stamp s now \<or> unstarted s"
  shows "stored clk stamp i project now st"
  using assms by (auto simp: stored_def)

lemma stored_after_save:
  assumes "\<not> session_id_invalid (sn_session_id s)" and "sn_schema_version s = ''1.0''" and "lineage_ok clk stamp s now \<or> unstarted s"
  shows "stored clk stamp (sn_session_id s) (sn_project_id s) now (snd (manager_save s st))"
proof (rule storedI)
  have "session_save s st = (Inr (), snd (manager_save s st))"
    using assms(1) by (simp add: manager_save_ok session_save_def)
  from load_after_save [OF assms(2) this] show "session_load (sn_session_id s) (snd (manager_save s st)) = Inr s" .
qed (use assms in simp_all)

lemma append_event_fields [simp]:
  "sn_project_id (append_session_event from to sm refs issues actor op now uuid s) = sn_project_id s"
  "sn_schema_version (append_session_event from to sm refs issues actor op now uuid s) = sn_schema_version s"
  by (simp_all add: append_session_event_def Let_def)

lemma lineage_ok_cong:
  "sn_events s = sn_events t \<Longrightarrow> sn_status s = sn_status t \<Longrightarrow> sn_session_id s = sn_session_id t \<Longrightarrow>
   lineage_ok clk stamp s now = lineage_ok clk stamp t now"
  by (simp add: lineage_ok_def same_loop [of s t])

text \<open>An event that is appended to a stored session and saved, whatever happens to its other fields\<close>

lemma append_stored:
  assumes "clock_reader clk stamp" and "clock_time now" and "lineage_ok clk stamp s now \<or> unstarted s"
    and "op \<noteq> []" and "\<not> used_operation op s" and "actor \<in> set actor_values" and "sm \<noteq> []"
    and "to \<in> set (session_targets (sn_status s))"
    and "e = append_session_event (Some (sn_status s)) to sm refs issues actor op now uuid s"
    and "sn_events t = sn_events e" "sn_status t = sn_status e" "sn_session_id t = sn_session_id s"
      "sn_project_id t = sn_project_id s" "sn_schema_version t = sn_schema_version s"
    and "\<not> session_id_invalid (sn_session_id s)" and "sn_schema_version s = ''1.0''"
  shows "stored clk stamp (sn_session_id s) (sn_project_id s) now (snd (manager_save t st))"
proof -
  have "lineage_ok clk stamp e now" unfolding assms(9) by (rule append_lawful [OF assms(1-8)])
  then have "lineage_ok clk stamp t now" using assms(9-12) lineage_ok_cong [of t e clk stamp now] by simp
  then show ?thesis using stored_after_save [of t clk stamp now st] assms(12-16) by simp
qed

lemma write_artifact_sessions: "st_sessions (snd (write_artifact H i n c st)) = st_sessions st"
  by (simp add: write_artifact_def split: option.splits)

lemma stored_cong: "st_sessions u = st_sessions st \<Longrightarrow> stored clk stamp i project now u = stored clk stamp i project now st"
  by (simp add: stored_def session_load_def)

lemma used_operation_none: "sn_events s = [] \<Longrightarrow> \<not> used_operation op s"
  by (simp add: used_operation_def)

lemma planning_targets: "Sess_READY \<in> set (session_targets Sess_PLANNING)" "Sess_HUMAN_REQUIRED \<in> set (session_targets Sess_PLANNING)"
    "Sess_BLOCKED \<in> set (session_targets Sess_PLANNING)"
  by (simp_all add: session_targets_def session_terminal_def)

lemma actors: "''DIRECTOR'' \<in> set actor_values" "''SYSTEM'' \<in> set actor_values" "''HUMAN'' \<in> set actor_values"
    "''REVIEWER'' \<in> set actor_values" "''RELEASE_MANAGER'' \<in> set actor_values"
  by (simp_all add: actor_values_def)

lemma commit_stored:
  assumes "clock_reader clk stamp" and "clock_time now" and "unstarted s"
    and "\<not> session_id_invalid (sn_session_id s)" and "sn_schema_version s = ''1.0''"
    and "stored clk stamp (sn_session_id s) (sn_project_id s) now st"
  shows "stored clk stamp (sn_session_id s) (sn_project_id s) now (snd (commit_initial_plan H s ready p h now uuid st))"
proof -
  define t where "t = s\<lparr>sn_plan_path := Some p, sn_blocking_issues := (if ready then [] else [''generated plan requires human clarification'']),
    sn_required_human_actions := (if ready then [] else [''clarify the goal'']),
    sn_artifact_hashes := dict_set ''plan'' h (sn_artifact_hashes s)\<rparr>"
  have t: "unstarted t" "sn_session_id t = sn_session_id s" "sn_project_id t = sn_project_id s" "sn_schema_version t = ''1.0''"
    "sn_status t = Sess_PLANNING" "sn_events t = []" using assms(3,5) by (simp_all add: t_def unstarted_def)
  define origin where "origin = strings_text [(''initial_plan_sha256'', h), (''project_id'', sn_project_id s),
            (''protocol'', ''governed-session/1''), (''schema_version'', ''1.0''), (''session_id'', sn_session_id s)]"
  obtain w v where w: "write_artifact H (sn_session_id s) ''planning-origin.json'' origin st = (w, v)" by fastforce
  have v: "stored clk stamp (sn_session_id s) (sn_project_id s) now v"
    using stored_cong [of v st clk stamp] write_artifact_sessions [of H "sn_session_id s" "''planning-origin.json''" origin st] w assms(6)
    by simp
  define status where "status = (if ready then Sess_READY else Sess_HUMAN_REQUIRED)"
  define issues where "issues = (if ready then [] else [''generated plan requires human clarification''])"
  define e where "e = append_session_event (Some Sess_PLANNING) status ''session started and plan generated'' [p] issues
    ''DIRECTOR'' ''session-start'' now uuid t"
  have target: "status \<in> set (session_targets (sn_status t))" using planning_targets by (simp add: t(5) status_def)
  have e: "e = append_session_event (Some (sn_status t)) status ''session started and plan generated'' [p] issues
    ''DIRECTOR'' ''session-start'' now uuid t" by (simp add: e_def t(5))
  have "stored clk stamp (sn_session_id s) (sn_project_id s) now
      (snd (manager_save (e\<lparr>sn_artifact_hashes := dict_set ''planning_origin'' d (sn_artifact_hashes e)\<rparr>) v))" for d
    using append_stored [OF assms(1,2) disjI2 [OF t(1)] _ used_operation_none [OF t(6)] actors(1) _ target e,
        of "e\<lparr>sn_artifact_hashes := dict_set ''planning_origin'' d (sn_artifact_hashes e)\<rparr>" v] assms(4) t(2,3,4)
    by (simp add: e_def)
  moreover have "commit_initial_plan H s ready p h now uuid st = (case (w, v) of
      (Inl e, v) \<Rightarrow> (Inl e, v)
    | (Inr (_, d), v) \<Rightarrow> manager_save (e\<lparr>sn_artifact_hashes := dict_set ''planning_origin'' d (sn_artifact_hashes e)\<rparr>) v)"
    unfolding commit_initial_plan_def Let_def w [symmetric] origin_def e_def t_def status_def issues_def ..
  ultimately show ?thesis using v by (auto split: sum.splits)
qed

lemma unstarted_saved:
  assumes "unstarted t" and "\<not> session_id_invalid (sn_session_id t)" and "sn_schema_version t = ''1.0''"
  shows "stored clk stamp (sn_session_id t) (sn_project_id t) now (snd (manager_save t st))"
  using stored_after_save [OF assms(2,3)] assms(1) by blast

lemma initial_stored:
  assumes "clock_reader clk stamp" and "clock_time now" and "unstarted s"
    and "\<not> session_id_invalid (sn_session_id s)" and "sn_schema_version s = ''1.0''"
    and "stored clk stamp (sn_session_id s) (sn_project_id s) now st"
  shows "stored clk stamp (sn_session_id s) (sn_project_id s) now (snd (finish_initial_plan H create check now uuid s st))"
proof -
  define attempts where "attempts = (case map_of (sn_attempts s) ''initial_planning'' of None \<Rightarrow> 0 | Some n \<Rightarrow> n)"
  define t where "t = s\<lparr>sn_attempts := dict_set ''initial_planning'' (attempts + 1) (sn_attempts s)\<rparr>"
  define v where "v = (\<lambda>c. t\<lparr>sn_artifact_hashes := dict_set ''initial_plan_candidate'' c (sn_artifact_hashes t)\<rparr>)"
  have t: "unstarted t" "sn_session_id t = sn_session_id s" "sn_project_id t = sn_project_id s" "sn_schema_version t = ''1.0''"
    using assms(3,5) by (simp_all add: t_def unstarted_def)
  have v: "unstarted (v c)" "sn_session_id (v c) = sn_session_id s" "sn_project_id (v c) = sn_project_id s" "sn_schema_version (v c) = ''1.0''" for c
    using t by (simp_all add: v_def unstarted_def)
  obtain u where tsave: "manager_save t st = (Inr t, u)" and u: "stored clk stamp (sn_session_id s) (sn_project_id s) now u"
    using manager_save_ok [of t st] unstarted_saved [of t clk stamp now st] t assms(4) by simp
  define w where "w = (\<lambda>c. snd (manager_save (v c) u))"
  have vsave: "manager_save (v c) u = (Inr (v c), w c)" and w: "stored clk stamp (sn_session_id s) (sn_project_id s) now (w c)" for c
    using manager_save_ok [of "v c" u] unstarted_saved [of "v c" clk stamp now u] v [of c] assms(4) by (simp_all add: w_def)
  have commit: "stored clk stamp (sn_session_id s) (sn_project_id s) now
      (snd (commit_initial_plan H (v c) ready p h now uuid u))" if "stored clk stamp (sn_session_id s) (sn_project_id s) now u" for c ready p h u
    using commit_stored [OF assms(1,2) v(1)] that assms(4) v(2-4) by simp
  have written: "stored clk stamp (sn_session_id s) (sn_project_id s) now (snd (write_artifact H i n d u))"
    if "stored clk stamp (sn_session_id s) (sn_project_id s) now u" for i n d u
    using that stored_cong [OF write_artifact_sessions] by blast
  have status: "sn_status s = Sess_PLANNING" "sn_events s = []" using assms(3) by (simp_all add: unstarted_def)
  have block: "stored clk stamp (sn_session_id s) (sn_project_id s) now
      (snd (manager_save (append_session_event (Some Sess_PLANNING) Sess_BLOCKED ''initial planning retry budget exhausted'' []
          [''initial planning retry budget exhausted''] ''SYSTEM'' ''initial-planning-exhausted'' now uuid s) st))"
    using append_stored [OF assms(1,2) disjI2 [OF assms(3)] _ used_operation_none [OF status(2)] actors(2) _ _ refl refl refl]
      planning_targets(3) assms(4,5) by (simp add: status(1))
  show ?thesis
  proof (cases "attempts < 0 \<or> 2 \<le> attempts")
    case True
    then show ?thesis using assms(6) block by (auto simp: finish_initial_plan_def Let_def attempts_def [symmetric])
  next
    case False
    show ?thesis
    proof (cases create)
      case (Inl e)
      then have "finish_initial_plan H create check now uuid s st = (Inl e, u)"
        using False tsave by (simp add: finish_initial_plan_def Let_def attempts_def [symmetric] t_def [symmetric])
      with u show ?thesis by simp
    next
      case (Inr cr)
      obtain content ready where cr: "cr = (content, ready)" by (cases cr)
      obtain r x where wr: "write_artifact H (sn_session_id (v (H content))) ''plan.json'' content (w (H content)) = (r, x)" by fastforce
      have x: "stored clk stamp (sn_session_id s) (sn_project_id s) now x"
        using written [OF w, of "sn_session_id (v (H content))" "''plan.json''" content "H content"] wr by simp
      have f: "finish_initial_plan H create check now uuid s st = (case check of Inl e \<Rightarrow> (Inl e, u) | Inr _ \<Rightarrow>
            (if map_of (sn_artifact_hashes t) ''initial_plan_candidate'' \<noteq> None \<and>
                map_of (sn_artifact_hashes t) ''initial_plan_candidate'' \<noteq> Some (H content)
             then (manager_error ''initial planning candidate changed during recovery'', u)
             else (case r of Inl e \<Rightarrow> (Inl e, x)
               | Inr (p, h) \<Rightarrow> commit_initial_plan H (v (H content)) ready p h now uuid x)))"
        using False tsave vsave [unfolded v_def] wr [unfolded v_def]
        by (simp add: finish_initial_plan_def Let_def attempts_def [symmetric] t_def [symmetric] Inr cr v_def split: sum.splits)
      show ?thesis unfolding f using u x commit [OF x] by (auto split: sum.splits)
    qed
  qed
qed

lemma stored_load:
  assumes "stored clk stamp i project now st"
  obtains s where "session_load i st = Inr s" "sn_session_id s = i" "sn_project_id s = project" "sn_schema_version s = ''1.0''"
    "lineage_ok clk stamp s now \<or> unstarted s" "\<not> session_id_invalid i"
  using assms stored_valid_id [OF assms] by (auto simp: stored_def)

lemma request_operation_nonempty: "request_operation q \<noteq> []"
  by (simp add: request_operation_def split: option.splits)

lemma check_request_actor: "check_request q = Inr () \<Longrightarrow> tq_actor q \<in> set actor_values"
  by (auto simp: check_request_def steps_ok)

lemma transition_stored:
  assumes "clock_reader clk stamp" and "clock_time now" and "stored clk stamp i project now st"
  shows "stored clk stamp i project now (snd (session_transition i q now uuid st))"
proof -
  from assms(3) obtain s where s: "session_load i st = Inr s" "sn_session_id s = i" "sn_project_id s = project" "sn_schema_version s = ''1.0''"
    "lineage_ok clk stamp s now \<or> unstarted s" "\<not> session_id_invalid i" by (rule stored_load)
  show ?thesis
  proof (cases "check_request q = Inr () \<and> \<not> used_operation (request_operation q) s \<and> sn_status s \<noteq> tq_to_status q \<and>
      tq_to_status q \<in> set (session_targets (sn_status s))")
    case True
    have "stored clk stamp i project now (snd (manager_save (requested q now uuid s) st))"
      using append_stored [OF assms(1,2) s(5) request_operation_nonempty _ _ _ _ refl refl refl, of q "tq_actor q"
          "if tq_summary q = [] then session_status_value (tq_to_status q) else tq_summary q" "tq_to_status q"
          "tq_evidence_refs q" "tq_blocking_issues q" uuid st] True check_request_actor [of q] s(2,3,4,6)
      by (simp add: requested_def)
    moreover have "session_transition i q now uuid st = manager_save (requested q now uuid s) st"
      using True s(1) by (simp add: session_transition_def requested_def)
    ultimately show ?thesis by simp
  next
    case False
    then show ?thesis using assms(3) s(1) by (auto simp: session_transition_def split: sum.splits)
  qed
qed

lemma stale_target: "f \<notin> set session_terminal \<Longrightarrow> Sess_STALE \<in> set (session_targets f)"
  by (simp add: session_targets_def)

lemma session_step_stored:
  assumes "clock_reader clk stamp" and "clock_time now" and "stored clk stamp i project now st" and "with_reason call"
  shows "stored clk stamp i project now (session_step H i (now, uuid, call) st)"
proof -
  from assms(3) obtain s where s: "session_load i st = Inr s" "sn_session_id s = i" "sn_project_id s = project" "sn_schema_version s = ''1.0''"
    "lineage_ok clk stamp s now \<or> unstarted s" "\<not> session_id_invalid i" by (rule stored_load)
  show ?thesis
  proof (cases call)
    case (Call_Transition q)
    then show ?thesis using transition_stored [OF assms(1-3)] by simp
  next
    case (Call_Cancel reason)
    then show ?thesis using transition_stored [OF assms(1-3)] by (simp add: session_cancel_def)
  next
    case (Call_Stale reason action)
    have "stored clk stamp i project now (snd (mark_stale s reason action now uuid st))"
      if "sn_status s \<notin> set session_terminal"
    proof (cases "used_operation (''stale:'' @ reason) s")
      case False
      define e where "e = append_session_event (Some (sn_status s)) Sess_STALE reason [] [reason] ''SYSTEM'' (''stale:'' @ reason) now uuid s"
      have "reason \<noteq> []" using assms(4) Call_Stale by simp
      then show ?thesis
        using append_stored [OF assms(1,2) s(5) _ False actors(2) _ stale_target [OF that] e_def,
            of "e\<lparr>sn_required_human_actions := [action]\<rparr>" st] s(2,3,4,6) False
        by (simp add: mark_stale_def e_def)
    qed (use assms(3) in \<open>simp add: mark_stale_def\<close>)
    then show ?thesis using assms(3) by (simp add: Call_Stale on_session_def s(1))
  next
    case Call_Execute
    have "stored clk stamp i project now (snd (transition_locked s Sess_EXECUTING
        ''execution authorization checkpoint; pipeline stage not executed'' ''HUMAN'' (''resume-execution:'' @ sn_session_id s) now uuid st))"
      if "sn_status s = Sess_READY"
    proof (cases "used_operation (''resume-execution:'' @ sn_session_id s) s")
      case False
      have "Sess_EXECUTING \<in> set (session_targets (sn_status s))" using that by (simp add: session_targets_def)
      then show ?thesis
        using append_stored [OF assms(1,2) s(5) _ False actors(3) _ _ refl refl refl, of
            "''execution authorization checkpoint; pipeline stage not executed''" Sess_EXECUTING "[]" "[]" uuid st] s(2,3,4,6) False
        by (simp add: transition_locked_def)
    qed (use assms(3) in \<open>simp add: transition_locked_def\<close>)
    then show ?thesis using assms(3) by (simp add: Call_Execute on_session_def s(1))
  next
    case (Call_Plan create check)
    have "stored clk stamp i project now (snd (finish_initial_plan H create check now uuid s st))"
      if "sn_status s = Sess_PLANNING" "sn_events s = []"
      using initial_stored [OF assms(1,2), of s st H create check uuid] that s assms(3) by (simp add: unstarted_def)
    then show ?thesis using assms(3) by (simp add: Call_Plan on_session_def s(1))
  qed
qed

text \<open>Calls in the order of the clock\<close>

definition session_run ::
    "(string \<Rightarrow> string) \<Rightarrow> string \<Rightarrow> (instant \<times> string \<times> session_call) list \<Rightarrow> session_store \<Rightarrow> session_store" where
  "session_run H i calls st = fold (session_step H i) calls st"

lemma stored_later:
  "stored clk stamp i project now st \<Longrightarrow> stamp now \<le> stamp later \<Longrightarrow> stored clk stamp i project later st"
  unfolding stored_def using lineage_ok_later by blast

lemma session_run_stored:
  "clock_reader clk stamp \<Longrightarrow> stored clk stamp i project now st \<Longrightarrow> list_all clock_time (now # map fst calls) \<Longrightarrow>
   sorted (now # map fst calls) \<Longrightarrow> list_all (\<lambda>(_, _, call). with_reason call) calls \<Longrightarrow>
   stored clk stamp i project (last (now # map fst calls)) (session_run H i calls st)"
proof (induction calls arbitrary: now st)
  case (Cons x calls)
  obtain t uuid call where x: "x = (t, uuid, call)" by (cases x) auto
  have "stamp now \<le> stamp t" using Cons.prems clock_readerD(2) [OF Cons.prems(1), of now t] by (auto simp: x)
  with stored_later [OF Cons.prems(2)] have "stored clk stamp i project t st" by blast
  then have "stored clk stamp i project t (session_step H i x st)"
    using session_step_stored [OF Cons.prems(1), of t i project st call] Cons.prems by (simp add: x)
  from Cons.IH [OF Cons.prems(1) this] Cons.prems show ?case by (simp add: session_run_def x)
qed (simp add: session_run_def)

text \<open>C11. A session that starts anew and goes through any calls, of the public transitions, cancellation,
  marking as stale for a reason, execution checkpoint and first plan, in the order of the clock, has
  no event yet or a history that the recovery check passes.
\<close>

theorem manager_lineage_passes:
  assumes "clock_reader clk stamp" and "list_all clock_time (now # map fst calls)" and "sorted (now # map fst calls)"
    and "list_all (\<lambda>(_, _, call). with_reason call) calls"
    and "session_load i st = Inr (new_session i project goal base now now)" and "project \<noteq> []"
  shows "\<exists>s. session_load i (session_run H i calls st) = Inr s \<and>
    (sn_events s = [] \<or> validate_recovery_lineage clk s = Inr (Diag_PASS, ''session event lineage is valid''))"
proof -
  have "stored clk stamp i project now st"
    by (rule storedI [OF assms(5)]) (simp_all add: new_session_def unstarted_def)
  from session_run_stored [OF assms(1) this assms(2-4), of H] obtain s where s: "session_load i (session_run H i calls st) = Inr s"
      "sn_session_id s = i" "sn_project_id s = project" "\<not> session_id_invalid i"
    and ok: "lineage_ok clk stamp s (last (now # map fst calls)) \<or> unstarted s" by (rule stored_load)
  show ?thesis
  proof (intro exI [of _ s] conjI s(1))
    show "sn_events s = [] \<or> validate_recovery_lineage clk s = Inr (Diag_PASS, ''session event lineage is valid'')"
      using ok lineage_ok_pass [of clk stamp s] s(2-4) assms(6) by (auto simp: unstarted_def session_id_invalid_def)
  qed
qed

subsection \<open>Outcomes that the check rejects\<close>

datatype session_outcome =
    Out_Audit string string string
  | Out_Completion bool string string string
  | Out_Retry string string
  | Out_External string string string string

fun record_outcome :: "session_outcome \<Rightarrow> session \<Rightarrow> instant \<Rightarrow> string \<Rightarrow> session_store \<Rightarrow> session res \<times> session_store" where
  "record_outcome (Out_Audit path digest sha) s now uuid st = record_audit s path digest sha now uuid st"
| "record_outcome (Out_Completion success evidence path digest) s now uuid st =
     record_completion s success evidence path digest now uuid st"
| "record_outcome (Out_Retry reason ref) s now uuid st = mark_retry_required s reason ref now uuid st"
| "record_outcome (Out_External target i location path) s now uuid st = record_external_result s target i location path now uuid st"

fun outcome_operation :: "session_outcome \<Rightarrow> session \<Rightarrow> string" where
  "outcome_operation (Out_Audit path digest sha) s = ''audit-readonly:'' @ sha"
| "outcome_operation (Out_Completion success evidence path digest) s = ''completion:'' @ evidence"
| "outcome_operation (Out_Retry reason ref) s = ''retry-required:'' @ sn_session_id s @ '':'' @
     (case map_of (sn_artifact_hashes s) ''provider_evidence'' of None \<Rightarrow> ref | Some h \<Rightarrow> h)"
| "outcome_operation (Out_External target i location path) s = ''external-result-acceptance:'' @ i"

lemma append_unlawful:
  assumes "clock_reader clk stamp" and "clock_time now" and "lineage_ok clk stamp s now"
    and "op \<noteq> []" and "\<not> used_operation op s" and "actor \<in> set actor_values" and "sm \<noteq> []"
    and "to \<notin> set (session_targets (sn_status s))"
    and "e = append_session_event (Some (sn_status s)) to sm refs issues actor op now uuid s"
    and "\<not> valid_recorded_observation (last (sn_events e)) s"
    and "sn_events t = sn_events e" "sn_session_id t = sn_session_id s" "sn_project_id t \<noteq> []" "sn_session_id t \<noteq> []"
  shows "validate_recovery_lineage clk t = Inr (Diag_FAIL, ''event transition is not legal'')"
proof -
  have "lineage_loop clk e ([], None) (sn_events e) = Inl (diag Diag_FAIL ''event transition is not legal'')"
    using append_event_check [OF assms(1,2) disjI1 [OF assms(3)] assms(4-7,9)] assms(8,10) by simp
  moreover have "lineage_loop clk t = lineage_loop clk e" using same_loop [of t e clk] assms(9,12) by (intro ext) simp
  moreover have "sn_events e \<noteq> []" using assms(9) by (simp add: append_event_events)
  ultimately show ?thesis using assms(11,13,14) by (simp add: validate_recovery_lineage_def diag_def)
qed

lemma last_appended:
  "last (sn_events (append_session_event (Some f) to sm refs issues actor op now uuid s)) =
    \<lparr>sv_event_id = ''event-'' @ uuid, sv_operation_id = op, sv_timestamp = show_time now, sv_session_id = sn_session_id s,
      sv_event_type = session_status_value f @ ''_TO_'' @ session_status_value to, sv_from_status = Some (session_status_value f),
      sv_to_status = session_status_value to, sv_summary = take 500 sm, sv_evidence_refs = refs, sv_blocking_issues = issues,
      sv_actor = actor\<rparr>"
  by (simp add: append_event_events)

fun outcome_reason :: "session_outcome \<Rightarrow> bool" where
  "outcome_reason (Out_Retry reason ref) = (reason \<noteq> [])"
| "outcome_reason _ = True"

text \<open>The manager records the end of an audit, a completion or a pending one, a retry of the provider and
  an accepted external result on a ready session; after each, the recovery check says that the session's
  history is not legal.
\<close>

theorem recorded_outcome_rejected:
  assumes "clock_reader clk stamp" and "clock_time now" and "lineage_ok clk stamp s now" and "sn_status s = Sess_READY"
    and "sn_session_id s \<noteq> []" and "sn_project_id s \<noteq> []" and "\<not> used_operation (outcome_operation out s) s" and "outcome_reason out"
    and "record_outcome out s now uuid st = (Inr t, u)"
  shows "validate_recovery_lineage clk t = Inr (Diag_FAIL, ''event transition is not legal'')"
proof -
  note check = append_unlawful [OF assms(1,2), where uuid = uuid and op = "outcome_operation out s" and t = t]
  note saved = manager_save_fst [of _ st t]
  have targets: "Sess_AUDITED \<notin> set (session_targets Sess_READY)" "Sess_COMPLETED \<notin> set (session_targets Sess_READY)"
    "Sess_READY \<notin> set (session_targets Sess_READY)" "Sess_RETRY_REQUIRED \<notin> set (session_targets Sess_READY)"
    by (simp_all add: session_targets_def session_terminal_def)
  note obs = valid_recorded_observation_def valid_assessment_event_def last_appended starts_with_def
  show ?thesis
  proof (cases out)
    case (Out_Audit path digest sha)
    define s' where "s' = s\<lparr>sn_artifact_hashes := dict_set ''read_only_audit'' digest (sn_artifact_hashes s)\<rparr>"
    have l: "lineage_ok clk stamp s' now" using assms(3) lineage_ok_cong [of s' s] by (simp add: s'_def)
    have t: "t = append_session_event (Some (sn_status s')) Sess_AUDITED ''static read-only audit recorded, not an approved execution''
        [path] [] ''REVIEWER'' (outcome_operation out s) now uuid s'"
      using assms(4,9) saved by (fastforce simp: Out_Audit record_audit_def s'_def raise_def split: if_splits)
    show ?thesis
      by (rule check [OF l _ _ _ _ _ t _ refl])
        (use assms(4-7) targets in \<open>simp_all add: Out_Audit s'_def used_operation_def actors t obs\<close>)
  next
    case (Out_Completion success evidence path digest)
    define s' where "s' = s\<lparr>sn_artifact_hashes := dict_set (if success then ''completion'' else ''completion_attempt'') digest
      (sn_artifact_hashes s)\<rparr>"
    have l: "lineage_ok clk stamp s' now" using assms(3) lineage_ok_cong [of s' s] by (simp add: s'_def)
    have t: "t = append_session_event (Some (sn_status s')) (if success then Sess_COMPLETED else sn_status s')
        (if success then ''Objective acceptance verified'' else ''Objective acceptance pending'') [path] (sn_blocking_issues s')
        ''DIRECTOR'' (outcome_operation out s) now uuid s'"
      using assms(4,7,9) saved by (fastforce simp: Out_Completion record_completion_def Let_def s'_def split: if_splits)
    show ?thesis
      by (rule check [OF l _ _ _ _ _ t _ refl])
        (use assms(4-7) targets in \<open>simp_all add: Out_Completion s'_def used_operation_def actors t obs\<close>)
  next
    case (Out_Retry reason ref)
    have t: "t = append_session_event (Some (sn_status s)) Sess_RETRY_REQUIRED reason [ref] [reason] ''SYSTEM''
        (outcome_operation out s) now uuid s"
      using assms(7,9) saved by (fastforce simp: Out_Retry mark_retry_required_def Let_def split: if_splits)
    show ?thesis
      by (rule check [OF assms(3) _ _ _ _ _ t _ refl])
        (use assms(4-8) targets in \<open>simp_all add: Out_Retry actors t obs\<close>)
  next
    case (Out_External target i location path)
    define s' where "s' = s\<lparr>sn_base_sha := target, sn_current_stage := ''REASSESSMENT'', sn_status := Sess_READY,
         sn_blocking_issues := [], sn_required_human_actions := [],
         sn_artifact_hashes := dict_merge [(''external_result_acceptance'', location)] (historical (sn_artifact_hashes s))\<rparr>"
    have l: "lineage_ok clk stamp s' now" using assms(3,4) lineage_ok_cong [of s' s] by (simp add: s'_def)
    have t: "t = append_session_event (Some (sn_status s')) Sess_READY
       ''external result accepted; original action was not AGF-authorized'' [path] [] ''RELEASE_MANAGER''
       (outcome_operation out s) now uuid s'"
      using assms(4,9) saved by (fastforce simp: Out_External record_external_result_def s'_def)
    show ?thesis
      by (rule check [OF l _ _ _ _ _ t _ refl])
        (use assms(4-7) targets in \<open>simp_all add: Out_External s'_def used_operation_def actors t obs\<close>)
  qed
qed

text \<open>A blocked session that the manager reconciles with a newer canonical target is ready, and its
  history is no longer legal for the recovery check.
\<close>

theorem reconciled_session_rejected:
  assumes "clock_reader clk stamp" and "clock_time now" and "lineage_ok clk stamp s now" and "sn_status s = Sess_BLOCKED"
    and "sn_session_id s \<noteq> []" and "sn_project_id s \<noteq> []" and "sn_base_sha s \<noteq> pj_current_head_sha p"
    and "\<not> used_operation (''canonical-target-reconcile:'' @ pj_current_head_sha p) s"
    and "reconcile_target hs s p now uuid st = (Inr t, u)"
  shows "sn_status t = Sess_READY \<and> validate_recovery_lineage clk t = Inr (Diag_FAIL, ''event transition is not legal'')"
proof -
  define s' where "s' = s\<lparr>sn_base_sha := pj_current_head_sha p, sn_current_stage := ''REASSESSMENT'', sn_status := Sess_READY,
    sn_plan_path := None, sn_execution_report_path := None, sn_review_report_path := None, sn_compliance_report_path := None,
    sn_delivery_report_path := None, sn_delivery_branch := None, sn_pr_url := None, sn_blocking_issues := [],
    sn_required_human_actions := [],
    sn_artifact_hashes := dict_merge [(''canonical_target'', pj_current_head_sha p)] (historical (sn_artifact_hashes s))\<rparr>"
  define op where "op = ''canonical-target-reconcile:'' @ pj_current_head_sha p"
  define sm where "sm = ''canonical target reconciled; historical checkpoint retired; no delivery provenance asserted''"
  have t: "t = append_session_event (Some Sess_BLOCKED) Sess_READY sm [] [] ''SYSTEM'' op now uuid s'"
    using assms(4,7,9) manager_save_fst [of _ st t]
    by (fastforce simp: reconcile_target_def Let_def raise_def s'_def op_def sm_def split: sum.splits if_splits)
  define e where "e = append_session_event (Some (sn_status s)) Sess_READY sm [] [] ''SYSTEM'' op now uuid s"
  have te: "sn_events t = sn_events e" "sn_session_id t = sn_session_id s" "sn_project_id t = sn_project_id s"
    by (simp_all add: t e_def s'_def append_event_events assms(4))
  have target: "Sess_READY \<notin> set (session_targets (sn_status s))"
    by (simp add: assms(4) session_targets_def session_terminal_def)
  have "validate_recovery_lineage clk t = Inr (Diag_FAIL, ''event transition is not legal'')"
    by (rule append_unlawful [OF assms(1-3) _ _ _ _ target e_def _ te(1,2)])
      (use assms(5,6,8) te(2,3) in \<open>simp_all add: op_def sm_def actors e_def last_appended assms(4) valid_recorded_observation_def\<close>)
  then show ?thesis by (simp add: t)
qed

subsection \<open>A reader of timestamps, and concrete runs\<close>

definition rank :: "instant \<Rightarrow> int" where
  "rank t = (case t of [y, mo, d, h, mi, s] \<Rightarrow>
     (((((int y * 13 + int mo) * 32 + int d) * 24 + int h) * 60 + int mi) * 60 + int s) | _ \<Rightarrow> 0)"

definition sample_reader :: iso_reader where
  "sample_reader v = map_option (\<lambda>t. (True, rank t)) (strptime (take (length v - 6) v @ ''Z''))"

lemma rank_mono:
  assumes "valid_instant t" and "valid_instant u" and "t \<le> u"
  shows "rank t \<le> rank u"
proof -
  obtain y mo d h mi s where t: "t = [y, mo, d, h, mi, s]" "mo \<le> 12" "d \<le> days_in_month y mo" "h \<le> 23" "mi \<le> 59" "s \<le> 59"
    using assms(1) by (rule valid_instantE)
  obtain y' mo' d' h' mi' s' where u: "u = [y', mo', d', h', mi', s']" "mo' \<le> 12" "d' \<le> days_in_month y' mo'" "h' \<le> 23" "mi' \<le> 59" "s' \<le> 59"
    using assms(2) by (rule valid_instantE)
  have "d \<le> 31" using t(3) days_in_month_bounds(2) [of y mo] by linarith
  with t u(1) assms(3) show ?thesis unfolding rank_def t(1) u(1) list.case by auto
qed

lemma show_time_Z:
  assumes "valid_instant t"
  shows "\<exists>v. show_time t = v @ ''Z'' \<and> CHR ''Z'' \<notin> set v"
proof -
  have n: "CHR ''Z'' \<notin> set (show_nat k)" for k
    using show_nat_digits [of k] by (auto simp: list_all_iff is_digit_def)
  have p: "CHR ''Z'' \<notin> set (pad2 k)" for k using n [of k] by (simp add: pad2_def)
  from assms show ?thesis by (rule valid_instantE) (auto simp: show_time_def n p intro!: exI [of _ "_ @ _"])
qed

lemma replace_z_plain: "CHR ''Z'' \<notin> set v \<Longrightarrow> replace_z (v @ ''Z'') = v @ ''+00:00''"
proof -
  assume "CHR ''Z'' \<notin> set v"
  then have "concat (map (\<lambda>c. if c = CHR ''Z'' then ''+00:00'' else [c]) v) = v" by (induction v) auto
  then show ?thesis by (simp add: replace_z_def)
qed

lemma sample_clock_reader: "clock_reader sample_reader rank"
  unfolding clock_reader_def
proof (intro conjI allI impI)
  fix t assume t: "clock_time t"
  then obtain v where v: "show_time t = v @ ''Z''" "CHR ''Z'' \<notin> set v" using show_time_Z by (auto simp: clock_time_def)
  have "strptime (v @ ''Z'') = Some t" using strptime_show [of t] t v(1) by (simp add: clock_time_def)
  then show "sample_reader (replace_z (show_time t)) = Some (True, rank t)" using v by (simp add: sample_reader_def replace_z_plain)
next
  fix t u assume "clock_time t" "clock_time u" "t \<le> u"
  then show "rank t \<le> rank u" by (auto simp: clock_time_def intro: rank_mono)
qed

lemma manager_lineage_passes_witness:
  "\<exists>s. session_load ''session-1'' (session_run id ''session-1''
      [([2024, 1, 1, 0, 0, 0], ''1'', Call_Plan (Inr (''{}'', True)) (Inr ())), ([2024, 1, 1, 0, 0, 5], ''2'', Call_Execute),
       ([2024, 1, 1, 0, 1, 0], ''3'', Call_Stale ''drift'' ''look''), ([2024, 1, 2, 0, 0, 0], ''4'', Call_Cancel ''enough'')]
      (store_of (new_session ''session-1'' ''project-1'' ''Fix the links'' ''c0ffee'' [2024, 1, 1, 0, 0, 0] [2024, 1, 1, 0, 0, 0]))) = Inr s \<and>
    (sn_events s = [] \<or> validate_recovery_lineage sample_reader s = Inr (Diag_PASS, ''session event lineage is valid''))"
proof (rule manager_lineage_passes [OF sample_clock_reader])
  show "session_load ''session-1'' (store_of (new_session ''session-1'' ''project-1'' ''Fix the links'' ''c0ffee''
      [2024, 1, 1, 0, 0, 0] [2024, 1, 1, 0, 0, 0])) =
    Inr (new_session ''session-1'' ''project-1'' ''Fix the links'' ''c0ffee'' [2024, 1, 1, 0, 0, 0] [2024, 1, 1, 0, 0, 0])"
    using store_of_load [of "new_session ''session-1'' ''project-1'' ''Fix the links'' ''c0ffee'' [2024, 1, 1, 0, 0, 0] [2024, 1, 1, 0, 0, 0]"]
    by (simp add: new_session_def session_1_valid)
qed (simp_all add: clock_time_def valid_instant_def days_in_month_def)

definition sample_instant :: instant where
  "sample_instant = [2024, 1, 1, 0, 0, 0]"

lemma sample_time_clock: "clock_time sample_instant"
  by (simp add: sample_instant_def clock_time_def valid_instant_def days_in_month_def)

text \<open>A ready session whose history is legal\<close>

lemma ready_lineage:
  "lineage_ok sample_reader rank (append_session_event (Some Sess_PLANNING) Sess_READY ''planned'' [] [] ''DIRECTOR'' ''session-start'' sample_instant ''1''
     (new_session ''session-1'' ''project-1'' ''audit the links'' ''c0ffee'' sample_instant sample_instant)) sample_instant"
proof -
  let ?s = "new_session ''session-1'' ''project-1'' ''audit the links'' ''c0ffee'' sample_instant sample_instant"
  have u: "unstarted ?s" and p: "sn_status ?s = Sess_PLANNING" by (simp_all add: unstarted_def new_session_def)
  show ?thesis
    using append_lawful [OF sample_clock_reader sample_time_clock disjI2 [OF u], of "''session-start''" "''DIRECTOR''" "''planned''" Sess_READY]
      planning_targets(1) actors(1) used_operation_none [of ?s] u by (simp add: p unstarted_def)
qed

definition planned_session :: session where
  "planned_session = append_session_event (Some Sess_PLANNING) Sess_READY ''planned'' [] [] ''DIRECTOR'' ''session-start'' sample_instant ''1''
     (new_session ''session-1'' ''project-1'' ''audit the links'' ''c0ffee'' sample_instant sample_instant)"

lemma planned_session_simps:
  "sn_status planned_session = Sess_READY" "sn_session_id planned_session = ''session-1''" "sn_project_id planned_session = ''project-1''"
  "used_operation op planned_session \<longleftrightarrow> op = ''session-start''" "sn_goal planned_session = ''audit the links''"
  by (auto simp: planned_session_def new_session_def used_operation_def append_event_events)
    (simp add: append_session_event_def py_words_def py_space_def)

lemma recorded_outcome_rejected_witness:
  "\<exists>t u. record_outcome (Out_Audit ''/a'' ''d'' ''r'') planned_session sample_instant ''2'' (store_of planned_session) = (Inr t, u) \<and>
    validate_recovery_lineage sample_reader t = Inr (Diag_FAIL, ''event transition is not legal'')"
proof -
  let ?out = "Out_Audit ''/a'' ''d'' ''r''"
  have "is_ok (fst (record_outcome ?out planned_session sample_instant ''2'' (store_of planned_session)))"
    by (simp add: record_audit_def planned_session_simps manager_save_ok session_1_valid) (simp add: ascii_lower_def Let_def starts_with_def)
  then obtain t u where r: "record_outcome ?out planned_session sample_instant ''2'' (store_of planned_session) = (Inr t, u)"
    unfolding is_ok_iff by (metis prod.collapse)
  have "validate_recovery_lineage sample_reader t = Inr (Diag_FAIL, ''event transition is not legal'')"
    by (rule recorded_outcome_rejected [OF sample_clock_reader sample_time_clock ready_lineage [folded planned_session_def] _ _ _ _ _ r])
      (simp_all add: planned_session_simps)
  with r show ?thesis by blast
qed

definition blocked_session :: session where
  "blocked_session = append_session_event (Some Sess_READY) Sess_BLOCKED ''stop'' [] [] ''HUMAN'' ''stop'' sample_instant ''2'' planned_session"

lemma blocked_session_simps:
  "sn_status blocked_session = Sess_BLOCKED" "sn_session_id blocked_session = ''session-1''" "sn_project_id blocked_session = ''project-1''"
  "used_operation op blocked_session \<longleftrightarrow> op = ''session-start'' \<or> op = ''stop''" "sn_base_sha blocked_session = ''c0ffee''"
  "sn_blocking_issues blocked_session = []" "sn_required_human_actions blocked_session = []"
  by (auto simp: blocked_session_def planned_session_def new_session_def used_operation_def append_event_events)
    (simp_all add: append_session_event_def)

lemma blocked_lineage: "lineage_ok sample_reader rank blocked_session sample_instant"
proof -
  have "Sess_BLOCKED \<in> set (session_targets Sess_READY)" by (simp add: session_targets_def session_terminal_def)
  then show ?thesis
    using append_lawful [OF sample_clock_reader sample_time_clock disjI1 [OF ready_lineage [folded planned_session_def]], of "''stop''" "''HUMAN''" "''stop''"
        Sess_BLOCKED "[]" "[]" "''2''"] actors(3) by (simp add: blocked_session_def planned_session_simps)
qed

definition moved_host :: host where
  "moved_host = sample_host\<lparr>hs_git := (\<lambda>root args. if args = [''status'', ''--porcelain''] then Inr []
     else if args = [''branch'', ''--show-current''] then Inr ''main'' else Inr ''beef'')\<rparr>"

lemma reconciled_session_rejected_witness:
  "\<exists>t u. reconcile_target moved_host blocked_session (sample_project\<lparr>pj_current_head_sha := ''beef''\<rparr>) sample_instant ''3''
      (store_of blocked_session) = (Inr t, u) \<and> sn_status t = Sess_READY \<and>
    validate_recovery_lineage sample_reader t = Inr (Diag_FAIL, ''event transition is not legal'')"
proof -
  let ?p = "sample_project\<lparr>pj_current_head_sha := ''beef''\<rparr>"
  have "is_ok (fst (reconcile_target moved_host blocked_session ?p sample_instant ''3'' (store_of blocked_session)))"
    by (simp add: reconcile_target_def moved_host_def sample_project_def blocked_session_simps manager_save_ok session_1_valid)
  then obtain t u where r: "reconcile_target moved_host blocked_session ?p sample_instant ''3'' (store_of blocked_session) = (Inr t, u)"
    unfolding is_ok_iff by (metis prod.collapse)
  have "sn_status t = Sess_READY \<and> validate_recovery_lineage sample_reader t = Inr (Diag_FAIL, ''event transition is not legal'')"
    by (rule reconciled_session_rejected [OF sample_clock_reader sample_time_clock blocked_lineage _ _ _ _ _ r])
      (simp_all add: blocked_session_simps)
  with r show ?thesis by blast
qed

end
