(* ===== verification/Authority.thy ===== *)
theory Authority
  imports Project CanonicalJson
begin

section \<open>Authority generations (authority_generation.py, owner_authority.py)\<close>

text \<open>
  The signed bundle of a project's authority, its validator and JSON form, and the verification of the
  owner's envelope. The pinned anchor, the test of a signature and the keyed hash of the legacy scheme
  belong to files of the owner and to a cryptographic package: they are the record \<open>crypto\<close>, with
  \<open>cr_hash\<close> for SHA-256 in hexadecimal. A leaf of a document whose JSON type is not the declared one
  is rejected as a whole.
\<close>

datatype generation_status = Gen_PREPARING | Gen_PREPARED | Gen_VERIFIED | Gen_ACTIVE | Gen_SUPERSEDED

fun generation_status_value :: "generation_status \<Rightarrow> string" where
  "generation_status_value Gen_PREPARING = ''PREPARING''"
| "generation_status_value Gen_PREPARED = ''PREPARED''"
| "generation_status_value Gen_VERIFIED = ''VERIFIED''"
| "generation_status_value Gen_ACTIVE = ''ACTIVE''"
| "generation_status_value Gen_SUPERSEDED = ''SUPERSEDED''"

definition generation_status_of :: "string \<Rightarrow> generation_status option" where
  "generation_status_of v = map_of (map (\<lambda>s. (generation_status_value s, s))
     [Gen_PREPARING, Gen_PREPARED, Gen_VERIFIED, Gen_ACTIVE, Gen_SUPERSEDED]) v"

definition authority_components :: "string list" where
  "authority_components = [''constitution'', ''policy'', ''activation'', ''rollback'', ''registration'', ''provider_intelligence'']"

definition objective_part :: string where
  "objective_part = ''objective_acceptance''"

definition additional_objectives :: string where
  "additional_objectives = ''objective_acceptances''"

record authority_component =
  ak_name :: string
  ak_generation_id :: string
  ak_artifact_hash :: string
  ak_scheme :: string
  ak_project_id :: string
  ak_semantic_hash :: string
  ak_artifact_path :: "string option"
  ak_artifact_signature :: json

record generation =
  ag_generation_id :: string
  ag_project_id :: string
  ag_scheme :: string
  ag_owner_key_id :: string
  ag_owner_fingerprint :: string
  ag_constitution_id :: string
  ag_constitution_hash :: string
  ag_policy_hash :: string
  ag_operation_id :: string
  ag_status :: generation_status
  ag_components :: "authority_component list"
  ag_manifest_hash :: string
  ag_generation_number :: int
  ag_predecessor_id :: "string option"
  ag_predecessor_hash :: "string option"
  ag_signature :: json
  ag_schema_version :: string

abbreviation authority_error :: "string \<Rightarrow> 'a res" where
  "authority_error m \<equiv> raise AuthorityGenerationError m"

subsection \<open>The owner's envelope\<close>

record crypto =
  cr_hash :: "string \<Rightarrow> string"
  cr_anchor :: "(string \<times> string) res"
  cr_signed :: "json \<Rightarrow> string \<Rightarrow> bool"
  cr_legacy :: "(string \<Rightarrow> string) option"

definition envelope_keys :: "string list" where
  "envelope_keys = [''signature_scheme'', ''signature_version'', ''key_id'', ''public_key_fingerprint'', ''payload_hash'', ''signature'']"

text \<open>\<open>cr_anchor\<close> gives the key's identifier and the pinned fingerprint, \<open>cr_signed\<close> tests a signature
  on a text.\<close>

definition verify_envelope :: "crypto \<Rightarrow> json \<Rightarrow> json \<Rightarrow> unit res" where
  "verify_envelope cr payload envelope =
     (if \<not> has_keys envelope_keys envelope then raise OwnerAuthorityError ''owner signature envelope schema is invalid''
      else and_then (cr_anchor cr) (\<lambda>(key_id, pinned). steps [
        raise_if (field ''signature_scheme'' envelope \<noteq> Some (JStr ''Ed25519'') \<or>
          field ''signature_version'' envelope \<noteq> Some (JStr ''1'')) OwnerAuthorityError ''owner signature scheme is invalid'',
        raise_if (field ''key_id'' envelope \<noteq> Some (JStr key_id)) OwnerAuthorityError ''owner signature key identity mismatch'',
        raise_if (field ''public_key_fingerprint'' envelope \<noteq> Some (JStr pinned)) OwnerAuthorityError
          ''owner signature fingerprint mismatch'',
        raise_if (field ''payload_hash'' envelope \<noteq> Some (JStr (cr_hash cr (dump payload)))) OwnerAuthorityError
          ''owner signature payload hash mismatch'',
        raise_if (\<not> cr_signed cr (field_or JNull ''signature'' envelope) (dump payload)) OwnerAuthorityError
          ''owner signature is invalid'']))"

subsection \<open>The JSON form\<close>

definition component_to_dict :: "authority_component \<Rightarrow> json" where
  "component_to_dict c = JObj [(''name'', JStr (ak_name c)), (''generation_id'', JStr (ak_generation_id c)),
     (''artifact_hash'', JStr (ak_artifact_hash c)), (''scheme'', JStr (ak_scheme c)),
     (''project_id'', JStr (ak_project_id c)), (''semantic_hash'', JStr (ak_semantic_hash c)),
     (''artifact_path'', enc_opt (ak_artifact_path c)), (''artifact_signature'', ak_artifact_signature c)]"

definition unsigned_members :: "generation \<Rightarrow> (string \<times> json) list" where
  "unsigned_members g = [(''generation_id'', JStr (ag_generation_id g)), (''project_id'', JStr (ag_project_id g)),
     (''scheme'', JStr (ag_scheme g)), (''owner_key_id'', JStr (ag_owner_key_id g)),
     (''owner_fingerprint'', JStr (ag_owner_fingerprint g)), (''constitution_id'', JStr (ag_constitution_id g)),
     (''constitution_hash'', JStr (ag_constitution_hash g)), (''policy_hash'', JStr (ag_policy_hash g)),
     (''operation_id'', JStr (ag_operation_id g)), (''status'', JStr (generation_status_value (ag_status g))),
     (''components'', JList (map component_to_dict (ag_components g))),
     (''generation_number'', JInt (ag_generation_number g)), (''predecessor_id'', enc_opt (ag_predecessor_id g)),
     (''predecessor_hash'', enc_opt (ag_predecessor_hash g))] @
     (if ag_schema_version g \<noteq> ''1.0'' then [(''schema_version'', JStr (ag_schema_version g))] else [])"

definition unsigned_generation :: "generation \<Rightarrow> json" where
  "unsigned_generation g = JObj (unsigned_members g)"

definition generation_to_dict :: "generation \<Rightarrow> json" where
  "generation_to_dict g = JObj (unsigned_members g @
     [(''manifest_hash'', JStr (ag_manifest_hash g)), (''signature'', ag_signature g)])"

definition generation_keys :: "string list" where
  "generation_keys = [''generation_id'', ''project_id'', ''scheme'', ''owner_key_id'', ''owner_fingerprint'', ''constitution_id'',
     ''constitution_hash'', ''policy_hash'', ''operation_id'', ''status'', ''components'', ''manifest_hash'',
     ''generation_number'', ''predecessor_id'', ''predecessor_hash'', ''signature'']"

text \<open>\<open>AuthorityComponent(**item)\<close>: the last two fields have defaults\<close>

definition component_of :: "json \<Rightarrow> authority_component option" where
  "component_of v = (if \<not> is_dict v \<or> \<not> set (keys_of v) \<subseteq> {''name'', ''generation_id'', ''artifact_hash'', ''scheme'',
       ''project_id'', ''semantic_hash'', ''artifact_path'', ''artifact_signature''} then None else do {
     a \<leftarrow> Option.bind (field ''name'' v) the_str;
     b \<leftarrow> Option.bind (field ''generation_id'' v) the_str;
     c \<leftarrow> Option.bind (field ''artifact_hash'' v) the_str;
     d \<leftarrow> Option.bind (field ''scheme'' v) the_str;
     e \<leftarrow> Option.bind (field ''project_id'' v) the_str;
     f \<leftarrow> Option.bind (field ''semantic_hash'' v) the_str;
     g \<leftarrow> opt_str (field_or JNull ''artifact_path'' v);
     Some \<lparr>ak_name = a, ak_generation_id = b, ak_artifact_hash = c, ak_scheme = d, ak_project_id = e, ak_semantic_hash = f,
       ak_artifact_path = g, ak_artifact_signature = field_or JNull ''artifact_signature'' v\<rparr>})"

definition generation_leaves :: "json \<Rightarrow> authority_component list \<Rightarrow> generation_status \<Rightarrow> generation option" where
  "generation_leaves v cs st = do {
     a \<leftarrow> Option.bind (field ''generation_id'' v) the_str;
     b \<leftarrow> Option.bind (field ''project_id'' v) the_str;
     c \<leftarrow> Option.bind (field ''scheme'' v) the_str;
     d \<leftarrow> Option.bind (field ''owner_key_id'' v) the_str;
     e \<leftarrow> Option.bind (field ''owner_fingerprint'' v) the_str;
     f \<leftarrow> Option.bind (field ''constitution_id'' v) the_str;
     g \<leftarrow> Option.bind (field ''constitution_hash'' v) the_str;
     h \<leftarrow> Option.bind (field ''policy_hash'' v) the_str;
     i \<leftarrow> Option.bind (field ''operation_id'' v) the_str;
     j \<leftarrow> Option.bind (field ''manifest_hash'' v) the_str;
     k \<leftarrow> Option.bind (field ''generation_number'' v) the_int;
     l \<leftarrow> Option.bind (field ''predecessor_id'' v) opt_str;
     m \<leftarrow> Option.bind (field ''predecessor_hash'' v) opt_str;
     n \<leftarrow> field ''signature'' v;
     p \<leftarrow> the_str (field_or (JStr ''1.0'') ''schema_version'' v);
     Some \<lparr>ag_generation_id = a, ag_project_id = b, ag_scheme = c, ag_owner_key_id = d, ag_owner_fingerprint = e,
       ag_constitution_id = f, ag_constitution_hash = g, ag_policy_hash = h, ag_operation_id = i, ag_status = st,
       ag_components = cs, ag_manifest_hash = j, ag_generation_number = k, ag_predecessor_id = l, ag_predecessor_hash = m,
       ag_signature = n, ag_schema_version = p\<rparr>}"

definition generation_from_dict :: "json \<Rightarrow> generation res" where
  "generation_from_dict v =
     (if \<not> has_keys generation_keys v \<and> \<not> has_keys (generation_keys @ [''schema_version'']) v
      then authority_error ''authority generation schema is invalid''
      else if field ''schema_version'' v \<noteq> None \<and> field ''schema_version'' v \<noteq> Some (JStr ''2.0'')
      then authority_error ''explicit authority schema must be 2.0''
      else (case (Option.bind (Option.bind (field ''components'' v) tuple_of) (decode_all component_of),
          Option.bind (Option.bind (field ''status'' v) the_str) generation_status_of) of
        (Some cs, Some st) \<Rightarrow> (case generation_leaves v cs st of
            None \<Rightarrow> authority_error ''authority generation schema is invalid'' | Some g \<Rightarrow> Inr g)
      | _ \<Rightarrow> authority_error ''authority generation schema is invalid''))"

subsection \<open>Validation\<close>

definition component_validate :: "string \<Rightarrow> string \<Rightarrow> string \<Rightarrow> authority_component \<Rightarrow> unit res" where
  "component_validate project i scheme c = steps [
     raise_if (ak_name c \<notin> set (authority_components @ [objective_part, additional_objectives])) AuthorityGenerationError
       ''unknown authority component'',
     raise_if (ak_generation_id c \<noteq> i \<or> ak_project_id c \<noteq> project) AuthorityGenerationError
       ''authority component binding is invalid'',
     raise_if (ak_scheme c \<noteq> scheme) AuthorityGenerationError ''authority component scheme is mixed'',
     raise_if (\<not> sha256_match (ak_artifact_hash c) \<or> \<not> sha256_match (ak_semantic_hash c)) AuthorityGenerationError
       ''authority component hash is invalid'',
     raise_if (case ak_artifact_path c of None \<Rightarrow> False
       | Some p \<Rightarrow> p = [] \<or> starts_with ''/'' p \<or> ''..'' \<in> set (path_parts p)) AuthorityGenerationError
       ''authority component path is unsafe'',
     raise_if (ak_scheme c = ''Ed25519'' \<and> \<not> is_dict (ak_artifact_signature c)) AuthorityGenerationError
       ''authority component signature is missing'']"

definition manifest_hash :: "crypto \<Rightarrow> generation \<Rightarrow> string" where
  "manifest_hash cr g = cr_hash cr (dump (unsigned_generation g))"

definition check_signature :: "crypto \<Rightarrow> generation \<Rightarrow> unit res" where
  "check_signature cr g = (if ag_scheme g \<noteq> ''Ed25519'' then Inr ()
     else if \<not> is_dict (ag_signature g) then authority_error ''authority generation signature is missing''
     else replace_exc (\<lambda>c. c = OwnerAuthorityError) AuthorityGenerationError ''authority generation signature is invalid''
       (verify_envelope cr (unsigned_generation g) (ag_signature g)))"

definition expected_components :: "generation \<Rightarrow> string list" where
  "expected_components g = authority_components @ (if ag_schema_version g = ''2.0'' then objective_part #
     (if additional_objectives \<in> ak_name ` set (ag_components g) then [additional_objectives] else []) else [])"

text \<open>\<open>items[name].semantic_hash\<close>: of two components with one name the later one counts\<close>

definition semantic_hash_of :: "string \<Rightarrow> generation \<Rightarrow> string option" where
  "semantic_hash_of n g = map_of (rev (map (\<lambda>c. (ak_name c, ak_semantic_hash c)) (ag_components g))) n"

definition generation_validate :: "crypto \<Rightarrow> bool \<Rightarrow> generation \<Rightarrow> unit res" where
  "generation_validate cr active g = steps [
     raise_if (ag_schema_version g \<notin> {''1.0'', ''2.0''}) AuthorityGenerationError ''unsupported authority generation schema'',
     raise_if (ag_schema_version g = ''2.0'' \<and> ag_scheme g \<noteq> ''Ed25519'') AuthorityGenerationError
       ''Objective authority requires the pinned owner scheme'',
     raise_if (ag_generation_id g = [] \<or> \<not> starts_with ''project-'' (ag_project_id g)) AuthorityGenerationError
       ''authority generation identity is invalid'',
     raise_if (ag_scheme g \<notin> {''HMAC-SHA256'', ''Ed25519''}) AuthorityGenerationError ''authority generation scheme is invalid'',
     raise_if (ag_owner_key_id g = [] \<or> length (ag_owner_fingerprint g) \<noteq> 64) AuthorityGenerationError
       ''authority owner binding is invalid'',
     raise_if (ag_constitution_id g = [] \<or> length (ag_constitution_hash g) \<noteq> 64) AuthorityGenerationError
       ''authority Constitution binding is invalid'',
     raise_if (length (ag_policy_hash g) \<noteq> 64 \<or> ag_operation_id g = []) AuthorityGenerationError
       ''authority policy binding is invalid'',
     raise_if (ag_generation_number g < 1) AuthorityGenerationError ''authority generation number is invalid'',
     raise_if (ag_predecessor_id g \<noteq> None \<and> (ag_predecessor_hash g = None \<or> ag_predecessor_hash g = Some []))
       AuthorityGenerationError ''authority predecessor binding is incomplete'',
     raise_if (ag_manifest_hash g \<noteq> manifest_hash cr g) AuthorityGenerationError ''authority manifest hash is invalid'',
     check_signature cr g,
     raise_if (set (map ak_name (ag_components g)) \<noteq> set (expected_components g) \<or>
       length (ag_components g) \<noteq> length (expected_components g)) AuthorityGenerationError ''authority generation is incomplete'',
     for_each (component_validate (ag_project_id g) (ag_generation_id g) (ag_scheme g)) (ag_components g),
     raise_if (semantic_hash_of ''constitution'' g \<noteq> Some (ag_constitution_hash g)) AuthorityGenerationError
       ''Constitution hash binding is inconsistent'',
     raise_if (semantic_hash_of ''policy'' g \<noteq> Some (ag_policy_hash g)) AuthorityGenerationError
       ''policy hash binding is inconsistent'',
     raise_if (active \<and> ag_status g \<noteq> Gen_ACTIVE) AuthorityGenerationError ''selected authority generation is not ACTIVE'']"

text \<open>The keyed hash of the legacy scheme\<close>

definition legacy_signature :: "crypto \<Rightarrow> generation \<Rightarrow> string option" where
  "legacy_signature cr g = map_option (\<lambda>h. h (dump_ascii (unsigned_generation g))) (cr_legacy cr)"

definition verify_legacy :: "crypto \<Rightarrow> generation \<Rightarrow> unit res" where
  "verify_legacy cr g = (if ag_scheme g \<noteq> ''HMAC-SHA256'' then Inr ()
     else (case (legacy_signature cr g, ag_signature g) of
       (Some expected, JStr signature) \<Rightarrow>
         raise_if (signature \<noteq> expected) AuthorityGenerationError ''legacy HMAC generation signature is invalid''
     | _ \<Rightarrow> authority_error ''legacy HMAC generation requires explicit owner key''))"

definition sign_legacy :: "crypto \<Rightarrow> generation \<Rightarrow> generation res" where
  "sign_legacy cr g = (if ag_scheme g \<noteq> ''HMAC-SHA256'' then Inr g
     else (case legacy_signature cr g of
       None \<Rightarrow> authority_error ''legacy HMAC generation requires explicit owner key''
     | Some s \<Rightarrow> Inr (g\<lparr>ag_signature := JStr s\<rparr>)))"

text \<open>\<open>build_generation(**{**g.__dict__, "status": ..., "signature": ...})\<close>\<close>

definition rebuild :: "crypto \<Rightarrow> generation \<Rightarrow> generation" where
  "rebuild cr g = g\<lparr>ag_manifest_hash := manifest_hash cr g\<rparr>"

end
