(* ===== verification/AuthorityStore.thy ===== *)
theory AuthorityStore
  imports Authority
begin

section \<open>The store of authority generations (authority_generation.py)\<close>

text \<open>
  The directory of a project with a valid identity, from file names to contents: the generations, the selector of the active one,
  the floor below which no generation may be active, and the journal of a change of the three. A commit
  is five steps, each atomic, and may stop after any of them; the next reader completes it.
  \<open>base\<close> is the path of the directory and \<open>resolve\<close> the resolution of paths by the file system; a
  file that a recovery would write elsewhere below the directory has its relative path as name.
\<close>

type_synonym authority_dir = "(string \<times> file_content) list"

definition generation_file :: "string \<Rightarrow> string" where
  "generation_file i = i @ ''.json''"

definition selector_file :: string where
  "selector_file = ''active.json''"

definition floor_file :: string where
  "floor_file = ''generation-floor.json''"

definition transition_file :: string where
  "transition_file = ''metadata-transition.json''"

definition read_file :: "string \<Rightarrow> authority_dir \<Rightarrow> file_content" where
  "read_file n d = (case map_of d n of None \<Rightarrow> No_File | Some c \<Rightarrow> c)"

text \<open>\<open>_atomic_write\<close> and \<open>unlink\<close>\<close>

definition write_file :: "string \<Rightarrow> json \<Rightarrow> authority_dir \<Rightarrow> authority_dir" where
  "write_file n v d = dict_set n (Json v) d"

definition unlink_file :: "string \<Rightarrow> authority_dir \<Rightarrow> authority_dir" where
  "unlink_file n d = dict_set n No_File d"

text \<open>\<open>_validate_project_id\<close> and \<open>_validate_generation_id\<close>\<close>

definition project_id_ok :: "string \<Rightarrow> bool" where
  "project_id_ok p = (starts_with ''project-'' p \<and> length p = 24 \<and> list_all is_hex (drop 8 p))"

definition generation_id_ok :: "string \<Rightarrow> bool" where
  "generation_id_ok i = (starts_with ''generation-'' i \<and> (case drop 11 i of [] \<Rightarrow> False
     | c # cs \<Rightarrow> is_digit c \<and> c \<noteq> CHR ''0'' \<and> list_all is_digit cs))"

text \<open>The name relative to the directory of a path inside it\<close>

definition inside :: "(string \<Rightarrow> string) \<Rightarrow> string \<Rightarrow> string \<Rightarrow> string option" where
  "inside resolve base p = (let b = path_parts (resolve base); q = path_parts (resolve p) in
     if strict_prefix b q then Some (join_on (CHR ''/'') (drop (length b) q)) else None)"

definition incomplete :: "'a res" where
  "incomplete = authority_error ''authority metadata transition is incomplete''"

text \<open>\<open>v[key]\<close> of a decoded document\<close>

definition subscript :: "string \<Rightarrow> json \<Rightarrow> json res" where
  "subscript k v = (if is_dict v then (case field k v of None \<Rightarrow> raise KeyError k | Some w \<Rightarrow> Inr w) else incomplete)"

text \<open>\<open>_recover_metadata\<close>: what was written before an error stays.\<close>

definition recover_metadata ::
    "(string \<Rightarrow> string) \<Rightarrow> string \<Rightarrow> string \<Rightarrow> authority_dir \<Rightarrow> unit res \<times> authority_dir" where
  "recover_metadata resolve base project d = (case read_file transition_file d of
     No_File \<Rightarrow> (Inr (), d)
   | Not_Json \<Rightarrow> (incomplete, d)
   | Json t \<Rightarrow>
     if \<not> is_dict t then (raise AttributeError [], d)
     else if field ''project_id'' t \<noteq> Some (JStr project) then (incomplete, d)
     else (case and_then (subscript ''generation'' t) (\<lambda>g. and_then (subscript ''path'' g) (\<lambda>p. Inr (g, p))) of
       Inl e \<Rightarrow> (Inl e, d)
     | Inr (g, p) \<Rightarrow> (case Option.bind (the_str p) (inside resolve base) of
         None \<Rightarrow> (incomplete, d)
       | Some name \<Rightarrow> (case subscript ''payload'' g of
           Inl e \<Rightarrow> (Inl e, d)
         | Inr payload \<Rightarrow> (let d1 = write_file name payload d in case subscript ''selector'' t of
             Inl e \<Rightarrow> (Inl e, d1)
           | Inr selector \<Rightarrow> (let d2 = write_file selector_file selector d1 in case subscript ''floor'' t of
               Inl e \<Rightarrow> (Inl e, d2)
             | Inr floor \<Rightarrow> (Inr (), unlink_file transition_file (write_file floor_file floor d2))))))))"

definition load_generation :: "crypto \<Rightarrow> string \<Rightarrow> string \<Rightarrow> authority_dir \<Rightarrow> generation res" where
  "load_generation cr project i d =
     (if \<not> generation_id_ok i \<or> \<not> project_id_ok project
      then authority_error (if generation_id_ok i then ''authority project identity is invalid'' else ''authority generation identity is invalid'')
      else and_then (case read_file (generation_file i) d of
          Json v \<Rightarrow> replace_exc (\<lambda>c. is_value_error c \<or> c \<in> {OSError, TypeError}) AuthorityGenerationError
            ''authority generation is unavailable'' (generation_from_dict v)
        | _ \<Rightarrow> authority_error ''authority generation is unavailable'') (\<lambda>g.
        if ag_generation_id g \<noteq> i \<or> ag_project_id g \<noteq> project
        then authority_error ''authority generation identity does not match path''
        else and_then (generation_validate cr False g) (\<lambda>_. and_then (verify_legacy cr g) (\<lambda>_. Inr g))))"

text \<open>\<open>glob("generation-*.json")\<close> without the floor, as stems\<close>

definition generation_stems :: "authority_dir \<Rightarrow> string list" where
  "generation_stems d = map (\<lambda>n. take (length n - 5) n) (filter (\<lambda>n. starts_with ''generation-'' n \<and> ends_with ''.json'' n \<and>
     CHR ''/'' \<notin> set n \<and> n \<noteq> floor_file \<and> read_file n d \<noteq> No_File) (remdups (map fst d)))"

definition committed :: "generation \<Rightarrow> bool" where
  "committed g = (ag_status g = Gen_ACTIVE \<or> ag_status g = Gen_SUPERSEDED)"

definition floor_keys :: "string list" where
  "floor_keys = [''schema_version'', ''project_id'', ''generation_number'']"

text \<open>The number in the floor's document, which must not be below a committed generation\<close>

definition stored_floor :: "crypto \<Rightarrow> string \<Rightarrow> json \<Rightarrow> authority_dir \<Rightarrow> int res" where
  "stored_floor cr project v d =
     (if \<not> has_keys floor_keys v \<or> field ''schema_version'' v \<noteq> Some (JStr ''1.0'') \<or> field ''project_id'' v \<noteq> Some (JStr project)
      then raise ValueError []
      else (case Option.bind (field ''generation_number'' v) the_int of
        None \<Rightarrow> raise ValueError []
      | Some n \<Rightarrow> if n < 0 then raise ValueError []
          else and_then (map_res (\<lambda>i. load_generation cr project i d) (generation_stems d)) (\<lambda>gs.
            if list_ex (\<lambda>g. committed g \<and> n < ag_generation_number g) gs
            then authority_error ''authority generation floor was downgraded'' else Inr n)))"

definition floor_of ::
    "crypto \<Rightarrow> (string \<Rightarrow> string) \<Rightarrow> string \<Rightarrow> string \<Rightarrow> authority_dir \<Rightarrow> int res \<times> authority_dir" where
  "floor_of cr resolve base project d = (case recover_metadata resolve base project d of
     (Inl e, u) \<Rightarrow> (Inl e, u)
   | (Inr _, u) \<Rightarrow> (case read_file floor_file u of
       No_File \<Rightarrow> (and_then (for_each (\<lambda>i. and_then (load_generation cr project i u) (\<lambda>g.
           raise_if (committed g) AuthorityGenerationError ''committed authority floor is missing'')) (generation_stems u))
           (\<lambda>_. Inr 0), u)
     | Not_Json \<Rightarrow> (authority_error ''authority generation floor is invalid'', u)
     | Json v \<Rightarrow> (replace_exc (\<lambda>c. is_value_error c \<or> c \<in> {OSError, TypeError}) AuthorityGenerationError
         ''authority generation floor is invalid'' (stored_floor cr project v u), u)))"

definition selector_keys :: "string list" where
  "selector_keys = [''schema_version'', ''project_id'', ''generation_id'', ''manifest_hash'']"

definition active_generation ::
    "crypto \<Rightarrow> (string \<Rightarrow> string) \<Rightarrow> string \<Rightarrow> string \<Rightarrow> authority_dir \<Rightarrow> generation res \<times> authority_dir" where
  "active_generation cr resolve base project d = (case recover_metadata resolve base project d of
     (Inl e, u) \<Rightarrow> (Inl e, u)
   | (Inr _, u) \<Rightarrow> (case read_file selector_file u of
       Json v \<Rightarrow>
         if \<not> has_keys selector_keys v then (authority_error ''active authority selector schema is invalid'', u)
         else if field ''schema_version'' v \<noteq> Some (JStr ''1.0'') \<or> field ''project_id'' v \<noteq> Some (JStr project)
         then (authority_error ''active authority selector project mismatch'', u)
         else (case (Option.bind (field ''generation_id'' v) the_str, Option.bind (field ''manifest_hash'' v) the_str) of
           (Some i, Some h) \<Rightarrow>
             if i = [] \<or> h = [] then (authority_error ''active authority selector values are invalid'', u)
             else (case load_generation cr project i u of
               Inl e \<Rightarrow> (Inl e, u)
             | Inr g \<Rightarrow>
               if ag_manifest_hash g \<noteq> h then (authority_error ''active authority selector hash mismatch'', u)
               else (case floor_of cr resolve base project u of
                 (Inl e, w) \<Rightarrow> (Inl e, w)
               | (Inr n, w) \<Rightarrow>
                 if ag_generation_number g < n then (authority_error ''active authority generation is below monotonic floor'', w)
                 else (and_then (generation_validate cr True g) (\<lambda>_. Inr g), w)))
         | _ \<Rightarrow> (authority_error ''active authority selector values are invalid'', u))
     | _ \<Rightarrow> (authority_error ''active authority selector is unavailable'', u)))"

subsection \<open>Preparation and activation\<close>

definition save_prepared :: "crypto \<Rightarrow> generation \<Rightarrow> authority_dir \<Rightarrow> unit res \<times> authority_dir" where
  "save_prepared cr g0 d =
     (case and_then (sign_legacy cr g0) (\<lambda>g. and_then (generation_validate cr False g) (\<lambda>_. and_then (verify_legacy cr g) (\<lambda>_. Inr g))) of
        Inl e \<Rightarrow> (Inl e, d)
      | Inr g \<Rightarrow>
        if committed g then (authority_error ''only non-active generations may be prepared'', d)
        else if \<not> generation_id_ok (ag_generation_id g) then (authority_error ''authority generation identity is invalid'', d)
        else if \<not> project_id_ok (ag_project_id g) then (authority_error ''authority project identity is invalid'', d)
        else (let n = generation_file (ag_generation_id g) in
          if read_file n d = No_File then (Inr (), write_file n (generation_to_dict g) d)
          else (case load_generation cr (ag_project_id g) (ag_generation_id g) d of
            Inl e \<Rightarrow> (Inl e, d)
          | Inr previous \<Rightarrow>
            if ag_schema_version g = ''2.0'' \<or> ag_schema_version previous = ''2.0''
            then (if previous \<noteq> g then authority_error ''Objective generation cannot be overwritten'' else Inr (), d)
            else (Inr (), write_file n (generation_to_dict g) d))))"

text \<open>What \<open>_commit_metadata\<close> is called with: the generation that becomes active\<close>

definition selector_json :: "generation \<Rightarrow> json" where
  "selector_json g = JObj [(''schema_version'', JStr ''1.0''), (''project_id'', JStr (ag_project_id g)),
     (''generation_id'', JStr (ag_generation_id g)), (''manifest_hash'', JStr (ag_manifest_hash g))]"

definition floor_json :: "generation \<Rightarrow> json" where
  "floor_json g = JObj [(''schema_version'', JStr ''1.0''), (''project_id'', JStr (ag_project_id g)),
     (''generation_number'', JInt (ag_generation_number g))]"

definition transition_json :: "string \<Rightarrow> generation \<Rightarrow> json" where
  "transition_json base g = JObj [(''schema_version'', JStr ''1.0''), (''project_id'', JStr (ag_project_id g)),
     (''generation'', JObj [(''path'', JStr (base @ ''/'' @ generation_file (ag_generation_id g))), (''payload'', generation_to_dict g)]),
     (''selector'', selector_json g), (''floor'', floor_json g)]"

text \<open>The first \<open>k\<close> steps of \<open>_commit_metadata\<close>\<close>

definition commit_steps :: "string \<Rightarrow> generation \<Rightarrow> (authority_dir \<Rightarrow> authority_dir) list" where
  "commit_steps base g = [write_file transition_file (transition_json base g),
     write_file (generation_file (ag_generation_id g)) (generation_to_dict g),
     write_file selector_file (selector_json g), write_file floor_file (floor_json g), unlink_file transition_file]"

definition commit_upto :: "nat \<Rightarrow> string \<Rightarrow> generation \<Rightarrow> authority_dir \<Rightarrow> authority_dir" where
  "commit_upto k base g d = fold (\<lambda>f. f) (take k (commit_steps base g)) d"

text \<open>\<open>_activate_owner_controlled_locked\<close> up to the commit\<close>

definition activation ::
    "crypto \<Rightarrow> (string \<Rightarrow> string) \<Rightarrow> string \<Rightarrow> string \<Rightarrow> string \<Rightarrow> json option \<Rightarrow> authority_dir \<Rightarrow>
     generation res \<times> authority_dir" where
  "activation cr resolve base project i signature d = (case load_generation cr project i d of
     Inl e \<Rightarrow> (Inl e, d)
   | Inr g \<Rightarrow>
     if ag_status g \<noteq> Gen_VERIFIED then (authority_error ''generation is not ready for cutover'', d)
     else (case floor_of cr resolve base project d of
       (Inl e, u) \<Rightarrow> (Inl e, u)
     | (Inr n, u) \<Rightarrow>
       if ag_generation_number g \<le> n then (authority_error ''authority generation downgrade or replay detected'', u)
       else (let selected = (if read_file selector_file u = No_File then (Inr None, u)
               else (case active_generation cr resolve base project u of (Inl e, w) \<Rightarrow> (Inl e, w) | (Inr s, w) \<Rightarrow> (Inr (Some s), w)))
         in case selected of
           (Inl e, w) \<Rightarrow> (Inl e, w)
         | (Inr s, w) \<Rightarrow>
           if s \<noteq> None \<and> ag_schema_version (the s) = ''2.0'' \<and> ag_schema_version g \<noteq> ''2.0''
           then (authority_error ''legacy cutover cannot remove Objective authority'', w)
           else (case (if ag_schema_version g = ''2.0'' \<and> ag_predecessor_id g \<noteq> None
               then (case active_generation cr resolve base project w of
                   (Inl e, x) \<Rightarrow> (Inl e, x)
                 | (Inr previous, x) \<Rightarrow>
                   (raise_if (Some (ag_generation_id previous) \<noteq> ag_predecessor_id g \<or>
                      Some (ag_manifest_hash previous) \<noteq> ag_predecessor_hash g) AuthorityGenerationError
                      ''Objective generation predecessor changed'', x))
               else (Inr (), w)) of
             (Inl e, x) \<Rightarrow> (Inl e, x)
           | (Inr _, x) \<Rightarrow>
             (and_then (sign_legacy cr (rebuild cr (g\<lparr>ag_status := Gen_ACTIVE,
                 ag_signature := (case signature of None \<Rightarrow> ag_signature g | Some s \<Rightarrow> s)\<rparr>))) (\<lambda>new.
               and_then (generation_validate cr True new) (\<lambda>_. Inr new)), x)))))"

text \<open>An activation of which \<open>k\<close> steps of the commit are carried out, all of them for \<open>k \<ge> 5\<close>\<close>

definition activate ::
    "nat \<Rightarrow> crypto \<Rightarrow> (string \<Rightarrow> string) \<Rightarrow> string \<Rightarrow> string \<Rightarrow> string \<Rightarrow> json option \<Rightarrow> authority_dir \<Rightarrow>
     unit res \<times> authority_dir" where
  "activate k cr resolve base project i signature d = (case activation cr resolve base project i signature d of
     (Inl e, u) \<Rightarrow> (Inl e, u) | (Inr g, u) \<Rightarrow> (Inr (), commit_upto k base g u))"

end
