(* ===== verification/AuthoritySafety.thy ===== *)
theory AuthoritySafety
  imports AuthorityStore
begin

section \<open>Authority generations are replaced atomically and never go back\<close>

text \<open>
  The commit of an activation as one atomic change of the directory, whatever step it is cut off after;
  what readers then see; and the floor, which no history of preparations, activations, crashes and
  readings lowers.
\<close>

subsection \<open>Files\<close>

lemma read_write: "read_file n (write_file m v d) = (if n = m then Json v else read_file n d)"
  by (simp add: read_file_def write_file_def)

lemma read_unlink: "read_file n (unlink_file m d) = (if n = m then No_File else read_file n d)"
  by (simp add: read_file_def unlink_file_def)

lemma write_same: "read_file n d = Json v \<Longrightarrow> write_file n v d = d"
  by (auto simp: read_file_def write_file_def intro: update_triv split: option.splits)

text \<open>A generation's file is none of the three others.\<close>

lemma generation_id_digits:
  assumes "generation_id_ok i"
  obtains c cs where "i = ''generation-'' @ c # cs" "is_digit c" "c \<noteq> CHR ''0''" "list_all is_digit cs"
proof -
  have "starts_with ''generation-'' i" using assms by (simp add: generation_id_ok_def)
  then obtain t where "i = ''generation-'' @ t" by (auto simp: starts_with_iff)
  then have "i = ''generation-'' @ drop 11 i" by simp
  with assms that show thesis by (cases "drop 11 i") (auto simp: generation_id_ok_def)
qed

lemma generation_file_other:
  assumes "generation_id_ok i"
  shows "generation_file i \<noteq> selector_file" "generation_file i \<noteq> floor_file" "generation_file i \<noteq> transition_file"
proof -
  obtain c cs where i: "i = ''generation-'' @ c # cs" "is_digit c" using assms by (rule generation_id_digits)
  have "c \<noteq> CHR ''f''" using i(2) by (auto simp: is_digit_def)
  then show "generation_file i \<noteq> selector_file" "generation_file i \<noteq> floor_file" "generation_file i \<noteq> transition_file"
    by (simp_all add: generation_file_def selector_file_def floor_file_def transition_file_def i(1))
qed

lemma generation_file_plain:
  assumes "generation_id_ok i"
  shows "CHR ''/'' \<notin> set (generation_file i)" "starts_with ''generation-'' (generation_file i)" "ends_with ''.json'' (generation_file i)"
    "take (length (generation_file i) - 5) (generation_file i) = i"
proof -
  obtain c cs where i: "i = ''generation-'' @ c # cs" "is_digit c" "list_all is_digit cs" using assms by (rule generation_id_digits)
  have "\<not> is_digit (CHR ''/'')" by (simp add: is_digit_def)
  with i(2,3) have "CHR ''/'' \<noteq> c" "CHR ''/'' \<notin> set cs" by (auto simp: list_all_iff)
  then show "CHR ''/'' \<notin> set (generation_file i)" by (simp add: generation_file_def i(1))
  show "starts_with ''generation-'' (generation_file i)" by (simp add: generation_file_def i(1) starts_with_def)
  show "ends_with ''.json'' (generation_file i)" by (auto simp: generation_file_def ends_with_iff)
  show "take (length (generation_file i) - 5) (generation_file i) = i" by (simp add: generation_file_def)
qed

lemma other_files: "selector_file \<noteq> floor_file" "selector_file \<noteq> transition_file" "floor_file \<noteq> transition_file"
  by (simp_all add: selector_file_def floor_file_def transition_file_def)

text \<open>The directory has a plain absolute path, which the file system resolves to itself, and so do the files of the generations in it.\<close>

definition plain_directory :: "(string \<Rightarrow> string) \<Rightarrow> string \<Rightarrow> bool" where
  "plain_directory resolve base = (resolve base = base \<and> (\<forall>i. generation_id_ok i \<longrightarrow> resolve (base @ ''/'' @ generation_file i) = base @ ''/'' @ generation_file i) \<and>
     starts_with ''/'' base \<and> \<not> starts_with ''//'' base \<and> base \<noteq> ''/'')"

lemma path_parts_below:
  assumes "starts_with ''/'' base" and "\<not> starts_with ''//'' base" and "base \<noteq> ''/''" and "CHR ''/'' \<notin> set n" and "n \<noteq> []" and "n \<noteq> ''.''"
  shows "path_parts (base @ ''/'' @ n) = path_parts base @ [n]"
proof -
  obtain c r where b: "base = CHR ''/'' # c # r" "c \<noteq> CHR ''/''"
    using assms(1-3) by (cases base; cases "tl base") (auto simp: starts_with_def)
  have s: "split_on (CHR ''/'') (base @ CHR ''/'' # n) = split_on (CHR ''/'') base @ [n]"
    using split_on_append_sep [of "CHR ''/''" base n] split_on_plain [of "CHR ''/''" n] assms(4) by simp
  have r: "path_root (base @ CHR ''/'' # n) = path_root base" by (simp add: path_root_def b starts_with_def)
  show ?thesis using assms(5,6) by (simp add: path_parts_def path_segments_def s r)
qed

lemma inside_generation:
  assumes "plain_directory resolve base" and "generation_id_ok i"
  shows "inside resolve base (base @ ''/'' @ generation_file i) = Some (generation_file i)"
proof -
  obtain c cs where i: "i = ''generation-'' @ c # cs" using assms(2) by (rule generation_id_digits)
  have "path_parts (base @ ''/'' @ generation_file i) = path_parts base @ [generation_file i]"
    by (rule path_parts_below) (use assms generation_file_plain(1) [OF assms(2)] in \<open>simp_all add: plain_directory_def generation_file_def i\<close>)
  then show ?thesis using assms by (simp add: inside_def Let_def plain_directory_def strict_prefix_def)
qed

subsection \<open>The commit\<close>

definition bound_to :: "string \<Rightarrow> generation \<Rightarrow> bool" where
  "bound_to project g = (ag_project_id g = project \<and> generation_id_ok (ag_generation_id g))"

definition committed_dir :: "string \<Rightarrow> generation \<Rightarrow> authority_dir \<Rightarrow> authority_dir" where
  "committed_dir base g d = commit_upto 5 base g d"

lemma transition_fields:
  "is_dict (transition_json base g)" "field ''project_id'' (transition_json base g) = Some (JStr (ag_project_id g))"
  "subscript ''generation'' (transition_json base g) = Inr (JObj [(''path'', JStr (base @ ''/'' @ generation_file (ag_generation_id g))), (''payload'', generation_to_dict g)])"
  "subscript ''selector'' (transition_json base g) = Inr (selector_json g)"
  "subscript ''floor'' (transition_json base g) = Inr (floor_json g)"
  by (simp_all add: transition_json_def is_dict_def field_def subscript_def)

lemma recover_pending:
  assumes "plain_directory resolve base" and "bound_to project g" and "read_file transition_file d = Json (transition_json base g)"
  shows "recover_metadata resolve base project d = (Inr (), unlink_file transition_file (write_file floor_file (floor_json g)
    (write_file selector_file (selector_json g) (write_file (generation_file (ag_generation_id g)) (generation_to_dict g) d))))"
proof -
  have i: "inside resolve base (base @ ''/'' @ generation_file (ag_generation_id g)) = Some (generation_file (ag_generation_id g))"
    using inside_generation [OF assms(1)] assms(2) by (simp add: bound_to_def)
  have p: "subscript ''path'' (JObj [(''path'', JStr p), (''payload'', v)]) = Inr (JStr p)"
    "subscript ''payload'' (JObj [(''path'', JStr p), (''payload'', v)]) = Inr v" for p v
    by (simp_all add: subscript_def is_dict_def field_def)
  show ?thesis using assms(2) i
    by (simp add: recover_metadata_def assms(3) transition_fields p bound_to_def Let_def)
qed

lemma recover_nothing: "read_file transition_file d = No_File \<Longrightarrow> recover_metadata resolve base project d = (Inr (), d)"
  by (simp add: recover_metadata_def)

lemma commit_upto_simps:
  "commit_upto 0 base g d = d"
  "commit_upto (Suc 0) base g d = write_file transition_file (transition_json base g) d"
  "commit_upto 2 base g d = write_file (generation_file (ag_generation_id g)) (generation_to_dict g) (commit_upto (Suc 0) base g d)"
  "commit_upto 3 base g d = write_file selector_file (selector_json g) (commit_upto 2 base g d)"
  "commit_upto 4 base g d = write_file floor_file (floor_json g) (commit_upto 3 base g d)"
  "5 \<le> k \<Longrightarrow> commit_upto k base g d = unlink_file transition_file (commit_upto 4 base g d)"
  by (simp_all add: commit_upto_def commit_steps_def)

lemma commit_pending:
  assumes "bound_to project g" and "0 < k" and "k < 5"
  shows "read_file transition_file (commit_upto k base g d) = Json (transition_json base g)"
proof -
  have "k = Suc 0 \<or> k = 2 \<or> k = 3 \<or> k = 4" using assms(2,3) by linarith
  then show ?thesis using generation_file_other(3) [of "ag_generation_id g"] other_files assms(1)
    by (auto simp: commit_upto_simps read_write bound_to_def)
qed

lemma recover_committed:
  assumes "plain_directory resolve base" and "bound_to project g" and "0 < k"
  shows "recover_metadata resolve base project (commit_upto k base g d) = (Inr (), committed_dir base g d)"
proof (cases "k < 5")
  case False
  then have "commit_upto k base g d = committed_dir base g d" by (simp add: committed_dir_def commit_upto_simps(6))
  moreover have "read_file transition_file (committed_dir base g d) = No_File"
    by (simp add: committed_dir_def commit_upto_simps(6) read_unlink)
  ultimately show ?thesis using recover_nothing by simp
next
  case True
  have k: "k = Suc 0 \<or> k = 2 \<or> k = 3 \<or> k = 4" using assms(3) True by linarith
  have id: "generation_id_ok (ag_generation_id g)" using assms(2) by (simp add: bound_to_def)
  have w: "write_file n v d' = d'" if "read_file n d' = Json v" for n v d' using that by (rule write_same)
  show ?thesis
    unfolding recover_pending [OF assms(1,2) commit_pending [OF assms(2,3) True]]
    using k generation_file_other [OF id] other_files w by (auto simp: committed_dir_def commit_upto_simps read_write)
qed

subsection \<open>The codec\<close>

lemma generation_status_of_value [simp]: "generation_status_of (generation_status_value s) = Some s"
  by (cases s) (simp_all add: generation_status_of_def)

lemma component_round_trip: "component_of (component_to_dict c) = Some c"
  by (simp add: component_of_def component_to_dict_def is_dict_def keys_of_def field_or_def field_def)

lemma generation_fields:
  assumes "ag_schema_version g \<in> {''1.0'', ''2.0''}"
  shows "field ''generation_id'' (generation_to_dict g) = Some (JStr (ag_generation_id g))"
    "field ''project_id'' (generation_to_dict g) = Some (JStr (ag_project_id g))"
    "field ''scheme'' (generation_to_dict g) = Some (JStr (ag_scheme g))"
    "field ''owner_key_id'' (generation_to_dict g) = Some (JStr (ag_owner_key_id g))"
    "field ''owner_fingerprint'' (generation_to_dict g) = Some (JStr (ag_owner_fingerprint g))"
    "field ''constitution_id'' (generation_to_dict g) = Some (JStr (ag_constitution_id g))"
    "field ''constitution_hash'' (generation_to_dict g) = Some (JStr (ag_constitution_hash g))"
    "field ''policy_hash'' (generation_to_dict g) = Some (JStr (ag_policy_hash g))"
    "field ''operation_id'' (generation_to_dict g) = Some (JStr (ag_operation_id g))"
    "field ''status'' (generation_to_dict g) = Some (JStr (generation_status_value (ag_status g)))"
    "field ''components'' (generation_to_dict g) = Some (JList (map component_to_dict (ag_components g)))"
    "field ''manifest_hash'' (generation_to_dict g) = Some (JStr (ag_manifest_hash g))"
    "field ''generation_number'' (generation_to_dict g) = Some (JInt (ag_generation_number g))"
    "field ''predecessor_id'' (generation_to_dict g) = Some (enc_opt (ag_predecessor_id g))"
    "field ''predecessor_hash'' (generation_to_dict g) = Some (enc_opt (ag_predecessor_hash g))"
    "field ''signature'' (generation_to_dict g) = Some (ag_signature g)"
    "field_or (JStr ''1.0'') ''schema_version'' (generation_to_dict g) = JStr (ag_schema_version g)"
    "field ''schema_version'' (generation_to_dict g) = (if ag_schema_version g = ''1.0'' then None else Some (JStr ''2.0''))"
    "has_keys (if ag_schema_version g = ''1.0'' then generation_keys else generation_keys @ [''schema_version'']) (generation_to_dict g)"
  using assms
  by (auto simp: generation_to_dict_def unsigned_members_def field_def field_or_def has_keys_def keys_of_def generation_keys_def)

lemma generation_round_trip:
  assumes "ag_schema_version g \<in> {''1.0'', ''2.0''}"
  shows "generation_from_dict (generation_to_dict g) = Inr g"
proof -
  have k: "has_keys generation_keys (generation_to_dict g) \<or> has_keys (generation_keys @ [''schema_version'']) (generation_to_dict g)"
    using generation_fields(19) [OF assms] by (auto split: if_splits)
  have v: "field ''schema_version'' (generation_to_dict g) = None \<or> field ''schema_version'' (generation_to_dict g) = Some (JStr ''2.0'')"
    by (simp add: generation_fields [OF assms])
  have c: "Option.bind (Option.bind (field ''components'' (generation_to_dict g)) tuple_of) (decode_all component_of) = Some (ag_components g)"
    by (simp add: generation_fields [OF assms] tuple_of_def component_round_trip)
  have s: "Option.bind (Option.bind (field ''status'' (generation_to_dict g)) the_str) generation_status_of = Some (ag_status g)"
    by (simp add: generation_fields [OF assms])
  have l: "generation_leaves (generation_to_dict g) (ag_components g) (ag_status g) = Some g"
    by (simp add: generation_leaves_def generation_fields [OF assms])
  show ?thesis unfolding generation_from_dict_def c s prod.case option.case l using k v by auto
qed

lemma generation_validate_schema: "generation_validate cr a g = Inr () \<Longrightarrow> ag_schema_version g \<in> {''1.0'', ''2.0''}"
  by (auto simp: generation_validate_def steps_ok)

lemma generation_validate_number: "generation_validate cr a g = Inr () \<Longrightarrow> 1 \<le> ag_generation_number g"
  by (auto simp: generation_validate_def steps_ok)

lemma generation_validate_active:
  "generation_validate cr True g = Inr () \<longleftrightarrow> generation_validate cr False g = Inr () \<and> ag_status g = Gen_ACTIVE"
  by (auto simp: generation_validate_def steps_ok)

lemma load_generationD:
  assumes "load_generation cr project i d = Inr g"
  shows "ag_generation_id g = i" "bound_to project g" "generation_validate cr False g = Inr ()" "verify_legacy cr g = Inr ()"
    "read_file (generation_file i) d \<noteq> No_File" "project_id_ok project"
  using assms by (auto simp: load_generation_def bound_to_def and_then_ok raise_def split: if_splits file_content.splits)

lemma load_saved_generation:
  assumes "read_file (generation_file (ag_generation_id g)) d = Json (generation_to_dict g)"
    and "generation_validate cr False g = Inr ()" and "verify_legacy cr g = Inr ()"
    and "generation_id_ok (ag_generation_id g)" and "project_id_ok (ag_project_id g)"
  shows "load_generation cr (ag_project_id g) (ag_generation_id g) d = Inr g"
  using assms generation_round_trip [OF generation_validate_schema [OF assms(2)]]
  by (simp add: load_generation_def)

lemma load_cong: "read_file (generation_file i) d = read_file (generation_file i) u \<Longrightarrow>
    load_generation cr project i d = load_generation cr project i u"
  by (simp add: load_generation_def)

subsection \<open>The floor\<close>

text \<open>The state of a directory in which every commit was begun by an activation: what is pending, if
  anything, and the floor that readers will see\<close>

definition pending :: "string \<Rightarrow> string \<Rightarrow> authority_dir \<Rightarrow> generation option \<Rightarrow> bool" where
  "pending base project d p = (case p of None \<Rightarrow> read_file transition_file d = No_File
     | Some g \<Rightarrow> read_file transition_file d = Json (transition_json base g) \<and> bound_to project g)"

definition floor_is :: "string \<Rightarrow> authority_dir \<Rightarrow> int \<Rightarrow> bool" where
  "floor_is project d n = (if read_file floor_file d = No_File then n = 0
     else (\<exists>g. read_file floor_file d = Json (floor_json g) \<and> ag_project_id g = project \<and> ag_generation_number g = n))"

text \<open>The directory that readers will see after the recovery\<close>

definition effective :: "string \<Rightarrow> authority_dir \<Rightarrow> generation option \<Rightarrow> authority_dir" where
  "effective base d p = (case p of None \<Rightarrow> d | Some g \<Rightarrow> unlink_file transition_file (write_file floor_file (floor_json g)
    (write_file selector_file (selector_json g) (write_file (generation_file (ag_generation_id g)) (generation_to_dict g) d))))"

lemma recover_effective:
  assumes "plain_directory resolve base" and "pending base project d p"
  shows "recover_metadata resolve base project d = (Inr (), effective base d p)" "pending base project (effective base d p) None"
  using assms recover_pending [OF assms(1)] recover_nothing
  by (auto simp: pending_def effective_def read_unlink split: option.splits)

definition settled :: "string \<Rightarrow> string \<Rightarrow> authority_dir \<Rightarrow> int \<Rightarrow> bool" where
  "settled base project d n = (\<exists>p. pending base project d p \<and> floor_is project (effective base d p) n)"

lemma settled_recovered:
  assumes "plain_directory resolve base" and "settled base project d n"
  obtains u where "recover_metadata resolve base project d = (Inr (), u)" "read_file transition_file u = No_File" "floor_is project u n"
    "settled base project u n" "recover_metadata resolve base project u = (Inr (), u)"
proof -
  from assms(2) obtain p where p: "pending base project d p" "floor_is project (effective base d p) n" by (auto simp: settled_def)
  have r: "recover_metadata resolve base project d = (Inr (), effective base d p)" "pending base project (effective base d p) None"
    using recover_effective [OF assms(1) p(1)] by simp_all
  then have t: "read_file transition_file (effective base d p) = No_File" by (simp add: pending_def)
  have "effective base (effective base d p) None = effective base d p" by (simp add: effective_def)
  with r(2) p(2) have "settled base project (effective base d p) n" unfolding settled_def by metis
  with r(1) t p(2) recover_nothing [OF t] show thesis using that by blast
qed

lemma floor_json_keys: "has_keys floor_keys (floor_json g)" "field ''schema_version'' (floor_json g) = Some (JStr ''1.0'')"
  "field ''project_id'' (floor_json g) = Some (JStr (ag_project_id g))"
  "field ''generation_number'' (floor_json g) = Some (JInt (ag_generation_number g))"
  by (simp_all add: floor_json_def has_keys_def keys_of_def floor_keys_def field_def)

lemma replace_exc_cases: "replace_exc h c m r = Inr x \<Longrightarrow> r = Inr x"
  by simp

lemma floor_of_settled:
  assumes "plain_directory resolve base" and "settled base project d n" and "floor_of cr resolve base project d = (r, u)"
  shows "recover_metadata resolve base project d = (Inr (), u)" "settled base project u n" "floor_is project u n"
    "r = Inr m \<Longrightarrow> m = n \<and> (\<forall>i\<in>set (generation_stems u). \<exists>g. load_generation cr project i u = Inr g \<and>
      (committed g \<longrightarrow> ag_generation_number g \<le> n))"
proof -
  from assms(1,2) obtain v where v: "recover_metadata resolve base project d = (Inr (), v)" "floor_is project v n" "settled base project v n"
    by (rule settled_recovered)
  have "u = v" using assms(3) v(1) by (auto simp: floor_of_def split: file_content.splits)
  then show "recover_metadata resolve base project d = (Inr (), u)" "settled base project u n" "floor_is project u n"
    using v by simp_all
  assume r: "r = Inr m"
  show "m = n \<and> (\<forall>i\<in>set (generation_stems u). \<exists>g. load_generation cr project i u = Inr g \<and>
      (committed g \<longrightarrow> ag_generation_number g \<le> n))"
  proof (cases "read_file floor_file u = No_File")
    case True
    then have "m = 0" "n = 0" "\<forall>i\<in>set (generation_stems u). \<exists>g. load_generation cr project i u = Inr g \<and> \<not> committed g"
      using assms(3) v(1) r v(2) by (auto simp: floor_of_def \<open>u = v\<close> and_then_ok for_each_ok floor_is_def)
    then show ?thesis by auto
  next
    case False
    then obtain g where g: "read_file floor_file u = Json (floor_json g)" "ag_project_id g = project" "ag_generation_number g = n"
      using v(2) by (auto simp: floor_is_def \<open>u = v\<close>)
    have "replace_exc (\<lambda>c. is_value_error c \<or> c \<in> {OSError, TypeError}) AuthorityGenerationError
        ''authority generation floor is invalid'' (stored_floor cr project (floor_json g) u) = Inr m"
      using assms(3) v(1) r g(1) by (simp add: floor_of_def \<open>u = v\<close>)
    then have s: "stored_floor cr project (floor_json g) u = Inr m" by simp
    have "map_res (\<lambda>i. load_generation cr project i u) xs = Inr gs \<Longrightarrow>
        \<forall>i\<in>set xs. \<exists>g\<in>set gs. load_generation cr project i u = Inr g" for xs gs
      by (induction xs arbitrary: gs) (auto simp: and_then_ok)
    with s g(2,3) show ?thesis
      by (fastforce simp: stored_floor_def floor_json_keys and_then_ok raise_def list_ex_iff split: if_splits)
  qed
qed

lemma active_is_floor:
  assumes "plain_directory resolve base" and "settled base project d n" and "active_generation cr resolve base project d = (r, u)"
  shows "settled base project u n" "recover_metadata resolve base project d = (Inr (), u)"
    "r = Inr g \<Longrightarrow> ag_generation_number g = n \<and> generation_validate cr True g = Inr () \<and>
    bound_to project g"
proof -
  from assms(1,2) obtain v where v: "recover_metadata resolve base project d = (Inr (), v)" "floor_is project v n" "settled base project v n"
    "recover_metadata resolve base project v = (Inr (), v)" by (rule settled_recovered)
  obtain fr w where fo: "floor_of cr resolve base project v = (fr, w)" by fastforce
  have w: "w = v" using floor_of_settled(1) [OF assms(1) v(3) fo] v(4) by simp
  have "u = v"
    using assms(3) v(1) fo w
    by (auto simp: active_generation_def split: file_content.splits if_splits option.splits sum.splits prod.splits)
  then show "settled base project u n" "recover_metadata resolve base project d = (Inr (), u)" using v(1,3) by simp_all
  assume "r = Inr g"
  with assms(3) v(1) obtain i h m where
    l: "load_generation cr project i v = Inr g" and f: "fr = Inr m" "\<not> ag_generation_number g < m"
    and a: "generation_validate cr True g = Inr ()"
    using fo
    by (auto simp: active_generation_def raise_def and_then_ok split: file_content.splits if_splits option.splits sum.splits)
  note lo = load_generationD [OF l]
  have "generation_file i \<in> fst ` set v" using lo(5) by (force simp: read_file_def split: option.splits dest: map_of_SomeD)
  then have "i \<in> set (generation_stems v)"
    using lo(1,2,5) generation_file_plain [of i] generation_file_other(2) [of i]
    by (auto simp: generation_stems_def bound_to_def intro!: image_eqI [where x = "generation_file i"])
  moreover have "committed g" using a by (simp add: generation_validate_active committed_def)
  ultimately have "ag_generation_number g \<le> n" "m = n"
    using floor_of_settled(4) [OF assms(1) v(3) fo f(1)] l w by auto
  with f(2) a lo(2) show "ag_generation_number g = n \<and> generation_validate cr True g = Inr () \<and> bound_to project g" by simp
qed

subsection \<open>Operations on the floor\<close>

text \<open>A generation's file is neither read for the floor nor for what is pending.\<close>

lemma pending_other_file:
  assumes "generation_id_ok i" and "pending base project d p" and "floor_is project (effective base d p) n"
  shows "settled base project (write_file (generation_file i) v d) n"
proof -
  note other = generation_file_other [OF assms(1)] other_files
  have "pending base project (write_file (generation_file i) v d) p"
    using assms(2) other by (auto simp: pending_def read_write split: option.splits)
  moreover have "floor_is project (effective base (write_file (generation_file i) v d) p) n"
    using assms(3) other by (cases p) (auto simp: floor_is_def effective_def read_write read_unlink)
  ultimately show ?thesis unfolding settled_def by blast
qed

lemma save_prepared_settled:
  assumes "settled base project d n"
  shows "settled base project (snd (save_prepared cr g d)) n"
proof -
  obtain p where p: "pending base project d p" "floor_is project (effective base d p) n" using assms by (auto simp: settled_def)
  have "snd (save_prepared cr g d) = d \<or> (\<exists>i v. generation_id_ok i \<and> snd (save_prepared cr g d) = write_file (generation_file i) v d)"
    by (auto simp: save_prepared_def Let_def split: sum.splits)
  then show ?thesis using assms pending_other_file [OF _ p] by auto
qed

lemma rebuild_fields [simp]:
  "ag_generation_id (rebuild cr g) = ag_generation_id g" "ag_project_id (rebuild cr g) = ag_project_id g"
  "ag_generation_number (rebuild cr g) = ag_generation_number g" "ag_schema_version (rebuild cr g) = ag_schema_version g"
  "ag_status (rebuild cr g) = ag_status g" "ag_scheme (rebuild cr g) = ag_scheme g"
  by (simp_all add: rebuild_def)

lemma sign_legacy_fields:
  assumes "sign_legacy cr g = Inr h"
  shows "ag_generation_id h = ag_generation_id g" "ag_project_id h = ag_project_id g" "ag_generation_number h = ag_generation_number g"
    "ag_schema_version h = ag_schema_version g" "ag_status h = ag_status g"
  using assms by (auto simp: sign_legacy_def raise_def split: if_splits option.splits)

lemma sign_legacy_verified: "sign_legacy cr g = Inr h \<Longrightarrow> verify_legacy cr h = Inr ()"
  by (auto simp: sign_legacy_def verify_legacy_def raise_def legacy_signature_def unsigned_generation_def unsigned_members_def
      split: if_splits option.splits)

text \<open>What an activation that reaches its commit has established\<close>

lemma activation_settled:
  assumes "plain_directory resolve base" and "settled base project d n" and "activation cr resolve base project i sig d = (r, u)"
  shows "settled base project u n" "r = Inr new \<Longrightarrow> bound_to project new \<and> n < ag_generation_number new \<and> ag_generation_id new = i \<and>
    generation_validate cr True new = Inr () \<and> verify_legacy cr new = Inr () \<and> project_id_ok project \<and>
    floor_of cr resolve base project d = (Inr n, u)"
proof -
  obtain fr w where fo: "floor_of cr resolve base project d = (fr, w)" by fastforce
  note w = floor_of_settled [OF assms(1,2) fo]
  have rw: "recover_metadata resolve base project w = (Inr (), w)"
    using settled_recovered [OF assms(1,2)] w(1) by (metis prod.inject)
  obtain ar x where ac: "active_generation cr resolve base project w = (ar, x)" by fastforce
  have x: "x = w" using active_is_floor(2) [OF assms(1) w(2) ac] rw by simp
  have m: "fr = Inr m \<Longrightarrow> m = n" for m using w(4) by blast
  show "settled base project u n"
    using assms(2,3) fo ac w(2)
    by (auto simp: activation_def Let_def x split: sum.splits if_splits)
  assume "r = Inr new"
  with assms(3) obtain g where l: "load_generation cr project i d = Inr g" by (auto simp: activation_def split: sum.splits)
  with assms(3) fo \<open>r = Inr new\<close> obtain k where k: "fr = Inr k" "k < ag_generation_number g"
    by (auto simp: activation_def raise_def split: sum.splits if_splits)
  obtain st where signed: "sign_legacy cr (rebuild cr (g\<lparr>ag_status := Gen_ACTIVE, ag_signature := st\<rparr>)) = Inr new"
    and valid: "generation_validate cr True new = Inr ()" and u: "u = w"
    using assms(3) l fo k ac \<open>r = Inr new\<close>
    by (auto simp: activation_def Let_def x raise_def and_then_ok split: sum.splits if_splits)
  note lo = load_generationD [OF l]
  show "bound_to project new \<and> n < ag_generation_number new \<and> ag_generation_id new = i \<and>
    generation_validate cr True new = Inr () \<and> verify_legacy cr new = Inr () \<and> project_id_ok project \<and>
    floor_of cr resolve base project d = (Inr n, u)"
    using lo k m [OF k(1)] valid sign_legacy_fields [OF signed] sign_legacy_verified [OF signed] fo u
    by (auto simp: bound_to_def)
qed

lemma commit_settled:
  assumes "bound_to project g" and "read_file transition_file d = No_File" and "settled base project d n"
  shows "settled base project (commit_upto k base g d) (if k = 0 then n else ag_generation_number g)"
proof -
  have id: "generation_id_ok (ag_generation_id g)" and pr: "ag_project_id g = project" using assms(1) by (simp_all add: bound_to_def)
  note other = generation_file_other [OF id] other_files
  consider "k = 0" | "0 < k" "k < 5" | "5 \<le> k" by linarith
  then show ?thesis
  proof cases
    case 1
    then show ?thesis using assms(3) by (simp add: commit_upto_simps)
  next
    case 2
    then have "pending base project (commit_upto k base g d) (Some g)"
      using commit_pending [OF assms(1)] assms(1) by (simp add: pending_def)
    moreover have "floor_is project (effective base (commit_upto k base g d) (Some g)) (ag_generation_number g)"
      using other pr by (auto simp: floor_is_def effective_def read_write read_unlink)
    ultimately show ?thesis using 2(1) unfolding settled_def by auto
  next
    case 3
    then have "pending base project (commit_upto k base g d) None"
      by (simp add: pending_def commit_upto_simps read_unlink)
    moreover have "floor_is project (effective base (commit_upto k base g d) None) (ag_generation_number g)"
      using other pr 3 by (auto simp: floor_is_def effective_def commit_upto_simps read_write read_unlink)
    ultimately show ?thesis using 3 unfolding settled_def by auto
  qed
qed

lemma recovered_no_transition:
  assumes "plain_directory resolve base" and "settled base project d n" and "recover_metadata resolve base project d = (Inr (), u)"
  shows "read_file transition_file u = No_File"
  using settled_recovered [OF assms(1,2)] assms(3) by (metis prod.inject)

subsection \<open>Histories\<close>

datatype authority_op = Au_Prepare generation | Au_Activate nat string "json option" | Au_Read | Au_Floor

fun authority_step :: "crypto \<Rightarrow> (string \<Rightarrow> string) \<Rightarrow> string \<Rightarrow> string \<Rightarrow> authority_op \<Rightarrow> authority_dir \<Rightarrow> authority_dir" where
  "authority_step cr resolve base project (Au_Prepare g) d = snd (save_prepared cr g d)"
| "authority_step cr resolve base project (Au_Activate k i sig) d = snd (activate k cr resolve base project i sig d)"
| "authority_step cr resolve base project Au_Read d = snd (active_generation cr resolve base project d)"
| "authority_step cr resolve base project Au_Floor d = snd (floor_of cr resolve base project d)"

lemma authority_step_settled:
  assumes "plain_directory resolve base" and "settled base project d n"
  shows "\<exists>m\<ge>n. settled base project (authority_step cr resolve base project op d) m"
proof (cases op)
  case (Au_Prepare g)
  then show ?thesis using save_prepared_settled [OF assms(2)] by auto
next
  case (Au_Activate k i sig)
  obtain r u where a: "activation cr resolve base project i sig d = (r, u)" by fastforce
  note act = activation_settled [OF assms a]
  show ?thesis
  proof (cases r)
    case (Inl e)
    then show ?thesis using a act(1) by (auto simp: Au_Activate activate_def)
  next
    case (Inr new)
    have "recover_metadata resolve base project d = (Inr (), u)" using floor_of_settled(1) [OF assms] act(2) [OF Inr] by blast
    from commit_settled [OF _ recovered_no_transition [OF assms this] act(1)] act(2) [OF Inr]
    have "settled base project (commit_upto k base new u) (if k = 0 then n else ag_generation_number new)"
      "n \<le> (if k = 0 then n else ag_generation_number new)" by auto
    then show ?thesis using a Inr by (auto simp: Au_Activate activate_def intro: exI [of _ n])
  qed
next
  case Au_Read
  then show ?thesis using active_is_floor(1) [OF assms] by (metis authority_step.simps(3) order_refl prod.collapse)
next
  case Au_Floor
  then show ?thesis using floor_of_settled(2) [OF assms] by (metis authority_step.simps(4) order_refl prod.collapse)
qed

definition authority_run ::
    "crypto \<Rightarrow> (string \<Rightarrow> string) \<Rightarrow> string \<Rightarrow> string \<Rightarrow> authority_op list \<Rightarrow> authority_dir \<Rightarrow> authority_dir" where
  "authority_run cr resolve base project ops d = fold (authority_step cr resolve base project) ops d"

lemma authority_run_settled:
  "plain_directory resolve base \<Longrightarrow> settled base project d n \<Longrightarrow>
   \<exists>m\<ge>n. settled base project (authority_run cr resolve base project ops d) m"
proof (induction ops arbitrary: d n)
  case (Cons op ops)
  obtain m where m: "n \<le> m" "settled base project (authority_step cr resolve base project op d) m"
    using authority_step_settled [OF Cons.prems] by blast
  from Cons.IH [OF Cons.prems(1) m(2)] m(1) show ?case by (auto simp: authority_run_def intro: order_trans)
qed (auto simp: authority_run_def)

lemma authority_run_append: "authority_run cr resolve base project (ops1 @ ops2) d =
    authority_run cr resolve base project ops2 (authority_run cr resolve base project ops1 d)"
  by (simp add: authority_run_def)

subsection \<open>What readers see after a commit\<close>

lemma generation_stemsE:
  assumes "i \<in> set (generation_stems d)"
  obtains n where "i = take (length n - 5) n" "starts_with ''generation-'' n" "ends_with ''.json'' n" "CHR ''/'' \<notin> set n"
    "n \<noteq> floor_file" "read_file n d \<noteq> No_File"
  using assms by (auto simp: generation_stems_def)

lemma generation_stemsI:
  assumes "starts_with ''generation-'' n" "ends_with ''.json'' n" "CHR ''/'' \<notin> set n" "n \<noteq> floor_file" "read_file n d \<noteq> No_File"
  shows "take (length n - 5) n \<in> set (generation_stems d)"
proof -
  have "n \<in> fst ` set d" using assms(5) by (force simp: read_file_def split: option.splits dest: map_of_SomeD)
  then show ?thesis using assms by (auto simp: generation_stems_def)
qed

lemma stem_file: "ends_with ''.json'' n \<Longrightarrow> generation_file (take (length n - 5) n) = n"
  by (auto simp: ends_with_iff generation_file_def)

lemma committed_dir_read:
  assumes "generation_id_ok (ag_generation_id g)"
  shows "read_file n (committed_dir base g d) = (if n = transition_file then No_File else if n = floor_file then Json (floor_json g)
    else if n = selector_file then Json (selector_json g)
    else if n = generation_file (ag_generation_id g) then Json (generation_to_dict g) else read_file n d)"
  using generation_file_other [OF assms] other_files
  by (auto simp: committed_dir_def commit_upto_simps read_write read_unlink)

lemma map_res_loads: "(\<And>x. x \<in> set xs \<Longrightarrow> \<exists>y. f x = Inr y \<and> P y) \<Longrightarrow> \<exists>ys. map_res f xs = Inr ys \<and> list_all P ys"
proof (induction xs)
  case (Cons x xs)
  from Cons.IH Cons.prems obtain ys where "map_res f xs = Inr ys" "list_all P ys" by auto
  moreover from Cons.prems [of x] obtain y where "f x = Inr y" "P y" by auto
  ultimately show ?case by simp
qed simp

lemma committed_stems:
  assumes "plain_directory resolve base" and "settled base project d n" and "activation cr resolve base project i sig d = (Inr new, u)"
    and "j \<in> set (generation_stems (committed_dir base new u))"
  shows "\<exists>h. load_generation cr project j (committed_dir base new u) = Inr h \<and> (committed h \<longrightarrow> ag_generation_number h \<le> ag_generation_number new)"
proof -
  note act = activation_settled(2) [OF assms(1-3) refl]
  have id: "generation_id_ok (ag_generation_id new)" "ag_project_id new = project" using act by (auto simp: bound_to_def)
  note rd = committed_dir_read [OF id(1), of _ base u]
  obtain m where m: "j = take (length m - 5) m" "starts_with ''generation-'' m" "ends_with ''.json'' m" "CHR ''/'' \<notin> set m"
    "m \<noteq> floor_file" "read_file m (committed_dir base new u) \<noteq> No_File" using assms(4) by (rule generation_stemsE)
  have mj: "generation_file j = m" using stem_file [OF m(3)] m(1) by simp
  have ne: "m \<noteq> selector_file" "m \<noteq> transition_file" using m(2) by (auto simp: selector_file_def transition_file_def starts_with_def)
  show ?thesis
  proof (cases "m = generation_file (ag_generation_id new)")
    case True
    then have "j = ag_generation_id new" using m(1) generation_file_plain(4) [OF id(1)] by simp
    moreover have "load_generation cr (ag_project_id new) (ag_generation_id new) (committed_dir base new u) = Inr new"
      by (rule load_saved_generation) (use act id generation_file_other [OF id(1)] in \<open>auto simp: rd generation_validate_active\<close>)
    ultimately show ?thesis using id(2) by auto
  next
    case False
    then have same: "read_file m (committed_dir base new u) = read_file m u" using m(5) ne by (simp add: rd)
    then have "j \<in> set (generation_stems u)" unfolding m(1) using m by (intro generation_stemsI) simp_all
    with floor_of_settled(4) [OF assms(1,2), of cr "Inr n" u n] act obtain h where
      h: "load_generation cr project j u = Inr h" "committed h \<longrightarrow> ag_generation_number h \<le> n" by auto
    have "load_generation cr project j (committed_dir base new u) = Inr h"
      using h(1) load_cong [of j "committed_dir base new u" u] same mj by simp
    then show ?thesis using h(2) act by auto
  qed
qed

text \<open>SHA-256 in hexadecimal is 64 characters long.\<close>

definition hex_digests :: "crypto \<Rightarrow> bool" where
  "hex_digests cr = (\<forall>t. length (cr_hash cr t) = 64)"

lemma generation_validate_hash: "generation_validate cr a g = Inr () \<Longrightarrow> ag_manifest_hash g = manifest_hash cr g"
  by (auto simp: generation_validate_def steps_ok)

lemma activated_is_read:
  assumes "plain_directory resolve base" and "settled base project d n" and "activation cr resolve base project i sig d = (Inr new, u)"
    and "hex_digests cr"
  shows "active_generation cr resolve base project (committed_dir base new u) = (Inr new, committed_dir base new u)"
proof -
  let ?v = "committed_dir base new u"
  note act = activation_settled(2) [OF assms(1-3) refl]
  have id: "generation_id_ok (ag_generation_id new)" "ag_project_id new = project" using act by (auto simp: bound_to_def)
  note rd = committed_dir_read [OF id(1), of _ base u]
  note other = generation_file_other [OF id(1)] other_files
  have "ag_manifest_hash new = manifest_hash cr new" using act generation_validate_hash by blast
  then have "length (ag_manifest_hash new) = 64" using assms(4) by (simp add: manifest_hash_def hex_digests_def)
  then have hash: "ag_manifest_hash new \<noteq> []" by auto
  have rec: "recover_metadata resolve base project ?v = (Inr (), ?v)" by (rule recover_nothing) (simp add: rd)
  have load: "load_generation cr project (ag_generation_id new) ?v = Inr new"
    using load_saved_generation [of new ?v cr] act id other by (auto simp: rd generation_validate_active)
  have "\<exists>gs. map_res (\<lambda>j. load_generation cr project j ?v) (generation_stems ?v) = Inr gs \<and>
    list_all (\<lambda>h. committed h \<longrightarrow> ag_generation_number h \<le> ag_generation_number new) gs"
    by (rule map_res_loads) (rule committed_stems [OF assms(1-3)])
  then obtain gs where gs: "map_res (\<lambda>j. load_generation cr project j ?v) (generation_stems ?v) = Inr gs"
    "list_all (\<lambda>h. committed h \<longrightarrow> ag_generation_number h \<le> ag_generation_number new) gs" by blast
  have nn: "0 \<le> ag_generation_number new" using act generation_validate_number by fastforce
  have "stored_floor cr project (floor_json new) ?v = Inr (ag_generation_number new)"
    using gs nn id(2) by (fastforce simp: stored_floor_def floor_json_keys list_ex_iff list_all_iff)
  then have fl: "floor_of cr resolve base project ?v = (Inr (ag_generation_number new), ?v)"
    using other by (simp add: floor_of_def rec rd)
  have sel: "has_keys selector_keys (selector_json new)" "field ''schema_version'' (selector_json new) = Some (JStr ''1.0'')"
    "field ''project_id'' (selector_json new) = Some (JStr project)" "field ''generation_id'' (selector_json new) = Some (JStr (ag_generation_id new))"
    "field ''manifest_hash'' (selector_json new) = Some (JStr (ag_manifest_hash new))"
    by (simp_all add: selector_json_def has_keys_def keys_of_def selector_keys_def field_def id(2))
  have ne: "i \<noteq> []" using act id(1) by (auto simp: generation_id_ok_def starts_with_def)
  have li: "load_generation cr project i ?v = Inr new" using load act by simp
  have "active_generation cr resolve base project ?v = (and_then (generation_validate cr True new) (\<lambda>_. Inr new), ?v)"
    using hash ne other act by (simp add: active_generation_def rec rd sel li fl)
  then show ?thesis using act by simp
qed

text \<open>What an accepted generation was read from\<close>

lemma the_str_Some: "the_str v = Some x \<longleftrightarrow> v = JStr x"
  by (cases v) (auto simp: the_str_def)

lemma active_sources:
  assumes "recover_metadata resolve base project d = (Inr (), d)" and "fst (active_generation cr resolve base project d) = Inr g"
  obtains v where "read_file selector_file d = Json v" "field ''generation_id'' v = Some (JStr (ag_generation_id g))"
    "load_generation cr project (ag_generation_id g) d = Inr g" "generation_validate cr True g = Inr ()"
proof -
  from assms obtain v i where v: "read_file selector_file d = Json v" "field ''generation_id'' v = Some (JStr i)"
    "load_generation cr project i d = Inr g" "generation_validate cr True g = Inr ()"
    by (auto simp: active_generation_def raise_def and_then_ok bind_eq_Some_conv the_str_Some split: file_content.splits if_splits option.splits
        sum.splits prod.splits)
  have "i = ag_generation_id g" using load_generationD(1) [OF v(3)] by simp
  with v show thesis using that by blast
qed

lemma save_prepared_over:
  assumes "save_prepared cr g d = (Inr (), u)" and "ag_schema_version g \<noteq> ''2.0''"
    and "load_generation cr (ag_project_id g) (ag_generation_id g) d = Inr old" and "ag_schema_version old \<noteq> ''2.0''"
  obtains h where "u = write_file (generation_file (ag_generation_id g)) (generation_to_dict h) d" "ag_generation_id h = ag_generation_id g"
    "\<not> committed h" "load_generation cr (ag_project_id g) (ag_generation_id g) u = Inr h" "generation_id_ok (ag_generation_id g)"
proof -
  from assms obtain h where h: "sign_legacy cr g = Inr h" "generation_validate cr False h = Inr ()" "verify_legacy cr h = Inr ()"
    "\<not> committed h" "generation_id_ok (ag_generation_id h)" "project_id_ok (ag_project_id h)"
    by (auto simp: save_prepared_def raise_def and_then_ok Let_def split: sum.splits if_splits)
  note f = sign_legacy_fields [OF h(1)]
  have u: "u = write_file (generation_file (ag_generation_id g)) (generation_to_dict h) d"
    using assms load_generationD(5) [OF assms(3)] h f by (auto simp: save_prepared_def Let_def split: if_splits)
  have "load_generation cr (ag_project_id h) (ag_generation_id h) u = Inr h"
    by (rule load_saved_generation) (use h f u in \<open>simp_all add: read_write\<close>)
  with u h f show thesis using that by simp
qed

text \<open>C7. Whatever preparations, activations, readings and crashes in the middle of an activation follow each
  other in a project's directory, the generation that readers accept never has a smaller number than one
  they accepted earlier.
\<close>

theorem authority_never_downgraded:
  assumes "plain_directory resolve base"
    and "fst (active_generation cr resolve base project (authority_run cr resolve base project ops1 [])) = Inr old"
    and "fst (active_generation cr resolve base project (authority_run cr resolve base project (ops1 @ ops2) [])) = Inr new"
  shows "ag_generation_number old \<le> ag_generation_number new"
proof -
  have "settled base project [] 0"
    unfolding settled_def by (intro exI [of _ None]) (simp add: pending_def floor_is_def effective_def read_file_def)
  then obtain n where n: "settled base project (authority_run cr resolve base project ops1 []) n"
    using authority_run_settled [OF assms(1)] by blast
  then obtain m where m: "n \<le> m" "settled base project (authority_run cr resolve base project (ops1 @ ops2) []) m"
    using authority_run_settled [OF assms(1) n, of cr ops2] by (auto simp: authority_run_def)
  have "ag_generation_number old = n"
    using active_is_floor(3) [OF assms(1) n prod.collapse [symmetric] assms(2)] by blast
  moreover have "ag_generation_number new = m"
    using active_is_floor(3) [OF assms(1) m(2) prod.collapse [symmetric] assms(3)] by blast
  ultimately show ?thesis using m(1) by simp
qed

text \<open>C12. An activation that is cut off after any step of its commit is, for whoever reads the directory next,
  complete if the first step was carried out, and otherwise as if it had not begun its commit.
\<close>

theorem activation_is_atomic:
  assumes "plain_directory resolve base" and "settled base project d n"
    and "activation cr resolve base project i sig d = (Inr new, u)"
  shows "recover_metadata resolve base project (snd (activate k cr resolve base project i sig d)) =
    (Inr (), if k = 0 then u else snd (activate 5 cr resolve base project i sig d))"
proof -
  note act = activation_settled(2) [OF assms refl]
  have "recover_metadata resolve base project d = (Inr (), u)" using floor_of_settled(1) [OF assms(1,2)] act by blast
  then have t: "read_file transition_file u = No_File" by (rule recovered_no_transition [OF assms(1,2)])
  show ?thesis
    using recover_committed [OF assms(1), of project new k u] act recover_nothing [OF t]
    by (simp add: activate_def assms(3) commit_upto_simps committed_dir_def)
qed

text \<open>C20. After an activation whose commit was begun, the next reading accepts exactly the generation that was
  activated, even if the activation was cut off.
\<close>

theorem activation_takes_effect:
  assumes "plain_directory resolve base" and "settled base project d n" and "hex_digests cr"
    and "activation cr resolve base project i sig d = (Inr new, u)" and "0 < k"
  shows "fst (active_generation cr resolve base project (snd (activate k cr resolve base project i sig d))) = Inr new"
proof -
  note act = activation_settled(2) [OF assms(1,2,4) refl]
  let ?w = "commit_upto k base new u"
  have r: "recover_metadata resolve base project ?w = (Inr (), committed_dir base new u)"
    using recover_committed [OF assms(1) _ assms(5)] act by blast
  have "recover_metadata resolve base project (committed_dir base new u) = (Inr (), committed_dir base new u)"
    using recover_committed [OF assms(1), of project new 5 u] act by (simp add: committed_dir_def)
  with r have "active_generation cr resolve base project ?w = active_generation cr resolve base project (committed_dir base new u)"
    by (simp add: active_generation_def)
  with activated_is_read [OF assms(1,2,4,3)] show ?thesis by (simp add: activate_def assms(4))
qed

text \<open>Preparing a legacy generation under the identifier of the active one is accepted, and it leaves the
  project without an active generation: the next reading fails.
\<close>

theorem prepare_disables_active:
  assumes "plain_directory resolve base" and "settled base project d n"
    and "active_generation cr resolve base project d = (Inr old, u)" and "ag_schema_version old = ''1.0''"
    and "ag_generation_id g = ag_generation_id old" and "ag_project_id g = project" and "ag_schema_version g = ''1.0''"
    and "save_prepared cr g u = (Inr (), w)"
  shows "\<exists>e. fst (active_generation cr resolve base project w) = Inl e"
proof (rule ccontr)
  assume "\<nexists>e. fst (active_generation cr resolve base project w) = Inl e"
  then obtain x where x: "fst (active_generation cr resolve base project w) = Inr x"
    by (cases "fst (active_generation cr resolve base project w)") auto
  note old = active_is_floor(2) [OF assms(1-3)]
  have t: "read_file transition_file u = No_File" by (rule recovered_no_transition [OF assms(1,2) old])
  note rec = recover_nothing [OF t, of resolve base project]
  have "fst (active_generation cr resolve base project u) = Inr old"
    using assms(3) old rec by (simp add: active_generation_def)
  then obtain v where v: "read_file selector_file u = Json v" "field ''generation_id'' v = Some (JStr (ag_generation_id old))"
    "load_generation cr project (ag_generation_id old) u = Inr old" by (rule active_sources [OF rec])
  have l: "load_generation cr (ag_project_id g) (ag_generation_id g) u = Inr old" using v(3) assms(5,6) by simp
  obtain h where h: "w = write_file (generation_file (ag_generation_id g)) (generation_to_dict h) u" "\<not> committed h"
    "load_generation cr (ag_project_id g) (ag_generation_id g) w = Inr h" "generation_id_ok (ag_generation_id g)"
    using save_prepared_over [OF assms(8) _ l] assms(4,7) by auto
  note other = generation_file_other [OF h(4)]
  have "read_file transition_file w = No_File" using t other by (simp add: h(1) read_write)
  then have "recover_metadata resolve base project w = (Inr (), w)" by (rule recover_nothing)
  then obtain y where y: "read_file selector_file w = Json y" "field ''generation_id'' y = Some (JStr (ag_generation_id x))"
    "load_generation cr project (ag_generation_id x) w = Inr x" "generation_validate cr True x = Inr ()"
    using x by (rule active_sources)
  have "y = v" using y(1) v(1) other by (simp add: h(1) read_write)
  then have "x = h" using y(2,3) v(2) h(3) assms(5,6) by simp
  with y(4) h(2) show False by (simp add: generation_validate_active committed_def)
qed

end
