(* ===== verification/AuthoritySample.thy ===== *)
theory AuthoritySample
  imports AuthoritySafety
begin

section \<open>A run of the store of authority generations\<close>

text \<open>
  A legacy generation is prepared, activated and prepared once more, under the laws of the store; the
  theorems on authority generations are applied along the way.
\<close>

definition sample_digest :: string where
  "sample_digest = replicate 64 CHR ''0''"

definition sample_crypto :: crypto where
  "sample_crypto = \<lparr>cr_hash = (\<lambda>_. sample_digest), cr_anchor = Inr (''owner'', sample_digest),
     cr_signed = (\<lambda>_ _. True), cr_legacy = Some (\<lambda>_. ''mac'')\<rparr>"

definition sample_authority_id :: string where
  "sample_authority_id = ''project-'' @ replicate 16 CHR ''a''"

definition sample_component :: "string \<Rightarrow> authority_component" where
  "sample_component n = \<lparr>ak_name = n, ak_generation_id = ''generation-1'', ak_artifact_hash = sample_digest,
     ak_scheme = ''HMAC-SHA256'', ak_project_id = sample_authority_id, ak_semantic_hash = sample_digest,
     ak_artifact_path = None, ak_artifact_signature = JNull\<rparr>"

definition sample_generation :: "generation_status \<Rightarrow> generation" where
  "sample_generation s = \<lparr>ag_generation_id = ''generation-1'', ag_project_id = sample_authority_id, ag_scheme = ''HMAC-SHA256'',
     ag_owner_key_id = ''owner'', ag_owner_fingerprint = sample_digest, ag_constitution_id = ''constitution-1'',
     ag_constitution_hash = sample_digest, ag_policy_hash = sample_digest, ag_operation_id = ''op'', ag_status = s,
     ag_components = map sample_component authority_components, ag_manifest_hash = sample_digest, ag_generation_number = 1,
     ag_predecessor_id = None, ag_predecessor_hash = None, ag_signature = JStr ''mac'', ag_schema_version = ''1.0''\<rparr>"

lemma sample_parts:
  "ag_generation_id (sample_generation s) = ''generation-1''" "ag_project_id (sample_generation s) = sample_authority_id"
  "ag_status (sample_generation s) = s" "ag_schema_version (sample_generation s) = ''1.0''" "ag_scheme (sample_generation s) = ''HMAC-SHA256''"
  "ag_generation_number (sample_generation s) = 1" "ag_signature (sample_generation s) = JStr ''mac''"
  by (simp_all add: sample_generation_def)

lemma sample_owner:
  "ag_owner_key_id (sample_generation s) = ''owner''" "ag_owner_fingerprint (sample_generation s) = sample_digest"
  "ag_constitution_id (sample_generation s) = ''constitution-1''" "ag_constitution_hash (sample_generation s) = sample_digest"
  "ag_policy_hash (sample_generation s) = sample_digest" "ag_operation_id (sample_generation s) = ''op''"
  "ag_predecessor_id (sample_generation s) = None" "ag_manifest_hash (sample_generation s) = sample_digest"
  by (simp_all add: sample_generation_def)

lemma sample_digest_facts: "length sample_digest = 64" "sha256_match sample_digest" "sample_digest \<noteq> []"
  by (simp_all add: sample_digest_def sha256_match_def list_all_iff is_hex_def is_digit_def)

lemma sample_ids: "generation_id_ok ''generation-1''" "project_id_ok sample_authority_id"
  by code_simp+

lemma sample_hash: "manifest_hash sample_crypto g = sample_digest" "hex_digests sample_crypto"
  by (simp_all add: manifest_hash_def sample_crypto_def hex_digests_def sample_digest_facts)

lemma sample_signed: "verify_legacy sample_crypto (sample_generation s) = Inr ()"
  "sign_legacy sample_crypto (sample_generation s) = Inr (sample_generation s)"
  by (simp_all add: verify_legacy_def sign_legacy_def legacy_signature_def sample_crypto_def sample_generation_def)

lemma sample_components:
  "for_each (component_validate sample_authority_id ''generation-1'' ''HMAC-SHA256'') (map sample_component authority_components) = Inr ()"
  by (simp add: for_each_ok component_validate_def steps_ok sample_component_def sample_digest_facts)

lemma sample_bindings: "semantic_hash_of ''constitution'' (sample_generation s) = Some sample_digest"
  "semantic_hash_of ''policy'' (sample_generation s) = Some sample_digest"
  by (simp_all add: semantic_hash_of_def sample_generation_def authority_components_def sample_component_def)

lemma sample_complete: "set (map ak_name (ag_components (sample_generation s))) = set (expected_components (sample_generation s))"
  "length (ag_components (sample_generation s)) = length (expected_components (sample_generation s))"
  by (simp_all add: expected_components_def sample_generation_def authority_components_def sample_component_def)

lemma sample_valid: "generation_validate sample_crypto False (sample_generation s) = Inr ()"
proof -
  have "starts_with ''project-'' sample_authority_id" by (simp add: sample_authority_id_def starts_with_def)
  moreover have "check_signature sample_crypto (sample_generation s) = Inr ()" by (simp add: check_signature_def sample_parts)
  moreover have "for_each (component_validate (ag_project_id (sample_generation s)) (ag_generation_id (sample_generation s))
      (ag_scheme (sample_generation s))) (ag_components (sample_generation s)) = Inr ()"
    using sample_components by (simp add: sample_generation_def)
  ultimately show ?thesis
    using sample_complete [of s] sample_bindings [of s]
    by (simp add: generation_validate_def steps_ok sample_hash sample_parts sample_owner sample_digest_facts)
qed

text \<open>The four states of the directory: nothing, prepared, active, and prepared again\<close>

definition prepared_dir :: authority_dir where
  "prepared_dir = [(generation_file ''generation-1'', Json (generation_to_dict (sample_generation Gen_VERIFIED)))]"

definition active_dir :: authority_dir where
  "active_dir = committed_dir ''/root'' (sample_generation Gen_ACTIVE) prepared_dir"

text \<open>The resolution of an absolute path without symbolic links: empty segments and \<open>.\<close> are dropped, \<open>..\<close> goes up.\<close>

definition resolve_dots :: "string \<Rightarrow> string" where
  "resolve_dots p = concat (map (\<lambda>s. CHR ''/'' # s) (fold (\<lambda>s up. if s = ''..'' then butlast up else up @ [s]) (path_segments p) []))"

lemma resolve_dots_examples: "resolve_dots ''/root/../a//b/./c/'' = ''/a/b/c''"
  by code_simp

lemma sample_directory: "plain_directory resolve_dots ''/root''"
proof -
  have "resolve_dots (''/root'' @ ''/'' @ generation_file i) = ''/root'' @ ''/'' @ generation_file i" if i: "generation_id_ok i" for i
  proof -
    obtain c cs where g: "generation_file i = CHR ''g'' # c # cs" "CHR ''/'' \<notin> set (generation_file i)"
      using generation_file_plain(1,2) [OF i] by (cases "generation_file i"; cases "tl (generation_file i)") (auto simp: starts_with_def)
    have "split_on (CHR ''/'') (''/root'' @ CHR ''/'' # generation_file i) = split_on (CHR ''/'') ''/root'' @ [generation_file i]"
      using split_on_append_sep [of "CHR ''/''" "''/root''" "generation_file i"] split_on_plain [of "CHR ''/''" "generation_file i"] g(2) by simp
    then show ?thesis using g(1) by (simp add: resolve_dots_def path_segments_def)
  qed
  moreover have "resolve_dots ''/root'' = ''/root''" by code_simp
  ultimately show ?thesis by (simp add: plain_directory_def starts_with_def)
qed

lemma sample_start: "settled ''/root'' sample_authority_id [] 0"
  unfolding settled_def by (intro exI [of _ None]) (simp add: pending_def floor_is_def effective_def read_file_def)

lemma sample_prepare: "save_prepared sample_crypto (sample_generation Gen_VERIFIED) [] = (Inr (), prepared_dir)"
  by (simp add: save_prepared_def sample_signed sample_valid sample_parts sample_ids committed_def read_file_def write_file_def
      prepared_dir_def)

lemma sample_prepared: "settled ''/root'' sample_authority_id prepared_dir 0"
  using save_prepared_settled [OF sample_start, of sample_crypto "sample_generation Gen_VERIFIED"] by (simp add: sample_prepare)

lemma prepared_read: "read_file (generation_file ''generation-1'') prepared_dir = Json (generation_to_dict (sample_generation Gen_VERIFIED))"
  "read_file transition_file prepared_dir = No_File" "read_file floor_file prepared_dir = No_File"
  "read_file selector_file prepared_dir = No_File"
  using generation_file_other [OF sample_ids(1)] by (auto simp: read_file_def prepared_dir_def)

lemma prepared_load: "load_generation sample_crypto sample_authority_id ''generation-1'' prepared_dir = Inr (sample_generation Gen_VERIFIED)"
  using load_saved_generation [of "sample_generation Gen_VERIFIED" prepared_dir sample_crypto]
  by (simp add: sample_parts prepared_read sample_valid sample_signed sample_ids)

lemma prepared_floor: "floor_of sample_crypto resolve_dots ''/root'' sample_authority_id prepared_dir = (Inr 0, prepared_dir)"
proof -
  have "set (generation_stems prepared_dir) \<subseteq> {''generation-1''}"
    by (auto simp: generation_stems_def prepared_dir_def generation_file_def)
  then have "for_each (\<lambda>i. and_then (load_generation sample_crypto sample_authority_id i prepared_dir) (\<lambda>g.
      raise_if (committed g) AuthorityGenerationError ''committed authority floor is missing'')) (generation_stems prepared_dir) = Inr ()"
    by (auto simp: for_each_ok prepared_load committed_def sample_parts)
  then show ?thesis by (simp add: floor_of_def recover_nothing prepared_read)
qed

lemma sample_rebuild: "rebuild sample_crypto (sample_generation Gen_VERIFIED\<lparr>ag_status := Gen_ACTIVE, ag_signature := JStr ''mac''\<rparr>)
    = sample_generation Gen_ACTIVE"
  by (simp add: rebuild_def sample_hash) (simp add: sample_generation_def)

lemma sample_active_valid: "generation_validate sample_crypto True (sample_generation Gen_ACTIVE) = Inr ()"
  unfolding generation_validate_active by (simp add: sample_valid sample_parts)

lemma sample_activation: "activation sample_crypto resolve_dots ''/root'' sample_authority_id ''generation-1'' None prepared_dir
    = (Inr (sample_generation Gen_ACTIVE), prepared_dir)"
  by (simp add: activation_def prepared_load prepared_floor sample_parts prepared_read sample_rebuild sample_signed sample_active_valid)

lemma active_is_read: "active_generation sample_crypto resolve_dots ''/root'' sample_authority_id active_dir
    = (Inr (sample_generation Gen_ACTIVE), active_dir)"
  using activated_is_read [OF sample_directory sample_prepared sample_activation sample_hash(2)] by (simp add: active_dir_def)

lemma active_settled: "settled ''/root'' sample_authority_id active_dir 1"
  using commit_settled [of sample_authority_id "sample_generation Gen_ACTIVE" prepared_dir "''/root''" 0 5] sample_prepared
  by (simp add: active_dir_def committed_dir_def bound_to_def sample_parts sample_ids prepared_read)

lemma active_load: "load_generation sample_crypto sample_authority_id ''generation-1'' active_dir = Inr (sample_generation Gen_ACTIVE)"
  using load_saved_generation [of "sample_generation Gen_ACTIVE" active_dir sample_crypto] generation_file_other [OF sample_ids(1)]
  by (simp add: sample_parts committed_dir_read active_dir_def sample_valid sample_signed sample_ids)

lemma active_has_file: "read_file (generation_file ''generation-1'') active_dir \<noteq> No_File"
  using load_generationD(5) [OF active_load] .

lemma sample_again: "save_prepared sample_crypto (sample_generation Gen_PREPARED) active_dir =
    (Inr (), write_file (generation_file ''generation-1'') (generation_to_dict (sample_generation Gen_PREPARED)) active_dir)"
  by (simp add: save_prepared_def sample_signed sample_valid sample_parts sample_ids committed_def active_has_file active_load)

lemma sample_run: "authority_run sample_crypto resolve_dots ''/root'' sample_authority_id
    [Au_Prepare (sample_generation Gen_VERIFIED), Au_Activate 5 ''generation-1'' None] [] = active_dir"
  by (simp add: authority_run_def sample_prepare activate_def sample_activation active_dir_def committed_dir_def)

lemma sample_longer_run: "authority_run sample_crypto resolve_dots ''/root'' sample_authority_id
    ([Au_Prepare (sample_generation Gen_VERIFIED), Au_Activate 5 ''generation-1'' None] @ [Au_Read]) [] = active_dir"
  unfolding authority_run_append sample_run by (simp add: authority_run_def active_is_read)

lemma sample_runs_read:
  "fst (active_generation sample_crypto resolve_dots ''/root'' sample_authority_id (authority_run sample_crypto resolve_dots ''/root''
     sample_authority_id [Au_Prepare (sample_generation Gen_VERIFIED), Au_Activate 5 ''generation-1'' None] []))
     = Inr (sample_generation Gen_ACTIVE)"
  "fst (active_generation sample_crypto resolve_dots ''/root'' sample_authority_id (authority_run sample_crypto resolve_dots ''/root''
     sample_authority_id ([Au_Prepare (sample_generation Gen_VERIFIED), Au_Activate 5 ''generation-1'' None] @ [Au_Read]) []))
     = Inr (sample_generation Gen_ACTIVE)"
  unfolding sample_run sample_longer_run by (simp_all add: active_is_read)

theorem authority_never_downgraded_witness:
  "fst (active_generation sample_crypto resolve_dots ''/root'' sample_authority_id (authority_run sample_crypto resolve_dots ''/root''
     sample_authority_id [Au_Prepare (sample_generation Gen_VERIFIED), Au_Activate 5 ''generation-1'' None] []))
     = Inr (sample_generation Gen_ACTIVE) \<and>
   ag_generation_number (sample_generation Gen_ACTIVE) \<le> ag_generation_number (sample_generation Gen_ACTIVE)"
  using authority_never_downgraded [OF sample_directory sample_runs_read] sample_runs_read(1) by blast

theorem activation_is_atomic_witness:
  "recover_metadata resolve_dots ''/root'' sample_authority_id
     (snd (activate 2 sample_crypto resolve_dots ''/root'' sample_authority_id ''generation-1'' None prepared_dir)) = (Inr (), active_dir)"
  using activation_is_atomic [OF sample_directory sample_prepared sample_activation, of 2]
  by (simp add: activate_def sample_activation active_dir_def committed_dir_def)

theorem activation_takes_effect_witness:
  "fst (active_generation sample_crypto resolve_dots ''/root'' sample_authority_id
     (snd (activate 3 sample_crypto resolve_dots ''/root'' sample_authority_id ''generation-1'' None prepared_dir)))
   = Inr (sample_generation Gen_ACTIVE)"
  by (rule activation_takes_effect [OF sample_directory sample_prepared sample_hash(2) sample_activation]) simp

theorem prepare_disables_active_witness:
  "\<exists>e. fst (active_generation sample_crypto resolve_dots ''/root'' sample_authority_id
     (write_file (generation_file ''generation-1'') (generation_to_dict (sample_generation Gen_PREPARED)) active_dir)) = Inl e"
  by (rule prepare_disables_active [OF sample_directory active_settled active_is_read _ _ _ _ sample_again])
    (simp_all add: sample_parts)

end
