(* ===== verification/PolicyState.thy ===== *)
theory PolicyState
  imports Lifecycle CanonicalJson
begin

section \<open>The transactional policy state (policy_state_store.py)\<close>

text \<open>
  The SQLite store of policies, their activations and rollbacks, of the kill switch, and of the journal of
  operations, in which a delivery is reserved, begun and committed. A table with a key is a list of pairs,
  any other the list of its rows in the order of insertion. An operation is a function from the tables to
  an outcome and the new tables; if it raises, its transaction is rolled back. A column that holds the
  JSON text of a value is modelled by the value. \<open>now\<close> is the clock's text; \<open>H\<close> is SHA-256 in hexadecimal.
  A value bound to a column of text that is no text is an error of SQLite.
\<close>

datatype journal_kind = J_kill_switch | J_reserved | J_committing | J_committed | J_activate | J_refresh | J_rollback

fun journal_kind_value :: "journal_kind \<Rightarrow> string" where
  "journal_kind_value J_kill_switch = ''kill_switch''"
| "journal_kind_value J_reserved = ''delivery_reserved''"
| "journal_kind_value J_committing = ''delivery_committing''"
| "journal_kind_value J_committed = ''delivery_committed''"
| "journal_kind_value J_activate = ''activate''"
| "journal_kind_value J_refresh = ''refresh''"
| "journal_kind_value J_rollback = ''rollback''"

record policy_row =
  pr_project_id :: string
  pr_policy_id :: string
  pr_policy_hash :: string
  pr_version :: string
  pr_schema_version :: string
  pr_compatibility :: string
  pr_signature :: string
  pr_key_id :: string
  pr_artifact :: json
  pr_created_at :: string

record activation_row =
  ar_project_id :: string
  ar_operation_id :: string
  ar_policy_id :: string
  ar_policy_hash :: string
  ar_previous_policy_hash :: string
  ar_activation_time :: string
  ar_signature :: string
  ar_record :: json
  ar_generation :: int

record active_row =
  ac_policy_id :: "string option"
  ac_policy_hash :: "string option"
  ac_activation_id :: "string option"
  ac_generation :: int

record rollback_row =
  rb_project_id :: string
  rb_operation_id :: string
  rb_superseded_policy_hash :: string
  rb_restored_policy_hash :: string
  rb_tombstone_hash :: string
  rb_signature :: string
  rb_record :: json
  rb_generation :: int

record journal_row =
  jr_project_id :: string
  jr_kind :: journal_kind
  jr_generation :: int
  jr_payload_hash :: string
  jr_committed_at :: string

record authority_row =
  au_generation :: int
  au_kill_switch_active :: bool
  au_operation_id :: string
  au_changed_at :: string
  au_reason :: string

record policy_tables =
  pt_policies :: "policy_row list"
  pt_activations :: "activation_row list"
  pt_active :: "(string \<times> active_row) list"
  pt_rollbacks :: "rollback_row list"
  pt_journal :: "(string \<times> journal_row) list"
  pt_authority :: "(string \<times> authority_row) list"

text \<open>The store's file: none, one that a connection created without tables, or one with its tables\<close>

datatype policy_file = No_Store | Blank_Store | Store policy_tables

abbreviation policy_error :: "string \<Rightarrow> 'a res" where
  "policy_error m \<equiv> raise PolicyStateError m"

abbreviation integrity_error :: "'a res" where
  "integrity_error \<equiv> raise SqliteError ''UNIQUE constraint failed''"

subsection \<open>Connections and transactions\<close>

definition no_rows :: policy_tables where
  "no_rows = \<lparr>pt_policies = [], pt_activations = [], pt_active = [], pt_rollbacks = [], pt_journal = [], pt_authority = []\<rparr>"

definition initialized :: "policy_file \<Rightarrow> policy_tables" where
  "initialized f = (case f of Store t \<Rightarrow> t | _ \<Rightarrow> no_rows)"

text \<open>\<open>initialize\<close>, then the transaction\<close>

definition mutation :: "bool \<Rightarrow> (policy_tables \<Rightarrow> ('a \<times> policy_tables) res) \<Rightarrow> policy_file \<Rightarrow> 'a res \<times> policy_file" where
  "mutation read_only body f =
     (if read_only then (policy_error ''read-only policy store cannot initialize'', f)
      else (case body (initialized f) of
        Inl e \<Rightarrow> (Inl e, Store (initialized f))
      | Inr (x, t) \<Rightarrow> (Inr x, Store t)))"

text \<open>A connection that only reads creates the file unless it is opened read-only.\<close>

definition connection :: "bool \<Rightarrow> policy_file \<Rightarrow> unit res \<times> policy_file" where
  "connection read_only f = (if f = No_Store then (if read_only then (policy_error ''policy state store is missing'', f) else (Inr (), Blank_Store))
     else (Inr (), f))"

text \<open>\<open>v[key]\<close>, and its text where it is bound to a column\<close>

definition item :: "string \<Rightarrow> json \<Rightarrow> json res" where
  "item k v = (if \<not> is_dict v then raise TypeError [] else (case field k v of None \<Rightarrow> raise KeyError k | Some w \<Rightarrow> Inr w))"

definition bound_text :: "json \<Rightarrow> string res" where
  "bound_text v = (case the_str v of None \<Rightarrow> raise SqliteError ''value is no text'' | Some s \<Rightarrow> Inr s)"

definition text_item :: "string \<Rightarrow> json \<Rightarrow> string res" where
  "text_item k v = and_then (item k v) bound_text"

definition check_unused :: "string \<Rightarrow> policy_tables \<Rightarrow> unit res" where
  "check_unused op t = raise_if (map_of (pt_journal t) op \<noteq> None) PolicyStateError ''operation identity has already been consumed''"

definition insert_journal :: "string \<Rightarrow> journal_row \<Rightarrow> policy_tables \<Rightarrow> policy_tables res" where
  "insert_journal op row t = (if map_of (pt_journal t) op \<noteq> None then integrity_error
     else Inr (t\<lparr>pt_journal := (op, row) # pt_journal t\<rparr>))"

definition insert_activation :: "activation_row \<Rightarrow> policy_tables \<Rightarrow> policy_tables res" where
  "insert_activation row t = (if ar_operation_id row \<in> ar_operation_id ` set (pt_activations t) then integrity_error
     else Inr (t\<lparr>pt_activations := pt_activations t @ [row]\<rparr>))"

definition insert_rollback :: "rollback_row \<Rightarrow> policy_tables \<Rightarrow> policy_tables res" where
  "insert_rollback row t = (if rb_operation_id row \<in> rb_operation_id ` set (pt_rollbacks t) then integrity_error
     else Inr (t\<lparr>pt_rollbacks := pt_rollbacks t @ [row]\<rparr>))"

subsection \<open>Policies\<close>

definition policy_key :: "policy_row \<Rightarrow> string \<times> string \<times> string" where
  "policy_key r = (pr_project_id r, pr_policy_id r, pr_policy_hash r)"

definition policy_row_of :: "json \<Rightarrow> string \<Rightarrow> string \<Rightarrow> policy_row res" where
  "policy_row_of policy h now = and_then (text_item ''project_id'' policy) (\<lambda>a. and_then (text_item ''policy_id'' policy) (\<lambda>b.
     and_then (text_item ''version'' policy) (\<lambda>c. and_then (text_item ''schema_version'' policy) (\<lambda>d.
     and_then (text_item ''compatibility'' policy) (\<lambda>e. and_then (text_item ''signature'' policy) (\<lambda>f.
     and_then (text_item ''key_id'' policy) (\<lambda>g. Inr \<lparr>pr_project_id = a, pr_policy_id = b, pr_policy_hash = h, pr_version = c,
       pr_schema_version = d, pr_compatibility = e, pr_signature = f, pr_key_id = g, pr_artifact = policy, pr_created_at = now\<rparr>)))))))"

definition prepare_policy :: "json \<Rightarrow> string \<Rightarrow> string \<Rightarrow> policy_tables \<Rightarrow> (unit \<times> policy_tables) res" where
  "prepare_policy policy h now t = and_then (policy_row_of policy h now) (\<lambda>r.
     Inr ((), if policy_key r \<in> policy_key ` set (pt_policies t) then t else t\<lparr>pt_policies := pt_policies t @ [r]\<rparr>))"

definition is_prepared :: "string \<Rightarrow> json \<Rightarrow> json \<Rightarrow> policy_tables \<Rightarrow> bool" where
  "is_prepared project i h t = list_ex (\<lambda>r. pr_project_id r = project \<and> JStr (pr_policy_id r) = i \<and> JStr (pr_policy_hash r) = h) (pt_policies t)"

text \<open>\<open>ORDER BY created_at DESC LIMIT 1\<close>; of several rows with one time the first of the table\<close>

definition latest_row :: "policy_row list \<Rightarrow> policy_row option" where
  "latest_row rs = find (\<lambda>r. list_all (\<lambda>s. pr_created_at s \<le> pr_created_at r) rs) rs"

definition latest_policy :: "string \<Rightarrow> string \<Rightarrow> policy_tables \<Rightarrow> json option" where
  "latest_policy project i t = map_option pr_artifact
     (latest_row (filter (\<lambda>r. pr_project_id r = project \<and> pr_policy_id r = i) (pt_policies t)))"

subsection \<open>The kill switch\<close>

definition bootstrap_authority :: "string \<Rightarrow> int \<Rightarrow> string \<Rightarrow> policy_tables \<Rightarrow> (unit \<times> policy_tables) res" where
  "bootstrap_authority project generation now t = Inr ((), case map_of (pt_authority t) project of
     Some _ \<Rightarrow> t
   | None \<Rightarrow> t\<lparr>pt_authority := (project, \<lparr>au_generation = generation, au_kill_switch_active = False, au_operation_id = ''bootstrap'',
       au_changed_at = now, au_reason = ''initial authoritative state''\<rparr>) # pt_authority t\<rparr>)"

text \<open>\<open>_verify_owner_operation\<close>; \<open>mac\<close> is the owner's keyed hash, if the key can be read\<close>

definition authorization_keys :: "string list" where
  "authorization_keys = [''project_id'', ''operation_id'', ''active'', ''reason'', ''key_id'', ''signature'']"

definition without_signature :: "json \<Rightarrow> json" where
  "without_signature v = (case v of JObj kvs \<Rightarrow> JObj (filter (\<lambda>(k, _). k \<noteq> ''signature'') kvs) | _ \<Rightarrow> v)"

definition verify_owner_operation ::
    "(string \<Rightarrow> string) option \<Rightarrow> json \<Rightarrow> string \<Rightarrow> string \<Rightarrow> bool \<Rightarrow> string \<Rightarrow> unit res" where
  "verify_owner_operation mac auth project op active reason =
     raise_if (\<not> has_keys authorization_keys auth \<or> field ''project_id'' auth \<noteq> Some (JStr project) \<or>
       field ''operation_id'' auth \<noteq> Some (JStr op) \<or> field ''active'' auth \<noteq> Some (JBool active) \<or>
       field ''reason'' auth \<noteq> Some (JStr reason) \<or> field ''key_id'' auth \<noteq> Some (JStr ''owner-key-1'') \<or>
       (case (Option.bind (field ''signature'' auth) the_str, mac) of
          (Some s, Some m) \<Rightarrow> s \<noteq> m (dump_ascii (without_signature auth)) | _ \<Rightarrow> True))
       PolicyStateError ''owner authorization is invalid''"

definition set_kill_switch ::
    "(string \<Rightarrow> string) \<Rightarrow> (string \<Rightarrow> string) option \<Rightarrow> string \<Rightarrow> string \<Rightarrow> bool \<Rightarrow> string \<Rightarrow> json \<Rightarrow> int option \<Rightarrow> string \<Rightarrow>
     policy_tables \<Rightarrow> (int \<times> policy_tables) res" where
  "set_kill_switch H mac project op active reason auth expected now t =
     and_then (check_unused op t) (\<lambda>_. and_then (verify_owner_operation mac auth project op active reason) (\<lambda>_.
     case map_of (pt_authority t) project of
       None \<Rightarrow> policy_error ''authority state is not bootstrapped''
     | Some row \<Rightarrow>
       if expected \<noteq> None \<and> expected \<noteq> Some (au_generation row) then policy_error ''stale authority generation''
       else (let g = au_generation row + 1;
           payload = dump_ascii (JObj [(''active'', JBool active), (''reason'', JStr reason), (''generation'', JInt g)]);
           u = t\<lparr>pt_authority := dict_set project \<lparr>au_generation = g, au_kill_switch_active = active, au_operation_id = op,
             au_changed_at = now, au_reason = reason\<rparr> (pt_authority t)\<rparr> in
         and_then (insert_journal op \<lparr>jr_project_id = project, jr_kind = J_kill_switch, jr_generation = g, jr_payload_hash = H payload,
           jr_committed_at = now\<rparr> u) (\<lambda>w. Inr (g, w)))))"

subsection \<open>Deliveries\<close>

text \<open>The tests of the project's authority that the delivery operations share\<close>

definition authority_permits :: "string \<Rightarrow> int \<Rightarrow> policy_tables \<Rightarrow> unit res" where
  "authority_permits project expected t = (case map_of (pt_authority t) project of
     None \<Rightarrow> policy_error ''authority state is not bootstrapped''
   | Some row \<Rightarrow> steps [
       raise_if (au_generation row \<noteq> expected) PolicyStateError ''authorization generation is stale'',
       raise_if (au_kill_switch_active row) PolicyStateError ''kill switch is active''])"

definition reserve_delivery ::
    "(string \<Rightarrow> string) \<Rightarrow> string \<Rightarrow> string \<Rightarrow> int \<Rightarrow> string \<Rightarrow> policy_tables \<Rightarrow> (unit \<times> policy_tables) res" where
  "reserve_delivery H project op expected now t = and_then (check_unused op t) (\<lambda>_. and_then (authority_permits project expected t) (\<lambda>_.
     and_then (insert_journal op \<lparr>jr_project_id = project, jr_kind = J_reserved, jr_generation = expected, jr_payload_hash = H op,
       jr_committed_at = now\<rparr> t) (\<lambda>u. Inr ((), u))))"

definition update_journal :: "string \<Rightarrow> (journal_row \<Rightarrow> journal_row) \<Rightarrow> policy_tables \<Rightarrow> policy_tables" where
  "update_journal op h t = (case map_of (pt_journal t) op of None \<Rightarrow> t
     | Some r \<Rightarrow> t\<lparr>pt_journal := dict_set op (h r) (pt_journal t)\<rparr>)"

text \<open>\<open>token\<close> is what \<open>uuid4\<close> returns.\<close>

definition begin_delivery_commit ::
    "string \<Rightarrow> string \<Rightarrow> int \<Rightarrow> string \<Rightarrow> policy_tables \<Rightarrow> (string \<times> policy_tables) res" where
  "begin_delivery_commit project op expected token t = (case (map_of (pt_authority t) project, map_of (pt_journal t) op) of
     (Some row, Some j) \<Rightarrow>
       if jr_kind j \<noteq> J_reserved then policy_error ''delivery authorization is not reservable''
       else if au_generation row \<noteq> expected \<or> jr_generation j \<noteq> expected then policy_error ''authorization generation is stale''
       else if au_kill_switch_active row then policy_error ''kill switch is active''
       else Inr (token, update_journal op (\<lambda>r. r\<lparr>jr_kind := J_committing, jr_payload_hash := token\<rparr>) t)
   | _ \<Rightarrow> policy_error ''delivery authorization is not reservable'')"

text \<open>\<open>delivery_transaction\<close> around a body that returns or raises\<close>

definition delivery_transaction ::
    "string \<Rightarrow> string \<Rightarrow> int \<Rightarrow> string \<Rightarrow> string \<Rightarrow> 'a res \<Rightarrow> policy_tables \<Rightarrow> ('a \<times> policy_tables) res" where
  "delivery_transaction project op expected token now body t = and_then (authority_permits project expected t) (\<lambda>_.
     case map_of (pt_journal t) op of
       None \<Rightarrow> policy_error ''delivery authorization is not in commit state''
     | Some j \<Rightarrow> and_then (steps [
         raise_if (jr_kind j \<noteq> J_committing) PolicyStateError ''delivery authorization is not in commit state'',
         raise_if (jr_generation j \<noteq> expected) PolicyStateError ''authorization generation is stale'',
         raise_if (jr_payload_hash j \<noteq> token) PolicyStateError ''delivery commit token is invalid'']) (\<lambda>_.
         and_then body (\<lambda>x. Inr (x, update_journal op (\<lambda>r. r\<lparr>jr_kind := J_committed, jr_committed_at := now\<rparr>) t))))"

subsection \<open>Activation, refresh and rollback\<close>

text \<open>The failure hook of the tests is asked at each point whether it raises.\<close>

type_synonym failure_hook = "string \<Rightarrow> exc option"

definition at_point :: "failure_hook \<Rightarrow> string \<Rightarrow> unit res" where
  "at_point hook p = (case hook p of None \<Rightarrow> Inr () | Some e \<Rightarrow> Inl e)"

definition activation_row_of :: "string \<Rightarrow> string \<Rightarrow> json \<Rightarrow> int \<Rightarrow> activation_row res" where
  "activation_row_of project op activation g = and_then (text_item ''policy_id'' activation) (\<lambda>a.
     and_then (text_item ''policy_hash'' activation) (\<lambda>b. and_then (text_item ''previous_policy_hash'' activation) (\<lambda>c.
     and_then (text_item ''activation_time'' activation) (\<lambda>d. and_then (text_item ''signature'' activation) (\<lambda>e.
       Inr \<lparr>ar_project_id = project, ar_operation_id = op, ar_policy_id = a, ar_policy_hash = b, ar_previous_policy_hash = c,
         ar_activation_time = d, ar_signature = e, ar_record = activation, ar_generation = g\<rparr>)))))"

text \<open>The journal entry and the activation, with the points between\<close>

definition record_activation ::
    "failure_hook \<Rightarrow> journal_kind \<Rightarrow> string \<Rightarrow> string \<Rightarrow> string \<Rightarrow> json \<Rightarrow> int \<Rightarrow> string \<Rightarrow> policy_tables \<Rightarrow> policy_tables res" where
  "record_activation hook kind project op h activation g now t = and_then (at_point hook ''before_journal'') (\<lambda>_.
     and_then (insert_journal op \<lparr>jr_project_id = project, jr_kind = kind, jr_generation = g, jr_payload_hash = h, jr_committed_at = now\<rparr> t) (\<lambda>u.
     and_then (at_point hook ''after_journal'') (\<lambda>_. and_then (activation_row_of project op activation g) (\<lambda>r.
     and_then (insert_activation r u) (\<lambda>w. and_then (at_point hook ''after_activation'') (\<lambda>_. Inr w))))))"

definition was_rolled_back :: "string \<Rightarrow> json \<Rightarrow> policy_tables \<Rightarrow> bool" where
  "was_rolled_back project h t = list_ex (\<lambda>r. rb_project_id r = project \<and> JStr (rb_superseded_policy_hash r) = h) (pt_rollbacks t)"

definition activate_policy ::
    "failure_hook \<Rightarrow> string \<Rightarrow> json \<Rightarrow> json \<Rightarrow> int option \<Rightarrow> string \<Rightarrow> policy_tables \<Rightarrow> (int \<times> policy_tables) res" where
  "activate_policy hook project policy activation expected now t = and_then (text_item ''operation_id'' activation) (\<lambda>op.
     and_then (check_unused op t) (\<lambda>_.
     let row = map_of (pt_active t) project; current = (case row of None \<Rightarrow> 0 | Some r \<Rightarrow> ac_generation r) in
     if row \<noteq> None \<and> ac_policy_hash (the row) \<noteq> None then policy_error ''active policy already exists''
     else and_then (text_item ''policy_hash'' activation) (\<lambda>h.
       if was_rolled_back project (JStr h) t then policy_error ''policy artifact was superseded by rollback''
       else if expected \<noteq> None \<and> expected \<noteq> Some current then policy_error ''stale generation''
       else and_then (text_item ''policy_id'' policy) (\<lambda>i.
         if \<not> is_prepared project (JStr i) (JStr h) t then policy_error ''policy artifact is not prepared''
         else and_then (record_activation hook J_activate project op h activation (current + 1) now t) (\<lambda>u.
           and_then (text_item ''policy_id'' activation) (\<lambda>a.
           and_then (at_point hook ''before_commit'') (\<lambda>_. Inr (current + 1, u\<lparr>pt_active := dict_set project
             \<lparr>ac_policy_id = Some a, ac_policy_hash = Some h, ac_activation_id = Some op, ac_generation = current + 1\<rparr> (pt_active u)\<rparr>)))))))) "

definition refresh_policy ::
    "failure_hook \<Rightarrow> string \<Rightarrow> json \<Rightarrow> json \<Rightarrow> int \<Rightarrow> string \<Rightarrow> string \<Rightarrow> policy_tables \<Rightarrow> (int \<times> policy_tables) res" where
  "refresh_policy hook project policy activation expected h now t = and_then (text_item ''operation_id'' activation) (\<lambda>op.
     and_then (check_unused op t) (\<lambda>_. case map_of (pt_active t) project of
       None \<Rightarrow> policy_error ''no active policy to refresh''
     | Some row \<Rightarrow>
       if ac_policy_hash row = None then policy_error ''no active policy to refresh''
       else if ac_generation row \<noteq> expected then policy_error ''stale generation''
       else and_then (item ''policy_id'' policy) (\<lambda>i.
         if map_option JStr (ac_policy_id row) \<noteq> Some i \<or> ac_policy_hash row \<noteq> Some h then policy_error ''active policy identity is stale''
         else and_then (item ''project_id'' activation) (\<lambda>ap. and_then (item ''policy_id'' activation) (\<lambda>ai.
           and_then (item ''policy_hash'' activation) (\<lambda>ah.
           if ap \<noteq> JStr project \<or> ai \<noteq> i \<or> ah \<noteq> JStr h then policy_error ''refresh activation identity is invalid''
           else if \<not> is_prepared project i (JStr h) t then policy_error ''policy artifact is not prepared''
           else and_then (record_activation hook J_refresh project op h activation (expected + 1) now t) (\<lambda>u.
             and_then (at_point hook ''before_commit'') (\<lambda>_. Inr (expected + 1, u\<lparr>pt_active := dict_set project
               (row\<lparr>ac_activation_id := Some op, ac_generation := expected + 1\<rparr>) (pt_active u)\<rparr>))))))))) "

text \<open>\<open>rollback.get("rollback_target", {}).get("policy_hash")\<close>\<close>

definition pinned_target :: "json \<Rightarrow> json res" where
  "pinned_target v = (let w = field_or (JObj []) ''rollback_target'' v in
     if is_dict w then Inr (field_or JNull ''policy_hash'' w) else raise AttributeError [])"

definition check_target :: "string \<Rightarrow> json \<Rightarrow> string \<Rightarrow> policy_tables \<Rightarrow> unit res" where
  "check_target project rollback h t =
     (if list_ex (\<lambda>r. pr_project_id r = project \<and> pr_policy_hash r = h) (pt_policies t) \<or> h = [] then Inr ()
      else and_then (pinned_target rollback) (\<lambda>w. raise_if (w \<noteq> JStr h) PolicyStateError ''rollback target is not pinned''))"

definition rollback_row_of :: "string \<Rightarrow> string \<Rightarrow> string \<Rightarrow> json \<Rightarrow> int \<Rightarrow> rollback_row res" where
  "rollback_row_of project op restored rollback g = and_then (text_item ''superseded_policy_hash'' rollback) (\<lambda>a.
     and_then (text_item ''tombstone_hash'' rollback) (\<lambda>b. and_then (text_item ''signature'' rollback) (\<lambda>c.
       Inr \<lparr>rb_project_id = project, rb_operation_id = op, rb_superseded_policy_hash = a, rb_restored_policy_hash = restored,
         rb_tombstone_hash = b, rb_signature = c, rb_record = rollback, rb_generation = g\<rparr>)))"

definition rollback_policy ::
    "failure_hook \<Rightarrow> string \<Rightarrow> json \<Rightarrow> int option \<Rightarrow> string option \<Rightarrow> string \<Rightarrow> policy_tables \<Rightarrow> (int \<times> policy_tables) res" where
  "rollback_policy hook project rollback expected expected_hash now t = and_then (text_item ''operation_id'' rollback) (\<lambda>op.
     and_then (check_unused op t) (\<lambda>_. case map_of (pt_active t) project of
       None \<Rightarrow> policy_error ''no active policy to rollback''
     | Some row \<Rightarrow>
       if ac_policy_hash row = None then policy_error ''no active policy to rollback''
       else if expected \<noteq> None \<and> expected \<noteq> Some (ac_generation row) then policy_error ''stale generation''
       else if expected_hash \<noteq> None \<and> expected_hash \<noteq> ac_policy_hash row then policy_error ''stale active policy''
       else if field_or JNull ''restored_policy_hash'' rollback = JNull then policy_error ''rollback target is missing''
       else and_then (bound_text (field_or JNull ''restored_policy_hash'' rollback)) (\<lambda>h.
         and_then (check_target project rollback h t) (\<lambda>_.
         and_then (at_point hook ''before_tombstone'') (\<lambda>_.
         and_then (rollback_row_of project op h rollback (ac_generation row + 1)) (\<lambda>r. and_then (insert_rollback r t) (\<lambda>u.
         and_then (at_point hook ''after_tombstone'') (\<lambda>_.
         and_then (insert_journal op \<lparr>jr_project_id = project, jr_kind = J_rollback, jr_generation = ac_generation row + 1,
           jr_payload_hash = rb_tombstone_hash r, jr_committed_at = now\<rparr> u) (\<lambda>w.
         and_then (at_point hook ''after_journal'') (\<lambda>_. and_then (at_point hook ''before_commit'') (\<lambda>_.
           Inr (ac_generation row + 1, w\<lparr>pt_active := dict_set project \<lparr>ac_policy_id = None, ac_policy_hash = None, ac_activation_id = None,
             ac_generation = ac_generation row + 1\<rparr> (pt_active w)\<rparr>))))))))))))"

subsection \<open>Reading\<close>

datatype policy_view =
    View_None
  | View_Inactive active_row "json option"
  | View_Active active_row json json

definition latest_rollback :: "rollback_row list \<Rightarrow> rollback_row option" where
  "latest_rollback rs = find (\<lambda>r. list_all (\<lambda>s. rb_generation s \<le> rb_generation r) rs) rs"

definition snapshot :: "string \<Rightarrow> policy_tables \<Rightarrow> policy_view res" where
  "snapshot project t = (case map_of (pt_active t) project of
     None \<Rightarrow> Inr View_None
   | Some row \<Rightarrow> (case ac_policy_hash row of
       None \<Rightarrow> Inr (View_Inactive row (map_option rb_record (latest_rollback (filter (\<lambda>r. rb_project_id r = project) (pt_rollbacks t)))))
     | Some h \<Rightarrow> (case (find (\<lambda>r. pr_project_id r = project \<and> pr_policy_hash r = h) (pt_policies t),
           find (\<lambda>r. Some (ar_operation_id r) = ac_activation_id row) (pt_activations t)) of
         (Some p, Some a) \<Rightarrow> Inr (View_Active row (pr_artifact p) (ar_record a))
       | _ \<Rightarrow> policy_error ''active policy state is inconsistent'')))"

definition read_snapshot :: "bool \<Rightarrow> string \<Rightarrow> policy_file \<Rightarrow> policy_view res \<times> policy_file" where
  "read_snapshot read_only project f = (case connection read_only f of
     (Inl e, g) \<Rightarrow> (Inl e, g)
   | (Inr _, g) \<Rightarrow> (case g of Store t \<Rightarrow> (snapshot project t, g) | _ \<Rightarrow> (raise SqliteError ''no such table: active_state'', g)))"

definition authority_snapshot :: "bool \<Rightarrow> string \<Rightarrow> policy_file \<Rightarrow> authority_row option res \<times> policy_file" where
  "authority_snapshot read_only project f = (case connection read_only f of
     (Inl e, g) \<Rightarrow> (Inl e, g)
   | (Inr _, g) \<Rightarrow> (Inr (case g of Store t \<Rightarrow> map_of (pt_authority t) project | _ \<Rightarrow> None), g))"

definition read_latest_policy :: "bool \<Rightarrow> string \<Rightarrow> string \<Rightarrow> policy_file \<Rightarrow> json option res \<times> policy_file" where
  "read_latest_policy read_only project i f =
     (if read_only then (case connection True f of
         (Inl e, g) \<Rightarrow> (Inl e, g)
       | (Inr _, g) \<Rightarrow> (case g of Store t \<Rightarrow> (Inr (latest_policy project i t), g) | _ \<Rightarrow> (raise SqliteError ''no such table: policies'', g)))
      else (Inr (latest_policy project i (initialized f)), Store (initialized f)))"

end
