(* ===== verification/PolicySafety.thy ===== *)
theory PolicySafety
  imports PolicyState
begin

section \<open>Deliveries under the kill switch, and histories of the policy state\<close>

text \<open>
  What a change of the tables preserves: a project's authority stays or gets a later generation, and an
  entry of the journal moves through the stages of a delivery. From this: a delivery is committed only
  under the authority it was reserved under, and at most once; and the active policy can always be read.
\<close>

subsection \<open>The stages of an entry of the journal\<close>

fun kind_targets :: "journal_kind \<Rightarrow> journal_kind list" where
  "kind_targets J_reserved = [J_committing]"
| "kind_targets J_committing = [J_committed]"
| "kind_targets _ = []"

definition final_kinds :: "journal_kind list" where
  "final_kinds = [J_kill_switch, J_committed, J_activate, J_refresh, J_rollback]"

interpretation journal_table: lifecycle kind_targets final_kinds
proof
  fix k
  show "k \<in> set final_kinds \<Longrightarrow> kind_targets k = []" by (cases k) (simp_all add: final_kinds_def)
  show "k \<notin> set final_kinds \<Longrightarrow> kind_targets k \<noteq> []" by (cases k) (simp_all add: final_kinds_def)
qed

definition kind_reaches :: "journal_kind \<Rightarrow> journal_kind \<Rightarrow> bool" where
  "kind_reaches a b = (\<exists>ks. history kind_targets a ks \<and> last (a # ks) = b)"

lemma kind_reaches_refl: "kind_reaches a a"
  unfolding kind_reaches_def by (rule exI [of _ "[]"]) simp

lemma kind_reaches_trans: "kind_reaches a b \<Longrightarrow> kind_reaches b c \<Longrightarrow> kind_reaches a c"
proof -
  assume "kind_reaches a b" "kind_reaches b c"
  then obtain ks ls where "history kind_targets a ks" "last (a # ks) = b" "history kind_targets b ls" "last (b # ls) = c"
    by (auto simp: kind_reaches_def)
  then have "history kind_targets a (ks @ ls) \<and> last (a # ks @ ls) = c" by (auto simp: history_append)
  then show ?thesis unfolding kind_reaches_def by blast
qed

lemma kind_reaches_step: "b \<in> set (kind_targets a) \<Longrightarrow> kind_reaches a b"
  unfolding kind_reaches_def by (rule exI [of _ "[b]"]) simp

lemma final_stays: "a \<in> set final_kinds \<Longrightarrow> kind_reaches a b \<Longrightarrow> b = a"
  unfolding kind_reaches_def using journal_table.no_history_from_terminal by force

subsection \<open>What a change of the tables preserves\<close>

definition authority_kept :: "policy_tables \<Rightarrow> policy_tables \<Rightarrow> bool" where
  "authority_kept t u \<longleftrightarrow> (\<forall>p row. map_of (pt_authority t) p = Some row \<longrightarrow>
     (\<exists>row'. map_of (pt_authority u) p = Some row' \<and> (row' = row \<or> au_generation row < au_generation row')))"

definition journal_kept :: "policy_tables \<Rightarrow> policy_tables \<Rightarrow> bool" where
  "journal_kept t u \<longleftrightarrow> (\<forall>op j. map_of (pt_journal t) op = Some j \<longrightarrow> (\<exists>k. map_of (pt_journal u) op = Some k \<and>
     jr_project_id k = jr_project_id j \<and> jr_generation k = jr_generation j \<and> kind_reaches (jr_kind j) (jr_kind k)))"

definition kept :: "policy_tables \<Rightarrow> policy_tables \<Rightarrow> bool" where
  "kept t u = (authority_kept t u \<and> journal_kept t u)"

lemma authority_kept_refl: "pt_authority u = pt_authority t \<Longrightarrow> authority_kept t u"
  by (simp add: authority_kept_def)

lemma journal_kept_refl: "pt_journal u = pt_journal t \<Longrightarrow> journal_kept t u"
  by (simp add: journal_kept_def kind_reaches_refl)

lemma kept_refl: "kept t t"
  by (simp add: kept_def authority_kept_refl journal_kept_refl)

lemma authority_keptD: "authority_kept t u \<Longrightarrow> map_of (pt_authority t) p = Some row \<Longrightarrow>
    \<exists>row'. map_of (pt_authority u) p = Some row' \<and> (row' = row \<or> au_generation row < au_generation row')"
  by (simp add: authority_kept_def)

lemma journal_keptD: "journal_kept t u \<Longrightarrow> map_of (pt_journal t) op = Some j \<Longrightarrow> \<exists>k. map_of (pt_journal u) op = Some k \<and>
    jr_project_id k = jr_project_id j \<and> jr_generation k = jr_generation j \<and> kind_reaches (jr_kind j) (jr_kind k)"
  by (simp add: journal_kept_def)

lemma authority_kept_trans: "authority_kept t u \<Longrightarrow> authority_kept u w \<Longrightarrow> authority_kept t w"
  unfolding authority_kept_def [of t w] by (fastforce dest: authority_keptD)

lemma journal_kept_trans: "journal_kept t u \<Longrightarrow> journal_kept u w \<Longrightarrow> journal_kept t w"
  unfolding journal_kept_def [of t w] by (fastforce dest: journal_keptD intro: kind_reaches_trans)

lemma kept_trans: "kept t u \<Longrightarrow> kept u w \<Longrightarrow> kept t w"
  using authority_kept_trans journal_kept_trans by (simp add: kept_def) blast

lemma journal_kept_insert: "insert_journal op row t = Inr u \<Longrightarrow> journal_kept t u"
  by (auto simp: insert_journal_def journal_kept_def kind_reaches_refl raise_def split: if_splits)

lemma journal_kept_update:
  assumes "map_of (pt_journal t) op = Some j" and "jr_project_id (h j) = jr_project_id j" and "jr_generation (h j) = jr_generation j"
    and "jr_kind (h j) \<in> set (kind_targets (jr_kind j))"
  shows "journal_kept t (update_journal op h t)"
  using assms by (auto simp: journal_kept_def update_journal_def update_conv kind_reaches_refl kind_reaches_step)

lemma insert_other_tables:
  "insert_journal op row t = Inr u \<Longrightarrow> pt_authority u = pt_authority t \<and> pt_policies u = pt_policies t \<and> pt_active u = pt_active t \<and>
     pt_activations u = pt_activations t \<and> pt_rollbacks u = pt_rollbacks t \<and> pt_journal u = (op, row) # pt_journal t \<and> map_of (pt_journal t) op = None"
  "insert_activation arow t = Inr u \<Longrightarrow> u = t\<lparr>pt_activations := pt_activations t @ [arow]\<rparr>"
  "insert_rollback rrow t = Inr u \<Longrightarrow> u = t\<lparr>pt_rollbacks := pt_rollbacks t @ [rrow]\<rparr>"
  by (auto simp: insert_journal_def insert_activation_def insert_rollback_def raise_def split: if_splits)

lemma update_journal_tables [simp]:
  "pt_authority (update_journal op h t) = pt_authority t" "pt_active (update_journal op h t) = pt_active t"
  "pt_policies (update_journal op h t) = pt_policies t" "pt_activations (update_journal op h t) = pt_activations t"
  "pt_rollbacks (update_journal op h t) = pt_rollbacks t"
  by (simp_all add: update_journal_def split: option.splits)

lemma authority_permits_ok:
  "authority_permits p g t = Inr () \<longleftrightarrow> (\<exists>row. map_of (pt_authority t) p = Some row \<and> au_generation row = g \<and> \<not> au_kill_switch_active row)"
  by (simp add: authority_permits_def steps_ok split: option.splits)

subsection \<open>Each operation\<close>

lemma prepare_kept: "prepare_policy policy h now t = Inr (x, u) \<Longrightarrow> kept t u"
  by (auto simp: prepare_policy_def and_then_ok kept_def intro!: authority_kept_refl journal_kept_refl)

lemma bootstrap_kept: "bootstrap_authority p g now t = Inr (x, u) \<Longrightarrow> kept t u"
  by (auto simp: bootstrap_authority_def kept_def authority_kept_def intro!: journal_kept_refl split: option.splits)

lemma kill_switch_kept:
  assumes "set_kill_switch H mac p op active reason auth expected now t = Inr (x, u)"
  shows "kept t u"
proof -
  from assms obtain row w where row: "map_of (pt_authority t) p = Some row"
    and u: "insert_journal op \<lparr>jr_project_id = p, jr_kind = J_kill_switch, jr_generation = au_generation row + 1,
       jr_payload_hash = H (dump_ascii (JObj [(''active'', JBool active), (''reason'', JStr reason), (''generation'', JInt (au_generation row + 1))])),
       jr_committed_at = now\<rparr> (t\<lparr>pt_authority := w\<rparr>) = Inr u"
    and w: "w = dict_set p \<lparr>au_generation = au_generation row + 1, au_kill_switch_active = active, au_operation_id = op,
             au_changed_at = now, au_reason = reason\<rparr> (pt_authority t)"
    by (auto simp: set_kill_switch_def and_then_ok Let_def split: option.splits if_splits)
  have "journal_kept (t\<lparr>pt_authority := w\<rparr>) u" by (rule journal_kept_insert [OF u])
  then have "journal_kept t u" by (simp add: journal_kept_def)
  moreover have "authority_kept t u"
    using insert_other_tables(1) [OF u] row by (auto simp: authority_kept_def w update_conv)
  ultimately show ?thesis by (simp add: kept_def)
qed

lemma reserve_kept: "reserve_delivery H p op g now t = Inr (x, u) \<Longrightarrow> kept t u"
  using journal_kept_insert insert_other_tables(1)
  by (auto simp: reserve_delivery_def and_then_ok kept_def intro!: authority_kept_refl)

lemma begin_kept: "begin_delivery_commit p op g token t = Inr (x, u) \<Longrightarrow> kept t u"
  by (auto simp: begin_delivery_commit_def kept_def raise_def intro!: authority_kept_refl journal_kept_update
      split: option.splits if_splits)

lemma deliver_kept: "delivery_transaction p op g token now body t = Inr (x, u) \<Longrightarrow> kept t u"
  by (auto simp: delivery_transaction_def kept_def and_then_ok steps_ok intro!: authority_kept_refl journal_kept_update
      split: option.splits)

lemma record_activation_tables:
  assumes "record_activation hook kind p op h activation g now t = Inr u"
  obtains r where "u = t\<lparr>pt_journal := (op, \<lparr>jr_project_id = p, jr_kind = kind, jr_generation = g, jr_payload_hash = h,
      jr_committed_at = now\<rparr>) # pt_journal t, pt_activations := pt_activations t @ [r]\<rparr>"
    "map_of (pt_journal t) op = None" "ar_operation_id r = op"
  using assms
  by (auto simp: record_activation_def and_then_ok insert_journal_def insert_activation_def activation_row_of_def raise_def
      split: if_splits)

lemma kept_by_tables:
  "pt_authority u = pt_authority t \<Longrightarrow> pt_journal u = (op, row) # pt_journal t \<Longrightarrow> map_of (pt_journal t) op = None \<Longrightarrow> kept t u"
  by (auto simp: kept_def authority_kept_def journal_kept_def kind_reaches_refl)

lemma activate_tables:
  assumes "activate_policy hook p policy activation expected now t = Inr (x, u)"
  obtains op h i a r g row where "u = t\<lparr>pt_journal := (op, row) # pt_journal t, pt_activations := pt_activations t @ [r],
      pt_active := dict_set p \<lparr>ac_policy_id = Some a, ac_policy_hash = Some h, ac_activation_id = Some op, ac_generation = g\<rparr> (pt_active t)\<rparr>"
    "map_of (pt_journal t) op = None" "ar_operation_id r = op" "\<not> was_rolled_back p (JStr h) t" "is_prepared p i (JStr h) t"
    "x = g" "g = (case map_of (pt_active t) p of None \<Rightarrow> 0 | Some r \<Rightarrow> ac_generation r) + 1"
proof -
  from assms obtain op h i a w where
    w: "record_activation hook J_activate p op h activation
        ((case map_of (pt_active t) p of None \<Rightarrow> 0 | Some r \<Rightarrow> ac_generation r) + 1) now t = Inr w"
    and u: "u = w\<lparr>pt_active := dict_set p \<lparr>ac_policy_id = Some a, ac_policy_hash = Some h, ac_activation_id = Some op,
        ac_generation = (case map_of (pt_active t) p of None \<Rightarrow> 0 | Some r \<Rightarrow> ac_generation r) + 1\<rparr> (pt_active w)\<rparr>"
    and c: "\<not> was_rolled_back p (JStr h) t" "is_prepared p (JStr i) (JStr h) t"
      "x = (case map_of (pt_active t) p of None \<Rightarrow> 0 | Some r \<Rightarrow> ac_generation r) + 1"
    by (auto simp: activate_policy_def and_then_ok Let_def raise_def split: if_splits)
  from w obtain r where r: "w = t\<lparr>pt_journal := (op, \<lparr>jr_project_id = p, jr_kind = J_activate,
      jr_generation = (case map_of (pt_active t) p of None \<Rightarrow> 0 | Some r \<Rightarrow> ac_generation r) + 1, jr_payload_hash = h,
      jr_committed_at = now\<rparr>) # pt_journal t, pt_activations := pt_activations t @ [r]\<rparr>"
    "map_of (pt_journal t) op = None" "ar_operation_id r = op" by (rule record_activation_tables)
  show thesis by (rule that [OF _ r(2,3) c(1,2,3) refl]) (simp add: u r(1))
qed

lemma refresh_tables:
  assumes "refresh_policy hook p policy activation expected h now t = Inr (x, u)"
  obtains op r row old i where "u = t\<lparr>pt_journal := (op, row) # pt_journal t, pt_activations := pt_activations t @ [r],
      pt_active := dict_set p (old\<lparr>ac_activation_id := Some op, ac_generation := ac_generation old + 1\<rparr>) (pt_active t)\<rparr>"
    "map_of (pt_journal t) op = None" "ar_operation_id r = op" "map_of (pt_active t) p = Some old" "ac_policy_hash old = Some h"
    "is_prepared p i (JStr h) t" "x = ac_generation old + 1"
proof -
  from assms obtain op w old i where
    w: "record_activation hook J_refresh p op h activation (expected + 1) now t = Inr w"
    and u: "u = w\<lparr>pt_active := dict_set p (old\<lparr>ac_activation_id := Some op, ac_generation := expected + 1\<rparr>) (pt_active w)\<rparr>"
    and c: "map_of (pt_active t) p = Some old" "ac_policy_hash old = Some h" "is_prepared p i (JStr h) t"
      "x = expected + 1" "ac_generation old = expected"
    by (auto simp: refresh_policy_def and_then_ok raise_def split: if_splits option.splits)
  from w obtain r where r: "w = t\<lparr>pt_journal := (op, \<lparr>jr_project_id = p, jr_kind = J_refresh,
      jr_generation = expected + 1, jr_payload_hash = h, jr_committed_at = now\<rparr>) # pt_journal t, pt_activations := pt_activations t @ [r]\<rparr>"
    "map_of (pt_journal t) op = None" "ar_operation_id r = op" by (rule record_activation_tables)
  show thesis by (rule that [OF _ r(2,3) c(1,2,3)]) (use c(4,5) in \<open>simp_all add: u r(1)\<close>)
qed

lemma rollback_tables:
  assumes "rollback_policy hook p rollback expected expected_hash now t = Inr (x, u)"
  obtains op r row old g where "u = t\<lparr>pt_rollbacks := pt_rollbacks t @ [r], pt_journal := (op, row) # pt_journal t,
      pt_active := dict_set p \<lparr>ac_policy_id = None, ac_policy_hash = None, ac_activation_id = None, ac_generation = g\<rparr> (pt_active t)\<rparr>"
    "map_of (pt_journal t) op = None" "rb_project_id r = p" "rb_generation r = g" "x = g"
    "map_of (pt_active t) p = Some old" "ac_policy_hash old \<noteq> None" "g = ac_generation old + 1"
    "Some (rb_superseded_policy_hash r) = Option.bind (field ''superseded_policy_hash'' rollback) the_str"
proof -
  obtain op where op: "text_item ''operation_id'' rollback = Inr op" using assms by (auto simp: rollback_policy_def and_then_ok)
  obtain old where old: "map_of (pt_active t) p = Some old" using assms op
    by (cases "map_of (pt_active t) p") (auto simp: rollback_policy_def and_then_ok)
  have active: "ac_policy_hash old \<noteq> None" using assms op old by (cases "ac_policy_hash old = None") (auto simp: rollback_policy_def and_then_ok)
  let ?g = "ac_generation old + 1"
  let ?row = "\<lambda>r. \<lparr>jr_project_id = p, jr_kind = J_rollback, jr_generation = ?g, jr_payload_hash = rb_tombstone_hash r, jr_committed_at = now\<rparr>"
  obtain h r t1 t2 where r: "rollback_row_of p op h rollback ?g = Inr r" "insert_rollback r t = Inr t1"
      "insert_journal op (?row r) t1 = Inr t2" "x = ?g"
    and u: "u = t2\<lparr>pt_active := dict_set p \<lparr>ac_policy_id = None, ac_policy_hash = None, ac_activation_id = None, ac_generation = ?g\<rparr> (pt_active t2)\<rparr>"
    using assms op old active by (clarsimp simp: rollback_policy_def and_then_ok simp del: raise_if_ok split: if_split_asm)
  have t1: "t1 = t\<lparr>pt_rollbacks := pt_rollbacks t @ [r]\<rparr>" using insert_other_tables(3) [OF r(2)] .
  have t2: "t2 = t1\<lparr>pt_journal := (op, ?row r) # pt_journal t1\<rparr>" "map_of (pt_journal t1) op = None"
    using r(3) by (auto simp: insert_journal_def raise_def split: if_splits)
  have f: "rb_project_id r = p" "rb_generation r = ?g" "Some (rb_superseded_policy_hash r) = Option.bind (field ''superseded_policy_hash'' rollback) the_str"
    using r(1) by (auto simp: rollback_row_of_def and_then_ok text_item_def item_def bound_text_def split: if_splits option.splits)
  show thesis by (rule that [OF _ _ f(1,2) r(4) old active refl f(3), of op "?row r"]) (use u t1 t2 in simp_all)
qed

lemma activate_kept: "activate_policy hook p policy activation expected now t = Inr (x, u) \<Longrightarrow> kept t u"
  by (elim activate_tables) (rule kept_by_tables; simp)

lemma refresh_kept: "refresh_policy hook p policy activation expected h now t = Inr (x, u) \<Longrightarrow> kept t u"
  by (elim refresh_tables) (rule kept_by_tables; simp)

lemma rollback_kept: "rollback_policy hook p rollback expected expected_hash now t = Inr (x, u) \<Longrightarrow> kept t u"
  by (elim rollback_tables) (rule kept_by_tables; simp)

subsection \<open>Histories\<close>

datatype policy_op =
    Po_Prepare json string string
  | Po_Bootstrap string int string
  | Po_Kill "(string \<Rightarrow> string) option" string string bool string json "int option" string
  | Po_Reserve string string int string
  | Po_Begin string string int string
  | Po_Deliver string string int string string "unit res"
  | Po_Activate failure_hook string json json "int option" string
  | Po_Refresh failure_hook string json json int string string
  | Po_Rollback failure_hook string json "int option" "string option" string
  | Po_Read bool string

fun policy_step :: "(string \<Rightarrow> string) \<Rightarrow> policy_op \<Rightarrow> policy_file \<Rightarrow> policy_file" where
  "policy_step H (Po_Prepare policy h now) f = snd (mutation False (prepare_policy policy h now) f)"
| "policy_step H (Po_Bootstrap p g now) f = snd (mutation False (bootstrap_authority p g now) f)"
| "policy_step H (Po_Kill mac p op active reason auth expected now) f =
     snd (mutation False (set_kill_switch H mac p op active reason auth expected now) f)"
| "policy_step H (Po_Reserve p op g now) f = snd (mutation False (reserve_delivery H p op g now) f)"
| "policy_step H (Po_Begin p op g token) f = snd (mutation False (begin_delivery_commit p op g token) f)"
| "policy_step H (Po_Deliver p op g token now body) f = snd (mutation False (delivery_transaction p op g token now body) f)"
| "policy_step H (Po_Activate hook p policy activation expected now) f =
     snd (mutation False (activate_policy hook p policy activation expected now) f)"
| "policy_step H (Po_Refresh hook p policy activation expected h now) f =
     snd (mutation False (refresh_policy hook p policy activation expected h now) f)"
| "policy_step H (Po_Rollback hook p rollback expected expected_hash now) f =
     snd (mutation False (rollback_policy hook p rollback expected expected_hash now) f)"
| "policy_step H (Po_Read read_only p) f = snd (read_snapshot read_only p f)"

definition policy_run :: "(string \<Rightarrow> string) \<Rightarrow> policy_op list \<Rightarrow> policy_file \<Rightarrow> policy_file" where
  "policy_run H ops f = fold (policy_step H) ops f"

lemma mutation_changed: "initialized (snd (mutation ro body f)) \<noteq> initialized f \<Longrightarrow>
    \<exists>x. body (initialized f) = Inr (x, initialized (snd (mutation ro body f)))"
  by (auto simp: mutation_def initialized_def split: sum.splits if_splits)

lemma mutation_ok: "fst (mutation ro body f) = Inr x \<longleftrightarrow> \<not> ro \<and> body (initialized f) = Inr (x, initialized (snd (mutation ro body f)))"
  by (auto simp: mutation_def initialized_def raise_def split: sum.splits)

lemma read_initialized: "initialized (snd (read_snapshot ro p f)) = initialized f"
  by (cases f; cases ro) (simp_all add: read_snapshot_def connection_def initialized_def raise_def)

text \<open>An invariant of every operation on the tables is one of every history.\<close>

lemma policy_stepE:
  assumes "initialized (policy_step H op f) \<noteq> initialized f"
  obtains (prepare) policy h now x where "prepare_policy policy h now (initialized f) = Inr (x, initialized (policy_step H op f))"
  | (bootstrap) p g now x where "bootstrap_authority p g now (initialized f) = Inr (x, initialized (policy_step H op f))"
  | (kill) mac p oid active reason auth expected now x where
      "set_kill_switch H mac p oid active reason auth expected now (initialized f) = Inr (x, initialized (policy_step H op f))"
  | (reserve) p oid g now x where "reserve_delivery H p oid g now (initialized f) = Inr (x, initialized (policy_step H op f))"
  | (commence) p oid g token x where "begin_delivery_commit p oid g token (initialized f) = Inr (x, initialized (policy_step H op f))"
  | (deliver) p oid g token now body x where
      "delivery_transaction p oid g token now body (initialized f) = Inr (x :: unit, initialized (policy_step H op f))"
  | (activate) hook p policy activation expected now x where
      "activate_policy hook p policy activation expected now (initialized f) = Inr (x, initialized (policy_step H op f))"
  | (refresh) hook p policy activation expected h now x where
      "refresh_policy hook p policy activation expected h now (initialized f) = Inr (x, initialized (policy_step H op f))"
  | (rollback) hook p rollback expected expected_hash now x where
      "rollback_policy hook p rollback expected expected_hash now (initialized f) = Inr (x, initialized (policy_step H op f))"
proof (cases op)
  case (Po_Prepare a b c)
  show ?thesis using assms mutation_changed [of False "prepare_policy a b c" f] prepare unfolding Po_Prepare policy_step.simps by blast
next
  case (Po_Bootstrap a b c)
  show ?thesis using assms mutation_changed [of False "bootstrap_authority a b c" f] bootstrap unfolding Po_Bootstrap policy_step.simps by blast
next
  case (Po_Kill a b c d e g h i)
  show ?thesis using assms mutation_changed [of False "set_kill_switch H a b c d e g h i" f] kill unfolding Po_Kill policy_step.simps by blast
next
  case (Po_Reserve a b c d)
  show ?thesis using assms mutation_changed [of False "reserve_delivery H a b c d" f] reserve unfolding Po_Reserve policy_step.simps by blast
next
  case (Po_Begin a b c d)
  show ?thesis using assms mutation_changed [of False "begin_delivery_commit a b c d" f] commence unfolding Po_Begin policy_step.simps by blast
next
  case (Po_Deliver a b c d e g)
  show ?thesis using assms mutation_changed [of False "delivery_transaction a b c d e g" f] deliver unfolding Po_Deliver policy_step.simps by blast
next
  case (Po_Activate a b c d e g)
  show ?thesis using assms mutation_changed [of False "activate_policy a b c d e g" f] activate unfolding Po_Activate policy_step.simps by blast
next
  case (Po_Refresh a b c d e g h)
  show ?thesis using assms mutation_changed [of False "refresh_policy a b c d e g h" f] refresh unfolding Po_Refresh policy_step.simps by blast
next
  case (Po_Rollback a b c d e g)
  show ?thesis using assms mutation_changed [of False "rollback_policy a b c d e g" f] rollback unfolding Po_Rollback policy_step.simps by blast
next
  case (Po_Read a b)
  then show ?thesis using assms by (simp add: read_initialized)
qed

lemma policy_step_kept: "kept (initialized f) (initialized (policy_step H op f))"
proof (cases "initialized (policy_step H op f) = initialized f")
  case False
  then show ?thesis
    by (cases rule: policy_stepE)
      (rule prepare_kept bootstrap_kept kill_switch_kept reserve_kept begin_kept deliver_kept activate_kept refresh_kept rollback_kept; assumption)+
qed (simp add: kept_refl)

lemma policy_run_kept: "kept (initialized f) (initialized (policy_run H ops f))"
proof (induction ops arbitrary: f)
  case (Cons op ops)
  show ?case using kept_trans [OF policy_step_kept [of f H op] Cons.IH] by (simp add: policy_run_def)
qed (simp add: policy_run_def kept_refl)

subsection \<open>The active policy\<close>

definition policies_sound :: "policy_tables \<Rightarrow> bool" where
  "policies_sound t \<longleftrightarrow> (\<forall>p row h. map_of (pt_active t) p = Some row \<longrightarrow> ac_policy_hash row = Some h \<longrightarrow>
     (\<exists>i. is_prepared p i (JStr h) t) \<and> \<not> was_rolled_back p (JStr h) t \<and>
     (\<exists>a\<in>set (pt_activations t). Some (ar_operation_id a) = ac_activation_id row))"

lemma policies_soundI:
  assumes "policies_sound t" and "set (pt_policies t) \<subseteq> set (pt_policies u)" and "pt_rollbacks u = pt_rollbacks t"
    and "set (pt_activations t) \<subseteq> set (pt_activations u)"
    and "\<And>p row h. map_of (pt_active u) p = Some row \<Longrightarrow> map_of (pt_active t) p \<noteq> Some row \<Longrightarrow> ac_policy_hash row = Some h \<Longrightarrow>
      (\<exists>i. is_prepared p i (JStr h) t) \<and> \<not> was_rolled_back p (JStr h) t \<and> (\<exists>a\<in>set (pt_activations u). Some (ar_operation_id a) = ac_activation_id row)"
  shows "policies_sound u"
proof -
  have p: "is_prepared p i h t \<Longrightarrow> is_prepared p i h u" for p i h using assms(2) by (auto simp: is_prepared_def list_ex_iff)
  have r: "was_rolled_back p h u = was_rolled_back p h t" for p h by (simp add: was_rolled_back_def assms(3))
  show ?thesis unfolding policies_sound_def
  proof (intro allI impI)
    fix q row h
    assume q: "map_of (pt_active u) q = Some row" "ac_policy_hash row = Some h"
    show "(\<exists>i. is_prepared q i (JStr h) u) \<and> \<not> was_rolled_back q (JStr h) u \<and>
      (\<exists>a\<in>set (pt_activations u). Some (ar_operation_id a) = ac_activation_id row)"
    proof (cases "map_of (pt_active t) q = Some row")
      case True
      with assms(1) q(2) have "(\<exists>i. is_prepared q i (JStr h) t) \<and> \<not> was_rolled_back q (JStr h) t \<and>
        (\<exists>a\<in>set (pt_activations t). Some (ar_operation_id a) = ac_activation_id row)" by (simp add: policies_sound_def)
      then show ?thesis using p r assms(4) by blast
    next
      case False
      then show ?thesis using assms(5) [OF q(1) False q(2)] p r by blast
    qed
  qed
qed

lemma policies_sound_same:
  "policies_sound t \<Longrightarrow> pt_policies u = pt_policies t \<Longrightarrow> pt_rollbacks u = pt_rollbacks t \<Longrightarrow> pt_activations u = pt_activations t \<Longrightarrow>
   pt_active u = pt_active t \<Longrightarrow> policies_sound u"
  by (simp add: policies_sound_def is_prepared_def was_rolled_back_def)

lemma prepare_sound: "prepare_policy policy h now t = Inr (x, u) \<Longrightarrow> policies_sound t \<Longrightarrow> policies_sound u"
  by (erule policies_soundI) (auto simp: prepare_policy_def and_then_ok split: if_splits)

lemma bootstrap_sound: "bootstrap_authority p g now t = Inr (x, u) \<Longrightarrow> policies_sound t \<Longrightarrow> policies_sound u"
  by (erule policies_sound_same) (auto simp: bootstrap_authority_def split: option.splits)

lemma kill_sound: "set_kill_switch H mac p op active reason auth expected now t = Inr (x, u) \<Longrightarrow> policies_sound t \<Longrightarrow> policies_sound u"
  by (erule policies_sound_same)
    (auto simp: set_kill_switch_def and_then_ok Let_def dest!: insert_other_tables(1) split: option.splits if_splits)

lemma reserve_sound: "reserve_delivery H p op g now t = Inr (x, u) \<Longrightarrow> policies_sound t \<Longrightarrow> policies_sound u"
  by (erule policies_sound_same) (auto simp: reserve_delivery_def and_then_ok dest!: insert_other_tables(1))

lemma begin_sound: "begin_delivery_commit p op g token t = Inr (x, u) \<Longrightarrow> policies_sound t \<Longrightarrow> policies_sound u"
  by (erule policies_sound_same) (auto simp: begin_delivery_commit_def raise_def split: option.splits if_splits)

lemma deliver_sound: "delivery_transaction p op g token now body t = Inr (x, u) \<Longrightarrow> policies_sound t \<Longrightarrow> policies_sound u"
  by (erule policies_sound_same) (auto simp: delivery_transaction_def and_then_ok split: option.splits)

lemma activate_sound: "activate_policy hook p policy activation expected now t = Inr (x, u) \<Longrightarrow> policies_sound t \<Longrightarrow> policies_sound u"
  by (elim activate_tables, erule policies_soundI) (auto simp: update_conv split: if_splits)

lemma refresh_sound:
  assumes "refresh_policy hook p policy activation expected h now t = Inr (x, u)" and "policies_sound t"
  shows "policies_sound u"
proof -
  from assms(1) obtain op r row old i where u: "u = t\<lparr>pt_journal := (op, row) # pt_journal t, pt_activations := pt_activations t @ [r],
      pt_active := dict_set p (old\<lparr>ac_activation_id := Some op, ac_generation := ac_generation old + 1\<rparr>) (pt_active t)\<rparr>"
    and r: "ar_operation_id r = op" and old: "map_of (pt_active t) p = Some old" "ac_policy_hash old = Some h" "is_prepared p i (JStr h) t"
    by (rule refresh_tables)
  have "\<not> was_rolled_back p (JStr h) t" using assms(2) old by (auto simp: policies_sound_def)
  then show ?thesis
    by (intro policies_soundI [OF assms(2)]) (use r old in \<open>auto simp: u update_conv split: if_splits\<close>)
qed

lemma rollback_sound:
  assumes "rollback_policy hook p rollback expected expected_hash now t = Inr (x, u)" and "policies_sound t"
  shows "policies_sound u"
proof -
  from assms(1) obtain op r row g where u: "u = t\<lparr>pt_rollbacks := pt_rollbacks t @ [r], pt_journal := (op, row) # pt_journal t,
      pt_active := dict_set p \<lparr>ac_policy_id = None, ac_policy_hash = None, ac_activation_id = None, ac_generation = g\<rparr> (pt_active t)\<rparr>"
    and r: "rb_project_id r = p" by (rule rollback_tables)
  have "is_prepared q i h u = is_prepared q i h t" for q i h by (simp add: u is_prepared_def)
  moreover have "q \<noteq> p \<Longrightarrow> was_rolled_back q h u = was_rolled_back q h t" for q h by (simp add: u was_rolled_back_def r)
  ultimately show ?thesis using assms(2)
    by (auto simp: policies_sound_def u update_conv split: if_splits)
qed

lemma policy_step_sound: "policies_sound (initialized f) \<Longrightarrow> policies_sound (initialized (policy_step H op f))"
proof (cases "initialized (policy_step H op f) = initialized f")
  case False
  assume "policies_sound (initialized f)"
  with False show ?thesis
    by (elim policy_stepE)
      (rule prepare_sound bootstrap_sound kill_sound reserve_sound begin_sound deliver_sound activate_sound refresh_sound rollback_sound;
        assumption)+
qed simp

lemma policy_run_sound: "policies_sound (initialized f) \<Longrightarrow> policies_sound (initialized (policy_run H ops f))"
proof (induction ops arbitrary: f)
  case (Cons op ops)
  from Cons.IH [OF policy_step_sound [OF Cons.prems]] show ?case by (simp add: policy_run_def)
qed (simp add: policy_run_def)

lemma no_store_sound: "policies_sound (initialized No_Store)"
  by (simp add: policies_sound_def initialized_def no_rows_def)

text \<open>C14. After whatever history of a store, also one with operations that fail on the way, the snapshot of
  a project can be read; and an active policy is one that was prepared for this project and that no
  rollback of the project names as superseded.
\<close>

theorem policy_always_readable:
  "\<exists>v. snapshot p (initialized (policy_run H ops No_Store)) = Inr v \<and> (case v of
     View_Active row policy activation \<Rightarrow> (\<exists>h. ac_policy_hash row = Some h \<and>
       \<not> was_rolled_back p (JStr h) (initialized (policy_run H ops No_Store)) \<and>
       (\<exists>r\<in>set (pt_policies (initialized (policy_run H ops No_Store))). pr_project_id r = p \<and> pr_policy_hash r = h \<and> pr_artifact r = policy))
   | _ \<Rightarrow> True)"
proof -
  let ?t = "initialized (policy_run H ops No_Store)"
  have sound: "policies_sound ?t" by (rule policy_run_sound) (rule no_store_sound)
  show ?thesis
  proof (cases "map_of (pt_active ?t) p")
    case (Some row)
    show ?thesis
    proof (cases "ac_policy_hash row")
      case (Some h)
      with sound \<open>map_of (pt_active ?t) p = Some row\<close> have s: "\<exists>i. is_prepared p i (JStr h) ?t" "\<not> was_rolled_back p (JStr h) ?t"
        "\<exists>a\<in>set (pt_activations ?t). Some (ar_operation_id a) = ac_activation_id row" by (simp_all add: policies_sound_def)
      from s(1) obtain r where r: "find (\<lambda>r. pr_project_id r = p \<and> pr_policy_hash r = h) (pt_policies ?t) = Some r"
        by (cases "find (\<lambda>r. pr_project_id r = p \<and> pr_policy_hash r = h) (pt_policies ?t)") (auto simp: is_prepared_def list_ex_iff find_None_iff)
      from s(3) obtain a where a: "find (\<lambda>r. Some (ar_operation_id r) = ac_activation_id row) (pt_activations ?t) = Some a"
        by (cases "find (\<lambda>r. Some (ar_operation_id r) = ac_activation_id row) (pt_activations ?t)") (auto simp: find_None_iff)
      have "r \<in> set (pt_policies ?t)" "pr_project_id r = p" "pr_policy_hash r = h" using r by (auto simp: find_Some_iff in_set_conv_nth)
      then show ?thesis using s(2) r a Some \<open>map_of (pt_active ?t) p = Some row\<close> by (auto simp: snapshot_def)
    qed (use Some in \<open>simp add: snapshot_def\<close>)
  qed (simp add: snapshot_def)
qed

subsection \<open>Deliveries\<close>

text \<open>C2. A delivery that was reserved under a generation of a project's authority and is committed under the
  same generation, after whatever happened in between, is committed under the very same authority: the
  kill switch was not touched, and it is not active.
\<close>

theorem delivery_under_reserved_authority:
  assumes "fst (mutation ro (reserve_delivery H p op g now) f) = Inr x"
    and "later = policy_run H ops (snd (mutation ro (reserve_delivery H p op g now) f))"
    and "fst (mutation ro2 (delivery_transaction p op g token now2 body) later) = Inr y"
  shows "\<exists>row. map_of (pt_authority (initialized f)) p = Some row \<and> map_of (pt_authority (initialized later)) p = Some row \<and>
    au_generation row = g \<and> \<not> au_kill_switch_active row"
proof -
  let ?r = "snd (mutation ro (reserve_delivery H p op g now) f)"
  have r: "reserve_delivery H p op g now (initialized f) = Inr (x, initialized ?r)" using assms(1) by (simp add: mutation_ok)
  then obtain row where row: "map_of (pt_authority (initialized f)) p = Some row" "au_generation row = g" "\<not> au_kill_switch_active row"
    by (auto simp: reserve_delivery_def and_then_ok authority_permits_ok)
  have "kept (initialized f) (initialized later)"
    using kept_trans [OF reserve_kept [OF r] policy_run_kept] assms(2) by simp
  then obtain row' where row': "map_of (pt_authority (initialized later)) p = Some row'" "row' = row \<or> g < au_generation row'"
    using row(1,2) by (auto simp: kept_def dest: authority_keptD)
  have "delivery_transaction p op g token now2 body (initialized later) = Inr (y, initialized (snd (mutation ro2
      (delivery_transaction p op g token now2 body) later)))" using assms(3) by (simp add: mutation_ok)
  then have "au_generation row' = g" using row'(1) by (auto simp: delivery_transaction_def and_then_ok authority_permits_ok)
  with row row' show ?thesis by auto
qed

lemma delivered_is_committed:
  "delivery_transaction p op g token now body t = Inr (x, u) \<Longrightarrow> \<exists>j. map_of (pt_journal u) op = Some j \<and> jr_kind j = J_committed"
  by (auto simp: delivery_transaction_def and_then_ok steps_ok update_journal_def update_conv split: option.splits)

text \<open>C16. A delivery is committed at most once: from then on its operation can be reserved, begun and committed
  by nobody, whatever happens.
\<close>

theorem delivery_committed_once:
  assumes "fst (mutation ro (delivery_transaction p op g token now body) f) = Inr x"
    and "later = policy_run H ops (snd (mutation ro (delivery_transaction p op g token now body) f))"
  shows "(\<exists>e. fst (mutation ro2 (delivery_transaction p2 op g2 token2 now2 body2) later) = Inl e) \<and>
    (\<exists>e. fst (mutation ro2 (begin_delivery_commit p2 op g2 token2) later) = Inl e) \<and>
    (\<exists>e. fst (mutation ro2 (reserve_delivery H p2 op g2 now2) later) = Inl e)"
proof -
  let ?r = "snd (mutation ro (delivery_transaction p op g token now body) f)"
  have d: "delivery_transaction p op g token now body (initialized f) = Inr (x, initialized ?r)" using assms(1) by (simp add: mutation_ok)
  from delivered_is_committed [OF d] obtain j where j: "map_of (pt_journal (initialized ?r)) op = Some j" "jr_kind j = J_committed"
    by blast
  have "journal_kept (initialized ?r) (initialized later)" using policy_run_kept [of ?r H ops] assms(2) by (simp add: kept_def)
  from journal_keptD [OF this j(1)] obtain k where k: "map_of (pt_journal (initialized later)) op = Some k" "kind_reaches J_committed (jr_kind k)"
    using j(2) by auto
  have "jr_kind k = J_committed" by (rule final_stays [OF _ k(2)]) (simp add: final_kinds_def)
  note k = k(1) this
  have fails: "\<exists>e. fst (mutation ro2 b later) = Inl e" if "\<And>y u. b (initialized later) \<noteq> Inr (y, u)" for b :: "policy_tables \<Rightarrow> ('c \<times> policy_tables) res"
    using that by (cases "fst (mutation ro2 b later)") (auto simp: mutation_ok)
  have "\<exists>e. fst (mutation ro2 (delivery_transaction p2 op g2 token2 now2 body2) later) = Inl e"
    by (rule fails) (use k in \<open>auto simp: delivery_transaction_def and_then_ok steps_ok\<close>)
  moreover have "\<exists>e. fst (mutation ro2 (begin_delivery_commit p2 op g2 token2) later) = Inl e"
    by (rule fails) (use k in \<open>auto simp: begin_delivery_commit_def raise_def split: option.splits\<close>)
  moreover have "\<exists>e. fst (mutation ro2 (reserve_delivery H p2 op g2 now2) later) = Inl e"
    by (rule fails) (use k in \<open>auto simp: reserve_delivery_def and_then_ok check_unused_def\<close>)
  ultimately show ?thesis by blast
qed

text \<open>C31. The project of a reservation is not looked at when its delivery is begun and committed: a delivery
  that was reserved in a project whose kill switch is active by now is committed in the name of another
  project that has the same generation.
\<close>

theorem foreign_reservation_commits:
  assumes "map_of (pt_journal (initialized f)) op = Some j" and "jr_kind j = J_reserved" and "jr_generation j = g"
    and "jr_project_id j = p" and "map_of (pt_authority (initialized f)) p = Some stopped" and "au_kill_switch_active stopped"
    and "map_of (pt_authority (initialized f)) q = Some row" and "au_generation row = g" and "\<not> au_kill_switch_active row"
  shows "fst (mutation False (begin_delivery_commit q op g token) f) = Inr token \<and>
    fst (mutation False (delivery_transaction q op g token now (Inr x)) (snd (mutation False (begin_delivery_commit q op g token) f))) = Inr x"
proof -
  let ?u = "update_journal op (\<lambda>r. r\<lparr>jr_kind := J_committing, jr_payload_hash := token\<rparr>) (initialized f)"
  have b: "begin_delivery_commit q op g token (initialized f) = Inr (token, ?u)" using assms by (simp add: begin_delivery_commit_def)
  have "map_of (pt_journal ?u) op = Some (j\<lparr>jr_kind := J_committing, jr_payload_hash := token\<rparr>)"
    using assms(1) by (simp add: update_journal_def update_conv)
  moreover have "authority_permits q g ?u = Inr ()" using assms(7-9) by (simp add: authority_permits_ok)
  ultimately have "delivery_transaction q op g token now (Inr x) ?u = Inr (x, update_journal op (\<lambda>r. r\<lparr>jr_kind := J_committed, jr_committed_at := now\<rparr>) ?u)"
    using assms(3) by (simp add: delivery_transaction_def steps.simps raise_if_def)
  with b show ?thesis by (simp add: mutation_def initialized_def)
qed

subsection \<open>A run\<close>

definition sample_auth :: json where
  "sample_auth = JObj [(''project_id'', JStr ''p''), (''operation_id'', JStr ''stop''), (''active'', JBool True),
     (''reason'', JStr []), (''key_id'', JStr ''owner-key-1''), (''signature'', JStr ''mac'')]"

definition sample_authorities :: policy_file where
  "sample_authorities = policy_run (\<lambda>t. t) [Po_Bootstrap ''p'' 1 ''t'', Po_Bootstrap ''q'' 1 ''t''] No_Store"

definition sample_store :: policy_file where
  "sample_store = snd (mutation False (reserve_delivery (\<lambda>t. t) ''p'' ''op'' 1 ''t'') sample_authorities)"

definition sample_begun :: policy_file where
  "sample_begun = policy_run (\<lambda>t. t) [Po_Begin ''p'' ''op'' 1 ''token''] sample_store"

definition sample_stopped :: policy_file where
  "sample_stopped = policy_run (\<lambda>t. t) [Po_Kill (Some (\<lambda>_. ''mac'')) ''p'' ''stop'' True [] sample_auth None ''t''] sample_store"

lemma sample_reserves: "fst (mutation False (reserve_delivery (\<lambda>t. t) ''p'' ''op'' 1 ''t'') sample_authorities) = Inr ()"
  by code_simp

lemma sample_delivers: "fst (mutation False (delivery_transaction ''p'' ''op'' 1 ''token'' ''t'' (Inr ())) sample_begun) = Inr ()"
  by code_simp

theorem delivery_under_reserved_authority_witness:
  "\<exists>row. map_of (pt_authority (initialized sample_authorities)) ''p'' = Some row \<and>
    map_of (pt_authority (initialized sample_begun)) ''p'' = Some row \<and> au_generation row = 1 \<and> \<not> au_kill_switch_active row"
  by (rule delivery_under_reserved_authority [OF sample_reserves _ sample_delivers, of "[Po_Begin ''p'' ''op'' 1 ''token'']"])
    (simp add: sample_begun_def sample_store_def)

theorem delivery_committed_once_witness:
  "\<exists>e. fst (mutation False (delivery_transaction ''p'' ''op'' 1 ''token'' ''t'' (Inr ()))
      (snd (mutation False (delivery_transaction ''p'' ''op'' 1 ''token'' ''t'' (Inr ())) sample_begun))) = Inl e"
  using delivery_committed_once [OF sample_delivers refl, where H = "\<lambda>t. t" and ops = "[]" and ?ro2.0 = False and ?p2.0 = "''p''" and
      ?g2.0 = 1 and ?token2.0 = "''token''" and ?now2.0 = "''t''" and ?body2.0 = "Inr ()"]
  by (simp add: policy_run_def)

lemma sample_stopped_rows:
  "map_of (pt_journal (initialized sample_stopped)) ''op'' =
     Some \<lparr>jr_project_id = ''p'', jr_kind = J_reserved, jr_generation = 1, jr_payload_hash = ''op'', jr_committed_at = ''t''\<rparr>"
  "map_of (pt_authority (initialized sample_stopped)) ''p'' = Some \<lparr>au_generation = 2, au_kill_switch_active = True,
     au_operation_id = ''stop'', au_changed_at = ''t'', au_reason = []\<rparr>"
  "map_of (pt_authority (initialized sample_stopped)) ''q'' = Some \<lparr>au_generation = 1, au_kill_switch_active = False,
     au_operation_id = ''bootstrap'', au_changed_at = ''t'', au_reason = ''initial authoritative state''\<rparr>"
  by code_simp+

theorem foreign_reservation_commits_witness:
  "fst (mutation False (begin_delivery_commit ''q'' ''op'' 1 ''token'') sample_stopped) = Inr ''token'' \<and>
   fst (mutation False (delivery_transaction ''q'' ''op'' 1 ''token'' ''t'' (Inr ())) (snd (mutation False
     (begin_delivery_commit ''q'' ''op'' 1 ''token'') sample_stopped))) = Inr ()"
  by (rule foreign_reservation_commits [OF sample_stopped_rows(1) _ _ _ sample_stopped_rows(2) _ sample_stopped_rows(3)]) simp_all

end
