(* ===== verification/PolicyAuthority.thy ===== *)
theory PolicyAuthority
  imports PolicyState JsonText
begin

section \<open>The verification of the active policy (policy_authority.py)\<close>

text \<open>
  The runtime accepts the policy of the policy state only after it has verified, against the owner's key, the
  policy and its activation, their bindings and their times. The key's hash, the identity of the verified
  constitution, and the reading of times are arguments: \<open>H\<close> is SHA-256 in hexadecimal, \<open>clk\<close> is
  \<open>datetime.fromisoformat\<close>, \<open>None\<close> for a text it does not read, \<open>Some None\<close> for a time without zone,
  otherwise the seconds, as for \<open>now\<close>. Values are equal when their canonical forms are.
\<close>

abbreviation policy_invalid :: "string \<Rightarrow> 'a res" where
  "policy_invalid m \<equiv> raise PolicyActivationError (''POLICY_NOT_ACTIVATED: '' @ m)"

abbreviation pol_check :: "bool \<Rightarrow> string \<Rightarrow> unit res" where
  "pol_check b m \<equiv> raise_if b PolicyActivationError (''POLICY_NOT_ACTIVATED: '' @ m)"

record active_merge_policy =
  am_project_id :: string
  am_policy_id :: string
  am_version :: string
  am_policy_hash :: string
  am_activation_hash :: string
  am_rollback_target :: json
  am_key_id :: string
  am_freshness_limits :: json

text \<open>\<open>EffectiveRisk(risk.upper())\<close>\<close>

definition ascii_upper :: "char \<Rightarrow> char" where
  "ascii_upper c = (let n = (of_char c :: nat) in if 97 \<le> n \<and> n \<le> 122 then char_of (n - 32) else c)"

definition effective_risks :: "string list" where
  "effective_risks = [''LOW'', ''MEDIUM'', ''HIGH'', ''CRITICAL'', ''UNKNOWN'']"

definition requires_human_merge :: "string \<Rightarrow> bool" where
  "requires_human_merge risk = (let r = map ascii_upper risk; v = (if r \<in> set effective_risks then r else ''UNKNOWN'') in
     v \<in> {''CRITICAL'', ''UNKNOWN''})"

definition allows_autonomous_merge :: "string \<Rightarrow> bool" where
  "allows_autonomous_merge risk = (let r = map ascii_upper risk in r \<in> set effective_risks \<and> r \<in> {''LOW'', ''MEDIUM'', ''HIGH''})"

definition adr_policy_id :: string where
  "adr_policy_id = ''merge-policy-adr-0003''"

definition owner_key_id :: string where
  "owner_key_id = ''owner-key-1''"

definition adr_compatibility :: string where
  "adr_compatibility = ''agf-merge-policy-v1''"

definition rollback_target_id :: string where
  "rollback_target_id = ''project-policy-require-human-merge''"

definition mandatory_gates :: "string list" where
  "mandatory_gates = [''constitution'', ''policy'', ''plan'', ''implementation'', ''review'', ''compliance'', ''validation'',
     ''risk'', ''caller_clean'', ''base_sha'', ''authorized_paths'', ''remote_state'', ''delivery_branch'']"

definition is_hash_value :: "json \<Rightarrow> bool" where
  "is_hash_value v = (case the_str v of None \<Rightarrow> False | Some s \<Rightarrow> sha256_match s)"

definition is_identity :: "json \<Rightarrow> bool" where
  "is_identity v = (has_keys [''policy_id'', ''policy_hash''] v \<and> Option.bind (field ''policy_id'' v) the_str \<noteq> None \<and>
     is_hash_value (field_or JNull ''policy_hash'' v))"

definition validate_limits :: "json \<Rightarrow> unit res" where
  "validate_limits v = pol_check (\<not> has_keys [''policy_seconds'', ''gate_seconds''] v \<or>
     list_ex (\<lambda>k. case Option.bind (field k v) the_int of None \<Rightarrow> True | Some n \<Rightarrow> n \<le> 0) [''policy_seconds'', ''gate_seconds''])
     ''invalid freshness limits''"

definition validate_timestamp :: "(string \<Rightarrow> int option option) \<Rightarrow> int \<Rightarrow> json \<Rightarrow> unit res" where
  "validate_timestamp clk now v = (case Option.bind (the_str v) clk of
     Some (Some t) \<Rightarrow> pol_check (now < t) ''invalid activation time''
   | _ \<Rightarrow> policy_invalid ''invalid activation time'')"

definition validate_time :: "(string \<Rightarrow> int option option) \<Rightarrow> int \<Rightarrow> json \<Rightarrow> int \<Rightarrow> unit res" where
  "validate_time clk now v seconds = (case Option.bind (the_str v) clk of
     Some (Some t) \<Rightarrow> pol_check (now < t \<or> seconds < now - t) ''invalid activation time''
   | _ \<Rightarrow> policy_invalid ''invalid activation time'')"

text \<open>\<open>key\<close> is the keyed hash under the owner's key, or what reading the key raises.\<close>

definition verify_signature :: "(string \<Rightarrow> string) res \<Rightarrow> json \<Rightarrow> string \<Rightarrow> unit res" where
  "verify_signature key record label = (let s = field_or JNull ''signature'' record in
     if \<not> is_hash_value s then policy_invalid (label @ '' signature is invalid'')
     else and_then key (\<lambda>mac. pol_check (s \<noteq> JStr (mac (dump (without_signature record)))) (label @ '' signature is invalid'')))"

subsection \<open>The policy\<close>

record policy_pointer =
  pn_project_id :: string
  pn_policy_id :: json
  pn_policy_hash :: json
  pn_activation_hash :: string

definition policy_schema :: "string list" where
  "policy_schema = [''schema_version'', ''policy_id'', ''version'', ''project_id'', ''constitution_id'', ''compatibility'',
     ''approval_status'', ''key_id'', ''previous_policy'', ''activation_time'', ''body'', ''signature'']"

definition fallback_hash :: "(string \<Rightarrow> string) \<Rightarrow> string \<Rightarrow> string" where
  "fallback_hash H project = H (dump (JObj [(''project_id'', JStr project), (''require_human_merge'', JBool True)]))"

definition risk_behavior :: json where
  "risk_behavior = JObj [(''LOW'', JStr ''AUTONOMOUS''), (''MEDIUM'', JStr ''AUTONOMOUS''), (''HIGH'', JStr ''AUTONOMOUS''),
     (''CRITICAL'', JStr ''HUMAN_REQUIRED''), (''UNKNOWN'', JStr ''HUMAN_REQUIRED'')]"

abbreviation the_field :: "string \<Rightarrow> json \<Rightarrow> json" where
  "the_field k v \<equiv> field_or JNull k v"

definition verify_body :: "json \<Rightarrow> unit res" where
  "verify_body body = steps [
     pol_check (canon (the_field ''risk_merge_behavior'' body) \<noteq> canon risk_behavior) ''effective risk policy is invalid'',
     pol_check (the_field ''mandatory_gates'' body \<noteq> enc_strs mandatory_gates) ''mandatory gates are invalid'',
     pol_check (\<not> is_dict (the_field ''freshness_limits'' body)) ''freshness limits are invalid'',
     pol_check (the_list (the_field ''protected_object_prohibitions'' body) = None) ''protected object prohibitions are invalid'',
     pol_check (the_field ''rollback_target'' body \<noteq> JStr rollback_target_id) ''rollback target is invalid'',
     pol_check (the_field ''protected_boundary_uncertainty'' body \<noteq> JStr ''CRITICAL'') ''protected-boundary uncertainty is not CRITICAL'']"

definition verify_policy ::
    "(string \<Rightarrow> string) \<Rightarrow> (string \<Rightarrow> string) res \<Rightarrow> (string \<Rightarrow> int option option) \<Rightarrow> int \<Rightarrow> string \<Rightarrow> string \<Rightarrow> policy_pointer \<Rightarrow> json \<Rightarrow> unit res" where
  "verify_policy H key clk now project constitution_id pointer policy = steps [
     pol_check (\<not> has_keys policy_schema policy) ''policy schema is invalid'',
     pol_check (the_field ''schema_version'' policy \<noteq> JStr ''1.0'' \<or> the_field ''policy_id'' policy \<noteq> JStr adr_policy_id) ''policy identity is invalid'',
     pol_check (the_field ''version'' policy \<noteq> JStr ''1.0'' \<or> the_field ''project_id'' policy \<noteq> JStr project)
       ''policy version or project identity is invalid'',
     pol_check (the_field ''constitution_id'' policy \<noteq> JStr constitution_id) ''policy constitution binding is invalid'',
     pol_check (the_field ''compatibility'' policy \<noteq> JStr adr_compatibility \<or> the_field ''approval_status'' policy \<noteq> JStr ''APPROVED'')
       ''policy approval or compatibility is invalid'',
     pol_check (the_field ''key_id'' policy \<noteq> JStr owner_key_id \<or> \<not> is_dict (the_field ''body'' policy)) ''policy owner binding is invalid'',
     pol_check (\<not> is_identity (the_field ''previous_policy'' policy)) ''policy rollback identity is invalid'',
     pol_check (the_field ''policy_id'' (the_field ''previous_policy'' policy) = JStr rollback_target_id \<and>
       the_field ''policy_hash'' (the_field ''previous_policy'' policy) \<noteq> JStr (fallback_hash H project))
       ''policy rollback target is not the constitutional fallback'',
     validate_limits (the_field ''freshness_limits'' (the_field ''body'' policy)),
     validate_timestamp clk now (the_field ''activation_time'' policy),
     verify_signature key policy ''policy'',
     pol_check (pn_project_id pointer \<noteq> project \<or> pn_policy_id pointer \<noteq> JStr adr_policy_id) ''active policy pointer identity is invalid'',
     pol_check (\<not> is_hash_value (pn_policy_hash pointer)) ''active policy hash format is invalid'',
     pol_check (\<not> sha256_match (pn_activation_hash pointer)) ''active activation hash format is invalid'',
     pol_check (pn_policy_hash pointer \<noteq> JStr (H (dump policy))) ''active policy hash is invalid'',
     verify_body (the_field ''body'' policy)]"

subsection \<open>The activation\<close>

definition activation_schema :: "string list" where
  "activation_schema = [''schema_version'', ''project_id'', ''policy_id'', ''policy_version'', ''policy_hash'', ''previous_policy_hash'',
     ''active_pointer_value'', ''activation_time'', ''compatibility'', ''rollback_target'', ''key_id'', ''operation_id'', ''signature'']"

text \<open>\<open>operation-[a-z0-9][a-z0-9-]{2,127}\<close>\<close>

definition operation_id_ok :: "string \<Rightarrow> bool" where
  "operation_id_ok s = (starts_with ''operation-'' s \<and> (case drop 10 s of [] \<Rightarrow> False
     | c # cs \<Rightarrow> is_lower_alnum c \<and> 2 \<le> length cs \<and> length cs \<le> 127 \<and> list_all (\<lambda>x. is_lower_alnum x \<or> x = CHR ''-'') cs))"

definition verify_activation ::
    "(string \<Rightarrow> string) \<Rightarrow> (string \<Rightarrow> string) res \<Rightarrow> (string \<Rightarrow> int option option) \<Rightarrow> int \<Rightarrow> bool \<Rightarrow> string \<Rightarrow> policy_pointer \<Rightarrow> json \<Rightarrow>
     json \<Rightarrow> unit res" where
  "verify_activation H key clk now enforce project pointer policy a = steps [
     pol_check (\<not> has_keys activation_schema a) ''activation schema is invalid'',
     pol_check (the_field ''project_id'' a \<noteq> JStr project \<or> the_field ''policy_id'' a \<noteq> the_field ''policy_id'' policy)
       ''activation project or policy binding is invalid'',
     pol_check (the_field ''policy_version'' a \<noteq> the_field ''version'' policy) ''activation policy version is invalid'',
     pol_check (\<not> is_hash_value (the_field ''policy_hash'' a)) ''activation policy hash format is invalid'',
     pol_check (the_field ''policy_hash'' a \<noteq> JStr (H (dump policy))) ''activation policy hash is invalid'',
     pol_check (canon (the_field ''active_pointer_value'' a) \<noteq> canon (JObj [(''project_id'', JStr project),
       (''policy_id'', the_field ''policy_id'' policy), (''policy_hash'', the_field ''policy_hash'' a)])) ''activation pointer binding is invalid'',
     pol_check (the_field ''schema_version'' a \<noteq> JStr ''1.0'' \<or> the_field ''compatibility'' a \<noteq> JStr adr_compatibility)
       ''activation schema or compatibility is invalid'',
     pol_check (the_field ''key_id'' a \<noteq> JStr owner_key_id) ''activation owner binding is invalid'',
     pol_check (\<not> is_hash_value (the_field ''previous_policy_hash'' a)) ''activation rollback predecessor is invalid'',
     pol_check (the_field ''previous_policy_hash'' a \<noteq> the_field ''policy_hash'' (the_field ''previous_policy'' policy))
       ''activation rollback predecessor does not match policy'',
     pol_check (canon (the_field ''rollback_target'' a) \<noteq> canon (the_field ''previous_policy'' policy)) ''activation rollback target is invalid'',
     validate_timestamp clk now (the_field ''activation_time'' a),
     (if enforce then (case Option.bind (field ''policy_seconds'' (the_field ''freshness_limits'' (the_field ''body'' policy))) the_int of
        None \<Rightarrow> policy_invalid ''invalid activation time'' | Some n \<Rightarrow> validate_time clk now (the_field ''activation_time'' a) n) else Inr ()),
     pol_check (case the_str (the_field ''operation_id'' a) of None \<Rightarrow> True | Some s \<Rightarrow> \<not> operation_id_ok s)
       ''activation operation identity is invalid'',
     verify_signature key a ''activation'',
     pol_check (pn_activation_hash pointer \<noteq> H (dump a)) ''active pointer activation hash is invalid'']"

subsection \<open>The active policy\<close>

definition pointer_of :: "(string \<Rightarrow> string) \<Rightarrow> string \<Rightarrow> active_row \<Rightarrow> json \<Rightarrow> policy_pointer" where
  "pointer_of H project row activation = \<lparr>pn_project_id = project, pn_policy_id = enc_opt (ac_policy_id row),
     pn_policy_hash = enc_opt (ac_policy_hash row), pn_activation_hash = H (dump activation)\<rparr>"

definition project_id_text :: "string \<Rightarrow> bool" where
  "project_id_text p = (starts_with ''project-'' p \<and> length p = 24 \<and> list_all is_hex (drop 8 p))"

definition resolve_legacy ::
    "(string \<Rightarrow> string) \<Rightarrow> (string \<Rightarrow> string) res \<Rightarrow> string res \<Rightarrow> (string \<Rightarrow> int option option) \<Rightarrow> int \<Rightarrow> string \<Rightarrow> policy_file \<Rightarrow>
     active_merge_policy res" where
  "resolve_legacy H key constitution clk now project f =
     (if \<not> project_id_text project then policy_invalid ''invalid project identity''
      else and_then (replace_exc (\<lambda>c. c = ConstitutionVerificationError) PolicyActivationError ''POLICY_NOT_ACTIVATED: ConstitutionAuthority failed''
          constitution) (\<lambda>cid.
        and_then (replace_exc (\<lambda>c. c = PolicyStateError) PolicyActivationError ''POLICY_NOT_ACTIVATED: policy state is unreadable''
          (fst (read_snapshot True project f))) (\<lambda>v. case v of
          View_None \<Rightarrow> policy_invalid ''policy is not activated''
        | View_Inactive _ _ \<Rightarrow> policy_invalid ''policy is not activated''
        | View_Active row policy activation \<Rightarrow>
            if \<not> is_dict policy \<or> \<not> is_dict activation then policy_invalid ''policy state is inconsistent''
            else (let pointer = pointer_of H project row activation in
              and_then (verify_policy H key clk now project cid pointer policy) (\<lambda>_.
              and_then (verify_activation H key clk now True project pointer policy activation) (\<lambda>_.
              if ac_generation row < 1 then policy_invalid ''policy generation is invalid''
              else (case (the_str (the_field ''policy_id'' policy), the_str (the_field ''version'' policy), the_str (the_field ''key_id'' policy)) of
                (Some i, Some v, Some k) \<Rightarrow> Inr \<lparr>am_project_id = project, am_policy_id = i, am_version = v, am_policy_hash = H (dump policy),
                  am_activation_hash = H (dump activation), am_rollback_target = the_field ''rollback_target'' activation, am_key_id = k,
                  am_freshness_limits = the_field ''freshness_limits'' (the_field ''body'' policy)\<rparr>
              | _ \<Rightarrow> policy_invalid ''policy identity is invalid'')))))))"

end
