(* ===== verification/GitDelivery.thy ===== *)
theory GitDelivery
  imports MergePolicy PolicySafety PolicyAuthority
begin

section \<open>The delivery boundary (git_delivery.py)\<close>

text \<open>
  What a delivery must satisfy before a reviewed patch is committed: the state of the remote branch, the
  merge decision against the authority of the moment, and the reservation in the policy state around the
  commit. What git prints and what the resolution of the authority returns are arguments, as is the
  reading \<open>clk\<close> of a time (\<open>datetime.fromisoformat\<close>): \<open>None\<close> for a text it does not read, \<open>Some None\<close>
  for a time without a zone, otherwise the seconds, as for \<open>now\<close>.
\<close>

abbreviation delivery_error :: "string \<Rightarrow> 'a res" where
  "delivery_error m \<equiv> raise GitDeliveryError m"

subsection \<open>The remote branch\<close>

datatype remote_classification = Remote_ABSENT | Remote_PRESENT | Remote_UNCERTAIN

record remote_evidence =
  re_classification :: remote_classification
  re_queried_ref :: string
  re_exit_code :: int
  re_matched_sha :: "string option"
  re_stderr_category :: string
  re_uncertainty_kind :: string

definition stderr_category :: "string \<Rightarrow> string" where
  "stderr_category s = (let v = map ascii_lower s in
     if blank v then ''NONE''
     else if list_ex (\<lambda>w. contains_text w v) [''could not resolve host'', ''name or service'', ''network''] then ''DNS_OR_NETWORK''
     else if list_ex (\<lambda>w. contains_text w v) [''permission denied'', ''authentication'', ''unauthorized''] then ''AUTHORIZATION''
     else ''REMOTE_ERROR'')"

text \<open>\<open>str.splitlines\<close>\<close>

definition line_end :: "char \<Rightarrow> bool" where
  "line_end c = (let n = (of_char c :: nat) in (10 \<le> n \<and> n \<le> 13) \<or> (28 \<le> n \<and> n \<le> 30) \<or> n = 133)"

fun lines_from :: "bool \<Rightarrow> string \<Rightarrow> string \<Rightarrow> string list" where
  "lines_from cr acc [] = (if acc = [] then [] else [rev acc])"
| "lines_from cr acc (c # s) = (let n = (of_char c :: nat) in
     if cr \<and> n = 10 then lines_from False [] s
     else if line_end c then rev acc # lines_from (n = 13) [] s
     else lines_from False (c # acc) s)"

definition py_splitlines :: "string \<Rightarrow> string list" where
  "py_splitlines s = lines_from False [] s"

text \<open>The first field of the only line, if the line has two fields and the first is a revision\<close>

definition candidate_sha :: "string list \<Rightarrow> string option" where
  "candidate_sha parts = (if length parts = 2 \<and> sha_match (hd parts) then Some (hd parts) else None)"

definition classify_remote_branch :: "string \<Rightarrow> int \<Rightarrow> string \<Rightarrow> string \<Rightarrow> remote_evidence" where
  "classify_remote_branch branch code stdout stderr =
     (let ref = ''refs/heads/'' @ branch; category = stderr_category stderr; ls = py_splitlines stdout in
      if code \<noteq> 0 \<or> category \<noteq> ''NONE''
      then \<lparr>re_classification = Remote_UNCERTAIN, re_queried_ref = ref, re_exit_code = code, re_matched_sha = None,
        re_stderr_category = category, re_uncertainty_kind = ''UNAVAILABLE''\<rparr>
      else if ls = []
      then \<lparr>re_classification = Remote_ABSENT, re_queried_ref = ref, re_exit_code = code, re_matched_sha = None,
        re_stderr_category = category, re_uncertainty_kind = ''ABSENT''\<rparr>
      else if length ls \<noteq> 1
      then \<lparr>re_classification = Remote_UNCERTAIN, re_queried_ref = ref, re_exit_code = code, re_matched_sha = None,
        re_stderr_category = category, re_uncertainty_kind = ''DIVERGENT''\<rparr>
      else (let parts = split_on (char_of (9 :: nat)) (hd ls); candidate = candidate_sha parts in
        if candidate \<noteq> None \<and> parts ! 1 = ref
        then \<lparr>re_classification = Remote_PRESENT, re_queried_ref = ref, re_exit_code = code, re_matched_sha = candidate,
          re_stderr_category = category, re_uncertainty_kind = ''NONE''\<rparr>
        else \<lparr>re_classification = Remote_UNCERTAIN, re_queried_ref = ref, re_exit_code = code, re_matched_sha = None,
          re_stderr_category = category, re_uncertainty_kind = ''CONTRADICTORY''\<rparr>))"

text \<open>What git reports of the target: whether the branch exists here, the remote query, the current
  revision and the lines of its status\<close>

record target_state =
  tg_local_branch :: bool
  tg_exit_code :: int
  tg_stdout :: string
  tg_stderr :: string
  tg_head :: string
  tg_status_lines :: "string list"

definition validate_target :: "target_state \<Rightarrow> string \<Rightarrow> string \<Rightarrow> remote_evidence res" where
  "validate_target g base branch =
     (if branch \<in> {''main'', ''master''} \<or> starts_with ''main/'' branch \<or> starts_with ''master/'' branch
      then delivery_error ''delivery cannot modify main or master''
      else if tg_local_branch g then delivery_error (''delivery branch already exists: '' @ branch)
      else (let remote = classify_remote_branch branch (tg_exit_code g) (tg_stdout g) (tg_stderr g) in
        case re_classification remote of
          Remote_PRESENT \<Rightarrow> delivery_error (''delivery branch already exists remotely: '' @ branch)
        | Remote_UNCERTAIN \<Rightarrow> delivery_error (''remote branch state is uncertain: '' @ re_queried_ref remote @
            ''; stderr_category='' @ re_stderr_category remote)
        | Remote_ABSENT \<Rightarrow>
            if py_strip (tg_head g) \<noteq> base then delivery_error ''base SHA drifted before delivery''
            else if tg_status_lines g \<noteq> [] then delivery_error ''caller repository is not clean before delivery''
            else Inr remote))"

subsection \<open>The authority of the moment\<close>

text \<open>Whether the policy state exists, and what \<open>resolve_authority\<close> gives for the project: the authority's
  row and the active policy\<close>

record host_authority =
  ha_store_exists :: bool
  ha_snapshot :: "authority_row option res"
  ha_policy :: "active_merge_policy option res"

definition ensure_stop_clear :: "host_authority \<Rightarrow> string option \<Rightarrow> unit res" where
  "ensure_stop_clear ha project = (if project = None
     then raise_if (ha_store_exists ha) GitDeliveryError ''delivery project identity is required''
     else and_then (replace_exc (\<lambda>c. c \<in> {AuthorityContextError, ConstitutionVerificationError, PolicyStateError, SqliteError, OSError})
         GitDeliveryError ''authority state is unreadable'' (ha_snapshot ha)) (\<lambda>s. case s of
       None \<Rightarrow> delivery_error ''authority state is not bootstrapped''
     | Some row \<Rightarrow> raise_if (au_kill_switch_active row) GitDeliveryError (''emergency stop is active: stop-'' @ au_operation_id row @
         '' generation '' @ show_int (au_generation row))))"

definition check_generation :: "host_authority \<Rightarrow> merge_decision \<Rightarrow> unit res" where
  "check_generation ha d = and_then (replace_exc (\<lambda>c. c \<in> {PolicyStateError, SqliteError}) GitDeliveryError
       ''authority state is unreadable'' (ha_snapshot ha)) (\<lambda>s. case s of
     None \<Rightarrow> delivery_error ''authority state is not bootstrapped''
   | Some row \<Rightarrow> steps [
       raise_if (au_generation row \<noteq> md_authority_generation d) GitDeliveryError ''authorization generation is stale'',
       raise_if (au_kill_switch_active row) GitDeliveryError ''kill switch is active''])"

subsection \<open>Freshness\<close>

definition limit :: "string \<Rightarrow> json \<Rightarrow> int res" where
  "limit k v = (case Option.bind (field k v) the_int of
     None \<Rightarrow> delivery_error ''active policy freshness evidence is invalid'' | Some n \<Rightarrow> Inr n)"

definition gate_fresh :: "(string \<Rightarrow> int option option) \<Rightarrow> int \<Rightarrow> int \<Rightarrow> gate_evidence \<Rightarrow> unit res" where
  "gate_fresh clk now seconds g = (case clk (ge_observed_at g) of
     None \<Rightarrow> delivery_error ''gate freshness evidence is invalid''
   | Some None \<Rightarrow> delivery_error (''gate evidence is stale: '' @ ge_name g)
   | Some (Some t) \<Rightarrow> raise_if (now < t \<or> seconds < now - t) GitDeliveryError (''gate evidence is stale: '' @ ge_name g))"

definition validate_freshness :: "(string \<Rightarrow> int option option) \<Rightarrow> int \<Rightarrow> merge_decision \<Rightarrow> json \<Rightarrow> unit res" where
  "validate_freshness clk now d limits = and_then (limit ''gate_seconds'' limits) (\<lambda>gate_seconds.
     and_then (limit ''policy_seconds'' limits) (\<lambda>policy_seconds. case clk (md_expiry d) of
       None \<Rightarrow> delivery_error ''active policy freshness evidence is invalid''
     | Some None \<Rightarrow> delivery_error ''merge authorization is expired''
     | Some (Some t) \<Rightarrow> if t \<le> now \<or> policy_seconds < t - now then delivery_error ''merge authorization is expired''
         else for_each (gate_fresh clk now gate_seconds) (md_gates d)))"

subsection \<open>The merge decision\<close>

datatype decision_input = Decision merge_decision | Decision_Dict json

definition read_decision :: "(string \<Rightarrow> string) \<Rightarrow> (string \<Rightarrow> bool) \<Rightarrow> decision_input \<Rightarrow> merge_decision res" where
  "read_decision H clock i = rethrow (\<lambda>c. c = MergeValidationError \<or> c = TypeError \<or> is_value_error c) GitDeliveryError
     ''invalid merge authorization: '' (and_then (case i of Decision d \<Rightarrow> Inr d | Decision_Dict v \<Rightarrow> decision_from_dict H clock v)
       (\<lambda>d. and_then (decision_validate clock d) (\<lambda>_. Inr d)))"

definition check_active :: "(string \<Rightarrow> int option option) \<Rightarrow> int \<Rightarrow> active_merge_policy option \<Rightarrow> merge_decision \<Rightarrow> unit res" where
  "check_active clk now active d = (case active of
     None \<Rightarrow> raise_if (md_policy_hash d \<noteq> []) GitDeliveryError ''merge authorization policy was superseded or rolled back''
   | Some p \<Rightarrow>
     if md_policy_hash d = [] then delivery_error ''legacy authorization is stale under active policy''
     else if am_policy_id p \<noteq> md_policy_id d \<or> am_version p \<noteq> md_policy_version d \<or> am_policy_hash p \<noteq> md_policy_hash d
     then delivery_error ''merge authorization policy identity is stale''
     else and_then (validate_freshness clk now d (am_freshness_limits p)) (\<lambda>_. case md_risk_assessment d of
       None \<Rightarrow> delivery_error ''Risk Engine assessment is required''
     | Some v \<Rightarrow> and_then (replace_exc (\<lambda>c. c = TypeError \<or> is_value_error c) GitDeliveryError
           ''Risk Engine assessment is invalid'' (risk_from_dict v)) (\<lambda>a. steps [
         raise_if (rk_project_id a \<noteq> md_project_id d \<or> rk_task_id a \<noteq> md_task_id d) GitDeliveryError ''Risk Engine assessment identity is stale'',
         raise_if (class_of_level (rk_level a) \<noteq> md_risk_class d) GitDeliveryError ''Risk Engine assessment does not match decision''])))"

text \<open>A decision that only the required approval by a human blocks may be delivered.\<close>

definition human_blocked :: "merge_decision \<Rightarrow> bool" where
  "human_blocked d = (md_decision_status d = Decision_BLOCKED \<and> md_authorization_status d = Not_Authorized \<and>
     md_blocking_reasons d = [''human merge approval is required by policy''])"

definition missing_gates :: "merge_decision \<Rightarrow> string list" where
  "missing_gates d = filter (\<lambda>n. n \<notin> ge_name ` set (md_gates d)) required_gates"

definition failed_gates :: "merge_decision \<Rightarrow> string list" where
  "failed_gates d = map ge_name (filter (\<lambda>g. ge_status g \<noteq> Gate_PASS) (md_gates d))"

definition incomplete_evidence :: "merge_decision \<Rightarrow> string" where
  "incomplete_evidence d = ''merge authorization evidence is incomplete ('' @ join_str ''; ''
     ((if missing_gates d \<noteq> [] then [''missing gates: '' @ join_str '', '' (missing_gates d)] else []) @
      (if failed_gates d \<noteq> [] then [''non-PASS gates: '' @ join_str '', '' (sort (failed_gates d))] else [])) @ '')''"

definition check_bindings :: "merge_decision \<Rightarrow> string \<Rightarrow> string \<Rightarrow> string \<Rightarrow> unit res" where
  "check_bindings d task base delivery = steps [
     raise_if (md_decision_status d \<noteq> Decision_ELIGIBLE \<and> \<not> human_blocked d) GitDeliveryError ''merge decision is not eligible'',
     raise_if (md_authorization_status d \<noteq> Authorized \<and> \<not> human_blocked d) GitDeliveryError ''merge decision is not authorized'',
     raise_if (md_task_id d \<noteq> task) GitDeliveryError ''merge decision task does not match delivery task'',
     raise_if (md_base_sha d \<noteq> base) GitDeliveryError ''merge decision base SHA does not match delivery'',
     raise_if (md_delivery_sha d \<noteq> delivery) GitDeliveryError ''merge decision delivery SHA does not match patch'',
     raise_if (missing_gates d \<noteq> [] \<or> failed_gates d \<noteq> []) GitDeliveryError (incomplete_evidence d)]"

definition validate_delivery_authorization ::
    "(string \<Rightarrow> string) \<Rightarrow> (string \<Rightarrow> bool) \<Rightarrow> (string \<Rightarrow> int option option) \<Rightarrow> int \<Rightarrow> host_authority \<Rightarrow> decision_input \<Rightarrow>
     string \<Rightarrow> string \<Rightarrow> string \<Rightarrow> string option \<Rightarrow> merge_decision res" where
  "validate_delivery_authorization H clock clk now ha i task base delivery project =
     and_then (ensure_stop_clear ha project) (\<lambda>_. and_then (read_decision H clock i) (\<lambda>d.
     if \<not> verify_integrity H d then delivery_error ''merge authorization integrity check failed''
     else if project \<noteq> None \<and> project \<noteq> Some (md_project_id d) then delivery_error ''merge authorization project does not match delivery''
     else and_then (if project = None then Inr () else check_generation ha d) (\<lambda>_.
     if md_risk_class d \<in> {Class_CRITICAL, Class_UNKNOWN} then delivery_error ''CRITICAL/UNKNOWN delivery requires human approval''
     else if md_risk_class d \<in> {Class_MEDIUM, Class_HIGH} \<and> md_policy_hash d = []
     then delivery_error ''active policy hash is required for MEDIUM/HIGH delivery; legacy path is LOW-only''
     else and_then (if ha_store_exists ha then replace_exc (\<lambda>c. c \<in> {PolicyActivationError, AuthorityContextError}) GitDeliveryError
         ''active policy is not verified'' (ha_policy ha) else Inr None) (\<lambda>active.
       and_then (check_active clk now active d) (\<lambda>_. and_then (check_bindings d task base delivery) (\<lambda>_. Inr d))))))"

text \<open>What \<open>deliver\<close> asks of the patch and of the decision before it touches a worktree\<close>

definition authorize_delivery ::
    "(string \<Rightarrow> string) \<Rightarrow> (string \<Rightarrow> bool) \<Rightarrow> (string \<Rightarrow> int option option) \<Rightarrow> int \<Rightarrow> host_authority \<Rightarrow> decision_input option \<Rightarrow>
     string \<Rightarrow> string \<Rightarrow> string \<Rightarrow> string option \<Rightarrow> string option \<Rightarrow> merge_decision option res" where
  "authorize_delivery H clock clk now ha decision task base patch_sha project expected_patch =
     (if expected_patch \<noteq> None \<and> expected_patch \<noteq> Some [] \<and> expected_patch \<noteq> Some patch_sha then delivery_error ''patch hash mismatch''
      else if task = ''E6-T2'' \<and> decision = None then delivery_error ''fully evidenced LOW merge decision is required''
      else (case decision of
        None \<Rightarrow>
          if project \<noteq> None
          then and_then (replace_exc (\<lambda>c. c \<in> {PolicyActivationError, AuthorityContextError}) GitDeliveryError
              ''active policy is not verified'' (ha_policy ha)) (\<lambda>active.
            if active \<noteq> None then delivery_error ''active policy requires an integrity-bound MergeDecision'' else Inr None)
          else if ha_store_exists ha then delivery_error ''delivery project identity is required'' else Inr None
      | Some i \<Rightarrow>
          if project = None then delivery_error ''delivery project identity is required''
          else and_then (validate_delivery_authorization H clock clk now ha i task base patch_sha project) (\<lambda>d. Inr (Some d))))"

subsection \<open>The commit\<close>

text \<open>
  The reservation, the start and the transaction around the work \<open>body\<close> of git. The stack of contexts is
  closed at the end, not unwound: an exception of the work does not reach the transaction.
\<close>

definition commit_delivery ::
    "(string \<Rightarrow> string) \<Rightarrow> string \<Rightarrow> string \<Rightarrow> int \<Rightarrow> string \<Rightarrow> string \<Rightarrow> 'a res \<Rightarrow> policy_file \<Rightarrow> 'a res \<times> policy_file" where
  "commit_delivery H project op g token now body f = (case mutation False (reserve_delivery H project op g now) f of
     (Inl e, f1) \<Rightarrow> (Inl e, f1)
   | (Inr _, f1) \<Rightarrow> (case mutation False (begin_delivery_commit project op g token) f1 of
       (Inl e, f2) \<Rightarrow> (Inl e, f2)
     | (Inr tok, f2) \<Rightarrow> (case mutation False (delivery_transaction project op g tok now (Inr ())) f2 of
         (Inl e, f3) \<Rightarrow> (Inl e, f3)
       | (Inr _, f3) \<Rightarrow> (body, f3))))"

end
