(* ===== verification/DeliverySafety.thy ===== *)
theory DeliverySafety
  imports GitDelivery
begin

section \<open>What the delivery boundary lets through\<close>

text \<open>
  The decisions that \<open>deliver\<close> accepts, the decisions of the policy engine among them, the branches it
  accepts as targets, and what the journal says of a delivery whose commit fails.
\<close>

subsection \<open>Accepted decisions\<close>

definition fresh :: "(string \<Rightarrow> int option option) \<Rightarrow> int \<Rightarrow> json \<Rightarrow> merge_decision \<Rightarrow> bool" where
  "fresh clk now limits d \<longleftrightarrow> (\<exists>g p t. field ''gate_seconds'' limits = Some (JInt g) \<and> field ''policy_seconds'' limits = Some (JInt p) \<and>
     clk (md_expiry d) = Some (Some t) \<and> now < t \<and> t - now \<le> p \<and>
     (\<forall>e\<in>set (md_gates d). \<exists>s. clk (ge_observed_at e) = Some (Some s) \<and> s \<le> now \<and> now - s \<le> g))"

lemma limit_ok: "limit k v = Inr n \<longleftrightarrow> field k v = Some (JInt n)"
proof (cases "field k v")
  case (Some w)
  then show ?thesis by (cases w) (auto simp: limit_def the_int_def)
qed (simp add: limit_def)

lemma gate_fresh_ok: "gate_fresh clk now g e = Inr () \<longleftrightarrow> (\<exists>s. clk (ge_observed_at e) = Some (Some s) \<and> s \<le> now \<and> now - s \<le> g)"
  by (auto simp: gate_fresh_def split: option.splits)

lemma time_case_ok: "(case t of None \<Rightarrow> delivery_error m | Some None \<Rightarrow> delivery_error n | Some (Some s) \<Rightarrow> if P s then delivery_error q else r) = Inr () \<longleftrightarrow>
    (\<exists>s. t = Some (Some s) \<and> \<not> P s \<and> r = Inr ())"
  by (simp split: option.splits)

lemma validate_freshness_ok: "validate_freshness clk now d limits = Inr () \<longleftrightarrow> fresh clk now limits d"
  unfolding validate_freshness_def and_then_ok limit_ok fresh_def time_case_ok for_each_ok gate_fresh_ok de_Morgan_disj not_le not_less
  by blast

text \<open>The decision belongs to the policy that is active, or to none if none is\<close>

definition current_policy :: "(string \<Rightarrow> int option option) \<Rightarrow> int \<Rightarrow> active_merge_policy option \<Rightarrow> merge_decision \<Rightarrow> bool" where
  "current_policy clk now active d \<longleftrightarrow> (case active of
     None \<Rightarrow> md_policy_hash d = []
   | Some p \<Rightarrow> md_policy_hash d = am_policy_hash p \<and> md_policy_hash d \<noteq> [] \<and> md_policy_id d = am_policy_id p \<and>
       md_policy_version d = am_version p \<and> fresh clk now (am_freshness_limits p) d \<and> (\<exists>v a. md_risk_assessment d = Some v \<and>
       risk_from_dict v = Inr a \<and> rk_project_id a = md_project_id d \<and> rk_task_id a = md_task_id d \<and> class_of_level (rk_level a) = md_risk_class d))"

lemma check_active_ok: "check_active clk now active d = Inr () \<longleftrightarrow> current_policy clk now active d"
  by (auto simp: check_active_def current_policy_def and_then_ok validate_freshness_ok steps_ok raise_def split: option.splits if_splits)

definition authorized_or_human :: "merge_decision \<Rightarrow> bool" where
  "authorized_or_human d \<longleftrightarrow> md_decision_status d = Decision_ELIGIBLE \<and> md_authorization_status d = Authorized \<or> human_blocked d"

definition all_gates_pass :: "merge_decision \<Rightarrow> bool" where
  "all_gates_pass d \<longleftrightarrow> set required_gates \<subseteq> ge_name ` set (md_gates d) \<and> (\<forall>g\<in>set (md_gates d). ge_status g = Gate_PASS)"

lemma check_bindings_ok: "check_bindings d task base delivery = Inr () \<longleftrightarrow> authorized_or_human d \<and> md_task_id d = task \<and> md_base_sha d = base \<and>
    md_delivery_sha d = delivery \<and> all_gates_pass d"
  by (auto simp: check_bindings_def steps_ok authorized_or_human_def human_blocked_def all_gates_pass_def missing_gates_def failed_gates_def
      filter_empty_conv)

definition deliverable ::
    "(string \<Rightarrow> string) \<Rightarrow> (string \<Rightarrow> bool) \<Rightarrow> (string \<Rightarrow> int option option) \<Rightarrow> int \<Rightarrow> host_authority \<Rightarrow> merge_decision \<Rightarrow> string \<Rightarrow> bool" where
  "deliverable H clock clk now ha d project \<longleftrightarrow> decision_validate clock d = Inr () \<and> verify_integrity H d \<and> md_project_id d = project \<and>
     (\<exists>row. ha_snapshot ha = Inr (Some row) \<and> \<not> au_kill_switch_active row \<and> au_generation row = md_authority_generation d) \<and>
     md_risk_class d \<in> {Class_LOW, Class_MEDIUM, Class_HIGH} \<and> (md_risk_class d = Class_LOW \<or> md_policy_hash d \<noteq> []) \<and>
     (\<exists>active. (if ha_store_exists ha then ha_policy ha = Inr active else active = None) \<and> current_policy clk now active d) \<and>
     authorized_or_human d \<and> all_gates_pass d"

lemma read_decision_ok: "read_decision H clock (Decision d) = Inr e \<longleftrightarrow> e = d \<and> decision_validate clock d = Inr ()"
  by (auto simp: read_decision_def and_then_ok)

lemma ensure_stop_clear_ok: "ensure_stop_clear ha (Some p) = Inr () \<longleftrightarrow> (\<exists>row. ha_snapshot ha = Inr (Some row) \<and> \<not> au_kill_switch_active row)"
  by (auto simp: ensure_stop_clear_def and_then_ok split: option.splits)

lemma check_generation_ok: "check_generation ha d = Inr () \<longleftrightarrow>
    (\<exists>row. ha_snapshot ha = Inr (Some row) \<and> au_generation row = md_authority_generation d \<and> \<not> au_kill_switch_active row)"
  by (auto simp: check_generation_def and_then_ok steps_ok split: option.splits)

lemma risk_class_in: "c \<notin> {Class_CRITICAL, Class_UNKNOWN} \<longleftrightarrow> c \<in> {Class_LOW, Class_MEDIUM, Class_HIGH}"
  by (cases c) simp_all


text \<open>The decisions of the policy engine\<close>

definition engine_authority :: "merge_policy \<Rightarrow> evaluation \<Rightarrow> (string \<Rightarrow> int option option) \<Rightarrow> int \<Rightarrow> host_authority \<Rightarrow> merge_decision \<Rightarrow> bool" where
  "engine_authority p e clk now ha d \<longleftrightarrow> (\<exists>row. ha_snapshot ha = Inr (Some row) \<and> \<not> au_kill_switch_active row \<and> au_generation row = mp_authority_generation p) \<and>
     (if ha_store_exists ha \<and> mp_policy_hash p \<noteq> []
      then \<exists>a. ha_policy ha = Inr (Some a) \<and> am_policy_hash a = mp_policy_hash p \<and> am_policy_id a = mp_policy_id p \<and> am_version a = mp_version p \<and>
        fresh clk now (am_freshness_limits a) d \<and> ev_risk_class e \<in> {Class_LOW, Class_MEDIUM, Class_HIGH}
      else mp_policy_hash p = [] \<and> ev_risk_class e = Class_LOW \<and> (ha_store_exists ha \<longrightarrow> ha_policy ha = Inr None))"

lemma final_decision_bindings:
  "md_project_id (final_decision H p e gs) = ev_project_id e" "md_task_id (final_decision H p e gs) = ev_task_id e"
  "md_base_sha (final_decision H p e gs) = ev_base_sha e" "md_delivery_sha (final_decision H p e gs) = ev_delivery_sha e"
  "md_risk_class (final_decision H p e gs) = ev_risk_class e" "md_policy_hash (final_decision H p e gs) = mp_policy_hash p"
  "md_policy_id (final_decision H p e gs) = mp_policy_id p" "md_policy_version (final_decision H p e gs) = mp_version p"
  "md_authority_generation (final_decision H p e gs) = mp_authority_generation p"
  "md_risk_assessment (final_decision H p e gs) = map_option risk_to_dict (ev_risk_assessment e)"
  by (simp_all add: final_decision_def draft_decision_def Let_def)

lemma check_risk_ok: "check_risk d = Inr () \<Longrightarrow> md_risk_assessment d = Some v \<Longrightarrow> \<exists>a. risk_from_dict v = Inr a \<and> rk_project_id a = md_project_id d \<and>
    rk_task_id a = md_task_id d \<and> class_of_level (rk_level a) = md_risk_class d"
  by (auto simp: check_risk_def and_then_ok steps_ok)

lemma decision_validate_risk: "decision_validate clock d = Inr () \<Longrightarrow> check_risk d = Inr ()"
  by (auto simp: decision_validate_def steps_ok)

lemma engine_policy_current:
  assumes "evaluate H clock p e = Inr d" and "engine_authority p e clk now ha d"
  obtains active where "if ha_store_exists ha then ha_policy ha = Inr active else active = None" "current_policy clk now active d"
proof -
  from assms(1) obtain gs where gs: "d = final_decision H p e gs" "decision_validate clock d = Inr ()" "check_assessment p e = Inr ()"
    by (auto simp: evaluate_iff)
  show thesis
  proof (cases "ha_store_exists ha \<and> mp_policy_hash p \<noteq> []")
    case True
    with assms(2) obtain a where a: "ha_policy ha = Inr (Some a)" "am_policy_hash a = mp_policy_hash p" "am_policy_id a = mp_policy_id p"
      "am_version a = mp_version p" "fresh clk now (am_freshness_limits a) d" by (auto simp: engine_authority_def)
    obtain r where r: "ev_risk_assessment e = Some r" using gs(3) True by (cases "ev_risk_assessment e") (auto simp: check_assessment_def)
    have "\<exists>b. risk_from_dict (risk_to_dict r) = Inr b \<and> rk_project_id b = md_project_id d \<and> rk_task_id b = md_task_id d \<and>
        class_of_level (rk_level b) = md_risk_class d"
      by (rule check_risk_ok [OF decision_validate_risk [OF gs(2)]]) (simp add: gs(1) final_decision_bindings r)
    then have "current_policy clk now (Some a) d"
      using a True r by (simp add: current_policy_def gs(1) final_decision_bindings)
    then show ?thesis using that [of "Some a"] a(1) True by simp
  next
    case False
    with assms(2) have "mp_policy_hash p = []" "ha_store_exists ha \<longrightarrow> ha_policy ha = Inr None" by (auto simp: engine_authority_def)
    then show ?thesis using that [of None] by (simp add: current_policy_def gs(1) final_decision_bindings)
  qed
qed


subsection \<open>Targets\<close>

lemma lines_from_Nil: "lines_from cr acc s = [] \<Longrightarrow> \<not> cr \<Longrightarrow> acc = [] \<and> s = []"
  by (induction cr acc s rule: lines_from.induct) (auto simp: Let_def split: if_splits)

lemma py_splitlines_Nil [simp]: "py_splitlines s = [] \<longleftrightarrow> s = []"
  using lines_from_Nil [of False "[]" s] by (auto simp: py_splitlines_def)

lemma stderr_category_NONE: "stderr_category s = ''NONE'' \<longleftrightarrow> blank (map ascii_lower s)"
  by (auto simp: stderr_category_def Let_def)

text \<open>A delivery's target is accepted exactly when the branch is not the main branch, exists neither here
  nor, by a query that succeeded and printed nothing at all, at the remote, and the caller's repository is
  clean and still at the base.
\<close>

theorem target_accepted_iff:
  "(\<exists>remote. validate_target g base branch = Inr remote) \<longleftrightarrow> branch \<notin> {''main'', ''master''} \<and> \<not> starts_with ''main/'' branch \<and>
     \<not> starts_with ''master/'' branch \<and> \<not> tg_local_branch g \<and> tg_exit_code g = 0 \<and> blank (map ascii_lower (tg_stderr g)) \<and> tg_stdout g = [] \<and>
     py_strip (tg_head g) = base \<and> tg_status_lines g = []"
proof -
  let ?c = "re_classification (classify_remote_branch branch (tg_exit_code g) (tg_stdout g) (tg_stderr g))"
  have c: "?c = Remote_ABSENT \<longleftrightarrow> tg_exit_code g = 0 \<and> blank (map ascii_lower (tg_stderr g)) \<and> tg_stdout g = []"
    by (auto simp: classify_remote_branch_def Let_def stderr_category_NONE)
  show ?thesis
  proof (cases "?c = Remote_ABSENT")
    case True
    then show ?thesis unfolding validate_target_def Let_def using c by simp
  next
    case False
    then show ?thesis unfolding validate_target_def Let_def using c by (cases ?c) auto
  qed
qed

subsection \<open>The commit\<close>

lemma reserved_row:
  assumes "reserve_delivery H p op g now t = Inr (x, u)"
  shows "map_of (pt_journal u) op = Some \<lparr>jr_project_id = p, jr_kind = J_reserved, jr_generation = g, jr_payload_hash = H op, jr_committed_at = now\<rparr>"
    "pt_authority u = pt_authority t" "authority_permits p g t = Inr ()"
  using assms by (auto simp: reserve_delivery_def and_then_ok insert_journal_def raise_def split: if_splits)

text \<open>An unused operation under a permitting authority goes through all three stages.\<close>

lemma commit_stages:
  assumes "reserve_delivery H p op g now t = Inr (x, u)"
  shows "begin_delivery_commit p op g token u = Inr (token, update_journal op (\<lambda>r. r\<lparr>jr_kind := J_committing, jr_payload_hash := token\<rparr>) u)"
    "\<exists>w. delivery_transaction p op g token now (Inr ()) (update_journal op (\<lambda>r. r\<lparr>jr_kind := J_committing, jr_payload_hash := token\<rparr>) u) = Inr ((), w)"
proof -
  note r = reserved_row [OF assms]
  obtain row where row: "map_of (pt_authority u) p = Some row" "au_generation row = g" "\<not> au_kill_switch_active row"
    using r(2,3) by (auto simp: authority_permits_ok)
  show "begin_delivery_commit p op g token u = Inr (token, update_journal op (\<lambda>r. r\<lparr>jr_kind := J_committing, jr_payload_hash := token\<rparr>) u)"
    using r(1) row by (simp add: begin_delivery_commit_def)
  let ?v = "update_journal op (\<lambda>r. r\<lparr>jr_kind := J_committing, jr_payload_hash := token\<rparr>) u"
  have "authority_permits p g ?v = Inr ()" using row by (simp add: authority_permits_ok)
  moreover have "map_of (pt_journal ?v) op = Some \<lparr>jr_project_id = p, jr_kind = J_committing, jr_generation = g, jr_payload_hash = token, jr_committed_at = now\<rparr>"
    using r(1) by (simp add: update_journal_def update_conv)
  ultimately show "\<exists>w. delivery_transaction p op g token now (Inr ()) ?v = Inr ((), w)"
    by (simp add: delivery_transaction_def steps.simps raise_if_def)
qed

lemma commit_delivery_body:
  assumes "reserve_delivery H p op g now (initialized f) = Inr (x, u)"
  obtains w where "commit_delivery H p op g token now body f = (body, Store w)" "map_option jr_kind (map_of (pt_journal w) op) = Some J_committed"
proof -
  note b = commit_stages [OF assms, of token]
  from b(2) obtain w where w: "delivery_transaction p op g token now (Inr ())
      (update_journal op (\<lambda>r. r\<lparr>jr_kind := J_committing, jr_payload_hash := token\<rparr>) u) = Inr ((), w)" by blast
  have "commit_delivery H p op g token now body f = (body, Store w)"
    using assms b(1) w by (simp add: commit_delivery_def mutation_def initialized_def)
  moreover have "map_option jr_kind (map_of (pt_journal w) op) = Some J_committed" using delivered_is_committed [OF w] by auto
  ultimately show thesis using that by blast
qed

text \<open>C33. A delivery whose commit or push fails is recorded as committed: its reservation passes, the failure
  is returned, and from then on the journal says committed, so that the decision cannot be used again.
\<close>

theorem failed_commit_recorded:
  assumes "map_of (pt_journal (initialized f)) op = None" and "authority_permits project g (initialized f) = Inr ()"
  shows "fst (commit_delivery H project op g token now (Inl failure :: unit res) f) = Inl failure \<and>
    map_option jr_kind (map_of (pt_journal (initialized (snd (commit_delivery H project op g token now (Inl failure :: unit res) f)))) op) = Some J_committed"
proof -
  obtain u where r: "reserve_delivery H project op g now (initialized f) = Inr ((), u)"
    using assms by (simp add: reserve_delivery_def check_unused_def insert_journal_def raise_if_def)
  obtain w where "commit_delivery H project op g token now (Inl failure :: unit res) f = (Inl failure, Store w)"
    "map_option jr_kind (map_of (pt_journal w) op) = Some J_committed" by (rule commit_delivery_body [OF r])
  then show ?thesis by (simp add: initialized_def)
qed

subsection \<open>A concrete delivery\<close>

definition sample_ha :: host_authority where
  "sample_ha = \<lparr>ha_store_exists = False, ha_snapshot = Inr (Some \<lparr>au_generation = 0, au_kill_switch_active = False,
     au_operation_id = ''bootstrap'', au_changed_at = [], au_reason = []\<rparr>), ha_policy = Inr None\<rparr>"

theorem failed_commit_recorded_witness:
  "fst (commit_delivery (\<lambda>t. t) ''p'' ''op'' 1 ''token'' ''t'' (Inl (Exc GitDeliveryError ''push failed'') :: unit res) sample_authorities)
     = Inl (Exc GitDeliveryError ''push failed'') \<and>
   map_option jr_kind (map_of (pt_journal (initialized (snd (commit_delivery (\<lambda>t. t) ''p'' ''op'' 1 ''token'' ''t''
     (Inl (Exc GitDeliveryError ''push failed'') :: unit res) sample_authorities)))) ''op'') = Some J_committed"
  by (rule failed_commit_recorded) code_simp+


end
