(* ===== verification/PolicyController.thy ===== *)
theory PolicyController
  imports PolicyAuthority PolicySafety
begin

section \<open>The owner's policy controller (tools/owner_policy_controller.py)\<close>

text \<open>
  The commands with which the owner prepares, activates, refreshes and rolls back the one policy that the
  runtime accepts, and sets the kill switch. \<open>owner_host\<close> is what a command finds: the owner's key as
  the controller and as the runtime read it, the identity of the verified constitution or what its
  verification raises, the clock as text and as seconds, and the reading of times.
\<close>

record owner_host =
  oh_hash :: "string \<Rightarrow> string"
  oh_key :: "(string \<Rightarrow> string) res"
  oh_runtime_key :: "(string \<Rightarrow> string) res"
  oh_constitution :: "string res"
  oh_now :: string
  oh_seconds :: int
  oh_clock :: "string \<Rightarrow> int option option"

abbreviation controller_error :: "string \<Rightarrow> 'a res" where
  "controller_error m \<equiv> raise OwnerControllerError m"

definition signed :: "owner_host \<Rightarrow> (string \<times> json) list \<Rightarrow> json res" where
  "signed h kvs = and_then (oh_key h) (\<lambda>mac. Inr (JObj (kvs @ [(''signature'', JStr (mac (dump (JObj kvs))))])))"

definition previous_identity :: "owner_host \<Rightarrow> string \<Rightarrow> json" where
  "previous_identity h project = JObj [(''policy_id'', JStr rollback_target_id), (''policy_hash'', JStr (fallback_hash (oh_hash h) project))]"

definition policy_body :: json where
  "policy_body = JObj [(''risk_merge_behavior'', risk_behavior), (''mandatory_gates'', enc_strs mandatory_gates),
     (''freshness_limits'', JObj [(''policy_seconds'', JInt 86400), (''gate_seconds'', JInt 3600)]),
     (''protected_object_prohibitions'', enc_strs [''constitution'', ''objective'', ''policy'', ''credential'', ''permission'',
       ''merge-rule'', ''production'', ''financial'', ''destructive'']),
     (''protected_boundary_uncertainty'', JStr ''CRITICAL''), (''rollback_target'', JStr rollback_target_id)]"

definition policy_members :: "owner_host \<Rightarrow> string \<Rightarrow> string \<Rightarrow> (string \<times> json) list" where
  "policy_members h project cid = [(''schema_version'', JStr ''1.0''), (''policy_id'', JStr adr_policy_id), (''version'', JStr ''1.0''),
     (''project_id'', JStr project), (''constitution_id'', JStr cid), (''compatibility'', JStr adr_compatibility),
     (''approval_status'', JStr ''APPROVED''), (''key_id'', JStr owner_key_id), (''previous_policy'', previous_identity h project),
     (''activation_time'', JStr (oh_now h)), (''body'', policy_body)]"

text \<open>\<open>latest_policy\<close> of a store that is not read-only initialises it; an error of the store is
  reported as unreadable.\<close>

definition valid_project :: "string \<Rightarrow> unit res" where
  "valid_project project = raise_if (\<not> project_id_text project) OwnerControllerError ''invalid project identity''"

definition latest_candidate :: "string \<Rightarrow> policy_file \<Rightarrow> json option res \<times> policy_file" where
  "latest_candidate project f = (case read_latest_policy False project adr_policy_id f of (r, g) \<Rightarrow>
     (replace_exc (\<lambda>c. c = PolicyStateError) OwnerControllerError ''transactional policy state is unreadable'' r, g))"

text \<open>The policy, and whether it is new\<close>

definition prepare_request :: "owner_host \<Rightarrow> string \<Rightarrow> string \<Rightarrow> json option res \<Rightarrow> (json \<times> bool) res" where
  "prepare_request h project cid r = and_then r (\<lambda>c. case c of
     Some policy \<Rightarrow> Inr (policy, False)
   | None \<Rightarrow> and_then (signed h (policy_members h project cid)) (\<lambda>policy. Inr (policy, True)))"

definition controller_prepare :: "owner_host \<Rightarrow> string \<Rightarrow> policy_file \<Rightarrow> json res \<times> policy_file" where
  "controller_prepare h project f = (case and_then (valid_project project) (\<lambda>_. oh_constitution h) of
     Inl e \<Rightarrow> (Inl e, f)
   | Inr cid \<Rightarrow> (let g = snd (latest_candidate project f) in case prepare_request h project cid (fst (latest_candidate project f)) of
       Inl e \<Rightarrow> (Inl e, g)
     | Inr (policy, new) \<Rightarrow> if \<not> new then (Inr policy, g)
         else (case mutation False (prepare_policy policy (oh_hash h (dump policy)) (oh_now h)) g of
           (r, u) \<Rightarrow> (and_then r (\<lambda>_. Inr policy), u))))"

definition activation_members :: "string \<Rightarrow> string \<Rightarrow> json \<Rightarrow> string \<Rightarrow> json \<Rightarrow> (string \<times> json) list" where
  "activation_members project op policy h time = [(''schema_version'', JStr ''1.0''), (''project_id'', JStr project),
     (''policy_id'', JStr adr_policy_id), (''policy_version'', the_field ''version'' policy), (''policy_hash'', JStr h),
     (''previous_policy_hash'', the_field ''policy_hash'' (the_field ''previous_policy'' policy)),
     (''active_pointer_value'', JObj [(''project_id'', JStr project), (''policy_id'', JStr adr_policy_id), (''policy_hash'', JStr h)]),
     (''activation_time'', time), (''compatibility'', JStr adr_compatibility), (''rollback_target'', the_field ''previous_policy'' policy),
     (''key_id'', JStr owner_key_id), (''operation_id'', JStr op)]"

text \<open>An error of the store with its message\<close>

definition store_result :: "'a res \<Rightarrow> 'a res" where
  "store_result r = rethrow (\<lambda>c. c = PolicyStateError) OwnerControllerError [] r"

definition valid_operation :: "string \<Rightarrow> string \<Rightarrow> unit res" where
  "valid_operation op m = raise_if (\<not> operation_id_ok op) OwnerControllerError m"

definition pointer_for :: "owner_host \<Rightarrow> string \<Rightarrow> string \<Rightarrow> string \<Rightarrow> policy_pointer" where
  "pointer_for h project policy_hash activation_hash = \<lparr>pn_project_id = project, pn_policy_id = JStr adr_policy_id,
     pn_policy_hash = JStr policy_hash, pn_activation_hash = activation_hash\<rparr>"

definition activate_request :: "owner_host \<Rightarrow> string \<Rightarrow> string \<Rightarrow> json option res \<Rightarrow> (json \<times> json) res" where
  "activate_request h project op r = and_then r (\<lambda>c. case c of
     None \<Rightarrow> controller_error ''no prepared policy exists''
   | Some policy \<Rightarrow> (let ph = oh_hash h (dump policy) in and_then (oh_constitution h) (\<lambda>cid.
       and_then (verify_policy (oh_hash h) (oh_runtime_key h) (oh_clock h) (oh_seconds h) project cid
         (pointer_for h project ph (replicate 64 CHR ''0'')) policy) (\<lambda>_.
       and_then (signed h (activation_members project op policy ph (the_field ''activation_time'' policy))) (\<lambda>a. Inr (policy, a))))))"

definition controller_activate :: "owner_host \<Rightarrow> string \<Rightarrow> string \<Rightarrow> policy_file \<Rightarrow> int res \<times> policy_file" where
  "controller_activate h project op f = (case and_then (valid_project project) (\<lambda>_. valid_operation op ''invalid activation operation identity'') of
     Inl e \<Rightarrow> (Inl e, f)
   | Inr _ \<Rightarrow> (let g = snd (latest_candidate project f) in case activate_request h project op (fst (latest_candidate project f)) of
       Inl e \<Rightarrow> (Inl e, g)
     | Inr (policy, activation) \<Rightarrow> (case mutation False (activate_policy (\<lambda>_. None) project policy activation None (oh_now h)) g of
         (r, u) \<Rightarrow> (store_result r, u))))"

text \<open>The snapshot that must show an active policy; \<open>unreadable\<close> replaces the message of the store if it is given.\<close>

definition read_active :: "string option \<Rightarrow> string \<Rightarrow> string \<Rightarrow> policy_file \<Rightarrow> (active_row \<times> json \<times> json) res" where
  "read_active unreadable missing project f = (case fst (read_snapshot True project f) of
     Inl (Exc c m) \<Rightarrow> if c = PolicyStateError then controller_error (case unreadable of None \<Rightarrow> m | Some u \<Rightarrow> u) else Inl (Exc c m)
   | Inr (View_Active row policy activation) \<Rightarrow> Inr (row, policy, activation)
   | Inr _ \<Rightarrow> controller_error missing)"

text \<open>The age of the present activation decides on a refresh.\<close>

definition refresh_due :: "owner_host \<Rightarrow> json \<Rightarrow> json \<Rightarrow> unit res" where
  "refresh_due h policy activation = (case (Option.bind (the_str (the_field ''activation_time'' activation)) (oh_clock h),
       Option.bind (field ''policy_seconds'' (the_field ''freshness_limits'' (the_field ''body'' policy))) the_int) of
     (Some (Some t), Some n) \<Rightarrow> raise_if (oh_seconds h < t \<or> oh_seconds h - t \<le> n) OwnerControllerError
       ''active policy is not eligible for refresh''
   | _ \<Rightarrow> controller_error ''active policy is not eligible for refresh'')"

definition refresh_request :: "owner_host \<Rightarrow> string \<Rightarrow> string \<Rightarrow> policy_file \<Rightarrow> (active_row \<times> json \<times> string \<times> json) res" where
  "refresh_request h project op f = and_then (valid_project project) (\<lambda>_. and_then (valid_operation op ''invalid refresh operation identity'') (\<lambda>_.
         and_then (oh_constitution h) (\<lambda>cid. and_then (read_active (Some ''transactional policy state is unreadable'') ''no active policy to refresh'' project f) (\<lambda>(row, policy, activation).
         let ph = oh_hash h (dump policy); pointer = pointer_for h project ph (oh_hash h (dump activation)) in
         if ac_policy_id row \<noteq> Some adr_policy_id \<or> \<not> is_dict policy \<or> ac_policy_hash row \<noteq> Some ph
         then controller_error ''active policy is not the authorized AGF-0003 artifact''
         else if \<not> is_dict activation then controller_error ''active activation evidence is missing''
         else and_then (verify_policy (oh_hash h) (oh_runtime_key h) (oh_clock h) (oh_seconds h) project cid pointer policy) (\<lambda>_.
           and_then (verify_activation (oh_hash h) (oh_runtime_key h) (oh_clock h) (oh_seconds h) False project pointer policy activation) (\<lambda>_.
           and_then (refresh_due h policy activation) (\<lambda>_.
           and_then (signed h (activation_members project op policy ph (JStr (oh_now h)))) (\<lambda>a. Inr (row, policy, ph, a)))))))))"

definition controller_refresh :: "owner_host \<Rightarrow> string \<Rightarrow> string \<Rightarrow> policy_file \<Rightarrow> int res \<times> policy_file" where
  "controller_refresh h project op f = (case refresh_request h project op f of
       Inl e \<Rightarrow> (Inl e, f)
     | Inr (row, policy, ph, a) \<Rightarrow> (case mutation False (refresh_policy (\<lambda>_. None) project policy a (ac_generation row) ph (oh_now h)) f of
         (r, u) \<Rightarrow> (store_result r, u)))"

definition rollback_request :: "owner_host \<Rightarrow> string \<Rightarrow> string \<Rightarrow> policy_file \<Rightarrow> (active_row \<times> json) res" where
  "rollback_request h project op f = and_then (valid_project project) (\<lambda>_. and_then (valid_operation op ''invalid rollback operation identity'') (\<lambda>_.
         and_then (read_active None ''no active policy to rollback'' project f) (\<lambda>(row, policy, _).
         let previous = the_field ''previous_policy'' policy;
           receipt = [(''schema_version'', JStr ''1.0''), (''project_id'', JStr project), (''operation_id'', JStr op),
             (''superseded_policy_hash'', enc_opt (ac_policy_hash row)), (''restored_policy_hash'', the_field ''policy_hash'' previous),
             (''rollback_target'', previous), (''rollback_time'', JStr (oh_now h)), (''key_id'', JStr owner_key_id)] in
         and_then (signed h (receipt @ [(''tombstone_hash'', JStr (oh_hash h (dump (JObj receipt))))])) (\<lambda>s. Inr (row, s)))))"

definition controller_rollback :: "owner_host \<Rightarrow> string \<Rightarrow> string \<Rightarrow> policy_file \<Rightarrow> int res \<times> policy_file" where
  "controller_rollback h project op f = (case rollback_request h project op f of
       Inl e \<Rightarrow> (Inl e, f)
     | Inr (row, s) \<Rightarrow> (case mutation False (rollback_policy (\<lambda>_. None) project s (Some (ac_generation row)) (ac_policy_hash row) (oh_now h)) f of
         (r, u) \<Rightarrow> (store_result r, u)))"

definition bootstrap_request :: "owner_host \<Rightarrow> string \<Rightarrow> policy_file \<Rightarrow> int res" where
  "bootstrap_request h project f = and_then (valid_project project) (\<lambda>_. and_then (oh_constitution h) (\<lambda>_.
     and_then (fst (read_snapshot True project f)) (\<lambda>v. case v of View_Active row _ _ \<Rightarrow> Inr (ac_generation row)
       | _ \<Rightarrow> controller_error ''active policy is required before authority bootstrap'')))"

definition controller_bootstrap :: "owner_host \<Rightarrow> string \<Rightarrow> policy_file \<Rightarrow> int res \<times> policy_file" where
  "controller_bootstrap h project f = (case bootstrap_request h project f of
       Inl e \<Rightarrow> (Inl e, f)
     | Inr g \<Rightarrow> (case mutation False (bootstrap_authority project g (oh_now h)) f of (r, u) \<Rightarrow> (and_then r (\<lambda>_. Inr g), u)))"

definition switch_members :: "string \<Rightarrow> string \<Rightarrow> bool \<Rightarrow> string \<Rightarrow> (string \<times> json) list" where
  "switch_members project op active reason = [(''project_id'', JStr project), (''operation_id'', JStr op),
     (''active'', JBool active), (''reason'', JStr reason), (''key_id'', JStr owner_key_id)]"

definition switch_request :: "owner_host \<Rightarrow> string \<Rightarrow> string \<Rightarrow> bool \<Rightarrow> string \<Rightarrow> ((string \<Rightarrow> string) \<times> json) res" where
  "switch_request h project op active reason = and_then (valid_project project) (\<lambda>_. and_then (valid_operation op ''invalid kill-switch operation identity'') (\<lambda>_.
         and_then (oh_constitution h) (\<lambda>_. and_then (oh_key h) (\<lambda>mac. and_then (signed h (switch_members project op active reason)) (\<lambda>s. Inr (mac, s))))))"

definition controller_kill_switch :: "owner_host \<Rightarrow> string \<Rightarrow> string \<Rightarrow> bool \<Rightarrow> string \<Rightarrow> policy_file \<Rightarrow> int res \<times> policy_file" where
  "controller_kill_switch h project op active reason f = (case switch_request h project op active reason of
       Inl e \<Rightarrow> (Inl e, f)
     | Inr (mac, s) \<Rightarrow> (case mutation False (set_kill_switch (oh_hash h) (Some mac) project op active reason s None (oh_now h)) f of
         (r, u) \<Rightarrow> (store_result r, u)))"

end
