(* ===== verification/ControllerSafety.thy ===== *)
theory ControllerSafety
  imports PolicyController
begin

section \<open>What the owner's controller achieves\<close>

text \<open>
  A rolled back policy stays rolled back, whatever commands follow; the emergency stop works for reasons
  in ASCII and only for those; and what the controller activates is what the runtime accepts.
\<close>

subsection \<open>Histories of commands\<close>

datatype controller_op =
    Co_Prepare owner_host string
  | Co_Activate owner_host string string
  | Co_Refresh owner_host string string
  | Co_Rollback owner_host string string
  | Co_Bootstrap owner_host string
  | Co_Kill owner_host string string bool string

fun op_host :: "controller_op \<Rightarrow> owner_host" where
  "op_host (Co_Prepare h p) = h"
| "op_host (Co_Activate h p op) = h"
| "op_host (Co_Refresh h p op) = h"
| "op_host (Co_Rollback h p op) = h"
| "op_host (Co_Bootstrap h p) = h"
| "op_host (Co_Kill h p op active reason) = h"

fun controller_step :: "controller_op \<Rightarrow> policy_file \<Rightarrow> policy_file" where
  "controller_step (Co_Prepare h p) f = snd (controller_prepare h p f)"
| "controller_step (Co_Activate h p op) f = snd (controller_activate h p op f)"
| "controller_step (Co_Refresh h p op) f = snd (controller_refresh h p op f)"
| "controller_step (Co_Rollback h p op) f = snd (controller_rollback h p op f)"
| "controller_step (Co_Bootstrap h p) f = snd (controller_bootstrap h p f)"
| "controller_step (Co_Kill h p op active reason) f = snd (controller_kill_switch h p op active reason f)"

definition controller_run :: "controller_op list \<Rightarrow> policy_file \<Rightarrow> policy_file" where
  "controller_run ops f = fold controller_step ops f"

lemma mutation_preserves:
  "P (initialized f) \<Longrightarrow> (\<And>x u. body (initialized f) = Inr (x, u) \<Longrightarrow> P u) \<Longrightarrow> P (initialized (snd (mutation ro body f)))"
  by (cases "body (initialized f)") (auto simp: mutation_def initialized_def)

lemma snd_case_prod [simp]: "snd (case z of (r, u) \<Rightarrow> (h r, u)) = snd z"
  by (cases z) simp

lemma latest_candidate_store: "initialized (snd (latest_candidate p f)) = initialized f"
  "fst (latest_candidate p f) = Inr (latest_policy p adr_policy_id (initialized f))"
  by (simp_all add: latest_candidate_def read_latest_policy_def initialized_def)

text \<open>The only changes of the tables that a command can make\<close>

lemma prepare_requestD:
  "prepare_request h p cid (Inr c) = Inr (policy, True) \<Longrightarrow> c = None \<and> field ''project_id'' policy = Some (JStr p) \<and>
     field ''policy_id'' policy = Some (JStr adr_policy_id)"
  by (auto simp: prepare_request_def and_then_ok signed_def field_def policy_members_def split: option.splits)

lemma activate_requestD:
  "activate_request h p op (Inr c) = Inr (policy, a) \<Longrightarrow> c = Some policy \<and> field ''policy_hash'' a = Some (JStr (oh_hash h (dump policy)))"
  by (auto simp: activate_request_def and_then_ok Let_def signed_def field_def activation_members_def split: option.splits)

lemma prepare_step:
  assumes "P (initialized f)"
    and "\<And>policy x u. latest_policy p adr_policy_id (initialized f) = None \<Longrightarrow> field ''project_id'' policy = Some (JStr p) \<Longrightarrow>
      field ''policy_id'' policy = Some (JStr adr_policy_id) \<Longrightarrow>
      prepare_policy policy (oh_hash h (dump policy)) (oh_now h) (initialized f) = Inr (x, u) \<Longrightarrow> P u"
  shows "P (initialized (snd (controller_prepare h p f)))"
proof (cases "and_then (valid_project p) (\<lambda>_. oh_constitution h)")
  case cid: (Inr cid)
  let ?r = "prepare_request h p cid (Inr (latest_policy p adr_policy_id (initialized f)))"
  show ?thesis
  proof (cases "\<exists>policy. ?r = Inr (policy, True)")
    case True
    then obtain policy where r: "?r = Inr (policy, True)" by blast
    have "P (initialized (snd (mutation False (prepare_policy policy (oh_hash h (dump policy)) (oh_now h)) (snd (latest_candidate p f)))))"
    proof (rule mutation_preserves)
      show "P (initialized (snd (latest_candidate p f)))" using assms(1) by (simp only: latest_candidate_store)
      fix x u assume "prepare_policy policy (oh_hash h (dump policy)) (oh_now h) (initialized (snd (latest_candidate p f))) = Inr (x, u)"
      then have e: "prepare_policy policy (oh_hash h (dump policy)) (oh_now h) (initialized f) = Inr (x, u)"
        by (simp only: latest_candidate_store)
      note d = prepare_requestD [OF r]
      show "P u" by (rule assms(2) [OF _ _ _ e]) (rule d [THEN conjunct1] d [THEN conjunct2, THEN conjunct1] d [THEN conjunct2, THEN conjunct2])+
    qed
    then show ?thesis using cid r by (simp add: controller_prepare_def latest_candidate_store Let_def)
  next
    case False
    then have "snd (controller_prepare h p f) = snd (latest_candidate p f)"
      using cid by (auto simp: controller_prepare_def latest_candidate_store Let_def split: sum.splits)
    then show ?thesis using assms(1) by (simp add: latest_candidate_store)
  qed
qed (use assms(1) in \<open>simp add: controller_prepare_def\<close>)

lemma activate_step:
  assumes "P (initialized f)"
    and "\<And>policy a x u. latest_policy p adr_policy_id (initialized f) = Some policy \<Longrightarrow> field ''policy_hash'' a = Some (JStr (oh_hash h (dump policy))) \<Longrightarrow>
      activate_policy (\<lambda>_. None) p policy a None (oh_now h) (initialized f) = Inr (x, u) \<Longrightarrow> P u"
  shows "P (initialized (snd (controller_activate h p op f)))"
proof (cases "and_then (valid_project p) (\<lambda>_. valid_operation op ''invalid activation operation identity'')")
  case ok: (Inr v)
  let ?r = "activate_request h p op (Inr (latest_policy p adr_policy_id (initialized f)))"
  show ?thesis
  proof (cases ?r)
    case (Inl e)
    then show ?thesis using ok assms(1) by (simp add: controller_activate_def latest_candidate_store Let_def)
  next
    case (Inr pa)
    then obtain policy a where r: "?r = Inr (policy, a)" by (cases pa) auto
    have "P (initialized (snd (mutation False (activate_policy (\<lambda>_. None) p policy a None (oh_now h)) (snd (latest_candidate p f)))))"
    proof (rule mutation_preserves)
      show "P (initialized (snd (latest_candidate p f)))" using assms(1) by (simp only: latest_candidate_store)
      fix x u assume "activate_policy (\<lambda>_. None) p policy a None (oh_now h) (initialized (snd (latest_candidate p f))) = Inr (x, u)"
      then have e: "activate_policy (\<lambda>_. None) p policy a None (oh_now h) (initialized f) = Inr (x, u)"
        by (simp only: latest_candidate_store)
      note d = activate_requestD [OF r]
      show "P u" by (rule assms(2) [OF d [THEN conjunct1] d [THEN conjunct2] e])
    qed
    then show ?thesis using ok r by (simp add: controller_activate_def latest_candidate_store Let_def)
  qed
qed (use assms(1) in \<open>simp add: controller_activate_def\<close>)

lemma refresh_step:
  assumes "P (initialized f)"
    and "\<And>policy a expected ph x u. refresh_policy (\<lambda>_. None) p policy a expected ph (oh_now h) (initialized f) = Inr (x, u) \<Longrightarrow> P u"
  shows "P (initialized (snd (controller_refresh h p op f)))"
proof (cases "refresh_request h p op f")
  case (Inr r)
  obtain row policy ph a where r: "r = (row, policy, ph, a)" by (cases r)
  have "P (initialized (snd (mutation False (refresh_policy (\<lambda>_. None) p policy a (ac_generation row) ph (oh_now h)) f)))"
    by (rule mutation_preserves [where P = P]) (rule assms(1), rule assms(2))
  then show ?thesis using Inr r by (simp add: controller_refresh_def)
qed (use assms(1) in \<open>simp add: controller_refresh_def\<close>)

lemma rollback_step:
  assumes "P (initialized f)"
    and "\<And>s expected ph x u. rollback_policy (\<lambda>_. None) p s expected ph (oh_now h) (initialized f) = Inr (x, u) \<Longrightarrow> P u"
  shows "P (initialized (snd (controller_rollback h p op f)))"
proof (cases "rollback_request h p op f")
  case (Inr r)
  obtain row s where r: "r = (row, s)" by (cases r)
  have "P (initialized (snd (mutation False (rollback_policy (\<lambda>_. None) p s (Some (ac_generation row)) (ac_policy_hash row) (oh_now h)) f)))"
    by (rule mutation_preserves [where P = P]) (rule assms(1), rule assms(2))
  then show ?thesis using Inr r by (simp add: controller_rollback_def)
qed (use assms(1) in \<open>simp add: controller_rollback_def\<close>)

lemma bootstrap_step:
  assumes "P (initialized f)" and "\<And>g x u. bootstrap_authority p g (oh_now h) (initialized f) = Inr (x, u) \<Longrightarrow> P u"
  shows "P (initialized (snd (controller_bootstrap h p f)))"
proof (cases "bootstrap_request h p f")
  case (Inr g)
  have "P (initialized (snd (mutation False (bootstrap_authority p g (oh_now h)) f)))"
    by (rule mutation_preserves [where P = P]) (rule assms(1), rule assms(2))
  then show ?thesis using Inr by (simp add: controller_bootstrap_def)
qed (use assms(1) in \<open>simp add: controller_bootstrap_def\<close>)

lemma kill_step:
  assumes "P (initialized f)"
    and "\<And>mac s x u. set_kill_switch (oh_hash h) (Some mac) p op active reason s None (oh_now h) (initialized f) = Inr (x, u) \<Longrightarrow> P u"
  shows "P (initialized (snd (controller_kill_switch h p op active reason f)))"
proof (cases "switch_request h p op active reason")
  case (Inr r)
  obtain mac s where r: "r = (mac, s)" by (cases r)
  have "P (initialized (snd (mutation False (set_kill_switch (oh_hash h) (Some mac) p op active reason s None (oh_now h)) f)))"
    by (rule mutation_preserves [where P = P]) (rule assms(1), rule assms(2))
  then show ?thesis using Inr r by (simp add: controller_kill_switch_def)
qed (use assms(1) in \<open>simp add: controller_kill_switch_def\<close>)

text \<open>Every command at once: an invariant of the tables that the six changes keep\<close>

lemma controller_step_preserves:
  assumes "oh_hash (op_host op) = H" and "P (initialized f)"
    and "\<And>(h :: owner_host) p policy x u. oh_hash h = H \<Longrightarrow> latest_policy p adr_policy_id (initialized f) = None \<Longrightarrow> field ''project_id'' policy = Some (JStr p) \<Longrightarrow>
      field ''policy_id'' policy = Some (JStr adr_policy_id) \<Longrightarrow> prepare_policy policy (H (dump policy)) (oh_now h) (initialized f) = Inr (x, u) \<Longrightarrow> P u"
    and "\<And>p now policy a x u. latest_policy p adr_policy_id (initialized f) = Some policy \<Longrightarrow> field ''policy_hash'' a = Some (JStr (H (dump policy))) \<Longrightarrow>
      activate_policy (\<lambda>_. None) p policy a None now (initialized f) = Inr (x, u) \<Longrightarrow> P u"
    and "\<And>p now policy a expected ph x u. refresh_policy (\<lambda>_. None) p policy a expected ph now (initialized f) = Inr (x, u) \<Longrightarrow> P u"
    and "\<And>p now s expected ph x u. rollback_policy (\<lambda>_. None) p s expected ph now (initialized f) = Inr (x, u) \<Longrightarrow> P u"
    and "\<And>p now g x u. bootstrap_authority p g now (initialized f) = Inr (x, u) \<Longrightarrow> P u"
    and "\<And>p oid now active reason mac s x u. set_kill_switch H (Some mac) p oid active reason s None now (initialized f) = Inr (x, u) \<Longrightarrow> P u"
  shows "P (initialized (controller_step op f))"
proof (cases op)
  case (Co_Prepare h p)
  with assms(1) have H: "oh_hash h = H" by simp
  show ?thesis unfolding Co_Prepare controller_step.simps
    by (rule prepare_step [of P, OF assms(2)], rule assms(3) [OF H], assumption+, simp only: H)
next
  case (Co_Activate h p oid)
  with assms(1) have H: "oh_hash h = H" by simp
  show ?thesis unfolding Co_Activate controller_step.simps
    by (rule activate_step [of P, OF assms(2)], rule assms(4), assumption, simp only: H, assumption)
next
  case (Co_Refresh h p oid)
  show ?thesis unfolding Co_Refresh controller_step.simps by (rule refresh_step [of P, OF assms(2)]) (rule assms(5))
next
  case (Co_Rollback h p oid)
  show ?thesis unfolding Co_Rollback controller_step.simps by (rule rollback_step [of P, OF assms(2)]) (rule assms(6))
next
  case (Co_Bootstrap h p)
  show ?thesis unfolding Co_Bootstrap controller_step.simps by (rule bootstrap_step [of P, OF assms(2)]) (rule assms(7))
next
  case (Co_Kill h p oid active reason)
  with assms(1) have H: "oh_hash h = H" by simp
  show ?thesis unfolding Co_Kill controller_step.simps by (rule kill_step [of P, OF assms(2)], rule assms(8), simp only: H)
qed

lemma controller_run_preserves:
  assumes "\<And>op f. oh_hash (op_host op) = H \<Longrightarrow> P (initialized f) \<Longrightarrow> P (initialized (controller_step op f))"
  shows "list_all (\<lambda>op. oh_hash (op_host op) = H) ops \<Longrightarrow> P (initialized f) \<Longrightarrow> P (initialized (controller_run ops f))"
  unfolding controller_run_def by (induction ops arbitrary: f) (simp_all add: assms)

subsection \<open>The tables that the changes leave alone\<close>

lemma switch_tables:
  "set_kill_switch H mac p oid active reason auth expected now t = Inr (x, u) \<Longrightarrow>
     pt_policies u = pt_policies t \<and> pt_rollbacks u = pt_rollbacks t \<and> pt_active u = pt_active t"
  by (auto simp: set_kill_switch_def and_then_ok Let_def dest!: insert_other_tables(1) split: option.splits if_splits)

lemma bootstrap_tables:
  "bootstrap_authority p g now t = Inr (x, u) \<Longrightarrow> pt_policies u = pt_policies t \<and> pt_rollbacks u = pt_rollbacks t \<and> pt_active u = pt_active t"
  by (auto simp: bootstrap_authority_def split: option.splits)

lemma prepare_tables:
  assumes "prepare_policy policy h now t = Inr (x, u)" and "field ''project_id'' policy = Some (JStr p)" and "field ''policy_id'' policy = Some (JStr i)"
  obtains r where "pr_project_id r = p" "pr_policy_id r = i" "pr_policy_hash r = h" "pr_artifact r = policy"
    "u = t \<or> u = t\<lparr>pt_policies := pt_policies t @ [r]\<rparr>"
proof -
  from assms(1) obtain r where r: "policy_row_of policy h now = Inr r" and u: "u = t \<or> u = t\<lparr>pt_policies := pt_policies t @ [r]\<rparr>"
    by (auto simp: prepare_policy_def and_then_ok)
  have "pr_project_id r = p \<and> pr_policy_id r = i \<and> pr_policy_hash r = h \<and> pr_artifact r = policy"
    using r assms(2,3) by (auto simp: policy_row_of_def and_then_ok text_item_def item_def bound_text_def split: if_splits)
  then show thesis using that u by blast
qed

lemma latest_row_mem: "latest_row rs = Some r \<Longrightarrow> r \<in> set rs"
  by (auto simp: latest_row_def find_Some_iff)

lemma latest_row_none: "latest_row rs = None \<longleftrightarrow> rs = []"
proof
  assume n: "latest_row rs = None"
  show "rs = []"
  proof (rule ccontr)
    assume "rs \<noteq> []"
    then obtain m where "m \<in> pr_created_at ` set rs" "\<forall>x \<in> pr_created_at ` set rs. x \<le> m"
      by (metis List.finite_set Max_ge Max_in finite_imageI image_is_empty set_empty)
    then show False using n by (auto simp: latest_row_def find_None_iff list_all_iff)
  qed
qed (simp add: latest_row_def)

lemma latest_policy_none: "latest_policy p i t = None \<longleftrightarrow> (\<forall>r\<in>set (pt_policies t). \<not> (pr_project_id r = p \<and> pr_policy_id r = i))"
  by (auto simp: latest_policy_def latest_row_none filter_empty_conv)

lemma latest_policy_some:
  "latest_policy p i t = Some policy \<Longrightarrow> \<exists>r\<in>set (pt_policies t). pr_project_id r = p \<and> pr_policy_id r = i \<and> pr_artifact r = policy"
  by (auto simp: latest_policy_def dest!: latest_row_mem)

lemma activate_not_superseded:
  "activate_policy hook p policy a expected now t = Inr (x, u) \<Longrightarrow> field ''policy_hash'' a = Some (JStr h) \<Longrightarrow> \<not> was_rolled_back p (JStr h) t"
  by (auto simp: activate_policy_def Let_def and_then_ok text_item_def item_def bound_text_def raise_def split: if_splits)

subsection \<open>One policy per project\<close>

definition tidy :: "(string \<Rightarrow> string) \<Rightarrow> policy_tables \<Rightarrow> bool" where
  "tidy H t = (list_all (\<lambda>r. pr_policy_id r = adr_policy_id \<and> pr_policy_hash r = H (dump (pr_artifact r))) (pt_policies t) \<and>
     distinct (map pr_project_id (pt_policies t)))"

lemma tidy_cong: "pt_policies u = pt_policies t \<Longrightarrow> tidy H t \<Longrightarrow> tidy H u"
  by (simp add: tidy_def)

lemma tidy_step:
  assumes "oh_hash (op_host op) = H" and "tidy H (initialized f)"
  shows "tidy H (initialized (controller_step op f))"
proof (rule controller_step_preserves [where P = "tidy H", OF assms])
  fix h p policy x u
  assume n: "latest_policy p adr_policy_id (initialized f) = None"
    and i: "field ''project_id'' policy = Some (JStr p)" "field ''policy_id'' policy = Some (JStr adr_policy_id)"
    and e: "prepare_policy policy (H (dump policy)) (oh_now h) (initialized f) = Inr (x, u)"
  obtain r where r: "pr_project_id r = p" "pr_policy_id r = adr_policy_id" "pr_policy_hash r = H (dump policy)" "pr_artifact r = policy"
    and u: "u = initialized f \<or> u = (initialized f)\<lparr>pt_policies := pt_policies (initialized f) @ [r]\<rparr>"
    using prepare_tables [OF e i] by blast
  have "p \<notin> pr_project_id ` set (pt_policies (initialized f))"
    using n assms(2) unfolding tidy_def latest_policy_none list_all_iff by blast
  then show "tidy H u" using assms(2) r u by (elim disjE) (simp_all add: tidy_def)
next
  fix p now policy a x u
  assume "activate_policy (\<lambda>_. None) p policy a None now (initialized f) = Inr (x, u)"
  then show "tidy H u" by (elim activate_tables) (rule tidy_cong [OF _ assms(2)]; simp)
next
  fix p now policy a expected ph x u
  assume "refresh_policy (\<lambda>_. None) p policy a expected ph now (initialized f) = Inr (x, u)"
  then show "tidy H u" by (elim refresh_tables) (rule tidy_cong [OF _ assms(2)]; simp)
next
  fix p now s expected ph x u
  assume "rollback_policy (\<lambda>_. None) p s expected ph now (initialized f) = Inr (x, u)"
  then show "tidy H u" by (elim rollback_tables) (rule tidy_cong [OF _ assms(2)]; simp)
next
  fix p g now x u
  assume "bootstrap_authority p g now (initialized f) = Inr (x, u)"
  then show "tidy H u" using tidy_cong [OF _ assms(2)] bootstrap_tables by blast
next
  fix p oid now active reason mac s x u
  assume "set_kill_switch H (Some mac) p oid active reason s None now (initialized f) = Inr (x, u)"
  then show "tidy H u" using tidy_cong [OF _ assms(2)] switch_tables by blast
qed

subsection \<open>A rolled back policy\<close>

lemma find_member: "find Q xs = Some x \<Longrightarrow> x \<in> set xs \<and> Q x"
  by (auto simp: find_Some_iff)

definition retired :: "(string \<Rightarrow> string) \<Rightarrow> string \<Rightarrow> string \<Rightarrow> policy_tables \<Rightarrow> bool" where
  "retired H p ph t = (list_ex (\<lambda>r. pr_project_id r = p \<and> pr_policy_id r = adr_policy_id) (pt_policies t) \<and>
     list_all (\<lambda>r. pr_project_id r = p \<longrightarrow> H (dump (pr_artifact r)) = ph) (pt_policies t) \<and> was_rolled_back p (JStr ph) t \<and>
     Option.bind (map_of (pt_active t) p) ac_policy_hash = None)"

lemma retired_cong:
  "retired H p ph t \<Longrightarrow> pt_policies u = pt_policies t \<Longrightarrow> was_rolled_back p (JStr ph) t \<longrightarrow> was_rolled_back p (JStr ph) u \<Longrightarrow>
     Option.bind (map_of (pt_active u) p) ac_policy_hash = Option.bind (map_of (pt_active t) p) ac_policy_hash \<Longrightarrow> retired H p ph u"
  by (simp add: retired_def)

lemma rolled_back_mono: "set (pt_rollbacks t) \<subseteq> set (pt_rollbacks u) \<Longrightarrow> was_rolled_back p h t \<longrightarrow> was_rolled_back p h u"
  by (auto simp: was_rolled_back_def list_ex_iff)

lemma retired_step:
  assumes "oh_hash (op_host op) = H" and "retired H p ph (initialized f)"
  shows "retired H p ph (initialized (controller_step op f))"
proof (rule controller_step_preserves [where P = "retired H p ph", OF assms])
  note keep = retired_cong [OF assms(2)]
  have none: "Option.bind (map_of (pt_active (initialized f)) p) ac_policy_hash = None" using assms(2) by (simp add: retired_def)
  fix h q policy x u
  assume n: "latest_policy q adr_policy_id (initialized f) = None"
    and i: "field ''project_id'' policy = Some (JStr q)" "field ''policy_id'' policy = Some (JStr adr_policy_id)"
    and e: "prepare_policy policy (H (dump policy)) (oh_now h) (initialized f) = Inr (x, u)"
  obtain r where r: "pr_project_id r = q" and u: "u = initialized f \<or> u = (initialized f)\<lparr>pt_policies := pt_policies (initialized f) @ [r]\<rparr>"
    using prepare_tables [OF e i] by blast
  have "q \<noteq> p" using n assms(2) by (auto simp: retired_def latest_policy_none list_ex_iff)
  then show "retired H p ph u" using assms(2) r u by (auto simp: retired_def was_rolled_back_def)
next
  note keep = retired_cong [OF assms(2)]
  fix q now policy a x u
  assume l: "latest_policy q adr_policy_id (initialized f) = Some policy" and a: "field ''policy_hash'' a = Some (JStr (H (dump policy)))"
    and e: "activate_policy (\<lambda>_. None) q policy a None now (initialized f) = Inr (x, u)"
  have "H (dump policy) = ph" if "q = p"
    using latest_policy_some [OF l] assms(2) that by (auto simp: retired_def list_all_iff)
  moreover have "was_rolled_back p (JStr ph) (initialized f)" using assms(2) by (simp add: retired_def)
  ultimately have "q \<noteq> p" using activate_not_superseded [OF e a] by blast
  then show "retired H p ph u" using e by (elim activate_tables) (rule keep; simp add: was_rolled_back_def update_conv)
next
  note keep = retired_cong [OF assms(2)]
  fix q now policy a expected h x u
  assume e: "refresh_policy (\<lambda>_. None) q policy a expected h now (initialized f) = Inr (x, u)"
  then have "q \<noteq> p" using assms(2) by (elim refresh_tables) (auto simp: retired_def)
  then show "retired H p ph u" using e by (elim refresh_tables) (rule keep; simp add: was_rolled_back_def update_conv)
next
  note keep = retired_cong [OF assms(2)]
  fix q now s expected h x u
  assume e: "rollback_policy (\<lambda>_. None) q s expected h now (initialized f) = Inr (x, u)"
  then have "q \<noteq> p" using assms(2) by (elim rollback_tables) (auto simp: retired_def)
  then show "retired H p ph u" using e by (elim rollback_tables) (rule keep; simp add: was_rolled_back_def update_conv)
next
  note keep = retired_cong [OF assms(2)]
  fix q g now x u
  assume "bootstrap_authority q g now (initialized f) = Inr (x, u)"
  from bootstrap_tables [OF this] show "retired H p ph u" by (intro keep rolled_back_mono) simp_all
next
  note keep = retired_cong [OF assms(2)]
  fix q oid now active reason mac s x u
  assume "set_kill_switch H (Some mac) q oid active reason s None now (initialized f) = Inr (x, u)"
  from switch_tables [OF this] show "retired H p ph u" by (intro keep rolled_back_mono) simp_all
qed

lemma retired_not_accepted:
  assumes "retired H p ph (initialized f)"
  shows "\<exists>e. resolve_legacy H key cid clk now p f = Inl e"
proof -
  have n: "Option.bind (map_of (pt_active (initialized f)) p) ac_policy_hash = None" using assms by (simp add: retired_def)
  have "fst (read_snapshot True p f) \<noteq> Inr (View_Active row policy activation)" for row policy activation
    using n by (cases f) (auto simp: read_snapshot_def connection_def snapshot_def initialized_def raise_def split: option.splits)
  then show ?thesis
    by (cases "fst (read_snapshot True p f)")
      (auto simp: resolve_legacy_def and_then_def raise_def replace_exc_def split: sum.splits policy_view.splits exc.splits)
qed

lemma rollback_retires:
  assumes "controller_rollback h p op f = (Inr g, f')" and "tidy (oh_hash h) (initialized f)"
  shows "\<exists>ph. retired (oh_hash h) p ph (initialized f')"
proof -
  obtain row s where rq: "rollback_request h p op f = Inr (row, s)"
    using assms(1) by (auto simp: controller_rollback_def split: sum.splits)
  obtain policy activation where "read_active None ''no active policy to rollback'' p f = Inr (row, policy, activation)"
    and sf: "field ''superseded_policy_hash'' s = Some (enc_opt (ac_policy_hash row))"
    using rq by (auto simp: rollback_request_def and_then_ok Let_def signed_def field_def)
  then have "fst (read_snapshot True p f) = Inr (View_Active row policy activation)"
    by (auto simp: read_active_def raise_def split: sum.splits exc.splits policy_view.splits if_splits)
  then obtain ph pol where t: "map_of (pt_active (initialized f)) p = Some row" "ac_policy_hash row = Some ph"
    and pol: "pol \<in> set (pt_policies (initialized f))" "pr_project_id pol = p" "pr_policy_hash pol = ph"
    by (cases f) (auto simp: read_snapshot_def connection_def snapshot_def initialized_def raise_def split: option.splits dest!: find_member)
  have "rollback_policy (\<lambda>_. None) p s (Some (ac_generation row)) (ac_policy_hash row) (oh_now h) (initialized f) = Inr (g, initialized f')"
    using assms(1) rq
    by (auto simp: controller_rollback_def mutation_def store_result_def rethrow_def initialized_def raise_def split: sum.splits exc.splits if_splits)
  then obtain oid r jr old k where u: "initialized f' = (initialized f)\<lparr>pt_rollbacks := pt_rollbacks (initialized f) @ [r],
      pt_journal := (oid, jr) # pt_journal (initialized f),
      pt_active := dict_set p \<lparr>ac_policy_id = None, ac_policy_hash = None, ac_activation_id = None, ac_generation = k\<rparr> (pt_active (initialized f))\<rparr>"
    and r: "rb_project_id r = p" "Some (rb_superseded_policy_hash r) = Option.bind (field ''superseded_policy_hash'' s) the_str"
    by (elim rollback_tables) blast
  have ph: "rb_superseded_policy_hash r = ph" using r(2) sf t(2) by (simp add: enc_opt_def)
  have i: "pr_policy_id pol = adr_policy_id" "oh_hash h (dump (pr_artifact pol)) = ph" using pol assms(2) by (auto simp: tidy_def list_all_iff)
  have inj: "inj_on pr_project_id (set (pt_policies (initialized f)))" using assms(2) by (simp add: tidy_def distinct_map)
  have one: "q = pol" if "q \<in> set (pt_policies (initialized f))" "pr_project_id q = p" for q
    by (rule inj_onD [OF inj _ that(1) pol(1)]) (simp add: that(2) pol(2))
  have "list_ex (\<lambda>r. pr_project_id r = p \<and> pr_policy_id r = adr_policy_id) (pt_policies (initialized f))"
    unfolding list_ex_iff using pol i(1) by blast
  moreover have "list_all (\<lambda>r. pr_project_id r = p \<longrightarrow> oh_hash h (dump (pr_artifact r)) = ph) (pt_policies (initialized f))"
    unfolding list_all_iff using one i(2) by blast
  ultimately have "retired (oh_hash h) p ph (initialized f')" using r(1) ph unfolding retired_def u by (simp add: was_rolled_back_def update_conv)
  then show ?thesis by blast
qed

lemma retired_not_activated:
  assumes "retired (oh_hash h) p ph (initialized f)"
  shows "\<exists>e. fst (controller_activate h p op f) = Inl e"
proof (rule ccontr)
  assume "\<nexists>e. fst (controller_activate h p op f) = Inl e"
  then obtain g f' where ok: "controller_activate h p op f = (Inr g, f')" by (metis prod.collapse sum.exhaust)
  then obtain policy a where rq: "activate_request h p op (Inr (latest_policy p adr_policy_id (initialized f))) = Inr (policy, a)"
    and m: "mutation False (activate_policy (\<lambda>_. None) p policy a None (oh_now h)) (snd (latest_candidate p f)) = (Inr g, f')"
    by (auto simp: controller_activate_def Let_def latest_candidate_store store_result_def rethrow_def raise_def split: sum.splits prod.splits exc.splits if_splits)
  note l = activate_requestD [OF rq]
  have "activate_policy (\<lambda>_. None) p policy a None (oh_now h) (initialized (snd (latest_candidate p f))) = Inr (g, initialized f')"
    using m by (auto simp: mutation_def initialized_def split: sum.splits)
  then have "activate_policy (\<lambda>_. None) p policy a None (oh_now h) (initialized f) = Inr (g, initialized f')"
    by (simp only: latest_candidate_store)
  from activate_not_superseded [OF this] l have "\<not> was_rolled_back p (JStr (oh_hash h (dump policy))) (initialized f)" by blast
  moreover have "oh_hash h (dump policy) = ph" using latest_policy_some [OF l [THEN conjunct1]] assms by (auto simp: retired_def list_all_iff)
  ultimately show False using assms by (simp add: retired_def)
qed


subsection \<open>The emergency stop\<close>

definition plain_ascii :: "string \<Rightarrow> bool" where
  "plain_ascii s = list_all (\<lambda>c. (of_char c :: nat) < 127) s"

lemma escape_char_single: "127 \<le> (of_char c :: nat) \<Longrightarrow> escape_char c = [c]"
  by (simp add: escape_char_def Let_def)

lemma escape_ascii_length: "length (escape_char c) \<le> length (escape_ascii c)"
  by (cases "127 \<le> (of_char c :: nat)") (simp_all add: escape_ascii_def escape_char_single Let_def)

lemma escapes_length: "length (concat (map escape_char s)) \<le> length (concat (map escape_ascii s))"
  using escape_ascii_length by (induction s) (auto intro: add_mono)

lemma escape_ascii_longer: "127 \<le> (of_char c :: nat) \<Longrightarrow> length (escape_char c) < length (escape_ascii c)"
  by (simp add: escape_ascii_def escape_char_single Let_def)

lemma escape_ascii_same: "(of_char c :: nat) < 127 \<Longrightarrow> escape_ascii c = escape_char c"
  by (simp add: escape_ascii_def Let_def)

lemma dump_str_ascii_iff: "dump_str_ascii s = dump_str s \<longleftrightarrow> plain_ascii s"
proof -
  have "concat (map escape_ascii s) = concat (map escape_char s) \<longleftrightarrow> plain_ascii s"
  proof (induction s)
    case (Cons c s)
    show ?case
    proof (cases "(of_char c :: nat) < 127")
      case True
      then show ?thesis using Cons.IH by (simp add: escape_ascii_same plain_ascii_def)
    next
      case False
      then have "length (concat (map escape_char (c # s))) < length (concat (map escape_ascii (c # s)))"
        using escapes_length [of s] escape_ascii_longer [of c] by simp
      then show ?thesis using False by (metis less_irrefl list.pred_inject(2) plain_ascii_def)
    qed
  qed (simp add: plain_ascii_def)
  then show ?thesis by (simp add: dump_str_ascii_def dump_str_def)
qed

lemma alnum_ascii: "is_lower_alnum c \<Longrightarrow> (of_char c :: nat) < 127" "is_hex c \<Longrightarrow> (of_char c :: nat) < 127"
  by (auto simp: is_lower_alnum_def is_hex_def is_digit_def Let_def)

lemma plain_append: "plain_ascii (s @ t) \<longleftrightarrow> plain_ascii s \<and> plain_ascii t"
  by (simp add: plain_ascii_def)

lemma operation_plain: "operation_id_ok op \<Longrightarrow> plain_ascii op"
proof -
  assume op: "operation_id_ok op"
  then obtain t where t: "op = ''operation-'' @ t" by (auto simp: operation_id_ok_def starts_with_iff)
  with op have "list_all (\<lambda>x. is_lower_alnum x \<or> x = CHR ''-'') t" by (auto simp: operation_id_ok_def split: list.splits)
  then have "plain_ascii t" unfolding plain_ascii_def list_all_iff using alnum_ascii(1) by fastforce
  then show ?thesis by (simp add: t plain_append) (simp add: plain_ascii_def)
qed

lemma project_plain: "project_id_text p \<Longrightarrow> plain_ascii p"
proof -
  assume p: "project_id_text p"
  then obtain t where t: "p = ''project-'' @ t" by (auto simp: project_id_text_def starts_with_iff)
  with p have "plain_ascii t" unfolding plain_ascii_def list_all_iff using alnum_ascii(2) by (auto simp: project_id_text_def list_all_iff)
  then show ?thesis by (simp add: t plain_append) (simp add: plain_ascii_def)
qed

lemma switch_text_iff:
  assumes "project_id_text p" "operation_id_ok op"
  shows "dump_ascii (JObj (switch_members p op active reason)) = dump (JObj (switch_members p op active reason)) \<longleftrightarrow> plain_ascii reason"
proof -
  have e: "dump_str_ascii p = dump_str p" "dump_str_ascii op = dump_str op" "dump_str_ascii owner_key_id = dump_str owner_key_id"
    using assms project_plain operation_plain by (simp_all add: dump_str_ascii_iff) (simp add: plain_ascii_def owner_key_id_def)
  have k: "dump_str_ascii k = dump_str k" if "k \<in> set [''project_id'', ''operation_id'', ''active'', ''reason'', ''key_id'']" for k
    using that by (auto simp: dump_str_ascii_iff plain_ascii_def)
  have o: "sort_key fst [(''project_id'', a), (''operation_id'', b), (''active'', c), (''reason'', d), (''key_id'', e)] =
    [(''active'', c), (''key_id'', e), (''operation_id'', b), (''project_id'', a), (''reason'', d)]" for a b c d e :: string
    by (simp add: less_char_def less_eq_char_def)
  show ?thesis by (simp add: switch_members_def o k e dump_str_ascii_iff [symmetric] del: sort_key_simps)
qed

lemma filter_signature: "without_signature (JObj (switch_members p op active reason @ [(''signature'', s)])) = JObj (switch_members p op active reason)"
  by (simp add: without_signature_def switch_members_def)

text \<open>C24. The emergency stop works only for reasons of plain characters: for a project with an authority, a
  fresh operation, and the owner's key and constitution at hand, the command sets the switch if every
  character of the reason is below 127, and otherwise always fails and leaves the tables as they are,
  because the controller signs one text of the authorization and the store verifies another.
\<close>

theorem emergency_stop_ascii:
  fixes h :: owner_host
  assumes "project_id_text p" "operation_id_ok op" "oh_constitution h = Inr cid" "oh_key h = Inr mac"
    and "map_of (pt_authority (initialized f)) p = Some row" "map_of (pt_journal (initialized f)) op = None"
    and "dump (JObj (switch_members p op active reason)) \<noteq> dump_ascii (JObj (switch_members p op active reason)) \<Longrightarrow>
      mac (dump (JObj (switch_members p op active reason))) \<noteq> mac (dump_ascii (JObj (switch_members p op active reason)))"
  shows "if plain_ascii reason
    then fst (controller_kill_switch h p op active reason f) = Inr (au_generation row + 1) \<and>
      map_option au_kill_switch_active (map_of (pt_authority (initialized (snd (controller_kill_switch h p op active reason f)))) p) = Some active
    else controller_kill_switch h p op active reason f =
      (raise OwnerControllerError ''owner authorization is invalid'', Store (initialized f))"
proof -
  let ?m = "switch_members p op active reason"
  let ?s = "JObj (?m @ [(''signature'', JStr (mac (dump (JObj ?m))))])"
  have rq: "switch_request h p op active reason = Inr (mac, ?s)"
    using assms(1-4) by (simp add: switch_request_def valid_project_def valid_operation_def signed_def raise_if_def del: dump.simps)
  have u: "check_unused op (initialized f) = Inr ()" using assms(6) by (simp add: check_unused_def)
  have v: "verify_owner_operation (Some mac) ?s p op active reason =
      raise_if (mac (dump (JObj ?m)) \<noteq> mac (dump_ascii (JObj ?m))) PolicyStateError ''owner authorization is invalid''"
    unfolding verify_owner_operation_def filter_signature
    by (auto simp: has_keys_def authorization_keys_def field_def switch_members_def owner_key_id_def)
  note sw = switch_text_iff [OF assms(1,2), of active reason]
  show ?thesis
  proof (cases "plain_ascii reason")
    case True
    then have "verify_owner_operation (Some mac) ?s p op active reason = Inr ()" using sw v by simp
    then show ?thesis using True rq u assms(5,6)
      by (simp add: controller_kill_switch_def mutation_def set_kill_switch_def Let_def insert_journal_def store_result_def rethrow_def
          initialized_def update_conv del: dump.simps dump_ascii.simps)
  next
    case False
    then have "mac (dump (JObj ?m)) \<noteq> mac (dump_ascii (JObj ?m))" using sw assms(7) by metis
    then show ?thesis using False rq u v
      by (simp add: controller_kill_switch_def mutation_def set_kill_switch_def store_result_def rethrow_def raise_def raise_if_def del: dump.simps dump_ascii.simps)
  qed
qed

end
