(* ===== verification/ControllerAccept.thy ===== *)
theory ControllerAccept
  imports ControllerSafety
begin

section \<open>What the controller activates is what the runtime accepts\<close>

text \<open>
  The activation that the controller writes passes every test of the runtime, for as long as the policy is
  fresh; and runs of the controller on which the properties of this theory and of ControllerSafety apply.
\<close>

subsection \<open>Positive generations\<close>

definition positive :: "policy_tables \<Rightarrow> bool" where
  "positive t \<longleftrightarrow> (\<forall>p row. map_of (pt_active t) p = Some row \<longrightarrow> 1 \<le> ac_generation row)"

lemma positive_cong: "pt_active u = pt_active t \<Longrightarrow> positive t \<Longrightarrow> positive u"
  by (simp add: positive_def)

lemma positive_set: "positive t \<Longrightarrow> 1 \<le> ac_generation row \<Longrightarrow> pt_active u = dict_set p row (pt_active t) \<Longrightarrow> positive u"
  by (auto simp: positive_def update_conv)

lemma positive_step:
  assumes "oh_hash (op_host op) = H" and "positive (initialized f)"
  shows "positive (initialized (controller_step op f))"
proof (rule controller_step_preserves [where P = positive, OF assms])
  fix h p policy x u
  assume "field ''project_id'' policy = Some (JStr p)" "field ''policy_id'' policy = Some (JStr adr_policy_id)"
    "prepare_policy policy (H (dump policy)) (oh_now h) (initialized f) = Inr (x, u)"
  then show "positive u" using positive_cong [OF _ assms(2), of u] by (auto simp: prepare_policy_def and_then_ok split: if_splits)
next
  fix p now policy a x u
  assume "activate_policy (\<lambda>_. None) p policy a None now (initialized f) = Inr (x, u)"
  then show "positive u"
  proof (elim activate_tables)
    fix op' h i r and g :: int and row ai
    assume u: "u = (initialized f)\<lparr>pt_journal := (op', row) # pt_journal (initialized f), pt_activations := pt_activations (initialized f) @ [r],
        pt_active := dict_set p \<lparr>ac_policy_id = Some ai, ac_policy_hash = Some h, ac_activation_id = Some op', ac_generation = g\<rparr> (pt_active (initialized f))\<rparr>"
      and g: "g = (case map_of (pt_active (initialized f)) p of None \<Rightarrow> 0 | Some r \<Rightarrow> ac_generation r) + 1"
    have "1 \<le> g" using assms(2) by (cases "map_of (pt_active (initialized f)) p") (auto simp: g positive_def intro: order_trans [OF zero_le_one])
    then show ?thesis by (intro positive_set [OF assms(2)]) (simp_all add: u)
  qed
next
  fix p now policy a expected ph x u
  assume "refresh_policy (\<lambda>_. None) p policy a expected ph now (initialized f) = Inr (x, u)"
  then show "positive u"
  proof (elim refresh_tables)
    fix op' r row old
    assume u: "u = (initialized f)\<lparr>pt_journal := (op', row) # pt_journal (initialized f), pt_activations := pt_activations (initialized f) @ [r],
        pt_active := dict_set p (old\<lparr>ac_activation_id := Some op', ac_generation := ac_generation old + 1\<rparr>) (pt_active (initialized f))\<rparr>"
      and o: "map_of (pt_active (initialized f)) p = Some old"
    have "1 \<le> ac_generation old" using assms(2) o by (auto simp: positive_def)
    then show ?thesis by (intro positive_set [OF assms(2)]) (simp_all add: u)
  qed
next
  fix p now s expected ph x u
  assume "rollback_policy (\<lambda>_. None) p s expected ph now (initialized f) = Inr (x, u)"
  then show "positive u"
  proof (elim rollback_tables)
    fix op' r row old and g :: int
    assume u: "u = (initialized f)\<lparr>pt_rollbacks := pt_rollbacks (initialized f) @ [r], pt_journal := (op', row) # pt_journal (initialized f),
        pt_active := dict_set p \<lparr>ac_policy_id = None, ac_policy_hash = None, ac_activation_id = None, ac_generation = g\<rparr> (pt_active (initialized f))\<rparr>"
      and g: "g = ac_generation old + 1" and o: "map_of (pt_active (initialized f)) p = Some old"
    have "1 \<le> ac_generation old" using assms(2) o by (auto simp: positive_def)
    then show ?thesis by (intro positive_set [OF assms(2)]) (simp_all add: u g)
  qed
next
  fix p g now x u
  assume "bootstrap_authority p g now (initialized f) = Inr (x, u)"
  then show "positive u" using positive_cong [OF _ assms(2)] bootstrap_tables by blast
next
  fix p oid now active reason mac s x u
  assume "set_kill_switch H (Some mac) p oid active reason s None now (initialized f) = Inr (x, u)"
  then show "positive u" using positive_cong [OF _ assms(2)] switch_tables by blast
qed

subsection \<open>The tables after an activation\<close>

lemma find_last: "\<forall>x\<in>set xs. \<not> Q x \<Longrightarrow> Q y \<Longrightarrow> find Q (xs @ [y]) = Some y"
  by (induction xs) auto

lemma text_item_of: "field k v = Some (JStr s) \<Longrightarrow> text_item k v = Inr s"
  by (cases v) (simp_all add: text_item_def item_def bound_text_def field_def is_dict_def)

lemma activated_snapshot:
  assumes "activate_policy (\<lambda>_. None) p policy a None now t = Inr (g, u)" and "tidy H t" and "positive t"
    and "latest_policy p adr_policy_id t = Some policy" and "field ''policy_hash'' a = Some (JStr (H (dump policy)))"
    and "field ''policy_id'' a = Some (JStr i)" and "field ''policy_id'' policy = Some (JStr i)"
  obtains row where "snapshot p u = Inr (View_Active row policy a)" "ac_policy_id row = Some i" "ac_policy_hash row = Some (H (dump policy))"
    "1 \<le> ac_generation row"
proof -
  let ?h = "H (dump policy)"
  have tx: "text_item ''policy_hash'' a = Inr ?h" "text_item ''policy_id'' a = Inr i" "text_item ''policy_id'' policy = Inr i"
    by (rule text_item_of, rule assms)+
  let ?g = "(case map_of (pt_active t) p of None \<Rightarrow> 0 | Some r \<Rightarrow> ac_generation r) + 1"
  obtain op where op: "text_item ''operation_id'' a = Inr op" using assms(1) by (auto simp: activate_policy_def and_then_ok)
  have cu: "check_unused op t = Inr ()" using assms(1) op by (auto simp: activate_policy_def and_then_ok)
  have "and_then (record_activation (\<lambda>_. None) J_activate p op ?h a ?g now t) (\<lambda>u. Inr (?g, u\<lparr>pt_active := dict_set p
      \<lparr>ac_policy_id = Some i, ac_policy_hash = Some ?h, ac_activation_id = Some op, ac_generation = ?g\<rparr> (pt_active u)\<rparr>)) = Inr (g, u)"
    using assms(1) tx op cu unfolding activate_policy_def Let_def at_point_def option.case
    by (auto simp: raise_def simp del: dump.simps split: if_split_asm)
  then obtain w where w: "record_activation (\<lambda>_. None) J_activate p op ?h a ?g now t = Inr w"
    and u: "u = w\<lparr>pt_active := dict_set p \<lparr>ac_policy_id = Some i, ac_policy_hash = Some ?h, ac_activation_id = Some op,
        ac_generation = ?g\<rparr> (pt_active w)\<rparr>"
    by (auto simp: and_then_ok)
  have "\<exists>r. ar_operation_id r = op \<and> ar_record r = a \<and> op \<notin> ar_operation_id ` set (pt_activations t) \<and>
    pt_activations w = pt_activations t @ [r] \<and> pt_policies w = pt_policies t \<and> pt_active w = pt_active t"
    using w by (auto simp: record_activation_def and_then_ok insert_journal_def insert_activation_def activation_row_of_def raise_def split: if_splits)
  then obtain r where r: "ar_operation_id r = op" "ar_record r = a" "op \<notin> ar_operation_id ` set (pt_activations t)"
    "pt_activations w = pt_activations t @ [r]" "pt_policies w = pt_policies t" "pt_active w = pt_active t" by blast
  have "find (\<lambda>r. Some (ar_operation_id r) = Some op) (pt_activations u) = Some r"
    unfolding u using r(1,3,4) by (auto intro!: find_last) (metis imageI)
  moreover have "\<exists>q. find (\<lambda>r. pr_project_id r = p \<and> pr_policy_hash r = ?h) (pt_policies u) = Some q \<and> pr_artifact q = policy"
  proof -
    obtain q where q: "q \<in> set (pt_policies t)" "pr_project_id q = p" "pr_artifact q = policy" using latest_policy_some [OF assms(4)] by blast
    then have "pr_policy_hash q = ?h" using assms(2) by (auto simp: tidy_def list_all_iff)
    then obtain q' where q': "find (\<lambda>r. pr_project_id r = p \<and> pr_policy_hash r = ?h) (pt_policies t) = Some q'"
      using q by (cases "find (\<lambda>r. pr_project_id r = p \<and> pr_policy_hash r = ?h) (pt_policies t)") (auto simp: find_None_iff)
    have inj: "inj_on pr_project_id (set (pt_policies t))" using assms(2) by (simp add: tidy_def distinct_map)
    have "q' = q" by (rule inj_onD [OF inj _ _ q(1)]) (use find_member [OF q'] q in auto)
    then show ?thesis using q' q by (simp add: u r(5))
  qed
  moreover have "1 \<le> (case map_of (pt_active t) p of None \<Rightarrow> 0 | Some r \<Rightarrow> ac_generation r) + 1"
    using assms(3) by (cases "map_of (pt_active t) p") (auto simp: positive_def intro: order_trans [OF zero_le_one])
  ultimately show thesis
    by (intro that [of "\<lparr>ac_policy_id = Some i, ac_policy_hash = Some ?h, ac_activation_id = Some op,
        ac_generation = (case map_of (pt_active t) p of None \<Rightarrow> 0 | Some r \<Rightarrow> ac_generation r) + 1\<rparr>"])
      (auto simp: snapshot_def u r(2,6) update_conv)
qed

subsection \<open>The tests of the runtime\<close>

lemma timestamp_later: "validate_timestamp clk now v = Inr () \<Longrightarrow> now \<le> later \<Longrightarrow> validate_timestamp clk later v = Inr ()"
  by (auto simp: validate_timestamp_def raise_def raise_if_def split: option.splits if_splits)

lemma verify_policy_later:
  assumes "verify_policy H key clk now p cid pn policy = Inr ()" and "now \<le> later" and "pn_project_id pn' = pn_project_id pn"
    "pn_policy_id pn' = pn_policy_id pn" "pn_policy_hash pn' = pn_policy_hash pn" "sha256_match (pn_activation_hash pn')"
  shows "verify_policy H key clk later p cid pn' policy = Inr ()"
  using assms timestamp_later [OF _ assms(2)] unfolding verify_policy_def steps_ok list.set insert_iff by (simp only: steps_ok raise_if_ok) auto

lemma verified_policy:
  assumes "verify_policy H key clk now p cid pn policy = Inr ()"
  shows "the_field ''policy_id'' policy = JStr adr_policy_id" "the_field ''version'' policy = JStr ''1.0''" "the_field ''key_id'' policy = JStr owner_key_id"
    "is_dict policy" "is_hash_value (the_field ''policy_hash'' (the_field ''previous_policy'' policy))"
    "validate_timestamp clk now (the_field ''activation_time'' policy) = Inr ()"
  using assms by (auto simp: verify_policy_def steps_ok is_identity_def has_keys_def is_dict_def split: json.splits)

lemma field_of_the: "the_field k v = JStr s \<longleftrightarrow> field k v = Some (JStr s)"
  by (auto simp: field_or_def split: option.splits)

lemma activation_accepted:
  assumes "\<And>x. sha256_match (H x)" "\<And>x. sha256_match (mac x)" and "operation_id_ok op"
    and v: "verify_policy H key clk now0 p cid pn policy = Inr ()"
    and a: "a = JObj (activation_members p op policy (H (dump policy)) (the_field ''activation_time'' policy) @
      [(''signature'', JStr (mac (dump (JObj (activation_members p op policy (H (dump policy)) (the_field ''activation_time'' policy))))))])"
    and "the_field ''activation_time'' policy = JStr s" "clk s = Some (Some t)" "t \<le> now"
    and "field ''policy_seconds'' (the_field ''freshness_limits'' (the_field ''body'' policy)) = Some (JInt n)" "now - t \<le> n"
    and "pn_activation_hash pointer = H (dump a)"
  shows "verify_activation H (Inr mac) clk now True p pointer policy a = Inr ()"
proof -
  let ?m = "activation_members p op policy (H (dump policy)) (the_field ''activation_time'' policy)"
  have f: "the_field k a = (case map_of (?m @ [(''signature'', JStr (mac (dump (JObj ?m))))]) k of None \<Rightarrow> JNull | Some w \<Rightarrow> w)" for k
    by (simp add: a field_or_def field_def del: dump.simps)
  have k: "has_keys activation_schema a" by (auto simp: a has_keys_def activation_schema_def activation_members_def)
  have w: "without_signature a = JObj ?m" by (simp add: a without_signature_def activation_members_def del: dump.simps)
  note vp = verified_policy [OF v]
  have sg: "verify_signature (Inr mac) a ''activation'' = Inr ()"
    by (simp add: verify_signature_def w is_hash_value_def assms(2) raise_if_def f activation_members_def del: dump.simps)
  have vt: "validate_timestamp clk now (JStr s) = Inr ()" "validate_time clk now (JStr s) n = Inr ()"
    using assms(7-10) by (simp_all add: validate_timestamp_def validate_time_def raise_if_def)
  have hv: "is_hash_value (JStr (H x))" for x by (simp add: is_hash_value_def assms(1))
  show ?thesis
    unfolding verify_activation_def steps_ok using k sg vp(1,2,5) vt hv assms(3,6,9,11)
    by (simp add: f activation_members_def raise_if_def owner_key_id_def adr_compatibility_def del: dump.simps)
qed

lemma activate_requestE:
  assumes "activate_request h p op (Inr c) = Inr (policy, a)"
  obtains cid mac where "c = Some policy" "oh_constitution h = Inr cid" "oh_key h = Inr mac"
    "verify_policy (oh_hash h) (oh_runtime_key h) (oh_clock h) (oh_seconds h) p cid
       (pointer_for h p (oh_hash h (dump policy)) (replicate 64 CHR ''0'')) policy = Inr ()"
    "a = JObj (activation_members p op policy (oh_hash h (dump policy)) (the_field ''activation_time'' policy) @
      [(''signature'', JStr (mac (dump (JObj (activation_members p op policy (oh_hash h (dump policy)) (the_field ''activation_time'' policy))))))])"
  using assms by (auto simp: activate_request_def and_then_ok Let_def signed_def simp del: dump.simps split: option.splits)

lemma activate_ok:
  assumes "controller_activate h p op f = (Inr g, f')" "project_id_text p" "operation_id_ok op" "latest_policy p adr_policy_id (initialized f) = Some c"
  obtains a where "activate_request h p op (Inr (Some c)) = Inr (c, a)"
    "fst (mutation False (activate_policy (\<lambda>_. None) p c a None (oh_now h)) (snd (latest_candidate p f))) = Inr g"
    "f' = snd (mutation False (activate_policy (\<lambda>_. None) p c a None (oh_now h)) (snd (latest_candidate p f)))"
proof -
  have ok: "and_then (valid_project p) (\<lambda>_. valid_operation op ''invalid activation operation identity'') = Inr ()"
    using assms(2,3) by (simp add: valid_project_def valid_operation_def raise_if_def)
  show thesis
  proof (cases "activate_request h p op (Inr (Some c))")
    case (Inl e)
    then show ?thesis using assms(1,4) ok by (simp add: controller_activate_def latest_candidate_store Let_def)
  next
    case (Inr pa)
    obtain policy a where pa: "pa = (policy, a)" by (cases pa)
    with Inr have c: "policy = c" using activate_requestD [of h p op "Some c" policy a] by simp
    let ?m = "mutation False (activate_policy (\<lambda>_. None) p c a None (oh_now h)) (snd (latest_candidate p f))"
    have "(store_result (fst ?m), snd ?m) = (Inr g, f')"
      using assms(1,4) ok Inr pa c by (simp add: controller_activate_def latest_candidate_store Let_def split: prod.splits)
    then show ?thesis using Inr pa c
      by (intro that [of a]) (auto simp: store_result_def rethrow_def split: sum.splits exc.splits if_splits)
  qed
qed

text \<open>C9. What the controller activates is what the runtime accepts: after any history of commands, if an
  activation succeeds, then the runtime resolves the file it leaves to that policy, at every later time at
  which the policy's activation is not older than its own limit.
\<close>

theorem activated_policy_accepted:
  fixes h :: owner_host
  assumes hist: "list_all (\<lambda>op. oh_hash (op_host op) = oh_hash h) ops" and f: "f = controller_run ops No_Store"
    and act: "controller_activate h p op f = (Inr g, f')" and policy: "latest_policy p adr_policy_id (initialized f) = Some policy"
    and hex: "\<And>x. sha256_match (oh_hash h x)" "\<And>x. sha256_match (mac x)" and key: "oh_key h = Inr mac" "oh_runtime_key h = Inr mac"
    and time: "the_field ''activation_time'' policy = JStr s" "oh_clock h s = Some (Some t)" "oh_seconds h \<le> now"
    and fresh: "field ''policy_seconds'' (the_field ''freshness_limits'' (the_field ''body'' policy)) = Some (JInt n)" "now - t \<le> n"
  shows "\<exists>m. resolve_legacy (oh_hash h) (oh_runtime_key h) (oh_constitution h) (oh_clock h) now p f' = Inr m \<and> am_project_id m = p \<and>
    am_policy_id m = adr_policy_id \<and> am_policy_hash m = oh_hash h (dump policy)"
proof -
  let ?H = "oh_hash h" let ?t = "initialized f"
  have z: "tidy ?H (initialized No_Store)" "positive (initialized No_Store)" by (simp_all add: tidy_def positive_def initialized_def no_rows_def)
  have inv: "tidy ?H ?t" "positive ?t" unfolding f
    by (rule controller_run_preserves [where P = "tidy ?H" and H = ?H, OF tidy_step hist z(1)],
        assumption, assumption, rule controller_run_preserves [where P = positive and H = ?H, OF positive_step hist z(2)])
  have ok: "project_id_text p" "operation_id_ok op"
    using act by (auto simp: controller_activate_def and_then_ok valid_project_def valid_operation_def split: sum.splits)
  obtain a where rq: "activate_request h p op (Inr (Some policy)) = Inr (policy, a)"
    and m: "fst (mutation False (activate_policy (\<lambda>_. None) p policy a None (oh_now h)) (snd (latest_candidate p f))) = Inr g"
    and f': "f' = snd (mutation False (activate_policy (\<lambda>_. None) p policy a None (oh_now h)) (snd (latest_candidate p f)))"
    using act ok policy by (rule activate_ok)
  from rq obtain cid where cid: "oh_constitution h = Inr cid" and v: "verify_policy ?H (Inr mac) (oh_clock h) (oh_seconds h) p cid
       (pointer_for h p (?H (dump policy)) (replicate 64 CHR ''0'')) policy = Inr ()"
    and a: "a = JObj (activation_members p op policy (?H (dump policy)) (the_field ''activation_time'' policy) @
      [(''signature'', JStr (mac (dump (JObj (activation_members p op policy (?H (dump policy)) (the_field ''activation_time'' policy))))))])"
    by (rule activate_requestE) (use key in simp)
  note vp = verified_policy [OF v]
  have af: "field ''policy_hash'' a = Some (JStr (?H (dump policy)))" "field ''policy_id'' a = Some (JStr adr_policy_id)" "is_dict a"
    by (simp_all add: a field_def activation_members_def is_dict_def del: dump.simps)
  have e: "activate_policy (\<lambda>_. None) p policy a None (oh_now h) ?t = Inr (g, initialized f')"
    using m unfolding f' mutation_ok latest_candidate_store by simp
  obtain row where row: "snapshot p (initialized f') = Inr (View_Active row policy a)" "ac_policy_id row = Some adr_policy_id"
      "ac_policy_hash row = Some (?H (dump policy))" "1 \<le> ac_generation row"
    by (rule activated_snapshot [OF e inv policy af(1,2) vp(1) [unfolded field_of_the]])
  have f'2: "\<exists>t. f' = Store t" unfolding f' by (simp add: mutation_def split: sum.splits prod.splits)
  have "t \<le> oh_seconds h" using vp(6) time(1,2) by (simp add: validate_timestamp_def raise_if_def raise_def split: if_splits)
  then have tn: "t \<le> now" using time(3) by simp
  have va: "verify_activation ?H (Inr mac) (oh_clock h) now True p (pointer_of ?H p row a) policy a = Inr ()"
    by (rule activation_accepted [where H = ?H and mac = mac, OF hex ok(2) v a time(1,2) tn fresh]) (simp add: pointer_of_def)
  have "verify_policy ?H (Inr mac) (oh_clock h) now p cid (pointer_of ?H p row a) policy = Inr ()"
    by (rule verify_policy_later [OF v time(3)]) (simp_all add: pointer_of_def pointer_for_def row(2,3) enc_opt_def hex)
  then show ?thesis using ok(1) cid row f'2 va key vp af(3)
    by (auto simp: resolve_legacy_def read_snapshot_def connection_def initialized_def replace_exc_def Let_def simp del: dump.simps)
qed

end
