(* ===== verification/ControllerSample.thy ===== *)
theory ControllerSample
  imports ControllerAccept
begin

section \<open>Runs of the controller\<close>

text \<open>
  A host with a key, a constitution and a clock, on which the owner prepares, activates and rolls back a
  policy and sets the switch: the properties of the controller apply to it.
\<close>

definition some_host :: owner_host where
  "some_host = \<lparr>oh_hash = (\<lambda>_. replicate 64 CHR ''a''), oh_key = Inr (\<lambda>_. replicate 64 CHR ''0''), oh_runtime_key = Inr (\<lambda>_. replicate 64 CHR ''0''),
     oh_constitution = Inr ''constitution-1'', oh_now = ''2026-01-01'', oh_seconds = 100,
     oh_clock = (\<lambda>s. if s = ''2026-01-01'' then Some (Some 100) else None)\<rparr>"

definition some_project :: string where
  "some_project = ''project-0123456789abcdef''"

definition some_policy :: json where
  "some_policy = JObj (policy_members some_host some_project ''constitution-1'' @ [(''signature'', JStr (replicate 64 CHR ''0''))])"

definition prepared_tables :: policy_tables where
  "prepared_tables = no_rows\<lparr>pt_policies := [\<lparr>pr_project_id = some_project, pr_policy_id = adr_policy_id, pr_policy_hash = replicate 64 CHR ''a'',
     pr_version = ''1.0'', pr_schema_version = ''1.0'', pr_compatibility = adr_compatibility, pr_signature = replicate 64 CHR ''0'',
     pr_key_id = owner_key_id, pr_artifact = some_policy, pr_created_at = ''2026-01-01''\<rparr>]\<rparr>"

lemma host_fields:
  "oh_hash some_host x = replicate 64 CHR ''a''" "oh_key some_host = Inr (\<lambda>_. replicate 64 CHR ''0'')"
  "oh_runtime_key some_host = Inr (\<lambda>_. replicate 64 CHR ''0'')" "oh_constitution some_host = Inr ''constitution-1''"
  "oh_now some_host = ''2026-01-01''" "oh_seconds some_host = 100" "oh_clock some_host ''2026-01-01'' = Some (Some 100)"
  by (simp_all add: some_host_def)

lemma some_hex: "sha256_match (replicate 64 CHR ''a'')" "sha256_match (replicate 64 CHR ''0'')"
  by (simp_all add: sha256_match_def is_hex_def is_digit_def list_all_iff)

lemma some_ids: "project_id_text some_project" "operation_id_ok ''operation-one''" "operation_id_ok ''operation-two''"
  by code_simp+

lemma some_members:
  "the_field ''project_id'' some_policy = JStr some_project" "the_field ''policy_id'' some_policy = JStr adr_policy_id"
  "the_field ''version'' some_policy = JStr ''1.0''" "the_field ''schema_version'' some_policy = JStr ''1.0''"
  "the_field ''compatibility'' some_policy = JStr adr_compatibility" "the_field ''signature'' some_policy = JStr (replicate 64 CHR ''0'')"
  "the_field ''key_id'' some_policy = JStr owner_key_id" "the_field ''constitution_id'' some_policy = JStr ''constitution-1''"
  "the_field ''approval_status'' some_policy = JStr ''APPROVED''" "the_field ''activation_time'' some_policy = JStr ''2026-01-01''"
  "the_field ''previous_policy'' some_policy = JObj [(''policy_id'', JStr rollback_target_id), (''policy_hash'', JStr (replicate 64 CHR ''a''))]"
  "the_field ''body'' some_policy = policy_body" "has_keys policy_schema some_policy"
  by (simp_all add: some_policy_def policy_members_def field_or_def field_def host_fields previous_identity_def fallback_hash_def
      has_keys_def policy_schema_def insert_commute)

lemma prepare_run: "snd (controller_prepare some_host some_project No_Store) = Store prepared_tables"
proof -
  have r: "policy_row_of some_policy (replicate 64 CHR ''a'') ''2026-01-01'' = Inr \<lparr>pr_project_id = some_project, pr_policy_id = adr_policy_id,
      pr_policy_hash = replicate 64 CHR ''a'', pr_version = ''1.0'', pr_schema_version = ''1.0'', pr_compatibility = adr_compatibility,
      pr_signature = replicate 64 CHR ''0'', pr_key_id = owner_key_id, pr_artifact = some_policy, pr_created_at = ''2026-01-01''\<rparr>"
    using some_members(1-7) unfolding field_of_the by (simp add: policy_row_of_def text_item_of)
  have "signed some_host (policy_members some_host some_project ''constitution-1'') = Inr some_policy"
    by (simp add: signed_def host_fields some_policy_def)
  then show ?thesis using some_ids(1) r
    by (simp add: controller_prepare_def valid_project_def raise_if_def host_fields prepare_request_def latest_candidate_def read_latest_policy_def
        initialized_def no_rows_def latest_policy_def latest_row_def replace_exc_def mutation_def prepare_policy_def prepared_tables_def Let_def
        del: dump.simps)
qed

lemma some_body: "is_dict policy_body" "verify_body policy_body = Inr ()" "validate_limits (the_field ''freshness_limits'' policy_body) = Inr ()"
  "field ''policy_seconds'' (the_field ''freshness_limits'' policy_body) = Some (JInt 86400)"
  by code_simp+

lemma some_verified: "verify_policy (oh_hash some_host) (oh_runtime_key some_host) (oh_clock some_host) 100 some_project ''constitution-1''
    (pointer_for some_host some_project (replicate 64 CHR ''a'') (replicate 64 CHR ''0'')) some_policy = Inr ()"
proof -
  have "is_identity (the_field ''previous_policy'' some_policy)"
    unfolding some_members(11) by (simp add: is_identity_def has_keys_def field_def field_or_def is_hash_value_def some_hex)
  moreover have "validate_timestamp (oh_clock some_host) 100 (the_field ''activation_time'' some_policy) = Inr ()"
    by (simp add: some_members validate_timestamp_def host_fields raise_if_def)
  moreover have "verify_signature (oh_runtime_key some_host) some_policy ''policy'' = Inr ()"
    by (simp add: verify_signature_def some_members host_fields is_hash_value_def some_hex raise_if_def)
  moreover have "the_field ''policy_hash'' (the_field ''previous_policy'' some_policy) = JStr (fallback_hash (oh_hash some_host) some_project)"
    unfolding some_members(11) by (simp add: fallback_hash_def host_fields field_or_def field_def del: dump.simps)
  ultimately show ?thesis using some_members(1-10,12,13) some_body(1-3)
    by (simp add: verify_policy_def steps_ok pointer_for_def is_hash_value_def some_hex host_fields del: dump.simps)
qed

definition some_activation :: json where
  "some_activation = JObj (activation_members some_project ''operation-one'' some_policy (replicate 64 CHR ''a'') (JStr ''2026-01-01'') @
     [(''signature'', JStr (replicate 64 CHR ''0''))])"

definition active_tables :: policy_tables where
  "active_tables = prepared_tables\<lparr>pt_journal := [(''operation-one'', \<lparr>jr_project_id = some_project, jr_kind = J_activate, jr_generation = 1,
       jr_payload_hash = replicate 64 CHR ''a'', jr_committed_at = ''2026-01-01''\<rparr>)],
     pt_activations := [\<lparr>ar_project_id = some_project, ar_operation_id = ''operation-one'', ar_policy_id = adr_policy_id,
       ar_policy_hash = replicate 64 CHR ''a'', ar_previous_policy_hash = replicate 64 CHR ''a'', ar_activation_time = ''2026-01-01'',
       ar_signature = replicate 64 CHR ''0'', ar_record = some_activation, ar_generation = 1\<rparr>],
     pt_active := [(some_project, \<lparr>ac_policy_id = Some adr_policy_id, ac_policy_hash = Some (replicate 64 CHR ''a''),
       ac_activation_id = Some ''operation-one'', ac_generation = 1\<rparr>)]\<rparr>"

lemma some_candidate: "latest_policy some_project adr_policy_id prepared_tables = Some some_policy"
  by (simp add: latest_policy_def latest_row_def prepared_tables_def)

lemma some_request: "activate_request some_host some_project ''operation-one'' (Inr (Some some_policy)) = Inr (some_policy, some_activation)"
  using some_verified
  by (simp add: activate_request_def host_fields signed_def some_activation_def some_members Let_def del: dump.simps)

lemma some_texts:
  "text_item ''operation_id'' some_activation = Inr ''operation-one''" "text_item ''policy_hash'' some_activation = Inr (replicate 64 CHR ''a'')"
  "text_item ''policy_id'' some_activation = Inr adr_policy_id" "text_item ''previous_policy_hash'' some_activation = Inr (replicate 64 CHR ''a'')"
  "text_item ''activation_time'' some_activation = Inr ''2026-01-01''" "text_item ''signature'' some_activation = Inr (replicate 64 CHR ''0'')"
  unfolding some_activation_def activation_members_def some_members by (rule text_item_of, simp add: field_def field_or_def)+

lemma some_recorded: "activate_policy (\<lambda>_. None) some_project some_policy some_activation None ''2026-01-01'' prepared_tables = Inr (1, active_tables)"
proof -
  have "text_item ''policy_id'' some_policy = Inr adr_policy_id" using some_members(2) unfolding field_of_the by (rule text_item_of)
  moreover have "is_prepared some_project (JStr adr_policy_id) (JStr (replicate 64 CHR ''a'')) prepared_tables"
    by (simp add: is_prepared_def prepared_tables_def)
  ultimately show ?thesis
    by (simp add: activate_policy_def some_texts check_unused_def prepared_tables_def no_rows_def raise_if_def was_rolled_back_def
        record_activation_def at_point_def insert_journal_def activation_row_of_def insert_activation_def active_tables_def Let_def)
qed

lemma activate_run: "controller_activate some_host some_project ''operation-one'' (Store prepared_tables) = (Inr 1, Store active_tables)"
  using some_ids some_request some_recorded some_candidate
  by (simp add: controller_activate_def valid_project_def valid_operation_def raise_if_def latest_candidate_def read_latest_policy_def initialized_def
      replace_exc_def mutation_def store_result_def rethrow_def host_fields Let_def)

lemma activated_policy_accepted_witness:
  "\<exists>m. resolve_legacy (oh_hash some_host) (oh_runtime_key some_host) (oh_constitution some_host) (oh_clock some_host) 1000 some_project (Store active_tables) =
     Inr m \<and> am_project_id m = some_project \<and> am_policy_id m = adr_policy_id \<and> am_policy_hash m = oh_hash some_host (dump some_policy)"
proof (rule activated_policy_accepted [where ops = "[Co_Prepare some_host some_project]" and f = "Store prepared_tables" and op = "''operation-one''"
      and mac = "\<lambda>_. replicate 64 CHR ''0''" and s = "''2026-01-01''" and t = 100 and n = 86400 and g = 1])
  show "Store prepared_tables = controller_run [Co_Prepare some_host some_project] No_Store" by (simp add: controller_run_def prepare_run)
qed (simp_all add: activate_run initialized_def some_candidate host_fields some_hex some_members some_body del: dump.simps)

lemma rollback_run: "fst (controller_rollback some_host some_project ''operation-two'' (Store active_tables)) = Inr 2"
proof -
  let ?row = "\<lparr>ac_policy_id = Some adr_policy_id, ac_policy_hash = Some (replicate 64 CHR ''a''), ac_activation_id = Some ''operation-one'', ac_generation = 1\<rparr>"
  define rc where "rc = [(''schema_version'', JStr ''1.0''), (''project_id'', JStr some_project), (''operation_id'', JStr ''operation-two''),
     (''superseded_policy_hash'', JStr (replicate 64 CHR ''a'')), (''restored_policy_hash'', JStr (replicate 64 CHR ''a'')),
     (''rollback_target'', the_field ''previous_policy'' some_policy), (''rollback_time'', JStr ''2026-01-01''), (''key_id'', JStr owner_key_id)]"
  let ?s = "JObj (rc @ [(''tombstone_hash'', JStr (replicate 64 CHR ''a'')), (''signature'', JStr (replicate 64 CHR ''0''))])"
  have ra: "read_active None ''no active policy to rollback'' some_project (Store active_tables) = Inr (?row, some_policy, some_activation)"
    by (simp add: read_active_def read_snapshot_def connection_def snapshot_def active_tables_def prepared_tables_def)
  have ph: "the_field ''policy_hash'' (the_field ''previous_policy'' some_policy) = JStr (replicate 64 CHR ''a'')"
    unfolding some_members(11) by (simp add: field_or_def field_def)
  have rq: "rollback_request some_host some_project ''operation-two'' (Store active_tables) = Inr (?row, ?s)"
    using some_ids(1,3) ra
    by (simp add: rollback_request_def valid_project_def valid_operation_def raise_if_def ph signed_def host_fields enc_opt_def rc_def Let_def
        del: dump.simps)
  have f: "field ''restored_policy_hash'' ?s = Some (JStr (replicate 64 CHR ''a''))"
    "field ''rollback_target'' ?s = Some (the_field ''previous_policy'' some_policy)"
    by (simp_all add: rc_def field_def)
  have tx: "text_item ''operation_id'' ?s = Inr ''operation-two''" "text_item ''superseded_policy_hash'' ?s = Inr (replicate 64 CHR ''a'')"
    "text_item ''tombstone_hash'' ?s = Inr (replicate 64 CHR ''a'')" "text_item ''signature'' ?s = Inr (replicate 64 CHR ''0'')"
    unfolding rc_def by (rule text_item_of, simp add: field_def)+
  have "\<exists>u. rollback_policy (\<lambda>_. None) some_project ?s (Some 1) (Some (replicate 64 CHR ''a'')) ''2026-01-01'' active_tables = Inr (2, u)"
    by (simp add: rollback_policy_def tx f field_or_def check_unused_def raise_if_def bound_text_def check_target_def at_point_def rollback_row_of_def
        insert_rollback_def insert_journal_def active_tables_def prepared_tables_def no_rows_def)
  then show ?thesis
    using rq by (auto simp: controller_rollback_def mutation_def initialized_def store_result_def rethrow_def host_fields simp del: dump.simps)
qed


definition stop_host :: owner_host where
  "stop_host = some_host\<lparr>oh_key := Inr (\<lambda>x. x)\<rparr>"

definition stop_row :: authority_row where
  "stop_row = \<lparr>au_generation = 1, au_kill_switch_active = False, au_operation_id = ''bootstrap'', au_changed_at = ''2026-01-01'',
     au_reason = ''initial authoritative state''\<rparr>"

lemma emergency_stop_ascii_witness:
  "controller_kill_switch stop_host some_project ''operation-two'' True [CHR 0xE9] (Store (no_rows\<lparr>pt_authority := [(some_project, stop_row)]\<rparr>)) =
     (raise OwnerControllerError ''owner authorization is invalid'', Store (no_rows\<lparr>pt_authority := [(some_project, stop_row)]\<rparr>))"
proof -
  have n: "\<not> plain_ascii [CHR 0xE9]" by (simp add: plain_ascii_def)
  have "map_of (pt_journal (initialized (Store (no_rows\<lparr>pt_authority := [(some_project, stop_row)]\<rparr>)))) ''operation-two'' = None"
    "map_of (pt_authority (initialized (Store (no_rows\<lparr>pt_authority := [(some_project, stop_row)]\<rparr>)))) some_project = Some stop_row"
    by (simp_all add: initialized_def no_rows_def)
  moreover have "oh_constitution stop_host = Inr ''constitution-1''" "oh_key stop_host = Inr (\<lambda>x. x)" by (simp_all add: stop_host_def host_fields)
  ultimately show ?thesis
    using n emergency_stop_ascii [of some_project "''operation-two''" stop_host "''constitution-1''" "\<lambda>x. x"
      "Store (no_rows\<lparr>pt_authority := [(some_project, stop_row)]\<rparr>)" stop_row True "[CHR 0xE9]"] some_ids(1,3)
    by (simp add: initialized_def del: dump.simps dump_ascii.simps)
qed

end
