(* ===== verification/Evidence.thy ===== *)
theory Evidence
  imports StoreCell JsonText
begin

section \<open>Directories of evidence\<close>

text \<open>
  Several stores of the program keep one record per file, in a directory per project, and write a record at
  most once: a second \<open>put\<close> under the same name succeeds only with an equal record. A record is a frozen
  dataclass over the members of a JSON object, most of them of any type until \<open>validate\<close> has looked at
  them, and is modelled by that object; objects that differ in the order of their members are equal. The
  locale states the contract; each store is an instance.
\<close>

type_synonym evidence_dir = "((string \<times> string) \<times> file_content) list"

definition file_at :: "evidence_dir \<Rightarrow> string \<times> string \<Rightarrow> file_content" where
  "file_at d k = (case map_of d k of None \<Rightarrow> No_File | Some c \<Rightarrow> c)"

definition put_file :: "string \<times> string \<Rightarrow> file_content \<Rightarrow> evidence_dir \<Rightarrow> evidence_dir" where
  "put_file k c d = dict_set k c d"

lemma file_at_put [simp]: "file_at (put_file k c d) l = (if l = k then c else file_at d l)"
  by (simp add: file_at_def put_file_def update_conv)

text \<open>Equality of objects\<close>

definition json_eq :: "json \<Rightarrow> json \<Rightarrow> bool" where
  "json_eq a b = (canon a = canon b)"

lemma json_eq_refl [simp]: "json_eq a a"
  by (simp add: json_eq_def)

lemma json_eq_equivp: "equivp json_eq"
  by (rule equivpI) (auto simp: json_eq_def reflp_def symp_def transp_def)

abbreviation member :: "json \<Rightarrow> string \<Rightarrow> json" where
  "member v k \<equiv> field_or JNull k v"

text \<open>\<open>X(**payload)\<close> for a dataclass; an object has no key twice.\<close>

definition build :: "string list \<Rightarrow> json \<Rightarrow> json res" where
  "build ks v = (if has_keys ks v \<and> distinct (keys_of v) then Inr v else raise TypeError [])"

lemma build_ok [simp]: "build ks v = Inr w \<longleftrightarrow> w = v \<and> has_keys ks v \<and> distinct (keys_of v)"
  by (auto simp: build_def)

text \<open>\<open>v.startswith(p)\<close> and \<open>pattern.fullmatch(v)\<close> for a value of any type\<close>

definition prefixed :: "string \<Rightarrow> json \<Rightarrow> bool res" where
  "prefixed p v = (case v of JStr s \<Rightarrow> Inr (starts_with p s) | _ \<Rightarrow> raise AttributeError [])"

definition matches :: "(string \<Rightarrow> bool) \<Rightarrow> json \<Rightarrow> bool res" where
  "matches m v = (case v of JStr s \<Rightarrow> Inr (m s) | _ \<Rightarrow> raise TypeError [])"

text \<open>\<open>if not (a and b and ...): raise\<close>, each test evaluated only after the ones before it held\<close>

fun all_tests :: "bool res list \<Rightarrow> exc_class \<Rightarrow> string \<Rightarrow> unit res" where
  "all_tests [] c m = Inr ()"
| "all_tests (t # ts) c m = and_then t (\<lambda>b. if b then all_tests ts c m else raise c m)"

declare all_tests.simps [simp del]

lemma all_tests_ok [simp, validator_simps]: "all_tests ts c m = Inr u \<longleftrightarrow> list_all (\<lambda>t. t = Inr True) ts"
  by (induction ts) (auto simp: all_tests.simps and_then_ok split: if_splits)

lemma prefixed_ok [simp]: "prefixed p v = Inr True \<longleftrightarrow> (\<exists>s. v = JStr s \<and> starts_with p s)"
  by (cases v) (auto simp: prefixed_def)

lemma matches_ok [simp]: "matches m v = Inr True \<longleftrightarrow> (\<exists>s. v = JStr s \<and> m s)"
  by (cases v) (auto simp: matches_def)

text \<open>\<open>value.pop(key)\<close> on a copy\<close>

definition without_field :: "string \<Rightarrow> json \<Rightarrow> json" where
  "without_field k v = (case v of JObj kvs \<Rightarrow> JObj (filter (\<lambda>kv. fst kv \<noteq> k) kvs) | _ \<Rightarrow> v)"

definition hash_of :: "(string \<Rightarrow> string) \<Rightarrow> json \<Rightarrow> json" where
  "hash_of H v = JStr (H (dump v))"

definition numeric :: "json \<Rightarrow> int option" where
  "numeric v = (case v of JInt n \<Rightarrow> Some n | JBool b \<Rightarrow> Some (if b then 1 else 0) | _ \<Rightarrow> None)"

subsection \<open>The contract\<close>

locale evidence_store =
  fixes put :: "'i \<Rightarrow> 'f \<Rightarrow> 'x res \<times> 'f" and look :: "'k \<Rightarrow> 'f \<Rightarrow> 'i option res" and key_of :: "'i \<Rightarrow> 'k" and same :: "'i \<Rightarrow> 'i \<Rightarrow> bool"
  assumes same_equivp: "equivp same"
    and put_found: "put i f = (Inr x, g) \<Longrightarrow> \<exists>j. look (key_of i) g = Inr (Some j) \<and> same j i"
    and put_keeps: "look k f = Inr (Some j) \<Longrightarrow> look k (snd (put i f)) = Inr (Some j)"
begin

lemma same_sym: "same i j \<Longrightarrow> same j i"
  using same_equivp by (rule equivp_symp)

lemma same_trans: "same i j \<Longrightarrow> same j k \<Longrightarrow> same i k"
  using same_equivp by (rule equivp_transp)

lemma put_twice:
  assumes "look (key_of i) f = Inr (Some j)" and "put i' f = (Inr x', h)" and "key_of i' = key_of i"
  shows "same j i' \<and> look (key_of i) h = Inr (Some j)"
proof -
  have h: "look (key_of i) h = Inr (Some j)" using put_keeps [OF assms(1), of i'] assms(2) by simp
  moreover obtain j' where "look (key_of i') h = Inr (Some j')" "same j' i'" using put_found [OF assms(2)] by blast
  ultimately show ?thesis using assms(3) by simp
qed

end

text \<open>A store whose directory other operations use too\<close>

locale evidence_history = evidence_store +
  fixes step :: "'o \<Rightarrow> 'b \<Rightarrow> 'b"
  assumes step_keeps: "look k f = Inr (Some j) \<Longrightarrow> look k (step op f) = Inr (Some j)"
begin

lemma run_keeps: "look k f = Inr (Some j) \<Longrightarrow> look k (fold step ops f) = Inr (Some j)"
  by (induction ops arbitrary: f) (simp_all add: step_keeps)

lemma write_once:
  assumes "put i f = (Inr x, g)" and "put i' (fold step ops g) = (Inr x', h)" and "key_of i' = key_of i"
  shows "same i i' \<and> (\<exists>j. look (key_of i) h = Inr (Some j) \<and> same j i)"
proof -
  obtain j where j: "look (key_of i) g = Inr (Some j)" "same j i" using put_found [OF assms(1)] by blast
  then have "same j i' \<and> look (key_of i) h = Inr (Some j)" using put_twice [OF run_keeps assms(2,3)] by blast
  then show ?thesis using j(2) same_sym same_trans by blast
qed

end

end
