(* ===== verification/Reconciliation.thy ===== *)
theory Reconciliation
  imports Evidence PathScope
begin

section \<open>Reconciled deliveries (delivery_reconciliation.py)\<close>

text \<open>
  What is to be delivered is written down as an intent before an external action; afterwards the repository
  is observed and a receipt is written, if what is there is exactly what was intended. \<open>H\<close> is SHA-256 in
  hexadecimal. The answers of git are an argument; the locks are not modelled: \<open>put\<close> and the recording
  of a receipt are one step each, the observation before it another.
\<close>

abbreviation reconciliation_error :: "string \<Rightarrow> 'a res" where
  "reconciliation_error m \<equiv> raise DeliveryReconciliationError m"

abbreviation rec_check :: "bool \<Rightarrow> string \<Rightarrow> unit res" where
  "rec_check b m \<equiv> raise_if b DeliveryReconciliationError m"

definition hex_40_64 :: "string \<Rightarrow> bool" where
  "hex_40_64 s = (40 \<le> length s \<and> length s \<le> 64 \<and> list_all is_hex s)"

definition delivery_id_match :: "string \<Rightarrow> bool" where
  "delivery_id_match s = (case s of [] \<Rightarrow> False
     | c # cs \<Rightarrow> is_lower_alnum c \<and> length cs \<le> 119 \<and> list_all (\<lambda>x. is_lower_alnum x \<or> x = CHR ''-'') cs)"

subsection \<open>The intent\<close>

definition intent_keys :: "string list" where
  "intent_keys = [''schema_version'', ''delivery_id'', ''project_id'', ''session_id'', ''plan_id'', ''plan_hash'', ''task_id'', ''task_hash'',
     ''repository_identity'', ''base_sha'', ''candidate_sha'', ''candidate_tree_sha'', ''delivery_branch'', ''target_branch'', ''allowed_paths'',
     ''changed_files'', ''diff_sha256'', ''review_sha256'', ''compliance_sha256'', ''authorization_sha256'', ''review_evidence'',
     ''compliance_evidence'', ''authorization_evidence'', ''policy_hash'', ''constitution_id'', ''authority_generation'',
     ''evidence_generation'', ''created_at'', ''state'', ''content_sha256'']"

definition intent_hashes :: "string list" where
  "intent_hashes = [''plan_hash'', ''task_hash'', ''base_sha'', ''candidate_sha'', ''candidate_tree_sha'', ''diff_sha256'', ''review_sha256'',
     ''compliance_sha256'', ''authorization_sha256'', ''policy_hash'']"

text \<open>\<open>v in {...}\<close> raises for a value without hash.\<close>

definition one_of :: "string list \<Rightarrow> json \<Rightarrow> bool res" where
  "one_of ss v = (if hashable v then Inr (v \<in> JStr ` set ss) else raise TypeError [])"

definition evidence_matches :: "(string \<Rightarrow> string) \<Rightarrow> json \<Rightarrow> string \<Rightarrow> bool" where
  "evidence_matches H v label = (is_dict (member v (label @ ''_evidence'')) \<and>
     hash_of H (member v (label @ ''_evidence'')) = member v (label @ ''_sha256''))"

definition generation_ok :: "json \<Rightarrow> bool" where
  "generation_ok v = (case numeric v of None \<Rightarrow> False | Some n \<Rightarrow> 1 \<le> n)"

definition paths_bound :: "json \<Rightarrow> bool" where
  "paths_bound v = (case (str_list (member v ''allowed_paths''), str_list (member v ''changed_files'')) of
     (Some allowed, Some changed) \<Rightarrow> allowed \<noteq> [] \<and> changed \<noteq> [] \<and> paths_in_scope changed allowed
   | _ \<Rightarrow> False)"

definition pending_states :: "string list" where
  "pending_states = [''EXTERNAL_ACTION_REQUIRED'', ''OBSERVED'', ''VERIFIED'']"

definition intent_validate :: "(string \<Rightarrow> string) \<Rightarrow> json \<Rightarrow> unit res" where
  "intent_validate H v = steps [
     all_tests [Inr (member v ''schema_version'' = JStr ''1.0''), matches delivery_id_match (member v ''delivery_id'')]
       DeliveryReconciliationError ''delivery intent identity is invalid'',
     all_tests [prefixed ''project-'' (member v ''project_id''), prefixed ''session-'' (member v ''session_id'')]
       DeliveryReconciliationError ''delivery intent project/session binding is invalid'',
     all_tests [prefixed ''task-'' (member v ''task_id''), Inr (truthy (member v ''plan_id''))]
       DeliveryReconciliationError ''delivery intent plan/task binding is invalid'',
     for_each (\<lambda>k. rec_check (case the_str (member v k) of None \<Rightarrow> True | Some s \<Rightarrow> \<not> hex_40_64 s)
       (''delivery intent '' @ k @ '' is invalid'')) intent_hashes,
     rec_check (\<not> truthy (member v ''constitution_id'') \<or> \<not> truthy (member v ''repository_identity'')) ''delivery intent authority binding is incomplete'',
     rec_check (case the_str (member v ''target_branch'') of None \<Rightarrow> True | Some s \<Rightarrow> s = []) ''delivery intent target branch is invalid'',
     for_each (\<lambda>l. rec_check (\<not> evidence_matches H v l) (''delivery intent '' @ l @ '' evidence is invalid'')) [''review'', ''compliance'', ''authorization''],
     rec_check (member (member v ''review_evidence'') ''status'' \<noteq> JStr ''APPROVE'') ''delivery intent review is not approved'',
     rec_check (member (member v ''compliance_evidence'') ''status'' \<noteq> JStr ''PASS'') ''delivery intent Compliance is not passing'',
     all_tests [one_of [''AUTHORIZED'', ''authorized''] (member (member v ''authorization_evidence'') ''authorization_status'')]
       DeliveryReconciliationError ''delivery intent authorization is not valid'',
     rec_check (\<not> generation_ok (member v ''authority_generation'')) ''delivery intent authority generation is invalid'',
     rec_check (\<not> generation_ok (member v ''evidence_generation'')) ''delivery intent evidence generation is invalid'',
     all_tests [one_of (pending_states @ [''COMPLETED'']) (member v ''state'')] DeliveryReconciliationError ''delivery intent state is invalid'',
     rec_check (\<not> paths_bound v) ''delivery intent path binding is invalid'',
     rec_check (member v ''content_sha256'' \<noteq> hash_of H (without_field ''content_sha256'' v)) ''delivery intent hash is invalid'']"

subsection \<open>The store of intents\<close>

definition intent_file :: "string \<Rightarrow> string" where
  "intent_file d = d @ ''.json''"

definition receipt_file :: "string \<Rightarrow> string" where
  "receipt_file d = d @ ''.receipt.json''"

definition check_path :: "string \<Rightarrow> string \<Rightarrow> unit res" where
  "check_path p d = rec_check (\<not> starts_with ''project-'' p \<or> \<not> delivery_id_match d) ''delivery intent path identity is invalid''"

text \<open>\<open>tuple(payload[key])\<close> for the two path members\<close>

definition with_tuples :: "json \<Rightarrow> json res" where
  "with_tuples v = (case (tuple_of (member v ''allowed_paths''), tuple_of (member v ''changed_files'')) of
     (Some a, Some c) \<Rightarrow> (case v of JObj kvs \<Rightarrow> Inr (JObj (map (\<lambda>(k, x). (k, if k = ''allowed_paths'' then JList a
         else if k = ''changed_files'' then JList c else x)) kvs)) | _ \<Rightarrow> raise TypeError [])
   | _ \<Rightarrow> raise TypeError [])"

definition unreadable :: "string \<Rightarrow> 'a res \<Rightarrow> 'a res" where
  "unreadable m r = replace_exc (\<lambda>c. c = TypeError \<or> c = KeyError) DeliveryReconciliationError m r"

definition read_intent :: "(string \<Rightarrow> string) \<Rightarrow> json \<Rightarrow> json res" where
  "read_intent H v = and_then (build intent_keys v) (\<lambda>w. and_then (with_tuples w) (\<lambda>i. and_then (intent_validate H i) (\<lambda>_. Inr i)))"

definition load_intent :: "(string \<Rightarrow> string) \<Rightarrow> (json \<Rightarrow> bool) \<Rightarrow> string \<Rightarrow> file_content \<Rightarrow> json option res" where
  "load_intent H bound m c = (case c of
     No_File \<Rightarrow> Inr None
   | Not_Json \<Rightarrow> reconciliation_error ''delivery intent is unreadable''
   | Json v \<Rightarrow> unreadable ''delivery intent is unreadable'' (and_then (read_intent H v) (\<lambda>i.
       if \<not> bound i then reconciliation_error m else Inr (Some i))))"

definition intent_get :: "(string \<Rightarrow> string) \<Rightarrow> string \<times> string \<Rightarrow> evidence_dir \<Rightarrow> json option res" where
  "intent_get H k f = (case k of (p, d) \<Rightarrow> and_then (check_path p d) (\<lambda>_.
     load_intent H (\<lambda>i. member i ''project_id'' = JStr p \<and> member i ''delivery_id'' = JStr d) ''delivery intent binding differs''
       (file_at f (p, intent_file d))))"

definition text_of :: "json \<Rightarrow> string" where
  "text_of v = (case v of JStr s \<Rightarrow> s | _ \<Rightarrow> [])"

definition intent_key :: "json \<Rightarrow> string \<times> string" where
  "intent_key i = (text_of (member i ''project_id''), text_of (member i ''delivery_id''))"

text \<open>\<open>put(DeliveryIntent(**i))\<close>\<close>

definition intent_put :: "(string \<Rightarrow> string) \<Rightarrow> json \<Rightarrow> evidence_dir \<Rightarrow> json res \<times> evidence_dir" where
  "intent_put H i f = (case and_then (build intent_keys i) (\<lambda>_. and_then (intent_validate H i) (\<lambda>_. intent_get H (intent_key i) f)) of
     Inl e \<Rightarrow> (Inl e, f)
   | Inr (Some old) \<Rightarrow> if \<not> json_eq old i then (reconciliation_error ''conflicting delivery intent is rejected'', f)
       else (Inr (member i ''content_sha256''), f)
   | Inr None \<Rightarrow> (Inr (member i ''content_sha256''), put_file (fst (intent_key i), intent_file (snd (intent_key i))) (Json i) f))"

text \<open>The intents of a session, in the order of the file names; a file that cannot be read fails the whole query.\<close>

definition intent_names :: "string \<Rightarrow> evidence_dir \<Rightarrow> string list" where
  "intent_names p f = sort (remdups (filter (\<lambda>n. ends_with ''.json'' n \<and> \<not> ends_with ''.receipt.json'' n) (map snd (filter (\<lambda>k. fst k = p) (map fst f)))))"

definition for_session :: "(string \<Rightarrow> string) \<Rightarrow> string \<Rightarrow> string \<Rightarrow> evidence_dir \<Rightarrow> json list res" where
  "for_session H p session f = and_then (map_res (\<lambda>n. load_intent H (\<lambda>i. member i ''project_id'' = JStr p \<and>
       member i ''delivery_id'' = JStr (take (length n - 5) n)) ''delivery intent namespace binding differs'' (file_at f (p, n))) (intent_names p f))
     (\<lambda>is. Inr (filter (\<lambda>i. member i ''session_id'' = JStr session) (concat (map (\<lambda>x. case x of None \<Rightarrow> [] | Some i \<Rightarrow> [i]) is))))"

subsection \<open>The observation of the repository\<close>

record git_answers =
  ga_head :: "string res"
  ga_origin :: "string res"
  ga_branch :: "string res"
  ga_remote :: "string \<Rightarrow> string list res"
  ga_ancestor :: "string \<Rightarrow> string \<Rightarrow> unit res"
  ga_tree :: "string \<Rightarrow> string res"
  ga_changed :: "string \<Rightarrow> string \<Rightarrow> string list res"
  ga_diff :: "string \<Rightarrow> string \<Rightarrow> string res"

definition receipt_keys :: "string list" where
  "receipt_keys = [''delivery_id'', ''project_id'', ''repository_identity'', ''base_sha'', ''observed_sha'', ''intent_hash'', ''observed_tree_sha'',
     ''diff_sha256'', ''state'', ''observed_at'', ''receipt_sha256'']"

text \<open>The facts that a receipt states, without its time\<close>

definition receipt_facts :: "string \<Rightarrow> string \<Rightarrow> json \<Rightarrow> string \<Rightarrow> string \<Rightarrow> string \<Rightarrow> string \<Rightarrow> (string \<times> json) list" where
  "receipt_facts p d i identity head tree diff_sha = [(''delivery_id'', JStr d), (''project_id'', JStr p), (''repository_identity'', JStr identity),
     (''base_sha'', member i ''base_sha''), (''observed_sha'', JStr head), (''intent_hash'', member i ''content_sha256''),
     (''observed_tree_sha'', JStr tree), (''diff_sha256'', JStr diff_sha), (''state'', JStr ''VERIFIED'')]"

definition new_receipt :: "(string \<Rightarrow> string) \<Rightarrow> (string \<times> json) list \<Rightarrow> string \<Rightarrow> json" where
  "new_receipt H facts now = JObj (facts @ [(''observed_at'', JStr now), (''receipt_sha256'', hash_of H (JObj (facts @ [(''observed_at'', JStr now)])))])"

text \<open>The stored receipt, its hash tested; \<open>None\<close> if there is none\<close>

definition read_receipt :: "(string \<Rightarrow> string) \<Rightarrow> (json \<Rightarrow> bool) \<Rightarrow> file_content \<Rightarrow> json option res" where
  "read_receipt H agrees c = (case c of
     No_File \<Rightarrow> Inr None
   | Not_Json \<Rightarrow> reconciliation_error ''delivery receipt is unreadable''
   | Json v \<Rightarrow> unreadable ''delivery receipt is unreadable'' (and_then (build receipt_keys v) (\<lambda>r.
       if member r ''receipt_sha256'' \<noteq> hash_of H (without_field ''receipt_sha256'' r) then reconciliation_error ''delivery receipt hash is invalid''
       else if \<not> agrees r then reconciliation_error ''conflicting delivery receipt is rejected'' else Inr (Some r))))"

definition states_facts :: "(string \<times> json) list \<Rightarrow> json \<Rightarrow> bool" where
  "states_facts facts r = list_all (\<lambda>(k, x). member r k = x) facts"

definition observed_facts :: "git_answers \<Rightarrow> (string \<Rightarrow> string) \<Rightarrow> string \<Rightarrow> string \<Rightarrow> json \<Rightarrow> (string \<times> json) list res" where
  "observed_facts git H p d i = and_then (rec_check (member i ''state'' \<notin> JStr ` set pending_states) ''delivery intent is not pending reconciliation'') (\<lambda>_.
     and_then (ga_head git) (\<lambda>head. and_then (ga_origin git) (\<lambda>identity.
     and_then (rec_check (JStr identity \<noteq> member i ''repository_identity'') ''observed repository identity differs'') (\<lambda>_.
     and_then (ga_branch git) (\<lambda>branch. and_then (rec_check (JStr branch \<noteq> member i ''target_branch'') ''observed target branch differs'') (\<lambda>_.
     and_then (ga_remote git branch) (\<lambda>remote.
     and_then (rec_check (map (split_on (CHR 0x09)) remote \<noteq> [[head, ''refs/heads/'' @ branch]]) ''remote target ref does not match observed delivery'') (\<lambda>_.
     and_then (rec_check (JStr head = member i ''base_sha'') ''delivery has not occurred'') (\<lambda>_.
     and_then (rec_check (JStr head \<noteq> member i ''candidate_sha'') ''observed target SHA is not the authorized candidate'') (\<lambda>_.
     let base = text_of (member i ''base_sha'') in
     and_then (ga_ancestor git base head) (\<lambda>_. and_then (ga_tree git head) (\<lambda>tree. and_then (ga_changed git base head) (\<lambda>changed.
     and_then (ga_diff git base head) (\<lambda>diff.
     and_then (rec_check (JStr tree \<noteq> member i ''candidate_tree_sha'' \<or> enc_strs changed \<noteq> member i ''changed_files'' \<or>
       JStr (H diff) \<noteq> member i ''diff_sha256'') ''observed target tree or diff differs'') (\<lambda>_.
     and_then (rec_check (case str_list (member i ''allowed_paths'') of None \<Rightarrow> True | Some a \<Rightarrow> \<not> paths_in_scope changed a)
       ''observed target changed paths exceed intent'') (\<lambda>_. Inr (receipt_facts p d i identity head tree (H diff))))))))))))))))))"

definition verify_observation :: "git_answers \<Rightarrow> (string \<Rightarrow> string) \<Rightarrow> string \<Rightarrow> string \<Rightarrow> string \<Rightarrow> evidence_dir \<Rightarrow> json res" where
  "verify_observation git H now p d f = and_then (intent_get H (p, d) f) (\<lambda>found. case found of
     None \<Rightarrow> reconciliation_error ''delivery intent is missing''
   | Some i \<Rightarrow> and_then (observed_facts git H p d i) (\<lambda>facts.
       and_then (read_receipt H (states_facts facts) (file_at f (p, receipt_file d))) (\<lambda>prior. case prior of
         Some r \<Rightarrow> Inr r
       | None \<Rightarrow> Inr (new_receipt H facts now))))"

text \<open>The step of \<open>observe\<close> under the lock\<close>

definition record_receipt :: "(string \<Rightarrow> string) \<Rightarrow> string \<Rightarrow> string \<Rightarrow> json \<Rightarrow> evidence_dir \<Rightarrow> json res \<times> evidence_dir" where
  "record_receipt H p d r f = (case read_receipt H (\<lambda>old. list_all (\<lambda>k. json_eq (member old k) (member r k))
       (filter (\<lambda>k. k \<notin> {''observed_at'', ''receipt_sha256''}) receipt_keys)) (file_at f (p, receipt_file d)) of
     Inl e \<Rightarrow> (Inl e, f)
   | Inr (Some old) \<Rightarrow> (Inr old, f)
   | Inr None \<Rightarrow> (Inr r, put_file (p, receipt_file d) (Json r) f))"

definition observe :: "git_answers \<Rightarrow> (string \<Rightarrow> string) \<Rightarrow> string \<Rightarrow> string \<Rightarrow> string \<Rightarrow> evidence_dir \<Rightarrow> json res \<times> evidence_dir" where
  "observe git H now p d f = (case verify_observation git H now p d f of
     Inl e \<Rightarrow> (Inl e, f)
   | Inr r \<Rightarrow> record_receipt H p d r f)"

end
