(* ===== verification/ReconciliationSafety.thy ===== *)
theory ReconciliationSafety
  imports Reconciliation
begin

section \<open>Intents and receipts are written once\<close>

text \<open>
  The store of intents keeps the contract of an evidence store; a receipt is given only for exactly what was
  intended, and all observers of a delivery get the same receipt, in whatever order they verify and record.
\<close>

subsection \<open>File names\<close>

lemma intent_file_inj [simp]: "intent_file a = intent_file b \<longleftrightarrow> a = b"
  by (simp add: intent_file_def)

lemma receipt_file_inj [simp]: "receipt_file a = receipt_file b \<longleftrightarrow> a = b"
  by (simp add: receipt_file_def)

lemma id_no_dot: "delivery_id_match d \<Longrightarrow> CHR ''.'' \<notin> set d"
proof -
  have "\<not> is_lower_alnum CHR ''.''" by code_simp
  then show "delivery_id_match d \<Longrightarrow> CHR ''.'' \<notin> set d"
    by (cases d) (auto simp: delivery_id_match_def list_all_iff)
qed

lemma intent_not_receipt:
  assumes "delivery_id_match d"
  shows "intent_file d \<noteq> receipt_file e"
proof
  assume "intent_file d = receipt_file e"
  then have "d @ ''.json'' = (e @ ''.receipt'') @ ''.json''" by (simp add: intent_file_def receipt_file_def)
  then have "d = e @ ''.receipt''" by (simp only: append_same_eq)
  then show False using id_no_dot [OF assms] by simp
qed

subsection \<open>The contract\<close>

lemma intent_validate_members:
  assumes "intent_validate H i = Inr ()"
  obtains p d where "member i ''project_id'' = JStr p" "member i ''delivery_id'' = JStr d" "starts_with ''project-'' p" "delivery_id_match d"
    "paths_bound i"
  using assms by (auto simp: intent_validate_def steps_ok)

lemma str_list_JList: "str_list v = Some xs \<Longrightarrow> \<exists>ys. v = JList ys"
  by (cases v) (auto simp: str_list_def the_list_def)

lemma with_tuples_same:
  assumes "distinct (keys_of i)" "paths_bound i"
  shows "with_tuples i = Inr i"
proof -
  from assms(2) obtain a c where ac: "member i ''allowed_paths'' = JList a" "member i ''changed_files'' = JList c"
    by (auto simp: paths_bound_def split: option.splits dest!: str_list_JList)
  then obtain kvs where i: "i = JObj kvs" by (cases i) (auto simp: field_or_def field_def)
  have same: "x = member i k" if "(k, x) \<in> set kvs" for k x
    using that assms(1) by (simp add: i field_or_def field_def keys_of_def)
  have "map (\<lambda>(k, x). (k, if k = ''allowed_paths'' then JList a else if k = ''changed_files'' then JList c else x)) kvs = kvs"
    by (rule map_idI) (use same ac in auto)
  then show ?thesis using ac by (simp add: with_tuples_def tuple_of_def i)
qed

lemma intent_get_file: "intent_get H k f = and_then (check_path (fst k) (snd k)) (\<lambda>_. intent_get H k [((fst k, intent_file (snd k)), file_at f (fst k, intent_file (snd k)))])"
  by (cases k) (auto simp: intent_get_def file_at_def and_then_def split: sum.splits)

lemma intent_get_cong: "file_at f (fst k, intent_file (snd k)) = file_at g (fst k, intent_file (snd k)) \<Longrightarrow> intent_get H k f = intent_get H k g"
  by (cases k) (simp add: intent_get_def)

lemma intent_put_cases:
  obtains (error) e where "intent_put H i f = (Inl e, f)"
  | (again) old where "intent_put H i f = (Inr (member i ''content_sha256''), f)" "intent_get H (intent_key i) f = Inr (Some old)" "json_eq old i"
  | (fresh) "intent_put H i f = (Inr (member i ''content_sha256''), put_file (fst (intent_key i), intent_file (snd (intent_key i))) (Json i) f)"
      "intent_get H (intent_key i) f = Inr None" "intent_validate H i = Inr ()" "has_keys intent_keys i" "distinct (keys_of i)"
proof (cases "and_then (build intent_keys i) (\<lambda>_. and_then (intent_validate H i) (\<lambda>_. intent_get H (intent_key i) f))")
  case (Inl e)
  then show ?thesis by (intro error) (simp add: intent_put_def)
next
  case (Inr r)
  then have ok: "has_keys intent_keys i" "distinct (keys_of i)" "intent_validate H i = Inr ()" "intent_get H (intent_key i) f = Inr r"
    by (auto simp: and_then_ok)
  show ?thesis
  proof (cases r)
    case None
    then show ?thesis using Inr ok by (intro fresh) (simp_all add: intent_put_def)
  next
    case (Some old)
    show ?thesis
    proof (cases "json_eq old i")
      case True
      then show ?thesis using Inr ok Some by (intro again) (simp_all add: intent_put_def)
    next
      case False
      then show ?thesis using Inr Some by (intro error) (simp add: intent_put_def raise_def)
    qed
  qed
qed

lemma intent_put_found: "intent_put H i f = (Inr x, g) \<Longrightarrow> \<exists>j. intent_get H (intent_key i) g = Inr (Some j) \<and> json_eq j i"
proof (cases rule: intent_put_cases [of H i f])
  case fresh
  assume "intent_put H i f = (Inr x, g)"
  then have g: "g = put_file (fst (intent_key i), intent_file (snd (intent_key i))) (Json i) f" using fresh(1) by simp
  obtain p d where pd: "member i ''project_id'' = JStr p" "member i ''delivery_id'' = JStr d" "starts_with ''project-'' p" "delivery_id_match d"
    "paths_bound i" using fresh(3) by (rule intent_validate_members)
  have "read_intent H i = Inr i" using fresh(3-5) with_tuples_same [OF fresh(5) pd(5)] by (simp add: read_intent_def build_def)
  then have "intent_get H (intent_key i) g = Inr (Some i)"
    using pd by (simp add: g intent_get_def intent_key_def text_of_def check_path_def raise_if_def load_intent_def unreadable_def replace_exc_def)
  then show ?thesis by simp
qed auto

lemma intent_put_keeps: "intent_get H k f = Inr (Some j) \<Longrightarrow> intent_get H k (snd (intent_put H i f)) = Inr (Some j)"
proof (cases rule: intent_put_cases [of H i f])
  case fresh
  assume j: "intent_get H k f = Inr (Some j)"
  with fresh(2) have "k \<noteq> intent_key i" by auto
  then have "(fst k, intent_file (snd k)) \<noteq> (fst (intent_key i), intent_file (snd (intent_key i)))" by (auto simp: prod_eq_iff)
  then have "intent_get H k (snd (intent_put H i f)) = intent_get H k f" using fresh(1) by (intro intent_get_cong) auto
  then show ?thesis using j by simp
qed auto

interpretation intents: evidence_store "intent_put H" "intent_get H" intent_key json_eq for H
  by unfold_locales (rule json_eq_equivp, rule intent_put_found, assumption, rule intent_put_keeps)

subsection \<open>Receipts\<close>

definition sealed_receipt :: "(string \<Rightarrow> string) \<Rightarrow> json \<Rightarrow> bool" where
  "sealed_receipt H r = (has_keys receipt_keys r \<and> distinct (keys_of r) \<and> member r ''receipt_sha256'' = hash_of H (without_field ''receipt_sha256'' r))"

lemma read_receipt_ok: "read_receipt H agrees c = Inr (Some r) \<longleftrightarrow> c = Json r \<and> sealed_receipt H r \<and> agrees r"
  by (cases c) (auto simp: read_receipt_def unreadable_def replace_exc_def sealed_receipt_def and_then_def build_def raise_def split: if_splits)

lemma read_receipt_none: "read_receipt H agrees c = Inr None \<longleftrightarrow> c = No_File"
  by (cases c) (auto simp: read_receipt_def unreadable_def replace_exc_def and_then_def build_def raise_def split: if_splits)

lemma new_receipt_sealed:
  assumes "map fst facts = butlast (butlast receipt_keys)"
  shows "sealed_receipt H (new_receipt H facts now)"
proof -
  have fs: "fst ` set facts = set (butlast (butlast receipt_keys))" using assms by (metis set_map)
  have n: "''receipt_sha256'' \<notin> fst ` set facts" unfolding fs by (simp add: receipt_keys_def)
  have w: "filter (\<lambda>kv. fst kv \<noteq> ''receipt_sha256'') facts = facts" by (rule filter_True) (use n in force)
  have k: "map fst (facts @ [(''observed_at'', a), (''receipt_sha256'', b)]) = receipt_keys" for a b :: json
    using assms by (simp add: receipt_keys_def)
  have "map_of facts ''receipt_sha256'' = None" using n by (simp add: map_of_eq_None_iff)
  then show ?thesis
    by (simp add: sealed_receipt_def new_receipt_def has_keys_def keys_of_def field_or_def field_def without_field_def w k [simplified] map_add_def
        del: dump.simps) (simp add: receipt_keys_def)
qed

lemma facts_keys: "map fst (receipt_facts p d i identity head tree diff) = butlast (butlast receipt_keys)"
  by (simp add: receipt_facts_def receipt_keys_def)

lemma observed_factsE:
  assumes "observed_facts git H p d i = Inr facts"
  obtains head identity branch tree changed diff allowed where
    "facts = receipt_facts p d i identity head tree (H diff)" "member i ''state'' \<in> JStr ` set pending_states"
    "ga_head git = Inr head" "ga_origin git = Inr identity" "ga_branch git = Inr branch"
    "ga_remote git branch = Inr [join_on (CHR 0x09) [head, ''refs/heads/'' @ branch]]"
    "member i ''repository_identity'' = JStr identity" "member i ''target_branch'' = JStr branch" "member i ''base_sha'' \<noteq> JStr head"
    "member i ''candidate_sha'' = JStr head" "ga_ancestor git (text_of (member i ''base_sha'')) head = Inr ()" "ga_tree git head = Inr tree"
    "ga_changed git (text_of (member i ''base_sha'')) head = Inr changed" "ga_diff git (text_of (member i ''base_sha'')) head = Inr diff"
    "member i ''candidate_tree_sha'' = JStr tree" "member i ''changed_files'' = enc_strs changed" "member i ''diff_sha256'' = JStr (H diff)"
    "str_list (member i ''allowed_paths'') = Some allowed" "paths_in_scope changed allowed"
proof -
  obtain head identity branch remote tree changed diff u where raw:
    "Inr (receipt_facts p d i identity head tree (H diff)) = (Inr facts :: (string \<times> json) list res)" "\<not> member i ''state'' \<notin> JStr ` set pending_states"
    "ga_head git = Inr head" "ga_origin git = Inr identity" "\<not> JStr identity \<noteq> member i ''repository_identity''"
    "ga_branch git = Inr branch" "\<not> JStr branch \<noteq> member i ''target_branch''" "ga_remote git branch = Inr remote"
    "\<not> map (split_on (CHR 0x09)) remote \<noteq> [[head, ''refs/heads/'' @ branch]]" "\<not> JStr head = member i ''base_sha''" "\<not> JStr head \<noteq> member i ''candidate_sha''"
    "ga_ancestor git (text_of (member i ''base_sha'')) head = Inr u" "ga_tree git head = Inr tree"
    "ga_changed git (text_of (member i ''base_sha'')) head = Inr changed" "ga_diff git (text_of (member i ''base_sha'')) head = Inr diff"
    "\<not> (JStr tree \<noteq> member i ''candidate_tree_sha'' \<or> enc_strs changed \<noteq> member i ''changed_files'' \<or> JStr (H diff) \<noteq> member i ''diff_sha256'')"
    "\<not> (case str_list (member i ''allowed_paths'') of None \<Rightarrow> True | Some a \<Rightarrow> \<not> paths_in_scope changed a)"
    using assms unfolding observed_facts_def Let_def and_then_ok raise_if_ok
    by (elim exE conjE) (rule that; assumption)
  have o: "facts = receipt_facts p d i identity head tree (H diff)" "member i ''state'' \<in> JStr ` set pending_states"
    "JStr identity = member i ''repository_identity''" "JStr branch = member i ''target_branch''"
    "map (split_on (CHR 0x09)) remote = [[head, ''refs/heads/'' @ branch]]" "JStr head = member i ''candidate_sha''"
    "JStr tree = member i ''candidate_tree_sha''" "enc_strs changed = member i ''changed_files''" "JStr (H diff) = member i ''diff_sha256''"
    using raw by blast+
  obtain l where l: "remote = [l]" "split_on (CHR 0x09) l = [head, ''refs/heads/'' @ branch]" using o(5) by (cases remote) auto
  have "l = join_on (CHR 0x09) [head, ''refs/heads/'' @ branch]" using join_split [of "CHR 0x09" l] l(2) by simp
  moreover obtain allowed where "str_list (member i ''allowed_paths'') = Some allowed" "paths_in_scope changed allowed"
    using raw(17) by (auto split: option.splits)
  ultimately show thesis
    using raw(3,4,6,8,10,12-15) o l(1) by (intro that [of identity head tree diff branch changed allowed]) simp_all
qed

lemma verified_sealed:
  assumes "verify_observation git H now p d f = Inr r"
  shows "sealed_receipt H r"
proof -
  obtain i facts prior where "observed_facts git H p d i = Inr facts"
    "read_receipt H (states_facts facts) (file_at f (p, receipt_file d)) = Inr prior" "r = (case prior of Some x \<Rightarrow> x | None \<Rightarrow> new_receipt H facts now)"
    using assms by (auto simp: verify_observation_def and_then_ok split: option.splits)
  then show ?thesis
    by (cases prior) (auto simp: read_receipt_ok facts_keys elim!: observed_factsE intro!: new_receipt_sealed)
qed

subsection \<open>Histories\<close>

datatype recon_op =
    Re_Put json
  | Re_Record git_answers string string string evidence_dir

text \<open>A receipt is recorded after a verification that saw any earlier state of the directory.\<close>

fun recon_step :: "(string \<Rightarrow> string) \<Rightarrow> recon_op \<Rightarrow> evidence_dir \<Rightarrow> evidence_dir" where
  "recon_step H (Re_Put i) f = snd (intent_put H i f)"
| "recon_step H (Re_Record git now p d seen) f = (case verify_observation git H now p d seen of
     Inl e \<Rightarrow> f
   | Inr r \<Rightarrow> snd (record_receipt H p d r f))"

definition recon_run :: "(string \<Rightarrow> string) \<Rightarrow> recon_op list \<Rightarrow> evidence_dir \<Rightarrow> evidence_dir" where
  "recon_run H ops f = fold (recon_step H) ops f"

lemma put_keeps_receipt: "file_at (snd (intent_put H i f)) (p, receipt_file d) = file_at f (p, receipt_file d)"
proof (cases rule: intent_put_cases [of H i f])
  case fresh
  obtain p' d' where "member i ''project_id'' = JStr p'" "member i ''delivery_id'' = JStr d'" "delivery_id_match d'"
    using fresh(3) by (rule intent_validate_members)
  then show ?thesis using fresh(1) intent_not_receipt [of d' d] by (auto simp: intent_key_def text_of_def)
qed auto

lemma record_cases:
  obtains (error) e where "record_receipt H p d r f = (Inl e, f)"
  | (again) old where "record_receipt H p d r f = (Inr old, f)" "file_at f (p, receipt_file d) = Json old" "sealed_receipt H old"
  | (fresh) "record_receipt H p d r f = (Inr r, put_file (p, receipt_file d) (Json r) f)" "file_at f (p, receipt_file d) = No_File"
proof -
  let ?agrees = "\<lambda>old. list_all (\<lambda>k. json_eq (member old k) (member r k)) (filter (\<lambda>k. k \<notin> {''observed_at'', ''receipt_sha256''}) receipt_keys)"
  show thesis
  proof (cases "read_receipt H ?agrees (file_at f (p, receipt_file d))")
    case (Inl e)
    then show ?thesis by (intro error [of e]) (simp add: record_receipt_def)
  next
    case (Inr x)
    show ?thesis
    proof (cases x)
      case None
      have 1: "record_receipt H p d r f = (Inr r, put_file (p, receipt_file d) (Json r) f)" using Inr None by (simp add: record_receipt_def)
      show ?thesis by (rule fresh [OF 1 Inr [unfolded None read_receipt_none]])
    next
      case (Some old)
      have 1: "record_receipt H p d r f = (Inr old, f)" using Inr Some by (simp add: record_receipt_def)
      note 2 = Inr [unfolded Some read_receipt_ok]
      show ?thesis by (rule again [OF 1 2 [THEN conjunct1] 2 [THEN conjunct2, THEN conjunct1]])
    qed
  qed
qed

lemma step_keeps_receipt:
  assumes "file_at f (p, receipt_file d) = Json r" "sealed_receipt H r"
  shows "file_at (recon_step H op f) (p, receipt_file d) = Json r"
proof (cases op)
  case (Re_Put i)
  then show ?thesis using assms(1) by (simp add: put_keeps_receipt)
next
  case (Re_Record git now p' d' seen)
  show ?thesis
  proof (cases "verify_observation git H now p' d' seen")
    case (Inr v)
    show ?thesis
    proof (cases rule: record_cases [of H p' d' v f])
      case fresh
      then have "(p, receipt_file d) \<noteq> (p', receipt_file d')" using assms(1) by auto
      then show ?thesis using fresh(1) assms(1) Re_Record Inr by auto
    qed (use Re_Record Inr assms(1) in auto)
  qed (use Re_Record assms(1) in simp)
qed

lemma run_keeps_receipt:
  "file_at f (p, receipt_file d) = Json r \<Longrightarrow> sealed_receipt H r \<Longrightarrow> file_at (recon_run H ops f) (p, receipt_file d) = Json r"
  unfolding recon_run_def by (induction ops arbitrary: f) (simp_all add: step_keeps_receipt)

text \<open>C6. All observers of a delivery get the same receipt: once a verification of a delivery has been recorded,
  every later recording of a verification of it, whatever state of the directory and of the repository that
  verification saw and whatever happened in between, either fails or returns the receipt that was recorded.
\<close>

theorem observers_agree:
  assumes "verify_observation git H now p d seen = Inr v" and "record_receipt H p d v f = (Inr r, g)"
    and "verify_observation git' H now' p d seen' = Inr v'" and "record_receipt H p d v' (recon_run H ops g) = (Inr r', h)"
  shows "r' = r"
proof -
  have "file_at g (p, receipt_file d) = Json r \<and> sealed_receipt H r"
    using assms(2) verified_sealed [OF assms(1)] by (cases rule: record_cases [of H p d v f]) auto
  then have k: "file_at (recon_run H ops g) (p, receipt_file d) = Json r" using run_keeps_receipt by blast
  show ?thesis using assms(4) k by (cases rule: record_cases [of H p d v' "recon_run H ops g"]) auto
qed

subsection \<open>Intents\<close>

lemma get_some_id: "intent_get H k f = Inr (Some j) \<Longrightarrow> delivery_id_match (snd k)"
  by (cases k) (auto simp: intent_get_def and_then_ok check_path_def)

lemma step_keeps_intent:
  assumes "intent_get H k f = Inr (Some j)"
  shows "intent_get H k (recon_step H op f) = Inr (Some j)"
proof (cases op)
  case (Re_Put i)
  then show ?thesis using intent_put_keeps [OF assms] by simp
next
  case (Re_Record git now p d seen)
  show ?thesis
  proof (cases "verify_observation git H now p d seen")
    case (Inr v)
    have "file_at (snd (record_receipt H p d v f)) (fst k, intent_file (snd k)) = file_at f (fst k, intent_file (snd k))"
      using intent_not_receipt [OF get_some_id [OF assms], of d] by (cases rule: record_cases [of H p d v f]) auto
    then have "intent_get H k (snd (record_receipt H p d v f)) = intent_get H k f" by (rule intent_get_cong)
    then show ?thesis using assms Re_Record Inr by simp
  qed (use assms Re_Record in simp)
qed

interpretation intent_log: evidence_history "intent_put H" "intent_get H" intent_key json_eq "recon_step H" for H
  by unfold_locales (rule step_keeps_intent)

text \<open>C19. An intent is written once: after a successful \<open>put\<close>, whatever puts and recorded receipts follow, a
  second \<open>put\<close> under the same project and delivery succeeds only with an equal intent, and what is read
  afterwards is equal to the first.
\<close>

theorem intent_written_once:
  assumes "intent_put H i f = (Inr x, g)" and "intent_put H i' (recon_run H ops g) = (Inr x', h)" and "intent_key i' = intent_key i"
  shows "json_eq i i' \<and> (\<exists>j. intent_get H (intent_key i) h = Inr (Some j) \<and> json_eq j i)"
  using intent_log.write_once assms unfolding recon_run_def by blast

text \<open>C15. A receipt is given only for what was intended and approved: if a verification returns a receipt, then
  the stored intent was approved, passed compliance and was authorized, the head of the target branch, here
  and at the remote, is the intended candidate, its tree, difference and changed files are the intended
  ones and lie in the allowed paths, and the receipt names exactly that intent and that head.
\<close>

theorem receipt_means_delivered:
  assumes "verify_observation git H now p d f = Inr r"
  shows "\<exists>i head branch changed allowed. intent_get H (p, d) f = Inr (Some i) \<and>
    member (member i ''review_evidence'') ''status'' = JStr ''APPROVE'' \<and> member (member i ''compliance_evidence'') ''status'' = JStr ''PASS'' \<and>
    ga_head git = Inr head \<and> ga_branch git = Inr branch \<and> ga_remote git branch = Inr [join_on (CHR 0x09) [head, ''refs/heads/'' @ branch]] \<and>
    member i ''candidate_sha'' = JStr head \<and> member i ''target_branch'' = JStr branch \<and> ga_tree git head = Inr (text_of (member i ''candidate_tree_sha'')) \<and>
    ga_changed git (text_of (member i ''base_sha'')) head = Inr changed \<and> member i ''changed_files'' = enc_strs changed \<and>
    str_list (member i ''allowed_paths'') = Some allowed \<and> paths_in_scope changed allowed \<and>
    member r ''intent_hash'' = member i ''content_sha256'' \<and> member r ''observed_sha'' = JStr head \<and> member r ''project_id'' = JStr p \<and>
    member r ''delivery_id'' = JStr d"
proof -
  obtain i facts prior where i: "intent_get H (p, d) f = Inr (Some i)" and fa: "observed_facts git H p d i = Inr facts"
    and pr: "read_receipt H (states_facts facts) (file_at f (p, receipt_file d)) = Inr prior" "r = (case prior of Some x \<Rightarrow> x | None \<Rightarrow> new_receipt H facts now)"
    using assms by (auto simp: verify_observation_def and_then_ok split: option.splits)
  have v: "intent_validate H i = Inr ()"
    using i by (auto simp: intent_get_def and_then_ok load_intent_def unreadable_def replace_exc_def read_intent_def raise_def
        split: file_content.splits sum.splits exc.splits if_splits)
  have st: "states_facts facts r"
  proof (cases prior)
    case None
    then show ?thesis using fa pr(2) unfolding new_receipt_def states_facts_def
      by (elim observed_factsE) (simp add: receipt_facts_def field_or_def field_def)
  next
    case (Some x)
    then show ?thesis using pr by (simp add: read_receipt_ok)
  qed
  from v have "member (member i ''review_evidence'') ''status'' = JStr ''APPROVE''" "member (member i ''compliance_evidence'') ''status'' = JStr ''PASS''"
    by (simp_all add: intent_validate_def steps_ok)
  then show ?thesis using fa i st
    by (elim observed_factsE) (auto simp: states_facts_def receipt_facts_def text_of_def)
qed

end
