(* ===== verification/ReconciliationSample.thy ===== *)
theory ReconciliationSample
  imports ReconciliationSafety
begin

section \<open>A delivery that is intended and observed\<close>

text \<open>The properties of the reconciliation applied to one intent, one repository and two observers.\<close>

definition flat_hash :: "string \<Rightarrow> string" where
  "flat_hash s = replicate 64 CHR ''a''"

definition approved :: "string \<Rightarrow> json" where
  "approved s = JObj [(''status'', JStr s), (''authorization_status'', JStr ''AUTHORIZED'')]"

definition some_intent :: json where
  "some_intent = JObj [(''schema_version'', JStr ''1.0''), (''delivery_id'', JStr ''delivery-1''), (''project_id'', JStr ''project-1''),
     (''session_id'', JStr ''session-1''), (''plan_id'', JStr ''plan-1''), (''plan_hash'', JStr (replicate 64 CHR ''a'')), (''task_id'', JStr ''task-1''),
     (''task_hash'', JStr (replicate 64 CHR ''a'')), (''repository_identity'', JStr ''https://host/repo''), (''base_sha'', JStr (replicate 40 CHR ''b'')),
     (''candidate_sha'', JStr (replicate 40 CHR ''c'')), (''candidate_tree_sha'', JStr (replicate 40 CHR ''d'')), (''delivery_branch'', JStr ''agf/1''),
     (''target_branch'', JStr ''main''), (''allowed_paths'', enc_strs [''src/'']), (''changed_files'', enc_strs [''src/a.py'']),
     (''diff_sha256'', JStr (replicate 64 CHR ''a'')), (''review_sha256'', JStr (replicate 64 CHR ''a'')), (''compliance_sha256'', JStr (replicate 64 CHR ''a'')),
     (''authorization_sha256'', JStr (replicate 64 CHR ''a'')), (''review_evidence'', approved ''APPROVE''), (''compliance_evidence'', approved ''PASS''),
     (''authorization_evidence'', approved ''AUTHORIZED''), (''policy_hash'', JStr (replicate 64 CHR ''a'')), (''constitution_id'', JStr ''constitution-1''),
     (''authority_generation'', JInt 1), (''evidence_generation'', JInt 1), (''created_at'', JStr ''2026-01-01T00:00:00Z''),
     (''state'', JStr ''EXTERNAL_ACTION_REQUIRED''), (''content_sha256'', JStr (replicate 64 CHR ''a''))]"

definition some_git :: git_answers where
  "some_git = \<lparr>ga_head = Inr (replicate 40 CHR ''c''), ga_origin = Inr ''https://host/repo'', ga_branch = Inr ''main'',
     ga_remote = (\<lambda>_. Inr [replicate 40 CHR ''c'' @ CHR 0x09 # ''refs/heads/main'']), ga_ancestor = (\<lambda>_ _. Inr ()),
     ga_tree = (\<lambda>_. Inr (replicate 40 CHR ''d'')), ga_changed = (\<lambda>_ _. Inr [''src/a.py'']), ga_diff = (\<lambda>_ _. Inr [])\<rparr>"

definition intent_dir :: evidence_dir where
  "intent_dir = [((''project-1'', intent_file ''delivery-1''), Json some_intent)]"

lemma flat: "hash_of flat_hash v = JStr (replicate 64 CHR ''a'')" "flat_hash s = replicate 64 CHR ''a''"
  by (simp_all add: hash_of_def flat_hash_def)

lemma sample_puts: "intent_put flat_hash some_intent [] = (Inr (JStr (replicate 64 CHR ''a'')), intent_dir)"
  by code_simp

lemma sample_get: "intent_get flat_hash (''project-1'', ''delivery-1'') intent_dir = Inr (Some some_intent)"
  by code_simp

lemma sample_facts: "observed_facts some_git flat_hash ''project-1'' ''delivery-1'' some_intent = Inr (receipt_facts ''project-1'' ''delivery-1'' some_intent
    ''https://host/repo'' (replicate 40 CHR ''c'') (replicate 40 CHR ''d'') (replicate 64 CHR ''a''))"
  by code_simp

definition sample_receipt :: "string \<Rightarrow> json" where
  "sample_receipt now = new_receipt flat_hash (receipt_facts ''project-1'' ''delivery-1'' some_intent ''https://host/repo'' (replicate 40 CHR ''c'')
     (replicate 40 CHR ''d'') (replicate 64 CHR ''a'')) now"

definition receipt_dir :: evidence_dir where
  "receipt_dir = put_file (''project-1'', receipt_file ''delivery-1'') (Json (sample_receipt ''t1'')) intent_dir"

lemma dir_files: "file_at intent_dir (''project-1'', receipt_file ''delivery-1'') = No_File"
    "file_at receipt_dir (''project-1'', receipt_file ''delivery-1'') = Json (sample_receipt ''t1'')"
  by (simp_all add: intent_dir_def receipt_dir_def file_at_def intent_file_def receipt_file_def put_file_def)

lemma sample_verifies: "verify_observation some_git flat_hash now ''project-1'' ''delivery-1'' intent_dir = Inr (sample_receipt now)"
  by (simp add: verify_observation_def sample_get sample_facts dir_files read_receipt_def sample_receipt_def)

lemma sample_sealed: "sealed_receipt flat_hash (sample_receipt now)"
  unfolding sample_receipt_def by (rule new_receipt_sealed [OF facts_keys])

lemma sample_member: "k \<notin> {''observed_at'', ''receipt_sha256''} \<Longrightarrow> member (sample_receipt now) k = member (sample_receipt now') k"
  by (simp add: sample_receipt_def new_receipt_def field_or_def field_def receipt_facts_def)

lemma sample_records:
  "record_receipt flat_hash ''project-1'' ''delivery-1'' (sample_receipt ''t1'') intent_dir = (Inr (sample_receipt ''t1''), receipt_dir)"
  "record_receipt flat_hash ''project-1'' ''delivery-1'' (sample_receipt now) receipt_dir = (Inr (sample_receipt ''t1''), receipt_dir)"
proof -
  show "record_receipt flat_hash ''project-1'' ''delivery-1'' (sample_receipt ''t1'') intent_dir = (Inr (sample_receipt ''t1''), receipt_dir)"
    by (simp add: record_receipt_def dir_files read_receipt_def receipt_dir_def)
  have "read_receipt flat_hash (\<lambda>old. list_all (\<lambda>k. json_eq (member old k) (member (sample_receipt now) k))
      (filter (\<lambda>k. k \<notin> {''observed_at'', ''receipt_sha256''}) receipt_keys)) (Json (sample_receipt ''t1'')) = Inr (Some (sample_receipt ''t1''))"
    unfolding read_receipt_ok list_all_iff using sample_sealed sample_member [of _ "''t1''" now] by simp
  then show "record_receipt flat_hash ''project-1'' ''delivery-1'' (sample_receipt now) receipt_dir = (Inr (sample_receipt ''t1''), receipt_dir)"
    by (simp add: record_receipt_def dir_files)
qed

lemma receipt_again: "intent_put flat_hash some_intent receipt_dir = (Inr (JStr (replicate 64 CHR ''a'')), receipt_dir)"
proof -
  have k: "intent_key some_intent = (''project-1'', ''delivery-1'')" "member some_intent ''content_sha256'' = JStr (replicate 64 CHR ''a'')" by code_simp+
  have g: "intent_get flat_hash (''project-1'', ''delivery-1'') receipt_dir = Inr (Some some_intent)"
    using sample_get by (simp add: intent_get_def receipt_dir_def intent_file_def receipt_file_def)
  have "intent_validate flat_hash some_intent = Inr ()" "build intent_keys some_intent = Inr some_intent"
    using sample_puts by (auto simp: intent_put_def and_then_def build_def raise_def split: sum.splits if_splits)
  then show ?thesis using k g by (simp add: intent_put_def build_def)
qed

definition sample_record :: recon_op where
  "sample_record = Re_Record some_git ''t1'' ''project-1'' ''delivery-1'' intent_dir"

lemma receipt_run: "recon_run flat_hash [sample_record] intent_dir = receipt_dir"
  by (simp add: recon_run_def sample_record_def sample_verifies sample_records)

lemma observers_agree_witness:
  "fst (record_receipt flat_hash ''project-1'' ''delivery-1'' (sample_receipt ''t2'') (recon_run flat_hash [sample_record] receipt_dir)) = Inr (sample_receipt ''t1'')"
proof -
  have run: "recon_run flat_hash [sample_record] receipt_dir = receipt_dir"
    by (simp add: recon_run_def sample_record_def sample_verifies sample_records)
  have "record_receipt flat_hash ''project-1'' ''delivery-1'' (sample_receipt ''t2'') (recon_run flat_hash [sample_record] receipt_dir) =
    (Inr (sample_receipt ''t1''), receipt_dir)" unfolding run by (rule sample_records(2))
  from observers_agree [OF sample_verifies sample_records(1) sample_verifies this] this show ?thesis by simp
qed

lemma intent_written_once_witness:
  "json_eq some_intent some_intent \<and> (\<exists>j. intent_get flat_hash (intent_key some_intent) receipt_dir = Inr (Some j) \<and> json_eq j some_intent)"
proof (rule intent_written_once [OF sample_puts])
  show "intent_put flat_hash some_intent (recon_run flat_hash [sample_record] intent_dir) = (Inr (JStr (replicate 64 CHR ''a'')), receipt_dir)"
    unfolding receipt_run by (rule receipt_again)
qed simp

lemma receipt_means_delivered_witness:
  "\<exists>i head. intent_get flat_hash (''project-1'', ''delivery-1'') intent_dir = Inr (Some i) \<and> ga_head some_git = Inr head \<and>
    member i ''candidate_sha'' = JStr head \<and> member (sample_receipt ''t1'') ''observed_sha'' = JStr head"
  using receipt_means_delivered [OF sample_verifies [of "''t1''"]] by blast

end
