(* ===== verification/ExternalEvidence.thy ===== *)
theory ExternalEvidence
  imports Evidence Authority
begin

section \<open>Evidence of external results (external_advancement.py)\<close>

text \<open>
  Two kinds of records signed by the owner: that he authorized an advance of the target, and that he accepts
  an external result. \<open>cr\<close> is the crypto of the owner's envelope, \<open>pru\<close> the parsing of a remote with its two
  arguments. The store of advances takes no lock: its \<open>put\<close> is two steps, the test and the write.
\<close>

abbreviation advancement_error :: "string \<Rightarrow> 'a res" where
  "advancement_error m \<equiv> raise ExternalAdvancementError m"

abbreviation adv_check :: "bool \<Rightarrow> string \<Rightarrow> unit res" where
  "adv_check b m \<equiv> raise_if b ExternalAdvancementError m"

definition sha_40 :: "string \<Rightarrow> bool" where
  "sha_40 s = (length s = 40 \<and> list_all is_hex s)"

definition evidence_id_match :: "string \<Rightarrow> bool" where
  "evidence_id_match s = (case s of [] \<Rightarrow> False
     | c # cs \<Rightarrow> is_lower_alnum c \<and> 2 \<le> length cs \<and> length cs \<le> 127 \<and> list_all (\<lambda>x. is_lower_alnum x \<or> x = CHR ''-'') cs)"

definition str_or_empty :: "json \<Rightarrow> string" where
  "str_or_empty v = (case v of JStr s \<Rightarrow> s | _ \<Rightarrow> [])"

definition namespace_key :: "string \<Rightarrow> json \<Rightarrow> string \<times> string" where
  "namespace_key ident v = (str_or_empty (member v ''project_id''), str_or_empty (member v ident))"

text \<open>The remote of a value of any type: one that is no text fails as the empty text does.\<close>

definition remote_identity_of :: "(string \<Rightarrow> remote_info res) \<Rightarrow> json \<Rightarrow> string res" where
  "remote_identity_of pru v = registry_canonical pru (str_or_empty v)"

subsection \<open>Authorized advances\<close>

definition advancement_keys :: "string list" where
  "advancement_keys = [''schema_version'', ''advancement_id'', ''project_id'', ''session_id'', ''repository_identity'', ''branch'', ''previous_sha'',
     ''target_sha'', ''github'', ''owner_payload'', ''owner_envelope'', ''observed_at'', ''provenance'', ''evidence_hash'']"

text \<open>The tests of the owner's payload; a wrong type or envelope is reported as an invalid authorization.\<close>

definition owner_authorizes :: "crypto \<Rightarrow> (string \<Rightarrow> remote_info res) \<Rightarrow> json \<Rightarrow> unit res" where
  "owner_authorizes cr pru v = (let p = member v ''owner_payload'' in
     replace_exc (\<lambda>c. c \<in> {AttributeError, TypeError, OwnerAuthorityError}) ExternalAdvancementError ''Owner authorization is invalid'' (steps [
       adv_check (\<not> json_eq (member p ''project_id'') (member v ''project_id'')) ''Owner authorization project mismatch'',
       adv_check (\<not> json_eq (member p ''target_sha'') (member v ''target_sha'')) ''Owner authorization target mismatch'',
       adv_check (\<not> json_eq (member p ''operation_id'') (member v ''advancement_id'')) ''Owner authorization operation mismatch'',
       adv_check (member p ''decision'' \<noteq> JStr ''AUTHORIZE_EXTERNAL_ADVANCE'') ''Owner authorization decision mismatch'',
       adv_check (\<not> json_eq (member p ''branch'') (member v ''branch'')) ''Owner authorization branch mismatch'',
       adv_check (\<not> json_eq (member p ''previous_sha'') (member v ''previous_sha'')) ''Owner authorization baseline mismatch'',
       adv_check (\<not> json_eq (member p ''github'') (member v ''github'')) ''Owner authorization merge evidence mismatch'',
       and_then (remote_identity_of pru (field_or (JStr []) ''repository_identity'' p)) (\<lambda>a. and_then (remote_identity_of pru (member v ''repository_identity''))
         (\<lambda>b. adv_check (a \<noteq> b) ''Owner authorization repository mismatch'')),
       verify_envelope cr p (member v ''owner_envelope'')]))"

definition advancement_validate :: "crypto \<Rightarrow> (string \<Rightarrow> remote_info res) \<Rightarrow> json \<Rightarrow> unit res" where
  "advancement_validate cr pru v = steps [
     all_tests [Inr (member v ''schema_version'' = JStr ''1.0''), matches evidence_id_match (member v ''advancement_id'')]
       ExternalAdvancementError ''external advancement identity is invalid'',
     all_tests [prefixed ''project-'' (member v ''project_id''), prefixed ''session-'' (member v ''session_id'')]
       ExternalAdvancementError ''external advancement binding is invalid'',
     all_tests [matches sha_40 (member v ''previous_sha''), matches sha_40 (member v ''target_sha'')]
       ExternalAdvancementError ''external advancement SHA is invalid'',
     adv_check (member v ''previous_sha'' = member v ''target_sha'') ''external advancement target or branch is invalid'',
     adv_check (member v ''provenance'' \<noteq> JStr ''EXTERNAL_OWNER_AUTHORIZED_ADVANCE'') ''external advancement provenance is invalid'',
     adv_check (\<not> is_dict (member v ''github'') \<or> member (member v ''github'') ''state'' \<noteq> JStr ''MERGED'') ''GitHub merge evidence is missing'',
     adv_check (member (member v ''github'') ''merge_commit'' \<noteq> member v ''target_sha'') ''GitHub merge target does not match'',
     adv_check (\<not> json_eq (member (member v ''github'') ''base_branch'') (member v ''branch'')) ''GitHub base branch does not match'',
     adv_check (\<not> is_dict (member v ''owner_payload'') \<or> \<not> is_dict (member v ''owner_envelope'')) ''Owner authorization evidence is missing'',
     owner_authorizes cr pru v,
     adv_check (member v ''evidence_hash'' \<noteq> hash_of (cr_hash cr) (without_field ''evidence_hash'' v)) ''external advancement evidence hash is invalid'']"

definition check_name :: "string \<Rightarrow> (string \<times> string) \<Rightarrow> unit res" where
  "check_name m k = adv_check (\<not> starts_with ''project-'' (fst k) \<or> \<not> evidence_id_match (snd k)) m"

definition json_file :: "string \<times> string \<Rightarrow> string \<times> string" where
  "json_file k = (fst k, snd k @ ''.json'')"

definition read_advancement :: "crypto \<Rightarrow> (string \<Rightarrow> remote_info res) \<Rightarrow> file_content \<Rightarrow> json option res" where
  "read_advancement cr pru c = (case c of
     No_File \<Rightarrow> Inr None
   | Not_Json \<Rightarrow> raise ValueError []
   | Json v \<Rightarrow> and_then (build advancement_keys v) (\<lambda>i. and_then (advancement_validate cr pru i) (\<lambda>_. Inr (Some i))))"

definition advancement_get :: "crypto \<Rightarrow> (string \<Rightarrow> remote_info res) \<Rightarrow> string \<times> string \<Rightarrow> evidence_dir \<Rightarrow> json option res" where
  "advancement_get cr pru k f = and_then (check_name ''external advancement path identity is invalid'' k) (\<lambda>_. read_advancement cr pru (file_at f (json_file k)))"

definition advancement_key :: "json \<Rightarrow> string \<times> string" where
  "advancement_key v = namespace_key ''advancement_id'' v"

text \<open>The test before the write: whether there is something to write\<close>

definition advancement_test :: "crypto \<Rightarrow> (string \<Rightarrow> remote_info res) \<Rightarrow> json \<Rightarrow> evidence_dir \<Rightarrow> bool res" where
  "advancement_test cr pru v f = and_then (build advancement_keys v) (\<lambda>_. and_then (advancement_validate cr pru v) (\<lambda>_.
     and_then (advancement_get cr pru (advancement_key v) f) (\<lambda>old. case old of
       None \<Rightarrow> Inr True
     | Some i \<Rightarrow> if \<not> json_eq i v then advancement_error ''external advancement replay conflicts'' else Inr False)))"

definition advancement_write :: "json \<Rightarrow> evidence_dir \<Rightarrow> evidence_dir" where
  "advancement_write v f = put_file (json_file (advancement_key v)) (Json v) f"

definition advancement_put :: "crypto \<Rightarrow> (string \<Rightarrow> remote_info res) \<Rightarrow> json \<Rightarrow> evidence_dir \<Rightarrow> json res \<times> evidence_dir" where
  "advancement_put cr pru v f = (case advancement_test cr pru v f of
     Inl e \<Rightarrow> (Inl e, f)
   | Inr missing \<Rightarrow> (Inr (member v ''evidence_hash''), if missing then advancement_write v f else f))"

text \<open>The registered project that an advance is compared with, and the answers of git\<close>

record target_view =
  tv_project_id :: string
  tv_default_branch :: string
  tv_origin_url :: string
  tv_branch :: "string res"
  tv_head :: "string res"
  tv_ancestor :: "string \<Rightarrow> string \<Rightarrow> bool"

definition verify_advancement :: "crypto \<Rightarrow> (string \<Rightarrow> remote_info res) \<Rightarrow> target_view \<Rightarrow> bool \<Rightarrow> json \<Rightarrow> unit res" where
  "verify_advancement cr pru t current v = and_then (advancement_validate cr pru v) (\<lambda>_.
     and_then (adv_check (member v ''project_id'' \<noteq> JStr (tv_project_id t)) ''external advancement project mismatch'') (\<lambda>_.
     and_then (adv_check (member v ''branch'' \<noteq> JStr (tv_default_branch t)) ''external advancement branch binding mismatch'') (\<lambda>_.
     and_then (registry_canonical pru (tv_origin_url t)) (\<lambda>a. and_then (remote_identity_of pru (member v ''repository_identity'')) (\<lambda>b.
     and_then (adv_check (a \<noteq> b) ''external advancement repository mismatch'') (\<lambda>_.
     and_then (if \<not> current then Inr () else and_then (tv_branch t) (\<lambda>branch.
       and_then (adv_check (branch \<noteq> tv_default_branch t) ''external advancement branch is not canonical'') (\<lambda>_.
       and_then (tv_head t) (\<lambda>head. adv_check (JStr head \<noteq> member v ''target_sha'') ''external advancement target is not checked out'')))) (\<lambda>_.
     adv_check (\<not> tv_ancestor t (str_or_empty (member v ''previous_sha'')) (str_or_empty (member v ''target_sha'')))
       ''external advancement lineage is not an ancestor relation'')))))))"

subsection \<open>Accepted results\<close>

definition acceptance_keys :: "string list" where
  "acceptance_keys = [''schema_version'', ''acceptance_id'', ''project_id'', ''session_id'', ''repository_identity'', ''branch'', ''previous_sha'',
     ''target_sha'', ''github'', ''owner_payload'', ''owner_envelope'', ''observed_at'', ''provenance'', ''evidence_hash'']"

definition acceptance_validate :: "crypto \<Rightarrow> json \<Rightarrow> unit res" where
  "acceptance_validate cr v = (let p = member v ''owner_payload'' in steps [
     all_tests [Inr (member v ''schema_version'' = JStr ''1.0''), matches evidence_id_match (member v ''acceptance_id'')]
       ExternalAdvancementError ''external result acceptance identity is invalid'',
     all_tests [prefixed ''project-'' (member v ''project_id''), prefixed ''session-'' (member v ''session_id'')]
       ExternalAdvancementError ''external result acceptance binding is invalid'',
     all_tests [matches sha_40 (member v ''previous_sha''), matches sha_40 (member v ''target_sha'')]
       ExternalAdvancementError ''external result acceptance SHA is invalid'',
     adv_check (member v ''provenance'' \<noteq> JStr ''EXTERNAL_RESULT_ACCEPTANCE'') ''external result acceptance provenance is invalid'',
     adv_check (\<not> is_dict (member v ''github'') \<or> member (member v ''github'') ''state'' \<noteq> JStr ''MERGED'') ''external result merge evidence is missing'',
     adv_check (member (member v ''github'') ''merge_commit'' \<noteq> member v ''target_sha'') ''external result target does not match'',
     adv_check (\<not> is_dict p \<or> \<not> is_dict (member v ''owner_envelope'')) ''external result Owner acceptance is missing'',
     adv_check (member p ''decision'' \<noteq> JStr ''ACCEPT_EXTERNAL_RESULT'') ''external result acceptance decision is invalid'',
     adv_check (member p ''acceptance_id'' \<noteq> member v ''acceptance_id'') ''external result acceptance identity mismatch'',
     adv_check (member p ''project_id'' \<noteq> member v ''project_id'') ''external result acceptance project mismatch'',
     adv_check (member p ''target_sha'' \<noteq> member v ''target_sha'') ''external result acceptance target mismatch'',
     adv_check (member p ''previous_sha'' \<noteq> member v ''previous_sha'') ''external result acceptance baseline mismatch'',
     adv_check (\<not> json_eq (member p ''github'') (member v ''github'')) ''external result acceptance merge mismatch'',
     replace_exc (\<lambda>c. c \<in> {AttributeError, TypeError, OwnerAuthorityError}) ExternalAdvancementError ''external result Owner signature is invalid''
       (verify_envelope cr p (member v ''owner_envelope'')),
     adv_check (member v ''evidence_hash'' \<noteq> hash_of (cr_hash cr) (without_field ''evidence_hash'' v)) ''external result acceptance hash is invalid''])"

definition read_acceptance :: "crypto \<Rightarrow> file_content \<Rightarrow> json option res" where
  "read_acceptance cr c = (case c of
     No_File \<Rightarrow> Inr None
   | Not_Json \<Rightarrow> advancement_error ''external result acceptance is unreadable''
   | Json v \<Rightarrow> replace_exc (\<lambda>k. k = TypeError \<or> is_value_error k) ExternalAdvancementError ''external result acceptance is unreadable''
       (and_then (build acceptance_keys v) (\<lambda>i. and_then (acceptance_validate cr i) (\<lambda>_. Inr (Some i)))))"

definition acceptance_get :: "crypto \<Rightarrow> string \<times> string \<Rightarrow> evidence_dir \<Rightarrow> json option res" where
  "acceptance_get cr k f = and_then (check_name ''external result acceptance path identity is invalid'' k) (\<lambda>_. read_acceptance cr (file_at f (json_file k)))"

definition acceptance_key :: "json \<Rightarrow> string \<times> string" where
  "acceptance_key v = namespace_key ''acceptance_id'' v"

definition acceptance_put :: "crypto \<Rightarrow> json \<Rightarrow> evidence_dir \<Rightarrow> json res \<times> evidence_dir" where
  "acceptance_put cr v f = (case and_then (build acceptance_keys v) (\<lambda>_. and_then (acceptance_validate cr v) (\<lambda>_. acceptance_get cr (acceptance_key v) f)) of
     Inl e \<Rightarrow> (Inl e, f)
   | Inr (Some old) \<Rightarrow> if \<not> json_eq old v then (advancement_error ''external result acceptance replay conflicts'', f)
       else (Inr (member v ''evidence_hash''), f)
   | Inr None \<Rightarrow> (Inr (member v ''evidence_hash''), put_file (json_file (acceptance_key v)) (Json v) f))"

end
