(* ===== verification/ExternalSafety.thy ===== *)
theory ExternalSafety
  imports ExternalEvidence
begin

section \<open>What the stores of external evidence keep\<close>

text \<open>
  Both stores keep the contract of an evidence store when their operations follow each other; the store of
  advances loses it when two writers meet between test and write.
\<close>

lemma json_file_inj [simp]: "json_file k = json_file l \<longleftrightarrow> k = l"
  by (auto simp: json_file_def prod_eq_iff)

lemma namespace_key_valid:
  assumes "prefixed ''project-'' (member v ''project_id'') = Inr True" "matches evidence_id_match (member v ident) = Inr True"
  shows "check_name m (namespace_key ident v) = Inr ()"
  using assms by (auto simp: check_name_def namespace_key_def str_or_empty_def)

subsection \<open>Accepted results\<close>

lemma acceptance_name: "acceptance_validate cr v = Inr () \<Longrightarrow> check_name m (acceptance_key v) = Inr ()"
  unfolding acceptance_key_def by (rule namespace_key_valid) (auto simp: acceptance_validate_def steps_ok Let_def)

lemma acceptance_get_cong: "file_at f (json_file k) = file_at g (json_file k) \<Longrightarrow> acceptance_get cr k f = acceptance_get cr k g"
  by (simp add: acceptance_get_def)

lemma acceptance_put_cases:
  obtains (error) e where "acceptance_put cr v f = (Inl e, f)"
  | (again) old where "acceptance_put cr v f = (Inr (member v ''evidence_hash''), f)" "acceptance_get cr (acceptance_key v) f = Inr (Some old)" "json_eq old v"
  | (fresh) "acceptance_put cr v f = (Inr (member v ''evidence_hash''), put_file (json_file (acceptance_key v)) (Json v) f)"
      "acceptance_get cr (acceptance_key v) f = Inr None" "acceptance_validate cr v = Inr ()" "build acceptance_keys v = Inr v"
proof (cases "and_then (build acceptance_keys v) (\<lambda>_. and_then (acceptance_validate cr v) (\<lambda>_. acceptance_get cr (acceptance_key v) f))")
  case (Inl e)
  then show ?thesis by (intro error) (simp add: acceptance_put_def)
next
  case (Inr r)
  then have ok: "build acceptance_keys v = Inr v" "acceptance_validate cr v = Inr ()" "acceptance_get cr (acceptance_key v) f = Inr r"
    by (auto simp: and_then_ok)
  have put: "acceptance_put cr v f = (case r of None \<Rightarrow> (Inr (member v ''evidence_hash''), put_file (json_file (acceptance_key v)) (Json v) f)
    | Some old \<Rightarrow> if \<not> json_eq old v then (advancement_error ''external result acceptance replay conflicts'', f) else (Inr (member v ''evidence_hash''), f))"
    unfolding acceptance_put_def Inr by simp
  show ?thesis
  proof (cases r)
    case None
    show ?thesis by (rule fresh [OF _ _ ok(2,1)]) (use put ok(3) None in simp_all)
  next
    case (Some old)
    show ?thesis
    proof (cases "json_eq old v")
      case True
      show ?thesis by (rule again) (use put ok(3) Some True in simp_all)
    next
      case False
      show ?thesis by (rule error) (use put Some False in \<open>simp add: raise_def\<close>)
    qed
  qed
qed

lemma acceptance_put_found:
  assumes "acceptance_put cr v f = (Inr x, g)"
  shows "\<exists>j. acceptance_get cr (acceptance_key v) g = Inr (Some j) \<and> json_eq j v"
proof (cases rule: acceptance_put_cases [of cr v f])
  case fresh
  then have "g = put_file (json_file (acceptance_key v)) (Json v) f" using assms by simp
  then have "acceptance_get cr (acceptance_key v) g = Inr (Some v)"
    using fresh(3,4) acceptance_name [OF fresh(3)] by (simp add: acceptance_get_def read_acceptance_def replace_exc_def build_def)
  then show ?thesis by simp
qed (use assms in auto)

lemma acceptance_put_keeps:
  assumes "acceptance_get cr k f = Inr (Some j)"
  shows "acceptance_get cr k (snd (acceptance_put cr v f)) = Inr (Some j)"
proof (cases rule: acceptance_put_cases [of cr v f])
  case fresh
  with assms have "k \<noteq> acceptance_key v" by auto
  then have "acceptance_get cr k (snd (acceptance_put cr v f)) = acceptance_get cr k f" using fresh(1) by (intro acceptance_get_cong) simp
  then show ?thesis using assms by simp
qed (use assms in auto)

interpretation acceptances: evidence_store "acceptance_put cr" "acceptance_get cr" acceptance_key json_eq for cr
  by unfold_locales (rule json_eq_equivp, rule acceptance_put_found, assumption, rule acceptance_put_keeps)

interpretation acceptance_log: evidence_history "acceptance_put cr" "acceptance_get cr" acceptance_key json_eq "\<lambda>v f. snd (acceptance_put cr v f)" for cr
  by unfold_locales (rule acceptance_put_keeps)

subsection \<open>Authorized advances\<close>

lemma advancement_name: "advancement_validate cr pru v = Inr () \<Longrightarrow> check_name m (advancement_key v) = Inr ()"
  unfolding advancement_key_def by (rule namespace_key_valid) (auto simp: advancement_validate_def steps_ok)

lemma advancement_test_ok:
  "advancement_test cr pru v f = Inr b \<longleftrightarrow> build advancement_keys v = Inr v \<and> advancement_validate cr pru v = Inr () \<and>
     (if b then advancement_get cr pru (advancement_key v) f = Inr None
      else (\<exists>i. advancement_get cr pru (advancement_key v) f = Inr (Some i) \<and> json_eq i v))"
  by (auto simp: advancement_test_def and_then_ok raise_def split: option.splits if_splits)

lemma read_written: "build advancement_keys v = Inr v \<Longrightarrow> advancement_validate cr pru v = Inr () \<Longrightarrow>
    advancement_get cr pru (advancement_key v) (advancement_write v f) = Inr (Some v)"
  using advancement_name [of cr pru v] by (simp add: advancement_get_def read_advancement_def advancement_write_def build_def)

lemma write_elsewhere: "k \<noteq> advancement_key v \<Longrightarrow> advancement_get cr pru k (advancement_write v f) = advancement_get cr pru k f"
  by (simp add: advancement_get_def advancement_write_def)

lemma advancement_put_found:
  assumes "advancement_put cr pru v f = (Inr x, g)"
  shows "\<exists>j. advancement_get cr pru (advancement_key v) g = Inr (Some j) \<and> json_eq j v"
proof -
  obtain b where b: "advancement_test cr pru v f = Inr b" "g = (if b then advancement_write v f else f)"
    using assms by (auto simp: advancement_put_def split: sum.splits)
  show ?thesis
  proof (cases b)
    case True
    then show ?thesis using b read_written [of v cr pru f] by (auto simp: advancement_test_ok)
  next
    case False
    then show ?thesis using b by (auto simp: advancement_test_ok)
  qed
qed

lemma advancement_put_keeps:
  assumes "advancement_get cr pru k f = Inr (Some j)"
  shows "advancement_get cr pru k (snd (advancement_put cr pru v f)) = Inr (Some j)"
proof (cases "advancement_test cr pru v f")
  case (Inr b)
  show ?thesis
  proof (cases b)
    case True
    then have "k \<noteq> advancement_key v" using Inr assms by (auto simp: advancement_test_ok)
    then show ?thesis using assms Inr True by (simp add: advancement_put_def write_elsewhere)
  qed (use assms Inr in \<open>simp add: advancement_put_def\<close>)
qed (use assms in \<open>simp add: advancement_put_def\<close>)

interpretation advances: evidence_store "advancement_put cr pru" "advancement_get cr pru" advancement_key json_eq for cr pru
  by unfold_locales (rule json_eq_equivp, rule advancement_put_found, assumption, rule advancement_put_keeps)

text \<open>An acceptance is never replaced: after a successful \<open>put\<close> of an accepted result, a later successful
  \<open>put\<close> under the same name has an equal record, whatever puts came in between, and the record that is read
  is equal to the first.
\<close>

theorem acceptance_written_once:
  assumes "acceptance_put cr v f = (Inr x, g)"
    and "acceptance_put cr w (fold (\<lambda>i f. snd (acceptance_put cr i f)) vs g) = (Inr y, h)" and "acceptance_key w = acceptance_key v"
  shows "json_eq v w \<and> (\<exists>j. acceptance_get cr (acceptance_key v) h = Inr (Some j) \<and> json_eq j v)"
  using acceptance_log.write_once [OF assms] .


end
