(* ===== verification/ExternalSample.thy ===== *)
theory ExternalSample
  imports ExternalSafety
begin

section \<open>An advance and an accepted result\<close>

text \<open>The properties of the stores of external evidence applied to one accepted result and to two advances of one name.\<close>

definition owner_crypto :: crypto where
  "owner_crypto = \<lparr>cr_hash = (\<lambda>_. replicate 64 CHR ''a''), cr_anchor = Inr (''owner'', replicate 64 CHR ''a''),
     cr_signed = (\<lambda>_ _. True), cr_legacy = None\<rparr>"

definition one_remote :: "string \<Rightarrow> remote_info res" where
  "one_remote s = Inr \<lparr>rem_normalized = s, rem_identity = ''host/repo'', rem_host = ''host'', rem_scheme = ''https''\<rparr>"

definition owner_signature :: json where
  "owner_signature = JObj [(''signature_scheme'', JStr ''Ed25519''), (''signature_version'', JStr ''1''), (''key_id'', JStr ''owner''),
     (''public_key_fingerprint'', JStr (replicate 64 CHR ''a'')), (''payload_hash'', JStr (replicate 64 CHR ''a'')), (''signature'', JStr ''s'')]"

definition merged_github :: json where
  "merged_github = JObj [(''state'', JStr ''MERGED''), (''merge_commit'', JStr (replicate 40 CHR ''c'')), (''base_branch'', JStr ''main'')]"

definition bound_members :: "(string \<times> json) list" where
  "bound_members = [(''project_id'', JStr ''project-1''), (''repository_identity'', JStr ''https://host/repo''), (''branch'', JStr ''main''),
     (''previous_sha'', JStr (replicate 40 CHR ''b'')), (''target_sha'', JStr (replicate 40 CHR ''c'')), (''github'', merged_github)]"

definition record_members :: "json \<Rightarrow> string \<Rightarrow> (string \<times> json) list" where
  "record_members payload now = [(''schema_version'', JStr ''1.0''), (''session_id'', JStr ''session-1'')] @ bound_members @
     [(''owner_payload'', payload), (''owner_envelope'', owner_signature), (''observed_at'', JStr now), (''evidence_hash'', JStr (replicate 64 CHR ''a''))]"

definition some_acceptance :: json where
  "some_acceptance = JObj ([(''acceptance_id'', JStr ''accept-1''), (''provenance'', JStr ''EXTERNAL_RESULT_ACCEPTANCE'')] @
     record_members (JObj ([(''decision'', JStr ''ACCEPT_EXTERNAL_RESULT''), (''acceptance_id'', JStr ''accept-1'')] @ bound_members)) ''t1'')"

definition some_advance :: "string \<Rightarrow> json" where
  "some_advance now = JObj ([(''advancement_id'', JStr ''advance-1''), (''provenance'', JStr ''EXTERNAL_OWNER_AUTHORIZED_ADVANCE'')] @
     record_members (JObj ([(''decision'', JStr ''AUTHORIZE_EXTERNAL_ADVANCE''), (''operation_id'', JStr ''advance-1'')] @ bound_members)) now)"

definition acceptance_dir :: evidence_dir where
  "acceptance_dir = [((''project-1'', ''accept-1.json''), Json some_acceptance)]"

lemma acceptance_put_run:
  "acceptance_put owner_crypto some_acceptance [] = (Inr (JStr (replicate 64 CHR ''a'')), acceptance_dir)"
  "acceptance_put owner_crypto some_acceptance acceptance_dir = (Inr (JStr (replicate 64 CHR ''a'')), acceptance_dir)"
  by code_simp+

lemma acceptance_written_once_witness:
  "json_eq some_acceptance some_acceptance \<and>
   (\<exists>j. acceptance_get owner_crypto (acceptance_key some_acceptance) acceptance_dir = Inr (Some j) \<and> json_eq j some_acceptance)"
  by (rule acceptance_written_once [OF acceptance_put_run(1), where vs = "[some_acceptance]"]) (simp_all add: acceptance_put_run)

lemma advance_tests:
  "advancement_test owner_crypto one_remote (some_advance ''t1'') [] = Inr True"
  "advancement_test owner_crypto one_remote (some_advance ''t2'') [] = Inr True"
  "advancement_key (some_advance ''t2'') = advancement_key (some_advance ''t1'')"
  "\<not> json_eq (some_advance ''t1'') (some_advance ''t2'')"
  by code_simp+


end
