(* ===== verification/ObservedMerge.thy ===== *)
theory ObservedMerge
  imports ExternalEvidence
begin

section \<open>Observed merges (observed_merge.py)\<close>

text \<open>
  Records in which the owner attests that a pull request was merged, and the chain of such records between
  two commits. \<open>urlsplit\<close> of the standard library is written out; \<open>host_ok\<close> is what it asks of bracketed
  hosts and of hosts outside ASCII. The loop that follows the chain is a partial function; that it always
  returns is proved.
\<close>

abbreviation merge_error :: "string \<Rightarrow> 'a res" where
  "merge_error m \<equiv> raise ObservedMergeError m"

abbreviation om_check :: "bool \<Rightarrow> string \<Rightarrow> unit res" where
  "om_check b m \<equiv> raise_if b ObservedMergeError m"

subsection \<open>The coordinates of a repository\<close>

text \<open>Leading control characters and spaces and all tabs and line ends are dropped.\<close>

definition clean_url :: "string \<Rightarrow> string" where
  "clean_url s = filter (\<lambda>c. c \<notin> {CHR 0x09, CHR 0x0A, CHR 0x0D}) (dropWhile (\<lambda>c. (of_char c :: nat) \<le> 32) s)"

definition urlsplit :: "(string \<Rightarrow> bool) \<Rightarrow> string \<Rightarrow> url res" where
  "urlsplit host_ok v = (let s = clean_url v;
       scheme = (if has_scheme s then py_lower (before (CHR '':'') s) else []);
       t = (if has_scheme s then after (CHR '':'') s else s);
       nl = starts_with ''//'' t;
       netloc = (if nl then takeWhile (\<lambda>c. \<not> netloc_end c) (drop 2 t) else []);
       r = (if nl then dropWhile (\<lambda>c. \<not> netloc_end c) (drop 2 t) else t);
       r' = before (CHR ''#'') r in
     if (CHR ''['' \<in> set netloc) \<noteq> (CHR '']'' \<in> set netloc) \<or> \<not> host_ok netloc then raise ValueError []
     else Inr \<lparr>url_scheme = scheme, url_netloc = netloc, url_path = before (CHR ''?'') r', url_query = after (CHR ''?'') r',
       url_fragment = after (CHR ''#'') r\<rparr>)"

definition alnum :: "char \<Rightarrow> bool" where
  "alnum c = (ascii_alpha c \<or> is_digit c)"

definition owner_match :: "string \<Rightarrow> bool" where
  "owner_match s = (case s of [] \<Rightarrow> False | c # cs \<Rightarrow> alnum c \<and> length cs \<le> 38 \<and> list_all (\<lambda>x. alnum x \<or> x = CHR ''-'') cs)"

definition repo_match :: "string \<Rightarrow> bool" where
  "repo_match s = (1 \<le> length s \<and> length s \<le> 100 \<and> list_all word_char s)"

definition github_coordinates :: "(string \<Rightarrow> bool) \<Rightarrow> string \<Rightarrow> (string \<times> string) res" where
  "github_coordinates host_ok v = replace_exc (\<lambda>c. is_value_error c \<or> c = AttributeError) ObservedMergeError ''GitHub repository URL is invalid''
     (and_then (urlsplit host_ok v) (\<lambda>u.
       if url_scheme u \<noteq> ''https'' \<or> url_hostname u \<noteq> ''github.com'' \<or> CHR ''@'' \<in> set (url_netloc u) then merge_error ''Observed remote is not exact HTTPS GitHub''
       else and_then (url_port u) (\<lambda>port.
         if port \<noteq> None \<or> url_query u \<noteq> [] \<or> url_fragment u \<noteq> [] \<or> CHR ''%'' \<in> set (url_path u) \<or> CHR 0x5C \<in> set (url_path u)
         then merge_error ''Observed remote is not exact HTTPS GitHub''
         else (let p = url_path u; clean = (if ends_with dot_git p then take (length p - 4) p else p) in
           case split_on (CHR ''/'') (strip_slash clean) of
             [a, b] \<Rightarrow> if owner_match a \<and> repo_match b \<and> b \<notin> {''.'', ''..''} then Inr (a, b) else merge_error ''GitHub repository coordinates are invalid''
           | _ \<Rightarrow> merge_error ''GitHub repository coordinates are invalid''))))"

text \<open>\<open>str.casefold\<close> below 256, where the micro sign has no image and is compared as itself\<close>

definition casefold :: "string \<Rightarrow> string" where
  "casefold s = concat (map (\<lambda>c. if (of_char c :: nat) = 223 then ''ss'' else [lower_char c]) s)"

subsection \<open>The record\<close>

definition observed_keys :: "string list" where
  "observed_keys = [''schema_version'', ''evidence_id'', ''project_id'', ''repository_identity'', ''branch'', ''previous_sha'', ''target_sha'',
     ''github'', ''owner_payload'', ''owner_envelope'', ''observed_at'', ''provenance'', ''evidence_hash'']"

definition github_fields :: "string list" where
  "github_fields = [''state'', ''merge_commit'', ''base_branch'', ''pr_number'', ''merged_at'', ''merged_by'']"

definition registered_id :: "string \<Rightarrow> bool" where
  "registered_id s = (starts_with ''project-'' s \<and> length s = 24 \<and> list_all is_hex (drop 8 s))"

definition pr_id :: "int \<Rightarrow> string \<Rightarrow> string" where
  "pr_id n target = ''observed-pr-'' @ show_int n @ ''-'' @ take 12 target"

definition github_facts :: "string \<Rightarrow> json \<Rightarrow> bool" where
  "github_facts owner v = (let g = member v ''github'' in has_keys github_fields g \<and> member g ''state'' = JStr ''MERGED'' \<and>
     json_eq (member g ''base_branch'') (member v ''branch'') \<and> member g ''merge_commit'' = member v ''target_sha'' \<and>
     (case the_int (member g ''pr_number'') of None \<Rightarrow> False
      | Some n \<Rightarrow> 1 \<le> n \<and> member v ''evidence_id'' = JStr (pr_id n (str_or_empty (member v ''target_sha'')))) \<and>
     str_or_empty (member g ''merged_at'') \<noteq> [] \<and> str_or_empty (member g ''merged_by'') \<noteq> [] \<and>
     casefold (str_or_empty (member g ''merged_by'')) = casefold owner)"

definition expected_payload :: "json \<Rightarrow> json" where
  "expected_payload v = JObj ([(''schema_version'', JStr ''1.0''), (''decision'', JStr ''ACKNOWLEDGE_ALREADY_MERGED'')] @
     map (\<lambda>k. (k, member v k)) [''evidence_id'', ''project_id'', ''repository_identity'', ''branch'', ''previous_sha'', ''target_sha'', ''github'', ''observed_at''])"

definition observed_validate :: "crypto \<Rightarrow> (string \<Rightarrow> bool) \<Rightarrow> json \<Rightarrow> unit res" where
  "observed_validate cr host_ok v = steps [
     om_check (member v ''schema_version'' \<noteq> JStr ''1.0'' \<or> member v ''provenance'' \<noteq> JStr ''OWNER_POSTHOC_GITHUB_MERGE'') ''observed merge provenance is invalid'',
     all_tests [matches registered_id (member v ''project_id''), prefixed ''observed-pr-'' (member v ''evidence_id'')] ObservedMergeError
       ''observed merge identity is invalid'',
     all_tests [matches sha_40 (member v ''previous_sha''), matches sha_40 (member v ''target_sha'')] ObservedMergeError ''observed merge SHA is invalid'',
     om_check (member v ''previous_sha'' = member v ''target_sha'') ''observed merge has no target advance'',
     om_check (member v ''branch'' \<noteq> JStr ''main'' \<or> the_str (member v ''repository_identity'') = None) ''observed merge branch or repository is invalid'',
     and_then (github_coordinates host_ok (str_or_empty (member v ''repository_identity''))) (\<lambda>c.
       om_check (\<not> github_facts (fst c) v) ''observed merge GitHub facts are invalid''),
     om_check (\<not> json_eq (member v ''owner_payload'') (expected_payload v)) ''owner observed merge payload differs'',
     replace_exc (\<lambda>c. is_value_error c \<or> c = TypeError) ObservedMergeError ''observed merge Owner signature is invalid''
       (verify_envelope cr (member v ''owner_payload'') (member v ''owner_envelope'')),
     om_check (hash_of (cr_hash cr) (without_field ''evidence_hash'' v) \<noteq> member v ''evidence_hash'') ''observed merge evidence checksum differs'']"

subsection \<open>The store\<close>

text \<open>\<open>observed-pr-[0-9]+-[0-9a-f]{12}\<close>\<close>

definition observed_id_match :: "string \<Rightarrow> bool" where
  "observed_id_match s = (starts_with ''observed-pr-'' s \<and> (let t = drop 12 s; n = length t in
     14 \<le> n \<and> list_all is_digit (take (n - 13) t) \<and> t ! (n - 13) = CHR ''-'' \<and> list_all is_hex (drop (n - 12) t)))"

definition observed_key :: "json \<Rightarrow> string \<times> string" where
  "observed_key v = namespace_key ''evidence_id'' v"

definition read_observed :: "crypto \<Rightarrow> (string \<Rightarrow> bool) \<Rightarrow> file_content \<Rightarrow> json option res" where
  "read_observed cr host_ok c = (case c of
     No_File \<Rightarrow> Inr None
   | Not_Json \<Rightarrow> merge_error ''observed merge record is invalid''
   | Json v \<Rightarrow> replace_exc (\<lambda>k. is_value_error k \<or> k = TypeError \<or> k = KeyError) ObservedMergeError ''observed merge record is invalid''
       (and_then (build observed_keys v) (\<lambda>i. and_then (observed_validate cr host_ok i) (\<lambda>_. Inr (Some i)))))"

definition observed_get :: "crypto \<Rightarrow> (string \<Rightarrow> bool) \<Rightarrow> string \<times> string \<Rightarrow> evidence_dir \<Rightarrow> json option res" where
  "observed_get cr host_ok k f = and_then (om_check (\<not> registered_id (fst k) \<or> \<not> observed_id_match (snd k)) ''observed merge lookup identity is invalid'')
     (\<lambda>_. read_observed cr host_ok (file_at f (json_file k)))"

definition observed_put :: "crypto \<Rightarrow> (string \<Rightarrow> bool) \<Rightarrow> json \<Rightarrow> evidence_dir \<Rightarrow> json res \<times> evidence_dir" where
  "observed_put cr host_ok v f = (case and_then (build observed_keys v) (\<lambda>_. observed_validate cr host_ok v) of
     Inl e \<Rightarrow> (Inl e, f)
   | Inr _ \<Rightarrow> if file_at f (json_file (observed_key v)) = No_File
       then (Inr (member v ''evidence_hash''), put_file (json_file (observed_key v)) (Json v) f)
       else (case observed_get cr host_ok (observed_key v) f of
         Inl e \<Rightarrow> (Inl e, f)
       | Inr (Some old) \<Rightarrow> if \<not> json_eq old v then (merge_error ''conflicting observed merge replay'', f) else (Inr (member v ''evidence_hash''), f)
       | Inr None \<Rightarrow> (merge_error ''conflicting observed merge replay'', f)))"

definition observed_names :: "string \<Rightarrow> evidence_dir \<Rightarrow> string list" where
  "observed_names p f = sort (remdups (filter (ends_with ''.json'') (map snd (filter (\<lambda>k. fst k = p) (map fst f)))))"

definition observed_all :: "crypto \<Rightarrow> (string \<Rightarrow> bool) \<Rightarrow> string \<Rightarrow> evidence_dir \<Rightarrow> json list res" where
  "observed_all cr host_ok p f = and_then (om_check (\<not> registered_id p) ''observed merge project is invalid'') (\<lambda>_.
     and_then (map_res (\<lambda>n. observed_get cr host_ok (p, take (length n - 5) n) f) (observed_names p f)) (\<lambda>rs.
     Inr (concat (map (\<lambda>r. case r of None \<Rightarrow> [] | Some i \<Rightarrow> [i]) rs))))"

subsection \<open>The chain\<close>

text \<open>The registered project, and the answers of git: the parents of a commit, the head, and the first parents from a commit on.
  A failure of git is reported as unavailable lineage.\<close>

record project_git =
  pg_project_id :: string
  pg_default_branch :: string
  pg_origin_url :: string
  pg_parents :: "string \<Rightarrow> string list res"
  pg_head :: "string res"
  pg_first_parents :: "string \<Rightarrow> string list res"

definition verify_project :: "crypto \<Rightarrow> (string \<Rightarrow> bool) \<Rightarrow> (string \<Rightarrow> remote_info res) \<Rightarrow> project_git \<Rightarrow> json \<Rightarrow> unit res" where
  "verify_project cr host_ok pru pj v = and_then (observed_validate cr host_ok v) (\<lambda>_.
     if member v ''project_id'' \<noteq> JStr (pg_project_id pj) \<or> member v ''branch'' \<noteq> JStr (pg_default_branch pj) then merge_error ''observed merge project binding differs''
     else and_then (remote_identity_of pru (member v ''repository_identity'')) (\<lambda>a. and_then (registry_canonical pru (pg_origin_url pj)) (\<lambda>b.
       and_then (om_check (a \<noteq> b) ''observed merge project binding differs'') (\<lambda>_.
       replace_exc (\<lambda>c. c = OSError \<or> c = CalledProcessError) ObservedMergeError ''observed merge local Git lineage is unavailable''
         (and_then (pg_parents pj (str_or_empty (member v ''target_sha''))) (\<lambda>ps.
          and_then (om_check (case ps of [] \<Rightarrow> True | q # _ \<Rightarrow> JStr q \<noteq> member v ''previous_sha'') ''observed merge does not follow first parent'') (\<lambda>_.
          and_then (pg_head pj) (\<lambda>head. and_then (pg_first_parents pj head) (\<lambda>line.
          om_check (member v ''target_sha'' \<notin> JStr ` set line) ''observed merge is not canonical main history'')))))))))"

text \<open>The records by the commit that they start from, and the loop\<close>

definition options_at :: "json list \<Rightarrow> string \<Rightarrow> string list" where
  "options_at is c = map (\<lambda>i. str_or_empty (member i ''target_sha'')) (filter (\<lambda>i. member i ''previous_sha'' = JStr c) is)"

partial_function (option) follow_chain :: "(string \<Rightarrow> string list) \<Rightarrow> string \<Rightarrow> string list \<Rightarrow> string \<Rightarrow> bool res option" where
  "follow_chain options target visited cursor =
     (if cursor = target then Some (Inr True)
      else (case options cursor of
        [t] \<Rightarrow> if t \<in> set visited then Some (merge_error ''observed merge cycle'') else follow_chain options target (t # visited) t
      | _ \<Rightarrow> Some (Inr False)))"

definition verify_chain ::
    "crypto \<Rightarrow> (string \<Rightarrow> bool) \<Rightarrow> (string \<Rightarrow> remote_info res) \<Rightarrow> project_git \<Rightarrow> evidence_dir \<Rightarrow> string \<Rightarrow> string \<Rightarrow> bool res option" where
  "verify_chain cr host_ok pru pj f old target =
     (case and_then (om_check (\<not> sha_40 old \<or> \<not> sha_40 target) ''target hashes are invalid'') (\<lambda>_. and_then (observed_all cr host_ok (pg_project_id pj) f) (\<lambda>is.
        and_then (for_each (verify_project cr host_ok pru pj) is) (\<lambda>_. Inr is))) of
      Inl e \<Rightarrow> Some (Inl e)
    | Inr is \<Rightarrow> follow_chain (options_at is) target [] old)"

end
