(* ===== verification/ObservedMergeSafety.thy ===== *)
theory ObservedMergeSafety
  imports ObservedMerge ExternalSafety
begin

section \<open>What the store of observed merges keeps, and its chains\<close>

text \<open>
  A validated record has the name under which it is looked up, so the store keeps the contract of an evidence
  store. The loop of \<open>verify_observed_merge_chain\<close> ends on every set of records, and what it returns is described
  by the relation between a commit and the only recorded merge on top of it.
\<close>

subsection \<open>The store\<close>

lemma pr_id_matches:
  assumes "sha_40 target" "1 \<le> n"
  shows "observed_id_match (pr_id n target)"
proof -
  have n: "show_int n = show_nat (nat n)" using assms(2) by (simp add: show_int_def)
  have t: "length (take 12 target) = 12" "list_all is_hex (take 12 target)"
    using assms(1) by (auto simp: sha_40_def list_all_iff dest: in_set_takeD)
  obtain c cs where c: "show_nat (nat n) = c # cs" using show_nat_Cons by blast
  show ?thesis using t show_nat_digits [of "nat n"] c
    by (simp add: observed_id_match_def pr_id_def n starts_with_def Let_def nth_append)
qed

lemma github_names: "github_facts owner v \<Longrightarrow> \<exists>n. 1 \<le> n \<and> member v ''evidence_id'' = JStr (pr_id n (str_or_empty (member v ''target_sha'')))"
  by (auto simp: github_facts_def Let_def split: option.splits)

lemma observed_name:
  assumes "observed_validate cr host_ok v = Inr ()"
  shows "registered_id (fst (observed_key v)) \<and> observed_id_match (snd (observed_key v))"
proof -
  obtain p t owner where v: "member v ''project_id'' = JStr p" "registered_id p" "member v ''target_sha'' = JStr t" "sha_40 t" "github_facts owner v"
    using assms unfolding observed_validate_def steps_ok by (auto simp: and_then_ok)
  from github_names [OF v(5)] v(3) obtain n where "1 \<le> n" "member v ''evidence_id'' = JStr (pr_id n t)" by (auto simp: str_or_empty_def)
  then show ?thesis using v pr_id_matches by (simp add: observed_key_def namespace_key_def str_or_empty_def)
qed

lemma observed_get_cong: "file_at f (json_file k) = file_at g (json_file k) \<Longrightarrow> observed_get cr host_ok k f = observed_get cr host_ok k g"
  by (simp add: observed_get_def)

lemma observed_put_cases:
  obtains (error) e where "observed_put cr host_ok v f = (Inl e, f)"
  | (again) old where "observed_put cr host_ok v f = (Inr (member v ''evidence_hash''), f)" "observed_get cr host_ok (observed_key v) f = Inr (Some old)" "json_eq old v"
  | (fresh) "observed_put cr host_ok v f = (Inr (member v ''evidence_hash''), put_file (json_file (observed_key v)) (Json v) f)"
      "file_at f (json_file (observed_key v)) = No_File" "observed_validate cr host_ok v = Inr ()" "build observed_keys v = Inr v"
proof (cases "and_then (build observed_keys v) (\<lambda>_. observed_validate cr host_ok v)")
  case (Inl e)
  then show ?thesis by (intro error) (simp add: observed_put_def)
next
  case (Inr u)
  then have ok: "build observed_keys v = Inr v" "observed_validate cr host_ok v = Inr ()" by (auto simp: and_then_ok)
  show ?thesis
  proof (cases "file_at f (json_file (observed_key v)) = No_File")
    case True
    show ?thesis by (rule fresh [OF _ True ok(2,1)]) (simp add: observed_put_def Inr True)
  next
    case False
    show ?thesis
    proof (cases "\<exists>old. observed_get cr host_ok (observed_key v) f = Inr (Some old) \<and> json_eq old v")
      case True
      then show ?thesis using False Inr by (auto intro!: again simp: observed_put_def)
    next
      case none: False
      then have "\<exists>e. observed_put cr host_ok v f = (Inl e, f)"
        using False Inr by (auto simp: observed_put_def raise_def split: sum.splits option.splits)
      then show ?thesis using error by blast
    qed
  qed
qed

lemma observed_put_found:
  assumes "observed_put cr host_ok v f = (Inr x, g)"
  shows "\<exists>j. observed_get cr host_ok (observed_key v) g = Inr (Some j) \<and> json_eq j v"
proof (cases rule: observed_put_cases [of cr host_ok v f])
  case fresh
  then have "g = put_file (json_file (observed_key v)) (Json v) f" using assms by simp
  then have "observed_get cr host_ok (observed_key v) g = Inr (Some v)"
    using fresh(3,4) observed_name [OF fresh(3)] by (simp add: observed_get_def read_observed_def replace_exc_def build_def raise_if_def)
  then show ?thesis by simp
qed (use assms in auto)

lemma observed_put_keeps:
  assumes "observed_get cr host_ok k f = Inr (Some j)"
  shows "observed_get cr host_ok k (snd (observed_put cr host_ok v f)) = Inr (Some j)"
proof (cases rule: observed_put_cases [of cr host_ok v f])
  case fresh
  have "file_at f (json_file k) \<noteq> No_File"
    using assms by (auto simp: observed_get_def read_observed_def and_then_ok)
  with fresh(2) have "k \<noteq> observed_key v" by auto
  then have "observed_get cr host_ok k (snd (observed_put cr host_ok v f)) = observed_get cr host_ok k f" using fresh(1) by (intro observed_get_cong) simp
  then show ?thesis using assms by simp
qed (use assms in auto)

interpretation merges: evidence_store "observed_put cr host_ok" "observed_get cr host_ok" observed_key json_eq for cr host_ok
  by unfold_locales (rule json_eq_equivp, rule observed_put_found, assumption, rule observed_put_keeps)

subsection \<open>The loop\<close>

definition sole_successor :: "('a \<Rightarrow> 'a list) \<Rightarrow> 'a \<Rightarrow> 'a \<Rightarrow> bool" where
  "sole_successor options a b = (options a = [b])"

text \<open>What has been visited is followed by something visited, up to the cursor\<close>

definition visited_ok :: "(string \<Rightarrow> string list) \<Rightarrow> string \<Rightarrow> string list \<Rightarrow> string \<Rightarrow> bool" where
  "visited_ok options target visited cursor =
     (\<forall>v\<in>set visited - {cursor}. v \<noteq> target \<and> (\<exists>w\<in>set visited. sole_successor options v w))"

lemma visited_start: "visited_ok options target [] old"
  by (simp add: visited_ok_def)

lemma visited_step: "visited_ok options target visited cursor \<Longrightarrow> cursor \<noteq> target \<Longrightarrow> sole_successor options cursor t \<Longrightarrow>
    visited_ok options target (t # visited) t"
  by (auto simp: visited_ok_def)

text \<open>A visited target of the cursor closes a cycle without the target of the chain.\<close>

lemma visited_cycle:
  assumes "visited_ok options target visited cursor" "cursor \<noteq> target" "sole_successor options cursor t" "t \<in> set visited"
    and "(sole_successor options)\<^sup>*\<^sup>* cursor c"
  shows "c \<noteq> target \<and> (\<exists>b. sole_successor options c b)"
proof -
  have "c \<in> insert cursor (set visited)"
    using assms(5)
  proof induction
    case (step a b)
    then have "\<exists>w\<in>set visited. sole_successor options a w"
      using assms(1,3,4) by (cases "a = cursor") (auto simp: visited_ok_def)
    then show ?case using step.hyps(2) by (auto simp: sole_successor_def)
  qed simp
  then show ?thesis using assms(1-3) by (cases "c = cursor") (auto simp: visited_ok_def)
qed

lemma sole_reaches:
  assumes "sole_successor options cursor t" "cursor \<noteq> c"
  shows "(sole_successor options)\<^sup>*\<^sup>* cursor c \<longleftrightarrow> (sole_successor options)\<^sup>*\<^sup>* t c"
proof
  assume "(sole_successor options)\<^sup>*\<^sup>* cursor c"
  then obtain u where u: "sole_successor options cursor u" "(sole_successor options)\<^sup>*\<^sup>* u c"
    using assms(2) by (cases rule: converse_rtranclpE) auto
  moreover have "u = t" using u(1) assms(1) by (simp add: sole_successor_def)
  ultimately show "(sole_successor options)\<^sup>*\<^sup>* t c" by simp
qed (rule converse_rtranclp_into_rtranclp [of "sole_successor options", OF assms(1)])

definition chain_cycles :: "(string \<Rightarrow> string list) \<Rightarrow> string \<Rightarrow> string \<Rightarrow> bool" where
  "chain_cycles options target old = (\<forall>c. (sole_successor options)\<^sup>*\<^sup>* old c \<longrightarrow> c \<noteq> target \<and> (\<exists>b. sole_successor options c b))"

definition chain_verdict :: "(string \<Rightarrow> string list) \<Rightarrow> string \<Rightarrow> string \<Rightarrow> bool res" where
  "chain_verdict options target old = (if (sole_successor options)\<^sup>*\<^sup>* old target then Inr True
     else if chain_cycles options target old then merge_error ''observed merge cycle'' else Inr False)"

lemma cycles_step:
  assumes "sole_successor options cursor t" "cursor \<noteq> target"
  shows "chain_cycles options target cursor = chain_cycles options target t"
proof -
  have "(sole_successor options)\<^sup>*\<^sup>* cursor c \<longleftrightarrow> c = cursor \<or> (sole_successor options)\<^sup>*\<^sup>* t c" for c
    using sole_reaches [OF assms(1), of c] by (cases "cursor = c") simp_all
  moreover have "\<exists>b. sole_successor options cursor b" using assms(1) ..
  ultimately show ?thesis using assms(2) by (simp add: chain_cycles_def imp_disjL all_conj_distrib)
qed

lemma verdict_step: "sole_successor options cursor t \<Longrightarrow> cursor \<noteq> target \<Longrightarrow>
    chain_verdict options target cursor = chain_verdict options target t"
  by (simp add: chain_verdict_def sole_reaches cycles_step)

lemma follow_chain_verdict:
  assumes "finite S" "\<And>c. set (options c) \<subseteq> S" "visited_ok options target visited cursor"
  shows "follow_chain options target visited cursor = Some (chain_verdict options target cursor)"
  using assms(3)
proof (induction "card (S - set visited)" arbitrary: visited cursor rule: less_induct)
  case less
  consider (reached) "cursor = target" | (stuck) "cursor \<noteq> target" "\<nexists>t. sole_successor options cursor t"
    | (next_one) t where "cursor \<noteq> target" "sole_successor options cursor t" by auto
  then show ?case
  proof cases
    case reached
    then show ?thesis by (simp add: follow_chain.simps chain_verdict_def)
  next
    case stuck
    then have "follow_chain options target visited cursor = Some (Inr False)"
      by (subst follow_chain.simps) (auto simp: sole_successor_def split: list.splits)
    moreover have "\<not> (sole_successor options)\<^sup>*\<^sup>* cursor target" using stuck by (auto elim: converse_rtranclpE)
    moreover have "\<not> chain_cycles options target cursor" using stuck by (auto simp: chain_cycles_def)
    ultimately show ?thesis by (simp add: chain_verdict_def)
  next
    case next_one
    show ?thesis
    proof (cases "t \<in> set visited")
      case True
      note cycle = visited_cycle [OF less.prems next_one True]
      then have "chain_verdict options target cursor = merge_error ''observed merge cycle''"
        unfolding chain_verdict_def chain_cycles_def by metis
      then show ?thesis using next_one True by (subst follow_chain.simps) (simp add: sole_successor_def)
    next
      case False
      have "t \<in> S" using assms(2) [of cursor] next_one(2) by (simp add: sole_successor_def)
      then have "card (S - set (t # visited)) < card (S - set visited)"
        using False assms(1) by (intro psubset_card_mono) auto
      then have "follow_chain options target (t # visited) t = Some (chain_verdict options target t)"
        using visited_step [OF less.prems next_one] by (rule less.hyps)
      then show ?thesis using next_one False verdict_step [OF next_one(2,1)]
        by (subst follow_chain.simps) (simp add: sole_successor_def)
    qed
  qed
qed

lemma options_finite: "set (options_at is c) \<subseteq> set (map (\<lambda>i. str_or_empty (member i ''target_sha'')) is)"
  by (auto simp: options_at_def)

subsection \<open>The chain\<close>


end
