(* ===== verification/Spec2Isabelle.thy ===== *)
theory Spec2Isabelle
  imports PathScope RoadmapPath RoadmapCodec SchedulerStore SchedulerSelect SchedulerLoop SchedulerJournal MergePolicy RemoteIdentity Plan CapabilitySelection CapabilityInvalidation CampaignRetry LineageSafety AuthoritySample DeliverySafety ControllerSample ReconciliationSample ExternalSample ObservedMergeSafety
begin

text \<open>
  A model of the decision core of AGF-Orchestrator: the Python packages under src/src/agf_orchestrator and
  the owner's tools under src/tools.

  \<^bold>\<open>The program.\<close> An owner plans work as a roadmap; a scheduler, a campaign runner and sessions carry it out
  step by step; risk engine and merge policy decide whether a change may be merged without a human; the
  delivery boundary lets a merge through only under the current authority; the owner, with a key that the
  runtime only verifies with, prepares policies, activates and rolls them back and may stop everything.
  State is kept in JSON files, each read and replaced as a whole, and in one SQLite database.

  \<^bold>\<open>The theories,\<close> in the order of their imports:

  \<^item> Prelude (exceptions as values of a sum, the Python strings and JSON values), CanonicalJson (json.dumps
    of hashed records), JsonText (json.loads), Timestamps, StoreCell (a file with one value; locale
    json_codec), Lifecycle (tables of permitted status changes; locale lifecycle), DependencyDag (the
    recursive search for cycles), SealedState (exported state), Evidence (directories of records that are
    written once; locales evidence_store and evidence_history).
  \<^item> Planning: PathScope (path_scope.py), Roadmap, RoadmapPath and RoadmapCodec (roadmap_models.py), Plan
    (models.py).
  \<^item> Scheduling: SchedulerModel, SchedulerStore (scheduler_models.py, scheduler_store.py,
    scheduler_commands.py), SchedulerSelect (scheduler_selection.py, scheduler_recovery.py), SchedulerLoop
    (scheduler_safety.py, scheduler_loop.py), SchedulerJournal (scheduler_journal.py).
  \<^item> Campaigns: Campaign, CampaignRunner (campaign_runner.py), CampaignSafety, CampaignRetry.
  \<^item> Sessions and projects: Session (session_models.py, session_store.py), SessionManager and SessionRecovery
    (session_manager.py), SessionLineage (resilience.py), Project (project_models.py, project_registry.py),
    with SessionSafety, LineageSafety and ProjectSafety.
  \<^item> Capabilities: CapabilityProfile, CapabilitySelection, CapabilityInvalidation (the modules of these names).
  \<^item> Decisions: Risk (risk_models.py, risk_engine.py), Merge (merge_models.py), MergePolicy (merge_policy.py),
    RemoteIdentity (remote_identity.py).
  \<^item> Authority: Authority and AuthorityStore (authority_generation.py, owner_authority.py), PolicyState
    (policy_state_store.py), PolicyAuthority (policy_authority.py), PolicyController
    (tools/owner_policy_controller.py), with AuthoritySafety, PolicySafety, ControllerSafety, ControllerAccept.
  \<^item> Delivery: GitDelivery (git_delivery.py) with DeliverySafety, Reconciliation (delivery_reconciliation.py)
    with ReconciliationSafety, ExternalEvidence (external_advancement.py) with ExternalSafety, ObservedMerge
    (observed_merge.py) with ObservedMergeSafety.
  \<^item> The theories named Sample hold runs on concrete data, on which the properties are applied.

  \<^bold>\<open>Correspondence.\<close> A dataclass is a record (its fields with a prefix of two letters), an enum a datatype with a
  function to its value, a method a definition with the name of the method, or with that of its class in
  front where the name is taken. A method that changes a store takes the store and returns an outcome and
  the new store; an exception is \<open>Inl\<close> of its class and message, and every raise and early return of the
  code is a branch. \<open>and_then\<close>, \<open>steps\<close> and \<open>for_each\<close> stop at the first exception; \<open>rethrow\<close> and
  \<open>replace_exc\<close> are \<open>except\<close> clauses. Dictionaries are association lists where their order is seen. Records
  of which the code validates the members only after it has built them stay JSON objects.

  \<^bold>\<open>What the lemmas show.\<close> Each component has the lemmas on its own operations: validators accept exactly the
  values of a declarative description; JSON forms are read back; every operation keeps the invariant of its
  store. The Safety theories lift this to histories, in which operations of several processes follow each
  other in any order: nothing recorded is lost, a lease is exclusive, a terminal state stays, an authority
  never goes back, a delivery is committed at most once and only under the authority it was reserved under,
  a receipt is written once and for exactly what was intended. Components are composed where one relies on
  another: what the policy engine authorises the delivery boundary accepts; what the session manager writes
  the lineage check passes; what the controller activates the runtime accepts. Where the code does not do
  what it means to, a theorem states what it does instead, for every input (kind \<open>error\<close>).

  \<^bold>\<open>Interfaces.\<close> lifecycle is interpreted by the tables of roadmap items, schedulers, sessions and the journal of
  the policy state; json_codec by the records of roadmap schedulers, journals, campaigns, sessions, projects,
  risks and merge decisions; evidence_store by the delivery intents, the
  authorized advances, the accepted results and the observed merges, evidence_history by the intents and the accepted results.

  \<^bold>\<open>Bounds and fuel.\<close> The critical path takes two Python frames for each level of dependencies: twice the
  number of items suffice, because the relation is acyclic, and a chain that is entered at its end needs
  all of them; the JSON reader takes the length of its text, of which every step consumes a
  character; run_bounded has the bound of its caller; run_forever is a partial function, and it is proved that
  it returns within the retry budget; so is the loop over a chain of observed merges, which is proved to return
  on every set of records; a commit of an authority generation has five steps and may be cut off
  after any of them; the following of predecessors in the session manager stops where the code stops.

  \<^bold>\<open>Parameters.\<close> SHA-256 and the keyed hashes, signature tests, the reading of times by datetime, the clock, tokens,
  the answers of git, the outcome of reading key files and of verifying the constitution, the step of a loop
  and the probe and work of a campaign are arguments, with what a theorem needs of them as hypotheses.

  \<^bold>\<open>Limits.\<close> A character is one of the first 256 of Unicode; the few functions that depend on more (casefolding,
  normalisation) are written out for these. Numbers in JSON are equal when they are written alike. Values of
  a wrong type are followed where the code tests for them, and rejected as a whole where a dataclass would
  only fail later. Files, locks and transactions are atomic where the code holds a lock; the interleaving of
  what it does without one is explicit.

  \<^bold>\<open>Not modelled\<close> are the parts that consist of I/O: adapters of agents and model servers, probes of providers,
  the daemon, the executor with its worktrees, the documentation and audit readers, command lines and
  installation; the composition of prompts, reports and reviews; objectives, learning and memory records,
  which no modelled decision reads; symbolic links, permissions, temporary files and failures of the disk.
\<close>

end
